(* ===== verification/Go_Prelude.thy ===== *)
theory Go_Prelude
  imports Main "HOL-Library.Sublist" "HOL-Library.Char_ord" "HOL-Library.List_Lexorder"
begin

text \<open>
  What every component shares: Go strings and the functions of package \<open>strings\<close> the SDK
  calls, fallible and panicking operations, and the generic list and map lemmas.

  A Go \<open>string\<close> is a sequence of bytes, so it is an Isabelle \<open>string\<close>, a list of
  one-byte characters; \<open>length\<close> is Go's \<open>len\<close>. White space is trimmed as Go does, on the
  UTF-8 encodings of the code points of \<open>unicode.IsSpace\<close>. Case is folded for the ASCII
  letters only; other bytes are left as they are. Go's \<open>int\<close> is \<open>int\<close> where the code only
  stores and compares it, and a word where it computes with it.
\<close>

named_theorems go_defs \<open>definitions of Go string functions, to evaluate concrete calls\<close>
named_theorems frame_simps \<open>what an operation leaves unchanged\<close>

type_synonym go_error = string
type_synonym 'a res = "go_error + 'a"

section \<open>Package strings\<close>

definition space_runes :: "string list" where
  "space_runes =
     [[CHR 0x20], [CHR 0x09], [CHR 0x0A], [CHR 0x0B], [CHR 0x0C], [CHR 0x0D],
      [CHR 0xC2, CHR 0x85], [CHR 0xC2, CHR 0xA0], [CHR 0xE1, CHR 0x9A, CHR 0x80],
      [CHR 0xE2, CHR 0x80, CHR 0x80], [CHR 0xE2, CHR 0x80, CHR 0x81],
      [CHR 0xE2, CHR 0x80, CHR 0x82], [CHR 0xE2, CHR 0x80, CHR 0x83],
      [CHR 0xE2, CHR 0x80, CHR 0x84], [CHR 0xE2, CHR 0x80, CHR 0x85],
      [CHR 0xE2, CHR 0x80, CHR 0x86], [CHR 0xE2, CHR 0x80, CHR 0x87],
      [CHR 0xE2, CHR 0x80, CHR 0x88], [CHR 0xE2, CHR 0x80, CHR 0x89],
      [CHR 0xE2, CHR 0x80, CHR 0x8A], [CHR 0xE2, CHR 0x80, CHR 0xA8],
      [CHR 0xE2, CHR 0x80, CHR 0xA9], [CHR 0xE2, CHR 0x80, CHR 0xAF],
      [CHR 0xE2, CHR 0x81, CHR 0x9F], [CHR 0xE3, CHR 0x80, CHR 0x80]]"

fun strip_one :: "string list \<Rightarrow> string \<Rightarrow> string option" where
  "strip_one [] s = None"
| "strip_one (r # rs) s =
     (if r \<noteq> [] \<and> take (length r) s = r then Some (drop (length r) s) else strip_one rs s)"

lemma strip_one_shorter: "strip_one rs s = Some t \<Longrightarrow> length t < length s"
proof (induction rs)
  case (Cons r rs)
  then show ?case by (cases "r \<noteq> [] \<and> take (length r) s = r"; cases s) auto
qed simp

function trim_by :: "string list \<Rightarrow> string \<Rightarrow> string" where
  "trim_by rs s = (case strip_one rs s of None \<Rightarrow> s | Some t \<Rightarrow> trim_by rs t)"
  by pat_completeness auto
termination
  by (relation "measure (\<lambda>(rs, s). length s)") (auto dest: strip_one_shorter)

declare trim_by.simps [simp del]

text \<open>\<open>strings.TrimSpace\<close>.\<close>

definition trim_space :: "string \<Rightarrow> string" where
  "trim_space s = rev (trim_by (map rev space_runes) (rev (trim_by space_runes s)))"

definition blank :: "string \<Rightarrow> bool" where
  "blank s \<longleftrightarrow> trim_space s = []"

lemma strip_one_suffix: "strip_one rs s = Some t \<Longrightarrow> suffix t s"
  by (induction rs) (auto split: if_splits simp: suffix_drop)

lemma trim_by_suffix: "suffix (trim_by rs s) s"
proof (induction rs s rule: trim_by.induct)
  case (1 rs s)
  show ?case
  proof (cases "strip_one rs s")
    case None
    then show ?thesis by (simp add: trim_by.simps)
  next
    case (Some t)
    then have "suffix (trim_by rs t) t" using 1 by blast
    moreover have "suffix t s" using Some by (rule strip_one_suffix)
    ultimately show ?thesis using Some
      by (auto simp: trim_by.simps[of rs s] intro: suffix_order.trans)
  qed
qed

lemma strip_trim_by: "strip_one rs (trim_by rs s) = None"
proof (induction rs s rule: trim_by.induct)
  case (1 rs s)
  then show ?case
    by (cases "strip_one rs s") (simp_all add: trim_by.simps[of rs s])
qed

lemma trim_by_fixed: "strip_one rs s = None \<Longrightarrow> trim_by rs s = s"
  by (simp add: trim_by.simps)

lemma strip_one_None_prefix:
  "strip_one rs s = None \<Longrightarrow> prefix t s \<Longrightarrow> strip_one rs t = None"
proof (induction rs)
  case (Cons r rs)
  from Cons.prems(2) obtain u where "s = t @ u" by (auto simp: prefix_def)
  show ?case
  proof (cases "r \<noteq> [] \<and> take (length r) t = r")
    case True
    then have "length r \<le> length t" by (metis length_take min.cobounded1)
    with True \<open>s = t @ u\<close> have "take (length r) s = r" by simp
    with True Cons.prems(1) show ?thesis by simp
  next
    case False
    with Cons show ?thesis by (auto split: if_splits)
  qed
qed simp

lemma trim_by_prefix_fixed:
  "strip_one rs s = None \<Longrightarrow> prefix t s \<Longrightarrow> trim_by rs t = t"
  by (simp add: trim_by_fixed strip_one_None_prefix)

lemma trim_space_idem [simp]: "trim_space (trim_space s) = trim_space s"
proof -
  let ?l = "trim_by space_runes s"
  let ?r = "trim_by (map rev space_runes) (rev ?l)"
  have "prefix (rev ?r) ?l"
    using trim_by_suffix[of "map rev space_runes" "rev ?l"] by (simp add: suffix_to_prefix)
  then have "trim_by space_runes (rev ?r) = rev ?r"
    by (rule trim_by_prefix_fixed[OF strip_trim_by])
  moreover have "trim_by (map rev space_runes) ?r = ?r"
    by (rule trim_by_fixed[OF strip_trim_by])
  ultimately show ?thesis by (simp add: trim_space_def)
qed

text \<open>Text of printable ASCII characters has no white space to trim.\<close>

definition graphic :: "char \<Rightarrow> bool" where
  "graphic c \<longleftrightarrow> 33 \<le> (of_char c :: nat) \<and> (of_char c :: nat) \<le> 126"

lemma strip_one_foreign:
  "(\<forall>r \<in> set rs. r \<noteq> [] \<longrightarrow> hd r \<notin> set s) \<Longrightarrow> strip_one rs s = None"
proof (induction rs)
  case (Cons r rs)
  have "\<not> (r \<noteq> [] \<and> take (length r) s = r)"
  proof
    assume "r \<noteq> [] \<and> take (length r) s = r"
    then have "hd r \<in> set s" by (metis hd_in_set in_set_takeD)
    with Cons.prems \<open>r \<noteq> [] \<and> _\<close> show False by simp
  qed
  with Cons show ?case by simp
qed simp

lemma space_runes_not_graphic:
  "list_all (\<lambda>r. r \<noteq> [] \<and> \<not> graphic (hd r) \<and> \<not> graphic (last r)) space_runes"
  by (simp add: space_runes_def graphic_def)

lemma trim_space_graphic [simp]: "list_all graphic s \<Longrightarrow> trim_space s = s"
proof -
  assume g: "list_all graphic s"
  have "strip_one space_runes s = None" "strip_one (map rev space_runes) (rev s) = None"
    using g space_runes_not_graphic
    by (force intro!: strip_one_foreign simp: list_all_iff hd_rev)+
  then show ?thesis by (simp add: trim_space_def trim_by_fixed)
qed

lemma trim_space_Nil [simp]: "trim_space [] = []"
  by (simp add: trim_space_def trim_by.simps space_runes_def)

lemma blank_Nil [simp]: "blank []"
  by (simp add: blank_def)

lemma blank_trim [simp]: "blank (trim_space s) = blank s"
  by (simp add: blank_def)

lemma not_blank_not_Nil: "\<not> blank s \<Longrightarrow> s \<noteq> []"
  by auto

text \<open>\<open>strings.ToLower\<close> and \<open>strings.EqualFold\<close>, on ASCII.\<close>

definition lower_char :: "char \<Rightarrow> char" where
  "lower_char c =
     (if 65 \<le> (of_char c :: nat) \<and> (of_char c :: nat) \<le> 90 then char_of ((of_char c :: nat) + 32) else c)"

definition to_lower :: "string \<Rightarrow> string" where
  "to_lower s = map lower_char s"

definition equal_fold :: "string \<Rightarrow> string \<Rightarrow> bool" where
  "equal_fold s t \<longleftrightarrow> to_lower s = to_lower t"

lemma lower_char_idem [simp]: "lower_char (lower_char c) = lower_char c"
proof (cases "65 \<le> (of_char c :: nat) \<and> (of_char c :: nat) \<le> 90")
  case True
  then have "(of_char (char_of ((of_char c :: nat) + 32)) :: nat) = of_char c + 32"
    by (simp add: of_char_of)
  with True show ?thesis by (simp add: lower_char_def)
next
  case False
  then have "lower_char c = c" by (auto simp: lower_char_def)
  then show ?thesis by simp
qed

text \<open>Folding case makes no white space: the bytes of white space are no letters.\<close>

lemma lower_char_not_letter:
  assumes "lower_char c = b" and "\<not> (97 \<le> (of_char b :: nat) \<and> (of_char b :: nat) \<le> 122)"
  shows "c = b"
proof (rule ccontr)
  assume "c \<noteq> b"
  with assms(1) have up: "65 \<le> (of_char c :: nat)" "(of_char c :: nat) \<le> 90"
    and b: "b = char_of ((of_char c :: nat) + 32)"
    by (auto simp: lower_char_def split: if_splits)
  then have "(of_char b :: nat) = of_char c + 32" by (simp add: of_char_of)
  with up assms(2) show False by simp
qed

definition no_letters :: "string \<Rightarrow> bool" where
  "no_letters r \<longleftrightarrow> list_all (\<lambda>b. \<not> (97 \<le> (of_char b :: nat) \<and> (of_char b :: nat) \<le> 122)) r"

lemma take_lower: "no_letters r \<Longrightarrow> take (length r) (map lower_char s) = r \<Longrightarrow> take (length r) s = r"
proof (induction r arbitrary: s)
  case (Cons b r)
  then obtain c s' where s: "s = c # s'" by (cases s) auto
  with Cons.prems have "lower_char c = b" "\<not> (97 \<le> (of_char b :: nat) \<and> (of_char b :: nat) \<le> 122)"
    by (simp_all add: no_letters_def)
  then have "c = b" by (rule lower_char_not_letter)
  with Cons s show ?case by (simp add: no_letters_def)
qed simp

lemma strip_one_lower:
  "list_all no_letters rs \<Longrightarrow> strip_one rs s = None \<Longrightarrow> strip_one rs (map lower_char s) = None"
  by (induction rs) (auto split: if_splits dest: take_lower)

lemma to_lower_idem [simp]: "to_lower (to_lower s) = to_lower s"
  by (simp add: to_lower_def)

lemma trim_space_fixed_iff:
  "trim_space s = s \<longleftrightarrow> strip_one space_runes s = None \<and> strip_one (map rev space_runes) (rev s) = None"
proof
  assume t: "trim_space s = s"
  let ?l = "trim_by space_runes s"
  obtain u where u: "s = u @ ?l" using trim_by_suffix[of space_runes s] by (auto simp: suffix_def)
  have "length s \<le> length ?l"
    using t suffix_length_le[OF trim_by_suffix[of "map rev space_runes" "rev ?l"]]
    by (metis length_rev trim_space_def)
  with u have l: "?l = s" by (metis append_Nil length_append add_le_same_cancel2 le_zero_eq length_0_conv)
  with strip_trim_by[of space_runes s] have "strip_one space_runes s = None" by simp
  moreover have "trim_by (map rev space_runes) (rev s) = rev s"
    using t l by (metis rev_rev_ident trim_space_def)
  with strip_trim_by[of "map rev space_runes" "rev s"]
  have "strip_one (map rev space_runes) (rev s) = None" by simp
  ultimately show "strip_one space_runes s = None \<and> strip_one (map rev space_runes) (rev s) = None" ..
qed (simp add: trim_space_def trim_by_fixed)

lemma space_runes_no_letters:
  "list_all no_letters space_runes" "list_all no_letters (map rev space_runes)"
  by (simp_all add: space_runes_def no_letters_def)

lemma trim_lower_trim [simp]: "trim_space (to_lower (trim_space s)) = to_lower (trim_space s)"
proof -
  have "trim_space (trim_space s) = trim_space s" by simp
  then show ?thesis
    unfolding trim_space_fixed_iff
    using space_runes_no_letters by (simp add: to_lower_def strip_one_lower rev_map)
qed

lemma to_lower_Nil [simp]: "to_lower [] = []"
  by (simp add: to_lower_def)

lemma to_lower_eq_Nil [simp]: "to_lower s = [] \<longleftrightarrow> s = []"
  by (simp add: to_lower_def)

lemma equal_fold_refl [simp]: "equal_fold s s"
  by (simp add: equal_fold_def)

text \<open>\<open>strings.TrimPrefix\<close>, \<open>strings.Trim(s, "c")\<close>, \<open>strings.Split(s, "c")\<close>,
  \<open>strings.Cut(s, "c")\<close> and \<open>strings.Join\<close>.\<close>

definition trim_prefix :: "string \<Rightarrow> string \<Rightarrow> string" where
  "trim_prefix p s = (if prefix p s then drop (length p) s else s)"

definition trim_char :: "char \<Rightarrow> string \<Rightarrow> string" where
  "trim_char c s = rev (dropWhile (\<lambda>x. x = c) (rev (dropWhile (\<lambda>x. x = c) s)))"

fun split_on :: "char \<Rightarrow> string \<Rightarrow> string list" where
  "split_on c [] = [[]]"
| "split_on c (x # xs) =
     (if x = c then [] # split_on c xs
      else (case split_on c xs of [] \<Rightarrow> [[x]] | y # ys \<Rightarrow> (x # y) # ys))"

fun cut_at :: "char \<Rightarrow> string \<Rightarrow> (string \<times> string) option" where
  "cut_at c [] = None"
| "cut_at c (x # xs) =
     (if x = c then Some ([], xs) else map_option (\<lambda>(a, b). (x # a, b)) (cut_at c xs))"

fun join_with :: "string \<Rightarrow> string list \<Rightarrow> string" where
  "join_with sep [] = []"
| "join_with sep [s] = s"
| "join_with sep (s # t # ss) = s @ sep @ join_with sep (t # ss)"

lemma trim_prefix_append [simp]: "trim_prefix p (p @ s) = s"
  by (simp add: trim_prefix_def)

lemma split_on_not_Nil [simp]: "split_on c s \<noteq> []"
  by (induction s) (auto split: list.splits)

lemma split_on_single: "c \<notin> set s \<Longrightarrow> split_on c s = [s]"
  by (induction s) auto

lemma split_on_append: "c \<notin> set a \<Longrightarrow> split_on c (a @ c # b) = a # split_on c b"
  by (induction a) auto

lemma dropWhile_neq: "c \<notin> set s \<Longrightarrow> dropWhile (\<lambda>x. x = c) s = s"
  by (cases s) auto

lemma trim_char_id: "c \<notin> set s \<Longrightarrow> trim_char c s = s"
  by (simp add: trim_char_def dropWhile_neq)

text \<open>\<open>strconv.Itoa\<close> on a natural number, the \<open>%d\<close> of the messages.\<close>

function dec_of_nat :: "nat \<Rightarrow> string" where
  "dec_of_nat n =
     (if n < 10 then [char_of (48 + n)] else dec_of_nat (n div 10) @ [char_of (48 + n mod 10)])"
  by pat_completeness auto
termination
  by (relation "measure id") auto

declare dec_of_nat.simps [simp del]

definition dec_of_int :: "int \<Rightarrow> string" where
  "dec_of_int i = (if i < 0 then ''-'' @ dec_of_nat (nat (- i)) else dec_of_nat (nat i))"

text \<open>\<open>firstNonBlank\<close> of \<open>runtime_facade_support.go\<close>.\<close>

fun firstNonBlank :: "string list \<Rightarrow> string" where
  "firstNonBlank [] = []"
| "firstNonBlank (v # vs) = (if \<not> blank v then v else firstNonBlank vs)"

lemma firstNonBlank_mem: "firstNonBlank vs \<noteq> [] \<Longrightarrow> firstNonBlank vs \<in> set vs \<and> \<not> blank (firstNonBlank vs)"
  by (induction vs) (auto split: if_splits)

lemma firstNonBlank_blank_iff: "blank (firstNonBlank vs) \<longleftrightarrow> (\<forall>v \<in> set vs. blank v)"
  by (induction vs) auto

text \<open>Of the members with one key, a decoded map keeps the last.\<close>

fun last_wins :: "(string \<times> 'a) list \<Rightarrow> (string \<times> 'a) list" where
  "last_wins [] = []"
| "last_wins ((k, v) # kvs) = (if k \<in> fst ` set kvs then last_wins kvs else (k, v) # last_wins kvs)"

section \<open>Operations that may panic\<close>

text \<open>
  A Go method with a pointer receiver changes its receiver in place and may panic part of the
  way. It is a function from the state to the panic message, if any, and the state it leaves:
  on a panic, what was assigned before it stays assigned.
\<close>

type_synonym 's act = "'s \<Rightarrow> string option \<times> 's"

definition act_ok :: "('s \<Rightarrow> 's) \<Rightarrow> 's act" where
  "act_ok f s = (None, f s)"

definition act_panic :: "string \<Rightarrow> 's act" where
  "act_panic m s = (Some m, s)"

definition act_seq :: "'s act \<Rightarrow> 's act \<Rightarrow> 's act" where
  "act_seq f g s = (case f s of (None, t) \<Rightarrow> g t | (Some m, t) \<Rightarrow> (Some m, t))"

definition act_if :: "bool \<Rightarrow> 's act \<Rightarrow> 's act" where
  "act_if b f = (if b then f else act_ok id)"

definition act_opt :: "'a option \<Rightarrow> ('a \<Rightarrow> 's act) \<Rightarrow> 's act" where
  "act_opt v f = (case v of None \<Rightarrow> act_ok id | Some x \<Rightarrow> f x)"

fun act_all :: "'s act list \<Rightarrow> 's act" where
  "act_all [] = act_ok id"
| "act_all (f # fs) = act_seq f (act_all fs)"

named_theorems act_simps \<open>how the combinators of panicking operations compute\<close>

lemma act_ok_apply [simp, act_simps]: "act_ok f s = (None, f s)"
  by (simp add: act_ok_def)

lemma act_panic_apply [simp, act_simps]: "act_panic m s = (Some m, s)"
  by (simp add: act_panic_def)

lemma act_if_True [simp, act_simps]: "act_if True f = f"
  by (simp add: act_if_def)

lemma act_if_False [simp, act_simps]: "act_if False f = act_ok id"
  by (simp add: act_if_def)

lemma act_opt_None [simp, act_simps]: "act_opt None f = act_ok id"
  by (simp add: act_opt_def)

lemma act_opt_Some [simp, act_simps]: "act_opt (Some x) f = f x"
  by (simp add: act_opt_def)

text \<open>
  A predicate every action of a sequence keeps is kept by the sequence, whether or not it
  panics.
\<close>

definition act_keeps :: "('s \<Rightarrow> bool) \<Rightarrow> 's act \<Rightarrow> bool" where
  "act_keeps P f \<longleftrightarrow> (\<forall>s. P s \<longrightarrow> P (snd (f s)))"

lemma act_keepsD: "act_keeps P f \<Longrightarrow> P s \<Longrightarrow> P (snd (f s))"
  by (simp add: act_keeps_def)

lemma act_keeps_ok [intro]: "(\<And>s. P s \<Longrightarrow> P (f s)) \<Longrightarrow> act_keeps P (act_ok f)"
  by (simp add: act_keeps_def)

lemma act_keeps_panic [intro]: "act_keeps P (act_panic m)"
  by (simp add: act_keeps_def)

lemma act_keeps_seq [intro]: "act_keeps P f \<Longrightarrow> act_keeps P g \<Longrightarrow> act_keeps P (act_seq f g)"
  by (fastforce simp: act_keeps_def act_seq_def split: prod.splits option.splits)

lemma act_keeps_if [intro]: "act_keeps P f \<Longrightarrow> act_keeps P (act_if b f)"
  by (auto simp: act_if_def act_keeps_def)

lemma act_keeps_opt [intro]: "(\<And>x. v = Some x \<Longrightarrow> act_keeps P (f x)) \<Longrightarrow> act_keeps P (act_opt v f)"
  by (cases v) (auto simp: act_keeps_def)

lemma act_keeps_all [intro]: "(\<And>f. f \<in> set fs \<Longrightarrow> act_keeps P f) \<Longrightarrow> act_keeps P (act_all fs)"
  by (induction fs) auto

section \<open>Lists without repetition\<close>

text \<open>
  The loop \<open>if seen[v] continue; seen[v] = true; out = append(out, v)\<close>: keep the first
  occurrence of each value.
\<close>

fun dedupe_seen :: "'a list \<Rightarrow> 'a list \<Rightarrow> 'a list" where
  "dedupe_seen seen [] = []"
| "dedupe_seen seen (x # xs) =
     (if x \<in> set seen then dedupe_seen seen xs else x # dedupe_seen (x # seen) xs)"

lemma set_dedupe_seen [simp]: "set (dedupe_seen seen xs) = set xs - set seen"
  by (induction seen xs rule: dedupe_seen.induct) auto

lemma distinct_dedupe_seen [simp]: "distinct (dedupe_seen seen xs)"
  by (induction seen xs rule: dedupe_seen.induct) auto

lemma dedupe_seen_distinct: "distinct xs \<Longrightarrow> set xs \<inter> set seen = {} \<Longrightarrow> dedupe_seen seen xs = xs"
  by (induction seen xs rule: dedupe_seen.induct) auto

end
