(* ===== verification/Go_Paths.thy ===== *)
theory Go_Paths
  imports Go_Prelude
begin

text \<open>
  Slash separated paths as Go's \<open>path\<close> and \<open>path/filepath\<close> treat them on Unix. A path that is absolute
  and clean is kept as the list of its components; the root is the empty list.
\<close>

section \<open>Cleaning\<close>

fun clean_onto :: "bool \<Rightarrow> string list \<Rightarrow> string list \<Rightarrow> string list" where
  "clean_onto rooted acc [] = rev acc"
| "clean_onto rooted acc (c # cs) =
     (if c = [] \<or> c = ''.'' then clean_onto rooted acc cs
      else if c = ''..''
      then (case acc of
              [] \<Rightarrow> clean_onto rooted (if rooted then [] else [''..'']) cs
            | a # as \<Rightarrow> clean_onto rooted (if a = ''..'' then ''..'' # acc else as) cs)
      else clean_onto rooted (c # acc) cs)"

text \<open>\<open>path.Clean\<close>.\<close>

definition path_clean :: "string \<Rightarrow> string" where
  "path_clean s =
     (let rooted = prefix ''/'' s; cs = clean_onto rooted [] (split_on (CHR ''/'') s) in
      if rooted then CHR ''/'' # join_with ''/'' cs
      else if cs = [] then ''.'' else join_with ''/'' cs)"

definition ordinary :: "string \<Rightarrow> bool" where
  "ordinary c \<longleftrightarrow> c \<notin> {[], ''.'', ''..''} \<and> CHR ''/'' \<notin> set c"

lemma clean_onto_ordinary:
  "list_all ordinary acc \<Longrightarrow> list_all (\<lambda>c. CHR ''/'' \<notin> set c) cs \<Longrightarrow> list_all ordinary (clean_onto True acc cs)"
proof (induction True acc cs rule: clean_onto.induct)
  case (2 acc c cs)
  then show ?case by (cases acc) (auto simp: ordinary_def)
qed simp

lemma clean_onto_id: "list_all ordinary cs \<Longrightarrow> clean_onto rooted acc cs = rev acc @ cs"
  by (induction cs arbitrary: acc) (auto simp: ordinary_def)

lemma split_on_no_sep: "list_all (\<lambda>c. x \<notin> set c) (split_on x s)"
  by (induction s) (auto split: list.splits)

lemma split_join: "ss \<noteq> [] \<Longrightarrow> list_all (\<lambda>c. x \<notin> set c) ss \<Longrightarrow> split_on x (join_with [x] ss) = ss"
  by (induction "[x]" ss rule: join_with.induct) (auto simp: split_on_single split_on_append)

text \<open>A rooted path that is its own cleaned form has no component that is empty, \<open>.\<close> or \<open>..\<close>.\<close>

lemma path_clean_fixed:
  assumes "path_clean s = s" and "prefix ''/'' s"
  shows "\<exists>cs. s = CHR ''/'' # join_with ''/'' cs \<and> list_all ordinary cs"
proof -
  let ?cs = "clean_onto True [] (split_on (CHR ''/'') s)"
  have "list_all ordinary ?cs"
    by (rule clean_onto_ordinary) (simp_all add: split_on_no_sep)
  moreover have "s = CHR ''/'' # join_with ''/'' ?cs"
    using assms by (simp add: path_clean_def)
  ultimately show ?thesis by blast
qed

section \<open>Absolute clean paths\<close>

type_synonym path = "string list"

definition path_ok :: "path \<Rightarrow> bool" where
  "path_ok p \<longleftrightarrow> list_all ordinary p"

text \<open>\<open>filepath.Abs\<close> with the working directory, and \<open>filepath.Join\<close>.\<close>

definition abs_path :: "path \<Rightarrow> string \<Rightarrow> path" where
  "abs_path cwd s =
     clean_onto True [] ((if prefix ''/'' s then [] else cwd) @ split_on (CHR ''/'') s)"

definition filepath_join :: "path \<Rightarrow> string list \<Rightarrow> path" where
  "filepath_join p parts = clean_onto True [] (p @ concat (map (split_on (CHR ''/'')) parts))"

definition filepath_Dir :: "path \<Rightarrow> path" where
  "filepath_Dir p = butlast p"

definition filepath_Base :: "path \<Rightarrow> string" where
  "filepath_Base p = (if p = [] then ''/'' else last p)"

fun filepath_Rel :: "path \<Rightarrow> path \<Rightarrow> string list" where
  "filepath_Rel (r # rs) (t # ts) = (if r = t then filepath_Rel rs ts else map (\<lambda>_. ''..'') (r # rs) @ t # ts)"
| "filepath_Rel rs ts = map (\<lambda>_. ''..'') rs @ ts"

lemma path_ok_parts: "list_all ordinary p \<Longrightarrow> list_all (\<lambda>c. CHR ''/'' \<notin> set c) p"
  by (auto simp: list_all_iff ordinary_def)

lemma abs_path_ok: "path_ok cwd \<Longrightarrow> path_ok (abs_path cwd s)"
  unfolding path_ok_def abs_path_def
  by (rule clean_onto_ordinary) (auto simp: split_on_no_sep path_ok_parts)

lemma filepath_join_ok: "path_ok p \<Longrightarrow> path_ok (filepath_join p parts)"
proof -
  assume "path_ok p"
  moreover have "list_all (\<lambda>c. CHR ''/'' \<notin> set c) (concat (map (split_on (CHR ''/'')) parts))"
    using split_on_no_sep by (induction parts) auto
  ultimately show ?thesis
    unfolding path_ok_def filepath_join_def by (intro clean_onto_ordinary) (auto simp: path_ok_parts)
qed

lemma filepath_join_ordinary:
  "path_ok p \<Longrightarrow> list_all ordinary parts \<Longrightarrow> filepath_join p parts = p @ parts"
proof -
  assume p: "path_ok p" and parts: "list_all ordinary parts"
  from parts have "concat (map (split_on (CHR ''/'')) parts) = parts"
    by (induction parts) (auto simp: ordinary_def split_on_single)
  with p parts show ?thesis by (simp add: filepath_join_def path_ok_def clean_onto_id)
qed

lemma filepath_Rel_prefix: "path_ok p \<Longrightarrow> (filepath_Rel r p = [] \<or> hd (filepath_Rel r p) \<noteq> ''..'') \<longleftrightarrow> prefix r p"
proof (induction r arbitrary: p)
  case Nil
  then show ?case by (cases p) (auto simp: path_ok_def ordinary_def)
next
  case (Cons c r)
  then show ?case by (cases p) (auto simp: path_ok_def ordinary_def)
qed

lemma filepath_Rel_append: "filepath_Rel r (r @ s) = s"
  by (induction r) (cases s, simp_all)

end
