(* ===== verification/Base64.thy ===== *)
theory Base64
  imports Go_Prelude
begin

text \<open>
  Package \<open>encoding/base64\<close> as the SDK uses it: \<open>StdEncoding\<close> for keys, signatures and
  checksums, \<open>RawURLEncoding\<close> for callback identifiers. Bytes are characters. The facts that do
  not depend on the alphabet are proved once in the locale \<open>base64_alphabet\<close>.
\<close>

section \<open>Encoding and decoding, for any alphabet\<close>

definition byte_nat :: "char \<Rightarrow> nat" where
  "byte_nat c = of_char c"

definition pad_char :: char where
  "pad_char = CHR ''=''"

fun b64_encode :: "(nat \<Rightarrow> char) \<Rightarrow> bool \<Rightarrow> string \<Rightarrow> string" where
  "b64_encode enc pad [] = []"
| "b64_encode enc pad [a] =
     [enc (byte_nat a div 4), enc (byte_nat a mod 4 * 16)] @ (if pad then [pad_char, pad_char] else [])"
| "b64_encode enc pad [a, b] =
     [enc (byte_nat a div 4), enc (byte_nat a mod 4 * 16 + byte_nat b div 16),
      enc (byte_nat b mod 16 * 4)] @ (if pad then [pad_char] else [])"
| "b64_encode enc pad (a # b # c # r) =
     [enc (byte_nat a div 4), enc (byte_nat a mod 4 * 16 + byte_nat b div 16),
      enc (byte_nat b mod 16 * 4 + byte_nat c div 64), enc (byte_nat c mod 64)] @ b64_encode enc pad r"

definition b64_byte1 :: "nat \<Rightarrow> nat \<Rightarrow> char" where
  "b64_byte1 x y = char_of (x * 4 + y div 16)"

definition b64_byte2 :: "nat \<Rightarrow> nat \<Rightarrow> char" where
  "b64_byte2 y z = char_of (y mod 16 * 16 + z div 4)"

definition b64_byte3 :: "nat \<Rightarrow> nat \<Rightarrow> char" where
  "b64_byte3 z w = char_of (z mod 4 * 64 + w)"

text \<open>
  Decoding is not strict: the unused low bits of the last digit are dropped whatever they are.
  Padding may only be the end of the text.
\<close>

fun b64_decode_quads :: "(char \<Rightarrow> nat option) \<Rightarrow> string \<Rightarrow> string option" where
  "b64_decode_quads dec [] = Some []"
| "b64_decode_quads dec (a # b # c # d # r) =
     (case (dec a, dec b) of
        (Some x, Some y) \<Rightarrow>
          if c = pad_char then (if d = pad_char \<and> r = [] then Some [b64_byte1 x y] else None)
          else (case dec c of
            None \<Rightarrow> None
          | Some z \<Rightarrow>
              if d = pad_char then (if r = [] then Some [b64_byte1 x y, b64_byte2 y z] else None)
              else (case dec d of
                None \<Rightarrow> None
              | Some w \<Rightarrow>
                  map_option (\<lambda>t. [b64_byte1 x y, b64_byte2 y z, b64_byte3 z w] @ t)
                    (b64_decode_quads dec r)))
      | _ \<Rightarrow> None)"
| "b64_decode_quads dec _ = None"

text \<open>\<open>DecodeString\<close> skips carriage returns and line feeds wherever they are.\<close>

definition b64_decode :: "(char \<Rightarrow> nat option) \<Rightarrow> string \<Rightarrow> string option" where
  "b64_decode dec s = b64_decode_quads dec (filter (\<lambda>c. c \<noteq> CHR 0x0A \<and> c \<noteq> CHR 0x0D) s)"

lemma byte_nat_less [simp]: "byte_nat c < 256"
  by (simp add: byte_nat_def)

lemma char_of_byte_nat [simp]: "char_of (byte_nat c) = c"
  by (simp add: byte_nat_def)

lemma byte_nat_eq_iff [simp]: "byte_nat a = byte_nat b \<longleftrightarrow> a = b"
  by (simp add: byte_nat_def)

lemma b64_bytes_back:
  "b64_byte1 (byte_nat a div 4) (byte_nat a mod 4 * 16 + k) = a" if "k < 16"
proof -
  have "byte_nat a div 4 * 4 + (byte_nat a mod 4 * 16 + k) div 16 = byte_nat a"
    using that by (simp add: div_mult_mod_eq)
  then show ?thesis by (simp add: b64_byte1_def)
qed

lemma b64_byte2_back:
  "k < 4 \<Longrightarrow> b64_byte2 (j * 16 + byte_nat b div 16) (byte_nat b mod 16 * 4 + k) = b"
proof -
  assume "k < 4"
  have "byte_nat b div 16 < 16" using byte_nat_less[of b] by (simp add: div_less_iff_less_mult)
  then have "(j * 16 + byte_nat b div 16) mod 16 = byte_nat b div 16" by simp
  moreover have "(byte_nat b mod 16 * 4 + k) div 4 = byte_nat b mod 16" using \<open>k < 4\<close> by simp
  ultimately show ?thesis by (simp add: b64_byte2_def div_mult_mod_eq)
qed

lemma b64_byte3_back: "b64_byte3 (j * 4 + byte_nat c div 64) (byte_nat c mod 64) = c"
proof -
  have "byte_nat c div 64 < 4" using byte_nat_less[of c] by (simp add: div_less_iff_less_mult)
  then have "(j * 4 + byte_nat c div 64) mod 4 = byte_nat c div 64" by simp
  then show ?thesis by (simp add: b64_byte3_def div_mult_mod_eq)
qed

lemma list3_induct:
  fixes P :: "string \<Rightarrow> bool"
  assumes "P []" and "\<And>a. P [a]" and "\<And>a b. P [a, b]"
    and "\<And>a b c r. P r \<Longrightarrow> P (a # b # c # r)"
  shows "P s"
  by (rule b64_encode.induct[of "\<lambda>_ _. P" undefined True]) (use assms in auto)

locale base64_alphabet =
  fixes enc :: "nat \<Rightarrow> char" and dec :: "char \<Rightarrow> nat option"
  assumes dec_enc: "n < 64 \<Longrightarrow> dec (enc n) = Some n"
    and enc_text: "n < 64 \<Longrightarrow> enc n \<noteq> pad_char \<and> enc n \<noteq> CHR 0x0A \<and> enc n \<noteq> CHR 0x0D"
begin

lemma digit_bounds:
  "byte_nat a div 4 < 64" "byte_nat a mod 4 * 16 < 64"
  "byte_nat a mod 4 * 16 + byte_nat b div 16 < 64" "byte_nat b mod 16 * 4 < 64"
  "byte_nat b mod 16 * 4 + byte_nat c div 64 < 64" "byte_nat c mod 64 < 64"
proof -
  have q: "byte_nat b div 16 < 16" "byte_nat c div 64 < 4" "byte_nat a div 4 < 64"
    using byte_nat_less[of b] byte_nat_less[of c] byte_nat_less[of a]
    by (simp_all add: div_less_iff_less_mult)
  have r: "byte_nat a mod 4 \<le> 3" "byte_nat b mod 16 \<le> 15"
    using mod_less_divisor[of 4 "byte_nat a"] mod_less_divisor[of 16 "byte_nat b"] by simp_all
  from q r show "byte_nat a div 4 < 64" "byte_nat a mod 4 * 16 < 64"
    "byte_nat a mod 4 * 16 + byte_nat b div 16 < 64" "byte_nat b mod 16 * 4 < 64"
    "byte_nat b mod 16 * 4 + byte_nat c div 64 < 64" "byte_nat c mod 64 < 64"
    by linarith+
qed

lemma encode_digits:
  "ch \<in> set (b64_encode enc pad s) \<Longrightarrow> ch = pad_char \<and> pad \<or> ch \<in> enc ` {..<64}"
proof (induction s rule: list3_induct)
  case (4 a b c r)
  then show ?case by (auto simp: digit_bounds)
next
  case (3 a b)
  then show ?case by (auto simp: digit_bounds split: if_splits)
next
  case (2 a)
  then show ?case by (auto simp: digit_bounds split: if_splits)
qed simp

lemma quads_encode: "b64_decode_quads dec (b64_encode enc True s) = Some s"
proof (induction s rule: list3_induct)
  case (3 a b)
  show ?case
    using b64_byte2_back[of 0 _ b] byte_nat_less[of b]
    by (simp add: digit_bounds dec_enc enc_text b64_bytes_back div_less_iff_less_mult)
next
  case (2 a)
  show ?case
    using b64_bytes_back[of 0 a] by (simp add: digit_bounds dec_enc enc_text)
next
  case (4 a b c r)
  have "byte_nat b div 16 < 16" "byte_nat c div 64 < 4"
    using byte_nat_less[of b] byte_nat_less[of c] by (simp_all add: div_less_iff_less_mult)
  then show ?case
    using 4 by (simp add: digit_bounds dec_enc enc_text b64_bytes_back b64_byte2_back b64_byte3_back)
qed simp

lemma encode_no_newline:
  "filter (\<lambda>c. c \<noteq> CHR 0x0A \<and> c \<noteq> CHR 0x0D) (b64_encode enc pad s) = b64_encode enc pad s"
proof (rule filter_True, rule ballI)
  fix ch assume "ch \<in> set (b64_encode enc pad s)"
  from encode_digits[OF this] show "ch \<noteq> CHR 0x0A \<and> ch \<noteq> CHR 0x0D"
    by (auto simp: pad_char_def enc_text)
qed

lemma decode_encode: "b64_decode dec (b64_encode enc True s) = Some s"
  by (simp add: b64_decode_def encode_no_newline quads_encode)

lemma encode_inj: "b64_encode enc True s = b64_encode enc True t \<Longrightarrow> s = t"
  using decode_encode by (metis option.inject)

lemma raw_inj:
  assumes "b64_encode enc False s = b64_encode enc False t" and "length s = length t"
  shows "s = t"
proof -
  have "b64_encode enc True s = b64_encode enc False s @ replicate ((3 - length s mod 3) mod 3) pad_char" for s
  proof (induction s rule: list3_induct)
    case (4 a b c r)
    have "Suc (Suc (Suc (length r))) mod 3 = length r mod 3" by presburger
    with 4 show ?case by simp
  qed (auto simp: numeral_2_eq_2)
  with assms have "b64_encode enc True s = b64_encode enc True t" by simp
  then show ?thesis by (rule encode_inj)
qed

end

section \<open>The two alphabets\<close>

definition std_enc :: "nat \<Rightarrow> char" where
  "std_enc n = char_of (if n < 26 then 65 + n else if n < 52 then 71 + n
                        else if n < 62 then n - 4 else if n = 62 then 43 else 47)"

definition std_dec :: "char \<Rightarrow> nat option" where
  "std_dec c =
     (let n = byte_nat c in
      if 65 \<le> n \<and> n \<le> 90 then Some (n - 65)
      else if 97 \<le> n \<and> n \<le> 122 then Some (n - 71)
      else if 48 \<le> n \<and> n \<le> 57 then Some (n + 4)
      else if n = 43 then Some 62 else if n = 47 then Some 63 else None)"

definition url_enc :: "nat \<Rightarrow> char" where
  "url_enc n = (if n = 62 then CHR ''-'' else if n = 63 then CHR ''_'' else std_enc n)"

definition url_dec :: "char \<Rightarrow> nat option" where
  "url_dec c = (if c = CHR ''-'' then Some 62 else if c = CHR ''_'' then Some 63
                else if c = CHR ''+'' \<or> c = CHR ''/'' then None else std_dec c)"

lemma byte_nat_char_of [simp]: "byte_nat (char_of n) = n mod 256"
  by (simp add: byte_nat_def)

lemma char_neq_byte: "byte_nat c \<noteq> byte_nat d \<Longrightarrow> c \<noteq> d"
  by auto

lemma byte_nat_literals [simp]:
  "byte_nat (CHR ''='') = 61" "byte_nat (CHR 0x0A) = 10" "byte_nat (CHR 0x0D) = 13"
  "byte_nat (CHR ''-'') = 45" "byte_nat (CHR ''_'') = 95" "byte_nat (CHR ''+'') = 43"
  "byte_nat (CHR ''/'') = 47"
  by (simp_all add: byte_nat_def)

lemma std_enc_bytes: "n < 64 \<Longrightarrow> byte_nat (std_enc n) =
    (if n < 26 then 65 + n else if n < 52 then 71 + n else if n < 62 then n - 4 else if n = 62 then 43 else 47)"
  by (simp add: std_enc_def)

lemma std_laws: "n < 64 \<Longrightarrow> std_dec (std_enc n) = Some n"
  by (simp add: std_dec_def Let_def std_enc_bytes) arith

lemma std_text: "n < 64 \<Longrightarrow> std_enc n \<noteq> pad_char \<and> std_enc n \<noteq> CHR 0x0A \<and> std_enc n \<noteq> CHR 0x0D"
  by (intro conjI char_neq_byte) (auto simp: std_enc_bytes pad_char_def)

lemma std_sign: "n < 62 \<Longrightarrow> std_enc n \<noteq> CHR ''-'' \<and> std_enc n \<noteq> CHR ''_'' \<and>
    std_enc n \<noteq> CHR ''+'' \<and> std_enc n \<noteq> CHR ''/''"
  by (intro conjI char_neq_byte) (auto simp: std_enc_bytes)

lemma url_laws: "n < 64 \<Longrightarrow> url_dec (url_enc n) = Some n"
  using std_sign[of n] std_laws[of n] by (auto simp: url_dec_def url_enc_def)

lemma url_text: "n < 64 \<Longrightarrow> url_enc n \<noteq> pad_char \<and> url_enc n \<noteq> CHR 0x0A \<and> url_enc n \<noteq> CHR 0x0D \<and>
    url_enc n \<noteq> CHR ''/'' \<and> graphic (url_enc n)"
  using std_sign[of n] std_text[of n] std_enc_bytes[of n]
  by (auto simp: url_enc_def pad_char_def graphic_def byte_nat_def)

interpretation std: base64_alphabet std_enc std_dec
  by unfold_locales (simp_all add: std_laws std_text)

interpretation url: base64_alphabet url_enc url_dec
  by unfold_locales (simp_all add: url_laws url_text)

definition std_encode :: "string \<Rightarrow> string" where
  "std_encode s = b64_encode std_enc True s"

definition std_decode :: "string \<Rightarrow> string option" where
  "std_decode s = b64_decode std_dec s"

definition raw_url_encode :: "string \<Rightarrow> string" where
  "raw_url_encode s = b64_encode url_enc False s"

lemma std_decode_encode [simp]: "std_decode (std_encode s) = Some s"
  by (simp add: std_decode_def std_encode_def std.decode_encode)

lemma raw_url_inj: "raw_url_encode s = raw_url_encode t \<Longrightarrow> length s = length t \<Longrightarrow> s = t"
  unfolding raw_url_encode_def by (rule url.raw_inj)

lemma raw_url_digits: "c \<in> set (raw_url_encode s) \<Longrightarrow> c \<in> url_enc ` {..<64}"
  unfolding raw_url_encode_def by (auto dest: url.encode_digits)

lemma raw_url_no_slash: "CHR ''/'' \<notin> set (raw_url_encode s)"
  using raw_url_digits url_text by fastforce

lemma raw_url_graphic: "list_all graphic (raw_url_encode s)"
  using raw_url_digits url_text by (fastforce simp: list_all_iff)

lemma length_encode_padded: "length (b64_encode enc True s) = 4 * ((length s + 2) div 3)"
proof (induction s rule: list3_induct)
  case (4 a b c r)
  have "Suc (Suc (Suc (length r))) + 2 = length r + 2 + 1 * 3" by simp
  then have "(Suc (Suc (Suc (length r))) + 2) div 3 = Suc ((length r + 2) div 3)"
    by (metis One_nat_def add.commute div_mult_self3 nat_mult_1 plus_1_eq_Suc zero_neq_numeral)
  with 4 show ?case by simp
qed simp_all

lemma length_std_encode: "length (std_encode s) = 4 * ((length s + 2) div 3)"
  by (simp add: std_encode_def length_encode_padded)

lemma length_encode_raw: "length (b64_encode enc False s) = (4 * length s + 2) div 3"
proof (induction s rule: list3_induct)
  case (4 a b c r)
  then show ?case by simp
qed simp_all

lemma length_raw_url_encode: "length (raw_url_encode s) = (4 * length s + 2) div 3"
  by (simp add: raw_url_encode_def length_encode_raw)

end
