(* ===== verification/Manifest.thy ===== *)
theory Manifest
  imports Base64 "HOL-Library.Word"
begin

text \<open>
  The publisher-signed runtime manifest (\<open>runtime_manifest_v2.go\<close>, \<open>runtime_artifact.go\<close>): the
  claims, their validation against the resolver's configuration and the clock, the canonical
  payload that is signed, and the verification of the signatures against the trusted keys.
  \<open>crypto/sha256\<close> and \<open>crypto/ed25519\<close> are parameters, the record \<open>crypto\<close>. The JSON decoding of
  a descriptor is in \<open>Manifest_Descriptor\<close>: \<open>verifyRuntimeManifestV2\<close> takes its outcome.
\<close>

section \<open>Data\<close>

type_synonym u16 = "16 word"
type_synonym u32 = "32 word"
type_synonym u64 = "64 word"

record runtimeArtifactClaims =
  Arch :: string
  AttestationDigest :: string
  AttestationMediaType :: string
  BuildFlags :: string
  ByteLength :: u64
  DownloadURL :: string
  Executable :: string
  IssuedAt :: u64
  ManifestVersion :: u32
  NotBefore :: u64
  OS :: string
  Protocol :: u32
  Publisher :: string
  ReleaseID :: string
  Repository :: string
  RunAttempt :: u32
  RunID :: u64
  RuntimeVersion :: string
  SDK :: string
  SHA256 :: string
  SourceRef :: string
  SourceSHA :: string
  Toolchain :: string
  ValidUntil :: u64
  WorkflowIdentity :: string
  WrapperCommit :: string
  WrapperGoModSum :: string
  WrapperModule :: string
  WrapperSum :: string
  WrapperTagObject :: string
  WrapperTree :: string
  WrapperVersion :: string

record runtimeArtifactSignature =
  sigAlgorithm :: string
  sigKeyID :: string
  sigSignature :: string

record runtimeArtifactManifest =
  SchemaVersion :: u32
  Claims :: runtimeArtifactClaims
  Signatures :: "runtimeArtifactSignature list"
  canonicalJSON :: string

record runtimeResolverConfig =
  cfgVersion :: string
  cfgGOOS :: string
  cfgGOARCH :: string

record runtimePublisherTrustedKey =
  keyAlgorithm :: string
  keyKeyID :: string
  keyPublicKey :: string
  keyActivation :: u64
  keyNotAfter :: u64

record crypto =
  sha256 :: "string \<Rightarrow> string"
  ed25519_verify :: "string \<Rightarrow> string \<Rightarrow> string \<Rightarrow> bool"

section \<open>Constants\<close>

definition runtimeManifestSchemaVersion :: u32 where "runtimeManifestSchemaVersion = 2"
definition runtimeManifestSignatureVersion :: string where
  "runtimeManifestSignatureVersion = ''publisher-ed25519-v2''"
definition runtimeManifestSignatureDomain :: string where
  "runtimeManifestSignatureDomain = ''loadstrike.runtime-manifest''"
definition runtimeManifestSignaturePurpose :: string where
  "runtimeManifestSignaturePurpose = ''publisher-artifact-authentication''"
definition maxRuntimeManifestPayloadBytes :: nat where "maxRuntimeManifestPayloadBytes = 16 * 1024"
definition maxRuntimeArtifactBytes :: u64 where "maxRuntimeArtifactBytes = 128 * 1024 * 1024"
definition maxRuntimePublisherTrustedKeys :: nat where "maxRuntimePublisherTrustedKeys = 8"
definition maxRuntimeManifestSupportSeconds :: u64 where
  "maxRuntimeManifestSupportSeconds = 1095 * 24 * 60 * 60"
definition maxRuntimeManifestActivationSkew :: u64 where "maxRuntimeManifestActivationSkew = 5 * 60"
definition minRuntimeManifestUnixSecond :: u64 where "minRuntimeManifestUnixSecond = 1700000000"
definition maxRuntimeManifestUnixSecond :: u64 where "maxRuntimeManifestUnixSecond = 4102444800"
definition runtimeManifestProductionOrigin :: string where
  "runtimeManifestProductionOrigin = ''https://licensing.loadstrike.com''"
definition runtimeManifestPublisher :: string where "runtimeManifestPublisher = ''LoadStrike''"
definition runtimeManifestRepository :: string where
  "runtimeManifestRepository = ''Meticulis/LoadStrike''"
definition runtimeManifestSourceRef :: string where "runtimeManifestSourceRef = ''refs/heads/main''"
definition runtimeManifestWorkflowIdentity :: string where
  "runtimeManifestWorkflowIdentity =
     ''Meticulis/LoadStrike/.github/workflows/main-delivery.yml@refs/heads/main''"
definition runtimeManifestWrapperModule :: string where
  "runtimeManifestWrapperModule = ''loadstrike.com/sdk/go''"
definition runtimeManifestAttestationMedia :: string where
  "runtimeManifestAttestationMedia = ''application/vnd.dev.sigstore.bundle+json;version=0.3''"
definition runtimeManifestPublisherKeyPrefix :: string where
  "runtimeManifestPublisherKeyPrefix = ''sha256:''"
definition runtimeManifestV02Toolchain :: string where "runtimeManifestV02Toolchain = ''go1.26.8''"
definition moduleVersion :: string where "moduleVersion = ''v0.2.3''"
definition runtimeProtocolVersion :: int where "runtimeProtocolVersion = 2"

section \<open>Canonical forms\<close>

definition is_digit :: "char \<Rightarrow> bool" where
  "is_digit c \<longleftrightarrow> 48 \<le> byte_nat c \<and> byte_nat c \<le> 57"

definition is_lower_hex :: "char \<Rightarrow> bool" where
  "is_lower_hex c \<longleftrightarrow> is_digit c \<or> 97 \<le> byte_nat c \<and> byte_nat c \<le> 102"

definition canonical_number :: "string \<Rightarrow> bool" where
  "canonical_number s \<longleftrightarrow> s = ''0'' \<or> (s \<noteq> [] \<and> hd s \<noteq> CHR ''0'' \<and> list_all is_digit s)"

definition dotted_triple :: "string \<Rightarrow> bool" where
  "dotted_triple s \<longleftrightarrow>
     (case split_on (CHR ''.'') s of [a, b, c] \<Rightarrow> list_all canonical_number [a, b, c] | _ \<Rightarrow> False)"

definition runtimeCanonicalVersionPattern :: "string \<Rightarrow> bool" where
  "runtimeCanonicalVersionPattern s \<longleftrightarrow> prefix ''v'' s \<and> dotted_triple (drop 1 s)"

definition runtimeCanonicalToolchainPattern :: "string \<Rightarrow> bool" where
  "runtimeCanonicalToolchainPattern s \<longleftrightarrow> prefix ''go'' s \<and> dotted_triple (drop 2 s)"

definition runtimeCanonicalGitObjectPattern :: "string \<Rightarrow> bool" where
  "runtimeCanonicalGitObjectPattern s \<longleftrightarrow> length s = 40 \<and> list_all is_lower_hex s"

definition isLowerHex64 :: "string \<Rightarrow> bool" where
  "isLowerHex64 s \<longleftrightarrow> length s = 64 \<and> list_all is_lower_hex s"

definition runtimeCanonicalKeyIDPattern :: "string \<Rightarrow> bool" where
  "runtimeCanonicalKeyIDPattern s \<longleftrightarrow> prefix ''sha256:'' s \<and> isLowerHex64 (drop 7 s)"

definition runtimeCanonicalAttestationPattern :: "string \<Rightarrow> bool" where
  "runtimeCanonicalAttestationPattern s \<longleftrightarrow> prefix ''sha256:'' s \<and> isLowerHex64 (drop 7 s)"

definition isStrictASCII :: "string \<Rightarrow> bool" where
  "isStrictASCII s \<longleftrightarrow> list_all (\<lambda>c. byte_nat c \<le> 127) s"

definition hex_digit :: "nat \<Rightarrow> char" where
  "hex_digit n = char_of (if n < 10 then 48 + n else 87 + n)"

definition hex_encode :: "string \<Rightarrow> string" where
  "hex_encode s = concat (map (\<lambda>c. [hex_digit (byte_nat c div 16), hex_digit (byte_nat c mod 16)]) s)"

definition decodeCanonicalPaddedBase64 :: "string \<Rightarrow> nat \<Rightarrow> string \<Rightarrow> string res" where
  "decodeCanonicalPaddedBase64 value expectedLength field =
     (if value = [] \<or> 512 < length value then Inl (field @ '' must be canonical padded base64'')
      else case std_decode value of
             None \<Rightarrow> Inl (field @ '' must be canonical padded base64'')
           | Some decoded \<Rightarrow>
               if length decoded \<noteq> expectedLength \<or> std_encode decoded \<noteq> value
               then Inl (field @ '' must be canonical padded base64'')
               else Inr decoded)"

definition validateCanonicalGoH1 :: "string \<Rightarrow> string \<Rightarrow> unit res" where
  "validateCanonicalGoH1 value field =
     (if \<not> prefix ''h1:'' value
      then Inl (''runtime manifest '' @ field @ '' must be a canonical Go h1 checksum'')
      else case decodeCanonicalPaddedBase64 (trim_prefix ''h1:'' value) 32 field of
             Inl _ \<Rightarrow> Inl (''runtime manifest '' @ field @ '' must be a canonical Go h1 checksum'')
           | Inr _ \<Rightarrow> Inr ())"

section \<open>The signed payload\<close>

fun be_bytes :: "nat \<Rightarrow> nat \<Rightarrow> string" where
  "be_bytes 0 n = []"
| "be_bytes (Suc k) n = be_bytes k (n div 256) @ [char_of (n mod 256)]"

definition encodeRuntimeManifestUint32 :: "u32 \<Rightarrow> string" where
  "encodeRuntimeManifestUint32 w = be_bytes 4 (unat w)"

definition encodeRuntimeManifestUint64 :: "u64 \<Rightarrow> string" where
  "encodeRuntimeManifestUint64 w = be_bytes 8 (unat w)"

definition runtimeManifestNumericField :: "u16 \<Rightarrow> bool" where
  "runtimeManifestNumericField fid \<longleftrightarrow> fid \<in> {3, 10, 15, 17, 20, 21, 22, 29, 30}"

definition manifest_fields :: "runtimeArtifactClaims \<Rightarrow> string \<Rightarrow> string \<Rightarrow> (u16 \<times> string) list" where
  "manifest_fields claims algorithm keyID =
     [(1, runtimeManifestSignatureDomain),
      (2, runtimeManifestSignaturePurpose),
      (3, encodeRuntimeManifestUint32 runtimeManifestSchemaVersion),
      (4, algorithm),
      (5, keyID),
      (10, encodeRuntimeManifestUint32 (ManifestVersion claims)),
      (11, SDK claims),
      (12, RuntimeVersion claims),
      (13, OS claims),
      (14, Arch claims),
      (15, encodeRuntimeManifestUint32 (Protocol claims)),
      (16, SHA256 claims),
      (17, encodeRuntimeManifestUint64 (ByteLength claims)),
      (18, DownloadURL claims),
      (19, Executable claims),
      (20, encodeRuntimeManifestUint64 (IssuedAt claims)),
      (21, encodeRuntimeManifestUint64 (NotBefore claims)),
      (22, encodeRuntimeManifestUint64 (ValidUntil claims)),
      (23, Publisher claims),
      (24, ReleaseID claims),
      (25, Repository claims),
      (26, SourceRef claims),
      (27, SourceSHA claims),
      (28, WorkflowIdentity claims),
      (29, encodeRuntimeManifestUint64 (RunID claims)),
      (30, encodeRuntimeManifestUint32 (RunAttempt claims)),
      (31, WrapperModule claims),
      (32, WrapperVersion claims),
      (33, WrapperSum claims),
      (34, WrapperGoModSum claims),
      (35, WrapperTagObject claims),
      (36, WrapperCommit claims),
      (37, WrapperTree claims),
      (38, Toolchain claims),
      (39, BuildFlags claims),
      (40, AttestationDigest claims),
      (41, AttestationMediaType claims)]"

text \<open>One field: its number, its length in four bytes, its bytes.\<close>

definition tlv :: "u16 \<times> string \<Rightarrow> string" where
  "tlv e = be_bytes 2 (unat (fst e)) @ be_bytes 4 (length (snd e)) @ snd e"

definition runtimeManifestV2CanonicalPayload ::
  "runtimeArtifactClaims \<Rightarrow> string \<Rightarrow> string \<Rightarrow> string res" where
  "runtimeManifestV2CanonicalPayload claims algorithm keyID =
     (if algorithm \<noteq> runtimeManifestSignatureVersion
      then Inl ''runtime manifest signature algorithm is unsupported''
      else if \<not> runtimeCanonicalKeyIDPattern keyID
      then Inl ''runtime manifest signature key fingerprint is invalid''
      else
        let fields = manifest_fields claims algorithm keyID in
        if length fields \<noteq> 37 then Inl ''runtime manifest signature field count is invalid''
        else if list_ex (\<lambda>(fid, v). \<not> runtimeManifestNumericField fid \<and> \<not> isStrictASCII v) fields
        then Inl ''runtime manifest signature fields must be ASCII''
        else
          let payload = be_bytes 2 (length fields) @ concat (map tlv fields) in
          if maxRuntimeManifestPayloadBytes < length payload
          then Inl ''runtime manifest signature payload is too large''
          else Inr payload)"

section \<open>Validation of the claims\<close>

definition expectedRuntimeManifestBuildFlags :: "string \<Rightarrow> string" where
  "expectedRuntimeManifestBuildFlags version =
     ''-mod=readonly -trimpath -buildvcs=false '' @
     ''-ldflags=-X=github.com/Meticulis/LoadStrike/sdk/go-runtime-private/'' @
     ''internal/engine.moduleVersion=LOADSTRIKE_RUNTIME_VERSION:'' @
     version @ '' CGO_ENABLED=0''"

definition expected_executable :: "string \<Rightarrow> string option" where
  "expected_executable platform =
     map_of [(''windows-amd64'', ''loadstrike-runtime.exe''),
             (''linux-amd64'', ''loadstrike-runtime''),
             (''darwin-arm64'', ''loadstrike-runtime'')] platform"

definition manifest_platform :: "runtimeArtifactClaims \<Rightarrow> string" where
  "manifest_platform claims = OS claims @ ''-'' @ Arch claims"

definition expected_url :: "runtimeArtifactClaims \<Rightarrow> string" where
  "expected_url claims =
     runtimeManifestProductionOrigin @ ''/runtime/'' @ RuntimeVersion claims @ ''/go/'' @
     manifest_platform claims @ ''/'' @ Executable claims"

text \<open>
  The claims with a fixed value, as (name, actual, expected). The code ranges over a map, in no
  fixed order; which of several mismatches is named is therefore one of them.
\<close>

definition fixed_claims :: "runtimeArtifactClaims \<Rightarrow> (string \<times> string \<times> string) list" where
  "fixed_claims claims =
     [(''publisher'', Publisher claims, runtimeManifestPublisher),
      (''releaseId'', ReleaseID claims,
         ''go-runtime/'' @ RuntimeVersion claims @ ''/'' @ manifest_platform claims),
      (''repository'', Repository claims, runtimeManifestRepository),
      (''sourceRef'', SourceRef claims, runtimeManifestSourceRef),
      (''workflowIdentity'', WorkflowIdentity claims, runtimeManifestWorkflowIdentity),
      (''wrapperModule'', WrapperModule claims, runtimeManifestWrapperModule),
      (''wrapperVersion'', WrapperVersion claims, RuntimeVersion claims),
      (''buildFlags'', BuildFlags claims, expectedRuntimeManifestBuildFlags (RuntimeVersion claims)),
      (''attestationMediaType'', AttestationMediaType claims, runtimeManifestAttestationMedia)]"

definition git_claims :: "runtimeArtifactClaims \<Rightarrow> (string \<times> string) list" where
  "git_claims claims =
     [(''sourceSha'', SourceSHA claims), (''wrapperTagObject'', WrapperTagObject claims),
      (''wrapperCommit'', WrapperCommit claims), (''wrapperTree'', WrapperTree claims)]"

definition validity_interval_ok :: "runtimeArtifactClaims \<Rightarrow> bool" where
  "validity_interval_ok claims \<longleftrightarrow>
     \<not> (IssuedAt claims < minRuntimeManifestUnixSecond \<or>
        IssuedAt claims > NotBefore claims \<or>
        NotBefore claims > ValidUntil claims \<or>
        ValidUntil claims > maxRuntimeManifestUnixSecond \<or>
        NotBefore claims - IssuedAt claims > maxRuntimeManifestActivationSkew \<or>
        ValidUntil claims - IssuedAt claims > maxRuntimeManifestSupportSeconds)"

text \<open>The checks on the claims themselves, up to the comparison with the configuration.\<close>

definition validate_claim_values :: "runtimeArtifactClaims \<Rightarrow> unit res" where
  "validate_claim_values claims =
     (if ManifestVersion claims \<noteq> runtimeManifestSchemaVersion
      then Inl ''runtime manifest manifestVersion must be 2''
      else if SDK claims \<noteq> ''go'' then Inl ''runtime manifest sdk must be go''
      else if 64 < length (RuntimeVersion claims) \<or> \<not> runtimeCanonicalVersionPattern (RuntimeVersion claims)
      then Inl ''runtime manifest runtimeVersion is not canonical''
      else if expected_executable (manifest_platform claims) \<noteq> Some (Executable claims)
      then Inl ''runtime manifest platform is unsupported''
      else if Protocol claims < 1 \<or> Protocol claims > 2147483647
      then Inl ''runtime manifest protocol is invalid''
      else if \<not> isLowerHex64 (SHA256 claims) then Inl ''runtime manifest sha256 is not canonical''
      else if ByteLength claims < 1 \<or> ByteLength claims > maxRuntimeArtifactBytes
      then Inl ''runtime manifest byteLength is invalid''
      else if DownloadURL claims \<noteq> expected_url claims
      then Inl ''runtime manifest downloadUrl is not the production artifact URL''
      else if \<not> validity_interval_ok claims
      then Inl ''runtime manifest validity interval is invalid''
      else case find (\<lambda>(_, a, b). a \<noteq> b) (fixed_claims claims) of
             Some (name, _) \<Rightarrow>
               Inl (''runtime manifest '' @ name @ '' does not match the publisher identity'')
           | None \<Rightarrow>
      (case find (\<lambda>(_, v). \<not> runtimeCanonicalGitObjectPattern v) (git_claims claims) of
         Some (name, _) \<Rightarrow> Inl (''runtime manifest '' @ name @ '' is not canonical'')
       | None \<Rightarrow>
      (if RunID claims < 1 \<or> RunID claims > 9999999999999999999 \<or>
          RunAttempt claims < 1 \<or> RunAttempt claims > 1000
       then Inl ''runtime manifest workflow run identity is invalid''
       else case validateCanonicalGoH1 (WrapperSum claims) ''wrapperSum'' of
              Inl e \<Rightarrow> Inl e
            | Inr _ \<Rightarrow>
       (case validateCanonicalGoH1 (WrapperGoModSum claims) ''wrapperGoModSum'' of
          Inl e \<Rightarrow> Inl e
        | Inr _ \<Rightarrow>
       (if 32 < length (Toolchain claims) \<or> \<not> runtimeCanonicalToolchainPattern (Toolchain claims)
        then Inl ''runtime manifest toolchain is not canonical''
        else if prefix ''v0.2.'' (RuntimeVersion claims) \<and> Toolchain claims \<noteq> runtimeManifestV02Toolchain
        then Inl (''runtime manifest toolchain mismatch: v0.2 artifacts require '' @ runtimeManifestV02Toolchain)
        else if \<not> runtimeCanonicalAttestationPattern (AttestationDigest claims)
        then Inl ''runtime manifest attestationDigest is not canonical''
        else Inr ())))))"

definition RuntimeMismatchError :: "string \<Rightarrow> string \<Rightarrow> go_error" where
  "RuntimeMismatchError expected actual =
     ''loadstrike runtime version mismatch: expected '' @ expected @ '', got '' @ actual"

text \<open>\<open>now\<close> is the clock's Unix second, a signed number.\<close>

definition validateRuntimeManifestV2Claims ::
  "runtimeArtifactClaims \<Rightarrow> runtimeResolverConfig \<Rightarrow> int \<Rightarrow> unit res" where
  "validateRuntimeManifestV2Claims claims config now =
     (case validate_claim_values claims of
        Inl e \<Rightarrow> Inl e
      | Inr _ \<Rightarrow>
          if RuntimeVersion claims \<noteq> cfgVersion config
          then Inl (RuntimeMismatchError (cfgVersion config) (RuntimeVersion claims))
          else if OS claims \<noteq> cfgGOOS config \<or> Arch claims \<noteq> cfgGOARCH config
          then Inl (''runtime manifest platform mismatch: expected '' @ cfgGOOS config @ ''-'' @
                    cfgGOARCH config @ '', got '' @ OS claims @ ''-'' @ Arch claims)
          else if Protocol claims \<noteq> word_of_int runtimeProtocolVersion
          then Inl (''loadstrike runtime protocol mismatch: expected '' @ dec_of_int runtimeProtocolVersion
                    @ '', got '' @ dec_of_nat (unat (Protocol claims)))
          else if now < 0 \<or> (word_of_int now :: u64) < NotBefore claims
          then Inl ''runtime manifest is not active''
          else if (word_of_int now :: u64) > ValidUntil claims then Inl ''runtime manifest has expired''
          else Inr ())"

section \<open>Verification of the signatures\<close>

definition trusted_key_ok :: "crypto \<Rightarrow> runtimePublisherTrustedKey \<Rightarrow> bool" where
  "trusted_key_ok cr key \<longleftrightarrow>
     keyAlgorithm key = runtimeManifestSignatureVersion \<and>
     runtimeCanonicalKeyIDPattern (keyKeyID key) \<and>
     length (keyPublicKey key) = 32 \<and>
     keyKeyID key = runtimeManifestPublisherKeyPrefix @ hex_encode (sha256 cr (keyPublicKey key)) \<and>
     minRuntimeManifestUnixSecond \<le> keyActivation key \<and>
     keyActivation key < keyNotAfter key \<and>
     keyNotAfter key \<le> maxRuntimeManifestUnixSecond"

text \<open>The loop that fills the map \<open>trusted\<close>.\<close>

fun collect_trusted ::
  "crypto \<Rightarrow> (string \<rightharpoonup> runtimePublisherTrustedKey) \<Rightarrow> runtimePublisherTrustedKey list
     \<Rightarrow> (string \<rightharpoonup> runtimePublisherTrustedKey) res" where
  "collect_trusted cr trusted [] = Inr trusted"
| "collect_trusted cr trusted (key # keys) =
     (if \<not> trusted_key_ok cr key
      then Inl ''runtime publisher trust keyring contains an invalid key''
      else if trusted (keyKeyID key) \<noteq> None
      then Inl ''runtime publisher trust keyring contains a duplicate fingerprint''
      else collect_trusted cr (trusted(keyKeyID key \<mapsto> key)) keys)"

text \<open>The check of one signature whose key is trusted.\<close>

definition check_trusted_signature ::
  "crypto \<Rightarrow> runtimeArtifactClaims \<Rightarrow> runtimePublisherTrustedKey \<Rightarrow> runtimeArtifactSignature
     \<Rightarrow> string \<Rightarrow> unit res" where
  "check_trusted_signature cr claims key sig decodedSignature =
     (if keyAlgorithm key \<noteq> sigAlgorithm sig
      then Inl ''runtime manifest signature algorithm does not match its trusted key''
      else if IssuedAt claims < keyActivation key \<or> ValidUntil claims > keyNotAfter key
      then Inl ''runtime manifest validity exceeds a trusted publisher key interval''
      else case runtimeManifestV2CanonicalPayload claims (sigAlgorithm sig) (sigKeyID sig) of
             Inl e \<Rightarrow> Inl e
           | Inr payload \<Rightarrow>
               if \<not> ed25519_verify cr (keyPublicKey key) payload decodedSignature
               then Inl ''runtime publisher signature is invalid''
               else Inr ())"

text \<open>
  The loop over the signatures; its state is the set of key identifiers seen, the number of
  trusted signatures that were valid, and the previous key identifier.
\<close>

fun verify_signatures ::
  "crypto \<Rightarrow> runtimeArtifactClaims \<Rightarrow> (string \<rightharpoonup> runtimePublisherTrustedKey)
     \<Rightarrow> runtimeArtifactSignature list \<Rightarrow> string set \<Rightarrow> nat \<Rightarrow> string \<Rightarrow> nat res" where
  "verify_signatures cr claims trusted [] seen trustedValid previousKeyID = Inr trustedValid"
| "verify_signatures cr claims trusted (sig # sigs) seen trustedValid previousKeyID =
     (if sigAlgorithm sig \<noteq> runtimeManifestSignatureVersion \<or>
         \<not> runtimeCanonicalKeyIDPattern (sigKeyID sig)
      then Inl ''runtime manifest signature algorithm or key fingerprint is invalid''
      else if sigKeyID sig \<in> seen
      then Inl ''runtime manifest contains duplicate publisher signatures''
      else if previousKeyID \<noteq> [] \<and> sigKeyID sig \<le> previousKeyID
      then Inl ''runtime manifest publisher signatures are not canonically ordered''
      else case decodeCanonicalPaddedBase64 (sigSignature sig) 64 ''signature'' of
             Inl e \<Rightarrow> Inl e
           | Inr decodedSignature \<Rightarrow>
               (case trusted (sigKeyID sig) of
                  None \<Rightarrow>
                    verify_signatures cr claims trusted sigs (insert (sigKeyID sig) seen)
                      trustedValid (sigKeyID sig)
                | Some key \<Rightarrow>
                    (case check_trusted_signature cr claims key sig decodedSignature of
                       Inl e \<Rightarrow> Inl e
                     | Inr _ \<Rightarrow>
                         verify_signatures cr claims trusted sigs (insert (sigKeyID sig) seen)
                           (Suc trustedValid) (sigKeyID sig))))"

text \<open>\<open>parsed\<close> is what \<open>parseRuntimeManifestV2\<close> makes of the descriptor's bytes.\<close>

definition verifyRuntimeManifestV2 ::
  "crypto \<Rightarrow> runtimeArtifactManifest res \<Rightarrow> runtimeResolverConfig
     \<Rightarrow> runtimePublisherTrustedKey list \<Rightarrow> int \<Rightarrow> runtimeArtifactManifest res" where
  "verifyRuntimeManifestV2 cr parsed config trustedKeys now =
     (if length trustedKeys < 1 \<or> maxRuntimePublisherTrustedKeys < length trustedKeys
      then Inl ''runtime publisher trust keyring is not provisioned''
      else case parsed of
             Inl e \<Rightarrow> Inl e
           | Inr manifest \<Rightarrow>
      (case validateRuntimeManifestV2Claims (Claims manifest) config now of
         Inl e \<Rightarrow> Inl e
       | Inr _ \<Rightarrow>
      (case collect_trusted cr Map.empty trustedKeys of
         Inl e \<Rightarrow> Inl e
       | Inr trusted \<Rightarrow>
      (case verify_signatures cr (Claims manifest) trusted (Signatures manifest) {} 0 [] of
         Inl e \<Rightarrow> Inl e
       | Inr trustedValid \<Rightarrow>
           if trustedValid = 0
           then Inl ''runtime manifest has no trusted valid publisher signature''
           else Inr manifest))))"

section \<open>Lemmas on the encoding\<close>

lemma length_be_bytes [simp]: "length (be_bytes k n) = k"
  by (induction k arbitrary: n) auto

lemma be_bytes_inj: "be_bytes k m = be_bytes k n \<Longrightarrow> m < 256 ^ k \<Longrightarrow> n < 256 ^ k \<Longrightarrow> m = n"
proof (induction k arbitrary: m n)
  case (Suc k)
  then have "m div 256 = n div 256"
    by (auto simp: less_mult_imp_div_less mult.commute)
  moreover from Suc.prems(1) have "byte_nat (char_of (m mod 256)) = byte_nat (char_of (n mod 256))"
    by (metis be_bytes.simps(2) last_snoc)
  then have "m mod 256 = n mod 256" by simp
  ultimately show ?case by (metis div_mod_decomp)
qed simp

lemma be32_inj: "encodeRuntimeManifestUint32 v = encodeRuntimeManifestUint32 w \<Longrightarrow> v = w"
  unfolding encodeRuntimeManifestUint32_def
  using be_bytes_inj[of 4 "unat v" "unat w"] unsigned_less[of v, where 'a = nat] unsigned_less[of w, where 'a = nat]
  by (simp add: word_unat_eq_iff)

lemma be64_inj: "encodeRuntimeManifestUint64 v = encodeRuntimeManifestUint64 w \<Longrightarrow> v = w"
  unfolding encodeRuntimeManifestUint64_def
  using be_bytes_inj[of 8 "unat v" "unat w"] unsigned_less[of v, where 'a = nat] unsigned_less[of w, where 'a = nat]
  by (simp add: word_unat_eq_iff)

text \<open>A sequence of fields with numbers and lengths can be read back in one way.\<close>

lemma tlv_prefix_inj:
  assumes "tlv (i, v) @ r = tlv (i, w) @ r'" and "length v < 256 ^ 4" and "length w < 256 ^ 4"
  shows "v = w \<and> r = r'"
proof -
  from assms(1) have l: "be_bytes 4 (length v) @ v @ r = be_bytes 4 (length w) @ w @ r'"
    by (simp add: tlv_def)
  then have "be_bytes 4 (length v) = be_bytes 4 (length w)" and "v @ r = w @ r'"
    by (simp_all add: append_eq_append_conv)
  with be_bytes_inj[OF this(1) assms(2,3)] show ?thesis by simp
qed

lemma tlvs_inj:
  assumes "concat (map tlv fs) = concat (map tlv gs)" and "map fst fs = map fst gs"
    and "\<forall>f \<in> set fs. length (snd f) < 256 ^ 4" and "\<forall>g \<in> set gs. length (snd g) < 256 ^ 4"
  shows "fs = gs"
  using assms
proof (induction fs arbitrary: gs)
  case (Cons f fs)
  then obtain g gs' where gs: "gs = g # gs'" "fst f = fst g" by (cases gs) auto
  obtain i v w where fg: "f = (i, v)" "g = (i, w)" using gs(2) by (cases f; cases g) auto
  from Cons.prems gs fg have "tlv (i, v) @ concat (map tlv fs) = tlv (i, w) @ concat (map tlv gs')"
    by simp
  then have "v = w \<and> concat (map tlv fs) = concat (map tlv gs')"
    using Cons.prems(3,4) gs fg by (intro tlv_prefix_inj) auto
  with Cons gs fg show ?case by simp
qed simp

lemma field_shorter: "f \<in> set fs \<Longrightarrow> length (snd f) \<le> length (concat (map tlv fs))"
  by (induction fs) (auto simp: tlv_def)

lemma payload_shape:
  assumes "runtimeManifestV2CanonicalPayload c a k = Inr p"
  shows "p = be_bytes 2 37 @ concat (map tlv (manifest_fields c a k))"
    and "\<forall>f \<in> set (manifest_fields c a k). length (snd f) < 256 ^ 4"
    and "a = runtimeManifestSignatureVersion"
proof -
  have n: "length (manifest_fields c a k) = 37" by (simp add: manifest_fields_def)
  from assms show p: "p = be_bytes 2 37 @ concat (map tlv (manifest_fields c a k))"
    and "a = runtimeManifestSignatureVersion"
    by (auto simp: runtimeManifestV2CanonicalPayload_def n Let_def split: if_splits)
  from assms have "length p \<le> maxRuntimeManifestPayloadBytes"
    by (auto simp: runtimeManifestV2CanonicalPayload_def Let_def split: if_splits)
  then show "\<forall>f \<in> set (manifest_fields c a k). length (snd f) < 256 ^ 4"
    using field_shorter[of _ "manifest_fields c a k"] p
    by (fastforce simp: maxRuntimeManifestPayloadBytes_def)
qed

section \<open>Lemmas on the verification\<close>

lemma key_id_not_Nil: "runtimeCanonicalKeyIDPattern k \<Longrightarrow> k \<noteq> []"
  by (auto simp: runtimeCanonicalKeyIDPattern_def)

lemma collect_trusted_spec:
  "collect_trusted cr trusted keys = Inr trusted' \<Longrightarrow>
     (\<forall>k \<in> set keys. trusted_key_ok cr k \<and> trusted' (keyKeyID k) = Some k) \<and>
     (\<forall>i k. trusted' i = Some k \<longrightarrow> trusted i = Some k \<or> k \<in> set keys \<and> keyKeyID k = i) \<and>
     (\<forall>i k. trusted i = Some k \<longrightarrow> trusted' i = Some k)"
proof (induction keys arbitrary: trusted)
  case (Cons key keys)
  then have ok: "trusted_key_ok cr key" "trusted (keyKeyID key) = None"
    and rec: "collect_trusted cr (trusted(keyKeyID key \<mapsto> key)) keys = Inr trusted'"
    by (auto split: if_splits)
  note ih = Cons.IH[OF rec]
  then have new: "trusted' (keyKeyID key) = Some key" by simp
  have "\<forall>i k. trusted' i = Some k \<longrightarrow> trusted i = Some k \<or> k \<in> set (key # keys) \<and> keyKeyID k = i"
  proof (intro allI impI)
    fix i k assume "trusted' i = Some k"
    with ih have "(trusted(keyKeyID key \<mapsto> key)) i = Some k \<or> k \<in> set keys \<and> keyKeyID k = i" by blast
    then show "trusted i = Some k \<or> k \<in> set (key # keys) \<and> keyKeyID k = i"
      by (auto split: if_splits)
  qed
  moreover have "\<forall>i k. trusted i = Some k \<longrightarrow> trusted' i = Some k"
  proof (intro allI impI)
    fix i k assume "trusted i = Some k"
    then have "(trusted(keyKeyID key \<mapsto> key)) i = Some k" using ok(2) by auto
    with ih show "trusted' i = Some k" by blast
  qed
  ultimately show ?case using ih new ok(1) by simp
qed simp

text \<open>What a valid signature of a trusted key is.\<close>

definition signed_by ::
  "crypto \<Rightarrow> runtimeArtifactClaims \<Rightarrow> runtimeArtifactSignature \<Rightarrow> runtimePublisherTrustedKey \<Rightarrow> bool" where
  "signed_by cr claims sig key \<longleftrightarrow>
     sigAlgorithm sig = keyAlgorithm key \<and> sigKeyID sig = keyKeyID key \<and>
     keyActivation key \<le> IssuedAt claims \<and> ValidUntil claims \<le> keyNotAfter key \<and>
     (\<exists>payload bytes.
        runtimeManifestV2CanonicalPayload claims (sigAlgorithm sig) (sigKeyID sig) = Inr payload \<and>
        std_decode (sigSignature sig) = Some bytes \<and> length bytes = 64 \<and>
        ed25519_verify cr (keyPublicKey key) payload bytes)"

lemma decode_canonical_iff:
  "decodeCanonicalPaddedBase64 v n f = Inr bs \<longleftrightarrow>
     v = std_encode bs \<and> length bs = n \<and> v \<noteq> [] \<and> length v \<le> 512"
proof (cases "std_decode v")
  case None
  then have "v \<noteq> std_encode bs" by (metis std_decode_encode option.distinct(1))
  with None show ?thesis by (simp add: decodeCanonicalPaddedBase64_def)
next
  case (Some ds)
  have "decodeCanonicalPaddedBase64 v n f = Inr bs \<longleftrightarrow>
      v \<noteq> [] \<and> length v \<le> 512 \<and> length ds = n \<and> std_encode ds = v \<and> ds = bs"
    using Some by (simp add: decodeCanonicalPaddedBase64_def) argo
  also have "\<dots> \<longleftrightarrow> v = std_encode bs \<and> length bs = n \<and> v \<noteq> [] \<and> length v \<le> 512"
    using Some by (metis std_decode_encode option.inject)
  finally show ?thesis .
qed

lemma check_trusted_signed:
  assumes "check_trusted_signature cr claims key sig d = Inr u" and "keyKeyID key = sigKeyID sig"
    and "decodeCanonicalPaddedBase64 (sigSignature sig) 64 f = Inr d"
  shows "signed_by cr claims sig key"
proof -
  have alg: "keyAlgorithm key = sigAlgorithm sig"
    and int: "\<not> (IssuedAt claims < keyActivation key \<or> ValidUntil claims > keyNotAfter key)"
    using assms(1) by (simp_all add: check_trusted_signature_def split: if_splits)
  obtain payload where p:
    "runtimeManifestV2CanonicalPayload claims (sigAlgorithm sig) (sigKeyID sig) = Inr payload"
    using assms(1) alg int
    by (cases "runtimeManifestV2CanonicalPayload claims (sigAlgorithm sig) (sigKeyID sig)")
      (simp_all add: check_trusted_signature_def)
  have v: "ed25519_verify cr (keyPublicKey key) payload d"
    using assms(1) alg int p by (simp add: check_trusted_signature_def split: if_splits)
  have d: "std_decode (sigSignature sig) = Some d" "length d = 64"
    using assms(3) unfolding decode_canonical_iff by simp_all
  show ?thesis
    unfolding signed_by_def using alg int p v d assms(2) by (simp add: not_less)
qed

lemma verify_signatures_spec:
  assumes "verify_signatures cr claims trusted sigs seen n prev = Inr m"
    and "\<forall>i k. trusted i = Some k \<longrightarrow> keyKeyID k = i"
  shows "(\<forall>s \<in> set sigs. \<forall>k. trusted (sigKeyID s) = Some k \<longrightarrow> signed_by cr claims s k) \<and>
         m = n + length (filter (\<lambda>s. trusted (sigKeyID s) \<noteq> None) sigs) \<and>
         sorted_wrt (<) (map sigKeyID sigs) \<and>
         (\<forall>s \<in> set sigs. sigKeyID s \<notin> seen \<and> (prev \<noteq> [] \<longrightarrow> prev < sigKeyID s))"
  using assms
proof (induction sigs arbitrary: seen n prev)
  case (Cons sig sigs)
  let ?id = "sigKeyID sig"
  from Cons.prems(1) have id: "runtimeCanonicalKeyIDPattern ?id" "?id \<notin> seen"
    "prev \<noteq> [] \<longrightarrow> prev < ?id"
    by (auto split: if_splits)
  obtain d where d: "decodeCanonicalPaddedBase64 (sigSignature sig) 64 ''signature'' = Inr d"
    using Cons.prems(1) by (auto split: if_splits sum.splits)
  have ne: "?id \<noteq> []" using id(1) by (rule key_id_not_Nil)
  show ?case
  proof (cases "trusted ?id")
    case None
    with Cons.prems(1) id d
    have r: "verify_signatures cr claims trusted sigs (insert ?id seen) n ?id = Inr m"
      by (auto split: if_splits)
    from Cons.IH[OF r Cons.prems(2)] None id ne show ?thesis by (auto intro: less_trans)
  next
    case (Some key)
    with Cons.prems(1) id d obtain u where
      c: "check_trusted_signature cr claims key sig d = Inr u"
      and r: "verify_signatures cr claims trusted sigs (insert ?id seen) (Suc n) ?id = Inr m"
      by (auto split: if_splits sum.splits)
    have k: "keyKeyID key = ?id" using Cons.prems(2) Some by simp
    from Cons.IH[OF r Cons.prems(2)] check_trusted_signed[OF c k d] Some id ne
    show ?thesis by (auto intro: less_trans)
  qed
qed auto

text \<open>A descriptor that verifies: the shape of an accepted run.\<close>

lemma verify_accepts:
  assumes "verifyRuntimeManifestV2 cr parsed config keys now = Inr m"
  shows "parsed = Inr m \<and> validateRuntimeManifestV2Claims (Claims m) config now = Inr () \<and>
    (\<exists>trusted n. collect_trusted cr Map.empty keys = Inr trusted \<and>
       verify_signatures cr (Claims m) trusted (Signatures m) {} 0 [] = Inr n \<and> 0 < n)"
proof -
  obtain m' where p: "parsed = Inr m'"
    using assms by (cases parsed) (simp_all add: verifyRuntimeManifestV2_def split: if_splits)
  obtain u where v: "validateRuntimeManifestV2Claims (Claims m') config now = Inr u"
    using assms p by (cases "validateRuntimeManifestV2Claims (Claims m') config now")
      (simp_all add: verifyRuntimeManifestV2_def split: if_splits)
  obtain t where t: "collect_trusted cr Map.empty keys = Inr t"
    using assms p v by (cases "collect_trusted cr Map.empty keys")
      (simp_all add: verifyRuntimeManifestV2_def split: if_splits)
  obtain n where n: "verify_signatures cr (Claims m') t (Signatures m') {} 0 [] = Inr n"
    using assms p v t by (cases "verify_signatures cr (Claims m') t (Signatures m') {} 0 []")
      (simp_all add: verifyRuntimeManifestV2_def split: if_splits)
  from assms p v t n have "m' = m \<and> 0 < n"
    by (simp add: verifyRuntimeManifestV2_def split: if_splits)
  with p v t n show ?thesis by auto
qed

section \<open>Properties\<close>

text \<open>A manifest, a key and a configuration for the concrete instances below.\<close>

definition sample_h1 :: string where
  "sample_h1 = ''h1:'' @ std_encode (replicate 32 CHR 0x00)"

definition sample_claims :: runtimeArtifactClaims where
  "sample_claims =
    \<lparr> Arch = ''amd64'', AttestationDigest = ''sha256:'' @ replicate 64 CHR ''0'',
      AttestationMediaType = runtimeManifestAttestationMedia,
      BuildFlags = expectedRuntimeManifestBuildFlags ''v0.2.3'', ByteLength = 1000,
      DownloadURL = ''https://licensing.loadstrike.com/runtime/v0.2.3/go/linux-amd64/loadstrike-runtime'',
      Executable = ''loadstrike-runtime'', IssuedAt = 1750000000, ManifestVersion = 2,
      NotBefore = 1750000000, OS = ''linux'', Protocol = 2, Publisher = ''LoadStrike'',
      ReleaseID = ''go-runtime/v0.2.3/linux-amd64'', Repository = ''Meticulis/LoadStrike'',
      RunAttempt = 1, RunID = 7, RuntimeVersion = ''v0.2.3'', SDK = ''go'',
      SHA256 = replicate 64 CHR ''a'', SourceRef = ''refs/heads/main'',
      SourceSHA = replicate 40 CHR ''b'', Toolchain = ''go1.26.8'', ValidUntil = 1760000000,
      WorkflowIdentity = runtimeManifestWorkflowIdentity, WrapperCommit = replicate 40 CHR ''c'',
      WrapperGoModSum = sample_h1, WrapperModule = ''loadstrike.com/sdk/go'',
      WrapperSum = sample_h1, WrapperTagObject = replicate 40 CHR ''d'',
      WrapperTree = replicate 40 CHR ''e'', WrapperVersion = ''v0.2.3'' \<rparr>"

definition sample_config :: runtimeResolverConfig where
  "sample_config = \<lparr>cfgVersion = ''v0.2.3'', cfgGOOS = ''linux'', cfgGOARCH = ''amd64''\<rparr>"

definition sample_key_id :: string where
  "sample_key_id = ''sha256:'' @ replicate 64 CHR ''0''"

definition sample_crypto :: crypto where
  "sample_crypto = \<lparr>sha256 = (\<lambda>s. replicate 32 (if s = replicate 32 CHR ''k'' then CHR 0x00 else CHR 0xAA)),
     ed25519_verify = (\<lambda>key payload sig. length sig = 64)\<rparr>"

definition sample_key :: runtimePublisherTrustedKey where
  "sample_key = \<lparr>keyAlgorithm = runtimeManifestSignatureVersion, keyKeyID = sample_key_id,
     keyPublicKey = replicate 32 CHR ''k'', keyActivation = 1700000000, keyNotAfter = 1900000000\<rparr>"

definition sample_manifest :: runtimeArtifactManifest where
  "sample_manifest = \<lparr>SchemaVersion = 2, Claims = sample_claims,
     Signatures = [\<lparr>sigAlgorithm = runtimeManifestSignatureVersion, sigKeyID = sample_key_id,
       sigSignature = std_encode (replicate 64 CHR ''s'')\<rparr>], canonicalJSON = []\<rparr>"

lemma std_encode_bounds: "0 < length s \<Longrightarrow> length s \<le> 96 \<Longrightarrow> std_encode s \<noteq> [] \<and> length (std_encode s) \<le> 512"
proof -
  assume l: "0 < length s" "length s \<le> 96"
  then have "0 < (length s + 2) div 3 \<and> (length s + 2) div 3 \<le> 33" by linarith
  then have "0 < length (std_encode s) \<and> length (std_encode s) \<le> 512"
    by (simp add: length_std_encode)
  then show ?thesis by auto
qed

lemma decode_canonical_encode:
  "0 < length s \<Longrightarrow> length s \<le> 96 \<Longrightarrow> decodeCanonicalPaddedBase64 (std_encode s) (length s) f = Inr s"
  using std_encode_bounds[of s] unfolding decode_canonical_iff by simp

lemma sample_h1_valid: "validateCanonicalGoH1 sample_h1 f = Inr ()"
  using decode_canonical_encode[of "replicate 32 CHR 0x00" f]
  by (simp add: validateCanonicalGoH1_def sample_h1_def trim_prefix_def)

lemma hex_chars [simp]: "is_lower_hex CHR ''0''" "is_lower_hex CHR ''a''" "is_lower_hex CHR ''b''"
  "is_lower_hex CHR ''c''" "is_lower_hex CHR ''d''" "is_lower_hex CHR ''e''"
  by (simp_all add: is_lower_hex_def is_digit_def byte_nat_def)

lemma sample_versions:
  "runtimeCanonicalVersionPattern ''v0.2.3''" "runtimeCanonicalToolchainPattern ''go1.26.8''"
  by (simp_all add: runtimeCanonicalVersionPattern_def runtimeCanonicalToolchainPattern_def
      dotted_triple_def canonical_number_def is_digit_def byte_nat_def)

lemmas sample_constants =
  runtimeManifestSchemaVersion_def maxRuntimeArtifactBytes_def minRuntimeManifestUnixSecond_def
  maxRuntimeManifestUnixSecond_def maxRuntimeManifestActivationSkew_def maxRuntimeManifestSupportSeconds_def
  runtimeManifestPublisher_def runtimeManifestRepository_def runtimeManifestSourceRef_def
  runtimeManifestWrapperModule_def runtimeManifestV02Toolchain_def runtimeManifestProductionOrigin_def

lemma sample_values_valid: "validate_claim_values sample_claims = Inr ()"
  by (simp add: validate_claim_values_def sample_claims_def sample_h1_valid sample_versions
      sample_constants expected_executable_def manifest_platform_def expected_url_def
      validity_interval_ok_def fixed_claims_def git_claims_def isLowerHex64_def list_all_iff
      runtimeCanonicalGitObjectPattern_def runtimeCanonicalAttestationPattern_def)

lemma sample_claims_valid:
  "validateRuntimeManifestV2Claims sample_claims sample_config 1755000000 = Inr ()"
  unfolding validateRuntimeManifestV2Claims_def sample_values_valid
  by (simp add: sample_claims_def sample_config_def runtimeProtocolVersion_def)

lemma sample_key_id_ok: "runtimeCanonicalKeyIDPattern sample_key_id"
  by (simp add: runtimeCanonicalKeyIDPattern_def sample_key_id_def isLowerHex64_def list_all_iff)

lemma strict_ascii_simps [simp]:
  "isStrictASCII (s @ t) = (isStrictASCII s \<and> isStrictASCII t)"
  "isStrictASCII (c # s) = (byte_nat c \<le> 127 \<and> isStrictASCII s)"
  "isStrictASCII []"
  "isStrictASCII (replicate n c) = (n = 0 \<or> byte_nat c \<le> 127)"
  by (auto simp: isStrictASCII_def list_all_iff)

lemma std_encode_ascii [simp]: "isStrictASCII (std_encode s)"
proof -
  have "byte_nat c \<le> 127" if "c \<in> set (std_encode s)" for c
  proof -
    from that have "c = pad_char \<or> (\<exists>n < 64. c = std_enc n)"
      using std.encode_digits[of c True s] by (auto simp: std_encode_def)
    then show ?thesis by (auto simp: std_enc_bytes pad_char_def)
  qed
  then show ?thesis by (simp add: isStrictASCII_def list_all_iff)
qed

lemma length_tlv [simp]: "length (tlv e) = 6 + length (snd e)"
  by (simp add: tlv_def)

lemma sample_payload:
  "\<exists>p. runtimeManifestV2CanonicalPayload sample_claims runtimeManifestSignatureVersion sample_key_id = Inr p"
proof -
  let ?fs = "manifest_fields sample_claims runtimeManifestSignatureVersion sample_key_id"
  have "\<not> list_ex (\<lambda>(fid, v). \<not> runtimeManifestNumericField fid \<and> \<not> isStrictASCII v) ?fs"
    by (simp add: manifest_fields_def sample_claims_def sample_h1_def sample_key_id_def byte_nat_def
      runtimeManifestNumericField_def sample_constants runtimeManifestAttestationMedia_def
      runtimeManifestWorkflowIdentity_def expectedRuntimeManifestBuildFlags_def
      runtimeManifestSignatureDomain_def runtimeManifestSignaturePurpose_def
      runtimeManifestSignatureVersion_def)
  moreover have "length (be_bytes 2 37 @ concat (map tlv ?fs)) \<le> maxRuntimeManifestPayloadBytes"
    by (simp add: manifest_fields_def sample_claims_def sample_h1_def sample_key_id_def
      encodeRuntimeManifestUint32_def encodeRuntimeManifestUint64_def length_std_encode
      maxRuntimeManifestPayloadBytes_def sample_constants runtimeManifestAttestationMedia_def
      runtimeManifestWorkflowIdentity_def expectedRuntimeManifestBuildFlags_def
      runtimeManifestSignatureDomain_def runtimeManifestSignaturePurpose_def
      runtimeManifestSignatureVersion_def del: be_bytes.simps)
  moreover have "length ?fs = 37" by (simp add: manifest_fields_def)
  ultimately show ?thesis
    by (simp add: runtimeManifestV2CanonicalPayload_def sample_key_id_ok Let_def not_less del: be_bytes.simps)
qed

lemma hex_encode_zeros: "hex_encode (replicate n CHR 0x00) = replicate (2 * n) CHR ''0''"
proof (induction n)
  case (Suc n)
  have "byte_nat CHR 0x00 = 0" "hex_digit 0 = CHR ''0''"
    by (simp_all add: byte_nat_def hex_digit_def char_of_def bit_0)
  with Suc show ?case by (simp add: hex_encode_def)
qed (simp add: hex_encode_def)

lemma sample_key_trusted: "trusted_key_ok sample_crypto sample_key"
proof -
  have "runtimeManifestPublisherKeyPrefix @ hex_encode (replicate 32 CHR 0x00) = sample_key_id"
    by (simp only: hex_encode_zeros) (simp add: sample_key_id_def runtimeManifestPublisherKeyPrefix_def)
  then show ?thesis
    using sample_key_id_ok
    by (simp add: trusted_key_ok_def sample_key_def sample_crypto_def
        minRuntimeManifestUnixSecond_def maxRuntimeManifestUnixSecond_def)
qed

lemma sample_signature_decodes:
  "decodeCanonicalPaddedBase64 (std_encode (replicate 64 CHR ''s'')) 64 f = Inr (replicate 64 CHR ''s'')"
  using decode_canonical_encode[of "replicate 64 CHR ''s''" f] by simp

lemma sample_signature_checks:
  "check_trusted_signature sample_crypto sample_claims sample_key
     \<lparr>sigAlgorithm = runtimeManifestSignatureVersion, sigKeyID = sample_key_id,
       sigSignature = std_encode (replicate 64 CHR ''s'')\<rparr> (replicate 64 CHR ''s'') = Inr ()"
  using sample_payload
  by (auto simp: check_trusted_signature_def sample_key_def sample_claims_def sample_crypto_def)

lemma sample_verifies:
  "verifyRuntimeManifestV2 sample_crypto (Inr sample_manifest) sample_config [sample_key] 1755000000
     = Inr sample_manifest"
proof -
  have "keyKeyID sample_key = sample_key_id" by (simp add: sample_key_def)
  then show ?thesis
    using sample_key_trusted sample_signature_decodes sample_signature_checks sample_claims_valid sample_key_id_ok
    by (simp add: verifyRuntimeManifestV2_def sample_manifest_def maxRuntimePublisherTrustedKeys_def)
qed

text \<open>
  C2: The payload that publishers sign determines everything it covers: two pairs of claims and
  key identity with the same canonical payload are the same claims, algorithm and key. So a
  signature over one manifest is a signature over no other.
\<close>

theorem manifest_payload_injective:
  assumes "runtimeManifestV2CanonicalPayload c a k = Inr p"
    and "runtimeManifestV2CanonicalPayload c' a' k' = Inr p"
  shows "c = c' \<and> a = a' \<and> k = k'"
proof -
  from payload_shape(1)[OF assms(1)] payload_shape(1)[OF assms(2)]
  have eq: "concat (map tlv (manifest_fields c a k)) = concat (map tlv (manifest_fields c' a' k'))"
    by simp
  have "map fst (manifest_fields c a k) = map fst (manifest_fields c' a' k')"
    by (simp add: manifest_fields_def)
  from tlvs_inj[OF eq this payload_shape(2)[OF assms(1)] payload_shape(2)[OF assms(2)]]
  have "manifest_fields c a k = manifest_fields c' a' k'" .
  then show ?thesis
    by (cases c; cases c') (auto simp: manifest_fields_def dest: be32_inj be64_inj)
qed

lemma manifest_payload_injective_witness:
  "\<exists>p. runtimeManifestV2CanonicalPayload sample_claims runtimeManifestSignatureVersion sample_key_id = Inr p \<and>
     runtimeManifestV2CanonicalPayload (sample_claims\<lparr>ByteLength := 1001\<rparr>)
       runtimeManifestSignatureVersion sample_key_id \<noteq> Inr p"
proof -
  obtain p where p:
    "runtimeManifestV2CanonicalPayload sample_claims runtimeManifestSignatureVersion sample_key_id = Inr p"
    using sample_payload by blast
  moreover have "sample_claims \<noteq> sample_claims\<lparr>ByteLength := 1001\<rparr>"
    by (simp add: sample_claims_def)
  ultimately show ?thesis using manifest_payload_injective[OF p] by metis
qed

text \<open>
  C1: A descriptor that verifies was signed: its claims are valid for the resolver's
  configuration at the current second, the keyring is a set of well-formed keys without repeated
  fingerprints, at least one signature is by a key of the keyring, and every signature that names
  a key of the keyring is a valid signature of that key, over these claims, within the key's
  lifetime. The signatures are in strictly ascending order of their keys.
\<close>

theorem verify_accepts_only_signed:
  assumes "verifyRuntimeManifestV2 cr parsed config keys now = Inr m"
  shows "parsed = Inr m \<and> validateRuntimeManifestV2Claims (Claims m) config now = Inr () \<and>
    (\<forall>k \<in> set keys. trusted_key_ok cr k) \<and>
    (\<exists>s \<in> set (Signatures m). \<exists>k \<in> set keys. signed_by cr (Claims m) s k) \<and>
    (\<forall>s \<in> set (Signatures m). \<forall>k \<in> set keys.
       sigKeyID s = keyKeyID k \<longrightarrow> signed_by cr (Claims m) s k) \<and>
    sorted_wrt (<) (map sigKeyID (Signatures m))"
proof -
  from verify_accepts[OF assms] obtain trusted n where
    base: "parsed = Inr m" "validateRuntimeManifestV2Claims (Claims m) config now = Inr ()"
    and t: "collect_trusted cr Map.empty keys = Inr trusted"
    and v: "verify_signatures cr (Claims m) trusted (Signatures m) {} 0 [] = Inr n" "0 < n"
    by blast
  note ts = collect_trusted_spec[OF t]
  then have ids: "\<forall>i k. trusted i = Some k \<longrightarrow> keyKeyID k = i \<and> k \<in> set keys" by auto
  have vs: "(\<forall>s \<in> set (Signatures m). \<forall>k. trusted (sigKeyID s) = Some k \<longrightarrow> signed_by cr (Claims m) s k) \<and>
     n = length (filter (\<lambda>s. trusted (sigKeyID s) \<noteq> None) (Signatures m)) \<and>
     sorted_wrt (<) (map sigKeyID (Signatures m))"
    using verify_signatures_spec[OF v(1)] ids by simp
  with v(2) obtain s where "s \<in> set (Signatures m)" "trusted (sigKeyID s) \<noteq> None"
    by (auto simp: length_greater_0_conv filter_empty_conv)
  then have "\<exists>s \<in> set (Signatures m). \<exists>k \<in> set keys. signed_by cr (Claims m) s k"
    using vs ids by blast
  moreover have "\<forall>s \<in> set (Signatures m). \<forall>k \<in> set keys.
      sigKeyID s = keyKeyID k \<longrightarrow> signed_by cr (Claims m) s k"
    using vs ts by metis
  ultimately show ?thesis using base ts vs by blast
qed

lemma verify_accepts_only_signed_witness:
  "signed_by sample_crypto sample_claims (hd (Signatures sample_manifest)) sample_key"
proof -
  have "set (Signatures sample_manifest) = {hd (Signatures sample_manifest)}"
    "Claims sample_manifest = sample_claims" by (simp_all add: sample_manifest_def)
  with verify_accepts_only_signed[OF sample_verifies] show ?thesis by auto
qed

text \<open>
  Claims that pass validation are in force now, and bounded: issued not more than five
  minutes before they become active, current second within \<open>NotBefore\<close> and \<open>ValidUntil\<close>, a support
  period of at most 1095 days, an artifact of 1 to 128 MiB, the configured version, platform and
  protocol, and the production URL of that version and platform.
\<close>

theorem accepted_claims_in_force:
  assumes "validateRuntimeManifestV2Claims c config now = Inr ()" and "now < 2 ^ 64"
  shows "0 \<le> now \<and> uint (NotBefore c) \<le> now \<and> now \<le> uint (ValidUntil c) \<and>
    uint (IssuedAt c) \<le> uint (NotBefore c) \<and> uint (NotBefore c) - uint (IssuedAt c) \<le> 300 \<and>
    uint (ValidUntil c) - uint (IssuedAt c) \<le> 1095 * 86400 \<and>
    1 \<le> uint (ByteLength c) \<and> uint (ByteLength c) \<le> 134217728 \<and>
    RuntimeVersion c = cfgVersion config \<and> OS c = cfgGOOS config \<and> Arch c = cfgGOARCH config \<and>
    Protocol c = 2 \<and> DownloadURL c = expected_url c \<and>
    expected_executable (cfgGOOS config @ ''-'' @ cfgGOARCH config) = Some (Executable c)"
proof -
  have v: "validate_claim_values c = Inr ()"
    using assms(1) by (auto simp: validateRuntimeManifestV2Claims_def split: sum.splits)
  have cfg: "RuntimeVersion c = cfgVersion config" "OS c = cfgGOOS config" "Arch c = cfgGOARCH config"
    "Protocol c = 2" "0 \<le> now" "NotBefore c \<le> word_of_int now" "word_of_int now \<le> ValidUntil c"
    using assms(1) v
    by (auto simp: validateRuntimeManifestV2Claims_def runtimeProtocolVersion_def not_less split: if_splits)
  have vals: "expected_executable (manifest_platform c) = Some (Executable c)"
    "ByteLength c \<noteq> 0" "ByteLength c \<le> maxRuntimeArtifactBytes" "DownloadURL c = expected_url c"
    "validity_interval_ok c"
    using v by (auto simp: validate_claim_values_def not_less split: if_splits)
  have "uint (word_of_int now :: u64) = now"
    using cfg(5) assms(2) by (simp add: unsigned_of_int take_bit_int_eq_self)
  moreover have "uint (IssuedAt c) \<le> uint (NotBefore c)" "uint (NotBefore c) \<le> uint (ValidUntil c)"
    using vals(5) by (auto simp: validity_interval_ok_def not_less word_le_def)
  moreover have "uint (NotBefore c - IssuedAt c) \<le> 300" "uint (ValidUntil c - IssuedAt c) \<le> 1095 * 86400"
    using vals(5) by (auto simp: validity_interval_ok_def not_less word_le_def
        maxRuntimeManifestActivationSkew_def maxRuntimeManifestSupportSeconds_def)
  moreover have "uint (ByteLength c) \<le> 134217728"
    using vals(3) by (simp add: word_le_def maxRuntimeArtifactBytes_def)
  moreover have "uint (ByteLength c) \<noteq> 0" using vals(2) by (simp add: uint_0_iff)
  then have "1 \<le> uint (ByteLength c)" using uint_ge_0[of "ByteLength c"] by linarith
  ultimately show ?thesis
    using cfg vals(1,4) by (simp add: word_le_def uint_sub_if' manifest_platform_def split: if_splits)
qed

lemma accepted_claims_in_force_witness:
  "expected_executable (cfgGOOS sample_config @ ''-'' @ cfgGOARCH sample_config) = Some (Executable sample_claims)
     \<and> uint (ByteLength sample_claims) \<le> 134217728"
  using accepted_claims_in_force[OF sample_claims_valid] by simp

text \<open>
  A base64 field is accepted exactly when it is the padded encoding, of at most 512
  characters, of some bytes of the expected length, and then it is read as those bytes: no field
  has two accepted spellings.
\<close>

theorem base64_field_canonical:
  "decodeCanonicalPaddedBase64 v n f = Inr bs \<longleftrightarrow>
     v = std_encode bs \<and> length bs = n \<and> v \<noteq> [] \<and> length v \<le> 512"
  by (rule decode_canonical_iff)

end
