(* ===== verification/Unix_Files.thy ===== *)
theory Unix_Files
  imports Go_Paths Manifest "HOL-Library.AList"
begin

unbundle bit_operations_syntax

text \<open>
  What the SDK uses of the operating system and of Go's \<open>os\<close>, \<open>io\<close> and \<open>net/http\<close>: a Unix file
  system with links, permissions and open files, and an HTTP client that answers from an oracle.

  Every system call first lets other processes do to the files whatever \<open>meddle\<close> says, and may then
  fail with whatever error \<open>fault\<close> says; so the permission checks of the kernel are among the faults.
  An operation of several calls (\<open>EvalSymlinks\<close>, \<open>RemoveAll\<close>) is one call here. The model is Unix;
  Windows has code of its own, which is not modelled.
\<close>

section \<open>Files\<close>

datatype node_kind = Regular string | Directory | Symlink path | Special

record node =
  nd_kind :: node_kind
  nd_uid :: nat
  nd_perm :: u32
  nd_links :: nat
  nd_mtime :: nat

record files =
  names :: "(path \<times> nat) list"
  nodes :: "nat \<rightharpoonup> node"

record open_file =
  of_node :: nat
  of_offset :: nat

definition entry :: "files \<Rightarrow> path \<rightharpoonup> nat" where
  "entry fs = map_of (names fs)"

text \<open>
  The place a path leads to when links are followed; the targets of links are kept absolute. The
  number is how many links the kernel follows.
\<close>

function walk :: "nat \<Rightarrow> files \<Rightarrow> path \<Rightarrow> path \<Rightarrow> path option" where
  "walk k fs at [] = Some at"
| "walk k fs at (c # cs) =
     (case Option.bind (entry fs (at @ [c])) (nodes fs) of
        None \<Rightarrow> None
      | Some n \<Rightarrow>
          (case nd_kind n of
             Symlink target \<Rightarrow> (case k of 0 \<Rightarrow> None | Suc k' \<Rightarrow> walk k' fs [] (target @ cs))
           | _ \<Rightarrow> walk k fs (at @ [c]) cs))"
  by pat_completeness auto
termination
  by (relation "measures [\<lambda>(k, fs, at, cs). k, \<lambda>(k, fs, at, cs). length cs]") auto

definition place :: "files \<Rightarrow> path \<Rightarrow> path option" where
  "place fs p = (if p = [] then Some [] else map_option (\<lambda>d. d @ [last p]) (walk 40 fs [] (butlast p)))"

text \<open>The entry itself, and what it leads to.\<close>

definition look :: "files \<Rightarrow> path \<Rightarrow> nat option" where
  "look fs p = Option.bind (place fs p) (entry fs)"

definition follow :: "files \<Rightarrow> path \<Rightarrow> nat option" where
  "follow fs p = Option.bind (walk 40 fs [] p) (entry fs)"

definition is_directory :: "files \<Rightarrow> path \<Rightarrow> bool" where
  "is_directory fs p \<longleftrightarrow> map_option nd_kind (Option.bind (entry fs p) (nodes fs)) = Some Directory"

datatype file_type = TRegular | TDirectory | TLink | TOther

record file_info =
  fi_node :: nat
  fi_type :: file_type
  fi_perm :: u32
  fi_uid :: nat
  fi_links :: nat
  fi_size :: nat
  fi_mtime :: nat

fun type_of :: "node_kind \<Rightarrow> file_type" where
  "type_of (Regular s) = TRegular"
| "type_of Directory = TDirectory"
| "type_of (Symlink t) = TLink"
| "type_of Special = TOther"

fun content :: "node_kind \<Rightarrow> string" where
  "content (Regular s) = s"
| "content _ = []"

definition info_of :: "nat \<Rightarrow> node \<Rightarrow> file_info" where
  "info_of i n =
     \<lparr>fi_node = i, fi_type = type_of (nd_kind n), fi_perm = nd_perm n AND 0x1FF, fi_uid = nd_uid n,
      fi_links = nd_links n, fi_size = length (content (nd_kind n)), fi_mtime = nd_mtime n\<rparr>"

definition SameFile :: "file_info \<Rightarrow> file_info \<Rightarrow> bool" where
  "SameFile a b \<longleftrightarrow> fi_node a = fi_node b"

section \<open>The world and its surroundings\<close>

record http_request =
  rq_method :: string
  rq_url :: string
  rq_body :: string

record 'u http_response =
  rs_status :: int
  rs_type :: string
  rs_length :: int
  rs_url :: "'u option"
  rs_chunks :: "string list"
  rs_error :: "string option"

datatype 'u http_answer = Unreachable string | Redirected string | Answered "'u http_response"

record world =
  w_files :: files
  w_open :: "nat \<rightharpoonup> open_file"
  w_bodies :: nat
  w_requests :: "http_request list"
  w_calls :: nat

record 'u surroundings =
  fault :: "nat \<Rightarrow> string option"
  meddle :: "nat \<Rightarrow> files \<Rightarrow> files"
  written :: "nat \<Rightarrow> nat"
  pick_fd :: "nat \<Rightarrow> nat"
  pick_node :: "nat \<Rightarrow> nat"
  pick_name :: "nat \<Rightarrow> string"
  tick :: "nat \<Rightarrow> nat"
  answer :: "nat \<Rightarrow> http_request \<Rightarrow> 'u http_answer"
  euid :: nat
  umask :: u32

section \<open>Programs with effects\<close>

type_synonym 'a io = "world \<Rightarrow> 'a res \<times> world"

definition io_return :: "'a \<Rightarrow> 'a io" where
  "io_return x w = (Inr x, w)"

definition io_fail :: "go_error \<Rightarrow> 'a io" where
  "io_fail e w = (Inl e, w)"

definition io_bind :: "'a io \<Rightarrow> ('a \<Rightarrow> 'b io) \<Rightarrow> 'b io" where
  "io_bind m f w = (case m w of (Inl e, w') \<Rightarrow> (Inl e, w') | (Inr x, w') \<Rightarrow> f x w')"

definition io_then :: "unit io \<Rightarrow> 'b io \<Rightarrow> 'b io" where
  "io_then m k = io_bind m (\<lambda>_. k)"

text \<open>An early return with an error, and a result that was computed without effects.\<close>

definition io_guard :: "bool \<Rightarrow> go_error \<Rightarrow> unit io" where
  "io_guard b e = (if b then io_return () else io_fail e)"

definition io_lift :: "'a res \<Rightarrow> 'a io" where
  "io_lift r w = (r, w)"

text \<open>\<open>fmt.Errorf\<close> around an error, an error as a value, and \<open>defer\<close> with its result dropped.\<close>

definition io_map_error :: "(go_error \<Rightarrow> go_error) \<Rightarrow> 'a io \<Rightarrow> 'a io" where
  "io_map_error f m w = (case m w of (Inl e, w') \<Rightarrow> (Inl (f e), w') | (Inr x, w') \<Rightarrow> (Inr x, w'))"

definition io_wrap :: "string \<Rightarrow> 'a io \<Rightarrow> 'a io" where
  "io_wrap label m = io_map_error (\<lambda>e. label @ e) m"

definition io_try :: "'a io \<Rightarrow> 'a res io" where
  "io_try m w = (case m w of (r, w') \<Rightarrow> (Inr r, w'))"

definition io_defer :: "unit io \<Rightarrow> 'a io \<Rightarrow> 'a io" where
  "io_defer c m w = (case m w of (r, w') \<Rightarrow> (r, snd (c w')))"

definition io_on_error :: "unit io \<Rightarrow> 'a io \<Rightarrow> 'a io" where
  "io_on_error c m w = (case m w of (Inl e, w') \<Rightarrow> (Inl e, snd (c w')) | (Inr x, w') \<Rightarrow> (Inr x, w'))"

lemma io_wrap_on_error: "io_wrap l (io_on_error c m) = io_on_error c (io_wrap l m)"
  by (rule ext) (auto simp: io_wrap_def io_map_error_def io_on_error_def split: prod.splits sum.splits)

lemma io_bind_cong [fundef_cong]:
  "m w = m' w' \<Longrightarrow> (\<And>x v. m' w' = (Inr x, v) \<Longrightarrow> f x v = f' x v) \<Longrightarrow> io_bind m f w = io_bind m' f' w'"
  by (auto simp: io_bind_def split: prod.splits sum.splits)

section \<open>System calls\<close>

definition not_exist :: go_error where "not_exist = ''no such file or directory''"

definition sys :: "'u surroundings \<Rightarrow> (nat \<Rightarrow> 'a io) \<Rightarrow> 'a io" where
  "sys env f w =
     (let n = w_calls w;
          w' = w\<lparr>w_files := meddle env n (w_files w), w_calls := Suc n\<rparr> in
      case fault env n of Some e \<Rightarrow> (Inl e, w') | None \<Rightarrow> f n w')"

definition with_node :: "nat option \<Rightarrow> (nat \<Rightarrow> node \<Rightarrow> 'a io) \<Rightarrow> 'a io" where
  "with_node i f w =
     (case i of
        None \<Rightarrow> (Inl not_exist, w)
      | Some j \<Rightarrow> (case nodes (w_files w) j of None \<Rightarrow> (Inl not_exist, w) | Some n \<Rightarrow> f j n w))"

definition with_file :: "nat \<Rightarrow> (open_file \<Rightarrow> 'a io) \<Rightarrow> 'a io" where
  "with_file fd f w = (case w_open w fd of None \<Rightarrow> (Inl ''file already closed'', w) | Some file \<Rightarrow> f file w)"

definition set_node :: "nat \<Rightarrow> node \<Rightarrow> world \<Rightarrow> world" where
  "set_node i n w = w\<lparr>w_files := (w_files w)\<lparr>nodes := (nodes (w_files w))(i \<mapsto> n)\<rparr>\<rparr>"

definition set_offset :: "nat \<Rightarrow> open_file \<Rightarrow> nat \<Rightarrow> world \<Rightarrow> world" where
  "set_offset fd file off w = w\<lparr>w_open := (w_open w)(fd \<mapsto> file\<lparr>of_offset := off\<rparr>)\<rparr>"

definition os_Lstat :: "'u surroundings \<Rightarrow> path \<Rightarrow> file_info io" where
  "os_Lstat env p = sys env (\<lambda>_ w. with_node (look (w_files w) p) (\<lambda>i n. io_return (info_of i n)) w)"

definition os_EvalSymlinks :: "'u surroundings \<Rightarrow> path \<Rightarrow> path io" where
  "os_EvalSymlinks env p =
     sys env (\<lambda>_ w. case walk 255 (w_files w) [] p of None \<Rightarrow> (Inl not_exist, w) | Some q \<Rightarrow> (Inr q, w))"

definition open_fd :: "'u surroundings \<Rightarrow> nat \<Rightarrow> nat \<Rightarrow> nat io" where
  "open_fd env k i w =
     (let fd = pick_fd env k in
      if w_open w fd \<noteq> None then (Inl ''too many open files'', w)
      else (Inr fd, w\<lparr>w_open := (w_open w)(fd \<mapsto> \<lparr>of_node = i, of_offset = 0\<rparr>)\<rparr>))"

text \<open>\<open>open\<close> with \<open>O_RDONLY\<close>, \<open>O_NOFOLLOW\<close> and, for a directory, \<open>O_DIRECTORY\<close>.\<close>

definition os_OpenNoFollow :: "'u surroundings \<Rightarrow> path \<Rightarrow> bool \<Rightarrow> nat io" where
  "os_OpenNoFollow env p directory =
     sys env (\<lambda>k w. with_node (look (w_files w) p) (\<lambda>i n.
       if type_of (nd_kind n) = TLink then io_fail ''too many levels of symbolic links''
       else if directory \<and> nd_kind n \<noteq> Directory then io_fail ''not a directory''
       else open_fd env k i) w)"

definition os_Open :: "'u surroundings \<Rightarrow> path \<Rightarrow> nat io" where
  "os_Open env p = sys env (\<lambda>k w. with_node (follow (w_files w) p) (\<lambda>i n. open_fd env k i) w)"

definition os_Close :: "'u surroundings \<Rightarrow> nat \<Rightarrow> unit io" where
  "os_Close env fd w =
     (case sys env (\<lambda>_. io_return ()) w of (r, w') \<Rightarrow> (r, w'\<lparr>w_open := (w_open w')(fd := None)\<rparr>))"

definition os_Fstat :: "'u surroundings \<Rightarrow> nat \<Rightarrow> file_info io" where
  "os_Fstat env fd =
     sys env (\<lambda>_. with_file fd (\<lambda>file. with_node (Some (of_node file)) (\<lambda>i n. io_return (info_of i n))))"

definition os_Fchmod :: "'u surroundings \<Rightarrow> nat \<Rightarrow> u32 \<Rightarrow> unit io" where
  "os_Fchmod env fd mode =
     sys env (\<lambda>_. with_file fd (\<lambda>file. with_node (Some (of_node file)) (\<lambda>i n w.
       (Inr (), set_node i (n\<lparr>nd_perm := mode\<rparr>) w))))"

definition os_Chmod :: "'u surroundings \<Rightarrow> path \<Rightarrow> u32 \<Rightarrow> unit io" where
  "os_Chmod env p mode =
     sys env (\<lambda>_ w. with_node (follow (w_files w) p) (\<lambda>i n w. (Inr (), set_node i (n\<lparr>nd_perm := mode\<rparr>) w)) w)"

definition os_Seek0 :: "'u surroundings \<Rightarrow> nat \<Rightarrow> unit io" where
  "os_Seek0 env fd = sys env (\<lambda>_. with_file fd (\<lambda>file w. (Inr (), set_offset fd file 0 w)))"

definition os_Read :: "'u surroundings \<Rightarrow> nat \<Rightarrow> nat \<Rightarrow> string io" where
  "os_Read env fd count =
     sys env (\<lambda>_. with_file fd (\<lambda>file. with_node (Some (of_node file)) (\<lambda>i n w.
       let s = take count (drop (of_offset file) (content (nd_kind n))) in
       (Inr s, set_offset fd file (of_offset file + length s) w))))"

text \<open>A write that fails may have written some of the bytes.\<close>

definition write_at :: "nat \<Rightarrow> nat \<Rightarrow> string \<Rightarrow> unit io" where
  "write_at fd time s =
     with_file fd (\<lambda>file. with_node (Some (of_node file)) (\<lambda>i n w.
       let c = content (nd_kind n); off = of_offset file in
       (Inr (), set_offset fd file (off + length s)
          (set_node i (n\<lparr>nd_kind := Regular (take off c @ s @ drop (off + length s) c), nd_mtime := time\<rparr>) w))))"

definition os_Write :: "'u surroundings \<Rightarrow> nat \<Rightarrow> string \<Rightarrow> unit io" where
  "os_Write env fd s w =
     (let k = w_calls w in
      case sys env (\<lambda>_. io_return ()) w of
        (Inl e, w') \<Rightarrow> (Inl e, snd (write_at fd (tick env k) (take (written env k) s) w'))
      | (Inr _, w') \<Rightarrow> write_at fd (tick env k) s w')"

definition os_Sync :: "'u surroundings \<Rightarrow> nat \<Rightarrow> unit io" where
  "os_Sync env fd = sys env (\<lambda>_. with_file fd (\<lambda>_. io_return ()))"

definition new_entry :: "'u surroundings \<Rightarrow> nat \<Rightarrow> path \<Rightarrow> node_kind \<Rightarrow> u32 \<Rightarrow> nat io" where
  "new_entry env k p kind mode w =
     (let fs = w_files w; i = pick_node env k in
      case place fs p of
        None \<Rightarrow> (Inl not_exist, w)
      | Some q \<Rightarrow>
          if p = [] \<or> entry fs q \<noteq> None then (Inl ''file exists'', w)
          else if \<not> is_directory fs (butlast q) then (Inl not_exist, w)
          else if nodes fs i \<noteq> None then (Inl ''no space left on device'', w)
          else (Inr i, w\<lparr>w_files := \<lparr>names = AList.update q i (names fs),
                  nodes = (nodes fs)(i \<mapsto> \<lparr>nd_kind = kind, nd_uid = euid env,
                     nd_perm = mode AND NOT (umask env),
                     nd_links = (if kind = Directory then 2 else 1), nd_mtime = tick env k\<rparr>)\<rparr>\<rparr>))"

definition os_Mkdir :: "'u surroundings \<Rightarrow> path \<Rightarrow> u32 \<Rightarrow> unit io" where
  "os_Mkdir env p mode = sys env (\<lambda>k. io_bind (new_entry env k p Directory mode) (\<lambda>_. io_return ()))"

text \<open>\<open>O_WRONLY|O_CREATE|O_EXCL\<close>.\<close>

definition os_Create :: "'u surroundings \<Rightarrow> path \<Rightarrow> u32 \<Rightarrow> nat io" where
  "os_Create env p mode = sys env (\<lambda>k. io_bind (new_entry env k p (Regular []) mode) (open_fd env k))"

definition os_CreateTemp :: "'u surroundings \<Rightarrow> path \<Rightarrow> string \<Rightarrow> (path \<times> nat) io" where
  "os_CreateTemp env dir name w =
     (let p = dir @ [name @ pick_name env (w_calls w)] in
      io_bind (os_Create env p 0x180) (\<lambda>fd. io_return (p, fd)) w)"

definition os_MkdirTemp :: "'u surroundings \<Rightarrow> path \<Rightarrow> string \<Rightarrow> path io" where
  "os_MkdirTemp env dir name w =
     (let p = dir @ [name @ pick_name env (w_calls w)] in
      io_bind (os_Mkdir env p 0x1C0) (\<lambda>_. io_return p) w)"

definition unlink_node :: "nat option \<Rightarrow> (nat \<rightharpoonup> node) \<Rightarrow> (nat \<rightharpoonup> node)" where
  "unlink_node i ns =
     (case Option.bind i ns of
        None \<Rightarrow> ns
      | Some n \<Rightarrow> ns(the i \<mapsto> n\<lparr>nd_links := nd_links n - 1\<rparr>))"

definition has_children :: "files \<Rightarrow> path \<Rightarrow> bool" where
  "has_children fs p \<longleftrightarrow> list_ex (\<lambda>(q, i). strict_prefix p q) (names fs)"

definition os_Remove :: "'u surroundings \<Rightarrow> path \<Rightarrow> unit io" where
  "os_Remove env p =
     sys env (\<lambda>_ w. let fs = w_files w in
       case place fs p of
         None \<Rightarrow> (Inl not_exist, w)
       | Some q \<Rightarrow>
           if entry fs q = None then (Inl not_exist, w)
           else if is_directory fs q \<and> has_children fs q then (Inl ''directory not empty'', w)
           else (Inr (), w\<lparr>w_files := \<lparr>names = AList.delete q (names fs), nodes = unlink_node (entry fs q) (nodes fs)\<rparr>\<rparr>))"

definition os_RemoveAll :: "'u surroundings \<Rightarrow> path \<Rightarrow> unit io" where
  "os_RemoveAll env p =
     sys env (\<lambda>_ w. let fs = w_files w in
       case place fs p of
         None \<Rightarrow> (Inr (), w)
       | Some q \<Rightarrow>
           (Inr (), w\<lparr>w_files := \<lparr>names = filter (\<lambda>(x, i). \<not> prefix q x) (names fs),
              nodes = (if is_directory fs q then nodes fs else unlink_node (entry fs q) (nodes fs))\<rparr>\<rparr>))"

definition os_Rename :: "'u surroundings \<Rightarrow> path \<Rightarrow> path \<Rightarrow> unit io" where
  "os_Rename env old new =
     sys env (\<lambda>_ w. let fs = w_files w in
       case (place fs old, place fs new) of
         (Some a, Some b) \<Rightarrow>
           if entry fs a = None \<or> \<not> is_directory fs (butlast b) then (Inl not_exist, w)
           else if entry fs a = entry fs b then (Inr (), w)
           else if is_directory fs a \<and> (strict_prefix a b \<or> entry fs b \<noteq> None \<and> (\<not> is_directory fs b \<or> has_children fs b))
           then (Inl ''not a directory or not empty'', w)
           else if \<not> is_directory fs a \<and> is_directory fs b then (Inl ''file exists'', w)
           else (Inr (), w\<lparr>w_files :=
                  \<lparr>names = map (\<lambda>(x, i). (if prefix a x then b @ drop (length a) x else x, i))
                             (filter (\<lambda>(x, i). \<not> prefix b x) (names fs)),
                   nodes = unlink_node (entry fs b) (nodes fs)\<rparr>\<rparr>)
       | _ \<Rightarrow> (Inl not_exist, w))"

section \<open>Copying\<close>

text \<open>\<open>io.Copy\<close> from an open file through an \<open>io.LimitReader\<close>; the bytes that were copied are the result.\<close>

lemma os_Read_length: "os_Read env fd n w = (Inr s, w') \<Longrightarrow> length s \<le> n"
  by (auto simp: os_Read_def sys_def with_file_def with_node_def Let_def split: option.splits)

function copy_opened :: "'u surroundings \<Rightarrow> nat \<Rightarrow> (string \<Rightarrow> unit io) \<Rightarrow> nat \<Rightarrow> string io" where
  "copy_opened env fd sink limit w =
     (if limit = 0 then io_return [] w
      else io_bind (os_Read env fd (min 32768 limit)) (\<lambda>chunk v.
        if chunk = [] then io_return [] v
        else io_bind (sink chunk) (\<lambda>_.
             io_bind (copy_opened env fd sink (limit - length chunk)) (\<lambda>rest.
             io_return (chunk @ rest))) v) w)"
  by pat_completeness auto
termination
  by (relation "measure (\<lambda>(env, fd, sink, limit, w). limit)") auto

declare copy_opened.simps [simp del]

text \<open>The same from the body of a response, which is given in chunks and may end with an error.\<close>

fun copy_body :: "(string \<Rightarrow> unit io) \<Rightarrow> string list \<Rightarrow> string option \<Rightarrow> nat \<Rightarrow> string io" where
  "copy_body sink [] err limit =
     (if limit = 0 then io_return [] else case err of None \<Rightarrow> io_return [] | Some e \<Rightarrow> io_fail e)"
| "copy_body sink (chunk # chunks) err limit =
     (if limit = 0 then io_return []
      else io_bind (sink (take limit chunk)) (\<lambda>_.
           io_bind (copy_body sink chunks err (limit - length chunk)) (\<lambda>rest.
           io_return (take limit chunk @ rest))))"

section \<open>The HTTP client\<close>

text \<open>The client follows no redirect: \<open>CheckRedirect\<close> refuses the first one.\<close>

definition http_Do :: "'u surroundings \<Rightarrow> http_request \<Rightarrow> 'u http_response io" where
  "http_Do env rq =
     (\<lambda>w. sys env (\<lambda>k w.
        case answer env k rq of
          Unreachable e \<Rightarrow> (Inl e, w)
        | Redirected location \<Rightarrow> (Inl ''runtime artifact redirects are not allowed'', w)
        | Answered response \<Rightarrow> (Inr response, w\<lparr>w_bodies := Suc (w_bodies w)\<rparr>))
        (w\<lparr>w_requests := w_requests w @ [rq]\<rparr>))"

definition close_body :: "unit io" where
  "close_body w = (Inr (), w\<lparr>w_bodies := w_bodies w - 1\<rparr>)"

section \<open>What programs keep\<close>

definition io_keeps :: "(world \<Rightarrow> world \<Rightarrow> bool) \<Rightarrow> 'a io \<Rightarrow> bool" where
  "io_keeps R m \<longleftrightarrow> (\<forall>w. R w (snd (m w)))"

lemma io_keepsD: "io_keeps R m \<Longrightarrow> m w = (r, w') \<Longrightarrow> R w w'"
  unfolding io_keeps_def by (metis snd_conv)

text \<open>A relation between the world before and after that may be kept step by step.\<close>

locale io_preorder =
  fixes R :: "world \<Rightarrow> world \<Rightarrow> bool"
  assumes R_refl: "R w w" and R_trans: "R u v \<Longrightarrow> R v w \<Longrightarrow> R u w"
begin

lemma keeps_return [intro, simp]: "io_keeps R (io_return x)"
  by (simp add: io_keeps_def io_return_def R_refl)

lemma keeps_fail [intro, simp]: "io_keeps R (io_fail e)"
  by (simp add: io_keeps_def io_fail_def R_refl)

lemma keeps_lift [intro, simp]: "io_keeps R (io_lift r)"
  by (simp add: io_keeps_def io_lift_def R_refl)

lemma keeps_guard [intro, simp]: "io_keeps R (io_guard b e)"
  by (simp add: io_guard_def)

lemma keeps_bind [intro]:
  assumes "io_keeps R m" and "\<And>x. io_keeps R (f x)"
  shows "io_keeps R (io_bind m f)"
  unfolding io_keeps_def
proof
  fix w
  obtain r w' where m: "m w = (r, w')" by (cases "m w")
  with assms(1) have "R w w'" by (rule io_keepsD)
  moreover have "R w' (snd (f x w'))" for x using assms(2) by (simp add: io_keeps_def)
  ultimately show "R w (snd (io_bind m f w))" using m by (auto simp: io_bind_def split: sum.splits intro: R_trans)
qed

lemma keeps_then [intro]: "io_keeps R m \<Longrightarrow> io_keeps R k \<Longrightarrow> io_keeps R (io_then m k)"
  by (auto simp: io_then_def)

lemma keeps_map_error [intro]: "io_keeps R m \<Longrightarrow> io_keeps R (io_map_error f m)"
  by (auto simp: io_keeps_def io_map_error_def split: prod.splits sum.splits) (metis snd_conv)+

lemma keeps_wrap [intro]: "io_keeps R m \<Longrightarrow> io_keeps R (io_wrap l m)"
  by (auto simp: io_wrap_def)

lemma keeps_try [intro]: "io_keeps R m \<Longrightarrow> io_keeps R (io_try m)"
  by (auto simp: io_keeps_def io_try_def split: prod.splits) (metis snd_conv)

lemma keeps_defer [intro]:
  assumes "io_keeps R c" and "io_keeps R m"
  shows "io_keeps R (io_defer c m)"
  using assms unfolding io_keeps_def io_defer_def by (metis (no_types, lifting) R_trans case_prod_beta snd_conv)

lemma keeps_on_error [intro]:
  assumes "io_keeps R c" and "io_keeps R m"
  shows "io_keeps R (io_on_error c m)"
  unfolding io_keeps_def
proof
  fix w
  obtain r w' where m: "m w = (r, w')" by (cases "m w")
  with assms(2) have "R w w'" by (rule io_keepsD)
  moreover have "R w' (snd (c w'))" using assms(1) by (simp add: io_keeps_def)
  ultimately show "R w (snd (io_on_error c m w))"
    using m by (auto simp: io_on_error_def split: sum.splits intro: R_trans)
qed

lemma keeps_copy_body [intro]: "(\<And>s. io_keeps R (sink s)) \<Longrightarrow> io_keeps R (copy_body sink cs e n)"
  by (induction sink cs e n rule: copy_body.induct) (auto split: option.splits)

lemma keeps_copy:
  assumes reads: "\<And>n. io_keeps R (os_Read env fd n)" and sink: "\<And>s. io_keeps R (sink s)"
  shows "io_keeps R (copy_opened env fd sink limit)"
proof -
  have "R w (snd (copy_opened env fd sink limit w))" for w
  proof (induction limit arbitrary: w rule: less_induct)
    case (less limit)
    let ?k = "\<lambda>chunk. if chunk = [] then io_return [] else io_bind (sink chunk) (\<lambda>_.
             io_bind (copy_opened env fd sink (limit - length chunk)) (\<lambda>rest. io_return (chunk @ rest)))"
    show ?case
    proof (cases "limit = 0")
      case False
      have "io_keeps R (?k chunk)" for chunk
      proof (cases "chunk = []")
        case chunk: False
        have "io_keeps R (copy_opened env fd sink (limit - length chunk))"
          using less[of "limit - length chunk"] False chunk by (simp add: io_keeps_def)
        then have "io_keeps R (io_bind (sink chunk) (\<lambda>_.
             io_bind (copy_opened env fd sink (limit - length chunk)) (\<lambda>rest. io_return (chunk @ rest))))"
          using sink by blast
        with chunk show ?thesis by simp
      qed simp
      with reads have "io_keeps R (io_bind (os_Read env fd (min 32768 limit)) ?k)" by blast
      moreover have "copy_opened env fd sink limit w = io_bind (os_Read env fd (min 32768 limit)) ?k w"
        by (subst copy_opened.simps) (simp add: False io_bind_def split: prod.splits sum.splits)
      ultimately show ?thesis by (simp add: io_keeps_def)
    qed (simp add: copy_opened.simps io_return_def R_refl)
  qed
  then show ?thesis by (simp add: io_keeps_def)
qed

lemmas step_rules =
  keeps_bind keeps_then keeps_wrap keeps_map_error keeps_try keeps_defer keeps_on_error
  keeps_guard keeps_return keeps_fail keeps_lift

end

text \<open>
  Moreover it may not mind what happens to the files: then the system calls that touch nothing else
  keep it.
\<close>

locale effect = io_preorder +
  assumes R_files: "w_open w' = w_open w \<Longrightarrow> w_bodies w' = w_bodies w \<Longrightarrow> w_requests w' = w_requests w \<Longrightarrow> R w w'"
begin

lemma keeps_sys: "(\<And>k w. R w (snd (f k w))) \<Longrightarrow> io_keeps R (sys env f)"
  unfolding io_keeps_def
proof
  fix w :: world
  assume f: "\<And>k w. R w (snd (f k w))"
  let ?w = "w\<lparr>w_files := meddle env (w_calls w) (w_files w), w_calls := Suc (w_calls w)\<rparr>"
  have "R w ?w" by (rule R_files) simp_all
  moreover have "R ?w (snd (f (w_calls w) ?w))" by (rule f)
  ultimately show "R w (snd (sys env f w))"
    unfolding sys_def Let_def by (auto split: option.splits intro: R_trans)
qed

lemma keeps_files_calls [intro]:
  "io_keeps R (os_Lstat env p)" "io_keeps R (os_EvalSymlinks env p)" "io_keeps R (os_Fstat env fd)"
  "io_keeps R (os_Fchmod env fd m)" "io_keeps R (os_Chmod env p m)" "io_keeps R (os_Sync env fd)"
  "io_keeps R (os_Mkdir env p m)" "io_keeps R (os_Remove env p)"
  "io_keeps R (os_RemoveAll env p)" "io_keeps R (os_Rename env p q)"
  unfolding os_Lstat_def os_EvalSymlinks_def os_Fstat_def os_Fchmod_def os_Chmod_def os_Sync_def os_Mkdir_def
    os_Remove_def os_RemoveAll_def os_Rename_def
  by (rule keeps_sys, auto simp: with_node_def with_file_def set_node_def new_entry_def io_bind_def Let_def io_return_def
      R_refl split: option.splits prod.splits sum.splits intro!: R_files)+

lemma keeps_MkdirTemp [intro]: "io_keeps R (os_MkdirTemp env p n)"
  unfolding io_keeps_def os_MkdirTemp_def Let_def
  by (metis io_keeps_def keeps_bind keeps_files_calls(7) keeps_return)

lemmas keeps_rules = step_rules keeps_files_calls keeps_MkdirTemp keeps_copy_body

end

text \<open>A relation that minds nothing but the requests that were sent and the bodies that are open.\<close>

locale silent = effect +
  assumes R_requests: "w_requests w' = w_requests w \<Longrightarrow> w_bodies w' = w_bodies w \<Longrightarrow> R w w'"
begin

lemma keeps_open_files [intro]:
  "io_keeps R (os_OpenNoFollow env p d)" "io_keeps R (os_Open env p)" "io_keeps R (os_Seek0 env fd)"
  "io_keeps R (os_Read env fd n)" "io_keeps R (os_Create env p m)"
  unfolding os_OpenNoFollow_def os_Open_def os_Seek0_def os_Read_def os_Create_def
  by (rule keeps_sys, auto simp: with_node_def with_file_def set_node_def set_offset_def new_entry_def open_fd_def
      io_bind_def Let_def io_return_def io_fail_def R_refl
      split: option.splits prod.splits sum.splits if_splits intro!: R_requests)+

lemma keeps_Close [intro]: "io_keeps R (os_Close env fd)"
  unfolding io_keeps_def os_Close_def sys_def
  by (auto simp: Let_def io_return_def split: option.splits intro!: R_requests)

lemma keeps_Write [intro]: "io_keeps R (os_Write env fd s)"
  unfolding io_keeps_def os_Write_def sys_def write_at_def with_file_def with_node_def set_offset_def set_node_def Let_def
  by (auto simp: io_return_def split: option.splits intro!: R_requests)

lemma keeps_CreateTemp [intro]: "io_keeps R (os_CreateTemp env p n)"
  unfolding io_keeps_def os_CreateTemp_def Let_def
  by (metis io_keeps_def keeps_bind keeps_open_files(5) keeps_return)

lemma keeps_copy_opened [intro]: "(\<And>s. io_keeps R (sink s)) \<Longrightarrow> io_keeps R (copy_opened env fd sink limit)"
  by (rule keeps_copy) (rule keeps_open_files)

lemmas silent_rules =
  keeps_rules keeps_open_files keeps_Close keeps_Write keeps_CreateTemp keeps_copy_opened

end

definition sent :: "(http_request \<Rightarrow> bool) \<Rightarrow> world \<Rightarrow> world \<Rightarrow> bool" where
  "sent P w w' \<longleftrightarrow> (\<exists>new. w_requests w' = w_requests w @ new \<and> list_all P new)"

interpretation net: silent "sent P" for P
  by unfold_locales (auto simp: sent_def)

lemma sent_Do: "P rq \<Longrightarrow> io_keeps (sent P) (http_Do env rq)"
  unfolding io_keeps_def http_Do_def sys_def Let_def sent_def
  by (auto split: option.splits http_answer.splits)

lemma sent_close_body: "io_keeps (sent P) close_body"
  by (simp add: io_keeps_def close_body_def sent_def)

definition same_bodies :: "world \<Rightarrow> world \<Rightarrow> bool" where
  "same_bodies w w' \<longleftrightarrow> w_bodies w' = w_bodies w"

interpretation bodies: silent same_bodies
  by unfold_locales (auto simp: same_bodies_def)

section \<open>Open files\<close>

definition same_open :: "nat set \<Rightarrow> world \<Rightarrow> world \<Rightarrow> bool" where
  "same_open S w w' \<longleftrightarrow> (\<forall>fd. fd \<notin> S \<longrightarrow> w_open w' fd = w_open w fd)"

interpretation same: effect "same_open S" for S
  by unfold_locales (auto simp: same_open_def)

lemma same_open_mono: "io_keeps (same_open S) m \<Longrightarrow> S \<subseteq> T \<Longrightarrow> io_keeps (same_open T) m"
  by (auto simp: io_keeps_def same_open_def)

text \<open>A program whose result carries a file it opened, and one that closes the file it is given.\<close>

definition opens :: "nat set \<Rightarrow> ('a \<Rightarrow> nat) \<Rightarrow> 'a io \<Rightarrow> bool" where
  "opens S fd m \<longleftrightarrow> (\<forall>w r w'. m w = (r, w') \<longrightarrow>
     (case r of Inl e \<Rightarrow> same_open S w w' | Inr x \<Rightarrow> (fd x \<in> S \<or> w_open w (fd x) = None) \<and> same_open (insert (fd x) S) w w'))"

lemma opens_Inl: "opens S fd m \<Longrightarrow> m w = (Inl e, w') \<Longrightarrow> same_open S w w'"
  by (fastforce simp: opens_def)

lemma opens_Inr: "opens S fd m \<Longrightarrow> m w = (Inr x, w') \<Longrightarrow>
     (fd x \<in> S \<or> w_open w (fd x) = None) \<and> same_open (insert (fd x) S) w w'"
  by (fastforce simp: opens_def)

lemma opensI:
  "(\<And>w e w'. m w = (Inl e, w') \<Longrightarrow> same_open S w w') \<Longrightarrow>
   (\<And>w x w'. m w = (Inr x, w') \<Longrightarrow> (fd x \<in> S \<or> w_open w (fd x) = None) \<and> same_open (insert (fd x) S) w w') \<Longrightarrow> opens S fd m"
  by (auto simp: opens_def split: sum.splits)

definition closes :: "nat set \<Rightarrow> nat \<Rightarrow> 'a io \<Rightarrow> bool" where
  "closes S fd m \<longleftrightarrow> io_keeps (same_open (insert fd S)) m \<and> (\<forall>w. w_open (snd (m w)) fd = None)"

lemma keeps_open_close:
  assumes "opens S fd m" and "\<And>x. closes S (fd x) (f x)"
  shows "io_keeps (same_open S) (io_bind m f)"
  unfolding io_keeps_def
proof
  fix w
  obtain r w' where m: "m w = (r, w')" by (cases "m w")
  show "same_open S w (snd (io_bind m f w))"
  proof (cases r)
    case (Inl e)
    with m opens_Inl[OF assms(1)] show ?thesis by (simp add: io_bind_def)
  next
    case (Inr x)
    with m assms(1) have "fd x \<in> S \<or> w_open w (fd x) = None" "same_open (insert (fd x) S) w w'"
      using opens_Inr[OF assms(1)] by simp_all
    moreover have "same_open (insert (fd x) S) w' (snd (f x w'))" "w_open (snd (f x w')) (fd x) = None"
      using assms(2)[of x] by (auto simp: closes_def io_keeps_def)
    ultimately have "same_open S w (snd (f x w'))" unfolding same_open_def by (metis insert_iff)
    then show ?thesis using m Inr by (simp add: io_bind_def)
  qed
qed

lemma keeps_fd [intro]:
  "io_keeps (same_open {fd}) (os_Seek0 env fd)" "io_keeps (same_open {fd}) (os_Read env fd n)"
  unfolding os_Seek0_def os_Read_def
  by (rule same.keeps_sys, auto simp: with_node_def with_file_def set_offset_def Let_def same_open_def
      split: option.splits)+

lemma opened_Write [intro]: "io_keeps (same_open {fd}) (os_Write env fd s)"
  unfolding io_keeps_def os_Write_def sys_def write_at_def with_file_def with_node_def set_offset_def set_node_def Let_def
  by (auto simp: io_return_def same_open_def split: option.splits)

lemma closes_Close [intro]: "closes S fd (os_Close env fd)"
  by (auto simp: closes_def io_keeps_def os_Close_def sys_def Let_def same_open_def io_return_def split: option.splits)

lemma closes_defer [intro]:
  "io_keeps (same_open (insert fd S)) m \<Longrightarrow> closes S fd (io_defer (os_Close env fd) m)"
  using closes_Close[of S fd env] same.keeps_defer[of "insert fd S" "os_Close env fd" m]
  by (auto simp: closes_def io_defer_def split: prod.splits)

lemma closes_on_error [intro]:
  assumes "io_keeps (same_open (insert fd S)) m" and "closes S fd k"
  shows "closes S fd (io_then (io_on_error (os_Close env fd) m) k)"
  unfolding closes_def
proof
  show "io_keeps (same_open (insert fd S)) (io_then (io_on_error (os_Close env fd) m) k)"
    using assms closes_Close[of S fd env] by (auto simp: closes_def)
  show "\<forall>w. w_open (snd (io_then (io_on_error (os_Close env fd) m) k w)) fd = None"
  proof
    fix w
    obtain r w' where m: "io_on_error (os_Close env fd) m w = (r, w')" by (cases "io_on_error (os_Close env fd) m w")
    show "w_open (snd (io_then (io_on_error (os_Close env fd) m) k w)) fd = None"
    proof (cases r)
      case (Inl e)
      then obtain v where "w' = snd (os_Close env fd v)"
        using m by (auto simp: io_on_error_def split: prod.splits sum.splits)
      then show ?thesis using m Inl closes_Close[of S fd env] by (simp add: closes_def io_then_def io_bind_def)
    next
      case (Inr x)
      then show ?thesis using m assms(2) by (simp add: closes_def io_then_def io_bind_def)
    qed
  qed
qed

lemma closes_wrap [intro]: "closes S fd m \<Longrightarrow> closes S fd (io_wrap l m)"
  by (auto simp: closes_def io_wrap_def io_map_error_def split: prod.splits sum.splits) (metis snd_conv)+

lemma closes_then [intro]:
  assumes "closes S fd m" and "io_keeps (same_open {}) k"
  shows "closes S fd (io_then m k)"
  unfolding closes_def
proof
  show "io_keeps (same_open (insert fd S)) (io_then m k)"
    using assms same_open_mono[OF assms(2)] by (auto simp: closes_def)
  show "\<forall>w. w_open (snd (io_then m k w)) fd = None"
  proof
    fix w
    obtain r w' where m: "m w = (r, w')" by (cases "m w")
    then have "w_open w' fd = None" using assms(1) by (metis closes_def snd_conv)
    moreover have "w_open (snd (k w')) fd = w_open w' fd" using assms(2) by (simp add: io_keeps_def same_open_def)
    ultimately show "w_open (snd (io_then m k w)) fd = None"
      using m by (cases r) (simp_all add: io_then_def io_bind_def)
  qed
qed

lemma closes_cleanup:
  assumes "closes S fd m" and c: "io_keeps (same_open {}) c"
  shows "closes S fd (io_on_error c m)" and "closes S fd (io_defer c m)"
proof -
  have c': "w_open (snd (c w)) x = w_open w x" for w x using c by (simp add: io_keeps_def same_open_def)
  have m: "io_keeps (same_open (insert fd S)) m" "m w = (r, w') \<Longrightarrow> w_open w' fd = None" for w r w'
    using assms(1) by (auto simp: closes_def) (metis snd_conv)
  show "closes S fd (io_on_error c m)"
    unfolding closes_def
    using same.keeps_on_error[OF same_open_mono[OF c] m(1)]
    by (auto simp: io_on_error_def c' m(2) split: prod.splits sum.splits)
  show "closes S fd (io_defer c m)"
    unfolding closes_def
    using same.keeps_defer[OF same_open_mono[OF c] m(1)]
    by (auto simp: io_defer_def c' m(2) split: prod.splits)
qed

lemma opens_open_fd: "opens S (\<lambda>fd. fd) (sys env (\<lambda>k. open_fd env k i))"
  by (auto simp: opens_def sys_def open_fd_def same_open_def Let_def split: option.splits if_splits)

lemma opens_calls [intro]:
  "opens S (\<lambda>fd. fd) (os_OpenNoFollow env p d)" "opens S (\<lambda>fd. fd) (os_Open env p)" "opens S (\<lambda>fd. fd) (os_Create env p m)"
  unfolding opens_def os_OpenNoFollow_def os_Open_def os_Create_def sys_def
  by (auto simp: with_node_def new_entry_def open_fd_def io_bind_def io_fail_def Let_def same_open_def
      split: option.splits prod.splits sum.splits if_splits)

lemma opens_wrap [intro]: "opens S fd m \<Longrightarrow> opens S fd (io_wrap l m)"
  by (fastforce simp: opens_def io_wrap_def io_map_error_def split: prod.splits sum.splits)

lemma opens_bind [intro]:
  assumes m: "io_keeps (same_open S) m" and f: "\<And>x. opens S fd (f x)"
  shows "opens S fd (io_bind m f)"
proof (rule opensI)
  fix w e w'
  assume run: "io_bind m f w = (Inl e, w')"
  show "same_open S w w'"
  proof (cases "fst (m w)")
    case (Inl e')
    with run m show ?thesis by (auto simp: io_bind_def io_keeps_def split: prod.splits) (metis snd_conv)
  next
    case (Inr x)
    then obtain v where v: "m w = (Inr x, v)" by (metis prod.collapse)
    with run have "f x v = (Inl e, w')" by (simp add: io_bind_def)
    with opens_Inl[OF f] io_keepsD[OF m v] show ?thesis by (blast intro: same.R_trans)
  qed
next
  fix w x w'
  assume run: "io_bind m f w = (Inr x, w')"
  then obtain y v where v: "m w = (Inr y, v)" "f y v = (Inr x, w')"
    by (auto simp: io_bind_def split: prod.splits sum.splits)
  with opens_Inr[OF f v(2)] io_keepsD[OF m v(1)]
  show "(fd x \<in> S \<or> w_open w (fd x) = None) \<and> same_open (insert (fd x) S) w w'"
    unfolding same_open_def by (metis insertCI)
qed

lemma opens_then [intro]: "io_keeps (same_open S) m \<Longrightarrow> opens S fd k \<Longrightarrow> opens S fd (io_then m k)"
  by (auto simp: io_then_def)

lemma opens_checked [intro]:
  assumes "opens S (\<lambda>fd. fd) m" and "\<And>fd. io_keeps (same_open {}) (k fd)"
    and "\<And>fd w x w'. k fd w = (Inr x, w') \<Longrightarrow> g x = fd"
  shows "opens S g (io_bind m (\<lambda>fd. io_on_error (os_Close env fd) (k fd)))"
proof (rule opensI)
  fix w e w'
  assume run: "io_bind m (\<lambda>fd. io_on_error (os_Close env fd) (k fd)) w = (Inl e, w')"
  show "same_open S w w'"
  proof (cases "fst (m w)")
    case (Inl e')
    then have "m w = (Inl e, w')" using run by (auto simp: io_bind_def split: prod.splits)
    then show ?thesis by (rule opens_Inl[OF assms(1)])
  next
    case (Inr fd)
    then obtain v where v: "m w = (Inr fd, v)" by (metis prod.collapse)
    then obtain u where u: "k fd v = (Inl e, u)" "w' = snd (os_Close env fd u)"
      using run by (auto simp: io_bind_def io_on_error_def split: prod.splits sum.splits)
    have "same_open {} v u" using assms(2) u(1) by (rule io_keepsD)
    moreover have "same_open {fd} u w'" "w_open w' fd = None"
      using closes_Close[of "{}" fd env] u(2) by (simp_all add: closes_def io_keeps_def)
    ultimately show ?thesis using opens_Inr[OF assms(1) v] unfolding same_open_def
      by (metis empty_iff insert_iff)
  qed
next
  fix w x w'
  assume run: "io_bind m (\<lambda>fd. io_on_error (os_Close env fd) (k fd)) w = (Inr x, w')"
  then obtain fd v where v: "m w = (Inr fd, v)" "k fd v = (Inr x, w')"
    by (auto simp: io_bind_def io_on_error_def split: prod.splits sum.splits)
  have "same_open {} v w'" using assms(2) v(2) by (rule io_keepsD)
  with opens_Inr[OF assms(1) v(1)] assms(3)[OF v(2)]
  show "(g x \<in> S \<or> w_open w (g x) = None) \<and> same_open (insert (g x) S) w w'" by (auto simp: same_open_def)
qed

section \<open>Private paths\<close>

text \<open>
  A path that other processes leave alone: they neither change where it leads nor the file there.
  Whatever changes the permissions of files keeps the places of paths.
\<close>

definition private_path :: "'u surroundings \<Rightarrow> path \<Rightarrow> bool" where
  "private_path env p \<longleftrightarrow>
     (\<forall>k fs. look (meddle env k fs) p = look fs p \<and> (\<forall>i. look fs p = Some i \<longrightarrow> nodes (meddle env k fs) i = nodes fs i))"

definition at_path :: "path \<Rightarrow> files \<Rightarrow> (nat \<times> node) option" where
  "at_path p fs = (case look fs p of None \<Rightarrow> None | Some i \<Rightarrow> map_option (Pair i) (nodes fs i))"

definition kept :: "path \<Rightarrow> world \<Rightarrow> world \<Rightarrow> bool" where
  "kept p w w' \<longleftrightarrow> at_path p (w_files w') = at_path p (w_files w)"

interpretation kept: io_preorder "kept p" for p
  by unfold_locales (simp_all add: kept_def)

lemma private_meddle: "private_path env p \<Longrightarrow> at_path p (meddle env k fs) = at_path p fs"
  by (auto simp: private_path_def at_path_def split: option.splits)

lemma kept_sys:
  "private_path env p \<Longrightarrow> (\<And>k w. w_files (snd (f k w)) = w_files w) \<Longrightarrow> io_keeps (kept p) (sys env f)"
  by (simp add: io_keeps_def kept_def sys_def Let_def private_meddle split: option.splits)

lemma with_node_files: "(\<And>i n w. w_files (snd (f i n w)) = w_files w) \<Longrightarrow> w_files (snd (with_node i f w)) = w_files w"
  by (simp add: with_node_def split: option.splits)

lemma with_file_files: "(\<And>x w. w_files (snd (f x w)) = w_files w) \<Longrightarrow> w_files (snd (with_file fd f w)) = w_files w"
  by (simp add: with_file_def split: option.splits)

lemma kept_calls:
  assumes "private_path env p"
  shows "io_keeps (kept p) (os_Lstat env q)" "io_keeps (kept p) (os_Fstat env fd)" "io_keeps (kept p) (os_OpenNoFollow env q d)"
    "io_keeps (kept p) (os_Seek0 env fd)" "io_keeps (kept p) (os_Read env fd n)" "io_keeps (kept p) (os_Close env fd)"
proof -
  show "io_keeps (kept p) (os_Close env fd)"
    using private_meddle[OF assms]
    by (simp add: io_keeps_def kept_def os_Close_def sys_def Let_def io_return_def split: option.splits)
qed (unfold os_Lstat_def os_Fstat_def os_OpenNoFollow_def os_Seek0_def os_Read_def Let_def,
    (rule kept_sys[OF assms], intro with_node_files with_file_files,
      simp add: io_return_def io_fail_def open_fd_def Let_def set_offset_def)+)

lemma walk_kinds: "(\<And>i. map_option nd_kind (nodes fs' i) = map_option nd_kind (nodes fs i)) \<Longrightarrow> names fs' = names fs \<Longrightarrow>
    walk k fs' at cs = walk k fs at cs"
proof (induction k fs at cs rule: walk.induct)
  case (2 k fs at c cs)
  let ?e = "Option.bind (entry fs (at @ [c]))"
  have e: "entry fs' = entry fs" using "2.prems"(2) by (simp add: entry_def)
  have kinds: "map_option nd_kind (?e (nodes fs')) = map_option nd_kind (?e (nodes fs))"
    by (cases "entry fs (at @ [c])") (simp_all add: "2.prems"(1))
  show ?case
  proof (cases "?e (nodes fs)")
    case None
    with kinds e show ?thesis by simp
  next
    case (Some n)
    with kinds obtain n' where "?e (nodes fs') = Some n'" "nd_kind n' = nd_kind n" by auto
    then show ?thesis
      using Some e "2.IH"[OF Some] "2.prems" by (auto split: node_kind.split nat.split)
  qed
qed simp

lemma look_perm:
  "nodes fs i = Some n \<Longrightarrow> look (fs\<lparr>nodes := (nodes fs)(i \<mapsto> n\<lparr>nd_perm := m\<rparr>)\<rparr>) p = look fs p"
proof -
  let ?fs = "fs\<lparr>nodes := (nodes fs)(i \<mapsto> n\<lparr>nd_perm := m\<rparr>)\<rparr>"
  assume "nodes fs i = Some n"
  then have "walk k ?fs at cs = walk k fs at cs" for k at cs by (intro walk_kinds) auto
  then show ?thesis by (simp add: look_def place_def entry_def)
qed

text \<open>What the calls return.\<close>

lemma Lstat_result:
  "os_Lstat env p w = (Inr info, w') \<Longrightarrow> \<exists>i n. at_path p (w_files w') = Some (i, n) \<and> info = info_of i n \<and> w_open w' = w_open w"
  by (auto simp: os_Lstat_def sys_def Let_def with_node_def io_return_def at_path_def split: option.splits)

lemma Fstat_result:
  "os_Fstat env fd w = (Inr info, w') \<Longrightarrow>
     \<exists>f n. w_open w fd = Some f \<and> nodes (w_files w') (of_node f) = Some n \<and> info = info_of (of_node f) n \<and> w_open w' = w_open w"
  by (auto simp: os_Fstat_def sys_def Let_def with_node_def with_file_def io_return_def split: option.splits)

lemma Open_result:
  "os_OpenNoFollow env p d w = (Inr fd, w') \<Longrightarrow>
     \<exists>i n. at_path p (w_files w') = Some (i, n) \<and> w_open w' fd = Some \<lparr>of_node = i, of_offset = 0\<rparr>"
  by (auto simp: os_OpenNoFollow_def sys_def Let_def with_node_def open_fd_def io_fail_def at_path_def
      split: option.splits if_splits)

lemma io_bind_Inr: "io_bind m f w = (Inr y, w') \<longleftrightarrow> (\<exists>x v. m w = (Inr x, v) \<and> f x v = (Inr y, w'))"
  by (auto simp: io_bind_def split: prod.splits sum.splits)

lemma io_then_Inr: "io_then m k w = (Inr y, w') \<longleftrightarrow> (\<exists>v. m w = (Inr (), v) \<and> k v = (Inr y, w'))"
  by (auto simp: io_then_def io_bind_Inr)

lemma io_guard_Inr: "io_guard b e w = (Inr x, w') \<longleftrightarrow> b \<and> w' = w"
  by (auto simp: io_guard_def io_return_def io_fail_def)

lemma io_wrap_Inr: "io_wrap l m w = (Inr x, w') \<longleftrightarrow> m w = (Inr x, w')"
  by (auto simp: io_wrap_def io_map_error_def split: prod.splits sum.splits)

lemma io_map_error_Inr: "io_map_error f m w = (Inr x, w') \<longleftrightarrow> m w = (Inr x, w')"
  by (auto simp: io_map_error_def split: prod.splits sum.splits)

lemma io_on_error_Inr: "io_on_error c m w = (Inr x, w') \<longleftrightarrow> m w = (Inr x, w')"
  by (auto simp: io_on_error_def split: prod.splits sum.splits)

lemma io_defer_Inr: "io_defer c m w = (Inr x, w') \<longleftrightarrow> (\<exists>v. m w = (Inr x, v) \<and> w' = snd (c v))"
  by (auto simp: io_defer_def split: prod.splits)

lemma io_return_Inr: "io_return y w = (Inr x, w') \<longleftrightarrow> x = y \<and> w' = w"
  by (auto simp: io_return_def)

lemma io_lift_Inr: "io_lift r w = (Inr x, w') \<longleftrightarrow> r = Inr x \<and> w' = w"
  by (auto simp: io_lift_def)

lemma io_fail_Inr: "io_fail e w \<noteq> (Inr x, w')"
  by (simp add: io_fail_def)

lemmas io_Inr = io_bind_Inr io_then_Inr io_guard_Inr io_wrap_Inr io_map_error_Inr io_on_error_Inr io_defer_Inr io_return_Inr
  io_lift_Inr io_fail_Inr

lemma Read_result:
  "os_Read env fd k w = (Inr s, w') \<Longrightarrow>
     \<exists>f n. w_open w fd = Some f \<and> nodes (w_files w') (of_node f) = Some n \<and>
       s = take k (drop (of_offset f) (content (nd_kind n))) \<and>
       w_open w' = (w_open w)(fd \<mapsto> f\<lparr>of_offset := of_offset f + length s\<rparr>)"
  by (auto simp: os_Read_def sys_def Let_def with_node_def with_file_def set_offset_def split: option.splits)

text \<open>A chunk and what follows it.\<close>

lemma chunk_then_rest:
  fixes s :: string
  assumes "chunk = take k (drop off s)" and "k \<le> limit"
  shows "chunk @ take (limit - length chunk) (drop (off + length chunk) s) = take limit (drop off s)"
proof (cases "k \<le> length s - off")
  case True
  then have "length chunk = k" using assms(1) by simp
  then show ?thesis using assms take_add[of k "limit - k" "drop off s"] by (simp add: add.commute)
qed (use assms in auto)

text \<open>A private file is read as it is.\<close>

lemma copy_private:
  assumes priv: "private_path env p" and "at_path p (w_files w) = Some (i, n)"
    and "w_open w fd = Some \<lparr>of_node = i, of_offset = off\<rparr>"
    and "copy_opened env fd (\<lambda>_. io_return ()) limit w = (Inr s, w')"
  shows "s = take limit (drop off (content (nd_kind n)))"
  using assms(2-)
proof (induction limit arbitrary: w off s rule: less_induct)
  case (less limit)
  show ?case
  proof (cases "limit = 0")
    case True
    with less.prems show ?thesis by (simp add: copy_opened.simps io_return_Inr)
  next
    case False
    then obtain chunk v where rd: "os_Read env fd (min 32768 limit) w = (Inr chunk, v)"
      and rest: "(if chunk = [] then io_return [] v
        else io_bind (io_return ()) (\<lambda>_. io_bind (copy_opened env fd (\<lambda>_. io_return ()) (limit - length chunk))
               (\<lambda>rest. io_return (chunk @ rest))) v) = (Inr s, w')"
      using less.prems(3) by (subst (asm) copy_opened.simps) (auto simp: io_bind_Inr)
    have at: "at_path p (w_files v) = Some (i, n)"
      using io_keepsD[OF kept_calls(5)[OF priv] rd] less.prems(1) by (simp add: kept_def)
    obtain g m where m: "w_open w fd = Some g" "nodes (w_files v) (of_node g) = Some m"
      "chunk = take (min 32768 limit) (drop (of_offset g) (content (nd_kind m)))"
      "w_open v = (w_open w)(fd \<mapsto> g\<lparr>of_offset := of_offset g + length chunk\<rparr>)"
      using Read_result[OF rd] by blast
    have chunk: "chunk = take (min 32768 limit) (drop off (content (nd_kind n)))"
      and fd: "w_open v fd = Some \<lparr>of_node = i, of_offset = off + length chunk\<rparr>"
      using m at less.prems(2) by (auto simp: at_path_def split: option.splits)
    show ?thesis
    proof (cases "chunk = []")
      case True
      then show ?thesis using chunk rest False by (auto simp: io_return_Inr min_def split: if_splits)
    next
      case nonempty: False
      with rest obtain tail where t: "copy_opened env fd (\<lambda>_. io_return ()) (limit - length chunk) v = (Inr tail, w')"
        "s = chunk @ tail" by (auto simp: io_Inr)
      have "tail = take (limit - length chunk) (drop (off + length chunk) (content (nd_kind n)))"
        by (rule less.IH[OF _ at fd t(1)]) (use nonempty \<open>limit \<noteq> 0\<close> in simp)
      then show ?thesis using chunk_then_rest[OF chunk] t(2) by simp
    qed
  qed
qed

text \<open>A private file that is open.\<close>

definition holding :: "path \<Rightarrow> nat \<Rightarrow> node \<Rightarrow> nat \<Rightarrow> world \<Rightarrow> bool" where
  "holding p i n fd w \<longleftrightarrow> at_path p (w_files w) = Some (i, n) \<and> map_option of_node (w_open w fd) = Some i"

lemma holding_keeps:
  "m v = (r, v') \<Longrightarrow> io_keeps (kept p) m \<Longrightarrow> io_keeps (same_open {}) m \<Longrightarrow> holding p i n fd v \<Longrightarrow> holding p i n fd v'"
  by (drule (1) io_keepsD, drule (1) io_keepsD) (simp add: kept_def same_open_def holding_def)

lemma holding_Fstat:
  assumes "private_path env p" and "holding p i n fd v" and run: "os_Fstat env fd v = (Inr x, v')"
  shows "x = info_of i n \<and> holding p i n fd v'"
proof -
  have "holding p i n fd v'"
    using run kept_calls(2)[OF assms(1)] same.keeps_files_calls(3) assms(2) by (rule holding_keeps)
  with Fstat_result[OF run] assms(2) show ?thesis by (auto simp: holding_def at_path_def split: option.splits)
qed

end
