(* ===== verification/Runtime_Cache.thy ===== *)
theory Runtime_Cache
  imports Unix_Files
begin

text \<open>
  The cache in which the SDK keeps the engine (\<open>runtime_cache_security.go\<close> and its Unix part): private
  directories, files that are opened without following links and checked to be the same before and
  after, and the private copy that is executed. An object is used here only while it is open, so the
  checks of a nil file do not occur. \<open>%q\<close> is written for a path that needs no escapes.
\<close>

section \<open>Where the cache is\<close>

definition runtimeCacheDirectoryPermissions :: u32 where "runtimeCacheDirectoryPermissions = 0x1C0"
definition runtimeCacheRuntimePermissions :: u32 where "runtimeCacheRuntimePermissions = 0x140"
definition runtimeCacheSidecarPermissions :: u32 where "runtimeCacheSidecarPermissions = 0x180"
definition runtime_artifact_limit :: nat where "runtime_artifact_limit = 128 * 1024 * 1024"

definition path_text :: "path \<Rightarrow> string" where
  "path_text p = CHR ''/'' # join_with ''/'' p"

definition quoted_path :: "path \<Rightarrow> string" where
  "quoted_path p = [CHR 0x22] @ path_text p @ [CHR 0x22]"

definition selectRuntimeCacheRoot :: "path res \<Rightarrow> string \<Rightarrow> string res option \<Rightarrow> path res" where
  "selectRuntimeCacheRoot cwd explicit userCacheDirectory =
     (let chosen =
        (if trim_space explicit \<noteq> [] then Inr (trim_space explicit)
         else case userCacheDirectory of
                None \<Rightarrow> Inl ''resolve per-user runtime cache: cache directory provider is unavailable''
              | Some (Inl e) \<Rightarrow> Inl (''resolve per-user runtime cache: '' @ e)
              | Some (Inr root) \<Rightarrow>
                  if trim_space root = [] then Inl ''resolve per-user runtime cache: cache directory is empty''
                  else Inr (trim_space root)) in
      case chosen of
        Inl e \<Rightarrow> Inl e
      | Inr root \<Rightarrow>
          if prefix ''/'' root then Inr (abs_path [] root)
          else (case cwd of
                  Inl e \<Rightarrow> Inl (''resolve per-user runtime cache path: '' @ e)
                | Inr dir \<Rightarrow> Inr (abs_path dir root)))"

definition runtimePathWithinRoot :: "path \<Rightarrow> path \<Rightarrow> bool" where
  "runtimePathWithinRoot root p \<longleftrightarrow> filepath_Rel root p = [] \<or> hd (filepath_Rel root p) \<noteq> ''..''"

section \<open>Objects that stay the same\<close>

record runtimeObjectIdentity =
  id_file :: nat
  id_links :: nat

record openedRuntimeObject =
  op_file :: nat
  op_path :: path
  op_identity :: runtimeObjectIdentity
  op_info :: file_info

definition runtimeObjectIdentityForFile :: "'u surroundings \<Rightarrow> nat \<Rightarrow> runtimeObjectIdentity io" where
  "runtimeObjectIdentityForFile env fd =
     io_bind (os_Fstat env fd) (\<lambda>status. io_return \<lparr>id_file = fi_node status, id_links = fi_links status\<rparr>)"

definition others_may_write :: "u32 \<Rightarrow> bool" where
  "others_may_write p \<longleftrightarrow> p AND 0x12 \<noteq> 0"

definition validateRuntimeObjectSecurity :: "'u surroundings \<Rightarrow> nat \<Rightarrow> path \<Rightarrow> unit io" where
  "validateRuntimeObjectSecurity env fd name =
     io_bind (os_Fstat env fd) (\<lambda>status.
     io_then (io_guard (fi_uid status = euid env)
       (''runtime cache object is not owned by the current user: '' @ path_text name))
     (io_guard (\<not> others_may_write (fi_perm status))
       (''runtime cache object is writable by a group or other users: '' @ path_text name)))"

definition check_opened ::
  "'u surroundings \<Rightarrow> path \<Rightarrow> bool \<Rightarrow> file_info \<Rightarrow> nat \<Rightarrow> openedRuntimeObject io" where
  "check_opened env p requireSingleLink before file =
     io_bind (os_Fstat env file) (\<lambda>info.
     io_then (io_guard (SameFile before info) (''runtime cache path changed while it was opened: '' @ path_text p)) (
     io_bind (runtimeObjectIdentityForFile env file) (\<lambda>identity.
     io_then (io_guard (requireSingleLink \<longrightarrow> id_links identity = 1)
       (''runtime cache file must have exactly one link, found '' @ dec_of_nat (id_links identity) @ '': '' @ path_text p)) (
     io_then (validateRuntimeObjectSecurity env file p) (
     io_bind (os_Lstat env p) (\<lambda>after.
     io_then (io_guard (SameFile info after) (''runtime cache path changed during validation: '' @ path_text p))
     (io_return \<lparr>op_file = file, op_path = p, op_identity = identity, op_info = info\<rparr>)))))))"

definition openStableRuntimeObject :: "'u surroundings \<Rightarrow> path \<Rightarrow> bool \<Rightarrow> bool \<Rightarrow> openedRuntimeObject io" where
  "openStableRuntimeObject env p wantDirectory requireSingleLink =
     io_bind (os_Lstat env p) (\<lambda>before.
     io_then (io_guard (fi_type before \<noteq> TLink) (''runtime cache path is a link: '' @ path_text p)) (
     io_then (io_guard (wantDirectory \<longrightarrow> fi_type before = TDirectory)
       (''runtime cache path is not a directory: '' @ path_text p)) (
     io_then (io_guard (\<not> wantDirectory \<longrightarrow> fi_type before = TRegular)
       (''runtime cache path is not a regular file: '' @ path_text p)) (
     io_bind (os_OpenNoFollow env p wantDirectory) (\<lambda>file.
     io_on_error (os_Close env file) (check_opened env p requireSingleLink before file))))))"

definition ensureStable :: "'u surroundings \<Rightarrow> openedRuntimeObject \<Rightarrow> unit io" where
  "ensureStable env ob =
     io_bind (os_Fstat env (op_file ob)) (\<lambda>current.
     io_bind (runtimeObjectIdentityForFile env (op_file ob)) (\<lambda>currentIdentity.
     io_then (io_guard (currentIdentity = op_identity ob \<and> fi_size current = fi_size (op_info ob) \<and>
         fi_mtime current = fi_mtime (op_info ob) \<and> fi_type current = fi_type (op_info ob))
       (''runtime cache file changed while it was being read: '' @ path_text (op_path ob))) (
     io_bind (os_Lstat env (op_path ob)) (\<lambda>atPath.
     io_guard (SameFile current atPath)
       (''runtime cache path changed while it was being read: '' @ path_text (op_path ob))))))"

definition object_Close :: "'u surroundings \<Rightarrow> openedRuntimeObject \<Rightarrow> unit io" where
  "object_Close env ob = os_Close env (op_file ob)"

definition protectRuntimeObject :: "'u surroundings \<Rightarrow> path \<Rightarrow> u32 \<Rightarrow> unit io" where
  "protectRuntimeObject env p permissions = os_Chmod env p permissions"

definition protectOpenedRuntimeObject :: "'u surroundings \<Rightarrow> nat \<Rightarrow> u32 \<Rightarrow> unit io" where
  "protectOpenedRuntimeObject env fd permissions = os_Fchmod env fd permissions"

definition createProtectedRuntimeDirectory :: "'u surroundings \<Rightarrow> path \<Rightarrow> unit io" where
  "createProtectedRuntimeDirectory env p = os_Mkdir env p runtimeCacheDirectoryPermissions"

text \<open>\<open>%04o\<close> of permission bits.\<close>

definition octal_mode :: "u32 \<Rightarrow> string" where
  "octal_mode p = map (\<lambda>k. char_of (48 + unat p div 8 ^ k mod 8)) [3, 2, 1, 0 :: nat]"

definition verifyRuntimeCacheFileMode :: "path \<Rightarrow> file_info \<Rightarrow> u32 \<Rightarrow> unit io" where
  "verifyRuntimeCacheFileMode p info expected =
     io_guard (fi_perm info = expected \<or> \<not> others_may_write (fi_perm info))
       (''runtime cache file '' @ quoted_path p @ '' is writable by a group or other users ('' @
        octal_mode (fi_perm info) @ '')'')"

definition syncRuntimeCacheDirectory :: "'u surroundings \<Rightarrow> path \<Rightarrow> unit io" where
  "syncRuntimeCacheDirectory env p =
     io_bind (os_Open env p) (\<lambda>directory. io_defer (os_Close env directory) (os_Sync env directory))"

section \<open>The directories of the cache\<close>

definition existing_component :: "'u surroundings \<Rightarrow> path \<Rightarrow> file_info \<Rightarrow> unit io" where
  "existing_component env current info =
     io_then (io_guard (fi_type info = TDirectory)
       (''runtime cache hierarchy contains a linked or non-directory component: '' @ path_text current)) (
     io_bind (io_wrap (''validate runtime cache directory '' @ quoted_path current @ '': '')
       (openStableRuntimeObject env current True False)) (\<lambda>ob.
     io_then (io_wrap (''protect runtime cache directory '' @ quoted_path current @ '': '')
       (io_on_error (object_Close env ob)
         (protectOpenedRuntimeObject env (op_file ob) runtimeCacheDirectoryPermissions)))
     (io_wrap (''close runtime cache directory '' @ quoted_path current @ '': '') (object_Close env ob))))"

definition ensure_component :: "'u surroundings \<Rightarrow> path \<Rightarrow> unit io" where
  "ensure_component env current =
     io_bind (io_try (os_Lstat env current)) (\<lambda>found.
     io_then (case found of
         Inr info \<Rightarrow> existing_component env current info
       | Inl e \<Rightarrow>
           if e = not_exist
           then io_wrap (''create runtime cache directory '' @ quoted_path current @ '': '')
                  (createProtectedRuntimeDirectory env current)
           else io_fail (''inspect runtime cache directory '' @ quoted_path current @ '': '' @ e)) (
     io_bind (io_wrap (''validate runtime cache directory '' @ quoted_path current @ '': '')
       (openStableRuntimeObject env current True False)) (\<lambda>ob.
     io_then (io_wrap (''close runtime cache directory '' @ quoted_path current @ '': '') (object_Close env ob)) (
     io_bind (io_wrap (''revalidate runtime cache directory '' @ quoted_path current @ '': '')
       (os_Lstat env current)) (\<lambda>refreshed.
     io_guard (fi_perm refreshed = runtimeCacheDirectoryPermissions)
       (''runtime cache directory '' @ quoted_path current @ '' permissions are '' @ octal_mode (fi_perm refreshed) @
        '', expected 0700''))))))"

fun ensure_components :: "'u surroundings \<Rightarrow> path \<Rightarrow> string list \<Rightarrow> unit io" where
  "ensure_components env current [] = io_return ()"
| "ensure_components env current (component # components) =
     (if component = [] \<or> component = ''.'' \<or> component = ''..''
      then io_fail ''runtime cache hierarchy contains an ambiguous path component''
      else io_then (ensure_component env (current @ [component]))
             (ensure_components env (current @ [component]) components))"

definition ensureRuntimeCacheDirectory :: "'u surroundings \<Rightarrow> path \<Rightarrow> path \<Rightarrow> unit io" where
  "ensureRuntimeCacheDirectory env root target =
     io_then (io_guard (runtimePathWithinRoot root target)
       (''runtime cache directory '' @ quoted_path target @ '' is outside the per-user cache root'')) (
     io_bind (io_wrap ''validate runtime cache root: '' (os_EvalSymlinks env root)) (\<lambda>resolvedRoot.
     io_then (io_guard (resolvedRoot = root)
       ''runtime cache root or its ancestry contains a link or reparse point'') (
     io_bind (io_wrap ''validate runtime cache root: '' (openStableRuntimeObject env root True False)) (\<lambda>rootObject.
     io_then (io_wrap ''close runtime cache root: '' (object_Close env rootObject)) (
     if root = target then io_return () else ensure_components env root (filepath_Rel root target))))))"

section \<open>Checking the executable\<close>

definition hashOpenedRuntimeObject :: "crypto \<Rightarrow> 'u surroundings \<Rightarrow> openedRuntimeObject \<Rightarrow> string io" where
  "hashOpenedRuntimeObject cr env ob =
     io_then (os_Seek0 env (op_file ob)) (
     io_bind (copy_opened env (op_file ob) (\<lambda>_. io_return ()) (runtime_artifact_limit + 1)) (\<lambda>bytes.
     io_then (io_guard (length bytes \<le> runtime_artifact_limit)
       (''runtime artifact exceeds the '' @ dec_of_nat runtime_artifact_limit @ '' byte safety limit'')) (
     io_then (ensureStable env ob)
     (io_return (hex_encode (sha256 cr bytes))))))"

definition verify_hash :: "crypto \<Rightarrow> 'u surroundings \<Rightarrow> string \<Rightarrow> openedRuntimeObject \<Rightarrow> unit io" where
  "verify_hash cr env expectedSHA256 ob =
     io_bind (io_wrap ''hash cached runtime: '' (hashOpenedRuntimeObject cr env ob)) (\<lambda>actual.
     io_guard (actual = expectedSHA256)
       (''runtime checksum mismatch: expected '' @ expectedSHA256 @ '', got '' @ actual))"

definition protect_and_close :: "'u surroundings \<Rightarrow> path \<Rightarrow> u32 \<Rightarrow> openedRuntimeObject \<Rightarrow> unit io" where
  "protect_and_close env p permissions ob =
     io_then (io_on_error (object_Close env ob) (verifyRuntimeCacheFileMode p (op_info ob) permissions)) (
     io_then (io_on_error (object_Close env ob) (protectOpenedRuntimeObject env (op_file ob) permissions))
     (object_Close env ob))"

definition verifyRuntimeArtifactFile :: "crypto \<Rightarrow> 'u surroundings \<Rightarrow> path \<Rightarrow> string \<Rightarrow> unit io" where
  "verifyRuntimeArtifactFile cr env p expectedSHA256 =
     io_then (io_guard (isLowerHex64 expectedSHA256)
       ''runtime checksum must be exactly 64 lowercase hexadecimal characters'') (
     io_then (io_bind (openStableRuntimeObject env p False True)
       (protect_and_close env p runtimeCacheRuntimePermissions))
     (io_bind (openStableRuntimeObject env p False True) (\<lambda>ob.
     io_defer (object_Close env ob) (verify_hash cr env expectedSHA256 ob))))"

section \<open>The copy that is executed\<close>

record resolvedRuntimeExecution =
  rx_Path :: path
  rx_directory :: path
  rx_closed :: bool

definition execution_prefix :: string where "execution_prefix = ''.loadstrike-execution-''"

definition copy_source ::
  "crypto \<Rightarrow> 'u surroundings \<Rightarrow> string \<Rightarrow> openedRuntimeObject \<Rightarrow> nat \<Rightarrow> unit io" where
  "copy_source cr env expectedSHA256 source destination =
     io_then (io_wrap ''rewind cached runtime: '' (os_Seek0 env (op_file source))) (
     io_bind (io_wrap ''copy verified runtime for execution: ''
       (copy_opened env (op_file source) (os_Write env destination) (runtime_artifact_limit + 1))) (\<lambda>bytes.
     io_then (io_guard (length bytes \<le> runtime_artifact_limit)
       (''runtime artifact exceeds the '' @ dec_of_nat runtime_artifact_limit @ '' byte safety limit'')) (
     io_then (io_guard (hex_encode (sha256 cr bytes) = expectedSHA256)
       (''runtime checksum mismatch while preparing execution copy: expected '' @ expectedSHA256 @
        '', got '' @ hex_encode (sha256 cr bytes))) (
     io_then (ensureStable env source)
     (io_wrap ''sync private runtime execution file: '' (os_Sync env destination))))))"

definition fill_execution_directory ::
  "crypto \<Rightarrow> 'u surroundings \<Rightarrow> path \<Rightarrow> string \<Rightarrow> openedRuntimeObject \<Rightarrow> path \<Rightarrow> resolvedRuntimeExecution io" where
  "fill_execution_directory cr env sourcePath expectedSHA256 source executionDirectory =
     (let executionPath = filepath_join executionDirectory [filepath_Base sourcePath] in
      io_then (io_wrap ''protect private runtime execution directory: ''
        (protectRuntimeObject env executionDirectory runtimeCacheDirectoryPermissions)) (
      io_bind (io_wrap ''create private runtime execution file: ''
        (os_Create env executionPath runtimeCacheSidecarPermissions)) (\<lambda>destination.
      io_then (io_on_error (os_Close env destination)
        (copy_source cr env expectedSHA256 source destination)) (
      io_then (io_wrap ''close private runtime execution file: '' (os_Close env destination)) (
      io_then (io_wrap ''protect private runtime execution file: ''
        (protectRuntimeObject env executionPath runtimeCacheRuntimePermissions)) (
      io_then (io_wrap ''revalidate private runtime execution file: ''
        (verifyRuntimeArtifactFile cr env executionPath expectedSHA256))
      (io_return \<lparr>rx_Path = executionPath, rx_directory = executionDirectory, rx_closed = False\<rparr>)))))))"

definition prepareRuntimeExecutionCopy ::
  "crypto \<Rightarrow> 'u surroundings \<Rightarrow> path \<Rightarrow> string \<Rightarrow> unit io option \<Rightarrow> resolvedRuntimeExecution io" where
  "prepareRuntimeExecutionCopy cr env sourcePath expectedSHA256 afterSourceLstat =
     io_then (io_guard (isLowerHex64 expectedSHA256)
       ''runtime checksum must be exactly 64 lowercase hexadecimal characters'') (
     io_bind (os_Lstat env sourcePath) (\<lambda>before.
     io_then (io_guard (fi_type before = TRegular) ''cached runtime must be a non-linked regular file'') (
     io_then (case afterSourceLstat of
         None \<Rightarrow> io_return ()
       | Some hook \<Rightarrow> io_wrap ''runtime cache swap test hook: '' hook) (
     io_bind (openStableRuntimeObject env sourcePath False True) (\<lambda>source.
     io_defer (object_Close env source) (
     io_then (io_guard (SameFile before (op_info source)) ''runtime cache path changed before it could be copied'') (
     io_then (verifyRuntimeCacheFileMode sourcePath (op_info source) runtimeCacheRuntimePermissions) (
     io_then (io_wrap ''protect cached runtime before execution copy: ''
       (protectOpenedRuntimeObject env (op_file source) runtimeCacheRuntimePermissions)) (
     io_bind (io_wrap ''create private runtime execution directory: ''
       (os_MkdirTemp env (filepath_Dir sourcePath) execution_prefix)) (\<lambda>executionDirectory.
     io_on_error (os_RemoveAll env executionDirectory)
       (fill_execution_directory cr env sourcePath expectedSHA256 source executionDirectory)))))))))))"

definition execution_Close :: "'u surroundings \<Rightarrow> resolvedRuntimeExecution \<Rightarrow> resolvedRuntimeExecution \<times> unit io" where
  "execution_Close env e =
     (if rx_closed e then (e, io_return ())
      else (e\<lparr>rx_closed := True\<rparr>,
        if rx_directory e = [] then io_return ()
        else if \<not> prefix execution_prefix (filepath_Base (rx_directory e)) \<or>
                \<not> runtimePathWithinRoot (filepath_Dir (rx_directory e)) (rx_directory e)
        then io_fail ''refusing to remove an unrecognized runtime execution directory''
        else os_RemoveAll env (rx_directory e)))"

section \<open>Requests\<close>

text \<open>The cache itself sends no request.\<close>

context effect begin

lemma keeps_identity [intro]: "io_keeps R (runtimeObjectIdentityForFile env fd)"
  unfolding runtimeObjectIdentityForFile_def by blast

lemma keeps_security [intro]: "io_keeps R (validateRuntimeObjectSecurity env fd p)"
  unfolding validateRuntimeObjectSecurity_def by blast

lemma keeps_check_opened [intro]: "io_keeps R (check_opened env p l before fd)"
  unfolding check_opened_def by (intro keeps_bind keeps_then keeps_guard keeps_files_calls keeps_identity keeps_security keeps_return)

lemma keeps_ensureStable [intro]: "io_keeps R (ensureStable env ob)"
  unfolding ensureStable_def by (intro keeps_bind keeps_then keeps_guard keeps_files_calls keeps_identity)

lemma keeps_mode [intro]: "io_keeps R (verifyRuntimeCacheFileMode p info m)"
  unfolding verifyRuntimeCacheFileMode_def by blast

lemma keeps_protect [intro]:
  "io_keeps R (protectRuntimeObject env p m)" "io_keeps R (protectOpenedRuntimeObject env fd m)"
  "io_keeps R (createProtectedRuntimeDirectory env p)"
  unfolding protectRuntimeObject_def protectOpenedRuntimeObject_def createProtectedRuntimeDirectory_def by blast+

end

context silent begin

lemma keeps_openStable [intro]: "io_keeps R (openStableRuntimeObject env p d l)"
  unfolding openStableRuntimeObject_def by (intro silent_rules keeps_check_opened)

lemma keeps_object_Close [intro]: "io_keeps R (object_Close env ob)"
  unfolding object_Close_def by (rule keeps_Close)

lemma keeps_sync_directory [intro]: "io_keeps R (syncRuntimeCacheDirectory env p)"
  unfolding syncRuntimeCacheDirectory_def by (intro silent_rules)

lemmas cache_rules =
  silent_rules keeps_identity keeps_ensureStable keeps_mode keeps_protect keeps_openStable keeps_object_Close keeps_sync_directory

lemma keeps_component [intro]: "io_keeps R (ensure_component env p)"
proof -
  have "io_keeps R (existing_component env p info)" for info
    unfolding existing_component_def by (intro cache_rules)
  then have "io_keeps R (case found of Inr info \<Rightarrow> existing_component env p info
      | Inl e \<Rightarrow> if e = not_exist then io_wrap a (createProtectedRuntimeDirectory env p) else io_fail (b e))" for found a b
    by (cases found) (simp_all add: keeps_protect keeps_wrap)
  then show ?thesis unfolding ensure_component_def by (intro cache_rules)
qed

lemma keeps_components [intro]: "io_keeps R (ensure_components env p cs)"
  by (induction env p cs rule: ensure_components.induct) (simp_all add: keeps_component keeps_then)

lemma keeps_ensure [intro]: "io_keeps R (ensureRuntimeCacheDirectory env root target)"
proof -
  have "io_keeps R (if root = target then io_return () else ensure_components env root (filepath_Rel root target))"
    by (simp add: keeps_components)
  then show ?thesis unfolding ensureRuntimeCacheDirectory_def by (intro cache_rules)
qed

lemma keeps_hash [intro]: "io_keeps R (hashOpenedRuntimeObject cr env ob)"
  unfolding hashOpenedRuntimeObject_def by (intro cache_rules)

lemma keeps_protect_and_close [intro]: "io_keeps R (protect_and_close env p m ob)"
  unfolding protect_and_close_def by (intro cache_rules)

lemma keeps_verify [intro]: "io_keeps R (verifyRuntimeArtifactFile cr env p e)"
  unfolding verifyRuntimeArtifactFile_def verify_hash_def by (intro cache_rules keeps_hash keeps_protect_and_close)

lemma keeps_fill [intro]: "io_keeps R (fill_execution_directory cr env p e source d)"
  unfolding fill_execution_directory_def copy_source_def Let_def by (intro cache_rules keeps_verify)

lemma keeps_prepare [intro]:
  assumes "\<And>m. hook = Some m \<Longrightarrow> io_keeps R m"
  shows "io_keeps R (prepareRuntimeExecutionCopy cr env p e hook)"
proof -
  have "io_keeps R (case hook of None \<Rightarrow> io_return () | Some m \<Rightarrow> io_wrap l m)" for l
    using assms by (cases hook) (auto intro: keeps_wrap)
  then show ?thesis unfolding prepareRuntimeExecutionCopy_def by (intro cache_rules keeps_fill)
qed

end

section \<open>Open files\<close>

lemma opens_openStable [intro]: "opens S op_file (openStableRuntimeObject env p d l)"
proof -
  have "op_file ob = fd" if "check_opened env p l before fd w = (Inr ob, w')" for before fd w ob w'
    using that by (auto simp: check_opened_def io_then_def io_bind_def io_return_def split: prod.splits sum.splits)
  then show ?thesis
    unfolding openStableRuntimeObject_def
    by (intro opens_bind opens_then opens_checked opens_calls same.keeps_rules same.keeps_check_opened) auto
qed

lemma closes_object [intro]: "closes S (op_file ob) (object_Close env ob)"
  unfolding object_Close_def by (rule closes_Close)

lemma closes_protect [intro]: "closes S (op_file ob) (protect_and_close env p m ob)"
  unfolding protect_and_close_def object_Close_def
  by (intro closes_on_error closes_Close same.keeps_mode same.keeps_protect)

lemma same_existing: "io_keeps (same_open S) (existing_component env p info)"
  unfolding existing_component_def io_wrap_on_error object_Close_def
  by (intro same.keeps_then same.keeps_guard keeps_open_close[OF opens_wrap[OF opens_openStable]] closes_on_error
      closes_wrap closes_Close same.keeps_wrap same.keeps_protect)

lemma same_component [intro]: "io_keeps (same_open S) (ensure_component env p)"
proof -
  have "io_keeps (same_open S) (case found of Inr info \<Rightarrow> existing_component env p info
      | Inl e \<Rightarrow> if e = not_exist then io_wrap a (createProtectedRuntimeDirectory env p) else io_fail (b e))" for found a b
    by (cases found) (simp_all add: same.keeps_protect same.keeps_wrap same_existing)
  then show ?thesis
    unfolding ensure_component_def object_Close_def
    by (intro same.keeps_bind same.keeps_then same.keeps_try same.keeps_files_calls
      keeps_open_close[OF opens_wrap[OF opens_openStable]] closes_then closes_wrap closes_Close same.keeps_wrap same.keeps_guard)
qed

lemma same_components [intro]: "io_keeps (same_open S) (ensure_components env p cs)"
  by (induction env p cs rule: ensure_components.induct) (simp_all add: same_component same.keeps_then)

lemma same_ensure [intro]: "io_keeps (same_open S) (ensureRuntimeCacheDirectory env root target)"
proof -
  have "io_keeps (same_open T) (if root = target then io_return () else ensure_components env root (filepath_Rel root target))" for T
    by (simp add: same_components)
  then show ?thesis
    unfolding ensureRuntimeCacheDirectory_def object_Close_def
    by (intro same.keeps_bind[OF same.keeps_wrap] same.keeps_then same.keeps_guard same.keeps_files_calls
      keeps_open_close[OF opens_wrap[OF opens_openStable]] closes_then closes_wrap closes_Close)
qed

lemma same_copy [intro]:
  "fd \<in> S \<Longrightarrow> (\<And>s. io_keeps (same_open S) (sink s)) \<Longrightarrow> io_keeps (same_open S) (copy_opened env fd sink n)"
  by (rule same.keeps_copy) (auto intro: same_open_mono[OF keeps_fd(2)])

lemma same_seek [intro]: "fd \<in> S \<Longrightarrow> io_keeps (same_open S) (os_Seek0 env fd)"
  by (auto intro: same_open_mono[OF keeps_fd(1)])

lemma same_write [intro]: "fd \<in> S \<Longrightarrow> io_keeps (same_open S) (os_Write env fd s)"
  by (auto intro: same_open_mono[OF opened_Write])

lemmas same_rules =
  same.keeps_rules same.keeps_identity same.keeps_ensureStable same.keeps_mode same.keeps_protect same_copy same_seek same_write

lemma same_hash [intro]: "op_file ob \<in> S \<Longrightarrow> io_keeps (same_open S) (hashOpenedRuntimeObject cr env ob)"
  unfolding hashOpenedRuntimeObject_def by (intro same_rules) auto

lemma same_verify [intro]: "io_keeps (same_open S) (verifyRuntimeArtifactFile cr env p e)"
  unfolding verifyRuntimeArtifactFile_def verify_hash_def object_Close_def
  by (intro same.keeps_then same.keeps_guard keeps_open_close[OF opens_openStable] closes_protect closes_defer
      same.keeps_bind same.keeps_wrap same_hash) auto

lemma same_fill [intro]:
  assumes "op_file source \<in> S"
  shows "io_keeps (same_open S) (fill_execution_directory cr env p e source d)"
  unfolding fill_execution_directory_def Let_def copy_source_def
  by (intro same.keeps_then same.keeps_guard same.keeps_wrap same.keeps_protect
      keeps_open_close[OF opens_wrap[OF opens_calls(3)]] closes_on_error closes_then closes_wrap closes_Close
      same_rules same_verify) (use assms in auto)

lemma same_prepare [intro]:
  assumes "\<And>m. hook = Some m \<Longrightarrow> io_keeps (same_open S) m"
  shows "io_keeps (same_open S) (prepareRuntimeExecutionCopy cr env p e hook)"
proof -
  have "io_keeps (same_open S) (case hook of None \<Rightarrow> io_return () | Some m \<Rightarrow> io_wrap l m)" for l
    using assms by (cases hook) (auto intro: same.keeps_wrap)
  then show ?thesis
    unfolding prepareRuntimeExecutionCopy_def object_Close_def
    by (intro same.keeps_bind[OF same.keeps_files_calls(1)] same.keeps_then same.keeps_guard
      keeps_open_close[OF opens_openStable] closes_defer same_rules same_fill) auto
qed

section \<open>Private files\<close>

lemma kept_identity: "private_path env p \<Longrightarrow> io_keeps (kept p) (runtimeObjectIdentityForFile env fd)"
  unfolding runtimeObjectIdentityForFile_def by (intro kept.step_rules kept_calls)

lemma kept_security: "private_path env p \<Longrightarrow> io_keeps (kept p) (validateRuntimeObjectSecurity env fd q)"
  unfolding validateRuntimeObjectSecurity_def by (intro kept.step_rules kept_calls)

lemma kept_check_opened: "private_path env p \<Longrightarrow> io_keeps (kept p) (check_opened env q l before fd)"
  unfolding check_opened_def by (intro kept.step_rules kept_calls kept_identity kept_security)

lemma kept_openStable: "private_path env p \<Longrightarrow> io_keeps (kept p) (openStableRuntimeObject env q d l)"
  unfolding openStableRuntimeObject_def by (intro kept.step_rules kept_calls kept_check_opened)

lemma kept_ensureStable: "private_path env p \<Longrightarrow> io_keeps (kept p) (ensureStable env ob)"
  unfolding ensureStable_def by (intro kept.step_rules kept_calls kept_identity)

lemma kept_hash: "private_path env p \<Longrightarrow> io_keeps (kept p) (hashOpenedRuntimeObject cr env ob)"
  unfolding hashOpenedRuntimeObject_def
  by (intro kept.step_rules kept_calls kept_ensureStable kept.keeps_copy)

text \<open>What a check of an open file found.\<close>

lemma check_opened_result:
  assumes run: "check_opened env p l before fd w = (Inr ob, w')" and priv: "private_path env p"
    and held: "holding p i n fd w"
  shows "op_file ob = fd \<and> op_path ob = p \<and> op_info ob = info_of i n \<and> (l \<longrightarrow> nd_links n = 1) \<and>
    nd_uid n = euid env \<and> holding p i n fd w'"
proof -
  from run obtain info w1 status w2 status' w3 where
    1: "os_Fstat env fd w = (Inr info, w1)" and
    2: "os_Fstat env fd w1 = (Inr status, w2)" and "l \<longrightarrow> fi_links status = 1" and
    3: "os_Fstat env fd w2 = (Inr status', w3)" and "fi_uid status' = euid env" and
    "op_file ob = fd \<and> op_path ob = p \<and> op_info ob = info"
    by (auto simp: check_opened_def runtimeObjectIdentityForFile_def validateRuntimeObjectSecurity_def io_Inr)
  moreover have a: "info = info_of i n" "holding p i n fd w1" using holding_Fstat[OF priv held 1] by auto
  moreover have b: "status = info_of i n" "holding p i n fd w2" using holding_Fstat[OF priv a(2) 2] by auto
  moreover have "status' = info_of i n" using holding_Fstat[OF priv b(2) 3] by auto
  moreover have "holding p i n fd w'"
    using run kept_check_opened[OF priv] same.keeps_check_opened held by (rule holding_keeps)
  ultimately show ?thesis by (simp add: info_of_def)
qed

lemma openStable_result:
  assumes run: "openStableRuntimeObject env p False l w = (Inr ob, w')" and priv: "private_path env p"
  obtains i n where "holding p i n (op_file ob) w'" and "op_path ob = p" and "op_info ob = info_of i n"
    and "type_of (nd_kind n) = TRegular" and "l \<longrightarrow> nd_links n = 1" and "nd_uid n = euid env"
    and "at_path p (w_files w) = Some (i, n)"
proof -
  from run obtain before w1 fd w2 where 1: "os_Lstat env p w = (Inr before, w1)" "fi_type before = TRegular"
    and 2: "os_OpenNoFollow env p False w1 = (Inr fd, w2)" and 3: "check_opened env p l before fd w2 = (Inr ob, w')"
    by (auto simp: openStableRuntimeObject_def io_Inr)
  obtain i n where at: "at_path p (w_files w1) = Some (i, n)" "before = info_of i n"
    using Lstat_result[OF 1(1)] by blast
  have "holding p i n fd w2"
    using Open_result[OF 2] io_keepsD[OF kept_calls(3)[OF priv] 2] at(1) by (auto simp: holding_def kept_def)
  moreover have "at_path p (w_files w) = Some (i, n)"
    using io_keepsD[OF kept_calls(1)[OF priv] 1(1)] at(1) by (simp add: kept_def)
  ultimately show ?thesis
    using check_opened_result[OF 3 priv] 1(2) at(2) that[of i n] by (auto simp: info_of_def)
qed

lemma Fchmod_result:
  assumes "os_Fchmod env fd m w = (Inr (), w')" and "private_path env p" and "holding p i n fd w"
  shows "at_path p (w_files w') = Some (i, n\<lparr>nd_perm := m\<rparr>)"
proof -
  have at: "at_path p (meddle env (w_calls w) (w_files w)) = Some (i, n)"
    using assms(2,3) by (simp add: private_meddle holding_def)
  let ?fs = "meddle env (w_calls w) (w_files w)"
  have nd: "nodes ?fs i = Some n" "look ?fs p = Some i"
    using at by (auto simp: at_path_def split: option.splits)
  have "w_files w' = ?fs\<lparr>nodes := (nodes ?fs)(i \<mapsto> n\<lparr>nd_perm := m\<rparr>)\<rparr>"
    using assms(1,3) nd(1)
    by (auto simp: os_Fchmod_def sys_def Let_def with_file_def with_node_def set_node_def holding_def split: option.splits)
  then show ?thesis using nd look_perm[OF nd(1)] by (simp add: at_path_def)
qed

definition checked_file :: "crypto \<Rightarrow> nat \<Rightarrow> path \<Rightarrow> string \<Rightarrow> files \<Rightarrow> bool" where
  "checked_file cr user p digest fs \<longleftrightarrow>
     (case at_path p fs of
        None \<Rightarrow> False
      | Some (i, n) \<Rightarrow>
          type_of (nd_kind n) = TRegular \<and> hex_encode (sha256 cr (content (nd_kind n))) = digest \<and>
          length (content (nd_kind n)) \<le> runtime_artifact_limit \<and>
          nd_perm n = runtimeCacheRuntimePermissions \<and> nd_links n = 1 \<and> nd_uid n = user)"

lemma hash_result:
  assumes run: "hashOpenedRuntimeObject cr env ob w = (Inr digest, w')" and priv: "private_path env p"
    and held: "holding p i n (op_file ob) w"
  shows "digest = hex_encode (sha256 cr (content (nd_kind n))) \<and> length (content (nd_kind n)) \<le> runtime_artifact_limit"
proof -
  from run obtain w1 bytes w2 where 1: "os_Seek0 env (op_file ob) w = (Inr (), w1)"
    and 2: "copy_opened env (op_file ob) (\<lambda>_. io_return ()) (runtime_artifact_limit + 1) w1 = (Inr bytes, w2)"
    and fits: "length bytes \<le> runtime_artifact_limit" and digest: "digest = hex_encode (sha256 cr bytes)"
    by (auto simp: hashOpenedRuntimeObject_def io_Inr)
  have "at_path p (w_files w1) = Some (i, n)"
    using io_keepsD[OF kept_calls(4)[OF priv] 1] held by (simp add: kept_def holding_def)
  moreover have "w_open w1 (op_file ob) = Some \<lparr>of_node = i, of_offset = 0\<rparr>"
    using 1 held
    by (auto simp: os_Seek0_def sys_def Let_def with_file_def set_offset_def holding_def split: option.splits)
  ultimately have "bytes = take (runtime_artifact_limit + 1) (content (nd_kind n))"
    using copy_private[OF priv _ _ 2] by simp
  with fits digest show ?thesis by (cases "length (content (nd_kind n)) \<le> runtime_artifact_limit + 1") auto
qed

lemma verified_private_file:
  assumes run: "verifyRuntimeArtifactFile cr env p digest w = (Inr (), w')" and priv: "private_path env p"
  shows "checked_file cr (euid env) p digest (w_files w')"
proof -
  from run obtain ob w1 w2 w3 w4 ob' w5 w6 where
    1: "openStableRuntimeObject env p False True w = (Inr ob, w1)" and
    2: "os_Fchmod env (op_file ob) runtimeCacheRuntimePermissions w1 = (Inr (), w2)" and
    3: "os_Close env (op_file ob) w2 = (Inr (), w3)" and
    4: "openStableRuntimeObject env p False True w3 = (Inr ob', w4)" and
    5: "hashOpenedRuntimeObject cr env ob' w4 = (Inr digest, w5)" and
    6: "w' = snd (os_Close env (op_file ob') w5)"
    by (auto simp: verifyRuntimeArtifactFile_def protect_and_close_def verifyRuntimeCacheFileMode_def verify_hash_def
        protectOpenedRuntimeObject_def object_Close_def io_Inr)
  obtain i n where a: "holding p i n (op_file ob) w1" using 1 priv by (rule openStable_result)
  have b: "at_path p (w_files w3) = Some (i, n\<lparr>nd_perm := runtimeCacheRuntimePermissions\<rparr>)"
    using Fchmod_result[OF 2 priv a] io_keepsD[OF kept_calls(6)[OF priv] 3] by (simp add: kept_def)
  obtain j m where c: "holding p j m (op_file ob') w4" "type_of (nd_kind m) = TRegular" "nd_links m = 1"
    "nd_uid m = euid env" "at_path p (w_files w3) = Some (j, m)"
    using 4 priv by (rule openStable_result) blast
  have "at_path p (w_files w5) = Some (j, m)"
    using io_keepsD[OF kept_hash[OF priv] 5] c(1) by (simp add: kept_def holding_def)
  then have "at_path p (w_files w') = Some (j, m)"
    using kept_calls(6)[OF priv] 6 by (simp add: io_keeps_def kept_def)
  moreover have "nd_perm m = runtimeCacheRuntimePermissions" using b c(5) by auto
  ultimately show ?thesis using hash_result[OF 5 priv c(1)] c by (simp add: checked_file_def)
qed

lemma execution_copy_checked:
  assumes run: "prepareRuntimeExecutionCopy cr env p digest hook w = (Inr e, w')" and priv: "private_path env (rx_Path e)"
  shows "checked_file cr (euid env) (rx_Path e) digest (w_files w')"
proof -
  from run obtain source d u v where fill: "fill_execution_directory cr env p digest source d u = (Inr e, v)"
    and "w' = snd (os_Close env (op_file source) v)"
    by (simp add: prepareRuntimeExecutionCopy_def object_Close_def io_Inr) blast
  moreover from fill obtain u1 where "verifyRuntimeArtifactFile cr env (rx_Path e) digest u1 = (Inr (), v)"
    by (auto simp: fill_execution_directory_def Let_def io_Inr)
  ultimately show ?thesis using verified_private_file[OF _ priv] kept_calls(6)[OF priv]
    by (auto simp: checked_file_def io_keeps_def kept_def)
qed

end
