(* ===== verification/Json_Text.thy ===== *)
theory Json_Text
  imports Manifest
begin

text \<open>
  JSON text as Go's \<open>encoding/json\<close> reads and writes it: a reader from text to its syntax tree, the
  value that decoding into \<open>any\<close> gives (with numbers kept as they are written), and the writer of
  \<open>json.Marshal\<close>. The reader is recursive descent with the depth limit of the library; its fuel is the
  length of the text, and a lemma shows that more never changes the result.
\<close>

section \<open>Syntax trees\<close>

datatype jv =
    JvNull
  | JvBool bool
  | JvNumber string
  | JvString string
  | JvArray "jv list"
  | JvObject "(string \<times> jv) list"

section \<open>Reading\<close>

definition quote :: char where "quote = CHR 0x22"
definition backslash :: char where "backslash = CHR 0x5C"

definition json_space :: "char \<Rightarrow> bool" where
  "json_space c \<longleftrightarrow> c = CHR '' '' \<or> c = CHR 0x09 \<or> c = CHR 0x0D \<or> c = CHR 0x0A"

definition skip_ws :: "string \<Rightarrow> string" where
  "skip_ws s = dropWhile json_space s"

text \<open>The encoding of a code point in UTF-8.\<close>

definition utf8_encode :: "nat \<Rightarrow> string" where
  "utf8_encode n =
     (if n < 0x80 then [char_of n]
      else if n < 0x800 then [char_of (0xC0 + n div 0x40), char_of (0x80 + n mod 0x40)]
      else if n < 0x10000
      then [char_of (0xE0 + n div 0x1000), char_of (0x80 + n div 0x40 mod 0x40), char_of (0x80 + n mod 0x40)]
      else [char_of (0xF0 + n div 0x40000), char_of (0x80 + n div 0x1000 mod 0x40),
            char_of (0x80 + n div 0x40 mod 0x40), char_of (0x80 + n mod 0x40)])"

definition hex_value :: "char \<Rightarrow> nat option" where
  "hex_value c =
     (if is_digit c then Some (byte_nat c - 48)
      else if 97 \<le> byte_nat c \<and> byte_nat c \<le> 102 then Some (byte_nat c - 87)
      else if 65 \<le> byte_nat c \<and> byte_nat c \<le> 70 then Some (byte_nat c - 55)
      else None)"

definition hex4 :: "char \<Rightarrow> char \<Rightarrow> char \<Rightarrow> char \<Rightarrow> nat option" where
  "hex4 a b c d =
     (case (hex_value a, hex_value b, hex_value c, hex_value d) of
        (Some i, Some j, Some k, Some l) \<Rightarrow> Some (((i * 16 + j) * 16 + k) * 16 + l)
      | _ \<Rightarrow> None)"

text \<open>Four hexadecimal digits, and the second half of a surrogate pair.\<close>

definition code_unit :: "string \<Rightarrow> (nat \<times> string) option" where
  "code_unit s =
     (case s of a # b # c # d # r \<Rightarrow> map_option (\<lambda>n. (n, r)) (hex4 a b c d) | _ \<Rightarrow> None)"

definition low_surrogate :: "string \<Rightarrow> (nat \<times> string) option" where
  "low_surrogate s =
     (case s of
        p # q # t \<Rightarrow>
          if p = backslash \<and> q = CHR ''u'' then
            (case code_unit t of
               Some (n, r) \<Rightarrow> if 0xDC00 \<le> n \<and> n < 0xE000 then Some (n, r) else None
             | None \<Rightarrow> None)
          else None
      | _ \<Rightarrow> None)"

definition simple_escape :: "char \<Rightarrow> char option" where
  "simple_escape c =
     (if c = quote \<or> c = backslash \<or> c = CHR ''/'' then Some c
      else if c = CHR ''b'' then Some (CHR 0x08)
      else if c = CHR ''f'' then Some (CHR 0x0C)
      else if c = CHR ''n'' then Some (CHR 0x0A)
      else if c = CHR ''r'' then Some (CHR 0x0D)
      else if c = CHR ''t'' then Some (CHR 0x09)
      else None)"

text \<open>An escape after its backslash: what it stands for and what follows; half of a pair is U+FFFD.\<close>

definition unicode_escape :: "string \<Rightarrow> (string \<times> string) option" where
  "unicode_escape s =
     (case code_unit s of
        None \<Rightarrow> None
      | Some (n, r) \<Rightarrow>
          if n < 0xD800 \<or> 0xE000 \<le> n then Some (utf8_encode n, r)
          else (case low_surrogate r of
                  Some (m, r') \<Rightarrow>
                    if n < 0xDC00 then Some (utf8_encode (0x10000 + (n - 0xD800) * 0x400 + (m - 0xDC00)), r')
                    else Some (utf8_encode 0xFFFD, r)
                | None \<Rightarrow> Some (utf8_encode 0xFFFD, r)))"

definition read_escape :: "string \<Rightarrow> (string \<times> string) option" where
  "read_escape s =
     (case s of
        [] \<Rightarrow> None
      | e # t \<Rightarrow> if e = CHR ''u'' then unicode_escape t else map_option (\<lambda>v. ([v], t)) (simple_escape e))"

lemma code_unit_length: "code_unit s = Some (n, r) \<Longrightarrow> length r < length s"
  by (auto simp: code_unit_def split: list.splits)

lemma low_surrogate_length: "low_surrogate s = Some (n, r) \<Longrightarrow> length r < length s"
  by (auto simp: low_surrogate_def split: list.splits if_splits option.splits dest!: code_unit_length)

lemma read_escape_length: "read_escape s = Some (u, r) \<Longrightarrow> length r < length s"
  by (auto simp: read_escape_def unicode_escape_def split: list.splits if_splits option.splits
      dest!: code_unit_length low_surrogate_length)

text \<open>
  The rest of a string after its opening quote: the decoded string and what follows the closing
  quote.
\<close>

function string_body :: "string \<Rightarrow> (string \<times> string) option" where
  "string_body s =
     (case s of
        [] \<Rightarrow> None
      | c # t \<Rightarrow>
          if c = quote then Some ([], t)
          else if c = backslash then
            (case read_escape t of
               None \<Rightarrow> None
             | Some (u, r) \<Rightarrow> map_option (apfst ((@) u)) (string_body r))
          else if byte_nat c < 0x20 then None
          else map_option (apfst ((#) c)) (string_body t))"
  by pat_completeness auto
termination
  by (relation "measure length") (auto dest: read_escape_length)

declare string_body.simps [simp del]

text \<open>A number literal and what follows it.\<close>

definition digits :: "string \<Rightarrow> (string \<times> string) option" where
  "digits s = (let d = takeWhile is_digit s in if d = [] then None else Some (d, dropWhile is_digit s))"

definition integer_part :: "string \<Rightarrow> (string \<times> string) option" where
  "integer_part s =
     (case s of
        [] \<Rightarrow> None
      | c # t \<Rightarrow> if c = CHR ''0'' then Some ([c], t) else digits s)"

definition fraction_part :: "string \<Rightarrow> (string \<times> string) option" where
  "fraction_part s =
     (case s of
        [] \<Rightarrow> Some ([], [])
      | c # t \<Rightarrow> if c = CHR ''.'' then map_option (apfst ((#) c)) (digits t) else Some ([], s))"

definition exponent_part :: "string \<Rightarrow> (string \<times> string) option" where
  "exponent_part s =
     (case s of
        [] \<Rightarrow> Some ([], [])
      | c # t \<Rightarrow>
          if c = CHR ''e'' \<or> c = CHR ''E'' then
            (case t of
               [] \<Rightarrow> None
             | x # u \<Rightarrow>
                 if x = CHR ''+'' \<or> x = CHR ''-'' then map_option (apfst (\<lambda>d. c # x # d)) (digits u)
                 else map_option (apfst ((#) c)) (digits t))
          else Some ([], s))"

definition number_literal :: "string \<Rightarrow> (string \<times> string) option" where
  "number_literal s =
     (let (sign, s) = (if s \<noteq> [] \<and> hd s = CHR ''-'' then (''-'', tl s) else ([], s)) in
      case integer_part s of
        None \<Rightarrow> None
      | Some (i, s) \<Rightarrow>
          (case fraction_part s of
             None \<Rightarrow> None
           | Some (f, s) \<Rightarrow> map_option (apfst (\<lambda>e. sign @ i @ f @ e)) (exponent_part s)))"

definition after_word :: "string \<Rightarrow> jv \<Rightarrow> string \<Rightarrow> (jv \<times> string) option" where
  "after_word w v s = (if prefix w s then Some (v, drop (length w) s) else None)"

text \<open>A value; \<open>d\<close> is how deep containers may still nest.\<close>

fun read_value :: "nat \<Rightarrow> nat \<Rightarrow> string \<Rightarrow> (jv \<times> string) option"
and read_elements :: "nat \<Rightarrow> nat \<Rightarrow> string \<Rightarrow> (jv list \<times> string) option"
and read_members :: "nat \<Rightarrow> nat \<Rightarrow> string \<Rightarrow> ((string \<times> jv) list \<times> string) option" where
  "read_value 0 d s = None"
| "read_value (Suc n) d s =
     (case skip_ws s of
        [] \<Rightarrow> None
      | c # t \<Rightarrow>
          if c = CHR ''{'' then
            (case d of
               0 \<Rightarrow> None
             | Suc d' \<Rightarrow>
                 (case skip_ws t of
                    x # r \<Rightarrow> if x = CHR ''}'' then Some (JvObject [], r)
                             else map_option (apfst JvObject) (read_members n d' t)
                  | [] \<Rightarrow> None))
          else if c = CHR ''['' then
            (case d of
               0 \<Rightarrow> None
             | Suc d' \<Rightarrow>
                 (case skip_ws t of
                    x # r \<Rightarrow> if x = CHR '']'' then Some (JvArray [], r)
                             else map_option (apfst JvArray) (read_elements n d' t)
                  | [] \<Rightarrow> None))
          else if c = quote then map_option (apfst JvString) (string_body t)
          else if c = CHR ''t'' then after_word ''true'' (JvBool True) (c # t)
          else if c = CHR ''f'' then after_word ''false'' (JvBool False) (c # t)
          else if c = CHR ''n'' then after_word ''null'' JvNull (c # t)
          else map_option (apfst JvNumber) (number_literal (c # t)))"
| "read_elements 0 d s = None"
| "read_elements (Suc n) d s =
     (case read_value n d s of
        None \<Rightarrow> None
      | Some (v, r) \<Rightarrow>
          (case skip_ws r of
             [] \<Rightarrow> None
           | c # r' \<Rightarrow>
               if c = CHR '']'' then Some ([v], r')
               else if c = CHR '','' then map_option (apfst ((#) v)) (read_elements n d r')
               else None))"
| "read_members 0 d s = None"
| "read_members (Suc n) d s =
     (case skip_ws s of
        [] \<Rightarrow> None
      | q # t \<Rightarrow>
          if q \<noteq> quote then None
          else (case string_body t of
                  None \<Rightarrow> None
                | Some (k, r) \<Rightarrow>
                    (case skip_ws r of
                       [] \<Rightarrow> None
                     | c # r' \<Rightarrow>
                         if c \<noteq> CHR '':'' then None
                         else (case read_value n d r' of
                                 None \<Rightarrow> None
                               | Some (v, r) \<Rightarrow>
                                   (case skip_ws r of
                                      [] \<Rightarrow> None
                                    | c # r' \<Rightarrow>
                                        if c = CHR ''}'' then Some ([(k, v)], r')
                                        else if c = CHR '','' then map_option (apfst ((#) (k, v))) (read_members n d r')
                                        else None)))))"

text \<open>One document and nothing else.\<close>

definition maxNestingDepth :: nat where "maxNestingDepth = 10000"

definition json_document :: "string \<Rightarrow> jv option" where
  "json_document s =
     (case read_value (Suc (length s)) maxNestingDepth s of
        Some (v, r) \<Rightarrow> if skip_ws r = [] then Some v else None
      | None \<Rightarrow> None)"

section \<open>Writing\<close>

text \<open>Decoding into \<open>any\<close>: of an object's members with one key the last is kept; the writer sorts them.\<close>

fun go_value :: "jv \<Rightarrow> jv" where
  "go_value (JvArray vs) = JvArray (map go_value vs)"
| "go_value (JvObject ms) = JvObject (sort_key fst (last_wins (map (map_prod id go_value) ms)))"
| "go_value v = v"

text \<open>The string encoder of \<open>json.Marshal\<close>, which escapes HTML and the two line separators, on UTF-8.\<close>

definition escaped_char :: "char \<Rightarrow> string" where
  "escaped_char c =
     (if c = quote \<or> c = backslash then [backslash, c]
      else if c = CHR 0x08 then [backslash, CHR ''b'']
      else if c = CHR 0x0C then [backslash, CHR ''f'']
      else if c = CHR 0x0A then [backslash, CHR ''n'']
      else if c = CHR 0x0D then [backslash, CHR ''r'']
      else if c = CHR 0x09 then [backslash, CHR ''t'']
      else if byte_nat c < 0x20 \<or> c = CHR ''<'' \<or> c = CHR ''>'' \<or> c = CHR ''&''
      then [backslash, CHR ''u'', CHR ''0'', CHR ''0'', hex_digit (byte_nat c div 16), hex_digit (byte_nat c mod 16)]
      else [c])"

fun escape_string :: "string \<Rightarrow> string" where
  "escape_string (a # b # c # s) =
     (if a = CHR 0xE2 \<and> b = CHR 0x80 \<and> (c = CHR 0xA8 \<or> c = CHR 0xA9)
      then [backslash, CHR ''u'', CHR ''2'', CHR ''0'', CHR ''2'', hex_digit (byte_nat c mod 16)] @ escape_string s
      else escaped_char a @ escape_string (b # c # s))"
| "escape_string (c # s) = escaped_char c @ escape_string s"
| "escape_string [] = []"

definition quoted :: "string \<Rightarrow> string" where
  "quoted s = quote # escape_string s @ [quote]"

fun marshal :: "jv \<Rightarrow> string" where
  "marshal JvNull = ''null''"
| "marshal (JvBool b) = (if b then ''true'' else ''false'')"
| "marshal (JvNumber l) = l"
| "marshal (JvString s) = quoted s"
| "marshal (JvArray vs) = ''['' @ join_with '','' (map marshal vs) @ '']''"
| "marshal (JvObject ms) = ''{'' @ join_with '','' (map (\<lambda>(k, v). quoted k @ '':'' @ marshal v) ms) @ ''}''"

section \<open>Strings read back\<close>

lemma string_body_quote [simp]: "string_body (quote # s) = Some ([], s)"
  by (subst string_body.simps) simp

lemma string_body_plain:
  "c \<noteq> quote \<Longrightarrow> c \<noteq> backslash \<Longrightarrow> 32 \<le> byte_nat c \<Longrightarrow>
     string_body (c # s) = map_option (apfst ((#) c)) (string_body s)"
  by (subst string_body.simps) simp

lemma string_body_simple:
  assumes "simple_escape e = Some v"
  shows "string_body (backslash # e # s) = map_option (apfst ((#) v)) (string_body s)"
proof -
  have "e \<noteq> CHR ''u''" using assms by (auto simp: simple_escape_def quote_def backslash_def)
  moreover have "((@) [v]) = ((#) v)" by auto
  ultimately show ?thesis
    by (subst string_body.simps) (simp add: assms quote_def backslash_def read_escape_def)
qed

lemma string_body_code:
  assumes "hex4 a b x y = Some n" and "n < 0xD800"
  shows "string_body (backslash # CHR ''u'' # a # b # x # y # s) =
    map_option (apfst ((@) (utf8_encode n))) (string_body s)"
  by (subst string_body.simps)
    (simp add: assms quote_def backslash_def read_escape_def unicode_escape_def code_unit_def)

lemma hex_value_digit [simp]: "n < 16 \<Longrightarrow> hex_value (hex_digit n) = Some n"
  by (simp add: hex_value_def hex_digit_def is_digit_def)

lemma hex_zero [simp]: "hex_value (CHR ''0'') = Some 0" "hex_value (CHR ''2'') = Some 2"
  by (simp_all add: hex_value_def is_digit_def byte_nat_def)

definition coded_char :: "char \<Rightarrow> bool" where
  "coded_char c \<longleftrightarrow> c \<notin> {CHR 0x08, CHR 0x0C, CHR 0x0A, CHR 0x0D, CHR 0x09} \<and>
     (byte_nat c < 0x20 \<or> c = CHR ''<'' \<or> c = CHR ''>'' \<or> c = CHR ''&'')"

lemma escaped_code:
  assumes "coded_char c"
  shows "escaped_char c =
    [backslash, CHR ''u'', CHR ''0'', CHR ''0'', hex_digit (byte_nat c div 16), hex_digit (byte_nat c mod 16)]"
proof -
  have "c \<noteq> quote \<and> c \<noteq> backslash"
    using assms by (auto simp: coded_char_def quote_def backslash_def byte_nat_def)
  then show ?thesis using assms unfolding coded_char_def escaped_char_def by simp
qed

lemma escaped_other:
  assumes "\<not> coded_char c"
  shows "(\<exists>e. escaped_char c = [backslash, e] \<and> simple_escape e = Some c) \<or>
    escaped_char c = [c] \<and> c \<noteq> quote \<and> c \<noteq> backslash \<and> 32 \<le> byte_nat c"
proof (cases "c \<in> {quote, backslash, CHR 0x08, CHR 0x0C, CHR 0x0A, CHR 0x0D, CHR 0x09}")
  case True
  then show ?thesis
    by (elim insertE emptyE) (simp_all add: escaped_char_def simple_escape_def quote_def backslash_def)
next
  case False
  with assms show ?thesis unfolding coded_char_def escaped_char_def by simp
qed

lemma html_bytes: "byte_nat (CHR ''<'') = 60" "byte_nat (CHR ''>'') = 62" "byte_nat (CHR ''&'') = 38"
  by (simp_all add: byte_nat_def)

lemma string_body_escaped:
  "string_body (escaped_char c @ s) = map_option (apfst ((#) c)) (string_body s)"
proof (cases "coded_char c")
  case True
  then have low: "byte_nat c < 128" unfolding coded_char_def by (elim conjE disjE) (simp_all add: html_bytes)
  have "hex4 (CHR ''0'') (CHR ''0'') (hex_digit (byte_nat c div 16)) (hex_digit (byte_nat c mod 16)) = Some (byte_nat c)"
    using low by (simp add: hex4_def)
  moreover have "utf8_encode (byte_nat c) = [c]" using low by (simp add: utf8_encode_def)
  moreover have "((@) [c]) = ((#) c)" by auto
  ultimately show ?thesis using low by (simp add: escaped_code[OF True] string_body_code)
next
  case False
  then show ?thesis using escaped_other[OF False] by (auto simp: string_body_simple string_body_plain)
qed

lemma separator_bytes:
  "char_of (226::nat) = CHR 0xE2" "char_of (128::nat) = CHR 0x80"
  "char_of (168::nat) = CHR 0xA8" "char_of (169::nat) = CHR 0xA9"
  by code_simp+

lemma separator_read:
  assumes "c = CHR 0xA8 \<or> c = CHR 0xA9"
  shows "string_body ([backslash, CHR ''u'', CHR ''2'', CHR ''0'', CHR ''2'', hex_digit (byte_nat c mod 16)] @ s) =
    map_option (apfst ((@) [CHR 0xE2, CHR 0x80, c])) (string_body s)"
proof -
  have "hex4 (CHR ''2'') (CHR ''0'') (CHR ''2'') (hex_digit (byte_nat c mod 16)) = Some (0x2020 + byte_nat c mod 16)"
    by (simp add: hex4_def)
  moreover have "utf8_encode (0x2020 + byte_nat c mod 16) = [CHR 0xE2, CHR 0x80, c]"
    using assms by (elim disjE) (simp_all add: utf8_encode_def byte_nat_def separator_bytes)
  moreover have "0x2020 + byte_nat c mod 16 < 0xD800"
    using mod_less_divisor[of 16 "byte_nat c"] by linarith
  ultimately show ?thesis by (simp add: string_body_code)
qed

lemma string_body_escape [simp]: "string_body (escape_string s @ quote # r) = Some (s, r)"
proof (induction s rule: escape_string.induct)
  case (1 a b c s)
  show ?case
  proof (cases "a = CHR 0xE2 \<and> b = CHR 0x80 \<and> (c = CHR 0xA8 \<or> c = CHR 0xA9)")
    case True
    then have "string_body (escape_string s @ quote # r) = Some (s, r)" by (rule 1(1))
    with True separator_read[of c "escape_string s @ quote # r"] show ?thesis
      by (simp only: escape_string.simps if_True simp_thms append_assoc) simp
  next
    case False
    then have "string_body (escape_string (b # c # s) @ quote # r) = Some (b # c # s, r)" by (rule 1(2))
    with False show ?thesis
      by (simp only: escape_string.simps if_False append_assoc string_body_escaped) simp
  qed
qed (simp_all add: string_body_escaped)

section \<open>The fuel is enough\<close>

lemma skip_ws_length: "length (skip_ws s) \<le> length s"
  by (simp add: skip_ws_def length_dropWhile_le)

lemma string_body_length: "string_body s = Some (t, r) \<Longrightarrow> length r < length s"
proof (induction s arbitrary: t r rule: string_body.induct)
  case (1 s)
  show ?case
  proof (cases s)
    case Nil
    with 1(3) show ?thesis by (simp add: string_body.simps)
  next
    case (Cons c u)
    show ?thesis
    proof (cases "c = backslash \<and> c \<noteq> quote")
      case True
      with 1(3) Cons obtain v w where "read_escape u = Some (v, w)" "string_body w = Some (drop (length v) t, r)"
        by (subst (asm) string_body.simps) (auto split: option.splits)
      with 1(1)[OF Cons _ _ \<open>read_escape u = Some (v, w)\<close> refl] True Cons read_escape_length show ?thesis
        by fastforce
    next
      case False
      with 1(3) Cons 1(2)[OF Cons] show ?thesis
        by (subst (asm) string_body.simps) (fastforce split: if_splits)
    qed
  qed
qed

lemma digits_length: "digits s = Some (t, r) \<Longrightarrow> length r < length s"
  by (cases s) (auto simp: digits_def Let_def less_Suc_eq_le length_dropWhile_le split: if_splits)

lemma number_length: "number_literal s = Some (t, r) \<Longrightarrow> length r < length s"
proof -
  have i: "integer_part s = Some (t, r) \<Longrightarrow> length r < length s" for s t r
    by (cases s) (auto simp: integer_part_def dest: digits_length split: if_splits)
  have f: "fraction_part s = Some (t, r) \<Longrightarrow> length r \<le> length s" for s t r
    by (cases s) (auto simp: fraction_part_def dest: digits_length split: if_splits)
  have e: "exponent_part s = Some (t, r) \<Longrightarrow> length r \<le> length s" for s t r
    by (cases s; cases "tl s") (auto simp: exponent_part_def dest!: digits_length split: if_splits)
  assume "number_literal s = Some (t, r)"
  then show ?thesis
    by (cases s) (fastforce simp: number_literal_def Let_def dest: i f e split: if_splits option.splits)+
qed

lemma skip_ws_Cons: "skip_ws s = c # t \<Longrightarrow> length t < length s"
  using skip_ws_length[of s] by simp

lemma after_word_length: "after_word (c # w) v s = Some (x, r) \<Longrightarrow> length r < length s"
  by (auto simp: after_word_def prefix_def split: if_splits)

text \<open>Whatever is read with some fuel is read with as much as the length of what it consumes.\<close>

definition enough :: "(nat \<Rightarrow> string \<Rightarrow> ('a \<times> string) option) \<Rightarrow> string \<Rightarrow> 'a \<Rightarrow> string \<Rightarrow> bool" where
  "enough f s v r \<longleftrightarrow> length r < length s \<and> (\<forall>m. length s \<le> m + length r \<longrightarrow> f m s = Some (v, r))"

lemma enough_step:
  assumes "enough f t v r" and "length t < length s" and "\<And>m. g (Suc m) s = map_option (apfst h) (f m t)"
  shows "enough g s (h v) r"
  unfolding enough_def
proof (intro conjI allI impI)
  show "length r < length s" using assms(1,2) by (simp add: enough_def)
  fix m
  assume m: "length s \<le> m + length r"
  then obtain k where k: "m = Suc k" using \<open>length r < length s\<close> by (cases m) auto
  with m assms(2) have "f k t = Some (v, r)" using assms(1) by (simp add: enough_def)
  then show "g m s = Some (h v, r)" using k assms(3) by simp
qed

lemma enough_const:
  assumes "length r < length s" and "\<And>m. g (Suc m) s = Some (v, r)"
  shows "enough g s v r"
  unfolding enough_def
proof (intro conjI allI impI)
  show "length r < length s" by (fact assms(1))
  fix m
  assume "length s \<le> m + length r"
  then show "g m s = Some (v, r)" using assms by (cases m) auto
qed

definition scalar_value :: "string \<Rightarrow> (jv \<times> string) option" where
  "scalar_value s =
     (case s of
        [] \<Rightarrow> None
      | c # t \<Rightarrow>
          if c = quote then map_option (apfst JvString) (string_body t)
          else if c = CHR ''t'' then after_word ''true'' (JvBool True) (c # t)
          else if c = CHR ''f'' then after_word ''false'' (JvBool False) (c # t)
          else if c = CHR ''n'' then after_word ''null'' JvNull (c # t)
          else map_option (apfst JvNumber) (number_literal (c # t)))"

lemma read_value_scalar:
  "skip_ws s = c # t \<Longrightarrow> c \<noteq> CHR ''{'' \<Longrightarrow> c \<noteq> CHR ''['' \<Longrightarrow> read_value (Suc n) d s = scalar_value (c # t)"
  by (simp add: scalar_value_def)

lemma scalar_length: "scalar_value s = Some (v, r) \<Longrightarrow> length r < length s"
  by (cases s) (auto simp: scalar_value_def dest!: string_body_length number_length after_word_length split: if_splits)

lemma enough_value:
  assumes "read_value (Suc n) d s = Some (v, r)"
    and IHm: "\<And>c t d' ms r. skip_ws s = c # t \<Longrightarrow> d = Suc d' \<Longrightarrow> read_members n d' t = Some (ms, r) \<Longrightarrow>
      enough (\<lambda>m. read_members m d') t ms r"
    and IHe: "\<And>c t d' vs r. skip_ws s = c # t \<Longrightarrow> d = Suc d' \<Longrightarrow> read_elements n d' t = Some (vs, r) \<Longrightarrow>
      enough (\<lambda>m. read_elements m d') t vs r"
  shows "enough (\<lambda>m. read_value m d) s v r"
proof -
  obtain c t where ws: "skip_ws s = c # t" using assms(1) by (cases "skip_ws s") auto
  then have len: "length t < length s" by (rule skip_ws_Cons)
  show ?thesis
  proof (cases "c = CHR ''{'' \<or> c = CHR ''[''")
    case False
    then have "read_value (Suc m) d s = scalar_value (c # t)" for m using ws read_value_scalar by blast
    with assms(1) len scalar_length[of "c # t" v r] show ?thesis by (intro enough_const) auto
  next
    case True
    then obtain d' where d: "d = Suc d'" using assms(1) ws by (cases d) auto
    obtain x u where u: "skip_ws t = x # u" using assms(1) ws d True by (cases "skip_ws t") auto
    note sub = skip_ws_Cons[OF u]
    consider "c = CHR ''{''" "x = CHR ''}''" | "c = CHR ''{''" "x \<noteq> CHR ''}''"
      | "c = CHR ''[''" "x = CHR '']''" | "c = CHR ''[''" "x \<noteq> CHR '']''"
      using True by blast
    then show ?thesis
    proof cases
      case 2
      with assms(1) ws d u obtain ms where ms: "read_members n d' t = Some (ms, r)" and v: "v = JvObject ms" by auto
      show ?thesis unfolding v
        by (rule enough_step[OF IHm[OF ws d ms] len]) (simp add: ws d u 2)
    next
      case 4
      with assms(1) ws d u obtain vs where vs: "read_elements n d' t = Some (vs, r)" and v: "v = JvArray vs" by auto
      show ?thesis unfolding v
        by (rule enough_step[OF IHe[OF ws d vs] len]) (simp add: ws d u 4)
    qed (use assms(1) ws d u len sub in \<open>auto intro!: enough_const\<close>)
  qed
qed

lemma enough_elements:
  assumes "read_elements (Suc n) d s = Some (vs, r)"
    and IHv: "\<And>v r. read_value n d s = Some (v, r) \<Longrightarrow> enough (\<lambda>m. read_value m d) s v r"
    and IHe: "\<And>t vs r. read_elements n d t = Some (vs, r) \<Longrightarrow> enough (\<lambda>m. read_elements m d) t vs r"
  shows "enough (\<lambda>m. read_elements m d) s vs r"
proof -
  obtain v u where v: "read_value n d s = Some (v, u)" using assms(1) by (auto split: option.splits)
  obtain c t where ws: "skip_ws u = c # t" using assms(1) v by (cases "skip_ws u") auto
  note lens = skip_ws_Cons[OF ws] IHv[OF v, unfolded enough_def]
  have step: "read_value m d s = Some (v, u)" if "length s \<le> m + length u" for m using lens that by blast
  show ?thesis
  proof (cases "c = CHR '']''")
    case True
    with assms(1) v ws have r: "r = t" "vs = [v]" by auto
    show ?thesis unfolding enough_def
    proof (intro conjI allI impI)
      fix m assume "length s \<le> m + length r"
      then show "read_elements m d s = Some (vs, r)" using lens r step ws True by (cases m) auto
    qed (use lens r in auto)
  next
    case False
    with assms(1) v ws obtain ws' where c: "c = CHR '',''" and rest: "read_elements n d t = Some (ws', r)" and vs: "vs = v # ws'"
      by (auto split: if_splits)
    note rl = IHe[OF rest, unfolded enough_def]
    show ?thesis unfolding enough_def
    proof (intro conjI allI impI)
      fix m assume m: "length s \<le> m + length r"
      then obtain k where k: "m = Suc k" using lens rl by (cases m) auto
      have "read_value k d s = Some (v, u)" using m k lens rl by (intro step) linarith
      moreover have "read_elements k d t = Some (ws', r)" using m k lens rl by simp
      ultimately show "read_elements m d s = Some (vs, r)" using k ws c vs by simp
    qed (use lens rl in auto)
  qed
qed

lemma enough_members:
  assumes "read_members (Suc n) d s = Some (ms, r)"
    and IHv: "\<And>t v r. read_value n d t = Some (v, r) \<Longrightarrow> enough (\<lambda>m. read_value m d) t v r"
    and IHm: "\<And>t ms r. read_members n d t = Some (ms, r) \<Longrightarrow> enough (\<lambda>m. read_members m d) t ms r"
  shows "enough (\<lambda>m. read_members m d) s ms r"
proof -
  obtain t where t: "skip_ws s = quote # t" using assms(1) by (cases "skip_ws s") (auto split: if_splits)
  obtain k a where k: "string_body t = Some (k, a)" using assms(1) t by (auto split: option.splits)
  obtain b where b: "skip_ws a = CHR '':'' # b"
    using assms(1) t k by (cases "skip_ws a") (auto split: if_splits)
  obtain v u where v: "read_value n d b = Some (v, u)" using assms(1) t k b by (auto split: option.splits)
  obtain c w where ws: "skip_ws u = c # w" using assms(1) t k b v by (cases "skip_ws u") auto
  note lens = skip_ws_Cons[OF t] string_body_length[OF k] skip_ws_Cons[OF b] skip_ws_Cons[OF ws] IHv[OF v, unfolded enough_def]
  have step: "read_value m d b = Some (v, u)" if "length b \<le> m + length u" for m using lens that by blast
  show ?thesis
  proof (cases "c = CHR ''}''")
    case True
    with assms(1) t k b v ws have r: "r = w" "ms = [(k, v)]" by auto
    show ?thesis unfolding enough_def
    proof (intro conjI allI impI)
      fix m assume "length s \<le> m + length r"
      then show "read_members m d s = Some (ms, r)" using lens r step t k b ws True by (cases m) auto
    qed (use lens r in auto)
  next
    case False
    with assms(1) t k b v ws obtain ms' where c: "c = CHR '',''" and rest: "read_members n d w = Some (ms', r)" and ms: "ms = (k, v) # ms'"
      by (auto split: if_splits)
    note rl = IHm[OF rest, unfolded enough_def]
    show ?thesis unfolding enough_def
    proof (intro conjI allI impI)
      fix m assume m: "length s \<le> m + length r"
      then obtain i where i: "m = Suc i" using lens rl by (cases m) auto
      have "read_value i d b = Some (v, u)" using m i lens rl by (intro step) linarith
      moreover have "read_members i d w = Some (ms', r)" using m i lens rl by simp
      ultimately show "read_members m d s = Some (ms, r)" using i t k b ws c ms by simp
    qed (use lens rl in auto)
  qed
qed

lemma read_enough:
  "(read_value n d s = Some (v, r) \<longrightarrow> enough (\<lambda>m. read_value m d) s v r) \<and>
   (read_elements n d s = Some (vs, r) \<longrightarrow> enough (\<lambda>m. read_elements m d) s vs r) \<and>
   (read_members n d s = Some (ms, r) \<longrightarrow> enough (\<lambda>m. read_members m d) s ms r)"
proof (induction n arbitrary: d s v r vs ms)
  case (Suc n)
  have v: "read_value n d s = Some (v, r) \<Longrightarrow> enough (\<lambda>m. read_value m d) s v r"
    and e: "read_elements n d s = Some (vs, r) \<Longrightarrow> enough (\<lambda>m. read_elements m d) s vs r"
    and m: "read_members n d s = Some (ms, r) \<Longrightarrow> enough (\<lambda>m. read_members m d) s ms r" for d s v r vs ms
    using Suc by blast+
  show ?case
  proof (intro conjI impI)
    assume "read_value (Suc n) d s = Some (v, r)"
    then show "enough (\<lambda>m. read_value m d) s v r" by (rule enough_value) (rule m e, assumption)+
  next
    assume "read_elements (Suc n) d s = Some (vs, r)"
    then show "enough (\<lambda>m. read_elements m d) s vs r" by (rule enough_elements) (rule v e, assumption)+
  next
    assume "read_members (Suc n) d s = Some (ms, r)"
    then show "enough (\<lambda>m. read_members m d) s ms r" by (rule enough_members) (rule v m, assumption)+
  qed
qed simp

lemma json_document_fuel:
  "read_value n maxNestingDepth s = Some (v, r) \<Longrightarrow> skip_ws r = [] \<Longrightarrow> json_document s = Some v"
  using read_enough[of n maxNestingDepth s v r]
  by (simp add: json_document_def enough_def del: read_value.simps)

section \<open>Values read back\<close>

definition number_end :: "string \<Rightarrow> bool" where
  "number_end r \<longleftrightarrow> r = [] \<or> (\<not> is_digit (hd r) \<and> hd r \<notin> {CHR ''.'', CHR ''e'', CHR ''E''})"

lemma digits_read:
  "list_all is_digit l \<Longrightarrow> l \<noteq> [] \<Longrightarrow> r = [] \<or> \<not> is_digit (hd r) \<Longrightarrow> digits (l @ r) = Some (l, r)"
proof -
  assume l: "list_all is_digit l" and "l \<noteq> []" and r: "r = [] \<or> \<not> is_digit (hd r)"
  have "takeWhile is_digit (l @ r) = l \<and> dropWhile is_digit (l @ r) = r"
    using l r by (induction l) (cases r; auto)+
  with \<open>l \<noteq> []\<close> show ?thesis by (simp add: digits_def)
qed

lemma number_read:
  assumes "canonical_number l" and "number_end r"
  shows "number_literal (l @ r) = Some (l, r)"
proof -
  have nd: "is_digit (CHR ''0'')" "\<not> is_digit (CHR ''-'')" by (simp_all add: is_digit_def byte_nat_def)
  have tl: "fraction_part r = Some ([], r)" "exponent_part r = Some ([], r)"
    using assms(2) by (auto simp: number_end_def fraction_part_def exponent_part_def split: list.splits)
  have "integer_part (l @ r) = Some (l, r)"
  proof (cases "l = ''0''")
    case True
    then show ?thesis by (simp add: integer_part_def)
  next
    case False
    with assms(1) have l: "l \<noteq> []" "hd l \<noteq> CHR ''0''" "list_all is_digit l" by (auto simp: canonical_number_def)
    moreover have "r = [] \<or> \<not> is_digit (hd r)" using assms(2) by (auto simp: number_end_def)
    ultimately have "digits (l @ r) = Some (l, r)" by (intro digits_read)
    with l show ?thesis by (cases l) (auto simp: integer_part_def)
  qed
  moreover have "l \<noteq> [] \<and> hd l \<noteq> CHR ''-''"
    using assms(1) nd by (cases l) (auto simp: canonical_number_def)
  ultimately show ?thesis using tl by (simp add: number_literal_def Let_def hd_append)
qed

text \<open>The trees that the SDK writes: natural numbers and bounded nesting.\<close>

fun readable :: "nat \<Rightarrow> jv \<Rightarrow> bool" where
  "readable d (JvNumber l) = canonical_number l"
| "readable d (JvArray vs) = (case d of 0 \<Rightarrow> False | Suc d' \<Rightarrow> list_all (readable d') vs)"
| "readable d (JvObject ms) = (case d of 0 \<Rightarrow> False | Suc d' \<Rightarrow> list_all (\<lambda>m. readable d' (snd m)) ms)"
| "readable d v = True"

definition member_text :: "string \<times> jv \<Rightarrow> string" where
  "member_text m = quoted (fst m) @ '':'' @ marshal (snd m)"

lemma marshal_object: "marshal (JvObject ms) = ''{'' @ join_with '','' (map member_text ms) @ ''}''"
proof -
  have "member_text = (\<lambda>(k, v). quoted k @ '':'' @ marshal v)" by (rule ext) (simp add: member_text_def case_prod_unfold)
  then show ?thesis by simp
qed

lemma skip_ws_id [simp]: "\<not> json_space c \<Longrightarrow> skip_ws (c # s) = c # s"
  by (simp add: skip_ws_def)

lemma json_marks [simp]:
  "\<not> json_space (CHR '']'')" "\<not> json_space (CHR '','')" "\<not> json_space (CHR ''}'')" "\<not> json_space (CHR '':'')"
  "\<not> json_space (CHR ''{'')" "\<not> json_space (CHR ''['')" "\<not> json_space quote" "\<not> json_space (CHR 0x22)"
  "\<not> json_space (CHR ''t'')" "\<not> json_space (CHR ''f'')" "\<not> json_space (CHR ''n'')"
  by (simp_all add: json_space_def quote_def)

lemma number_end_marks [simp]:
  "number_end (CHR '']'' # r)" "number_end (CHR '','' # r)" "number_end (CHR ''}'' # r)" "number_end []"
  by (simp_all add: number_end_def is_digit_def byte_nat_def)

lemma number_start:
  assumes "canonical_number l"
  obtains c t where "l = c # t" "is_digit c"
  using assms by (cases l) (auto simp: canonical_number_def is_digit_def byte_nat_def)

lemma digit_not_mark: "is_digit c \<Longrightarrow> \<not> json_space c \<and> c \<notin> {quote, CHR ''{'', CHR ''['', CHR ''t'', CHR ''f'', CHR ''n'', CHR '']''}"
  by (auto simp: is_digit_def byte_nat_def json_space_def quote_def)

lemma read_number:
  assumes "canonical_number l" and "number_end r"
  shows "read_value (Suc n) d (l @ r) = Some (JvNumber l, r)"
proof -
  from assms(1) obtain c t where l: "l = c # t" "is_digit c" by (rule number_start)
  then show ?thesis
    using digit_not_mark[of c] number_read[OF assms] by simp
qed

lemma marshal_not_Nil: "readable d v \<Longrightarrow> marshal v \<noteq> []"
  by (cases v) (auto simp: quoted_def canonical_number_def)

lemma marshal_first: "readable d v \<Longrightarrow> \<exists>c t. marshal v = c # t \<and> \<not> json_space c \<and> c \<noteq> CHR '']''"
  by (cases v) (auto simp: quoted_def quote_def json_space_def elim!: number_start dest: digit_not_mark)

lemma read_elements_marshal:
  assumes "\<And>v m r. v \<in> set vs \<Longrightarrow> number_end r \<Longrightarrow> length (marshal v) \<le> m \<Longrightarrow>
      read_value m d (marshal v @ r) = Some (v, r)"
    and "vs \<noteq> []" and "length (join_with '','' (map marshal vs)) < n"
  shows "read_elements n d (join_with '','' (map marshal vs) @ CHR '']'' # r) = Some (vs, r)"
  using assms
proof (induction vs arbitrary: n)
  case (Cons v vs)
  obtain m where n: "n = Suc m" using Cons.prems(3) by (cases n) auto
  show ?case
  proof (cases vs)
    case Nil
    have "read_value m d (marshal v @ CHR '']'' # r) = Some (v, CHR '']'' # r)"
      using Cons.prems Nil n by (intro Cons.prems(1)) auto
    with Nil n show ?thesis by simp
  next
    case (Cons w ws)
    let ?rest = "join_with '','' (map marshal vs) @ CHR '']'' # r"
    have "read_value m d (marshal v @ CHR '','' # ?rest) = Some (v, CHR '','' # ?rest)"
      using Cons.prems(3) \<open>vs = w # ws\<close> n by (intro Cons.prems(1)) auto
    moreover have "read_elements m d ?rest = Some (vs, r)"
      using Cons.prems \<open>vs = w # ws\<close> n by (intro Cons.IH) auto
    ultimately show ?thesis using n \<open>vs = w # ws\<close> by simp
  qed
qed simp

lemma read_members_marshal:
  assumes "\<And>k v m r. (k, v) \<in> set ms \<Longrightarrow> number_end r \<Longrightarrow> length (marshal v) \<le> m \<Longrightarrow>
      read_value m d (marshal v @ r) = Some (v, r)"
    and "ms \<noteq> []" and "length (join_with '','' (map member_text ms)) < n"
  shows "read_members n d (join_with '','' (map member_text ms) @ CHR ''}'' # r) = Some (ms, r)"
  using assms
proof (induction ms arbitrary: n)
  case (Cons p ms)
  obtain k v where p: "p = (k, v)" by (cases p)
  obtain m where n: "n = Suc m" using Cons.prems(3) by (cases n) auto
  have member: "member_text p @ u = quote # escape_string k @ quote # CHR '':'' # marshal v @ u" for u
    by (simp add: p member_text_def quoted_def)
  have len: "length (marshal v) < length (member_text p)" by (simp add: p member_text_def quoted_def)
  show ?case
  proof (cases ms)
    case Nil
    have "read_value m d (marshal v @ CHR ''}'' # r) = Some (v, CHR ''}'' # r)"
      using Cons.prems(3) Nil n len p by (intro Cons.prems(1)) auto
    then have "read_members n d (quote # escape_string k @ quote # CHR '':'' # marshal v @ CHR ''}'' # r) = Some ([p], r)"
      by (simp add: n p)
    with Nil show ?thesis by (simp only: list.map join_with.simps member)
  next
    case (Cons q qs)
    let ?rest = "join_with '','' (map member_text ms) @ CHR ''}'' # r"
    have "read_value m d (marshal v @ CHR '','' # ?rest) = Some (v, CHR '','' # ?rest)"
      using Cons.prems(3) \<open>ms = q # qs\<close> n len p by (intro Cons.prems(1)) auto
    moreover have "read_members m d ?rest = Some (ms, r)"
      using Cons.prems \<open>ms = q # qs\<close> n len by (intro Cons.IH) auto
    ultimately have "read_members n d (quote # escape_string k @ quote # CHR '':'' # marshal v @ CHR '','' # ?rest)
        = Some (p # ms, r)"
      by (simp add: n p)
    moreover have "join_with '','' (map member_text (p # ms)) @ CHR ''}'' # r = member_text p @ CHR '','' # ?rest"
      using \<open>ms = q # qs\<close> by simp
    ultimately show ?thesis by (simp only: member)
  qed
qed simp

lemma join_first:
  assumes "vs \<noteq> []"
  shows "\<exists>t. join_with sep (map f vs) @ r = f (hd vs) @ t"
  using assms by (cases vs; cases "tl vs") auto

lemma read_marshal:
  "readable d v \<Longrightarrow> number_end r \<Longrightarrow> length (marshal v) \<le> n \<Longrightarrow> read_value n d (marshal v @ r) = Some (v, r)"
proof (induction v arbitrary: d n r)
  case (JvNumber l)
  then obtain m where "n = Suc m" by (cases n; cases l) (auto simp: canonical_number_def)
  with JvNumber show ?case by (simp add: read_number del: read_value.simps)
next
  case (JvArray vs)
  obtain d' where d: "d = Suc d'" using JvArray.prems(1) by (cases d) auto
  obtain m where n: "n = Suc m" using JvArray.prems(3) by (cases n) auto
  show ?case
  proof (cases "vs = []")
    case False
    have "read_elements m d' (join_with '','' (map marshal vs) @ CHR '']'' # r) = Some (vs, r)"
      using JvArray.prems d n by (intro read_elements_marshal JvArray.IH False) (auto simp: list_all_iff)
    moreover obtain t where "join_with '','' (map marshal vs) @ CHR '']'' # r = marshal (hd vs) @ t"
      using join_first[OF False] by metis
    moreover have "readable d' (hd vs)" using JvArray.prems(1) d False by (cases vs) auto
    ultimately show ?thesis using marshal_first[of d' "hd vs"] d n by (auto simp: quote_def)
  qed (simp add: d n quote_def)
next
  case (JvObject ms)
  obtain d' where d: "d = Suc d'" using JvObject.prems(1) by (cases d) auto
  obtain m where n: "n = Suc m" using JvObject.prems(3) by (cases n) auto
  show ?case
  proof (cases "ms = []")
    case False
    have "read_members m d' (join_with '','' (map member_text ms) @ CHR ''}'' # r) = Some (ms, r)"
    proof (rule read_members_marshal[OF _ False])
      fix k v i u
      assume "(k, v) \<in> set ms" "number_end u" "length (marshal v) \<le> i"
      then show "read_value i d' (marshal v @ u) = Some (v, u)"
        using JvObject.prems d by (intro JvObject.IH[of "(k, v)" v]) (auto simp: list_all_iff)
    next
      show "length (join_with '','' (map member_text ms)) < m"
        using JvObject.prems(3) n by (simp only: marshal_object) simp
    qed
    moreover obtain t where "join_with '','' (map member_text ms) @ CHR ''}'' # r = quote # t"
      using join_first[OF False, of "'',''" member_text "CHR ''}'' # r"] by (auto simp: member_text_def quoted_def)
    ultimately show ?thesis using d n unfolding marshal_object by (simp add: quote_def)
  qed (simp add: d n quote_def)
next
  case (JvString s)
  then show ?case by (cases n) (simp_all add: quoted_def, simp add: quote_def)
next
  case JvNull
  then show ?case by (cases n) (simp_all add: after_word_def, simp add: quote_def)
next
  case (JvBool b)
  then show ?case by (cases n; cases b) (simp_all add: after_word_def, simp_all add: quote_def)
qed

theorem json_document_marshal:
  assumes "readable maxNestingDepth v"
  shows "json_document (marshal v @ [CHR 0x0A]) = Some v"
proof -
  have "number_end [CHR 0x0A]" by (simp add: number_end_def is_digit_def)
  then have "read_value (Suc (length (marshal v @ [CHR 0x0A]))) maxNestingDepth (marshal v @ [CHR 0x0A]) = Some (v, [CHR 0x0A])"
    using assms by (intro read_marshal) auto
  then show ?thesis by (simp add: json_document_def skip_ws_def json_space_def)
qed

end
