(* ===== verification/Manifest_Descriptor.thy ===== *)
theory Manifest_Descriptor
  imports Json_Text
begin

text \<open>
  From the bytes of a descriptor to a manifest, and from those of the publisher's keyring to its keys
  (\<open>runtime_manifest_v2.go\<close>, \<open>runtime_strict_json.go\<close>). A raw message is kept as its syntax tree, which
  determines what is decoded from it later. The texts of the library's own errors are left out, and a
  text that is not JSON fails as such, also where the code, which reads it token by token, meets an
  unknown field before it.
\<close>

section \<open>The strict reader\<close>

definition max_manifest_bytes :: nat where "max_manifest_bytes = 64 * 1024"

definition invalid_json :: "string \<Rightarrow> go_error" where
  "invalid_json source = ''decode '' @ source @ '': invalid JSON''"

fun strict_members ::
  "string \<Rightarrow> string list \<Rightarrow> (string \<times> jv) list \<Rightarrow> (string \<times> jv) list \<Rightarrow> (string \<times> jv) list res" where
  "strict_members source allowed got [] = Inr got"
| "strict_members source allowed got ((name, value) # ms) =
     (if name \<notin> set allowed then Inl (''decode '' @ source @ '': unknown field '' @ quote # name @ [quote])
      else if name \<in> fst ` set got
      then Inl (''decode '' @ source @ '': duplicate field '' @ quote # name @ [quote])
      else strict_members source allowed (got @ [(name, value)]) ms)"

definition strict_object :: "string \<Rightarrow> string list \<Rightarrow> jv \<Rightarrow> (string \<times> jv) list res" where
  "strict_object source allowed v =
     (case v of
        JvObject ms \<Rightarrow> strict_members source allowed [] ms
      | _ \<Rightarrow> Inl (''decode '' @ source @ '': top-level JSON value must be an object''))"

definition decodeStrictJSONObject ::
  "string \<Rightarrow> nat \<Rightarrow> string \<Rightarrow> string list \<Rightarrow> (string \<times> jv) list res" where
  "decodeStrictJSONObject content maximumBytes source allowed =
     (if length content > maximumBytes
      then Inl (source @ '' exceeds the '' @ dec_of_nat maximumBytes @ '' byte safety limit'')
      else case json_document content of
             None \<Rightarrow> Inl (invalid_json source)
           | Some v \<Rightarrow> strict_object source allowed v)"

definition strict_array :: "string \<Rightarrow> jv \<Rightarrow> jv list res" where
  "strict_array source v =
     (case v of
        JvArray vs \<Rightarrow> Inr vs
      | _ \<Rightarrow> Inl (''decode '' @ source @ '': JSON value must be an array''))"

definition decodeStrictJSONArray :: "string \<Rightarrow> nat \<Rightarrow> string \<Rightarrow> jv list res" where
  "decodeStrictJSONArray raw maximumBytes source =
     (if length raw > maximumBytes then Inl (source @ '' exceeds the safety limit'')
      else case json_document raw of
             None \<Rightarrow> Inl (invalid_json source)
           | Some v \<Rightarrow> strict_array source v)"

section \<open>Decoding into structs\<close>

text \<open>A null leaves a field as it was, which is the zero value.\<close>

definition json_string :: "jv \<Rightarrow> string option" where
  "json_string v = (case v of JvString s \<Rightarrow> Some s | JvNull \<Rightarrow> Some [] | _ \<Rightarrow> None)"

definition dec_value :: "string \<Rightarrow> nat" where
  "dec_value l = fold (\<lambda>c n. 10 * n + (byte_nat c - 48)) l 0"

definition json_uint :: "nat \<Rightarrow> jv \<Rightarrow> nat option" where
  "json_uint w v =
     (case v of
        JvNumber l \<Rightarrow> if list_all is_digit l \<and> l \<noteq> [] \<and> dec_value l < 2 ^ w then Some (dec_value l) else None
      | JvNull \<Rightarrow> Some 0
      | _ \<Rightarrow> None)"

definition member_value :: "(string \<times> jv) list \<Rightarrow> string \<Rightarrow> jv" where
  "member_value fs name = (case map_of fs name of Some v \<Rightarrow> v | None \<Rightarrow> JvNull)"

definition json_text :: "(string \<times> jv) list \<Rightarrow> string \<Rightarrow> string" where
  "json_text fs name = the (json_string (member_value fs name))"

definition json_number :: "(string \<times> jv) list \<Rightarrow> nat \<Rightarrow> string \<Rightarrow> nat" where
  "json_number fs w name = the (json_uint w (member_value fs name))"

definition decodable :: "(string \<times> jv) list \<Rightarrow> string list \<Rightarrow> (string \<times> nat) list \<Rightarrow> bool" where
  "decodable fs strings numbers \<longleftrightarrow>
     list_all (\<lambda>n. json_string (member_value fs n) \<noteq> None) strings \<and>
     list_all (\<lambda>(n, w). json_uint w (member_value fs n) \<noteq> None) numbers"

definition runtimeManifestClaimFields :: "string list" where
  "runtimeManifestClaimFields =
     [
      ''arch'', ''attestationDigest'', ''attestationMediaType'', ''buildFlags'', ''byteLength'',
      ''downloadUrl'', ''executable'', ''issuedAt'', ''manifestVersion'', ''notBefore'', ''os'',
      ''protocol'', ''publisher'', ''releaseId'', ''repository'', ''runAttempt'', ''runId'',
      ''runtimeVersion'', ''sdk'', ''sha256'', ''sourceRef'', ''sourceSha'', ''toolchain'',
      ''validUntil'', ''workflowIdentity'', ''wrapperCommit'', ''wrapperGoModSum'',
      ''wrapperModule'', ''wrapperSum'', ''wrapperTagObject'', ''wrapperTree'', ''wrapperVersion'']"

definition claim_strings :: "string list" where
  "claim_strings =
     [
      ''arch'', ''attestationDigest'', ''attestationMediaType'', ''buildFlags'', ''downloadUrl'',
      ''executable'', ''os'', ''publisher'', ''releaseId'', ''repository'', ''runtimeVersion'',
      ''sdk'', ''sha256'', ''sourceRef'', ''sourceSha'', ''toolchain'', ''workflowIdentity'',
      ''wrapperCommit'', ''wrapperGoModSum'', ''wrapperModule'', ''wrapperSum'',
      ''wrapperTagObject'', ''wrapperTree'', ''wrapperVersion'']"

definition claim_numbers :: "(string \<times> nat) list" where
  "claim_numbers =
     [
      (''byteLength'', 64), (''issuedAt'', 64), (''manifestVersion'', 32), (''notBefore'', 64),
      (''protocol'', 32), (''runAttempt'', 32), (''runId'', 64), (''validUntil'', 64)]"

definition decode_claims :: "(string \<times> jv) list \<Rightarrow> runtimeArtifactClaims option" where
  "decode_claims fs =
     (if decodable fs claim_strings claim_numbers
      then Some \<lparr>
             Arch = json_text fs ''arch'', AttestationDigest = json_text fs ''attestationDigest'',
             AttestationMediaType = json_text fs ''attestationMediaType'',
             BuildFlags = json_text fs ''buildFlags'',
             ByteLength = of_nat (json_number fs 64 ''byteLength''),
             DownloadURL = json_text fs ''downloadUrl'', Executable = json_text fs ''executable'',
             IssuedAt = of_nat (json_number fs 64 ''issuedAt''),
             ManifestVersion = of_nat (json_number fs 32 ''manifestVersion''),
             NotBefore = of_nat (json_number fs 64 ''notBefore''), OS = json_text fs ''os'',
             Protocol = of_nat (json_number fs 32 ''protocol''),
             Publisher = json_text fs ''publisher'', ReleaseID = json_text fs ''releaseId'',
             Repository = json_text fs ''repository'',
             RunAttempt = of_nat (json_number fs 32 ''runAttempt''),
             RunID = of_nat (json_number fs 64 ''runId''),
             RuntimeVersion = json_text fs ''runtimeVersion'', SDK = json_text fs ''sdk'',
             SHA256 = json_text fs ''sha256'', SourceRef = json_text fs ''sourceRef'',
             SourceSHA = json_text fs ''sourceSha'', Toolchain = json_text fs ''toolchain'',
             ValidUntil = of_nat (json_number fs 64 ''validUntil''),
             WorkflowIdentity = json_text fs ''workflowIdentity'',
             WrapperCommit = json_text fs ''wrapperCommit'',
             WrapperGoModSum = json_text fs ''wrapperGoModSum'',
             WrapperModule = json_text fs ''wrapperModule'',
             WrapperSum = json_text fs ''wrapperSum'',
             WrapperTagObject = json_text fs ''wrapperTagObject'',
             WrapperTree = json_text fs ''wrapperTree'',
             WrapperVersion = json_text fs ''wrapperVersion''\<rparr>
      else None)"

definition decode_signature :: "(string \<times> jv) list \<Rightarrow> runtimeArtifactSignature option" where
  "decode_signature fs =
     (if decodable fs [''algorithm'', ''keyId'', ''signature''] []
      then Some \<lparr>sigAlgorithm = json_text fs ''algorithm'', sigKeyID = json_text fs ''keyId'',
                 sigSignature = json_text fs ''signature''\<rparr>
      else None)"

section \<open>The descriptor\<close>

definition canonicalizeRuntimeManifestJSON :: "string \<Rightarrow> string res" where
  "canonicalizeRuntimeManifestJSON raw =
     (case json_document raw of
        None \<Rightarrow> Inl ''decode runtime manifest descriptor: invalid JSON''
      | Some v \<Rightarrow> Inr (marshal (go_value v) @ [CHR 0x0A]))"

definition signature_source :: "nat \<Rightarrow> string" where
  "signature_source index = ''runtime manifest signature '' @ dec_of_nat (index + 1)"

fun decode_signatures :: "nat \<Rightarrow> jv list \<Rightarrow> runtimeArtifactSignature list res" where
  "decode_signatures index [] = Inr []"
| "decode_signatures index (entry # entries) =
     (let source = signature_source index in
      case strict_object source [''algorithm'', ''keyId'', ''signature''] entry of
        Inl e \<Rightarrow> Inl e
      | Inr got \<Rightarrow>
          if length got \<noteq> 3 then Inl (source @ '' has unknown or missing fields'')
          else (case decode_signature got of
                  None \<Rightarrow> Inl (invalid_json source)
                | Some signature \<Rightarrow>
                    (case decode_signatures (index + 1) entries of
                       Inl e \<Rightarrow> Inl e
                     | Inr signatures \<Rightarrow> Inr (signature # signatures))))"

definition parseRuntimeManifestV2 :: "string \<Rightarrow> runtimeArtifactManifest res" where
  "parseRuntimeManifestV2 raw =
     (if length raw < 1 \<or> length raw > max_manifest_bytes
      then Inl ''runtime manifest descriptor has an invalid size''
      else if \<not> isStrictASCII raw then Inl ''runtime manifest descriptor must be strict ASCII JSON''
      else
     (case decodeStrictJSONObject raw max_manifest_bytes ''runtime manifest descriptor''
             [''claims'', ''schemaVersion'', ''signatures''] of
        Inl e \<Rightarrow> Inl e
      | Inr envelope \<Rightarrow>
          if length envelope \<noteq> 3 then Inl ''runtime manifest envelope has unknown or missing fields''
          else
     (case strict_object ''runtime manifest claims'' runtimeManifestClaimFields (member_value envelope ''claims'') of
        Inl e \<Rightarrow> Inl e
      | Inr claimFields \<Rightarrow>
          if length claimFields \<noteq> length runtimeManifestClaimFields
          then Inl ''runtime manifest claims have unknown or missing fields''
          else
     (case strict_array ''runtime manifest signatures'' (member_value envelope ''signatures'') of
        Inl e \<Rightarrow> Inl e
      | Inr entries \<Rightarrow>
          if length entries < 1 \<or> length entries > 3
          then Inl ''runtime manifest requires one to 3 publisher signatures''
          else
     (case decode_signatures 0 entries of
        Inl e \<Rightarrow> Inl e
      | Inr signatures \<Rightarrow>
     (case canonicalizeRuntimeManifestJSON raw of
        Inl e \<Rightarrow> Inl e
      | Inr canonical \<Rightarrow>
          if canonical \<noteq> raw then Inl ''runtime manifest descriptor is not canonical JSON''
          else if json_uint 32 (member_value envelope ''schemaVersion'') \<noteq> Some (unat runtimeManifestSchemaVersion)
          then Inl ''runtime manifest schemaVersion must be 2''
          else
     (case decode_claims claimFields of
        None \<Rightarrow> Inl ''decode runtime manifest claims: invalid value''
      | Some claims \<Rightarrow>
          Inr \<lparr>SchemaVersion = runtimeManifestSchemaVersion, Claims = claims, Signatures = signatures,
               canonicalJSON = canonical\<rparr>)))))))"

section \<open>The keyring\<close>

definition key_fields :: "string list" where
  "key_fields = [''activation'', ''algorithm'', ''keyId'', ''notAfter'', ''publicKeyRawBase64'']"

definition key_source :: "nat \<Rightarrow> string" where
  "key_source index = ''runtime publisher public key '' @ dec_of_nat (index + 1)"

definition parse_key :: "crypto \<Rightarrow> nat \<Rightarrow> string set \<Rightarrow> jv \<Rightarrow> runtimePublisherTrustedKey res" where
  "parse_key cr index seen entry =
     (let source = key_source index in
      case strict_object source key_fields entry of
        Inl e \<Rightarrow> Inl e
      | Inr got \<Rightarrow>
          if length got \<noteq> 5 then Inl (source @ '' has unknown or missing fields'')
          else if \<not> decodable got [''algorithm'', ''keyId'', ''publicKeyRawBase64'']
                     [(''activation'', 64), (''notAfter'', 64)]
          then Inl (invalid_json source)
          else if json_text got ''algorithm'' \<noteq> runtimeManifestSignatureVersion
          then Inl (source @ '' algorithm is unsupported'')
          else
     (case decodeCanonicalPaddedBase64 (json_text got ''publicKeyRawBase64'') 32 ''publicKeyRawBase64'' of
        Inl e \<Rightarrow> Inl e
      | Inr publicKey \<Rightarrow>
          let keyID = json_text got ''keyId'';
              activation = of_nat (json_number got 64 ''activation'');
              notAfter = of_nat (json_number got 64 ''notAfter'') in
          if keyID \<noteq> runtimeManifestPublisherKeyPrefix @ hex_encode (sha256 cr publicKey)
          then Inl ''runtime publisher key fingerprint does not match the raw public key''
          else if keyID \<in> seen
          then Inl ''runtime publisher public keyring contains a duplicate fingerprint''
          else if activation < minRuntimeManifestUnixSecond \<or> activation \<ge> notAfter \<or>
                  notAfter > maxRuntimeManifestUnixSecond
          then Inl ''runtime publisher key activation interval is invalid''
          else Inr \<lparr>keyAlgorithm = json_text got ''algorithm'', keyKeyID = keyID, keyPublicKey = publicKey,
                    keyActivation = activation, keyNotAfter = notAfter\<rparr>))"

fun parse_keys :: "crypto \<Rightarrow> nat \<Rightarrow> string set \<Rightarrow> jv list \<Rightarrow> runtimePublisherTrustedKey list res" where
  "parse_keys cr index seen [] = Inr []"
| "parse_keys cr index seen (entry # entries) =
     (case parse_key cr index seen entry of
        Inl e \<Rightarrow> Inl e
      | Inr key \<Rightarrow>
          (case parse_keys cr (index + 1) (insert (keyKeyID key) seen) entries of
             Inl e \<Rightarrow> Inl e
           | Inr keys \<Rightarrow> Inr (key # keys)))"

definition maxRuntimePublisherKeyringBytes :: nat where "maxRuntimePublisherKeyringBytes = 16 * 1024"

definition parseRuntimePublisherKeyring :: "crypto \<Rightarrow> string \<Rightarrow> runtimePublisherTrustedKey list res" where
  "parseRuntimePublisherKeyring cr raw =
     (if trim_space raw = [] then Inl ''runtime publisher trust keyring is not provisioned''
      else if length raw > maxRuntimePublisherKeyringBytes
      then Inl ''runtime publisher public keyring exceeds the safety limit''
      else if \<not> isStrictASCII raw then Inl ''runtime publisher public keyring must be strict ASCII JSON''
      else
     (case decodeStrictJSONArray raw maxRuntimePublisherKeyringBytes ''runtime publisher public keyring'' of
        Inl e \<Rightarrow> Inl e
      | Inr entries \<Rightarrow>
          if length entries < 1 \<or> length entries > maxRuntimePublisherTrustedKeys
          then Inl ''runtime publisher public keyring must contain one to 8 keys''
          else parse_keys cr 0 {} entries))"

section \<open>Rendering\<close>

definition json_nat :: "nat \<Rightarrow> jv" where
  "json_nat n = JvNumber (dec_of_nat n)"

definition claims_json :: "runtimeArtifactClaims \<Rightarrow> jv" where
  "claims_json c = JvObject
     [
      (''arch'', JvString (Arch c)), (''attestationDigest'', JvString (AttestationDigest c)),
      (''attestationMediaType'', JvString (AttestationMediaType c)),
      (''buildFlags'', JvString (BuildFlags c)), (''byteLength'', json_nat (unat (ByteLength c))),
      (''downloadUrl'', JvString (DownloadURL c)), (''executable'', JvString (Executable c)),
      (''issuedAt'', json_nat (unat (IssuedAt c))),
      (''manifestVersion'', json_nat (unat (ManifestVersion c))),
      (''notBefore'', json_nat (unat (NotBefore c))), (''os'', JvString (OS c)),
      (''protocol'', json_nat (unat (Protocol c))), (''publisher'', JvString (Publisher c)),
      (''releaseId'', JvString (ReleaseID c)), (''repository'', JvString (Repository c)),
      (''runAttempt'', json_nat (unat (RunAttempt c))), (''runId'', json_nat (unat (RunID c))),
      (''runtimeVersion'', JvString (RuntimeVersion c)), (''sdk'', JvString (SDK c)),
      (''sha256'', JvString (SHA256 c)), (''sourceRef'', JvString (SourceRef c)),
      (''sourceSha'', JvString (SourceSHA c)), (''toolchain'', JvString (Toolchain c)),
      (''validUntil'', json_nat (unat (ValidUntil c))),
      (''workflowIdentity'', JvString (WorkflowIdentity c)),
      (''wrapperCommit'', JvString (WrapperCommit c)),
      (''wrapperGoModSum'', JvString (WrapperGoModSum c)),
      (''wrapperModule'', JvString (WrapperModule c)), (''wrapperSum'', JvString (WrapperSum c)),
      (''wrapperTagObject'', JvString (WrapperTagObject c)),
      (''wrapperTree'', JvString (WrapperTree c)), (''wrapperVersion'', JvString (WrapperVersion c))]"

definition signature_json :: "runtimeArtifactSignature \<Rightarrow> jv" where
  "signature_json s = JvObject
     [(''algorithm'', JvString (sigAlgorithm s)), (''keyId'', JvString (sigKeyID s)),
      (''signature'', JvString (sigSignature s))]"

definition manifest_json :: "runtimeArtifactManifest \<Rightarrow> jv" where
  "manifest_json m = JvObject
     [(''claims'', claims_json (Claims m)), (''schemaVersion'', json_nat (unat (SchemaVersion m))),
      (''signatures'', JvArray (map signature_json (Signatures m)))]"

definition descriptor :: "runtimeArtifactManifest \<Rightarrow> string" where
  "descriptor m = marshal (manifest_json m) @ [CHR 0x0A]"

section \<open>Numbers that were read\<close>

fun tidy_numbers :: "jv \<Rightarrow> bool" where
  "tidy_numbers (JvNumber l) = (list_all is_digit l \<longrightarrow> canonical_number l)"
| "tidy_numbers (JvArray vs) = list_all tidy_numbers vs"
| "tidy_numbers (JvObject ms) = list_all (\<lambda>m. tidy_numbers (snd m)) ms"
| "tidy_numbers v = True"

lemma number_literal_tidy:
  assumes "number_literal s = Some (l, r)" and "list_all is_digit l"
  shows "canonical_number l"
proof -
  have marks: "\<not> is_digit (CHR ''-'')" "\<not> is_digit (CHR ''.'')" "\<not> is_digit (CHR ''e'')" "\<not> is_digit (CHR ''E'')"
    by (simp_all add: is_digit_def byte_nat_def)
  have f: "fraction_part s = Some (t, r) \<Longrightarrow> list_all is_digit t \<Longrightarrow> t = []" for s t r
    using marks by (auto simp: fraction_part_def split: list.splits if_splits)
  have e: "exponent_part s = Some (t, r) \<Longrightarrow> list_all is_digit t \<Longrightarrow> t = []" for s t r
    using marks by (auto simp: exponent_part_def split: list.splits if_splits)
  have i: "integer_part s = Some (t, r) \<Longrightarrow> canonical_number t" for s t r
    by (auto simp: integer_part_def digits_def canonical_number_def Let_def list_all_iff
        split: list.splits if_splits dest: set_takeWhileD)
  obtain sg u where u: "(if s \<noteq> [] \<and> hd s = CHR ''-'' then (''-'', tl s) else ([], s)) = (sg, u)"
    by (cases "s \<noteq> [] \<and> hd s = CHR ''-''") auto
  with assms(1) obtain a x b y c z where
    "integer_part u = Some (a, x)" "fraction_part x = Some (b, y)" "exponent_part y = Some (c, z)" "l = sg @ a @ b @ c"
    by (auto simp: number_literal_def split: option.splits)
  moreover from this assms(2) have "sg = []" using u marks by (auto split: if_splits)
  ultimately show ?thesis using assms(2) e[of y c z] f[of x b y] i[of u a x] by simp
qed

lemma scalar_tidy: "scalar_value s = Some (v, r) \<Longrightarrow> tidy_numbers v"
  by (cases s) (auto simp: scalar_value_def after_word_def dest: number_literal_tidy split: if_splits)

lemma read_tidy:
  "(read_value n d s = Some (v, r) \<longrightarrow> tidy_numbers v) \<and>
   (read_elements n d s = Some (vs, r) \<longrightarrow> list_all tidy_numbers vs) \<and>
   (read_members n d s = Some (ms, r) \<longrightarrow> list_all (\<lambda>m. tidy_numbers (snd m)) ms)"
proof (induction n arbitrary: d s v r vs ms)
  case (Suc n)
  have v: "read_value n d s = Some (v, r) \<Longrightarrow> tidy_numbers v"
    and e: "read_elements n d s = Some (vs, r) \<Longrightarrow> list_all tidy_numbers vs"
    and m: "read_members n d s = Some (ms, r) \<Longrightarrow> list_all (\<lambda>m. tidy_numbers (snd m)) ms" for d s v r vs ms
    using Suc by blast+
  show ?case
  proof (intro conjI impI)
    assume a: "read_value (Suc n) d s = Some (v, r)"
    then obtain c t where ws: "skip_ws s = c # t" by (cases "skip_ws s") auto
    show "tidy_numbers v"
    proof (cases "c = CHR ''{'' \<or> c = CHR ''[''")
      case True
      with a ws show ?thesis by (auto split: nat.splits list.splits if_splits dest: e m)
    next
      case False
      with a ws read_value_scalar[of s c t n d] scalar_tidy[of "c # t" v r] show ?thesis
        by (simp del: read_value.simps)
    qed
  next
    assume "read_elements (Suc n) d s = Some (vs, r)"
    then show "list_all tidy_numbers vs"
      by (auto split: option.splits list.splits if_splits) (use v e in blast)+
  next
    assume "read_members (Suc n) d s = Some (ms, r)"
    then show "list_all (\<lambda>m. tidy_numbers (snd m)) ms"
      by (auto split: option.splits list.splits if_splits) (use v m in blast)+
  qed
qed simp

lemma json_document_tidy: "json_document s = Some v \<Longrightarrow> tidy_numbers v"
  using read_tidy[of "Suc (length s)" maxNestingDepth s]
  by (auto simp: json_document_def simp del: read_value.simps split: option.splits prod.splits if_splits)

lemma char_of_48: "char_of (48::nat) = CHR ''0''"
  by code_simp

text \<open>The decimal notation of a natural number.\<close>

lemma dec_value_snoc: "dec_value (l @ [c]) = 10 * dec_value l + (byte_nat c - 48)"
  by (simp add: dec_value_def)

lemma canonical_decimal: "canonical_number l \<Longrightarrow> dec_of_nat (dec_value l) = l"
proof (induction l rule: rev_induct)
  case (snoc c l)
  have "is_digit c"
    using snoc.prems by (auto simp: canonical_number_def is_digit_def byte_nat_def)
  then have byte: "byte_nat c = 48 + (byte_nat c - 48)" "byte_nat c - 48 < 10"
    unfolding is_digit_def by linarith+
  then have ch: "char_of (48 + (byte_nat c - 48)) = c" by (metis char_of_byte_nat)
  show ?case
  proof (cases "l = []")
    case True
    then show ?thesis using byte ch by (simp add: dec_value_def dec_of_nat.simps)
  next
    case False
    with snoc.prems have l: "canonical_number l" "hd l \<noteq> CHR ''0''" by (auto simp: canonical_number_def)
    have pos: "0 < dec_value l"
    proof (rule ccontr)
      assume "\<not> 0 < dec_value l"
      then have "l = dec_of_nat 0" using snoc.IH[OF l(1)] by simp
      with l(2) show False by (simp add: dec_of_nat.simps char_of_48)
    qed
    have "dec_value (l @ [c]) div 10 = dec_value l" "dec_value (l @ [c]) mod 10 = byte_nat c - 48"
      using byte(2) by (simp_all only: dec_value_snoc) simp_all
    moreover have "\<not> dec_value (l @ [c]) < 10" using pos by (simp add: dec_value_snoc)
    ultimately show ?thesis using snoc.IH[OF l(1)] ch by (subst dec_of_nat.simps) simp
  qed
qed (simp add: canonical_number_def)

lemma dec_value_dec [simp]: "dec_value (dec_of_nat n) = n"
proof (induction n rule: dec_of_nat.induct)
  case (1 n)
  show ?case
  proof (cases "n < 10")
    case True
    then show ?thesis by (simp add: dec_of_nat.simps dec_value_def)
  next
    case False
    have "(48 + n mod 10) mod 256 = 48 + n mod 10" by simp
    with 1[OF False] False show ?thesis by (simp add: dec_of_nat.simps[of n] dec_value_snoc)
  qed
qed

lemma dec_of_nat_digits: "list_all is_digit (dec_of_nat n) \<and> dec_of_nat n \<noteq> []"
proof (induction n rule: dec_of_nat.induct)
  case (1 n)
  have d: "k < 10 \<Longrightarrow> is_digit (char_of (48 + k))" for k :: nat by (simp add: is_digit_def)
  show ?case
    using 1 d[of n] d[of "n mod 10"] by (subst (1 2) dec_of_nat.simps) auto
qed

lemma dec_of_nat_head: "0 < n \<Longrightarrow> hd (dec_of_nat n) \<noteq> CHR ''0''"
proof (induction n rule: dec_of_nat.induct)
  case (1 n)
  show ?case
  proof (cases "n < 10")
    case True
    then have "byte_nat (char_of (48 + n)) \<noteq> byte_nat (CHR ''0'')" using 1(2) by (simp add: byte_nat_def)
    then have "char_of (48 + n) \<noteq> CHR ''0''" by (rule char_neq_byte)
    with True show ?thesis by (subst dec_of_nat.simps) auto
  next
    case False
    with 1(1) have "hd (dec_of_nat (n div 10)) \<noteq> CHR ''0''" by simp
    with False dec_of_nat_digits[of "n div 10"] show ?thesis by (subst dec_of_nat.simps) (simp add: hd_append)
  qed
qed

lemma canonical_dec [simp]: "canonical_number (dec_of_nat n)"
proof (cases "n = 0")
  case True
  then show ?thesis by (simp add: dec_of_nat.simps char_of_48 canonical_number_def)
next
  case False
  then show ?thesis using dec_of_nat_digits[of n] dec_of_nat_head[of n] by (simp add: canonical_number_def)
qed

lemma json_uint_nat [simp]: "json_uint w (json_nat n) = (if n < 2 ^ w then Some n else None)"
  using dec_of_nat_digits[of n] by (simp add: json_uint_def json_nat_def)

lemma json_uint_nonzero:
  assumes "json_uint w v = Some n" and "n \<noteq> 0" and "tidy_numbers v"
  shows "v = json_nat n"
  using assms by (auto simp: json_uint_def json_nat_def canonical_decimal split: jv.splits if_splits)

lemma json_string_nonempty: "json_string v = Some s \<Longrightarrow> s \<noteq> [] \<Longrightarrow> v = JvString s"
  by (auto simp: json_string_def split: jv.splits)

section \<open>Exactly the allowed members\<close>

lemma strict_members_spec:
  "strict_members source allowed acc ms = Inr fs \<longleftrightarrow>
     fs = acc @ ms \<and> list_all (\<lambda>m. fst m \<in> set allowed) ms \<and> distinct (map fst ms) \<and>
     fst ` set acc \<inter> fst ` set ms = {}"
  by (induction source allowed acc ms rule: strict_members.induct) (auto simp: list_all_iff)

lemma strict_object_spec:
  "strict_object source allowed v = Inr fs \<longleftrightarrow>
     v = JvObject fs \<and> fst ` set fs \<subseteq> set allowed \<and> distinct (map fst fs)"
  by (cases v) (auto simp: strict_object_def strict_members_spec list_all_iff)

lemma last_wins_distinct: "distinct (map fst kvs) \<Longrightarrow> last_wins kvs = kvs"
  by (induction kvs) auto

lemma sort_by_keys:
  assumes "distinct (map fst fs)" and "set (map fst fs) = set ks" and "sorted ks" and "distinct ks"
  shows "sort_key fst fs = map (\<lambda>k. (k, member_value fs k)) ks"
proof (rule map_sorted_distinct_set_unique[where f = fst])
  have mem: "(k, v) \<in> set fs \<Longrightarrow> member_value fs k = v" for k v
    using assms(1) by (simp add: member_value_def)
  have sets: "set (map (\<lambda>k. (k, member_value fs k)) ks) = set fs"
    unfolding set_map assms(2)[symmetric] using mem by (auto simp: image_iff) force
  then show "set (sort_key fst fs) = set (map (\<lambda>k. (k, member_value fs k)) ks)" by simp
  show "inj_on fst (set (sort_key fst fs) \<union> set (map (\<lambda>k. (k, member_value fs k)) ks))"
    using sets assms(1) by (simp add: distinct_map)
  show "distinct (map fst (sort_key fst fs))" using assms(1) by (simp add: distinct_map)
  show "distinct (map fst (map (\<lambda>k. (k, member_value fs k)) ks))" using assms(4) by (simp add: comp_def)
  show "sorted (map fst (map (\<lambda>k. (k, member_value fs k)) ks))" using assms(3) by (simp add: comp_def)
qed simp

lemma map_of_map_prod: "map_of (map (map_prod id f) fs) k = map_option f (map_of fs k)"
  by (induction fs) auto

lemma exact_object:
  assumes "strict_object source ks v = Inr fs" and "length fs = length ks" and "sorted ks" and "distinct ks"
  shows "go_value v = JvObject (map (\<lambda>k. (k, go_value (member_value fs k))) ks)"
proof -
  from assms(1) have v: "v = JvObject fs" and d: "distinct (map fst fs)" and sub: "set (map fst fs) \<subseteq> set ks"
    by (auto simp: strict_object_spec)
  have "card (set (map fst fs)) = card (set ks)" using d assms(2,4) by (metis distinct_card length_map)
  then have all: "set (map fst fs) = set ks" using sub by (simp add: card_subset_eq)
  let ?g = "map (map_prod id go_value) fs"
  have "map fst ?g = map fst fs" by (simp add: comp_def map_prod_def case_prod_unfold)
  then have "last_wins ?g = ?g" and "sort_key fst ?g = map (\<lambda>k. (k, member_value ?g k)) ks"
    using d all assms(3,4) by (simp_all add: last_wins_distinct sort_by_keys del: map_map)
  moreover have "member_value ?g k = go_value (member_value fs k)" for k
    by (simp add: member_value_def map_of_map_prod split: option.splits)
  ultimately show ?thesis by (simp add: v)
qed

section \<open>An accepted descriptor is canonical\<close>

text \<open>When a chain of checks succeeds.\<close>

lemma check_chain:
  "(if b then Inl e else x) = Inr u \<longleftrightarrow> \<not> b \<and> x = Inr u"
  "(case r of Inl e \<Rightarrow> Inl e | Inr y \<Rightarrow> f y) = Inr u \<longleftrightarrow> (\<exists>y. r = Inr y \<and> f y = Inr u)"
  "(case q of None \<Rightarrow> Inl e | Some y \<Rightarrow> g y) = Inr u \<longleftrightarrow> (\<exists>y. q = Some y \<and> g y = Inr u)"
  "(case p of None \<Rightarrow> z | Some w \<Rightarrow> (case w of (n, k) \<Rightarrow> Inl (h n k))) = Inr u \<longleftrightarrow> p = None \<and> z = Inr u"
  by (auto split: sum.splits option.splits)

lemma claim_fields_sorted: "sorted runtimeManifestClaimFields" "distinct runtimeManifestClaimFields"
  by (simp_all add: runtimeManifestClaimFields_def less_eq_char_def less_char_def)

lemma envelope_sorted:
  "sorted [''claims'', ''schemaVersion'', ''signatures'']" "sorted [''algorithm'', ''keyId'', ''signature'']"
  by (simp_all add: less_eq_char_def less_char_def)

lemma check_unit: "(case (r :: unit res) of Inl e \<Rightarrow> Inl e | Inr y \<Rightarrow> x) = Inr u \<longleftrightarrow> r = Inr () \<and> x = Inr u"
  by (cases r) auto

text \<open>The claims that pass the validation have no zero value, so nothing in them was null.\<close>

definition claim_texts :: "runtimeArtifactClaims \<Rightarrow> string list" where
  "claim_texts c =
     [Arch c, AttestationDigest c, AttestationMediaType c, BuildFlags c, DownloadURL c, Executable c, OS c,
      Publisher c, ReleaseID c, Repository c, RuntimeVersion c, SDK c, SHA256 c, SourceRef c, SourceSHA c,
      Toolchain c, WorkflowIdentity c, WrapperCommit c, WrapperGoModSum c, WrapperModule c, WrapperSum c,
      WrapperTagObject c, WrapperTree c, WrapperVersion c]"

definition claim_naturals :: "runtimeArtifactClaims \<Rightarrow> nat list" where
  "claim_naturals c =
     [unat (ByteLength c), unat (IssuedAt c), unat (ManifestVersion c), unat (NotBefore c), unat (Protocol c),
      unat (RunAttempt c), unat (RunID c), unat (ValidUntil c)]"

lemma claim_values_facts:
  assumes "validate_claim_values c = Inr ()"
  shows "ManifestVersion c = runtimeManifestSchemaVersion" "SDK c = ''go''"
    "runtimeCanonicalVersionPattern (RuntimeVersion c)"
    "expected_executable (manifest_platform c) = Some (Executable c)" "\<not> Protocol c < 1" "isLowerHex64 (SHA256 c)"
    "\<not> ByteLength c < 1" "\<not> ByteLength c > maxRuntimeArtifactBytes" "DownloadURL c = expected_url c"
    "validity_interval_ok c"
    "find (\<lambda>(_, a, b). a \<noteq> b) (fixed_claims c) = None"
    "find (\<lambda>(_, v). \<not> runtimeCanonicalGitObjectPattern v) (git_claims c) = None"
    "\<not> RunID c < 1" "\<not> RunAttempt c < 1"
    "validateCanonicalGoH1 (WrapperSum c) ''wrapperSum'' = Inr ()"
    "validateCanonicalGoH1 (WrapperGoModSum c) ''wrapperGoModSum'' = Inr ()"
    "runtimeCanonicalToolchainPattern (Toolchain c)" "runtimeCanonicalAttestationPattern (AttestationDigest c)"
  by (insert assms, unfold validate_claim_values_def check_unit check_chain de_Morgan_disj not_not)
    (elim conjE, assumption)+

lemma platform_parts:
  "expected_executable (manifest_platform c) = Some e \<Longrightarrow> OS c \<noteq> [] \<and> Arch c \<noteq> [] \<and> e \<noteq> []"
  by (auto simp: expected_executable_def manifest_platform_def map_of_eq_None_iff split: if_splits)

lemma canonical_not_Nil:
  "runtimeCanonicalVersionPattern s \<Longrightarrow> s \<noteq> []" "runtimeCanonicalToolchainPattern s \<Longrightarrow> s \<noteq> []"
  "runtimeCanonicalGitObjectPattern s \<Longrightarrow> s \<noteq> []" "isLowerHex64 s \<Longrightarrow> s \<noteq> []"
  "runtimeCanonicalAttestationPattern s \<Longrightarrow> s \<noteq> []" "validateCanonicalGoH1 s f = Inr () \<Longrightarrow> s \<noteq> []"
  by (auto simp: runtimeCanonicalVersionPattern_def runtimeCanonicalToolchainPattern_def
      runtimeCanonicalGitObjectPattern_def isLowerHex64_def runtimeCanonicalAttestationPattern_def
      validateCanonicalGoH1_def prefix_def)

lemma fixed_claims_filled:
  assumes "find (\<lambda>(_, a, b). a \<noteq> b) (fixed_claims c) = None" and "RuntimeVersion c \<noteq> []"
  shows "list_all (\<lambda>s. s \<noteq> []) [Publisher c, ReleaseID c, Repository c, SourceRef c, WorkflowIdentity c,
    WrapperModule c, WrapperVersion c, BuildFlags c, AttestationMediaType c]"
proof -
  have all: "list_all (\<lambda>(n, a, b). a = b \<and> b \<noteq> []) (fixed_claims c)"
    using assms unfolding fixed_claims_def
    by (simp add: expectedRuntimeManifestBuildFlags_def runtimeManifestPublisher_def runtimeManifestRepository_def
        runtimeManifestSourceRef_def runtimeManifestWorkflowIdentity_def runtimeManifestWrapperModule_def
        runtimeManifestAttestationMedia_def split: if_splits)
  then have "list_all (\<lambda>(n, a, b). a \<noteq> []) (fixed_claims c)" by (auto simp: list_all_iff)
  then show ?thesis unfolding fixed_claims_def by simp
qed

lemma validated_texts:
  assumes "validate_claim_values c = Inr ()"
  shows "list_all (\<lambda>s. s \<noteq> []) (claim_texts c)"
proof -
  note f = claim_values_facts[OF assms]
  have "list_all (\<lambda>(n, v). v \<noteq> []) (git_claims c)"
    using f(12) canonical_not_Nil(3) by (auto simp: find_None_iff list_all_iff)
  then have git: "SourceSHA c \<noteq> []" "WrapperTagObject c \<noteq> []" "WrapperCommit c \<noteq> []" "WrapperTree c \<noteq> []"
    by (simp_all add: git_claims_def)
  have url: "DownloadURL c \<noteq> []" unfolding f(9) expected_url_def by simp
  show ?thesis
    using platform_parts[OF f(4)] url git f(2) fixed_claims_filled[OF f(11) canonical_not_Nil(1)[OF f(3)]]
      canonical_not_Nil(1)[OF f(3)] canonical_not_Nil(2)[OF f(17)] canonical_not_Nil(4)[OF f(6)]
      canonical_not_Nil(5)[OF f(18)] canonical_not_Nil(6)[OF f(15)] canonical_not_Nil(6)[OF f(16)]
    unfolding claim_texts_def by simp
qed

lemma validated_naturals:
  assumes "validate_claim_values c = Inr ()"
  shows "list_all (\<lambda>n. n \<noteq> 0) (claim_naturals c)"
proof -
  note f = claim_values_facts[OF assms]
  have i: "\<not> IssuedAt c < minRuntimeManifestUnixSecond" "IssuedAt c \<le> NotBefore c" "NotBefore c \<le> ValidUntil c"
    using f(10) unfolding validity_interval_ok_def not_not by (simp_all add: not_less)
  have "IssuedAt c \<noteq> 0"
  proof
    assume "IssuedAt c = 0"
    with i(1) show False by (simp add: minRuntimeManifestUnixSecond_def)
  qed
  moreover from this i(2) have "NotBefore c \<noteq> 0" by auto
  moreover from this i(3) have "ValidUntil c \<noteq> 0" by auto
  moreover have "ManifestVersion c \<noteq> 0" using f(1) by (simp add: runtimeManifestSchemaVersion_def)
  ultimately show ?thesis using f(5,7,13,14) by (simp add: claim_naturals_def unat_gt_0)
qed

lemma decode_claims_lists:
  assumes "decode_claims fs = Some c"
  shows "claim_texts c = map (json_text fs) claim_strings"
    and "claim_naturals c = map (\<lambda>(n, w). json_number fs w n) claim_numbers"
proof -
  have dec: "decodable fs claim_strings claim_numbers" using assms by (auto simp: decode_claims_def split: if_splits)
  have b: "json_number fs w n < 2 ^ w" if "(n, w) \<in> set claim_numbers" for n w
  proof -
    have "json_uint w (member_value fs n) \<noteq> None" using dec that by (auto simp: decodable_def list_all_iff)
    then show ?thesis by (auto simp: json_number_def json_uint_def split: jv.splits if_splits)
  qed
  have bounds: "list_all (\<lambda>(n, w). json_number fs w n < 2 ^ w) claim_numbers"
    using b by (auto simp: list_all_iff)
  show "claim_texts c = map (json_text fs) claim_strings"
    using assms unfolding decode_claims_def claim_texts_def claim_strings_def by (simp split: if_splits) auto
  show "claim_naturals c = map (\<lambda>(n, w). json_number fs w n) claim_numbers"
    using assms bounds unfolding decode_claims_def claim_naturals_def claim_numbers_def
    by (simp split: if_splits) (auto simp: unat_of_nat)
qed

lemma decoded_claims_json:
  assumes "decode_claims fs = Some c" and "list_all (\<lambda>s. s \<noteq> []) (claim_texts c)"
    and "list_all (\<lambda>n. n \<noteq> 0) (claim_naturals c)" and tidy: "\<And>k. tidy_numbers (member_value fs k)"
  shows "JvObject (map (\<lambda>k. (k, go_value (member_value fs k))) runtimeManifestClaimFields) = claims_json c"
proof -
  note lists = decode_claims_lists[OF assms(1)]
  have dec: "decodable fs claim_strings claim_numbers" using assms by (auto simp: decode_claims_def split: if_splits)
  have s: "list_all (\<lambda>n. go_value (member_value fs n) = JvString (json_text fs n)) claim_strings"
    unfolding list_all_iff
  proof
    fix k
    assume k: "k \<in> set claim_strings"
    then obtain x where x: "json_string (member_value fs k) = Some x" using dec by (auto simp: decodable_def list_all_iff)
    moreover have "x \<noteq> []" using k assms(2) lists(1) x by (auto simp: list_all_iff json_text_def)
    ultimately have "member_value fs k = JvString x" by (rule json_string_nonempty)
    with x show "go_value (member_value fs k) = JvString (json_text fs k)" by (simp add: json_text_def)
  qed
  have n: "list_all (\<lambda>(n, w). go_value (member_value fs n) = json_nat (json_number fs w n)) claim_numbers"
    unfolding list_all_iff
  proof (intro ballI, clarify)
    fix n w
    assume nw: "(n, w) \<in> set claim_numbers"
    then obtain x where x: "json_uint w (member_value fs n) = Some x" using dec by (auto simp: decodable_def list_all_iff)
    moreover have "x \<noteq> 0"
      using nw assms(3) lists(2) x by (force simp: list_all_iff json_number_def)
    ultimately have "member_value fs n = json_nat x" using json_uint_nonzero tidy by blast
    with x show "go_value (member_value fs n) = json_nat (json_number fs w n)"
      by (simp add: json_number_def json_nat_def)
  qed
  have eqs: "claims_json c = JvObject
      [(''arch'', JvString (claim_texts c ! 0)), (''attestationDigest'', JvString (claim_texts c ! 1)),
       (''attestationMediaType'', JvString (claim_texts c ! 2)), (''buildFlags'', JvString (claim_texts c ! 3)),
       (''byteLength'', json_nat (claim_naturals c ! 0)), (''downloadUrl'', JvString (claim_texts c ! 4)),
       (''executable'', JvString (claim_texts c ! 5)), (''issuedAt'', json_nat (claim_naturals c ! 1)),
       (''manifestVersion'', json_nat (claim_naturals c ! 2)), (''notBefore'', json_nat (claim_naturals c ! 3)),
       (''os'', JvString (claim_texts c ! 6)), (''protocol'', json_nat (claim_naturals c ! 4)),
       (''publisher'', JvString (claim_texts c ! 7)), (''releaseId'', JvString (claim_texts c ! 8)),
       (''repository'', JvString (claim_texts c ! 9)), (''runAttempt'', json_nat (claim_naturals c ! 5)),
       (''runId'', json_nat (claim_naturals c ! 6)), (''runtimeVersion'', JvString (claim_texts c ! 10)),
       (''sdk'', JvString (claim_texts c ! 11)), (''sha256'', JvString (claim_texts c ! 12)),
       (''sourceRef'', JvString (claim_texts c ! 13)), (''sourceSha'', JvString (claim_texts c ! 14)),
       (''toolchain'', JvString (claim_texts c ! 15)), (''validUntil'', json_nat (claim_naturals c ! 7)),
       (''workflowIdentity'', JvString (claim_texts c ! 16)), (''wrapperCommit'', JvString (claim_texts c ! 17)),
       (''wrapperGoModSum'', JvString (claim_texts c ! 18)), (''wrapperModule'', JvString (claim_texts c ! 19)),
       (''wrapperSum'', JvString (claim_texts c ! 20)), (''wrapperTagObject'', JvString (claim_texts c ! 21)),
       (''wrapperTree'', JvString (claim_texts c ! 22)), (''wrapperVersion'', JvString (claim_texts c ! 23))]"
    by (simp add: claims_json_def claim_texts_def claim_naturals_def)
  show ?thesis
    using s n unfolding eqs lists claim_strings_def claim_numbers_def runtimeManifestClaimFields_def by simp
qed

lemma json_string_go: "json_string v = Some s \<Longrightarrow> s \<noteq> [] \<Longrightarrow> go_value v = JvString s"
  using json_string_nonempty by fastforce

lemma strict_array_spec: "strict_array source v = Inr es \<longleftrightarrow> v = JvArray es"
  by (cases v) (auto simp: strict_array_def)

lemma tidy_member: "list_all (\<lambda>m. tidy_numbers (snd m)) fs \<Longrightarrow> tidy_numbers (member_value fs k)"
  by (auto simp: member_value_def list_all_iff split: option.splits dest!: map_of_SomeD)

lemma decoded_signature_json:
  assumes "strict_object source [''algorithm'', ''keyId'', ''signature''] entry = Inr got" and "length got = 3"
    and "decode_signature got = Some sg" and "sigAlgorithm sg \<noteq> []" and "sigKeyID sg \<noteq> []" and "sigSignature sg \<noteq> []"
  shows "go_value entry = signature_json sg"
proof -
  have "decodable got [''algorithm'', ''keyId'', ''signature''] []" and sg: "sg = \<lparr>sigAlgorithm = json_text got ''algorithm'',
      sigKeyID = json_text got ''keyId'', sigSignature = json_text got ''signature''\<rparr>"
    using assms(3) by (auto simp: decode_signature_def split: if_splits)
  then have "go_value (member_value got k) = JvString (json_text got k)"
    if "k \<in> {''algorithm'', ''keyId'', ''signature''}" "json_text got k \<noteq> []" for k
    using that by (auto simp: decodable_def json_text_def json_string_go)
  with sg assms(4-6) show ?thesis
    using exact_object[OF assms(1)] assms(2) envelope_sorted(2) by (simp add: signature_json_def)
qed

lemma decode_signatures_spec:
  "decode_signatures i es = Inr sgs \<Longrightarrow>
     list_all2 (\<lambda>e sg. \<exists>source got. strict_object source [''algorithm'', ''keyId'', ''signature''] e = Inr got \<and>
       length got = 3 \<and> decode_signature got = Some sg) es sgs"
  by (induction i es arbitrary: sgs rule: decode_signatures.induct)
    (auto simp: Let_def check_chain list_all2_Cons1, blast)

lemma decode_signatures_json:
  assumes "decode_signatures i es = Inr sgs"
    and "list_all (\<lambda>s. sigAlgorithm s \<noteq> [] \<and> sigKeyID s \<noteq> [] \<and> sigSignature s \<noteq> []) sgs"
  shows "map go_value es = map signature_json sgs"
  using decode_signatures_spec[OF assms(1)] assms(2)
  by (induction rule: list_all2_induct) (auto dest: decoded_signature_json)

text \<open>The signatures that the verification goes through have no empty part.\<close>

lemma verified_signatures_filled:
  "verify_signatures cr claims trusted sigs seen n previous = Inr k \<Longrightarrow>
     list_all (\<lambda>s. sigAlgorithm s \<noteq> [] \<and> sigKeyID s \<noteq> [] \<and> sigSignature s \<noteq> []) sigs"
proof (induction cr claims trusted sigs seen n previous rule: verify_signatures.induct)
  case (2 cr claims trusted s sigs seen n previous)
  then show ?case
    by (auto simp: Let_def runtimeManifestSignatureVersion_def decodeCanonicalPaddedBase64_def
        runtimeCanonicalKeyIDPattern_def prefix_def split: if_splits sum.splits option.splits)
qed simp

lemma parse_facts:
  assumes "parseRuntimeManifestV2 raw = Inr m"
  obtains v envelope fs entries where
    "json_document raw = Some v" "isStrictASCII raw" "0 < length raw" "length raw \<le> 65536"
    "strict_object ''runtime manifest descriptor'' [''claims'', ''schemaVersion'', ''signatures''] v = Inr envelope"
    "length envelope = 3"
    "strict_object ''runtime manifest claims'' runtimeManifestClaimFields (member_value envelope ''claims'') = Inr fs"
    "length fs = length runtimeManifestClaimFields"
    "member_value envelope ''signatures'' = JvArray entries" "1 \<le> length entries" "length entries \<le> 3"
    "decode_signatures 0 entries = Inr (Signatures m)"
    "raw = marshal (go_value v) @ [CHR 0x0A]" "canonicalJSON m = raw" "SchemaVersion m = 2"
    "json_uint 32 (member_value envelope ''schemaVersion'') = Some 2"
    "decode_claims fs = Some (Claims m)"
proof -
  from assms obtain v envelope fs entries y where facts:
    "\<not> (length raw < 1 \<or> length raw > max_manifest_bytes)" "isStrictASCII raw" "json_document raw = Some v"
    "strict_object ''runtime manifest descriptor'' [''claims'', ''schemaVersion'', ''signatures''] v = Inr envelope"
    "length envelope = 3"
    "strict_object ''runtime manifest claims'' runtimeManifestClaimFields (member_value envelope ''claims'') = Inr fs"
    "length fs = length runtimeManifestClaimFields"
    "member_value envelope ''signatures'' = JvArray entries" "\<not> (length entries < 1 \<or> length entries > 3)"
    "decode_signatures 0 entries = Inr (Signatures m)" "canonicalizeRuntimeManifestJSON raw = Inr raw"
    "json_uint 32 (member_value envelope ''schemaVersion'') = Some (unat runtimeManifestSchemaVersion)"
    "decode_claims fs = Some y"
    "m = \<lparr>SchemaVersion = runtimeManifestSchemaVersion, Claims = y, Signatures = Signatures m, canonicalJSON = raw\<rparr>"
    unfolding parseRuntimeManifestV2_def check_chain decodeStrictJSONObject_def strict_array_spec by auto
  have m: "Claims m = y" "canonicalJSON m = raw" "SchemaVersion m = 2"
    by (subst facts(14), simp add: runtimeManifestSchemaVersion_def)+
  have "raw = marshal (go_value v) @ [CHR 0x0A]"
    using facts(3,11) by (simp add: canonicalizeRuntimeManifestJSON_def)
  with facts m show ?thesis
    by (intro that[of v envelope fs entries])
      (simp_all add: max_manifest_bytes_def runtimeManifestSchemaVersion_def not_less Suc_le_eq)
qed

lemma accepted_canonical:
  assumes "verifyRuntimeManifestV2 cr (parseRuntimeManifestV2 raw) config keys now = Inr m"
  shows "raw = descriptor m \<and> canonicalJSON m = raw"
proof -
  note v = verify_accepts[OF assms]
  from v have parsed: "parseRuntimeManifestV2 raw = Inr m" by simp
  from v obtain trusted n where sgs: "verify_signatures cr (Claims m) trusted (Signatures m) {} 0 [] = Inr n" by blast
  have "validate_claim_values (Claims m) = Inr ()"
    using v by (auto simp: validateRuntimeManifestV2Claims_def split: sum.splits)
  note filled = validated_texts[OF this] validated_naturals[OF this]
  from parsed show ?thesis
  proof (rule parse_facts)
    fix w envelope fs entries
    assume doc: "json_document raw = Some w" and canon: "raw = marshal (go_value w) @ [CHR 0x0A]" "canonicalJSON m = raw"
      and env: "strict_object ''runtime manifest descriptor'' [''claims'', ''schemaVersion'', ''signatures''] w = Inr envelope"
        "length envelope = 3"
      and cl: "strict_object ''runtime manifest claims'' runtimeManifestClaimFields (member_value envelope ''claims'') = Inr fs"
        "length fs = length runtimeManifestClaimFields" "decode_claims fs = Some (Claims m)"
      and sg: "member_value envelope ''signatures'' = JvArray entries" "decode_signatures 0 entries = Inr (Signatures m)"
      and sv: "json_uint 32 (member_value envelope ''schemaVersion'') = Some 2" "SchemaVersion m = 2"
    have tidy: "tidy_numbers (member_value envelope k)" for k
      using json_document_tidy[OF doc] env(1) by (auto simp: strict_object_spec tidy_member)
    have "tidy_numbers (member_value fs k)" for k
      using tidy[of "''claims''"] cl(1) by (auto simp: strict_object_spec tidy_member)
    then have "go_value (member_value envelope ''claims'') = claims_json (Claims m)"
      using exact_object[OF cl(1,2) claim_fields_sorted] decoded_claims_json[OF cl(3) filled] by simp
    moreover have "go_value (member_value envelope ''schemaVersion'') = json_nat (unat (SchemaVersion m))"
      using json_uint_nonzero[OF sv(1) _ tidy] sv(2) by (simp add: json_nat_def)
    moreover have "go_value (JvArray entries) = JvArray (map signature_json (Signatures m))"
      using decode_signatures_json[OF sg(2) verified_signatures_filled[OF sgs]] by simp
    ultimately have "go_value w = manifest_json m"
      using exact_object[OF env(1)] env(2) envelope_sorted(1) sg(1) by (simp add: manifest_json_def)
    with canon show ?thesis by (simp add: descriptor_def)
  qed
qed

section \<open>Descriptors read back\<close>

lemma go_value_sorted:
  assumes "sorted (map fst ms)" and "distinct (map fst ms)" and "list_all (\<lambda>m. go_value (snd m) = snd m) ms"
  shows "go_value (JvObject ms) = JvObject ms"
proof -
  have "map (map_prod id go_value) ms = ms" using assms(3) by (induction ms) auto
  then show ?thesis using assms by (simp add: last_wins_distinct sorted_sort_id sort_key_id_if_sorted)
qed

lemma claims_json_keys:
  "claims_json c = JvObject ms \<Longrightarrow> map fst ms = runtimeManifestClaimFields"
  by (auto simp: claims_json_def runtimeManifestClaimFields_def)

lemma claims_json_value: "go_value (claims_json c) = claims_json c"
proof -
  obtain ms where ms: "claims_json c = JvObject ms" by (simp add: claims_json_def)
  moreover have "list_all (\<lambda>m. go_value (snd m) = snd m) ms"
    using ms by (auto simp: claims_json_def json_nat_def)
  ultimately show ?thesis
    using claims_json_keys[OF ms] claim_fields_sorted by (simp only:) (rule go_value_sorted, simp_all)
qed

lemma manifest_json_value: "go_value (manifest_json m) = manifest_json m"
proof -
  have "go_value (signature_json s) = signature_json s" for s
    unfolding signature_json_def by (rule go_value_sorted) (use envelope_sorted(2) in simp_all)
  then have "go_value (JvArray (map signature_json (Signatures m))) = JvArray (map signature_json (Signatures m))"
    by simp
  then show ?thesis
    unfolding manifest_json_def using envelope_sorted(1)
    by (intro go_value_sorted) (simp_all add: claims_json_value json_nat_def)
qed

lemma readable_claims: "readable (Suc d) (claims_json c)"
  by (simp add: claims_json_def json_nat_def)

lemma manifest_readable: "readable maxNestingDepth (manifest_json m)"
proof -
  obtain d where d: "maxNestingDepth = Suc (Suc (Suc d))"
    using that[of 9997] by (simp add: maxNestingDepth_def)
  show ?thesis
    unfolding d by (simp add: manifest_json_def readable_claims json_nat_def list_all_iff signature_json_def)
qed

lemma decode_claims_json:
  assumes "claims_json c = JvObject ms"
  shows "strict_object source runtimeManifestClaimFields (claims_json c) = Inr ms"
    and "length ms = length runtimeManifestClaimFields" and "decode_claims ms = Some c"
proof -
  have keys: "map fst ms = runtimeManifestClaimFields" using assms by (rule claims_json_keys)
  then have "fst ` set ms = set runtimeManifestClaimFields" by (metis set_map)
  then show "strict_object source runtimeManifestClaimFields (claims_json c) = Inr ms"
    using assms keys claim_fields_sorted(2) by (simp add: strict_object_spec)
  show "length ms = length runtimeManifestClaimFields" using keys by (metis length_map)
  have num: "unat x < 4294967296" "unat y < 18446744073709551616" for x :: u32 and y :: u64
    using unsigned_less[of x] unsigned_less[of y] by simp_all
  have mv: "list_all (\<lambda>(n, v). member_value ms n = v) ms"
    using keys claim_fields_sorted(2) by (auto simp: member_value_def list_all_iff)
  have eqs: "list_all (\<lambda>(n, v). member_value ms n = v)
    [
      (''arch'', JvString (Arch c)), (''attestationDigest'', JvString (AttestationDigest c)),
      (''attestationMediaType'', JvString (AttestationMediaType c)),
      (''buildFlags'', JvString (BuildFlags c)), (''byteLength'', json_nat (unat (ByteLength c))),
      (''downloadUrl'', JvString (DownloadURL c)), (''executable'', JvString (Executable c)),
      (''issuedAt'', json_nat (unat (IssuedAt c))),
      (''manifestVersion'', json_nat (unat (ManifestVersion c))),
      (''notBefore'', json_nat (unat (NotBefore c))), (''os'', JvString (OS c)),
      (''protocol'', json_nat (unat (Protocol c))), (''publisher'', JvString (Publisher c)),
      (''releaseId'', JvString (ReleaseID c)), (''repository'', JvString (Repository c)),
      (''runAttempt'', json_nat (unat (RunAttempt c))), (''runId'', json_nat (unat (RunID c))),
      (''runtimeVersion'', JvString (RuntimeVersion c)), (''sdk'', JvString (SDK c)),
      (''sha256'', JvString (SHA256 c)), (''sourceRef'', JvString (SourceRef c)),
      (''sourceSha'', JvString (SourceSHA c)), (''toolchain'', JvString (Toolchain c)),
      (''validUntil'', json_nat (unat (ValidUntil c))),
      (''workflowIdentity'', JvString (WorkflowIdentity c)),
      (''wrapperCommit'', JvString (WrapperCommit c)),
      (''wrapperGoModSum'', JvString (WrapperGoModSum c)),
      (''wrapperModule'', JvString (WrapperModule c)), (''wrapperSum'', JvString (WrapperSum c)),
      (''wrapperTagObject'', JvString (WrapperTagObject c)),
      (''wrapperTree'', JvString (WrapperTree c)), (''wrapperVersion'', JvString (WrapperVersion c))]"
    using assms mv unfolding claims_json_def jv.inject by (simp only:)
  have d: "decodable ms claim_strings claim_numbers"
    using eqs num unfolding decodable_def claim_strings_def claim_numbers_def
    by (simp add: json_string_def)
  then show "decode_claims ms = Some c"
    using eqs num unfolding decode_claims_def by (simp add: json_text_def json_number_def json_string_def)
qed

lemma decode_signature_json:
  "strict_object source [''algorithm'', ''keyId'', ''signature''] (signature_json s) =
     Inr [(''algorithm'', JvString (sigAlgorithm s)), (''keyId'', JvString (sigKeyID s)), (''signature'', JvString (sigSignature s))]"
  "decode_signature [(''algorithm'', JvString (sigAlgorithm s)), (''keyId'', JvString (sigKeyID s)),
     (''signature'', JvString (sigSignature s))] = Some s"
  by (simp_all add: signature_json_def strict_object_def decode_signature_def decodable_def json_text_def
      member_value_def json_string_def)

lemma decode_signatures_back: "decode_signatures i (map signature_json sgs) = Inr sgs"
  by (induction sgs arbitrary: i) (simp_all add: decode_signature_json Let_def)

lemma parse_descriptor:
  assumes "SchemaVersion m = 2" and "1 \<le> length (Signatures m)" and "length (Signatures m) \<le> 3"
    and "isStrictASCII (descriptor m)" and "length (descriptor m) \<le> 65536"
  shows "parseRuntimeManifestV2 (descriptor m) = Inr (m\<lparr>canonicalJSON := descriptor m\<rparr>)"
proof -
  obtain ms where ms: "claims_json (Claims m) = JvObject ms" by (simp add: claims_json_def)
  let ?env = "[(''claims'', claims_json (Claims m)), (''schemaVersion'', json_nat (unat (SchemaVersion m))),
      (''signatures'', JvArray (map signature_json (Signatures m)))]"
  have doc: "json_document (descriptor m) = Some (manifest_json m)"
    unfolding descriptor_def by (rule json_document_marshal[OF manifest_readable])
  moreover have "strict_object s [''claims'', ''schemaVersion'', ''signatures''] (manifest_json m) = Inr ?env" for s
    by (simp add: manifest_json_def strict_object_def)
  moreover have "member_value ?env ''claims'' = claims_json (Claims m)"
    "member_value ?env ''schemaVersion'' = json_nat 2"
    "member_value ?env ''signatures'' = JvArray (map signature_json (Signatures m))"
    using assms(1) by (simp_all add: member_value_def)
  moreover have "canonicalizeRuntimeManifestJSON (descriptor m) = Inr (descriptor m)"
    by (simp add: canonicalizeRuntimeManifestJSON_def doc manifest_json_value) (simp add: descriptor_def)
  moreover have "0 < length (descriptor m)" by (simp add: descriptor_def)
  ultimately show ?thesis
    using assms decode_claims_json[OF ms]
    by (simp add: parseRuntimeManifestV2_def decodeStrictJSONObject_def max_manifest_bytes_def strict_array_def
        decode_signatures_back runtimeManifestSchemaVersion_def not_less[symmetric])
qed

section \<open>Sizes and ASCII\<close>

lemma escape_length: "length (escape_string s) \<le> 6 * length s"
proof (induction s rule: escape_string.induct)
  case (1 a b c s)
  have "length (escaped_char a) \<le> 6" by (simp add: escaped_char_def)
  then show ?case using 1 by auto
qed (simp_all add: escaped_char_def)

lemma hex_digit_ascii: "n < 16 \<Longrightarrow> byte_nat (hex_digit n) \<le> 127"
  by (simp add: hex_digit_def)

lemma escaped_ascii: "byte_nat c \<le> 127 \<Longrightarrow> isStrictASCII (escaped_char c)"
proof (cases "coded_char c")
  case True
  have "byte_nat c div 16 < 16" using byte_nat_less[of c] by linarith
  then show ?thesis
    by (simp add: escaped_code[OF True] hex_digit_ascii) (simp add: backslash_def byte_nat_def)
next
  case False
  have "byte_nat backslash \<le> 127" by (simp add: backslash_def byte_nat_def)
  moreover have "simple_escape e = Some c \<Longrightarrow> byte_nat e \<le> 127" for e
    by (auto simp: simple_escape_def quote_def backslash_def byte_nat_def split: if_splits)
  moreover assume "byte_nat c \<le> 127"
  ultimately show ?thesis using escaped_other[OF False] by auto
qed

lemma escape_ascii: "isStrictASCII s \<Longrightarrow> isStrictASCII (escape_string s)"
proof (induction s rule: escape_string.induct)
  case (1 a b c s)
  then have "a \<noteq> CHR 0xE2" by (auto simp: byte_nat_def)
  with 1 show ?case by (simp add: escaped_ascii)
qed (simp_all add: escaped_ascii)

lemma dec_of_nat_ascii: "isStrictASCII (dec_of_nat n)"
  using dec_of_nat_digits[of n] by (auto simp: isStrictASCII_def list_all_iff is_digit_def)

lemma join_ascii: "isStrictASCII (join_with sep ss) \<longleftrightarrow> list_all isStrictASCII ss \<and> (length ss < 2 \<or> isStrictASCII sep)"
  by (induction sep ss rule: join_with.induct) auto

lemma mark_bytes [simp]:
  "byte_nat quote \<le> 127" "byte_nat (CHR '','') \<le> 127" "byte_nat (CHR '':'') \<le> 127" "byte_nat (CHR ''{'') \<le> 127"
  "byte_nat (CHR ''}'') \<le> 127" "byte_nat (CHR ''['') \<le> 127" "byte_nat (CHR '']'') \<le> 127"
  by (simp_all add: byte_nat_def quote_def)

lemma quoted_ascii: "isStrictASCII s \<Longrightarrow> isStrictASCII (quoted s)"
  by (simp add: quoted_def escape_ascii)

lemma object_ascii:
  "list_all (\<lambda>m. isStrictASCII (fst m) \<and> isStrictASCII (marshal (snd m))) ms \<Longrightarrow> isStrictASCII (marshal (JvObject ms))"
  unfolding marshal_object by (auto simp: join_ascii list_all_iff member_text_def quoted_ascii)

lemma descriptor_ascii:
  assumes "list_all isStrictASCII (claim_texts (Claims m))"
    and "list_all (\<lambda>s. isStrictASCII (sigAlgorithm s) \<and> isStrictASCII (sigKeyID s) \<and> isStrictASCII (sigSignature s))
      (Signatures m)"
  shows "isStrictASCII (descriptor m)"
proof -
  have lits: "list_all isStrictASCII runtimeManifestClaimFields"
    by (simp add: runtimeManifestClaimFields_def byte_nat_def)
  obtain ms where ms: "claims_json (Claims m) = JvObject ms" by (simp add: claims_json_def)
  have "list_all isStrictASCII (map fst ms)" using claims_json_keys[OF ms] lits by simp
  moreover have "list_all (\<lambda>m. isStrictASCII (marshal (snd m))) ms"
    using ms assms(1) by (auto simp: claims_json_def claim_texts_def json_nat_def dec_of_nat_ascii quoted_ascii)
  ultimately have "isStrictASCII (marshal (claims_json (Claims m)))"
    unfolding ms by (intro object_ascii) (auto simp: list_all_iff)
  moreover have "list_all (\<lambda>s. isStrictASCII (marshal (signature_json s))) (Signatures m)"
    using assms(2) unfolding signature_json_def
    by (auto simp: list_all_iff quoted_ascii byte_nat_def simp del: marshal.simps intro!: object_ascii)
      (simp_all add: quoted_ascii)
  then have "isStrictASCII (marshal (JvArray (map signature_json (Signatures m))))"
    by (simp add: join_ascii list_all_iff)
  ultimately show ?thesis
    unfolding descriptor_def manifest_json_def
    by (simp del: marshal.simps) (intro object_ascii, simp add: json_nat_def dec_of_nat_ascii byte_nat_def)
qed

lemma sample_texts:
  "list_all isStrictASCII (claim_texts (Claims sample_manifest))"
  "list_all (\<lambda>s. isStrictASCII (sigAlgorithm s) \<and> isStrictASCII (sigKeyID s) \<and> isStrictASCII (sigSignature s))
      (Signatures sample_manifest)"
proof -
  show "list_all isStrictASCII (claim_texts (Claims sample_manifest))"
    by (simp add: sample_manifest_def sample_claims_def claim_texts_def sample_h1_def byte_nat_def
        runtimeManifestAttestationMedia_def expectedRuntimeManifestBuildFlags_def runtimeManifestWorkflowIdentity_def)
  show "list_all (\<lambda>s. isStrictASCII (sigAlgorithm s) \<and> isStrictASCII (sigKeyID s) \<and> isStrictASCII (sigSignature s))
      (Signatures sample_manifest)"
    by (simp add: sample_manifest_def runtimeManifestSignatureVersion_def sample_key_id_def byte_nat_def)
qed

lemma sample_ascii: "isStrictASCII (descriptor sample_manifest)"
  by (rule descriptor_ascii[OF sample_texts])

lemma dec_length_step: "length (dec_of_nat n) = (if n < 10 then 1 else Suc (length (dec_of_nat (n div 10))))"
  by (subst dec_of_nat.simps) simp

lemma quoted_length: "length (quoted s) \<le> 6 * length s + 2"
  using escape_length[of s] by (simp add: quoted_def)

lemma join_length: "length (join_with sep ss) \<le> (\<Sum>s\<leftarrow>ss. length s + length sep)"
  by (induction sep ss rule: join_with.induct) auto

fun text_bound :: "jv \<Rightarrow> nat" where
  "text_bound (JvNumber l) = length l"
| "text_bound (JvString s) = 6 * length s + 2"
| "text_bound (JvArray vs) = 2 + (\<Sum>v\<leftarrow>vs. text_bound v + 1)"
| "text_bound (JvObject ms) = 2 + (\<Sum>(k, v)\<leftarrow>ms. 6 * length k + text_bound v + 4)"
| "text_bound v = 5"

lemma marshal_length: "length (marshal v) \<le> text_bound v"
proof (induction v)
  case (JvArray vs)
  have "length (join_with '','' (map marshal vs)) \<le> (\<Sum>v\<leftarrow>vs. length (marshal v) + 1)"
    using join_length[of "'',''" "map marshal vs"] by (simp add: comp_def)
  also have "\<dots> \<le> (\<Sum>v\<leftarrow>vs. text_bound v + 1)" using JvArray by (intro sum_list_mono) simp
  finally show ?case by simp
next
  case (JvObject ms)
  have "length (join_with '','' (map member_text ms)) \<le> (\<Sum>m\<leftarrow>ms. length (member_text m) + 1)"
    using join_length[of "'',''" "map member_text ms"] by (simp add: comp_def)
  also have "\<dots> \<le> (\<Sum>(k, v)\<leftarrow>ms. 6 * length k + text_bound v + 4)"
  proof (intro sum_list_mono)
    fix m assume m: "m \<in> set ms"
    obtain k v where "m = (k, v)" by (cases m)
    then have "length (marshal (snd m)) \<le> text_bound (snd m)" using JvObject[OF m, of v] by simp
    with quoted_length[of "fst m"] show "length (member_text m) + 1 \<le> (case m of (k, v) \<Rightarrow> 6 * length k + text_bound v + 4)"
      by (cases m) (simp add: member_text_def)
  qed
  finally show ?case by (simp add: marshal_object del: marshal.simps)
qed (use quoted_length in auto)

lemma sample_size: "length (descriptor sample_manifest) \<le> 65536"
  using marshal_length[of "manifest_json sample_manifest"]
  by (simp add: descriptor_def manifest_json_def claims_json_def signature_json_def json_nat_def sample_manifest_def
      sample_claims_def sample_h1_def sample_key_id_def length_std_encode dec_length_step
      runtimeManifestSignatureVersion_def runtimeManifestAttestationMedia_def expectedRuntimeManifestBuildFlags_def
      runtimeManifestWorkflowIdentity_def del: marshal.simps)

lemma sample_parses:
  "parseRuntimeManifestV2 (descriptor sample_manifest) = Inr (sample_manifest\<lparr>canonicalJSON := descriptor sample_manifest\<rparr>)"
  using sample_ascii sample_size by (intro parse_descriptor) (simp_all add: sample_manifest_def)

lemma verify_ignores_text:
  "verifyRuntimeManifestV2 cr (Inr m) config keys now = Inr m \<Longrightarrow>
     verifyRuntimeManifestV2 cr (Inr (m\<lparr>canonicalJSON := t\<rparr>)) config keys now = Inr (m\<lparr>canonicalJSON := t\<rparr>)"
  by (auto simp: verifyRuntimeManifestV2_def split: sum.splits if_splits)

section \<open>The keys of the ring\<close>

lemma hex_encode_lower: "list_all is_lower_hex (hex_encode s) \<and> length (hex_encode s) = 2 * length s"
proof (induction s)
  case (Cons c s)
  have "is_lower_hex (hex_digit n)" if "n < 16" for n
    using that by (auto simp: hex_digit_def is_lower_hex_def is_digit_def)
  moreover have "byte_nat c div 16 < 16" using byte_nat_less[of c] by linarith
  ultimately show ?case using Cons by (simp add: hex_encode_def)
qed (simp add: hex_encode_def)

lemma fingerprint_pattern:
  "length (sha256 cr k) = 32 \<Longrightarrow> runtimeCanonicalKeyIDPattern (runtimeManifestPublisherKeyPrefix @ hex_encode (sha256 cr k))"
  using hex_encode_lower[of "sha256 cr k"]
  by (simp add: runtimeCanonicalKeyIDPattern_def runtimeManifestPublisherKeyPrefix_def isLowerHex64_def)

lemma parse_key_trusted:
  assumes "parse_key cr index seen entry = Inr key" and "\<And>k. length (sha256 cr k) = 32"
  shows "trusted_key_ok cr key \<and> keyKeyID key \<notin> seen"
proof -
  obtain got publicKey where k: "keyAlgorithm key = runtimeManifestSignatureVersion"
    "decodeCanonicalPaddedBase64 (json_text got ''publicKeyRawBase64'') 32 ''publicKeyRawBase64'' = Inr publicKey"
    "keyPublicKey key = publicKey" "keyKeyID key = runtimeManifestPublisherKeyPrefix @ hex_encode (sha256 cr publicKey)"
    "keyKeyID key \<notin> seen" "minRuntimeManifestUnixSecond \<le> keyActivation key"
    "keyActivation key < keyNotAfter key" "keyNotAfter key \<le> maxRuntimeManifestUnixSecond"
    using assms(1) by (auto simp: parse_key_def Let_def not_less not_le split: sum.splits if_splits)
  moreover have "length publicKey = 32" using k(2) unfolding decode_canonical_iff by simp
  ultimately show ?thesis using fingerprint_pattern[OF assms(2)] by (simp add: trusted_key_ok_def)
qed

lemma parse_keys_trusted:
  assumes "parse_keys cr index seen entries = Inr keys" and "\<And>k. length (sha256 cr k) = 32"
  shows "list_all (trusted_key_ok cr) keys \<and> distinct (map keyKeyID keys) \<and>
     (\<forall>key \<in> set keys. keyKeyID key \<notin> seen) \<and> length keys = length entries"
  using assms(1)
proof (induction entries arbitrary: index seen keys)
  case (Cons entry entries)
  then obtain key rest where k: "parse_key cr index seen entry = Inr key"
    "parse_keys cr (index + 1) (insert (keyKeyID key) seen) entries = Inr rest" "keys = key # rest"
    by (auto split: sum.splits)
  show ?case using parse_key_trusted[OF k(1) assms(2)] Cons.IH[OF k(2)] k(3) by auto
qed simp

lemma collect_trusted_all:
  "list_all (trusted_key_ok cr) keys \<Longrightarrow> distinct (map keyKeyID keys) \<Longrightarrow>
     (\<forall>key \<in> set keys. trusted (keyKeyID key) = None) \<Longrightarrow> \<exists>t. collect_trusted cr trusted keys = Inr t"
proof (induction keys arbitrary: trusted)
  case (Cons key keys)
  then have "keyKeyID key \<notin> keyKeyID ` set keys" by simp
  then have "\<forall>k \<in> set keys. keyKeyID k \<noteq> keyKeyID key" by (metis imageI)
  with Cons.prems have "\<forall>k \<in> set keys. (trusted(keyKeyID key \<mapsto> key)) (keyKeyID k) = None" by simp
  with Cons show ?case by (simp add: list_all_iff)
qed simp

text \<open>The ring with the one key.\<close>

definition sample_ring_json :: jv where
  "sample_ring_json = JvArray [JvObject
     [(''activation'', JvNumber ''1700000000''), (''algorithm'', JvString runtimeManifestSignatureVersion),
      (''keyId'', JvString sample_key_id), (''notAfter'', JvNumber ''1900000000''),
      (''publicKeyRawBase64'', JvString (std_encode (replicate 32 CHR ''k'')))]]"

definition sample_keyring :: string where
  "sample_keyring = marshal sample_ring_json @ [CHR 0x0A]"

lemma sample_ring_document: "json_document sample_keyring = Some sample_ring_json"
  unfolding sample_keyring_def
  by (rule json_document_marshal)
    (simp add: sample_ring_json_def maxNestingDepth_def canonical_number_def is_digit_def byte_nat_def numeral_eq_Suc)

lemma sample_ring_size: "length sample_keyring \<le> 16384"
  using marshal_length[of sample_ring_json]
  by (simp add: sample_keyring_def sample_ring_json_def sample_key_id_def length_std_encode
      runtimeManifestSignatureVersion_def del: marshal.simps)

lemma sample_ring_ascii: "isStrictASCII sample_keyring"
proof -
  let ?ms = "[(''activation'', JvNumber ''1700000000''), (''algorithm'', JvString runtimeManifestSignatureVersion),
      (''keyId'', JvString sample_key_id), (''notAfter'', JvNumber ''1900000000''),
      (''publicKeyRawBase64'', JvString (std_encode (replicate 32 CHR ''k'')))]"
  have "isStrictASCII (marshal (JvObject ?ms))"
    by (rule object_ascii)
      (simp add: sample_key_id_def runtimeManifestSignatureVersion_def quoted_ascii byte_nat_def)
  then show ?thesis unfolding sample_keyring_def sample_ring_json_def marshal.simps(5) by simp
qed

lemma trim_brackets: "trim_space (CHR ''['' # x @ [CHR '']'', CHR 0x0A]) \<noteq> []"
proof -
  have "strip_one space_runes (CHR ''['' # y) = None"
    and "strip_one (map rev space_runes) (CHR 0x0A # y) = Some y"
    and "strip_one (map rev space_runes) (CHR '']'' # y) = None" for y
    by (simp_all add: space_runes_def)
  then show ?thesis by (simp add: trim_space_def trim_by.simps[of _ "_ # _"])
qed

lemma sample_keyring_parses: "parseRuntimePublisherKeyring sample_crypto sample_keyring = Inr [sample_key]"
proof -
  have "trim_space sample_keyring \<noteq> []"
    unfolding sample_keyring_def sample_ring_json_def marshal.simps(5)
    using trim_brackets by (simp del: marshal.simps)
  moreover have "parse_keys sample_crypto 0 {}
    [JvObject [(''activation'', JvNumber ''1700000000''), (''algorithm'', JvString runtimeManifestSignatureVersion),
      (''keyId'', JvString sample_key_id), (''notAfter'', JvNumber ''1900000000''),
      (''publicKeyRawBase64'', JvString (std_encode (replicate 32 CHR ''k'')))]] = Inr [sample_key]"
    using decode_canonical_encode[of "replicate 32 CHR ''k''"] sample_key_trusted
    by (simp add: parse_key_def strict_object_def key_fields_def Let_def decodable_def json_string_def json_text_def
        member_value_def json_uint_def dec_value_def is_digit_def byte_nat_def json_number_def sample_key_def
        minRuntimeManifestUnixSecond_def maxRuntimeManifestUnixSecond_def trusted_key_ok_def sample_crypto_def)
  ultimately show ?thesis
    using sample_ring_document sample_ring_size sample_ring_ascii
    by (simp add: parseRuntimePublisherKeyring_def maxRuntimePublisherKeyringBytes_def decodeStrictJSONArray_def
        strict_array_def sample_ring_json_def maxRuntimePublisherTrustedKeys_def not_less[symmetric])
qed

section \<open>Properties\<close>

text \<open>
  C21: A descriptor that is accepted is canonical: its bytes are those that the manifest it was decoded
  to is written in, down to the order of the members, the escapes and the line break. So two accepted
  descriptors with the same claims and signatures are the same bytes, and nothing can be hidden in
  one; it is ASCII and has at most 64 KiB.
\<close>

theorem accepted_descriptor_canonical:
  assumes "verifyRuntimeManifestV2 cr (parseRuntimeManifestV2 raw) config keys now = Inr m"
  shows "raw = descriptor m \<and> canonicalJSON m = raw \<and> isStrictASCII raw \<and> length raw \<le> 65536"
proof -
  have "parseRuntimeManifestV2 raw = Inr m" using verify_accepts[OF assms] by simp
  then have "isStrictASCII raw \<and> length raw \<le> 65536" by (rule parse_facts) blast
  with accepted_canonical[OF assms] show ?thesis by blast
qed

text \<open>
  C22: What is written can be read: for a manifest with the supported schema version and one to three
  signatures, all of whose texts are ASCII, and whose descriptor stays within 64 KiB, the reader
  returns from the descriptor exactly the claims and signatures that were written.
\<close>

theorem descriptor_read_back:
  assumes "SchemaVersion m = 2" and "1 \<le> length (Signatures m)" and "length (Signatures m) \<le> 3"
    and "list_all isStrictASCII (claim_texts (Claims m))"
    and "list_all (\<lambda>s. isStrictASCII (sigAlgorithm s) \<and> isStrictASCII (sigKeyID s) \<and> isStrictASCII (sigSignature s))
      (Signatures m)"
    and "length (descriptor m) \<le> 65536"
  shows "parseRuntimeManifestV2 (descriptor m) = Inr (m\<lparr>canonicalJSON := descriptor m\<rparr>)"
  using assms descriptor_ascii by (intro parse_descriptor) simp_all

lemma descriptor_read_back_witness:
  "parseRuntimeManifestV2 (descriptor sample_manifest) = Inr (sample_manifest\<lparr>canonicalJSON := descriptor sample_manifest\<rparr>)"
  by (rule descriptor_read_back[OF _ _ _ sample_texts sample_size]) (simp_all add: sample_manifest_def)

lemma accepted_descriptor_canonical_witness:
  "verifyRuntimeManifestV2 sample_crypto (parseRuntimeManifestV2 (descriptor sample_manifest)) sample_config [sample_key] 1755000000
     = Inr (sample_manifest\<lparr>canonicalJSON := descriptor sample_manifest\<rparr>) \<and> isStrictASCII (descriptor sample_manifest)"
proof -
  have v: "verifyRuntimeManifestV2 sample_crypto (parseRuntimeManifestV2 (descriptor sample_manifest)) sample_config
     [sample_key] 1755000000 = Inr (sample_manifest\<lparr>canonicalJSON := descriptor sample_manifest\<rparr>)"
    unfolding sample_parses by (rule verify_ignores_text[OF sample_verifies])
  with accepted_descriptor_canonical[OF v] show ?thesis by simp
qed

text \<open>
  A keyring that is accepted can be used: it has one to eight keys with distinct fingerprints, each
  of them passes the checks that verification makes of a trusted key (32 bytes, the fingerprint of its
  own bytes, an interval within the bounds), and verification finds every key under its fingerprint.
  SHA-256 is the parameter; all that is assumed is that its results have 32 bytes.
\<close>

theorem accepted_keyring_usable:
  assumes "parseRuntimePublisherKeyring cr raw = Inr keys" and "\<And>k. length (sha256 cr k) = 32"
  shows "1 \<le> length keys \<and> length keys \<le> maxRuntimePublisherTrustedKeys \<and>
    list_all (trusted_key_ok cr) keys \<and> distinct (map keyKeyID keys) \<and>
    (\<exists>trusted. collect_trusted cr Map.empty keys = Inr trusted \<and> list_all (\<lambda>k. trusted (keyKeyID k) = Some k) keys)"
proof -
  obtain entries where e: "1 \<le> length entries" "length entries \<le> maxRuntimePublisherTrustedKeys"
    "parse_keys cr 0 {} entries = Inr keys"
    using assms(1)
    by (auto simp: parseRuntimePublisherKeyring_def not_less Suc_le_eq split: sum.splits if_splits)
  have k: "list_all (trusted_key_ok cr) keys" "distinct (map keyKeyID keys)" "length keys = length entries"
    using parse_keys_trusted[OF e(3) assms(2)] by blast+
  moreover obtain t where t: "collect_trusted cr Map.empty keys = Inr t"
    using collect_trusted_all[OF k(1,2), of Map.empty] by auto
  moreover have "list_all (\<lambda>k. t (keyKeyID k) = Some k) keys"
    using collect_trusted_spec[OF t] by (auto simp: list_all_iff)
  ultimately show ?thesis using e by auto
qed

lemma accepted_keyring_usable_witness:
  "parseRuntimePublisherKeyring sample_crypto sample_keyring = Inr [sample_key] \<and> trusted_key_ok sample_crypto sample_key"
proof -
  have "length (sha256 sample_crypto k) = 32" for k by (simp add: sample_crypto_def)
  with accepted_keyring_usable[OF sample_keyring_parses] sample_keyring_parses show ?thesis by simp
qed

end
