(* ===== verification/Transport_Policy.thy ===== *)
theory Transport_Policy
  imports Go_Paths Manifest_Descriptor
begin

text \<open>
  Which URLs the SDK resolves and downloads the engine from (\<open>runtime_transport_security.go\<close>).
  \<open>url.Parse\<close> and \<open>URL.String\<close> are parameters, the record \<open>net_url\<close>: everything below holds whatever
  they are. Text is ASCII.
\<close>

section \<open>URLs\<close>

record go_url =
  Scheme :: string
  Opaque :: string
  User :: "string option"
  Host :: string
  Path :: string
  RawPath :: string
  ForceQuery :: bool
  RawQuery :: string
  Fragment :: string
  RawFragment :: string

record net_url =
  url_Parse :: "string \<Rightarrow> go_url option"
  url_String :: "go_url \<Rightarrow> string"

text \<open>\<open>URL.Hostname\<close>: the host without its port and brackets.\<close>

definition url_Hostname :: "go_url \<Rightarrow> string" where
  "url_Hostname u =
     (let h = Host u;
          host = (case cut_at (CHR '':'') (rev h) of
                    Some (port, rest) \<Rightarrow> if list_all is_digit port then rev rest else h
                  | None \<Rightarrow> h) in
      if prefix ''['' host \<and> suffix '']'' host then butlast (tl host) else host)"

section \<open>The policy\<close>

record runtimeTransportPolicy =
  pol_scheme :: string
  pol_host :: string
  allowLoopbackHTTP :: bool

definition isLoopbackRuntimeHost :: "string \<Rightarrow> bool" where
  "isLoopbackRuntimeHost host =
     (let normalized = to_lower (trim_space host) in
      normalized = ''localhost'' \<or> normalized = ''127.0.0.1'' \<or> normalized = ''::1'' \<or>
      suffix ''.localhost'' normalized)"

definition parseCanonicalRuntimeURL :: "net_url \<Rightarrow> string \<Rightarrow> go_url res" where
  "parseCanonicalRuntimeURL nu raw =
     (if raw = [] \<or> raw \<noteq> trim_space raw
      then Inl ''URL must be non-empty without surrounding whitespace''
      else
     (case url_Parse nu raw of
        None \<Rightarrow> Inl ''URL syntax is invalid''
      | Some parsed \<Rightarrow>
          if Scheme parsed = [] \<or> Opaque parsed \<noteq> [] \<or> Host parsed = [] \<or> User parsed \<noteq> None \<or>
             RawQuery parsed \<noteq> [] \<or> ForceQuery parsed \<or> Fragment parsed \<noteq> [] \<or>
             RawFragment parsed \<noteq> [] \<or> RawPath parsed \<noteq> []
          then Inl ''URL must be absolute and canonical without credentials, query, fragment, or encoded path ambiguity''
          else if Scheme parsed \<noteq> ''https'' \<and> Scheme parsed \<noteq> ''http''
          then Inl ''URL scheme must be HTTPS or allowed loopback HTTP''
          else if Path parsed = [] \<or> \<not> prefix ''/'' (Path parsed) \<or> CHR 0x5C \<in> set (Path parsed) \<or>
                  sublist ''//'' (Path parsed) \<or> path_clean (Path parsed) \<noteq> Path parsed
          then Inl ''URL path must be absolute and canonical''
          else Inr parsed))"

definition validateURL :: "net_url \<Rightarrow> runtimeTransportPolicy \<Rightarrow> string \<Rightarrow> string \<Rightarrow> go_url res" where
  "validateURL nu policy raw label =
     (case parseCanonicalRuntimeURL nu raw of
        Inl e \<Rightarrow> Inl (label @ '' is invalid: '' @ e)
      | Inr parsed \<Rightarrow>
          if Scheme parsed \<noteq> pol_scheme policy \<or> to_lower (Host parsed) \<noteq> pol_host policy
          then Inl (label @ '' origin is not allowed'')
          else if Scheme parsed \<noteq> ''https'' \<and>
                  (\<not> allowLoopbackHTTP policy \<or> \<not> isLoopbackRuntimeHost (url_Hostname parsed))
          then Inl (label @ '' must use HTTPS'')
          else Inr parsed)"

definition validateResolveURL :: "net_url \<Rightarrow> runtimeTransportPolicy \<Rightarrow> string \<Rightarrow> go_url res" where
  "validateResolveURL nu policy raw = validateURL nu policy raw ''runtime resolve URL''"

definition validateArtifactURL :: "net_url \<Rightarrow> runtimeTransportPolicy \<Rightarrow> string \<Rightarrow> go_url res" where
  "validateArtifactURL nu policy raw = validateURL nu policy raw ''runtime artifact URL''"

definition origin_text :: "net_url \<Rightarrow> string \<Rightarrow> string" where
  "origin_text nu allowedOrigin =
     (case url_Parse nu allowedOrigin of
        Some candidate \<Rightarrow> if Path candidate = [] then allowedOrigin @ ''/'' else allowedOrigin
      | None \<Rightarrow> allowedOrigin)"

definition newRuntimeTransportPolicy :: "net_url \<Rightarrow> string \<Rightarrow> bool \<Rightarrow> runtimeTransportPolicy res" where
  "newRuntimeTransportPolicy nu allowedOrigin loopback =
     (case parseCanonicalRuntimeURL nu (origin_text nu allowedOrigin) of
        Inl e \<Rightarrow> Inl (''runtime artifact origin is invalid: '' @ e)
      | Inr parsed \<Rightarrow>
          if Scheme parsed = ''https'' \<or>
             Scheme parsed = ''http'' \<and> loopback \<and> isLoopbackRuntimeHost (url_Hostname parsed)
          then Inr \<lparr>pol_scheme = Scheme parsed, pol_host = to_lower (Host parsed), allowLoopbackHTTP = loopback\<rparr>
          else Inl ''runtime artifact origin must use HTTPS'')"

text \<open>The URL of the request a response belongs to.\<close>

definition validateRuntimeResponseURL ::
  "net_url \<Rightarrow> go_url option \<Rightarrow> go_url \<Rightarrow> runtimeTransportPolicy \<Rightarrow> string \<Rightarrow> unit res" where
  "validateRuntimeResponseURL nu answered expected policy label =
     (case answered of
        None \<Rightarrow> Inl (label @ '' did not provide a final response URL'')
      | Some url \<Rightarrow>
     (case validateURL nu policy (url_String nu url) (label @ '' response URL'') of
        Inl e \<Rightarrow> Inl e
      | Inr actual \<Rightarrow>
          if url_String nu actual \<noteq> url_String nu expected
          then Inl (label @ '' final response URL did not match the request'')
          else Inr ()))"

section \<open>Properties\<close>

text \<open>What a URL that passed promises.\<close>

definition canonical_url :: "go_url \<Rightarrow> bool" where
  "canonical_url u \<longleftrightarrow>
     Host u \<noteq> [] \<and> User u = None \<and> Opaque u = [] \<and> RawQuery u = [] \<and> \<not> ForceQuery u \<and> Fragment u = [] \<and>
     RawFragment u = [] \<and> RawPath u = [] \<and> CHR 0x5C \<notin> set (Path u) \<and>
     (\<exists>cs. Path u = CHR ''/'' # join_with ''/'' cs \<and> list_all ordinary cs)"

lemma parsed_canonical:
  "parseCanonicalRuntimeURL nu raw = Inr u \<Longrightarrow>
     url_Parse nu raw = Some u \<and> canonical_url u \<and> (Scheme u = ''https'' \<or> Scheme u = ''http'')"
  using path_clean_fixed[of "Path u"]
  by (auto simp: parseCanonicalRuntimeURL_def canonical_url_def split: if_splits option.splits)

lemma validated_facts:
  assumes "validateURL nu policy raw label = Inr u"
  shows "url_Parse nu raw = Some u" and "canonical_url u" and "Scheme u = pol_scheme policy"
    and "to_lower (Host u) = pol_host policy"
    and "Scheme u = ''https'' \<or> allowLoopbackHTTP policy \<and> isLoopbackRuntimeHost (url_Hostname u)"
  using assms parsed_canonical[of nu raw u] by (auto simp: validateURL_def split: sum.splits if_splits)

lemma policy_facts:
  assumes "newRuntimeTransportPolicy nu origin loopback = Inr policy"
  obtains o_url where "url_Parse nu (origin_text nu origin) = Some o_url" and "pol_scheme policy = Scheme o_url"
    and "pol_host policy = to_lower (Host o_url)" and "allowLoopbackHTTP policy = loopback"
    and "pol_scheme policy = ''https'' \<or> pol_scheme policy = ''http'' \<and> loopback"
proof -
  from assms obtain o_url where o_url: "parseCanonicalRuntimeURL nu (origin_text nu origin) = Inr o_url"
    by (auto simp: newRuntimeTransportPolicy_def split: sum.splits)
  from assms have "policy = \<lparr>pol_scheme = Scheme o_url, pol_host = to_lower (Host o_url), allowLoopbackHTTP = loopback\<rparr>"
    and "Scheme o_url = ''https'' \<or> Scheme o_url = ''http'' \<and> loopback"
    by (auto simp: newRuntimeTransportPolicy_def o_url split: if_splits)
  with parsed_canonical[OF o_url] show ?thesis by (intro that[of o_url]) simp_all
qed

lemma validated_origin:
  assumes "newRuntimeTransportPolicy nu origin loopback = Inr policy" and "validateURL nu policy raw label = Inr u"
  obtains o_url where "url_Parse nu (origin_text nu origin) = Some o_url" and "Scheme u = Scheme o_url"
    and "equal_fold (Host u) (Host o_url)"
    and "Scheme u = ''https'' \<or> Scheme u = ''http'' \<and> loopback \<and> isLoopbackRuntimeHost (url_Hostname u)"
proof -
  obtain o_url where "url_Parse nu (origin_text nu origin) = Some o_url" "pol_scheme policy = Scheme o_url"
    "pol_host policy = to_lower (Host o_url)" "allowLoopbackHTTP policy = loopback"
    "pol_scheme policy = ''https'' \<or> pol_scheme policy = ''http'' \<and> loopback"
    using assms(1) by (rule policy_facts)
  with validated_facts[OF assms(2)] that[of o_url] show ?thesis by (auto simp: equal_fold_def)
qed

text \<open>
  Every URL that a policy lets pass has the scheme and the host of the origin the policy was made
  from and is canonical: no credentials, query or fragment, and a path without empty, \<open>.\<close> or \<open>..\<close>
  components. Unless loopback HTTP was asked for it is HTTPS; with it, plain HTTP goes only to a
  loopback host. This holds whatever \<open>url.Parse\<close> returns.
\<close>

theorem policy_keeps_origin:
  assumes "newRuntimeTransportPolicy nu origin loopback = Inr policy" and "validateURL nu policy raw label = Inr u"
  shows "url_Parse nu raw = Some u \<and> canonical_url u \<and>
    (\<exists>o_url. url_Parse nu (origin_text nu origin) = Some o_url \<and> Scheme u = Scheme o_url \<and> equal_fold (Host u) (Host o_url)) \<and>
    (Scheme u = ''https'' \<or> Scheme u = ''http'' \<and> loopback \<and> isLoopbackRuntimeHost (url_Hostname u))"
  using validated_facts(1,2)[OF assms(2)] validated_origin[OF assms] by metis

text \<open>A parser that knows one origin.\<close>

definition sample_origin :: string where "sample_origin = ''https://licensing.loadstrike.com''"

definition sample_net :: net_url where
  "sample_net = \<lparr>url_Parse = (\<lambda>s. if prefix sample_origin s
       then Some \<lparr>Scheme = ''https'', Opaque = [], User = None, Host = ''licensing.loadstrike.com'',
              Path = drop 32 s, RawPath = [], ForceQuery = False, RawQuery = [], Fragment = [], RawFragment = []\<rparr>
       else None),
     url_String = (\<lambda>u. sample_origin @ Path u)\<rparr>"

definition sample_url :: "string \<Rightarrow> go_url" where
  "sample_url path = \<lparr>Scheme = ''https'', Opaque = [], User = None, Host = ''licensing.loadstrike.com'',
     Path = path, RawPath = [], ForceQuery = False, RawQuery = [], Fragment = [], RawFragment = []\<rparr>"

definition sample_policy :: runtimeTransportPolicy where
  "sample_policy = \<lparr>pol_scheme = ''https'', pol_host = ''licensing.loadstrike.com'', allowLoopbackHTTP = False\<rparr>"

lemma sample_parse: "url_Parse sample_net (sample_origin @ p) = Some (sample_url p)"
  by (simp add: sample_net_def sample_url_def) (simp add: sample_origin_def)

lemma sample_host_lower: "to_lower ''licensing.loadstrike.com'' = ''licensing.loadstrike.com''"
  by (simp add: to_lower_def lower_char_def)

lemma sample_canonical:
  assumes "list_all graphic p" and "p \<noteq> []" and "prefix ''/'' p" and "CHR 0x5C \<notin> set p" and "\<not> sublist ''//'' p"
    and "path_clean p = p"
  shows "parseCanonicalRuntimeURL sample_net (sample_origin @ p) = Inr (sample_url p)"
proof -
  have "list_all graphic (sample_origin @ p)" using assms(1) by (simp add: sample_origin_def graphic_def)
  moreover have "sample_origin \<noteq> []" by (simp add: sample_origin_def)
  ultimately show ?thesis
    using assms by (simp add: parseCanonicalRuntimeURL_def sample_parse) (simp add: sample_url_def)
qed

lemma sample_policy_made: "newRuntimeTransportPolicy sample_net sample_origin False = Inr sample_policy"
proof -
  have "origin_text sample_net sample_origin = sample_origin @ ''/''"
    using sample_parse[of "[]"] by (simp add: origin_text_def sample_url_def)
  moreover have "parseCanonicalRuntimeURL sample_net (sample_origin @ ''/'') = Inr (sample_url ''/'')"
    by (rule sample_canonical) (simp_all add: graphic_def path_clean_def sublist_Cons_right)
  ultimately show ?thesis
    by (simp add: newRuntimeTransportPolicy_def) (simp add: sample_url_def sample_policy_def sample_host_lower)
qed

definition sample_artifact_path :: string where
  "sample_artifact_path = ''/runtime/v0.2.3/go/linux-amd64/loadstrike-runtime''"

lemma sample_artifact_allowed:
  "validateURL sample_net sample_policy (sample_origin @ sample_artifact_path) label = Inr (sample_url sample_artifact_path)"
proof -
  have "path_clean sample_artifact_path = sample_artifact_path"
    by (simp add: path_clean_def sample_artifact_path_def)
  then have "parseCanonicalRuntimeURL sample_net (sample_origin @ sample_artifact_path) = Inr (sample_url sample_artifact_path)"
    by (intro sample_canonical) (simp_all add: sample_artifact_path_def graphic_def sublist_Cons_right)
  then show ?thesis
    by (simp add: validateURL_def) (simp add: sample_url_def sample_policy_def sample_host_lower)
qed

lemma policy_keeps_origin_witness:
  "validateURL sample_net sample_policy (sample_origin @ sample_artifact_path) [] = Inr (sample_url sample_artifact_path) \<and>
     canonical_url (sample_url sample_artifact_path) \<and> Scheme (sample_url sample_artifact_path) = ''https''"
  using policy_keeps_origin[OF sample_policy_made sample_artifact_allowed[of "[]"]] sample_artifact_allowed[of "[]"]
  by (simp add: sample_url_def)

end
