(* ===== verification/Redaction.thy ===== *)
theory Redaction
  imports Go_Prelude
begin

text \<open>
  The runtime launcher forwards the child process's output and keeps the runner key out of it
  (\<open>runtime_launcher.go\<close>). The output is read in chunks, so a key may be cut by a chunk
  boundary; \<open>copyRuntimeCommandOutput\<close> therefore holds back the last \<open>len(key) - 1\<close> bytes of
  what it has read. The specification is \<open>redact\<close>, the one-pass replacement of every
  occurrence in the whole stream.
\<close>

section \<open>The loops of the launcher\<close>

text \<open>\<open>bytes.Index\<close>.\<close>

fun bytes_index :: "string \<Rightarrow> string \<Rightarrow> nat option" where
  "bytes_index sec [] = (if sec = [] then Some 0 else None)"
| "bytes_index sec (x # xs) =
     (if prefix sec (x # xs) then Some 0 else map_option Suc (bytes_index sec xs))"

text \<open>
  An \<open>io.Writer\<close>: what it will answer to the next calls of \<open>Write\<close>, each the number of bytes
  it takes and its error, if any. After these it takes everything.
\<close>

type_synonym writer = "(nat \<times> go_error option) list"

fun writeRuntimeCommandBytes :: "writer \<Rightarrow> string \<Rightarrow> string \<times> go_error option \<times> writer" where
  "writeRuntimeCommandBytes w [] = ([], None, w)"
| "writeRuntimeCommandBytes [] (c # cs) = (c # cs, None, [])"
| "writeRuntimeCommandBytes ((n, err) # w) (c # cs) =
     (let written = take n (c # cs) in
      case err of
        Some e \<Rightarrow> (written, Some e, w)
      | None \<Rightarrow>
          if n = 0 then ([], Some ''short write'', w)
          else (let (out, e, w') = writeRuntimeCommandBytes w (drop n (c # cs))
                in (written @ out, e, w')))"

text \<open>
  The loop of \<open>writeRuntimeCommandRedactedPrefix\<close>. It is given the bytes written, the error and
  the number of bytes consumed; \<open>None\<close> would be a loop that never ends, which an empty secret
  causes.
\<close>

partial_function (option) redact_loop ::
  "string \<Rightarrow> string \<Rightarrow> string \<Rightarrow> nat \<Rightarrow> nat \<Rightarrow> writer
     \<Rightarrow> (string \<times> go_error option \<times> nat \<times> writer) option" where
  "redact_loop sec rep pending flushBefore consumed w =
     (if consumed < flushBefore then
        (let rel = bytes_index sec (drop consumed pending) in
         if rel = None \<or> flushBefore \<le> consumed + the rel then
           (case writeRuntimeCommandBytes w (take (flushBefore - consumed) (drop consumed pending)) of
              (out, Some e, w') \<Rightarrow> Some (out, Some e, consumed, w')
            | (out, None, w') \<Rightarrow> Some (out, None, flushBefore, w'))
         else
           (case writeRuntimeCommandBytes w (take (the rel) (drop consumed pending)) of
              (out, Some e, w') \<Rightarrow> Some (out, Some e, consumed, w')
            | (out, None, w') \<Rightarrow>
                (case writeRuntimeCommandBytes w' rep of
                   (out2, Some e, w'') \<Rightarrow> Some (out @ out2, Some e, consumed, w'')
                 | (out2, None, w'') \<Rightarrow>
                     Option.bind
                       (redact_loop sec rep pending flushBefore (consumed + the rel + length sec) w'')
                       (\<lambda>(o3, e3, c3, w3). Some (out @ out2 @ o3, e3, c3, w3)))))
      else Some ([], None, consumed, w))"

text \<open>The remaining bytes; on a write error all of \<open>pending\<close>, as the code returns it.\<close>

definition writeRuntimeCommandRedactedPrefix ::
  "string \<Rightarrow> string \<Rightarrow> string \<Rightarrow> nat \<Rightarrow> writer \<Rightarrow> (string \<times> go_error option \<times> string \<times> writer) option" where
  "writeRuntimeCommandRedactedPrefix sec rep pending flushBefore w =
     (case redact_loop sec rep pending flushBefore 0 w of
        None \<Rightarrow> None
      | Some (out, Some e, c, w') \<Rightarrow> Some (out, Some e, pending, w')
      | Some (out, None, c, w') \<Rightarrow> Some (out, None, drop c pending, w'))"

text \<open>
  An \<open>io.Reader\<close>: what its calls of \<open>Read\<close> return. \<open>None\<close> is a read without error; a reader
  whose list has run out is at the end of file.
\<close>

datatype read_err = EOF | ReadFailed go_error

type_synonym reader = "(string \<times> read_err option) list"

definition runtimeCommandRedaction :: string where
  "runtimeCommandRedaction = ''[REDACTED]''"

text \<open>One iteration: append what was read, flush all but the last \<open>len(secret) - 1\<close> bytes.\<close>

definition absorb_chunk ::
  "string \<Rightarrow> string \<Rightarrow> string \<Rightarrow> writer \<Rightarrow> (string \<times> go_error option \<times> string \<times> writer) option" where
  "absorb_chunk secret pending chunk w =
     (if chunk = [] then Some ([], None, pending, w)
      else if length secret - 1 < length (pending @ chunk) then
        writeRuntimeCommandRedactedPrefix secret runtimeCommandRedaction (pending @ chunk)
          (length (pending @ chunk) - (length secret - 1)) w
      else Some ([], None, pending @ chunk, w))"

fun copy_redacted :: "string \<Rightarrow> string \<Rightarrow> reader \<Rightarrow> writer \<Rightarrow> (string \<times> go_error option) option" where
  "copy_redacted secret pending [] w =
     Option.bind (writeRuntimeCommandRedactedPrefix secret runtimeCommandRedaction pending
                    (length pending) w)
       (\<lambda>(out, e, _, _). Some (out, e))"
| "copy_redacted secret pending ((chunk, readErr) # reads) w =
     Option.bind (absorb_chunk secret pending chunk w)
       (\<lambda>(out, e, pending', w').
          case e of
            Some err \<Rightarrow> Some (out, Some err)
          | None \<Rightarrow>
              (case readErr of
                 Some (ReadFailed err) \<Rightarrow> Some (out, Some err)
               | Some EOF \<Rightarrow>
                   Option.bind (writeRuntimeCommandRedactedPrefix secret runtimeCommandRedaction
                                  pending' (length pending') w')
                     (\<lambda>(out2, e2, _, _). Some (out @ out2, e2))
               | None \<Rightarrow>
                   Option.bind (copy_redacted secret pending' reads w')
                     (\<lambda>(out2, e2). Some (out @ out2, e2))))"

text \<open>\<open>io.CopyBuffer\<close>: one \<open>Write\<close> for each chunk, which must take all of it.\<close>

fun write_once :: "writer \<Rightarrow> string \<Rightarrow> string \<times> go_error option \<times> writer" where
  "write_once [] c = (c, None, [])"
| "write_once ((n, err) # w) c =
     (take n c, (case err of Some e \<Rightarrow> Some e
                 | None \<Rightarrow> if n < length c then Some ''short write'' else None), w)"

fun copy_plain :: "reader \<Rightarrow> writer \<Rightarrow> string \<times> go_error option" where
  "copy_plain [] w = ([], None)"
| "copy_plain ((chunk, readErr) # reads) w =
     (let (out, e, w') = (if chunk = [] then ([], None, w) else write_once w chunk) in
      case e of
        Some err \<Rightarrow> (out, Some err)
      | None \<Rightarrow>
          (case readErr of
             Some (ReadFailed err) \<Rightarrow> (out, Some err)
           | Some EOF \<Rightarrow> (out, None)
           | None \<Rightarrow> (let (out2, e2) = copy_plain reads w' in (out @ out2, e2))))"

definition copyRuntimeCommandOutput ::
  "reader \<Rightarrow> writer \<Rightarrow> string \<Rightarrow> (string \<times> go_error option) option" where
  "copyRuntimeCommandOutput source destination runnerKey =
     (if runnerKey = [] then Some (copy_plain source destination)
      else copy_redacted runnerKey [] source destination)"

section \<open>Specification: one-pass replacement\<close>

function redact :: "string \<Rightarrow> string \<Rightarrow> string \<Rightarrow> string" where
  "redact sec rep [] = []"
| "redact sec rep (x # xs) =
     (if sec \<noteq> [] \<and> prefix sec (x # xs) then rep @ redact sec rep (drop (length sec) (x # xs))
      else x # redact sec rep xs)"
  by pat_completeness auto
termination
  by (relation "measure (\<lambda>(sec, rep, s). length s)") (auto simp: Suc_le_eq)

text \<open>The bytes a reader delivers before it stops.\<close>

fun reader_bytes :: "reader \<Rightarrow> string" where
  "reader_bytes [] = []"
| "reader_bytes ((chunk, None) # reads) = chunk @ reader_bytes reads"
| "reader_bytes ((chunk, Some e) # reads) = chunk"

fun reader_fails :: "reader \<Rightarrow> bool" where
  "reader_fails [] = False"
| "reader_fails ((chunk, None) # reads) = reader_fails reads"
| "reader_fails ((chunk, Some EOF) # reads) = False"
| "reader_fails ((chunk, Some (ReadFailed e)) # reads) = True"

section \<open>Lemmas\<close>

lemma bytes_index_Some:
  "bytes_index sec s = Some m \<Longrightarrow> m \<le> length s \<and> prefix sec (drop m s)"
proof (induction s arbitrary: m)
  case (Cons x xs)
  then show ?case by (cases m) (auto split: if_splits)
qed (auto split: if_splits)

lemma bytes_index_least:
  "bytes_index sec s = r \<Longrightarrow> i < length s \<Longrightarrow> (\<forall>m. r = Some m \<longrightarrow> i < m) \<Longrightarrow> \<not> prefix sec (drop i s)"
proof (induction s arbitrary: i r)
  case (Cons x xs)
  show ?case
  proof (cases "prefix sec (x # xs)")
    case True
    with Cons.prems show ?thesis by auto
  next
    case False
    show ?thesis
    proof (cases i)
      case 0
      with False show ?thesis by simp
    next
      case (Suc j)
      have "\<forall>m. bytes_index sec xs = Some m \<longrightarrow> j < m"
        using Cons.prems(1,3) False Suc by auto
      with Cons.IH[of "bytes_index sec xs" j] Cons.prems(2) Suc show ?thesis by simp
    qed
  qed
qed simp

lemma prefix_take_enough: "length sec \<le> length p \<Longrightarrow> prefix sec (p @ r) = prefix sec p"
  by (metis append_eq_append_conv_if prefix_def prefix_length_prefix prefix_prefix)

text \<open>
  Bytes at whose positions no occurrence starts pass through the replacement. Whether one
  starts there is decided by the pending bytes alone when at least \<open>len(sec) - 1\<close> bytes follow.
\<close>

lemma redact_skip:
  assumes "k \<le> length p"
    and "\<forall>i < k. \<not> prefix sec (drop i p)"
    and "k + (length sec - 1) \<le> length p \<or> r = []"
  shows "redact sec rep (p @ r) = take k p @ redact sec rep (drop k p @ r)"
  using assms
proof (induction k arbitrary: p)
  case (Suc k)
  then obtain x q where p: "p = x # q" by (cases p) auto
  have np: "\<not> prefix sec p" using Suc.prems(2) by (auto dest: spec[of _ 0])
  have "sec \<noteq> []" using np by auto
  have "\<not> prefix sec (p @ r)"
  proof (cases "r = []")
    case False
    with Suc.prems(3) have "length sec \<le> length p" by auto
    with np show ?thesis by (simp add: prefix_take_enough)
  qed (use np in simp)
  then have "redact sec rep (p @ r) = x # redact sec rep (q @ r)" by (simp add: p)
  also have "redact sec rep (q @ r) = take k q @ redact sec rep (drop k q @ r)"
  proof (rule Suc.IH)
    show "k \<le> length q" using Suc.prems(1) p by simp
    show "\<forall>i<k. \<not> prefix sec (drop i q)" using Suc.prems(2) p by fastforce
    show "k + (length sec - 1) \<le> length q \<or> r = []" using Suc.prems(3) p by simp
  qed
  finally show ?case by (simp add: p)
qed simp

lemma redact_hit: "sec \<noteq> [] \<Longrightarrow> prefix sec s \<Longrightarrow> redact sec rep s = rep @ redact sec rep (drop (length sec) s)"
  by (cases s) auto

lemma write_bytes_prefix:
  "writeRuntimeCommandBytes w c = (out, e, w') \<Longrightarrow> prefix out c \<and> (e = None \<longrightarrow> out = c)"
proof (induction w c arbitrary: out e w' rule: writeRuntimeCommandBytes.induct)
  case (3 n err w c cs)
  show ?case
  proof (cases err)
    case (Some e')
    with 3 show ?thesis by (auto simp: take_is_prefix)
  next
    case None
    show ?thesis
    proof (cases "n = 0")
      case True
      with 3 None show ?thesis by auto
    next
      case False
      obtain o2 e2 w2 where r: "writeRuntimeCommandBytes w (drop n (c # cs)) = (o2, e2, w2)"
        by (metis prod_cases3)
      from 3 False None r have "out = take n (c # cs) @ o2" "e = e2" by auto
      moreover have "prefix o2 (drop n (c # cs)) \<and> (e2 = None \<longrightarrow> o2 = drop n (c # cs))"
        using "3.IH"[OF refl None False r] .
      ultimately show ?thesis
        by (metis append_take_drop_id same_prefix_prefix)
    qed
  qed
qed auto

lemma write_bytes_free: "writeRuntimeCommandBytes [] c = (c, None, [])"
  by (cases c) auto

text \<open>
  The loop, whatever the writer answers: it ends, what it wrote is a beginning of the redacted
  stream, and without an error the redacted stream is what it wrote and the redaction of what
  it left.
\<close>

lemma redact_loop_spec:
  assumes "sec \<noteq> []" and "consumed \<le> length pend"
    and "flush + (length sec - 1) \<le> length pend \<or> (flush = length pend \<and> r = [])"
  shows "\<exists>out e c w'. redact_loop sec rep pend flush consumed w = Some (out, e, c, w') \<and>
           (e = None \<longrightarrow> flush \<le> c \<and> c \<le> length pend \<and>
              redact sec rep (drop consumed pend @ r) = out @ redact sec rep (drop c pend @ r)) \<and>
           (e \<noteq> None \<longrightarrow> prefix out (redact sec rep (drop consumed pend @ r))) \<and>
           (w = [] \<longrightarrow> e = None \<and> w' = [])"
  using assms
proof (induction "length pend - consumed" arbitrary: consumed w rule: less_induct)
  case less
  let ?p = "drop consumed pend"
  let ?R = "\<lambda>s. redact sec rep (s @ r)"
  have enough: "flush \<le> length pend" using less.prems(3) by auto
  show ?case
  proof (cases "consumed < flush")
    case False
    then show ?thesis using less.prems(2) by (subst redact_loop.simps) simp
  next
    case lt: True
    let ?rel = "bytes_index sec ?p"
    show ?thesis
    proof (cases "?rel = None \<or> flush \<le> consumed + the ?rel")
      case True
      let ?k = "flush - consumed"
      have nohit: "\<forall>i < ?k. \<not> prefix sec (drop i ?p)"
      proof (intro allI impI)
        fix i assume "i < ?k"
        then show "\<not> prefix sec (drop i ?p)"
          using bytes_index_least[of sec ?p ?rel i] True enough by fastforce
      qed
      have skip: "?R ?p = take ?k ?p @ ?R (drop ?k ?p)"
        using less.prems(3) lt enough nohit by (intro redact_skip) auto
      have dk: "drop ?k ?p = drop flush pend" using lt by simp
      obtain out e w' where wr: "writeRuntimeCommandBytes w (take ?k ?p) = (out, e, w')"
        by (metis prod_cases3)
      then have wp: "prefix out (take ?k ?p) \<and> (e = None \<longrightarrow> out = take ?k ?p)"
        by (rule write_bytes_prefix)
      show ?thesis
      proof (cases e)
        case None
        then have "redact_loop sec rep pend flush consumed w = Some (out, None, flush, w')"
          using lt True wr by (subst redact_loop.simps) (simp add: Let_def)
        with wr None wp skip dk enough show ?thesis by (auto simp: write_bytes_free)
      next
        case (Some err)
        then have "redact_loop sec rep pend flush consumed w = Some (out, Some err, consumed, w')"
          using lt True wr by (subst redact_loop.simps) (simp add: Let_def)
        with Some wr wp skip show ?thesis by (auto simp: write_bytes_free intro: prefix_order.trans)
      qed
    next
      case False
      then obtain m where m: "?rel = Some m" "consumed + m < flush" by auto
      have hit: "prefix sec (drop m ?p)" "m \<le> length ?p"
        using bytes_index_Some[OF m(1)] by auto
      have nohit: "\<forall>i < m. \<not> prefix sec (drop i ?p)"
        using bytes_index_least[OF m(1)] hit(2) by auto
      have len: "m + length sec \<le> length ?p"
        using hit prefix_length_le by fastforce
      let ?c = "consumed + m + length sec"
      have skip: "?R ?p = take m ?p @ ?R (drop m ?p)"
        using hit(2) nohit len by (intro redact_skip) auto
      have "?R (drop m ?p) = rep @ ?R (drop ?c pend)"
      proof -
        have "prefix sec (drop m ?p @ r)" using hit(1) by (simp add: prefix_prefix)
        then have "?R (drop m ?p) = rep @ redact sec rep (drop (length sec) (drop m ?p @ r))"
          by (rule redact_hit[OF less.prems(1)])
        also have "drop (length sec) (drop m ?p @ r) = drop ?c pend @ r"
          using len by (simp add: add.commute add.left_commute)
        finally show ?thesis .
      qed
      with skip have whole: "?R ?p = take m ?p @ rep @ ?R (drop ?c pend)" by simp
      obtain o1 e1 w1 where wr1: "writeRuntimeCommandBytes w (take m ?p) = (o1, e1, w1)"
        by (metis prod_cases3)
      obtain o2 e2 w2 where wr2: "writeRuntimeCommandBytes w1 rep = (o2, e2, w2)"
        by (metis prod_cases3)
      have p1: "prefix o1 (take m ?p) \<and> (e1 = None \<longrightarrow> o1 = take m ?p)"
        using write_bytes_prefix[OF wr1] .
      have p2: "prefix o2 rep \<and> (e2 = None \<longrightarrow> o2 = rep)"
        using write_bytes_prefix[OF wr2] .
      show ?thesis
      proof (cases e1)
        case (Some err)
        then have "redact_loop sec rep pend flush consumed w = Some (o1, Some err, consumed, w1)"
          using lt False wr1 m by (subst redact_loop.simps) (simp add: Let_def)
        with Some wr1 p1 whole show ?thesis by (auto simp: write_bytes_free intro: prefix_order.trans)
      next
        case n1: None
        show ?thesis
        proof (cases e2)
          case (Some err)
          then have "redact_loop sec rep pend flush consumed w = Some (o1 @ o2, Some err, consumed, w2)"
            using lt False wr1 wr2 n1 m by (subst redact_loop.simps) (simp add: Let_def)
          with Some wr1 wr2 p1 p2 n1 whole show ?thesis by (auto simp: write_bytes_free intro: prefix_order.trans)
        next
          case n2: None
          have small: "length pend - ?c < length pend - consumed" and cle: "?c \<le> length pend"
            using len less.prems(1) lt enough by (auto simp: length_greater_0_conv[symmetric] simp del: length_greater_0_conv)
          obtain o3 e3 c3 w3 where
            rec: "redact_loop sec rep pend flush ?c w2 = Some (o3, e3, c3, w3)"
            and ok: "e3 = None \<longrightarrow> flush \<le> c3 \<and> c3 \<le> length pend \<and>
                       ?R (drop ?c pend) = o3 @ ?R (drop c3 pend)"
            and bad: "e3 \<noteq> None \<longrightarrow> prefix o3 (?R (drop ?c pend))"
            and free: "w2 = [] \<longrightarrow> e3 = None \<and> w3 = []"
            using less.hyps[OF small less.prems(1) cle less.prems(3), of w2] by blast
          have "redact_loop sec rep pend flush consumed w = Some (o1 @ o2 @ o3, e3, c3, w3)"
            using lt False wr1 wr2 n1 n2 m rec by (subst redact_loop.simps) (simp add: Let_def)
          moreover have "w = [] \<longrightarrow> w2 = []" using wr1 wr2 by (auto simp: write_bytes_free)
          ultimately show ?thesis using p1 p2 n1 n2 whole ok bad free by auto
        qed
      qed
    qed
  qed
qed


lemma redacted_prefix_spec:
  assumes "sec \<noteq> []" and "flush + (length sec - 1) \<le> length pend \<or> (flush = length pend \<and> r = [])"
  shows "\<exists>out e rest w'. writeRuntimeCommandRedactedPrefix sec rep pend flush w = Some (out, e, rest, w') \<and>
           prefix out (redact sec rep (pend @ r)) \<and>
           (e = None \<longrightarrow> redact sec rep (pend @ r) = out @ redact sec rep (rest @ r)) \<and>
           (e = None \<longrightarrow> flush = length pend \<longrightarrow> rest = []) \<and>
           (w = [] \<longrightarrow> e = None \<and> w' = [])"
proof -
  obtain out e c w' where l: "redact_loop sec rep pend flush 0 w = Some (out, e, c, w')"
    "e = None \<longrightarrow> flush \<le> c \<and> c \<le> length pend \<and>
       redact sec rep (pend @ r) = out @ redact sec rep (drop c pend @ r)"
    "e \<noteq> None \<longrightarrow> prefix out (redact sec rep (pend @ r))"
    "w = [] \<longrightarrow> e = None \<and> w' = []"
    using redact_loop_spec[OF assms(1) _ assms(2), of 0 rep w] by auto
  then show ?thesis
    by (cases e) (auto simp: writeRuntimeCommandRedactedPrefix_def)
qed

lemma absorb_chunk_spec:
  assumes "sec \<noteq> []"
  shows "\<exists>out e rest w'. absorb_chunk sec pend chunk w = Some (out, e, rest, w') \<and>
           (\<forall>r. prefix out (redact sec runtimeCommandRedaction (pend @ chunk @ r)) \<and>
             (e = None \<longrightarrow> redact sec runtimeCommandRedaction (pend @ chunk @ r) =
                out @ redact sec runtimeCommandRedaction (rest @ r))) \<and>
           (w = [] \<longrightarrow> e = None \<and> w' = [])"
proof -
  let ?p = "pend @ chunk" and ?k = "length sec - 1"
  show ?thesis
  proof (cases "chunk \<noteq> [] \<and> ?k < length ?p")
    case True
    let ?f = "length ?p - ?k"
    have en: "?f + ?k \<le> length ?p" using True by simp
    obtain out e rest w' where
      w: "writeRuntimeCommandRedactedPrefix sec runtimeCommandRedaction ?p ?f w = Some (out, e, rest, w')"
      using redacted_prefix_spec[OF assms, of ?f ?p "[]"] en by blast
    have "prefix out (redact sec runtimeCommandRedaction (?p @ r)) \<and>
        (e = None \<longrightarrow> redact sec runtimeCommandRedaction (?p @ r) =
           out @ redact sec runtimeCommandRedaction (rest @ r)) \<and>
        (w = [] \<longrightarrow> e = None \<and> w' = [])" for r
      using redacted_prefix_spec[OF assms, of ?f ?p r runtimeCommandRedaction w] en w by auto
    with w True show ?thesis by (simp add: absorb_chunk_def)
  qed (auto simp: absorb_chunk_def)
qed

lemma copy_redacted_spec:
  assumes "sec \<noteq> []"
  shows "\<exists>out e. copy_redacted sec pend reads w = Some (out, e) \<and>
           prefix out (redact sec runtimeCommandRedaction (pend @ reader_bytes reads)) \<and>
           (e = None \<longrightarrow> out = redact sec runtimeCommandRedaction (pend @ reader_bytes reads)) \<and>
           (w = [] \<longrightarrow> (e = None \<longleftrightarrow> \<not> reader_fails reads))"
proof (induction reads arbitrary: pend w)
  case Nil
  show ?case
    using redacted_prefix_spec[OF assms, of "length pend" pend "[]" runtimeCommandRedaction w]
    by (auto simp: redact.simps)
next
  case (Cons rd reads)
  obtain chunk re where rd: "rd = (chunk, re)" by (cases rd)
  let ?R = "redact sec runtimeCommandRedaction"
  let ?rest = "case re of None \<Rightarrow> reader_bytes reads | Some _ \<Rightarrow> []"
  have bytes: "reader_bytes (rd # reads) = chunk @ ?rest"
    by (cases re) (auto simp: rd)
  obtain out e pend' w' where a: "absorb_chunk sec pend chunk w = Some (out, e, pend', w')"
    and all: "\<forall>r. prefix out (?R (pend @ chunk @ r)) \<and>
       (e = None \<longrightarrow> ?R (pend @ chunk @ r) = out @ ?R (pend' @ r))"
    and free: "w = [] \<longrightarrow> e = None \<and> w' = []"
    using absorb_chunk_spec[OF assms, of pend chunk w] by (elim exE conjE)
  from all have pre: "prefix out (?R (pend @ chunk @ r))"
    and eq: "e = None \<Longrightarrow> ?R (pend @ chunk @ r) = out @ ?R (pend' @ r)" for r
    by auto
  show ?case
  proof (cases e)
    case (Some err)
    with a pre free bytes rd show ?thesis by auto
  next
    case None
    note eq = eq[OF None]
    show ?thesis
    proof (cases re)
      case None
      with Cons.IH[of pend' w'] a \<open>e = None\<close> eq[of "reader_bytes reads"] free show ?thesis
        by (auto simp: rd)
    next
      case (Some x)
      show ?thesis
      proof (cases x)
        case EOF
        with Some redacted_prefix_spec[OF assms, of "length pend'" pend' "[]" runtimeCommandRedaction w']
          a \<open>e = None\<close> eq[of "[]"] free show ?thesis
          by (auto simp: rd redact.simps)
      next
        case (ReadFailed f)
        with Some a \<open>e = None\<close> eq[of "[]"] pre[of "[]"] free show ?thesis
          by (auto simp: rd)
      qed
    qed
  qed
qed

section \<open>The key is not in the redacted stream\<close>

lemma redact_prefix_source:
  "prefix t (redact sec rep s) \<Longrightarrow> rep \<noteq> [] \<Longrightarrow> hd rep \<notin> set t \<Longrightarrow> prefix t s"
proof (induction sec rep s arbitrary: t rule: redact.induct)
  case (2 sec rep x xs)
  show ?case
  proof (cases "sec \<noteq> [] \<and> prefix sec (x # xs)")
    case True
    with "2.prems" show ?thesis by (cases t; cases rep) auto
  next
    case False
    with 2 show ?thesis by (cases t) auto
  qed
qed simp

definition key_opaque :: "string \<Rightarrow> string \<Rightarrow> bool" where
  "key_opaque sec rep \<longleftrightarrow> sec \<noteq> [] \<and> rep \<noteq> [] \<and> hd sec \<notin> set rep \<and> hd rep \<notin> set sec"

lemma redact_hides:
  assumes "key_opaque sec rep"
  shows "\<not> prefix sec (drop i (redact sec rep s))"
  using assms
proof (induction sec rep s arbitrary: i rule: redact.induct)
  case (1 sec rep)
  then show ?case by (auto simp: key_opaque_def)
next
  case (2 sec rep x xs)
  note ne = "2.prems"[unfolded key_opaque_def]
  show ?case
  proof (cases "sec \<noteq> [] \<and> prefix sec (x # xs)")
    case hit: True
    show ?thesis
    proof (cases "i < length rep")
      case True
      then have "hd (drop i (redact sec rep (x # xs))) = rep ! i"
        and "drop i (redact sec rep (x # xs)) \<noteq> []"
        using hit by (auto simp: hd_drop_conv_nth nth_append)
      moreover have "rep ! i \<in> set rep" using True by simp
      ultimately show ?thesis using ne
        by (metis append_Nil2 hd_append2 prefix_def)
    next
      case False
      then have "drop i (redact sec rep (x # xs)) =
          drop (i - length rep) (redact sec rep (drop (length sec) (x # xs)))"
        using hit by simp
      with "2.IH"(1)[OF hit "2.prems"] show ?thesis by simp
    qed
  next
    case miss: False
    show ?thesis
    proof (cases i)
      case 0
      have "\<not> prefix sec (redact sec rep (x # xs))"
        using redact_prefix_source[of sec sec rep "x # xs"] ne miss by blast
      with 0 show ?thesis by simp
    next
      case (Suc j)
      moreover have "redact sec rep (x # xs) = x # redact sec rep xs" using miss by auto
      ultimately show ?thesis using "2.IH"(2)[OF miss "2.prems", of j] by simp
    qed
  qed
qed

lemma sublist_starts: "sublist sec s \<Longrightarrow> \<exists>i. prefix sec (drop i s)"
  unfolding sublist_def by (metis append_eq_conv_conj prefixI)

lemma redact_no_sublist: "key_opaque sec rep \<Longrightarrow> \<not> sublist sec (redact sec rep s)"
  using redact_hides sublist_starts by blast

section \<open>The diagnostic tail of a spool file\<close>

definition runtimeCommandDiagnosticBytes :: nat where
  "runtimeCommandDiagnosticBytes = 32 * 1024"

function chunks_of :: "nat \<Rightarrow> string \<Rightarrow> reader" where
  "chunks_of n s = (if n = 0 \<or> s = [] then [] else (take n s, None) # chunks_of n (drop n s))"
  by pat_completeness auto
termination
  by (relation "measure (\<lambda>(n, s). length s)") auto

declare chunks_of.simps [simp del]

text \<open>
  \<open>None\<close> is a spool file that cannot be opened, inspected or read. The window is the last
  32 KiB and \<open>len(runnerKey) - 1\<close> bytes more, the result the last 32 KiB of its redaction. The
  window is read in pieces of the copy buffer's size.
\<close>

definition spool_window :: "string \<Rightarrow> string \<Rightarrow> string" where
  "spool_window content runnerKey =
     (let overlap = (if runnerKey \<noteq> [] then length runnerKey - 1 else 0);
          start = length content - runtimeCommandDiagnosticBytes - overlap
      in take (runtimeCommandDiagnosticBytes + overlap) (drop start content))"

definition readRuntimeCommandSpoolTail :: "string option \<Rightarrow> string \<Rightarrow> string" where
  "readRuntimeCommandSpoolTail spool runnerKey =
     (case spool of
        None \<Rightarrow> []
      | Some content \<Rightarrow>
          (case copyRuntimeCommandOutput (chunks_of (32 * 1024) (spool_window content runnerKey)) [] runnerKey of
             Some (redacted, None) \<Rightarrow> drop (length redacted - runtimeCommandDiagnosticBytes) redacted
           | _ \<Rightarrow> []))"

lemma chunks_of_bytes: "0 < n \<Longrightarrow> reader_bytes (chunks_of n s) = s \<and> \<not> reader_fails (chunks_of n s)"
proof (induction n s rule: chunks_of.induct)
  case (1 n s)
  then show ?case by (cases "s = []") (auto simp: chunks_of.simps[of n])
qed

lemma spool_tail_redacted:
  assumes "runnerKey \<noteq> []"
  shows "readRuntimeCommandSpoolTail (Some content) runnerKey =
     (let r = redact runnerKey runtimeCommandRedaction (spool_window content runnerKey)
      in drop (length r - runtimeCommandDiagnosticBytes) r)"
proof -
  let ?rd = "chunks_of (32 * 1024) (spool_window content runnerKey)"
  have "reader_bytes ?rd = spool_window content runnerKey \<and> \<not> reader_fails ?rd"
    by (rule chunks_of_bytes) simp
  with copy_redacted_spec[OF assms, of "[]" ?rd "[]"] assms show ?thesis
    by (auto simp: readRuntimeCommandSpoolTail_def copyRuntimeCommandOutput_def Let_def)
qed

section \<open>Properties\<close>

text \<open>C27: For a non-empty runner key, \<open>copyRuntimeCommandOutput\<close> returns, however the source is
  cut into reads and however the destination answers; what it wrote is a beginning of the
  one-pass redaction of the whole stream, all of it when it reports no error, and with a
  destination that takes everything it reports an error exactly when a read failed.\<close>

theorem copy_output_is_redaction:
  assumes "runnerKey \<noteq> []"
  shows "\<exists>out e. copyRuntimeCommandOutput source destination runnerKey = Some (out, e) \<and>
           prefix out (redact runnerKey runtimeCommandRedaction (reader_bytes source)) \<and>
           (e = None \<longrightarrow> out = redact runnerKey runtimeCommandRedaction (reader_bytes source)) \<and>
           (destination = [] \<longrightarrow> (e = None \<longleftrightarrow> \<not> reader_fails source))"
  using copy_redacted_spec[OF assms, of "[]" source destination] assms
  by (simp add: copyRuntimeCommandOutput_def)

lemma copy_output_is_redaction_witness:
  "copyRuntimeCommandOutput [(''a-r'', None), (''k-b'', Some EOF)] [] ''rk'' = Some (''a-[REDACTED]-b'', None)"
proof -
  have k: "''rk'' \<noteq> []" by simp
  from copy_output_is_redaction[OF k, of "[(''a-r'', None), (''k-b'', Some EOF)]" "[]"]
  show ?thesis by (auto simp: runtimeCommandRedaction_def)
qed

lemma copied_keyless:
  assumes "key_opaque runnerKey runtimeCommandRedaction"
    and "copyRuntimeCommandOutput source destination runnerKey = Some (out, e)"
  shows "\<not> sublist runnerKey out"
proof
  assume "sublist runnerKey out"
  have "runnerKey \<noteq> []" using assms(1) by (simp add: key_opaque_def)
  from copy_redacted_spec[OF this, of "[]" source destination] assms(2) this
  have "prefix out (redact runnerKey runtimeCommandRedaction (reader_bytes source))"
    by (auto simp: copyRuntimeCommandOutput_def)
  with \<open>sublist runnerKey out\<close>
  have "sublist runnerKey (redact runnerKey runtimeCommandRedaction (reader_bytes source))"
    by (meson prefix_imp_sublist sublist_order.order_trans)
  with redact_no_sublist[OF assms(1)] show False by blast
qed

text \<open>The runner key never reaches the destination: when its first byte is not in the
  replacement text and it has no opening bracket, no occurrence of it is in what was written,
  for any chunking of the source, any short writes and any failure on the way.\<close>

theorem copy_output_hides_key:
  assumes "key_opaque runnerKey runtimeCommandRedaction"
    and "copyRuntimeCommandOutput source destination runnerKey = Some (out, e)"
  shows "\<not> sublist runnerKey out"
  using assms by (rule copied_keyless)

lemma copy_output_hides_key_witness:
  "\<exists>out e. copyRuntimeCommandOutput [(''log rkl_'', None), (''7 end'', Some EOF)] [(3, None)] ''rkl_7''
      = Some (out, e) \<and> \<not> sublist ''rkl_7'' out"
proof -
  have k: "key_opaque ''rkl_7'' runtimeCommandRedaction"
    by (simp add: key_opaque_def runtimeCommandRedaction_def)
  then have "''rkl_7'' \<noteq> []" by simp
  from copy_redacted_spec[OF this, of "[]" "[(''log rkl_'', None), (''7 end'', Some EOF)]" "[(3, None)]"]
  obtain out e where
    o: "copyRuntimeCommandOutput [(''log rkl_'', None), (''7 end'', Some EOF)] [(3, None)] ''rkl_7'' = Some (out, e)"
    by (auto simp: copyRuntimeCommandOutput_def)
  with copy_output_hides_key[OF k o] show ?thesis by blast
qed

text \<open>The diagnostic tail kept from a spool file is at most 32 KiB long and holds no complete
  runner key, whatever the file holds.\<close>

theorem spool_tail_bounded_and_keyless:
  assumes "key_opaque runnerKey runtimeCommandRedaction"
  shows "length (readRuntimeCommandSpoolTail spool runnerKey) \<le> runtimeCommandDiagnosticBytes \<and>
         \<not> sublist runnerKey (readRuntimeCommandSpoolTail spool runnerKey)"
proof (cases spool)
  case None
  with assms show ?thesis by (simp add: readRuntimeCommandSpoolTail_def key_opaque_def)
next
  case (Some content)
  have ne: "runnerKey \<noteq> []" using assms by (simp add: key_opaque_def)
  have "\<not> sublist runnerKey (drop n (redact runnerKey runtimeCommandRedaction s))" for n s
    using redact_no_sublist[OF assms] by (meson sublist_drop sublist_order.order_trans)
  then show ?thesis using ne Some by (simp add: spool_tail_redacted Let_def)
qed

lemma spool_tail_bounded_and_keyless_witness:
  "length (readRuntimeCommandSpoolTail (Some ''x rkl_7 y'') ''rkl_7'') \<le> runtimeCommandDiagnosticBytes \<and>
   \<not> sublist ''rkl_7'' (readRuntimeCommandSpoolTail (Some ''x rkl_7 y'') ''rkl_7'')"
  by (rule spool_tail_bounded_and_keyless) (simp add: key_opaque_def runtimeCommandRedaction_def)

text \<open>A file whose last window starts one byte into a key of forty bytes.\<close>

definition leaking_key :: string where
  "leaking_key = ''rkl_'' @ replicate 36 CHR ''a''"

definition leaking_spool :: string where
  "leaking_spool = leaking_key @ leaking_key @ leaking_key @ replicate 32688 CHR ''-''"

lemma redact_free: "hd sec \<notin> set s \<Longrightarrow> sec \<noteq> [] \<Longrightarrow> redact sec rep (s @ r) = s @ redact sec rep r"
  by (induction s) (auto simp: prefix_def neq_Nil_conv)

lemma leaking_window: "spool_window leaking_spool leaking_key =
    tl leaking_key @ leaking_key @ leaking_key @ replicate 32688 CHR ''-''"
  by (simp add: spool_window_def leaking_spool_def leaking_key_def runtimeCommandDiagnosticBytes_def)

lemma leaking_redacted:
  "redact leaking_key rep (tl leaking_key @ leaking_key @ leaking_key @ replicate 32688 CHR ''-'') =
     tl leaking_key @ rep @ rep @ replicate 32688 CHR ''-''"
proof -
  have k: "leaking_key \<noteq> []" "hd leaking_key \<notin> set (tl leaking_key)"
    "hd leaking_key \<notin> set (replicate 32688 CHR ''-'')"
    by (auto simp: leaking_key_def)
  have hit: "redact leaking_key rep (leaking_key @ s) = rep @ redact leaking_key rep s" for s
    using redact_hit[OF k(1), of "leaking_key @ s"] by simp
  show ?thesis
    using redact_free[OF k(2,1)] redact_free[OF k(3,1), of rep "[]"] hit by simp
qed

text \<open>The tail can still hold all of a runner key but its first byte. Each replacement shortens
  the window, so when two later keys are replaced the redacted window is below 32 KiB, nothing is
  cut from its front, and the partial key with which the window began stays.\<close>

theorem spool_tail_keeps_partial_key:
  "sublist (tl leaking_key) (readRuntimeCommandSpoolTail (Some leaking_spool) leaking_key) \<and>
   length (tl leaking_key) = 39 \<and> length leaking_key = 40"
proof -
  have ne: "leaking_key \<noteq> []" by (simp add: leaking_key_def)
  have "readRuntimeCommandSpoolTail (Some leaking_spool) leaking_key =
     tl leaking_key @ runtimeCommandRedaction @ runtimeCommandRedaction @ replicate 32688 CHR ''-''"
    unfolding spool_tail_redacted[OF ne] leaking_window leaking_redacted
    by (simp add: Let_def runtimeCommandDiagnosticBytes_def runtimeCommandRedaction_def leaking_key_def)
  then show ?thesis by (simp add: leaking_key_def)
qed

end
