(* ===== verification/Diagnostics.thy ===== *)
theory Diagnostics
  imports Redaction
begin

text \<open>
  Texts of errors on their way to the user (\<open>runtime_diagnostics.go\<close>): secrets are replaced, control
  characters and runs of white space become one space, and the text is cut at 4096 bytes.
\<close>

section \<open>Operations\<close>

definition maxRuntimeDiagnosticBytes :: nat where "maxRuntimeDiagnosticBytes = 4096"

text \<open>\<open>strings.ReplaceAll\<close> is \<open>redact\<close>, the replacement from left to right.\<close>

definition replace_secrets :: "string list \<Rightarrow> string \<Rightarrow> string" where
  "replace_secrets secrets v =
     fold (\<lambda>secret v. if secret \<noteq> [] then redact secret ''[REDACTED]'' v else v) secrets v"

definition diagnostic_char :: "char \<Rightarrow> char" where
  "diagnostic_char c = (if (of_char c :: nat) \<le> 0x20 \<or> (of_char c :: nat) = 0x7F then CHR '' '' else c)"

text \<open>\<open>strings.Fields\<close>, when the only white space is the space.\<close>

definition space_fields :: "string \<Rightarrow> string list" where
  "space_fields s = filter (\<lambda>f. f \<noteq> []) (split_on (CHR '' '') s)"

definition sanitizeRuntimeDiagnostic :: "string \<Rightarrow> string list \<Rightarrow> string" where
  "sanitizeRuntimeDiagnostic v secrets =
     (let v = replace_secrets secrets v;
          v = map diagnostic_char v;
          v = join_with '' '' (space_fields v)
      in if length v \<le> maxRuntimeDiagnosticBytes then v
         else trim_space (take maxRuntimeDiagnosticBytes v))"

section \<open>Lemmas\<close>

lemma split_on_sublist: "f \<in> set (split_on c s) \<Longrightarrow> sublist f s"
proof (induction s arbitrary: f)
  case (Cons x xs)
  show ?case
  proof (cases "x = c")
    case True
    then show ?thesis using Cons by (auto intro: sublist_Cons_right[THEN iffD2])
  next
    case False
    obtain y ys where s: "split_on c xs = y # ys" by (cases "split_on c xs") auto
    have "prefix y xs"
      using s by (induction xs arbitrary: y ys) (auto split: if_splits list.splits)
    then show ?thesis using Cons s False by (auto simp: sublist_Cons_right)
  qed
qed simp

lemma sublist_around:
  assumes "sublist sec (a @ c # b)" and "c \<notin> set sec"
  shows "sublist sec a \<or> sublist sec b"
proof -
  from assms(1) consider "sublist sec a" | "sublist sec (c # b)"
    | p q where "sec = p @ q" "suffix p a" "prefix q (c # b)" by (auto simp: sublist_append)
  then show ?thesis
  proof cases
    case 2
    then show ?thesis using assms(2) by (auto simp: sublist_Cons_right prefix_Cons)
  next
    case 3
    then have "q = []" using assms(2) by (auto simp: prefix_Cons)
    with 3 show ?thesis by (auto intro: suffix_imp_sublist)
  qed simp
qed

lemma sublist_join:
  "sublist sec (join_with '' '' fs) \<Longrightarrow> CHR '' '' \<notin> set sec \<Longrightarrow> sec \<noteq> [] \<Longrightarrow>
   \<exists>f \<in> set fs. sublist sec f"
proof (induction "'' ''" fs rule: join_with.induct)
  case (3 s t ss)
  then show ?case using sublist_around[of sec s "CHR '' ''" "join_with '' '' (t # ss)"] by auto
qed auto

lemma graphic_kept: "graphic (diagnostic_char c) \<Longrightarrow> diagnostic_char c = c"
  by (auto simp: diagnostic_char_def graphic_def split: if_splits)

lemma map_graphic_kept: "list_all graphic (map diagnostic_char m) \<Longrightarrow> map diagnostic_char m = m"
  by (induction m) (auto dest: graphic_kept)

lemma sublist_map_graphic:
  assumes "sublist sec (map diagnostic_char v)" and "list_all graphic sec"
  shows "sublist sec v"
proof -
  obtain a b where "map diagnostic_char v = a @ sec @ b" using assms(1) by (auto simp: sublist_def)
  then obtain p m q where "v = p @ m @ q" "map diagnostic_char m = sec"
    by (metis map_eq_append_conv)
  moreover from this assms(2) have "m = sec" using map_graphic_kept[of m] by simp
  ultimately show ?thesis by (auto simp: sublist_def)
qed

lemma trim_space_sublist: "sublist (trim_space s) s"
proof -
  have "suffix (trim_by (map rev space_runes) (rev (trim_by space_runes s))) (rev (trim_by space_runes s))"
    by (rule trim_by_suffix)
  then have "prefix (trim_space s) (trim_by space_runes s)"
    by (simp add: trim_space_def suffix_to_prefix)
  moreover have "suffix (trim_by space_runes s) s" by (rule trim_by_suffix)
  ultimately show ?thesis
    by (meson prefix_imp_sublist suffix_imp_sublist sublist_order.order_trans)
qed

lemma graphic_no_space: "list_all graphic sec \<Longrightarrow> CHR '' '' \<notin> set sec"
  by (auto simp: list_all_iff graphic_def)

lemma diagnostic_keyless:
  assumes "key_opaque secret ''[REDACTED]''" and "list_all graphic secret"
  shows "length (sanitizeRuntimeDiagnostic v [secret]) \<le> 4096 \<and>
    \<not> sublist secret (sanitizeRuntimeDiagnostic v [secret])"
proof
  let ?w = "join_with '' '' (space_fields (map diagnostic_char (replace_secrets [secret] v)))"
  have out: "sanitizeRuntimeDiagnostic v [secret] =
      (if length ?w \<le> 4096 then ?w else trim_space (take 4096 ?w))"
    by (simp add: sanitizeRuntimeDiagnostic_def maxRuntimeDiagnosticBytes_def Let_def)
  have "length (trim_space (take 4096 ?w)) \<le> length (take 4096 ?w)"
    by (rule sublist_length_le[OF trim_space_sublist])
  then show "length (sanitizeRuntimeDiagnostic v [secret]) \<le> 4096" by (auto simp: out)
  have sec: "secret \<noteq> []" using assms(1) by (simp add: key_opaque_def)
  show "\<not> sublist secret (sanitizeRuntimeDiagnostic v [secret])"
  proof
    assume "sublist secret (sanitizeRuntimeDiagnostic v [secret])"
    then have "sublist secret ?w"
      unfolding out
      by (auto split: if_splits intro: sublist_order.order_trans[OF _ sublist_order.order_trans[OF trim_space_sublist sublist_take]])
    from sublist_join[OF this graphic_no_space[OF assms(2)] sec] obtain f where
      "f \<in> set (space_fields (map diagnostic_char (replace_secrets [secret] v)))" "sublist secret f" by blast
    then have "sublist secret (map diagnostic_char (replace_secrets [secret] v))"
      using split_on_sublist by (fastforce simp: space_fields_def intro: sublist_order.order_trans)
    from sublist_map_graphic[OF this assms(2)] redact_no_sublist[OF assms(1)] sec
    show False by (simp add: replace_secrets_def)
  qed
qed

section \<open>Properties\<close>



text \<open>
  A runner key with a space in it can still come out: the secret is looked for before white space
  is normalised, so a text in which a tab or a line break stands for the space of the key is not
  changed by the replacement and then becomes the key.
\<close>

theorem diagnostic_can_form_secret:
  "sanitizeRuntimeDiagnostic (''my'' @ CHR 0x09 # ''key'') [''my key''] = ''my key''"
  by (simp add: sanitizeRuntimeDiagnostic_def replace_secrets_def space_fields_def
      diagnostic_char_def maxRuntimeDiagnosticBytes_def)

end
