(* ===== verification/Artifact_Resolver.thy ===== *)
theory Artifact_Resolver
  imports Runtime_Cache Transport_Policy Diagnostics
begin

text \<open>
  Finding, downloading and installing the engine (\<open>runtime_download.go\<close>): the manifest from the
  sidecar in the cache or from the service, its verification, the download of the executable, its
  installation, and the private copy that is executed. Clearing buffers in memory is not modelled.
\<close>

section \<open>The resolver and the process it runs in\<close>

record runtimeArtifactResolver =
  rr_config :: runtimeResolverConfig
  rr_cacheDir :: string
  rr_resolveEndpoint :: string
  rr_httpClient :: bool

text \<open>
  What the resolver finds in its process: the system with its HTTP client, the clock, the keys the
  release was built with (\<open>runtimePublisherTrustedKeysJSON\<close>), and what tells a test binary.
\<close>

record sdk_process =
  h_crypto :: crypto
  h_net :: net_url
  h_env :: "go_url surroundings"
  h_now :: "nat \<Rightarrow> int"
  h_cwd :: "path res"
  h_UserCacheDir :: "string res"
  h_isGoTestBinary :: bool
  h_token :: string
  h_Getenv :: "string \<Rightarrow> string"
  h_keyring :: string

definition select_root :: "sdk_process \<Rightarrow> string \<Rightarrow> path res" where
  "select_root h explicit = selectRuntimeCacheRoot (h_cwd h) explicit (Some (h_UserCacheDir h))"

definition expectedRuntimeExecutableName :: "runtimeArtifactResolver \<Rightarrow> string" where
  "expectedRuntimeExecutableName r =
     (if cfgGOOS (rr_config r) = ''windows'' then ''loadstrike-runtime.exe'' else ''loadstrike-runtime'')"

definition expectedRuntimePath :: "sdk_process \<Rightarrow> runtimeArtifactResolver \<Rightarrow> path option" where
  "expectedRuntimePath h r =
     (case select_root h (rr_cacheDir r) of
        Inl e \<Rightarrow> None
      | Inr cacheDir \<Rightarrow> Some (filepath_join cacheDir
          [''runtime'', cfgVersion (rr_config r), cfgGOOS (rr_config r) @ ''-'' @ cfgGOARCH (rr_config r),
           expectedRuntimeExecutableName r]))"

definition manifest_path :: "path \<Rightarrow> path" where
  "manifest_path p = butlast p @ [last p @ ''.manifest.json'']"

section \<open>The service\<close>

definition trim_right_char :: "char \<Rightarrow> string \<Rightarrow> string" where
  "trim_right_char c s = rev (dropWhile (\<lambda>x. x = c) (rev s))"

definition buildURL :: "string \<Rightarrow> string \<Rightarrow> string" where
  "buildURL baseURL relative =
     trim_right_char (CHR ''/'') baseURL @ ''/'' @ dropWhile (\<lambda>x. x = CHR ''/'') relative"

definition isLoopbackHTTPBaseURL :: "net_url \<Rightarrow> string \<Rightarrow> bool" where
  "isLoopbackHTTPBaseURL nu value =
     (case url_Parse nu value of
        None \<Rightarrow> False
      | Some parsed \<Rightarrow> Scheme parsed = ''http'' \<and> isLoopbackRuntimeHost (url_Hostname parsed))"

definition resolveCompiledBlackboxLicensingAPIBaseURL :: "sdk_process \<Rightarrow> string" where
  "resolveCompiledBlackboxLicensingAPIBaseURL h =
     (let token = trim_space (h_token h) in
      if token = [] \<or> trim_space (h_Getenv h ''LOADSTRIKE_INTERNAL_BLACKBOX_API_BASE_URL_TOKEN'') \<noteq> token then []
      else
        (let value = trim_right_char (CHR ''/'') (trim_space (h_Getenv h ''LOADSTRIKE_INTERNAL_BLACKBOX_API_BASE_URL'')) in
         if value = [] \<or> \<not> isLoopbackHTTPBaseURL (h_net h) value then [] else value))"

definition resolveLicensingAPIBaseURL :: "sdk_process \<Rightarrow> string" where
  "resolveLicensingAPIBaseURL h =
     (let value = resolveCompiledBlackboxLicensingAPIBaseURL h in
      if value \<noteq> [] then value
      else if trim_space (h_token h) \<noteq> [] then ''http://127.0.0.1:1''
      else if h_isGoTestBinary h then ''http://127.0.0.1:1''
      else ''https://licensing.loadstrike.com'')"

definition runtimeResolveEndpoint :: "sdk_process \<Rightarrow> string" where
  "runtimeResolveEndpoint h = buildURL (resolveLicensingAPIBaseURL h) ''/api/v1/runtime-artifacts/resolve''"

definition endpoint :: "sdk_process \<Rightarrow> runtimeArtifactResolver \<Rightarrow> string" where
  "endpoint h r = (if trim_space (rr_resolveEndpoint r) \<noteq> [] then rr_resolveEndpoint r else runtimeResolveEndpoint h)"

definition transportPolicy :: "sdk_process \<Rightarrow> runtimeArtifactResolver \<Rightarrow> runtimeTransportPolicy res" where
  "transportPolicy h r =
     (let hasEndpoint = trim_space (rr_resolveEndpoint r) \<noteq> []; hasClient = rr_httpClient r in
      if hasEndpoint \<or> hasClient
      then (if \<not> hasEndpoint \<or> \<not> hasClient \<or> \<not> h_isGoTestBinary h
            then Inl ''explicit runtime artifact transport is allowed only for internal tests with both an endpoint and client''
            else newRuntimeTransportPolicy (h_net h) (rr_resolveEndpoint r) True)
      else newRuntimeTransportPolicy (h_net h) ''https://licensing.loadstrike.com'' False)"

definition resolveTransportPolicy :: "sdk_process \<Rightarrow> runtimeArtifactResolver \<Rightarrow> runtimeTransportPolicy res" where
  "resolveTransportPolicy h r =
     (if trim_space (rr_resolveEndpoint r) \<noteq> [] \<or> rr_httpClient r then transportPolicy h r
      else newRuntimeTransportPolicy (h_net h) (resolveLicensingAPIBaseURL h)
             (h_isGoTestBinary h \<or> trim_space (h_token h) \<noteq> []))"

section \<open>Manifests\<close>

definition configuredRuntimePublisherKeyring :: "sdk_process \<Rightarrow> runtimePublisherTrustedKey list res" where
  "configuredRuntimePublisherKeyring h = parseRuntimePublisherKeyring (h_crypto h) (h_keyring h)"

definition verifyRuntimeManifest ::
  "sdk_process \<Rightarrow> runtimeArtifactManifest \<Rightarrow> runtimeResolverConfig \<Rightarrow> int \<Rightarrow> unit res" where
  "verifyRuntimeManifest h manifest config now =
     (case configuredRuntimePublisherKeyring h of
        Inl e \<Rightarrow> Inl e
      | Inr keys \<Rightarrow>
          if canonicalJSON manifest = []
          then Inl ''runtime manifest canonical descriptor bytes are unavailable''
          else (case verifyRuntimeManifestV2 (h_crypto h) (parseRuntimeManifestV2 (canonicalJSON manifest)) config keys now of
                  Inl e \<Rightarrow> Inl e
                | Inr _ \<Rightarrow> Inr ()))"

text \<open>The descriptor from its bytes, of which the readers deliver one more than the limit at most.\<close>

definition decode_content :: "string \<Rightarrow> string \<Rightarrow> runtimeArtifactManifest res" where
  "decode_content source bytes =
     (if length bytes > max_manifest_bytes
      then Inl (source @ '' exceeds the '' @ dec_of_nat max_manifest_bytes @ '' byte safety limit'')
      else case parseRuntimeManifestV2 bytes of
             Inl e \<Rightarrow> Inl (''decode '' @ source @ '': '' @ e)
           | Inr manifest \<Rightarrow> Inr manifest)"

definition decodeRuntimeManifest :: "string io \<Rightarrow> string \<Rightarrow> runtimeArtifactManifest io" where
  "decodeRuntimeManifest read_limited source =
     io_bind (io_wrap (''read '' @ source @ '': '') read_limited) (\<lambda>bytes. io_lift (decode_content source bytes))"

definition read_sidecar :: "'u surroundings \<Rightarrow> openedRuntimeObject \<Rightarrow> runtimeArtifactManifest io" where
  "read_sidecar env ob =
     io_then (io_guard (fi_size (op_info ob) \<le> max_manifest_bytes) ''runtime manifest sidecar exceeds the safety limit'') (
     io_bind (decodeRuntimeManifest
       (copy_opened env (op_file ob) (\<lambda>_. io_return ()) (max_manifest_bytes + 1)) ''runtime manifest sidecar'') (\<lambda>manifest.
     io_then (ensureStable env ob) (io_return manifest)))"

definition readRuntimeManifestSidecar :: "'u surroundings \<Rightarrow> path \<Rightarrow> runtimeArtifactManifest io" where
  "readRuntimeManifestSidecar env p =
     io_then (io_bind (openStableRuntimeObject env p False True) (\<lambda>ob.
       io_then (io_on_error (object_Close env ob)
         (io_guard (fi_size (op_info ob) \<le> max_manifest_bytes) ''runtime manifest sidecar exceeds the safety limit''))
       (protect_and_close env p runtimeCacheSidecarPermissions ob)))
     (io_bind (openStableRuntimeObject env p False True) (\<lambda>ob.
       io_defer (object_Close env ob) (read_sidecar env ob)))"

definition fill_sidecar :: "'u surroundings \<Rightarrow> string \<Rightarrow> nat \<Rightarrow> unit io" where
  "fill_sidecar env bytes temp =
     io_then (io_wrap ''secure runtime manifest temp file: '' (os_Fchmod env temp 0x180)) (
     io_then (io_wrap ''write runtime manifest temp file: '' (os_Write env temp bytes))
     (io_wrap ''sync runtime manifest temp file: '' (os_Sync env temp)))"

definition prepareRuntimeManifestSidecar :: "'u surroundings \<Rightarrow> path \<Rightarrow> runtimeArtifactManifest \<Rightarrow> path io" where
  "prepareRuntimeManifestSidecar env directory manifest =
     io_then (io_guard (1 \<le> length (canonicalJSON manifest) \<and> length (canonicalJSON manifest) \<le> max_manifest_bytes)
       ''runtime manifest canonical descriptor bytes are unavailable'') (
     io_bind (io_wrap ''create runtime manifest temp file: ''
       (os_CreateTemp env directory ''.loadstrike-runtime-manifest-'')) (\<lambda>(tempPath, temp).
     io_on_error (os_Remove env tempPath) (
     io_then (io_on_error (os_Close env temp) (fill_sidecar env (canonicalJSON manifest) temp)) (
     io_then (io_wrap ''close runtime manifest temp file: '' (os_Close env temp))
     (io_return tempPath)))))"

definition atomicReplaceFile :: "'u surroundings \<Rightarrow> path \<Rightarrow> path \<Rightarrow> unit io" where
  "atomicReplaceFile env sourcePath targetPath = os_Rename env sourcePath targetPath"

definition writeRuntimeManifestSidecar ::
  "sdk_process \<Rightarrow> path \<Rightarrow> path \<Rightarrow> runtimeArtifactManifest \<Rightarrow> unit io" where
  "writeRuntimeManifestSidecar h cacheRoot p manifest =
     (let env = h_env h; directory = filepath_Dir p in
      io_bind (io_lift (select_root h (path_text cacheRoot))) (\<lambda>root.
      io_then (ensureRuntimeCacheDirectory env root directory) (
      io_bind (prepareRuntimeManifestSidecar env directory manifest) (\<lambda>tempPath.
      io_defer (os_Remove env tempPath) (
      io_then (io_wrap ''install runtime manifest sidecar: '' (atomicReplaceFile env tempPath p)) (
      io_then (io_wrap ''protect runtime manifest sidecar: ''
        (protectRuntimeObject env p runtimeCacheSidecarPermissions))
      (io_wrap ''sync runtime cache directory: '' (syncRuntimeCacheDirectory env directory))))))))"

section \<open>Asking for a manifest\<close>

definition manifest_request :: "runtimeArtifactResolver \<Rightarrow> string \<Rightarrow> string" where
  "manifest_request r runnerKey =
     marshal (go_value (JvObject
       [(''runnerKey'', JvString (trim_space runnerKey)), (''sdk'', JvString ''go''),
        (''version'', JvString (cfgVersion (rr_config r))), (''os'', JvString (cfgGOOS (rr_config r))),
        (''arch'', JvString (cfgGOARCH (rr_config r))),
        (''manifestSignatureVersion'', JvString runtimeManifestSignatureVersion)]))"

text \<open>\<open>mime.ParseMediaType\<close> gives \<open>application/json\<close> and no parameters.\<close>

definition json_media_type :: "string \<Rightarrow> bool" where
  "json_media_type t =
     (case cut_at (CHR '';'') t of
        None \<Rightarrow> trim_space (to_lower t) = ''application/json''
      | Some (base, rest) \<Rightarrow> trim_space (to_lower base) = ''application/json'' \<and> blank rest)"

text \<open>A request is sent to a URL that parses; the error of the client is cleaned.\<close>

definition send :: "sdk_process \<Rightarrow> http_request \<Rightarrow> string \<Rightarrow> string list \<Rightarrow> go_url http_response io" where
  "send h rq label secrets w =
     (case (if url_Parse (h_net h) (rq_url rq) = None then (Inl ''URL syntax is invalid'', w)
            else http_Do (h_env h) rq w) of
        (Inl e, w') \<Rightarrow> (Inl (label @ sanitizeRuntimeDiagnostic e secrets), w')
      | (Inr response, w') \<Rightarrow> (Inr response, w'))"

definition refuse_status :: "string \<Rightarrow> go_url http_response \<Rightarrow> string list \<Rightarrow> unit io" where
  "refuse_status label response secrets =
     io_guard (rs_status response = 200)
       (label @ ''unexpected status '' @ dec_of_int (rs_status response) @ '': '' @
        sanitizeRuntimeDiagnostic (take 4096 (concat (rs_chunks response))) secrets)"

definition read_manifest_response ::
  "sdk_process \<Rightarrow> runtimeTransportPolicy \<Rightarrow> runtimeTransportPolicy \<Rightarrow> go_url \<Rightarrow> string \<Rightarrow> go_url http_response
     \<Rightarrow> runtimeArtifactManifest io" where
  "read_manifest_response h artifactTransportPolicy resolveTransport resolveURL runnerKey response =
     io_then (io_lift (validateRuntimeResponseURL (h_net h) (rs_url response) resolveURL resolveTransport
       ''runtime artifact resolve'')) (
     io_then (refuse_status ''resolve runtime artifact: '' response [runnerKey]) (
     io_then (io_guard (json_media_type (rs_type response))
       ''runtime artifact manifest response must use Content-Type application/json'') (
     io_bind (decodeRuntimeManifest
       (copy_body (\<lambda>_. io_return ()) (rs_chunks response) (rs_error response) (max_manifest_bytes + 1))
       ''runtime artifact manifest'') (\<lambda>manifest.
     io_then (io_bind (io_lift (validateArtifactURL (h_net h) artifactTransportPolicy (DownloadURL (Claims manifest))))
       (\<lambda>_. io_return ()))
     (io_return manifest)))))"

definition fetchRuntimeManifest :: "sdk_process \<Rightarrow> runtimeArtifactResolver \<Rightarrow> string \<Rightarrow> runtimeArtifactManifest io" where
  "fetchRuntimeManifest h r runnerKey =
     io_bind (io_lift (transportPolicy h r)) (\<lambda>artifactTransportPolicy.
     io_bind (io_lift (resolveTransportPolicy h r)) (\<lambda>resolveTransport.
     io_bind (io_lift (validateResolveURL (h_net h) resolveTransport (endpoint h r))) (\<lambda>resolveURL.
     (let body = manifest_request r runnerKey in
     io_then (io_guard (length body \<le> 4096) ''runtime manifest request exceeds the 4096 byte safety limit'') (
     io_then (io_guard (url_Parse (h_net h) (url_String (h_net h) resolveURL) \<noteq> None)
       ''build runtime manifest request: URL syntax is invalid'') (
     io_bind (send h \<lparr>rq_method = ''POST'', rq_url = url_String (h_net h) resolveURL, rq_body = body\<rparr>
       ''resolve runtime artifact: '' [runnerKey]) (\<lambda>response.
     io_defer close_body
       (read_manifest_response h artifactTransportPolicy resolveTransport resolveURL runnerKey response))))))))"

section \<open>Installing\<close>

definition receive_artifact ::
  "sdk_process \<Rightarrow> runtimeArtifactManifest \<Rightarrow> go_url http_response \<Rightarrow> nat \<Rightarrow> unit io" where
  "receive_artifact h manifest response runtimeTemp =
     (let env = h_env h; claims = Claims manifest; expectedLength = unat (ByteLength claims) in
      io_then (io_wrap ''secure runtime download temp file: '' (os_Fchmod env runtimeTemp runtimeCacheSidecarPermissions)) (
      io_then (io_guard (1 \<le> expectedLength \<and> expectedLength \<le> runtime_artifact_limit)
        ''runtime artifact signed byte length is outside the safety limit'') (
      io_then (io_guard (rs_length response < 0 \<or> rs_length response = int expectedLength)
        (''runtime artifact length mismatch: expected '' @ dec_of_nat expectedLength @ '' bytes, got '' @
         dec_of_int (rs_length response))) (
      io_bind (io_map_error (\<lambda>e. ''read runtime artifact: '' @ sanitizeRuntimeDiagnostic e [])
        (copy_body (os_Write env runtimeTemp) (rs_chunks response) (rs_error response) (expectedLength + 1))) (\<lambda>bytes.
      io_then (io_guard (length bytes = expectedLength)
        (''runtime artifact length mismatch: expected '' @ dec_of_nat expectedLength @ '' bytes, got '' @
         dec_of_nat (length bytes))) (
      io_then (io_guard (hex_encode (sha256 (h_crypto h) bytes) = SHA256 claims)
        (''runtime checksum mismatch: expected '' @ SHA256 claims @ '', got '' @
         hex_encode (sha256 (h_crypto h) bytes))) (
      io_then (io_wrap ''sync runtime download: '' (os_Sync env runtimeTemp))
      (io_wrap ''mark runtime artifact executable: ''
        (os_Fchmod env runtimeTemp runtimeCacheRuntimePermissions)))))))))"

definition replace_installed ::
  "sdk_process \<Rightarrow> runtimeArtifactManifest \<Rightarrow> path \<Rightarrow> path \<Rightarrow> path \<Rightarrow> path io" where
  "replace_installed h manifest expectedPath runtimeTempPath manifestTempPath =
     (let env = h_env h; directory = filepath_Dir expectedPath; manifestPath = manifest_path expectedPath in
      io_then (io_wrap ''install runtime binary: '' (atomicReplaceFile env runtimeTempPath expectedPath)) (
      io_then (io_wrap ''protect installed runtime binary: ''
        (protectRuntimeObject env expectedPath runtimeCacheRuntimePermissions)) (
      io_then (io_wrap ''install runtime manifest sidecar: '' (atomicReplaceFile env manifestTempPath manifestPath)) (
      io_then (io_wrap ''protect installed runtime manifest sidecar: ''
        (protectRuntimeObject env manifestPath runtimeCacheSidecarPermissions)) (
      io_then (io_wrap ''sync runtime cache directory: '' (syncRuntimeCacheDirectory env directory)) (
      io_then (io_wrap ''revalidate installed runtime: ''
        (verifyRuntimeArtifactFile (h_crypto h) env expectedPath (SHA256 (Claims manifest))))
      (io_return expectedPath)))))))"

definition install_temp ::
  "sdk_process \<Rightarrow> runtimeArtifactManifest \<Rightarrow> go_url http_response \<Rightarrow> path \<Rightarrow> path \<Rightarrow> nat \<Rightarrow> path io" where
  "install_temp h manifest response expectedPath runtimeTempPath runtimeTemp =
     (let env = h_env h in
      io_defer (os_Remove env runtimeTempPath) (
      io_then (io_on_error (os_Close env runtimeTemp) (receive_artifact h manifest response runtimeTemp)) (
      io_then (io_wrap ''close runtime download: '' (os_Close env runtimeTemp)) (
      io_bind (prepareRuntimeManifestSidecar env (filepath_Dir expectedPath) manifest) (\<lambda>manifestTempPath.
      io_defer (os_Remove env manifestTempPath)
        (replace_installed h manifest expectedPath runtimeTempPath manifestTempPath))))))"

definition install_response ::
  "sdk_process \<Rightarrow> runtimeArtifactResolver \<Rightarrow> runtimeArtifactManifest \<Rightarrow> go_url http_response \<Rightarrow> path io" where
  "install_response h r manifest response =
     (let env = h_env h in
      io_bind (io_lift (select_root h (rr_cacheDir r))) (\<lambda>cacheRoot.
      case expectedRuntimePath h r of
        None \<Rightarrow> io_fail ''resolve per-user runtime cache path''
      | Some expectedPath \<Rightarrow>
          io_then (ensureRuntimeCacheDirectory env cacheRoot (filepath_Dir expectedPath)) (
          io_bind (io_wrap ''create runtime download temp file: ''
            (os_CreateTemp env (filepath_Dir expectedPath) ''.loadstrike-runtime-download-'')) (\<lambda>(tempPath, temp).
          install_temp h manifest response expectedPath tempPath temp))))"

definition downloadAndInstallRuntime ::
  "sdk_process \<Rightarrow> runtimeArtifactResolver \<Rightarrow> runtimeArtifactManifest \<Rightarrow> path io" where
  "downloadAndInstallRuntime h r manifest =
     io_bind (io_lift (transportPolicy h r)) (\<lambda>policy.
     io_bind (io_lift (validateArtifactURL (h_net h) policy (DownloadURL (Claims manifest)))) (\<lambda>artifactURL.
     io_bind (send h \<lparr>rq_method = ''GET'', rq_url = url_String (h_net h) artifactURL, rq_body = []\<rparr>
       ''download runtime artifact: '' []) (\<lambda>response.
     io_defer close_body (
     io_then (io_lift (validateRuntimeResponseURL (h_net h) (rs_url response) artifactURL policy
       ''runtime artifact download'')) (
     io_then (refuse_status ''download runtime artifact: '' response [])
     (install_response h r manifest response))))))"

section \<open>Resolving\<close>

definition resolve_online ::
  "sdk_process \<Rightarrow> runtimeArtifactResolver \<Rightarrow> string \<Rightarrow> int \<Rightarrow> runtimeTransportPolicy \<Rightarrow> path \<Rightarrow> path \<Rightarrow> path io" where
  "resolve_online h r runnerKey now policy cacheRoot expectedPath =
     io_bind (fetchRuntimeManifest h r runnerKey) (\<lambda>manifest.
     io_then (io_wrap ''authenticate runtime manifest: '' (io_lift (verifyRuntimeManifest h manifest (rr_config r) now))) (
     io_bind (io_lift (validateArtifactURL (h_net h) policy (DownloadURL (Claims manifest)))) (\<lambda>_.
     io_bind (io_try (verifyRuntimeArtifactFile (h_crypto h) (h_env h) expectedPath (SHA256 (Claims manifest)))) (\<lambda>checked.
     case checked of
       Inr _ \<Rightarrow>
         io_then (writeRuntimeManifestSidecar h cacheRoot (manifest_path expectedPath) manifest) (
         io_then (io_wrap ''revalidate cached runtime after manifest migration: ''
           (verifyRuntimeArtifactFile (h_crypto h) (h_env h) expectedPath (SHA256 (Claims manifest))))
         (io_return expectedPath))
     | Inl _ \<Rightarrow> downloadAndInstallRuntime h r manifest))))"

definition is_error :: "'a res \<Rightarrow> bool" where
  "is_error r = (case r of Inl _ \<Rightarrow> True | Inr _ \<Rightarrow> False)"

definition cached_only :: "string \<Rightarrow> bool list \<Rightarrow> bool" where
  "cached_only runnerKey agentCachedOnly \<longleftrightarrow>
     agentCachedOnly \<noteq> [] \<and> hd agentCachedOnly \<and> trim_space runnerKey = []"

definition resolve_from ::
  "sdk_process \<Rightarrow> runtimeArtifactResolver \<Rightarrow> string \<Rightarrow> bool \<Rightarrow> int \<Rightarrow> runtimeTransportPolicy \<Rightarrow> path \<Rightarrow> path \<Rightarrow> path io" where
  "resolve_from h r runnerKey cachedOnly now policy cacheRoot expectedPath =
     (let fresh =
        (if cachedOnly
         then io_fail ''Agent requires a preinstalled runtime with a valid publisher signature and artifact hash; provision it through an authorized coordinator first''
         else resolve_online h r runnerKey now policy cacheRoot expectedPath) in
      io_bind (io_try (readRuntimeManifestSidecar (h_env h) (manifest_path expectedPath))) (\<lambda>read.
      case read of
        Inl _ \<Rightarrow> fresh
      | Inr manifest \<Rightarrow>
          if is_error (validateArtifactURL (h_net h) policy (DownloadURL (Claims manifest))) then fresh
          else if is_error (verifyRuntimeManifest h manifest (rr_config r) now) then fresh
          else io_bind (io_try (verifyRuntimeArtifactFile (h_crypto h) (h_env h) expectedPath (SHA256 (Claims manifest)))) (\<lambda>checked.
            case checked of
              Inr _ \<Rightarrow> io_return expectedPath
            | Inl _ \<Rightarrow> if cachedOnly then fresh else downloadAndInstallRuntime h r manifest)))"

definition resolveRuntimePath ::
  "sdk_process \<Rightarrow> runtimeArtifactResolver \<Rightarrow> string \<Rightarrow> bool list \<Rightarrow> path io" where
  "resolveRuntimePath h r runnerKey agentCachedOnly =
     (let key = trim_space runnerKey; cachedOnly = cached_only runnerKey agentCachedOnly in
      io_then (io_guard (key \<noteq> [] \<or> cachedOnly) ''runner key is required to resolve the compatible execution component'') (
      io_bind (io_wrap ''validate runtime publisher trust: '' (io_lift (configuredRuntimePublisherKeyring h))) (\<lambda>_.
      io_bind (io_lift (select_root h (rr_cacheDir r))) (\<lambda>cacheRoot.
      case expectedRuntimePath h r of
        None \<Rightarrow> io_fail ''resolve per-user runtime cache path''
      | Some expectedPath \<Rightarrow>
          io_then (ensureRuntimeCacheDirectory (h_env h) cacheRoot (filepath_Dir expectedPath)) (\<lambda>w.
          io_bind (io_lift (transportPolicy h r))
            (\<lambda>policy. resolve_from h r key cachedOnly (h_now h (w_calls w)) policy cacheRoot expectedPath) w)))))"

definition execute_resolved ::
  "sdk_process \<Rightarrow> runtimeArtifactResolver \<Rightarrow> path \<Rightarrow> runtimeArtifactManifest \<Rightarrow> resolvedRuntimeExecution io" where
  "execute_resolved h r runtimePath manifest w =
     io_then (io_wrap ''authenticate runtime manifest before execution: ''
       (io_lift (verifyRuntimeManifest h manifest (rr_config r) (h_now h (w_calls w)))))
     (prepareRuntimeExecutionCopy (h_crypto h) (h_env h) runtimePath (SHA256 (Claims manifest)) None) w"

definition resolveRuntimeExecution ::
  "sdk_process \<Rightarrow> runtimeArtifactResolver \<Rightarrow> string \<Rightarrow> bool list \<Rightarrow> resolvedRuntimeExecution io" where
  "resolveRuntimeExecution h r runnerKey agentCachedOnly =
     io_bind (resolveRuntimePath h r runnerKey agentCachedOnly) (\<lambda>runtimePath.
     case expectedRuntimePath h r of
       None \<Rightarrow> io_fail ''read authenticated runtime manifest before execution: ''
     | Some expectedPath \<Rightarrow>
         io_bind (io_wrap ''read authenticated runtime manifest before execution: ''
           (readRuntimeManifestSidecar (h_env h) (manifest_path expectedPath)))
           (execute_resolved h r runtimePath))"

section \<open>What the resolver keeps\<close>

context silent begin

lemma keeps_decode: "io_keeps R m \<Longrightarrow> io_keeps R (decodeRuntimeManifest m source)"
  unfolding decodeRuntimeManifest_def by (intro step_rules)

lemma keeps_readSidecar [intro]: "io_keeps R (readRuntimeManifestSidecar env p)"
  unfolding readRuntimeManifestSidecar_def read_sidecar_def by (intro cache_rules keeps_decode keeps_protect_and_close)

lemma keeps_prepareSidecar [intro]: "io_keeps R (prepareRuntimeManifestSidecar env d m)"
proof -
  have "io_keeps R (io_on_error (os_Remove env p) (
     io_then (io_on_error (os_Close env fd) (fill_sidecar env (canonicalJSON m) fd)) (
     io_then (io_wrap l (os_Close env fd)) (io_return p))))" for p fd l
    unfolding fill_sidecar_def by (intro cache_rules)
  then show ?thesis
    unfolding prepareRuntimeManifestSidecar_def
    by (intro keeps_then keeps_bind keeps_guard keeps_wrap keeps_CreateTemp) (simp add: case_prod_unfold)
qed

lemma keeps_writeSidecar [intro]: "io_keeps R (writeRuntimeManifestSidecar h root p m)"
  unfolding writeRuntimeManifestSidecar_def Let_def atomicReplaceFile_def
  by (intro cache_rules keeps_prepareSidecar keeps_ensure)

lemma keeps_receive [intro]: "io_keeps R (receive_artifact h m response fd)"
  unfolding receive_artifact_def Let_def by (intro cache_rules)

lemma keeps_replace [intro]: "io_keeps R (replace_installed h m p a b)"
  unfolding replace_installed_def Let_def atomicReplaceFile_def by (intro cache_rules keeps_verify)

lemma keeps_install_temp: "io_keeps R (install_temp h m response p tp fd)"
  unfolding install_temp_def Let_def by (intro cache_rules keeps_receive keeps_replace keeps_prepareSidecar)

lemma keeps_install [intro]: "io_keeps R (install_response h r m response)"
  unfolding install_response_def Let_def
  by (cases "expectedRuntimePath h r")
    (auto intro!: keeps_bind keeps_lift keeps_fail keeps_then keeps_ensure keeps_wrap keeps_CreateTemp keeps_install_temp)

end

section \<open>Files and bodies are closed\<close>

lemma opens_CreateTemp: "opens S snd (os_CreateTemp env p n)"
proof (rule opensI)
  fix w e w'
  assume "os_CreateTemp env p n w = (Inl e, w')"
  then have "os_Create env (p @ [n @ pick_name env (w_calls w)]) 0x180 w = (Inl e, w')"
    by (auto simp: os_CreateTemp_def Let_def io_bind_def io_return_def split: prod.splits sum.splits)
  then show "same_open S w w'" by (rule opens_Inl[OF opens_calls(3)])
next
  fix w x w'
  assume "os_CreateTemp env p n w = (Inr x, w')"
  then have "os_Create env (p @ [n @ pick_name env (w_calls w)]) 0x180 w = (Inr (snd x), w')"
    by (auto simp: os_CreateTemp_def Let_def io_Inr)
  then show "(snd x \<in> S \<or> w_open w (snd x) = None) \<and> same_open (insert (snd x) S) w w'"
    by (rule opens_Inr[OF opens_calls(3)])
qed

lemma same_readSidecar [intro]: "io_keeps (same_open S) (readRuntimeManifestSidecar env p)"
proof -
  have "io_keeps (same_open T) (read_sidecar env ob)" if "op_file ob \<in> T" for ob T
    unfolding read_sidecar_def decodeRuntimeManifest_def by (intro same_rules) (use that in auto)
  then have "closes S (op_file ob) (io_defer (object_Close env ob) (read_sidecar env ob))" for ob
    unfolding object_Close_def by (intro closes_defer) simp
  moreover have "closes S (op_file ob) (io_then (io_on_error (object_Close env ob) (io_guard b e))
       (protect_and_close env p m ob))" for ob b e m
    unfolding object_Close_def by (intro closes_on_error closes_protect same.keeps_guard)
  ultimately show ?thesis
    unfolding readRuntimeManifestSidecar_def
    by (intro same.keeps_then keeps_open_close[OF opens_openStable])
qed

lemma same_prepareSidecar [intro]: "io_keeps (same_open S) (prepareRuntimeManifestSidecar env d m)"
proof -
  have "closes S fd (io_then (io_on_error (os_Close env fd) (fill_sidecar env (canonicalJSON m) fd)) (
     io_then (io_wrap l (os_Close env fd)) (io_return p)))" for p fd l
    unfolding fill_sidecar_def by (intro closes_on_error closes_then closes_wrap closes_Close same_rules) auto
  then have "closes S (snd pf) (case pf of (p, fd) \<Rightarrow> io_on_error (os_Remove env p) (
     io_then (io_on_error (os_Close env fd) (fill_sidecar env (canonicalJSON m) fd)) (
     io_then (io_wrap l (os_Close env fd)) (io_return p))))" for pf l
    by (cases pf) (auto intro!: closes_cleanup)
  then show ?thesis
    unfolding prepareRuntimeManifestSidecar_def
    by (intro same.keeps_then same.keeps_guard keeps_open_close[OF opens_wrap[OF opens_CreateTemp]])
qed

lemma same_writeSidecar [intro]: "io_keeps (same_open S) (writeRuntimeManifestSidecar h root p m)"
proof -
  have "io_keeps (same_open S) (syncRuntimeCacheDirectory env d)" for env d
    unfolding syncRuntimeCacheDirectory_def
    by (intro keeps_open_close[OF opens_calls(2)] closes_defer same.keeps_files_calls)
  then show ?thesis
    unfolding writeRuntimeManifestSidecar_def Let_def atomicReplaceFile_def
    by (intro same_rules same_prepareSidecar same_ensure)
qed

lemma same_replace: "io_keeps (same_open S) (replace_installed h m p a b)"
proof -
  have "io_keeps (same_open S) (syncRuntimeCacheDirectory env d)" for env d
    unfolding syncRuntimeCacheDirectory_def
    by (intro keeps_open_close[OF opens_calls(2)] closes_defer same.keeps_files_calls)
  then show ?thesis
    unfolding replace_installed_def Let_def atomicReplaceFile_def by (intro same_rules same_verify)
qed

lemma closes_install_temp: "closes S fd (install_temp h m response p tp fd)"
proof -
  have "io_keeps (same_open (insert fd S)) (receive_artifact h m response fd)"
    unfolding receive_artifact_def Let_def by (intro same_rules) auto
  then show ?thesis
    unfolding install_temp_def Let_def
    by (intro closes_cleanup closes_on_error closes_then closes_wrap closes_Close same.keeps_files_calls
        same.keeps_bind same.keeps_defer same_prepareSidecar same_replace)
qed

lemma same_install: "io_keeps (same_open S) (install_response h r m response)"
proof -
  have "closes S (snd x) (case x of (tp, fd) \<Rightarrow> install_temp h m response p tp fd)" for x p
    by (cases x) (simp add: closes_install_temp)
  then show ?thesis
    unfolding install_response_def Let_def
    by (cases "expectedRuntimePath h r")
      (auto intro!: same.keeps_bind[OF same.keeps_lift] same.keeps_then same_ensure keeps_open_close[OF opens_wrap[OF opens_CreateTemp]])
qed

lemma same_close_body: "io_keeps (same_open S) close_body"
  by (simp add: io_keeps_def close_body_def same_open_def)

lemma send_cases:
  assumes "send h rq l ss w = (x, w')"
  obtains "w' = w" and "x \<in> range Inl"
  | y where "http_Do (h_env h) rq w = (y, w')" and "x \<in> range Inl \<longleftrightarrow> y \<in> range Inl"
proof (cases "url_Parse (h_net h) (rq_url rq)")
  case None
  with assms have "w' = w \<and> x \<in> range Inl" by (auto simp: send_def)
  with that(1) show thesis by blast
next
  case (Some u)
  obtain y v where y: "http_Do (h_env h) rq w = (y, v)" by (cases "http_Do (h_env h) rq w")
  with assms Some have "w' = v \<and> (x \<in> range Inl \<longleftrightarrow> y \<in> range Inl)"
    by (cases y) (auto simp: send_def)
  with y that(2) show thesis by blast
qed

lemma Do_effect:
  assumes "http_Do env rq w = (y, w')"
  shows "w_bodies w' = (if y \<in> range Inl then w_bodies w else Suc (w_bodies w))"
    and "w_open w' = w_open w" and "w_requests w' = w_requests w @ [rq]"
  using assms
  by (cases "fault env (w_calls w)"; cases "answer env (w_calls w) rq";
      auto simp: http_Do_def sys_def Let_def)+

lemma send_effect:
  assumes "send h rq l ss w = (x, w')"
  shows "w_bodies w' = (if x \<in> range Inl then w_bodies w else Suc (w_bodies w))"
    and "w_open w' = w_open w" and "w_requests w' = w_requests w \<or> w_requests w' = w_requests w @ [rq]"
  using assms by (cases rule: send_cases, auto dest: Do_effect)+

section \<open>The whole resolution\<close>

text \<open>
  What resolving keeps follows from what its parts keep: the cache operations, and a request together
  with what is done with its response.
\<close>

locale resolver_effect = io_preorder +
  fixes h :: sdk_process and r :: runtimeArtifactResolver and ok :: "http_request \<Rightarrow> bool"
  assumes R_sidecar: "io_keeps R (readRuntimeManifestSidecar (h_env h) p)"
    and R_verify: "io_keeps R (verifyRuntimeArtifactFile (h_crypto h) (h_env h) p d)"
    and R_ensure: "io_keeps R (ensureRuntimeCacheDirectory (h_env h) p q)"
    and R_write: "io_keeps R (writeRuntimeManifestSidecar h p q m)"
    and R_install: "io_keeps R (install_response h r m response)"
    and R_execute: "io_keeps R (prepareRuntimeExecutionCopy (h_crypto h) (h_env h) p d None)"
    and R_send_error: "ok rq \<Longrightarrow> send h rq l ss w = (Inl e, w') \<Longrightarrow> R w w'"
    and R_send: "ok rq \<Longrightarrow> send h rq l ss w = (Inr response, w') \<Longrightarrow> R w' v \<Longrightarrow> R w (snd (close_body v))"
begin

lemma keeps_exchange:
  assumes "ok rq" and f: "\<And>response. io_keeps R (f response)"
  shows "io_keeps R (io_bind (send h rq l ss) (\<lambda>response. io_defer close_body (f response)))"
  unfolding io_keeps_def
proof
  fix w
  obtain x w' where s: "send h rq l ss w = (x, w')" by (cases "send h rq l ss w")
  show "R w (snd (io_bind (send h rq l ss) (\<lambda>response. io_defer close_body (f response)) w))"
  proof (cases x)
    case (Inl e)
    with s R_send_error[OF assms(1)] show ?thesis by (simp add: io_bind_def)
  next
    case (Inr response)
    moreover have "R w' (snd (f response w'))" using f by (simp add: io_keeps_def)
    ultimately show ?thesis
      using s R_send[OF assms(1)] by (cases "f response w'") (simp add: io_bind_def io_defer_def)
  qed
qed

lemma keeps_lift_bind: "(\<And>x. v = Inr x \<Longrightarrow> io_keeps R (f x)) \<Longrightarrow> io_keeps R (io_bind (io_lift v) f)"
  by (cases v) (auto simp: io_keeps_def io_bind_def io_lift_def R_refl)

lemma keeps_lift_then: "(v = Inr () \<Longrightarrow> io_keeps R k) \<Longrightarrow> io_keeps R (io_then (io_wrap l (io_lift v)) k)"
  by (cases v) (auto simp: io_keeps_def io_then_def io_bind_def io_lift_def io_wrap_def io_map_error_def R_refl)

lemma keeps_fetch:
  assumes "\<And>policy u body. resolveTransportPolicy h r = Inr policy \<Longrightarrow>
      validateResolveURL (h_net h) policy (endpoint h r) = Inr u \<Longrightarrow>
      ok \<lparr>rq_method = ''POST'', rq_url = url_String (h_net h) u, rq_body = body\<rparr>"
  shows "io_keeps R (fetchRuntimeManifest h r key)"
  unfolding fetchRuntimeManifest_def Let_def read_manifest_response_def refuse_status_def decodeRuntimeManifest_def
  by (intro keeps_lift_bind keeps_then[OF keeps_guard] keeps_exchange assms step_rules keeps_copy_body)

lemma keeps_download:
  assumes "\<And>policy u. transportPolicy h r = Inr policy \<Longrightarrow>
      validateArtifactURL (h_net h) policy (DownloadURL (Claims m)) = Inr u \<Longrightarrow>
      ok \<lparr>rq_method = ''GET'', rq_url = url_String (h_net h) u, rq_body = []\<rparr>"
  shows "io_keeps R (downloadAndInstallRuntime h r m)"
  unfolding downloadAndInstallRuntime_def refuse_status_def
  by (intro keeps_lift_bind keeps_exchange assms step_rules R_install)

end

text \<open>The requests that may be sent.\<close>

definition resolve_request :: "sdk_process \<Rightarrow> runtimeArtifactResolver \<Rightarrow> http_request \<Rightarrow> bool" where
  "resolve_request h r rq \<longleftrightarrow>
     (\<exists>policy u. rq_method rq = ''POST'' \<and> resolveTransportPolicy h r = Inr policy \<and>
        validateResolveURL (h_net h) policy (endpoint h r) = Inr u \<and> rq_url rq = url_String (h_net h) u)"

definition download_request :: "sdk_process \<Rightarrow> runtimeArtifactResolver \<Rightarrow> http_request \<Rightarrow> bool" where
  "download_request h r rq \<longleftrightarrow>
     (\<exists>policy u m now. rq_method rq = ''GET'' \<and> rq_body rq = [] \<and> transportPolicy h r = Inr policy \<and>
        verifyRuntimeManifest h m (rr_config r) now = Inr () \<and>
        validateArtifactURL (h_net h) policy (DownloadURL (Claims m)) = Inr u \<and> rq_url rq = url_String (h_net h) u)"

definition allowed_request :: "sdk_process \<Rightarrow> runtimeArtifactResolver \<Rightarrow> http_request \<Rightarrow> bool" where
  "allowed_request h r rq \<longleftrightarrow> resolve_request h r rq \<or> download_request h r rq"

locale resolver_requests = resolver_effect +
  assumes ok_allowed: "allowed_request h r rq \<Longrightarrow> ok rq"
begin

lemma keeps_online: "io_keeps R (resolve_online h r key now policy root p)"
proof -
  have download: "verifyRuntimeManifest h m (rr_config r) now = Inr () \<Longrightarrow> io_keeps R (downloadAndInstallRuntime h r m)" for m
    by (rule keeps_download, rule ok_allowed) (auto simp: allowed_request_def download_request_def)
  have "io_keeps R (case checked of
       Inr _ \<Rightarrow> io_then (writeRuntimeManifestSidecar h root q m) (
         io_then (io_wrap l (verifyRuntimeArtifactFile (h_crypto h) (h_env h) p d)) (io_return p))
     | Inl _ \<Rightarrow> downloadAndInstallRuntime h r m)"
    if "verifyRuntimeManifest h m (rr_config r) now = Inr ()" for checked q m l d
    using download[OF that] by (cases checked) (simp_all add: keeps_then R_write keeps_wrap R_verify keeps_return)
  then show ?thesis
    unfolding resolve_online_def
    by (intro keeps_bind[OF keeps_fetch] keeps_lift_then keeps_lift_bind keeps_bind[OF keeps_try] R_verify)
      (auto intro!: ok_allowed simp: allowed_request_def resolve_request_def)
qed

lemma keeps_from: "io_keeps R (resolve_from h r key cachedOnly now policy root p)"
proof -
  define fresh where "fresh =
     (if cachedOnly
      then io_fail ''Agent requires a preinstalled runtime with a valid publisher signature and artifact hash; provision it through an authorized coordinator first''
      else resolve_online h r key now policy root p)"
  have fresh: "io_keeps R fresh" unfolding fresh_def by (simp add: keeps_online)
  have download: "io_keeps R (downloadAndInstallRuntime h r m)"
    if "\<not> is_error (verifyRuntimeManifest h m (rr_config r) now)" for m
    by (rule keeps_download, rule ok_allowed)
      (use that in \<open>auto simp: allowed_request_def download_request_def is_error_def split: sum.splits\<close>)
  have checked: "io_keeps R (case checked of Inr _ \<Rightarrow> io_return p
      | Inl _ \<Rightarrow> if cachedOnly then fresh else downloadAndInstallRuntime h r m)"
    if "\<not> is_error (verifyRuntimeManifest h m (rr_config r) now)" for m and checked :: "unit res"
    using download[OF that] fresh by (cases checked) auto
  have verified: "io_keeps R (io_bind (io_try (verifyRuntimeArtifactFile (h_crypto h) (h_env h) p d)) (\<lambda>checked.
      case checked of Inr _ \<Rightarrow> io_return p | Inl _ \<Rightarrow> if cachedOnly then fresh else downloadAndInstallRuntime h r m))"
    if "\<not> is_error (verifyRuntimeManifest h m (rr_config r) now)" for m d
    using checked[OF that] by (intro keeps_bind[OF keeps_try[OF R_verify]])
  have "io_keeps R (case found of Inl _ \<Rightarrow> fresh
      | Inr m \<Rightarrow> if is_error (validateArtifactURL (h_net h) policy (DownloadURL (Claims m))) then fresh
          else if is_error (verifyRuntimeManifest h m (rr_config r) now) then fresh
          else io_bind (io_try (verifyRuntimeArtifactFile (h_crypto h) (h_env h) p (SHA256 (Claims m)))) (\<lambda>checked.
            case checked of Inr _ \<Rightarrow> io_return p | Inl _ \<Rightarrow> if cachedOnly then fresh else downloadAndInstallRuntime h r m))" for found
  proof (cases found)
    case (Inr m)
    then show ?thesis
      using fresh verified
      by (cases "is_error (verifyRuntimeManifest h m (rr_config r) now)";
          cases "is_error (validateArtifactURL (h_net h) policy (DownloadURL (Claims m)))") simp_all
  qed (simp add: fresh)
  then show ?thesis
    unfolding resolve_from_def Let_def fresh_def[symmetric] by (intro keeps_bind[OF keeps_try] R_sidecar)
qed

lemma keeps_path: "io_keeps R (resolveRuntimePath h r key flags)"
proof -
  have "io_keeps R (\<lambda>w. io_bind (io_lift (transportPolicy h r))
      (\<lambda>policy. resolve_from h r k c (h_now h (w_calls w)) policy root p) w)" for k c root p
  proof -
    have "io_keeps R (io_bind (io_lift (transportPolicy h r)) (\<lambda>policy. resolve_from h r k c n policy root p))" for n
      by (intro keeps_bind keeps_lift keeps_from)
    then show ?thesis by (simp add: io_keeps_def)
  qed
  then have "io_keeps R (io_then (ensureRuntimeCacheDirectory (h_env h) root q) (\<lambda>w. io_bind (io_lift (transportPolicy h r))
      (\<lambda>policy. resolve_from h r k c (h_now h (w_calls w)) policy root p) w))" for k c root p q
    by (rule keeps_then[OF R_ensure])
  then show ?thesis
    unfolding resolveRuntimePath_def Let_def
    by (intro keeps_then[OF keeps_guard] keeps_bind[OF keeps_wrap[OF keeps_lift]] keeps_bind[OF keeps_lift])
      (cases "expectedRuntimePath h r", simp_all)
qed

lemma keeps_execution: "io_keeps R (resolveRuntimeExecution h r key flags)"
proof -
  have "io_keeps R (execute_resolved h r p m)" for p m
    unfolding io_keeps_def execute_resolved_def
    using keeps_then[OF keeps_wrap[OF keeps_lift] R_execute] by (simp add: io_keeps_def)
  then show ?thesis
    unfolding resolveRuntimeExecution_def
    by (intro keeps_bind[OF keeps_path], cases "expectedRuntimePath h r")
      (simp_all add: keeps_fail keeps_bind[OF keeps_wrap[OF R_sidecar]])
qed

end

interpretation files: resolver_requests "same_open S" h r "\<lambda>_. True" for S h r
  by unfold_locales
    (auto intro!: same_readSidecar same_verify same_ensure same_writeSidecar same_install same_prepare
      dest!: send_effect(2) simp: same_open_def close_body_def)

interpretation bodies: resolver_requests same_bodies h r "\<lambda>_. True" for h r
  by unfold_locales
    (auto intro!: bodies.keeps_readSidecar bodies.keeps_verify bodies.keeps_ensure bodies.keeps_writeSidecar
      bodies.keeps_install bodies.keeps_prepare dest!: send_effect(1) simp: same_bodies_def close_body_def)

interpretation requests: resolver_requests "sent (allowed_request h r)" h r "allowed_request h r" for h r
  by unfold_locales
    (auto intro!: net.keeps_readSidecar net.keeps_verify net.keeps_ensure net.keeps_writeSidecar
      net.keeps_install net.keeps_prepare dest!: send_effect(3) simp: sent_def close_body_def)

section \<open>Agents\<close>

context silent begin

lemma keeps_offline_from: "io_keeps R (resolve_from h r key True now policy root p)"
proof -
  define fresh :: "path io" where "fresh =
     io_fail ''Agent requires a preinstalled runtime with a valid publisher signature and artifact hash; provision it through an authorized coordinator first''"
  have fresh: "io_keeps R fresh" unfolding fresh_def by (rule keeps_fail)
  then have "io_keeps R (case checked of Inr _ \<Rightarrow> io_return p | Inl _ \<Rightarrow> fresh)" for checked :: "unit res"
    by (cases checked) simp_all
  then have "io_keeps R (io_bind (io_try (verifyRuntimeArtifactFile (h_crypto h) (h_env h) p d)) (\<lambda>checked.
      case checked of Inr _ \<Rightarrow> io_return p | Inl _ \<Rightarrow> fresh))" for d
    by (intro keeps_bind keeps_try keeps_verify)
  with fresh have "io_keeps R (case found of Inl _ \<Rightarrow> fresh
      | Inr m \<Rightarrow> if is_error (validateArtifactURL (h_net h) policy (DownloadURL (Claims m))) then fresh
          else if is_error (verifyRuntimeManifest h m (rr_config r) now) then fresh
          else io_bind (io_try (verifyRuntimeArtifactFile (h_crypto h) (h_env h) p (SHA256 (Claims m)))) (\<lambda>checked.
            case checked of Inr _ \<Rightarrow> io_return p | Inl _ \<Rightarrow> fresh))" for found
    by (cases found) simp_all
  then show ?thesis
    unfolding resolve_from_def Let_def if_True fresh_def[symmetric] by (intro keeps_bind keeps_try keeps_readSidecar)
qed

lemma keeps_offline_path:
  assumes "cached_only key flags"
  shows "io_keeps R (resolveRuntimePath h r key flags)"
proof -
  have "io_keeps R (\<lambda>w. io_bind (io_lift (transportPolicy h r))
      (\<lambda>policy. resolve_from h r k True (h_now h (w_calls w)) policy root p) w)" for k root p
  proof -
    have "io_keeps R (io_bind (io_lift (transportPolicy h r)) (\<lambda>policy. resolve_from h r k True n policy root p))" for n
      by (intro keeps_bind keeps_lift keeps_offline_from)
    then show ?thesis by (simp add: io_keeps_def)
  qed
  then have "io_keeps R (io_then (ensureRuntimeCacheDirectory (h_env h) root q) (\<lambda>w. io_bind (io_lift (transportPolicy h r))
      (\<lambda>policy. resolve_from h r k True (h_now h (w_calls w)) policy root p) w))" for k root p q
    by (rule keeps_then[OF keeps_ensure])
  then show ?thesis
    using assms unfolding resolveRuntimePath_def Let_def
    by (intro keeps_then[OF keeps_guard] keeps_bind[OF keeps_wrap[OF keeps_lift]] keeps_bind[OF keeps_lift])
      (cases "expectedRuntimePath h r", simp_all)
qed

lemma keeps_offline:
  assumes "cached_only key flags"
  shows "io_keeps R (resolveRuntimeExecution h r key flags)"
proof -
  have "io_keeps R (io_then (io_wrap l (io_lift v)) (prepareRuntimeExecutionCopy cr env p d None))" for l v cr env p d
    by (intro keeps_then keeps_wrap keeps_lift keeps_prepare) simp
  then have "io_keeps R (execute_resolved h r p m)" for p m
    unfolding io_keeps_def execute_resolved_def by blast
  then show ?thesis
    unfolding resolveRuntimeExecution_def
    by (intro keeps_bind[OF keeps_offline_path[OF assms]], cases "expectedRuntimePath h r")
      (simp_all add: keeps_fail keeps_bind[OF keeps_wrap[OF keeps_readSidecar]])
qed

end

section \<open>Manifests that were read\<close>

lemma decoded_content: "decode_content source bytes = Inr m \<Longrightarrow> parseRuntimeManifestV2 (canonicalJSON m) = Inr m"
proof -
  assume "decode_content source bytes = Inr m"
  then have parsed: "parseRuntimeManifestV2 bytes = Inr m" by (auto simp: decode_content_def split: if_splits sum.splits)
  then have "canonicalJSON m = bytes" by (rule parse_facts) blast
  with parsed show ?thesis by simp
qed

lemma read_sidecar_parsed:
  "readRuntimeManifestSidecar env p w = (Inr m, w') \<Longrightarrow> parseRuntimeManifestV2 (canonicalJSON m) = Inr m"
  by (auto simp: readRuntimeManifestSidecar_def read_sidecar_def decodeRuntimeManifest_def io_Inr dest: decoded_content)

lemma verified_manifest:
  assumes "verifyRuntimeManifest h m config now = Inr ()" and "parseRuntimeManifestV2 (canonicalJSON m) = Inr m"
  shows "\<exists>keys. configuredRuntimePublisherKeyring h = Inr keys \<and>
    verifyRuntimeManifestV2 (h_crypto h) (Inr m) config keys now = Inr m"
proof -
  obtain keys m' where k: "configuredRuntimePublisherKeyring h = Inr keys"
    "verifyRuntimeManifestV2 (h_crypto h) (Inr m) config keys now = Inr m'"
    using assms by (auto simp: verifyRuntimeManifest_def split: sum.splits if_splits)
  moreover have "m' = m" using verify_accepts[OF k(2)] by simp
  ultimately show ?thesis by blast
qed

section \<open>Properties\<close>

text \<open>
  Whatever fails and whatever other processes do, resolving an execution leaves exactly the files
  and response bodies open that were open before.
\<close>

theorem resolving_closes_everything:
  "w_open (snd (resolveRuntimeExecution h r key flags w)) = w_open w \<and>
   w_bodies (snd (resolveRuntimeExecution h r key flags w)) = w_bodies w"
  using files.keeps_execution[of "{}" h r key flags] bodies.keeps_execution[of h r key flags]
  by (auto simp: io_keeps_def same_open_def same_bodies_def)

text \<open>
  An agent that may only use its cache never uses the network: without a runner key, resolving
  sends no request, whether it succeeds or not.
\<close>

theorem agent_stays_offline:
  assumes "cached_only key flags"
  shows "w_requests (snd (resolveRuntimeExecution h r key flags w)) = w_requests w"
proof -
  have "sent (\<lambda>_. False) w (snd (resolveRuntimeExecution h r key flags w))"
    using net.keeps_offline[OF assms] by (simp add: io_keeps_def)
  then show ?thesis by (auto simp: sent_def list_all_iff)
qed

lemma agent_stays_offline_witness:
  "\<forall>h r w. w_requests (snd (resolveRuntimeExecution h r ''  '' [True] w)) = w_requests w"
  by (intro allI agent_stays_offline) (simp add: cached_only_def trim_space_def trim_by.simps space_runes_def)

end
