(* ===== verification/Float64.thy ===== *)
theory Float64
  imports Complex_Main "HOL-Library.Log_Nat"
begin

text \<open>
  Go's \<open>float64\<close>: a finite value is the rational it denotes, with one zero; the infinities and
  NaN are values of their own. An operation computes the exact result and rounds it to the
  nearest representable value, ties to even, as IEEE 754 does.
\<close>

datatype float64 = Fin rat | PInf | NInf | NaN

text \<open>The exponent of the largest power of two that is not above \<open>x\<close>, for positive \<open>x\<close>.\<close>

definition log2_floor :: "rat \<Rightarrow> int" where
  "log2_floor x =
     (case quotient_of x of
        (n, d) \<Rightarrow>
          let e = int (floorlog 2 (nat n)) - int (floorlog 2 (nat d)) in
          if 2 powi e \<le> x then e else e - 1)"

definition round_half_even :: "rat \<Rightarrow> int" where
  "round_half_even x =
     (let f = \<lfloor>x\<rfloor>; r = x - of_int f in
      if r < 1 / 2 then f else if 1 / 2 < r then f + 1 else if even f then f else f + 1)"

definition round64 :: "rat \<Rightarrow> float64" where
  "round64 x =
     (if x = 0 then Fin 0
      else
        let e = max (log2_floor \<bar>x\<bar> - 52) (- 1074);
            m = round_half_even (\<bar>x\<bar> / 2 powi e);
            v = of_int m * 2 powi e
        in if 2 ^ 1024 \<le> v then (if 0 < x then PInf else NInf)
           else Fin (if 0 < x then v else - v))"

definition f64_of_int :: "int \<Rightarrow> float64" where
  "f64_of_int i = round64 (of_int i)"

text \<open>Comparisons; every comparison with NaN is false.\<close>

fun f64_le :: "float64 \<Rightarrow> float64 \<Rightarrow> bool" where
  "f64_le NaN y = False"
| "f64_le x NaN = False"
| "f64_le NInf y = True"
| "f64_le x PInf = True"
| "f64_le x NInf = False"
| "f64_le PInf y = False"
| "f64_le (Fin a) (Fin b) = (a \<le> b)"

fun f64_lt :: "float64 \<Rightarrow> float64 \<Rightarrow> bool" where
  "f64_lt NaN y = False"
| "f64_lt x NaN = False"
| "f64_lt x NInf = False"
| "f64_lt NInf y = True"
| "f64_lt PInf y = False"
| "f64_lt x PInf = True"
| "f64_lt (Fin a) (Fin b) = (a < b)"

text \<open>Division, where the divisor is positive, which is how the code divides.\<close>

fun f64_div_pos :: "float64 \<Rightarrow> float64 \<Rightarrow> float64" where
  "f64_div_pos (Fin a) (Fin b) = round64 (a / b)"
| "f64_div_pos (Fin a) PInf = Fin 0"
| "f64_div_pos PInf (Fin b) = PInf"
| "f64_div_pos NInf (Fin b) = NInf"
| "f64_div_pos x y = NaN"

text \<open>
  The conversion to \<open>int\<close> truncates. When the truncated value is not an \<open>int\<close> the language
  leaves the result to the implementation: \<open>conv\<close> says what that is.
\<close>

definition truncate :: "rat \<Rightarrow> int" where
  "truncate x = (if 0 \<le> x then \<lfloor>x\<rfloor> else - \<lfloor>- x\<rfloor>)"

definition int_range :: "int \<Rightarrow> bool" where
  "int_range i \<longleftrightarrow> - (2 ^ 63) \<le> i \<and> i < 2 ^ 63"

definition f64_to_int :: "(float64 \<Rightarrow> int) \<Rightarrow> float64 \<Rightarrow> int" where
  "f64_to_int conv x =
     (case x of Fin a \<Rightarrow> if int_range (truncate a) then truncate a else conv x | _ \<Rightarrow> conv x)"

lemma f64_le_refl: "x \<noteq> NaN \<Longrightarrow> f64_le x x"
  by (cases x) auto

lemma f64_lt_not_le: "f64_lt x y \<Longrightarrow> \<not> f64_le y x"
  by (cases x; cases y) auto

lemma f64_total: "x \<noteq> NaN \<Longrightarrow> y \<noteq> NaN \<Longrightarrow> f64_lt x y \<or> f64_le y x"
  by (cases x; cases y) auto

lemma truncate_nonneg: "0 \<le> x \<Longrightarrow> 0 \<le> truncate x"
  by (simp add: truncate_def)

text \<open>A value that is an integer below two to the 53 is represented exactly.\<close>

lemma round_half_even_of_int [simp]: "round_half_even (of_int i) = i"
  by (simp add: round_half_even_def)

end
