(* ===== verification/Go_Values.thy ===== *)
theory Go_Values
  imports Go_Prelude Float64
begin

text \<open>
  Values of Go's type \<open>any\<close>, as far as the SDK looks into them with type switches, and references:
  a function value, an interface value or a pointer that the SDK only stores, compares with
  nil and hands back is a \<open>go_ref\<close>; what a stored function does is a parameter of the definitions
  that call it. A \<open>map[string]any\<close> is an association list with distinct keys.
\<close>

type_synonym go_ref = nat

text \<open>The types of the function values that the type switches of the SDK know.\<close>

datatype go_func_type =
    ScenarioStatsPredicate
  | LoadStrikeScenarioStatsPredicate
  | LoadStrikeDetailedScenarioStatsPredicate
  | StepStatsPredicate
  | LoadStrikeStepStatsPredicate
  | LoadStrikeDetailedStepStatsPredicate
  | MetricStatsPredicate
  | LoadStrikeMetricStatsPredicate
  | StepContextRun
  | ScenarioContextRun
  | StepContextRunErr
  | ScenarioContextRunErr
  | HookErr
  | InitFuncNamed
  | InitContextErr
  | HookPlain
  | InitContextPlain
  | HookTask
  | AsyncInitFuncNamed
  | InitContextTask
  | OtherFunc string

datatype go_any =
    AnyNil
  | AnyBool bool
  | AnyInt int
  | AnyInt64 int
  | AnyInt32 int
  | AnyFloat64 float64
  | AnyFloat32 float64
  | AnyDuration int
  | AnyNumber string
  | AnyString string
  | AnyBytes string
  | AnySlice "go_any list"
  | AnyMap "(string \<times> go_any) list"
  | AnyFunc go_func_type "go_ref option"
  | AnyOther string go_ref

text \<open>
  A function value the SDK keeps: one it was given, or the closure it makes to adapt one of
  another type.
\<close>

datatype go_closure = Plain go_ref | Adapt go_func_type "go_ref option"

text \<open>Package \<open>fmt\<close> on dynamic values: what \<open>fmt.Sprint\<close>, \<open>fmt.Sscan\<close> and the verb \<open>%T\<close> give.\<close>

record go_fmt =
  fmt_sprint :: "go_any \<Rightarrow> string"
  fmt_sscan :: "string \<Rightarrow> float64 option"
  fmt_type :: "go_any \<Rightarrow> string"
  fmt_number :: "string \<Rightarrow> float64"

text \<open>\<open>asString\<close> and \<open>asDouble\<close> of \<open>runtime_facade_support.go\<close>.\<close>

definition asString :: "go_fmt \<Rightarrow> go_any \<Rightarrow> string" where
  "asString fm v =
     (case v of AnyNil \<Rightarrow> [] | AnyString s \<Rightarrow> s | _ \<Rightarrow> fmt_sprint fm v)"

definition asDouble :: "go_fmt \<Rightarrow> go_any \<Rightarrow> float64" where
  "asDouble fm v =
     (case v of
        AnyFloat64 f \<Rightarrow> f
      | AnyInt i \<Rightarrow> f64_of_int i
      | AnyInt64 i \<Rightarrow> f64_of_int i
      | AnyNumber n \<Rightarrow> fmt_number fm n
      | _ \<Rightarrow> (case fmt_sscan fm (asString fm v) of Some f \<Rightarrow> f | None \<Rightarrow> Fin 0))"

text \<open>\<open>maxInt\<close> of \<open>simulations.go\<close>: not the maximum, but the value when it is positive.\<close>

definition maxInt :: "int \<Rightarrow> int \<Rightarrow> int" where
  "maxInt value fallback = (if value > 0 then value else fallback)"

lemma maxInt_pos: "0 < fallback \<Longrightarrow> 0 < maxInt value fallback"
  by (simp add: maxInt_def)

lemma maxInt_ge: "fallback \<le> 1 \<Longrightarrow> value \<le> maxInt value fallback \<or> value \<le> 0"
  by (simp add: maxInt_def)

end
