(* ===== verification/Runtime_Command.thy ===== *)
theory Runtime_Command
  imports Artifact_Resolver Go_Values
begin

text \<open>
  Running the engine as a child process (\<open>runtime_launcher.go\<close>): its output goes to two spool files,
  of which one may be forwarded to the terminal and the ends are kept for a diagnostic, both with the
  runner key redacted.

  The child is a function: for a command and the files it finds it says what it writes to its two
  outputs, how it ends and what it leaves of the files. Reading a spool file to its end is one call,
  which fails as a whole; the size of the file and its content are of the same moment.
\<close>

section \<open>The child process\<close>

record command =
  cmd_Path :: path
  cmd_Args :: "string list"
  cmd_Stdin :: string

record child_end =
  ce_stdout :: string
  ce_stderr :: string
  ce_error :: "go_error option"
  ce_files :: files

type_synonym child = "command \<Rightarrow> files \<Rightarrow> child_end"

text \<open>\<open>cmd.Run\<close> with both outputs to open files, whose offsets the child shares.\<close>

definition cmd_Run :: "'u surroundings \<Rightarrow> child \<Rightarrow> command \<Rightarrow> nat \<Rightarrow> nat \<Rightarrow> go_error option io" where
  "cmd_Run env child cmd out err w =
     (let k = w_calls w; e = child cmd (w_files w);
          w = w\<lparr>w_files := ce_files e, w_calls := Suc k\<rparr>;
          w = snd (write_at out (tick env k) (ce_stdout e) w);
          w = snd (write_at err (tick env k) (ce_stderr e) w)
      in (Inr (ce_error e), w))"

section \<open>Whole files\<close>

definition os_ReadAll :: "'u surroundings \<Rightarrow> nat \<Rightarrow> string io" where
  "os_ReadAll env fd =
     sys env (\<lambda>_. with_file fd (\<lambda>file. with_node (Some (of_node file)) (\<lambda>i n. io_return (content (nd_kind n)))))"

definition os_ReadFile :: "'u surroundings \<Rightarrow> path \<Rightarrow> string io" where
  "os_ReadFile env p = io_bind (os_Open env p) (\<lambda>fd. io_defer (os_Close env fd) (os_ReadAll env fd))"

text \<open>\<open>O_WRONLY|O_CREATE|O_TRUNC\<close>.\<close>

definition os_OpenTruncate :: "'u surroundings \<Rightarrow> path \<Rightarrow> u32 \<Rightarrow> nat io" where
  "os_OpenTruncate env p mode =
     sys env (\<lambda>k w.
       case follow (w_files w) p of
         None \<Rightarrow> io_bind (new_entry env k p (Regular []) mode) (open_fd env k) w
       | Some i \<Rightarrow>
           with_node (Some i) (\<lambda>i n w.
             if type_of (nd_kind n) \<noteq> TRegular then (Inl ''is not a regular file'', w)
             else open_fd env k i (set_node i (n\<lparr>nd_kind := Regular [], nd_mtime := tick env k\<rparr>) w)) w)"

definition os_WriteFile :: "'u surroundings \<Rightarrow> path \<Rightarrow> string \<Rightarrow> u32 \<Rightarrow> unit io" where
  "os_WriteFile env p s mode =
     io_bind (os_OpenTruncate env p mode) (\<lambda>fd.
     io_bind (io_try (os_Write env fd s)) (\<lambda>written.
     io_bind (io_try (os_Close env fd)) (\<lambda>closed.
     case written of Inl e \<Rightarrow> io_fail e | Inr _ \<Rightarrow> io_lift closed)))"

section \<open>Spool files\<close>

definition spool_reader :: "'u surroundings \<Rightarrow> path \<Rightarrow> reader io" where
  "spool_reader env p =
     io_bind (os_Open env p) (\<lambda>fd. io_defer (os_Close env fd)
       (io_bind (io_try (os_ReadAll env fd)) (\<lambda>r.
        io_return (case r of Inl e \<Rightarrow> [([], Some (ReadFailed e))] | Inr s \<Rightarrow> chunks_of (32 * 1024) s))))"

text \<open>
  What was written to the destination, and the error. \<open>copyRuntimeCommandOutput\<close> always returns
  (property \<open>copy_output_is_redaction\<close>), so that the last case does not happen.
\<close>

definition copyRuntimeCommandSpool ::
  "'u surroundings \<Rightarrow> path \<Rightarrow> writer \<Rightarrow> string \<Rightarrow> (string \<times> go_error option) io" where
  "copyRuntimeCommandSpool env p destination runnerKey =
     io_bind (io_try (spool_reader env p)) (\<lambda>r. io_return
       (case r of
          Inl e \<Rightarrow> ([], Some e)
        | Inr source \<Rightarrow>
            (case copyRuntimeCommandOutput source destination runnerKey of
               Some (out, e) \<Rightarrow> (out, e)
             | None \<Rightarrow> ([], None))))"

definition spool_tail :: "'u surroundings \<Rightarrow> path \<Rightarrow> string \<Rightarrow> string io" where
  "spool_tail env p runnerKey =
     io_bind (io_try (io_bind (os_Open env p) (\<lambda>fd. io_defer (os_Close env fd)
       (io_bind (os_Fstat env fd) (\<lambda>_. os_ReadAll env fd))))) (\<lambda>r.
     io_return (readRuntimeCommandSpoolTail (case r of Inl e \<Rightarrow> None | Inr s \<Rightarrow> Some s) runnerKey))"

definition readRuntimeCommandDiagnostic ::
  "'u surroundings \<Rightarrow> string \<Rightarrow> path \<Rightarrow> path \<Rightarrow> string \<Rightarrow> string io" where
  "readRuntimeCommandDiagnostic env loggerTarget stdoutPath stderrPath runnerKey =
     (let target = to_lower (trim_space loggerTarget) in
      if target = ''stdout'' then spool_tail env stderrPath runnerKey
      else if target = ''stderr'' then spool_tail env stdoutPath runnerKey
      else io_bind (spool_tail env stdoutPath runnerKey) (\<lambda>stdout.
           io_bind (spool_tail env stderrPath runnerKey) (\<lambda>stderr. io_return
             (if stdout = [] then stderr else if stderr = [] then stdout
              else stdout @ [CHR 0x0A] @ stderr))))"

section \<open>Running and forwarding\<close>

text \<open>A destination is what it will answer to the writes, or nil.\<close>

record runtimeCommandOutputOptions =
  co_spoolDirectory :: path
  co_loggerTarget :: string
  co_runnerKey :: string
  co_stdoutDestination :: "writer option"
  co_stderrDestination :: "writer option"

text \<open>What was written to the two destinations.\<close>

record forwarded =
  fw_stdout :: string
  fw_stderr :: string

definition nothing_forwarded :: forwarded where
  "nothing_forwarded = \<lparr>fw_stdout = [], fw_stderr = []\<rparr>"

definition forward_error :: "string \<Rightarrow> go_error option \<Rightarrow> go_error option" where
  "forward_error label e = map_option (\<lambda>e. label @ e) e"

definition forwardRuntimeCommandLoggerOutput ::
  "'u surroundings \<Rightarrow> runtimeCommandOutputOptions \<Rightarrow> path \<Rightarrow> path \<Rightarrow> (go_error option \<times> forwarded) io" where
  "forwardRuntimeCommandLoggerOutput env options stdoutPath stderrPath =
     (let target = to_lower (trim_space (co_loggerTarget options)) in
      if target = ''stdout'' then
        (case co_stdoutDestination options of
           None \<Rightarrow> io_return (Some ''runtime stdout destination must be provided'', nothing_forwarded)
         | Some destination \<Rightarrow>
             io_bind (copyRuntimeCommandSpool env stdoutPath destination (co_runnerKey options)) (\<lambda>(out, e).
             io_return (forward_error ''forward runtime stdout: '' e, nothing_forwarded\<lparr>fw_stdout := out\<rparr>)))
      else if target = ''stderr'' then
        (case co_stderrDestination options of
           None \<Rightarrow> io_return (Some ''runtime stderr destination must be provided'', nothing_forwarded)
         | Some destination \<Rightarrow>
             io_bind (copyRuntimeCommandSpool env stderrPath destination (co_runnerKey options)) (\<lambda>(out, e).
             io_return (forward_error ''forward runtime stderr: '' e, nothing_forwarded\<lparr>fw_stderr := out\<rparr>)))
      else io_return (None, nothing_forwarded))"

text \<open>
  The diagnostic, the error and what was forwarded. A spool file is closed once, right after the run
  or, when the second one cannot be made, on return; the deferred \<open>Close\<close> of a closed file does
  nothing. Both files are removed on return.
\<close>

record command_outcome =
  oc_diagnostic :: string
  oc_error :: "go_error option"
  oc_forwarded :: forwarded

definition outcome :: "string \<Rightarrow> go_error option \<Rightarrow> forwarded \<Rightarrow> command_outcome" where
  "outcome d e f = \<lparr>oc_diagnostic = d, oc_error = e, oc_forwarded = f\<rparr>"

definition join_errors :: "go_error \<Rightarrow> go_error option \<Rightarrow> go_error" where
  "join_errors e f = (case f of None \<Rightarrow> e | Some g \<Rightarrow> e @ [CHR 0x0A] @ g)"

definition finish_command ::
  "'u surroundings \<Rightarrow> runtimeCommandOutputOptions \<Rightarrow> path \<Rightarrow> path \<Rightarrow> go_error option \<Rightarrow> unit res \<Rightarrow> unit res
     \<Rightarrow> command_outcome io" where
  "finish_command env options stdoutPath stderrPath executionErr stdoutClose stderrClose =
     (case executionErr of
        Some e \<Rightarrow>
          if isl stdoutClose \<or> isl stderrClose then io_return (outcome [] (Some e) nothing_forwarded)
          else io_bind (readRuntimeCommandDiagnostic env (co_loggerTarget options) stdoutPath stderrPath
                 (co_runnerKey options)) (\<lambda>diagnostic.
               io_bind (forwardRuntimeCommandLoggerOutput env options stdoutPath stderrPath) (\<lambda>(forwardErr, f).
               io_return (outcome diagnostic (Some (join_errors e forwardErr)) f)))
      | None \<Rightarrow>
         (case stdoutClose of
            Inl e \<Rightarrow> io_return (outcome [] (Some (''close runtime stdout spool: '' @ e)) nothing_forwarded)
          | Inr _ \<Rightarrow>
         (case stderrClose of
            Inl e \<Rightarrow> io_return (outcome [] (Some (''close runtime stderr spool: '' @ e)) nothing_forwarded)
          | Inr _ \<Rightarrow>
             io_bind (forwardRuntimeCommandLoggerOutput env options stdoutPath stderrPath) (\<lambda>(forwardErr, f).
             io_return (outcome [] forwardErr f)))))"

definition run_spooled ::
  "'u surroundings \<Rightarrow> child \<Rightarrow> command \<Rightarrow> runtimeCommandOutputOptions \<Rightarrow> path \<Rightarrow> nat \<Rightarrow> path \<Rightarrow> nat
     \<Rightarrow> command_outcome io" where
  "run_spooled env child cmd options stdoutPath out stderrPath err =
     io_bind (cmd_Run env child cmd out err) (\<lambda>executionErr.
     io_bind (io_try (os_Close env out)) (\<lambda>stdoutClose.
     io_bind (io_try (os_Close env err)) (\<lambda>stderrClose.
     finish_command env options stdoutPath stderrPath executionErr stdoutClose stderrClose)))"

definition executeRuntimeCommand ::
  "'u surroundings \<Rightarrow> child \<Rightarrow> command \<Rightarrow> runtimeCommandOutputOptions \<Rightarrow> command_outcome io" where
  "executeRuntimeCommand env child cmd options =
     io_bind (io_wrap ''create runtime stdout spool: ''
       (os_CreateTemp env (co_spoolDirectory options) ''runtime-stdout-'')) (\<lambda>(stdoutPath, out).
     io_defer (os_Remove env stdoutPath)
       (io_bind (io_on_error (os_Close env out) (io_wrap ''create runtime stderr spool: ''
          (os_CreateTemp env (co_spoolDirectory options) ''runtime-stderr-''))) (\<lambda>(stderrPath, err).
        io_defer (os_Remove env stderrPath) (run_spooled env child cmd options stdoutPath out stderrPath err))))"

definition runtimeLoggerTarget :: "(string \<times> go_any) list \<Rightarrow> string" where
  "runtimeLoggerTarget config =
     to_lower (trim_space (case map_of config ''target'' of Some (AnyString s) \<Rightarrow> s | _ \<Rightarrow> []))"

text \<open>The error of a run, from the error of the process and its diagnostic. Clearing buffers is not modelled.\<close>

definition newRuntimeFailure :: "go_error option \<Rightarrow> string \<Rightarrow> string list \<Rightarrow> go_error" where
  "newRuntimeFailure executionError output secrets =
     (let message = sanitizeRuntimeDiagnostic output secrets;
          executionMessage = (case executionError of
             None \<Rightarrow> ''unknown child-process failure''
           | Some e \<Rightarrow> sanitizeRuntimeDiagnostic e secrets)
      in if message = [] then ''loadstrike runtime failed: '' @ executionMessage
         else ''loadstrike runtime failed: '' @ executionMessage @ '': '' @ message)"

definition newAutopilotRuntimeFailure :: "go_error option \<Rightarrow> string \<Rightarrow> string \<Rightarrow> go_error" where
  "newAutopilotRuntimeFailure executionError output runnerKey =
     (let message = sanitizeRuntimeDiagnostic output [runnerKey];
          executionMessage = (case executionError of
             None \<Rightarrow> ''unknown child-process failure''
           | Some e \<Rightarrow> sanitizeRuntimeDiagnostic e [runnerKey])
      in if message = [] then ''loadstrike autopilot runtime failed: '' @ executionMessage
         else ''loadstrike autopilot runtime failed: '' @ executionMessage @ '': '' @ message)"

section \<open>No requests\<close>

context silent begin

lemma silent_write_at: "R w (snd (write_at fd t s w))"
  by (rule R_requests)
    (simp_all add: write_at_def with_file_def with_node_def set_offset_def set_node_def Let_def split: option.splits)

lemma keeps_cmd_Run [intro]: "io_keeps R (cmd_Run env child cmd out err)"
  unfolding io_keeps_def cmd_Run_def Let_def snd_conv
  by (auto intro!: R_trans [OF _ R_trans [OF silent_write_at silent_write_at]] R_requests)

lemma keeps_os_ReadAll [intro]: "io_keeps R (os_ReadAll env fd)"
  unfolding os_ReadAll_def
  by (rule keeps_sys) (auto simp: with_file_def with_node_def io_return_def R_refl split: option.splits)

lemma keeps_os_ReadFile [intro]: "io_keeps R (os_ReadFile env p)"
  unfolding os_ReadFile_def by (intro silent_rules keeps_os_ReadAll)

lemma keeps_os_OpenTruncate [intro]: "io_keeps R (os_OpenTruncate env p mode)"
  unfolding os_OpenTruncate_def
  by (rule keeps_sys) (auto simp: with_node_def new_entry_def open_fd_def set_node_def io_bind_def io_return_def Let_def
    R_refl split: option.splits prod.splits sum.splits if_splits intro!: R_requests)

lemma keeps_os_WriteFile [intro]: "io_keeps R (os_WriteFile env p s mode)"
  unfolding os_WriteFile_def by (auto intro!: silent_rules keeps_os_OpenTruncate split: sum.splits)

lemma keeps_spools [intro]:
  "io_keeps R (copyRuntimeCommandSpool env p d key)" "io_keeps R (spool_tail env p key)"
  unfolding copyRuntimeCommandSpool_def spool_reader_def spool_tail_def
  by (intro silent_rules keeps_os_ReadAll)+

lemma keeps_finish_command [intro]: "io_keeps R (finish_command env options p q e a b)"
  unfolding finish_command_def readRuntimeCommandDiagnostic_def forwardRuntimeCommandLoggerOutput_def Let_def
  by (auto intro!: step_rules keeps_spools split: option.splits sum.splits)

lemma keeps_executeRuntimeCommand [intro]: "io_keeps R (executeRuntimeCommand env child cmd options)"
  unfolding executeRuntimeCommand_def run_spooled_def case_prod_unfold
  by (intro silent_rules keeps_cmd_Run keeps_finish_command)

end

section \<open>Nothing stays open\<close>

lemma open_write_at: "fd' \<noteq> fd \<Longrightarrow> w_open (snd (write_at fd t s w)) fd' = w_open w fd'"
  by (simp add: write_at_def with_file_def with_node_def set_offset_def set_node_def Let_def split: option.splits)

lemma same_open_Run: "io_keeps (same_open {out, err}) (cmd_Run env child cmd out err)"
  by (simp add: io_keeps_def cmd_Run_def same_open_def Let_def open_write_at)

lemma io_try_total: "\<exists>r v. io_try m w = (Inr r, v)"
  by (cases "m w") (simp add: io_try_def)

lemma closed_try: "w_open (snd (io_try (os_Close env fd) w)) fd = None"
  using closes_Close [of "{}" fd env] by (auto simp: closes_def io_try_def split: prod.splits) (metis snd_conv)

lemma keeps_try_Close: "io_keeps (same_open {fd}) (io_try (os_Close env fd))"
  using closes_Close [of "{}" fd env] by (auto simp: closes_def)

lemma keeps_ReadAll: "io_keeps (same_open S) (os_ReadAll env fd)"
  unfolding os_ReadAll_def
  by (rule same.keeps_sys) (auto simp: with_file_def with_node_def io_return_def same_open_def split: option.splits)

lemma keeps_opened:
  assumes "\<And>fd. io_keeps (same_open (insert fd S)) (m fd)"
  shows "io_keeps (same_open S) (io_bind (os_Open env p) (\<lambda>fd. io_defer (os_Close env fd) (m fd)))"
  by (rule keeps_open_close [OF opens_calls(2)]) (rule closes_defer [OF assms])

lemma keeps_ReadFile [intro]: "io_keeps (same_open S) (os_ReadFile env p)"
  unfolding os_ReadFile_def by (intro keeps_opened keeps_ReadAll)

lemma keeps_copySpool [intro]: "io_keeps (same_open S) (copyRuntimeCommandSpool env p d key)"
  unfolding copyRuntimeCommandSpool_def spool_reader_def
  by (intro same.step_rules keeps_opened keeps_ReadAll)

lemma keeps_spool_tail [intro]: "io_keeps (same_open S) (spool_tail env p key)"
  unfolding spool_tail_def by (intro same.keeps_rules keeps_opened keeps_ReadAll)

lemma keeps_WriteFile [intro]: "io_keeps (same_open S) (os_WriteFile env p s mode)"
proof -
  have opened: "opens S (\<lambda>fd. fd) (os_OpenTruncate env p mode)"
    unfolding opens_def os_OpenTruncate_def sys_def
    by (auto simp: with_node_def new_entry_def open_fd_def set_node_def io_bind_def io_fail_def Let_def same_open_def
        split: option.splits prod.splits sum.splits if_splits)
  have "closes S fd (io_bind (io_try (os_Write env fd s)) (\<lambda>written.
      io_bind (io_try (os_Close env fd)) (\<lambda>closed. case written of Inl e \<Rightarrow> io_fail e | Inr _ \<Rightarrow> io_lift closed)))" for fd
    unfolding closes_def
  proof
    have wr: "io_keeps (same_open (insert fd S)) (io_try (os_Write env fd s))"
      by (rule same_open_mono [OF same.keeps_try [OF opened_Write]]) auto
    have cl: "io_keeps (same_open (insert fd S)) (io_try (os_Close env fd))"
      by (rule same_open_mono [OF keeps_try_Close]) auto
    show "io_keeps (same_open (insert fd S)) (io_bind (io_try (os_Write env fd s)) (\<lambda>written.
      io_bind (io_try (os_Close env fd)) (\<lambda>closed. case written of Inl e \<Rightarrow> io_fail e | Inr _ \<Rightarrow> io_lift closed)))"
      by (intro same.keeps_bind wr cl) (auto split: sum.splits)
    show "\<forall>w. w_open (snd (io_bind (io_try (os_Write env fd s)) (\<lambda>written.
      io_bind (io_try (os_Close env fd)) (\<lambda>closed. case written of Inl e \<Rightarrow> io_fail e | Inr _ \<Rightarrow> io_lift closed)) w)) fd = None"
    proof
      fix w
      obtain a v where a: "io_try (os_Write env fd s) w = (Inr a, v)"
        using io_try_total by blast
      obtain b u where b: "io_try (os_Close env fd) v = (Inr b, u)"
        using io_try_total by blast
      then have "w_open u fd = None"
        using closed_try [of env fd v] by simp
      then show "w_open (snd (io_bind (io_try (os_Write env fd s)) (\<lambda>written.
        io_bind (io_try (os_Close env fd)) (\<lambda>closed. case written of Inl e \<Rightarrow> io_fail e | Inr _ \<Rightarrow> io_lift closed)) w)) fd = None"
        by (auto simp: io_bind_def a b io_fail_def io_lift_def split: sum.splits)
    qed
  qed
  then show ?thesis
    unfolding os_WriteFile_def by (rule keeps_open_close [OF opened])
qed

lemma keeps_diagnostic [intro]: "io_keeps (same_open S) (readRuntimeCommandDiagnostic env t p q key)"
  unfolding readRuntimeCommandDiagnostic_def Let_def by (auto intro!: same.step_rules keeps_spool_tail)

lemma keeps_forward [intro]: "io_keeps (same_open S) (forwardRuntimeCommandLoggerOutput env options p q)"
  unfolding forwardRuntimeCommandLoggerOutput_def Let_def
  by (auto intro!: same.step_rules keeps_copySpool split: option.splits)

lemma keeps_finish [intro]: "io_keeps (same_open S) (finish_command env options p q e a b)"
  unfolding finish_command_def
  by (auto intro!: same.step_rules keeps_diagnostic keeps_forward split: option.splits sum.splits)

lemma Run_open: "fd \<noteq> out \<Longrightarrow> fd \<noteq> err \<Longrightarrow> w_open (snd (cmd_Run env child cmd out err w)) fd = w_open w fd"
  using same_open_Run [of out err env child cmd] by (simp add: io_keeps_def same_open_def)

lemma run_spooled_closes:
  "closes (insert out S) err (run_spooled env child cmd options p out q err)"
  "w_open (snd (run_spooled env child cmd options p out q err w)) out = None"
proof -
  have run: "io_keeps (same_open (insert err (insert out S))) (cmd_Run env child cmd out err)"
    by (rule same_open_mono [OF same_open_Run]) auto
  have close: "io_keeps (same_open (insert err (insert out S))) (io_try (os_Close env fd))" if "fd \<in> {out, err}" for fd
    by (rule same_open_mono [OF keeps_try_Close]) (use that in auto)
  have keeps: "io_keeps (same_open (insert err (insert out S))) (run_spooled env child cmd options p out q err)"
    unfolding run_spooled_def
    by (intro same.keeps_bind run close keeps_finish) auto
  have ends: "w_open (snd (run_spooled env child cmd options p out q err v)) fd = None" if "fd \<in> {out, err}" for v fd
  proof -
    obtain e v1 where 1: "cmd_Run env child cmd out err v = (Inr e, v1)"
      by (simp add: cmd_Run_def Let_def)
    obtain c1 v2 where 2: "io_try (os_Close env out) v1 = (Inr c1, v2)"
      using io_try_total by blast
    obtain c2 v3 where 3: "io_try (os_Close env err) v2 = (Inr c2, v3)"
      using io_try_total by blast
    have "w_open v2 out = None" "w_open v3 err = None"
      using closed_try [of env out v1] closed_try [of env err v2] 2 3 by simp_all
    moreover have "same_open {err} v2 v3"
      using keeps_try_Close 3 by (rule io_keepsD)
    moreover have "same_open {} v3 (snd (finish_command env options p q e c1 c2 v3))"
      using keeps_finish [of "{}" env options p q e c1 c2] by (simp add: io_keeps_def)
    ultimately have "w_open (snd (finish_command env options p q e c1 c2 v3)) fd = None"
      using that by (cases "out = err") (auto simp: same_open_def)
    then show ?thesis
      by (simp add: run_spooled_def io_bind_def 1 2 3)
  qed
  from keeps ends show "closes (insert out S) err (run_spooled env child cmd options p out q err)"
    by (simp add: closes_def)
  show "w_open (snd (run_spooled env child cmd options p out q err w)) out = None"
    by (rule ends) simp
qed

text \<open>A file that is closed when opening a second one fails, and otherwise by what works on both.\<close>

lemma closes_second:
  assumes m: "opens (insert out S) fd m" and f: "\<And>x. closes (insert out S) (fd x) (f x)"
    and out: "\<And>x w. w_open (snd (f x w)) out = None"
  shows "closes S out (io_bind (io_on_error (os_Close env out) m) f)"
proof -
  have "same_open (insert out S) w (snd (io_bind (io_on_error (os_Close env out) m) f w)) \<and>
      w_open (snd (io_bind (io_on_error (os_Close env out) m) f w)) out = None" for w
  proof (cases "m w")
    case (Pair r v)
    show ?thesis
    proof (cases r)
      case (Inl e)
      have "same_open (insert out S) w v"
        using opens_Inl [OF m] Pair Inl by simp
      moreover have "same_open (insert out S) v (snd (os_Close env out v))" "w_open (snd (os_Close env out v)) out = None"
        using closes_Close [of S out env] by (simp_all add: closes_def io_keeps_def)
      ultimately show ?thesis
        using Pair Inl by (auto simp: io_bind_def io_on_error_def intro: same.R_trans)
    next
      case (Inr x)
      have "fd x \<in> insert out S \<or> w_open w (fd x) = None" "same_open (insert (fd x) (insert out S)) w v"
        using opens_Inr [OF m] Pair Inr by simp_all
      moreover have "same_open (insert (fd x) (insert out S)) v (snd (f x v))" "w_open (snd (f x v)) (fd x) = None"
        using f [of x] by (simp_all add: closes_def io_keeps_def)
      ultimately have "same_open (insert out S) w (snd (f x v))"
        unfolding same_open_def by (metis insert_iff)
      then show ?thesis
        using Pair Inr out by (simp add: io_bind_def io_on_error_def)
    qed
  qed
  then show ?thesis
    by (simp add: closes_def io_keeps_def)
qed

lemma keeps_execute [intro]: "io_keeps (same_open S) (executeRuntimeCommand env child cmd options)"
proof -
  have second: "closes (insert out S) err (io_defer (os_Remove env q) (run_spooled env child cmd options p out q err))"
    "w_open (snd (io_defer (os_Remove env q) (run_spooled env child cmd options p out q err) w)) out = None" for p q out err w
  proof -
    have rm: "io_keeps (same_open {}) (os_Remove env q)"
      by (rule same.keeps_files_calls)
    show "closes (insert out S) err (io_defer (os_Remove env q) (run_spooled env child cmd options p out q err))"
      using closes_cleanup(2) [OF run_spooled_closes(1) rm] .
    obtain r v where v: "run_spooled env child cmd options p out q err w = (r, v)"
      by fastforce
    have "w_open (snd (os_Remove env q v)) out = w_open v out"
      using rm by (simp add: io_keeps_def same_open_def)
    then show "w_open (snd (io_defer (os_Remove env q) (run_spooled env child cmd options p out q err) w)) out = None"
      using run_spooled_closes(2) [of env child cmd options p out q err w] v by (simp add: io_defer_def)
  qed
  have "closes S out (io_defer (os_Remove env p)
       (io_bind (io_on_error (os_Close env out) (io_wrap l (os_CreateTemp env d n)))
         (\<lambda>(q, err). io_defer (os_Remove env q) (run_spooled env child cmd options p out q err))))" for p out l d n
    by (rule closes_cleanup(2) [OF closes_second [where fd = snd] same.keeps_files_calls(8)])
      (auto intro: opens_wrap opens_CreateTemp simp: case_prod_unfold second)
  then show ?thesis
    unfolding executeRuntimeCommand_def
    by (intro keeps_open_close [OF opens_wrap [OF opens_CreateTemp]]) (auto simp: case_prod_unfold)
qed

section \<open>The key stays inside\<close>

definition keyless :: "string \<Rightarrow> forwarded \<Rightarrow> bool" where
  "keyless key f \<longleftrightarrow> \<not> sublist key (fw_stdout f) \<and> \<not> sublist key (fw_stderr f)"

lemma keyless_nothing [simp]: "key_opaque key rep \<Longrightarrow> keyless key nothing_forwarded"
  by (simp add: keyless_def nothing_forwarded_def key_opaque_def)

lemma copySpool_keyless:
  assumes "key_opaque key runtimeCommandRedaction"
    and "copyRuntimeCommandSpool env p d key w = (Inr (out, e), w')"
  shows "\<not> sublist key out"
proof -
  have nil: "\<not> sublist key []"
    using assms(1) by (simp add: key_opaque_def)
  obtain r v where "io_try (spool_reader env p) w = (Inr r, v)"
    using io_try_total by blast
  then have "(case r of Inl e \<Rightarrow> ([], Some e) | Inr source \<Rightarrow>
      (case copyRuntimeCommandOutput source d key of Some (out, e) \<Rightarrow> (out, e) | None \<Rightarrow> ([], None))) = (out, e)"
    using assms(2) by (simp add: copyRuntimeCommandSpool_def io_bind_def io_return_def)
  then show ?thesis
    using nil copied_keyless [OF assms(1)] by (auto split: sum.splits option.splits)
qed

lemma forward_keyless:
  assumes "key_opaque (co_runnerKey options) runtimeCommandRedaction"
    and "forwardRuntimeCommandLoggerOutput env options p q w = (Inr (e, f), w')"
  shows "keyless (co_runnerKey options) f"
  using assms keyless_nothing [OF assms(1)] copySpool_keyless [OF assms(1)]
  by (fastforce simp: forwardRuntimeCommandLoggerOutput_def keyless_def nothing_forwarded_def io_Inr Let_def
      split: option.splits if_splits)

lemma finish_keyless:
  assumes "key_opaque (co_runnerKey options) runtimeCommandRedaction"
    and "finish_command env options p q e a b w = (Inr oc, w')"
  shows "keyless (co_runnerKey options) (oc_forwarded oc)"
  using assms(2) keyless_nothing [OF assms(1)] forward_keyless [OF assms(1)]
  by (fastforce simp: finish_command_def outcome_def io_Inr split: option.splits sum.splits if_splits)

lemma io_defer_iff: "io_defer c m w = (r, w') \<longleftrightarrow> (\<exists>v. m w = (r, v) \<and> w' = snd (c v))"
  by (auto simp: io_defer_def split: prod.splits)

lemma execute_keyless:
  assumes "key_opaque (co_runnerKey options) runtimeCommandRedaction"
    and "executeRuntimeCommand env child cmd options w = (Inr oc, w')"
  shows "keyless (co_runnerKey options) (oc_forwarded oc)"
proof -
  from assms(2) obtain p out q err v v' where "run_spooled env child cmd options p out q err v = (Inr oc, v')"
    by (auto simp: executeRuntimeCommand_def io_Inr io_defer_iff)
  then obtain e a b u where "finish_command env options p q e a b u = (Inr oc, v')"
    by (auto simp: run_spooled_def io_Inr)
  then show ?thesis
    by (rule finish_keyless [OF assms(1)])
qed

text \<open>
  The text of a failure. A key without white space is not made by putting the parts together, if it
  is not a part of the fixed words itself and has no colon.
\<close>

lemma sublist_colon:
  assumes "sublist key (a @ '': '' @ b)" and "CHR '':'' \<notin> set key" and "CHR '' '' \<notin> set key" and "key \<noteq> []"
  shows "sublist key a \<or> sublist key b"
  using assms sublist_around [of key a "CHR '':''" "'' '' @ b"] sublist_around [of key "[]" "CHR '' ''" b]
  by auto

definition plain_key :: "string \<Rightarrow> bool" where
  "plain_key key \<longleftrightarrow> key_opaque key ''[REDACTED]'' \<and> list_all graphic key \<and> CHR '':'' \<notin> set key \<and>
     \<not> sublist key ''loadstrike runtime failed'' \<and> \<not> sublist key ''loadstrike autopilot runtime failed'' \<and>
     \<not> sublist key ''unknown child-process failure''"

lemma failure_keyless:
  assumes "plain_key key"
  shows "\<not> sublist key (newRuntimeFailure e output [key])"
    and "\<not> sublist key (newAutopilotRuntimeFailure e output key)"
proof -
  have key: "key \<noteq> []" "CHR '' '' \<notin> set key" "CHR '':'' \<notin> set key"
    using assms graphic_no_space by (auto simp: plain_key_def key_opaque_def)
  have parts: "\<not> sublist key (sanitizeRuntimeDiagnostic v [key])" for v
    using assms diagnostic_keyless [of key v] by (simp add: plain_key_def)
  define a where "a = (case e of None \<Rightarrow> ''unknown child-process failure'' | Some e \<Rightarrow> sanitizeRuntimeDiagnostic e [key])"
  have a: "\<not> sublist key a"
    using assms parts by (simp add: a_def plain_key_def split: option.split)
  have whole: "\<not> sublist key (head @ '': '' @ a)" "\<not> sublist key (head @ '': '' @ a @ '': '' @ sanitizeRuntimeDiagnostic output [key])"
    if "\<not> sublist key head" for head
    using sublist_colon [of key _ _] key a parts that by blast+
  show "\<not> sublist key (newRuntimeFailure e output [key])"
    using assms whole [of "''loadstrike runtime failed''"]
    by (simp add: newRuntimeFailure_def Let_def a_def [symmetric] plain_key_def)
  show "\<not> sublist key (newAutopilotRuntimeFailure e output key)"
    using assms whole [of "''loadstrike autopilot runtime failed''"]
    by (simp add: newAutopilotRuntimeFailure_def Let_def a_def [symmetric] plain_key_def)
qed

end
