(* ===== verification/Transports.thy ===== *)
theory Transports
  imports Go_Values
begin

text \<open>
  The configuration of cross-platform tracking (\<open>transports.go\<close>): the endpoint specifications of
  every transport, field by field, the mapping of gRPC status codes, and the JSON round trip by
  which the plan copies a tracking configuration. Function fields and contexts are references and
  carry the tag \<open>json:"-"\<close>: they do not survive the round trip.
\<close>

section \<open>Endpoint specifications\<close>

record HTTPOAuth2ClientCredentialsOptions =
  oauth_TokenEndpoint :: string
  oauth_ClientID :: string
  oauth_ClientSecret :: string
  oauth_Scopes :: "string list"
  oauth_AdditionalFormFields :: "(string \<rightharpoonup> string)"

record HTTPAuthOptions =
  auth_Type :: string
  auth_Username :: string
  auth_Password :: string
  auth_BearerToken :: string
  auth_TokenURL :: string
  auth_ClientID :: string
  auth_ClientSecret :: string
  auth_Scope :: string
  auth_Scopes :: "string list"
  auth_Audience :: string
  auth_AdditionalFormFields :: "(string \<rightharpoonup> string)"
  auth_TokenHeaderName :: string
  auth_OAuth2ClientCredentials :: "HTTPOAuth2ClientCredentialsOptions option"

record HTTPEndpointOptions =
  http_URL :: string
  http_Method :: string
  http_BodyType :: string
  http_RequestTimeoutSeconds :: float64
  http_ConsumePoll :: bool
  http_ResponseSource :: string
  http_TrackingPayloadSource :: string
  http_ConsumeArrayPath :: string
  http_ConsumeJSONArrayResponse :: bool
  http_TokenRequestHeaders :: "(string \<rightharpoonup> string)"
  http_Auth :: "HTTPAuthOptions option"

record KafkaSASLGSSAPIOptions =
  gssapi_ServiceName :: string
  gssapi_Realm :: string
  gssapi_Username :: string
  gssapi_Password :: string

record KafkaSASLOAuthBearerOptions =
  bearer_AccessToken :: string
  bearer_Extensions :: "(string \<rightharpoonup> string)"

record KafkaSASLOptions =
  sasl_Mechanism :: string
  sasl_Username :: string
  sasl_Password :: string
  sasl_OAuthBearerTokenEndpointURL :: string
  sasl_AdditionalSettings :: "(string \<rightharpoonup> string)"
  sasl_GSSAPI :: "KafkaSASLGSSAPIOptions option"
  sasl_OAuthBearer :: "KafkaSASLOAuthBearerOptions option"

record KafkaEndpointOptions =
  kafka_BootstrapServers :: string
  kafka_Topic :: string
  kafka_ConsumerGroupID :: string
  kafka_SecurityProtocol :: string
  kafka_SASL :: "KafkaSASLOptions option"
  kafka_ConfluentSettings :: "(string \<rightharpoonup> string)"
  kafka_StartFromEarliest :: bool

record RabbitMQEndpointOptions =
  rabbit_HostName :: string
  rabbit_Port :: int
  rabbit_VirtualHost :: string
  rabbit_UserName :: string
  rabbit_Password :: string
  rabbit_Exchange :: string
  rabbit_RoutingKey :: string
  rabbit_QueueName :: string
  rabbit_Durable :: bool
  rabbit_AutoAck :: bool
  rabbit_UseSSL :: bool
  rabbit_ClientProperties :: "(string \<rightharpoonup> string)"

record NATSEndpointOptions =
  nats_ServerURL :: string
  nats_Subject :: string
  nats_QueueGroup :: string
  nats_UserName :: string
  nats_Password :: string
  nats_Token :: string
  nats_ConnectionName :: string
  nats_MaxReconnectAttempts :: int

record RedisStreamsEndpointOptions =
  redis_ConnectionString :: string
  redis_StreamKey :: string
  redis_ConsumerGroup :: string
  redis_ConsumerName :: string
  redis_StartFromEarliest :: bool
  redis_ReadCount :: int
  redis_MaxLength :: int

record AzureEventHubsEndpointOptions =
  azure_ConnectionString :: string
  azure_EventHubName :: string
  azure_ConsumerGroup :: string
  azure_StartFromEarliest :: bool
  azure_PartitionID :: string
  azure_PartitionKey :: string
  azure_PartitionCount :: int

record SQSEndpointOptions =
  sqs_QueueURL :: string
  sqs_Region :: string
  sqs_ServiceURL :: string
  sqs_AccessKeyID :: string
  sqs_SecretAccessKey :: string
  sqs_SessionToken :: string
  sqs_WaitTimeSeconds :: int
  sqs_MaxNumberOfMessages :: int
  sqs_VisibilityTimeoutSeconds :: int
  sqs_DeleteAfterConsume :: "bool option"

record DelegateEndpointOptions =
  delegate_ProduceCallbackURL :: string
  delegate_ConsumeCallbackURL :: string
  delegate_ConnectionMetadata :: "(string \<rightharpoonup> string)"
  delegate_Produce :: "go_ref option"
  delegate_Consume :: "go_ref option"

record PushDiffusionEndpointOptions =
  push_ServerURL :: string
  push_TopicPath :: string
  push_Principal :: string
  push_Password :: string
  push_ConnectionProperties :: "(string \<rightharpoonup> string)"
  push_PublishCallbackURL :: string
  push_SubscribeCallbackURL :: string
  push_Publish :: "go_ref option"
  push_Subscribe :: "go_ref option"

record GrpcNativeClientOptions =
  grpcnative_ProtoFilePath :: string
  grpcnative_DescriptorSetPath :: string
  grpcnative_UseReflection :: bool
  grpcnative_UseTLS :: bool
  grpcnative_AllowUntrustedCertificates :: bool
  grpcnative_DeadlineSeconds :: float64
  grpcnative_Metadata :: "(string \<rightharpoonup> string)"
  grpcnative_RequestPayloadJSON :: string
  grpcnative_RequestPayloadJSONStream :: "string list"
  grpcnative_TrackStatusCodes :: bool
  grpcnative_TrackStreamingMessageLatency :: bool

record GrpcEndpointOptions =
  grpc_Target :: string
  grpc_ServiceName :: string
  grpc_MethodName :: string
  grpc_MethodType :: string
  grpc_DeadlineSeconds :: float64
  grpc_Metadata :: "(string \<rightharpoonup> string)"
  grpc_ConnectionMetadata :: "(string \<rightharpoonup> string)"
  grpc_NativeClient :: "GrpcNativeClientOptions option"
  grpc_ProduceCallbackURL :: string
  grpc_ConsumeCallbackURL :: string
  grpc_Produce :: "go_ref option"
  grpc_Consume :: "go_ref option"

record GrpcStatusMapping =
  status_StatusCode :: int
  status_StatusName :: string
  status_IsSuccess :: bool

record ProtocolMetricSnapshot =
  pms_Protocol :: string
  pms_Requests :: int
  pms_MessagesSent :: int
  pms_MessagesReceived :: int
  pms_LatencyMS :: float64
  pms_StreamDurationMS :: float64
  pms_BytesSent :: int
  pms_BytesReceived :: int
  pms_Reconnects :: int
  pms_Errors :: int
  pms_Status :: string

record WebSocketReconnectPolicy =
  wsr_Enabled :: bool
  wsr_MaxAttempts :: int
  wsr_BackoffSeconds :: float64

record WebSocketMessageSpec =
  wsm_Type :: string
  wsm_Payload :: string
  wsm_BinaryPayload :: string
  wsm_DelaySeconds :: float64

record WebSocketExpectedMessage =
  wsx_MatchText :: string
  wsx_MatchJSONPath :: string
  wsx_TimeoutSeconds :: float64

record WebSocketNativeClientOptions =
  wsnative_Headers :: "(string \<rightharpoonup> string)"
  wsnative_Messages :: "WebSocketMessageSpec list"
  wsnative_ExpectedMessages :: "WebSocketExpectedMessage list"
  wsnative_ReconnectPolicy :: "WebSocketReconnectPolicy option"
  wsnative_BinaryMessages :: bool
  wsnative_TrackPingPong :: bool
  wsnative_TrackCloseCodes :: bool
  wsnative_TrackMessageLatency :: bool
  wsnative_ReceiveTimeoutSeconds :: float64

record WebSocketEndpointOptions =
  ws_URL :: string
  ws_Subprotocols :: "string list"
  ws_ConnectTimeoutSeconds :: float64
  ws_CloseTimeoutSeconds :: float64
  ws_ConnectionMetadata :: "(string \<rightharpoonup> string)"
  ws_NativeClient :: "WebSocketNativeClientOptions option"
  ws_ProduceCallbackURL :: string
  ws_ConsumeCallbackURL :: string
  ws_Produce :: "go_ref option"
  ws_Consume :: "go_ref option"

record EndpointSpec =
  ep_Kind :: string
  ep_Name :: string
  ep_Mode :: string
  ep_TrackingField :: string
  ep_GatherByField :: string
  ep_AutoGenerateTrackingIDWhenMissing :: bool
  ep_PollIntervalSeconds :: float64
  ep_MessageHeaders :: "(string \<rightharpoonup> string)"
  ep_MessagePayload :: string
  ep_MessagePayloadType :: string
  ep_JsonSettings :: "(string \<times> go_any) list"
  ep_JsonConvertSettings :: "(string \<times> go_any) list"
  ep_ContentType :: string
  ep_HTTP :: "HTTPEndpointOptions option"
  ep_Kafka :: "KafkaEndpointOptions option"
  ep_RabbitMQ :: "RabbitMQEndpointOptions option"
  ep_NATS :: "NATSEndpointOptions option"
  ep_RedisStreams :: "RedisStreamsEndpointOptions option"
  ep_AzureEventHubs :: "AzureEventHubsEndpointOptions option"
  ep_SQS :: "SQSEndpointOptions option"
  ep_DelegateStream :: "DelegateEndpointOptions option"
  ep_PushDiffusion :: "PushDiffusionEndpointOptions option"
  ep_Grpc :: "GrpcEndpointOptions option"
  ep_WebSocket :: "WebSocketEndpointOptions option"

record RedisCorrelationStoreSpec =
  rcs_ConnectionString :: string
  rcs_Database :: int
  rcs_KeyPrefix :: string
  rcs_EntryTTLSeconds :: float64

record CorrelationStoreSpec =
  cs_Kind :: string
  cs_Redis :: "RedisCorrelationStoreSpec option"

record TrackingConfigurationSpec =
  tr_Source :: "EndpointSpec option"
  tr_Destination :: "EndpointSpec option"
  tr_RunMode :: string
  tr_ObservationDurationSeconds :: float64
  tr_CorrelationTimeoutSeconds :: float64
  tr_TimeoutSweepIntervalSeconds :: float64
  tr_TimeoutBatchSize :: int
  tr_TimeoutCountsAsFailure :: bool
  tr_TrackingFieldValueCaseSensitive :: bool
  tr_GatherByFieldValueCaseSensitive :: bool
  tr_ExecuteOriginalScenarioRun :: bool
  tr_UseLoadStrikeTraceIDHeader :: bool
  tr_MetricPrefix :: string
  tr_CorrelationStore :: "CorrelationStoreSpec option"
  tr_ObservationCancellationContext :: "go_ref option"
  tr_ObservationCancellationCallbackURL :: string

section \<open>Events and results of the callbacks\<close>

record TrackingPayload =
  tp_Headers :: "(string \<rightharpoonup> string)"
  tp_Body :: go_any
  tp_ProducedUTC :: string
  tp_ConsumedUTC :: string
  tp_ContentType :: string
  tp_MessagePayloadType :: string

record EndpointProduceResult =
  produce_IsSuccess :: bool
  produce_TrackingID :: string
  produce_TimestampMS :: int
  produce_Payload :: TrackingPayload
  produce_ErrorMessage :: string

record EndpointConsumeEvent =
  consume_TrackingID :: string
  consume_TimestampMS :: int
  consume_Payload :: TrackingPayload

section \<open>Operations\<close>

definition grpc_status_names :: "(int \<times> string) list" where
  "grpc_status_names =
     [(0, ''OK''), (1, ''CANCELLED''), (2, ''UNKNOWN''), (3, ''INVALID_ARGUMENT''),
      (4, ''DEADLINE_EXCEEDED''), (5, ''NOT_FOUND''), (6, ''ALREADY_EXISTS''),
      (7, ''PERMISSION_DENIED''), (8, ''RESOURCE_EXHAUSTED''), (9, ''FAILED_PRECONDITION''),
      (10, ''ABORTED''), (11, ''OUT_OF_RANGE''), (12, ''UNIMPLEMENTED''), (13, ''INTERNAL''),
      (14, ''UNAVAILABLE''), (15, ''DATA_LOSS''), (16, ''UNAUTHENTICATED'')]"

definition MapGrpcStatusCode :: "int \<Rightarrow> GrpcStatusMapping" where
  "MapGrpcStatusCode statusCode =
     (let name = (case map_of grpc_status_names statusCode of None \<Rightarrow> [] | Some n \<Rightarrow> n);
          name = (if name = [] then ''UNKNOWN'' else name)
      in \<lparr>status_StatusCode = statusCode, status_StatusName = name, status_IsSuccess = (statusCode = 0)\<rparr>)"

definition TextWebSocketMessage :: "string \<Rightarrow> WebSocketMessageSpec" where
  "TextWebSocketMessage payload =
     \<lparr>wsm_Type = ''Text'', wsm_Payload = payload, wsm_BinaryPayload = [], wsm_DelaySeconds = Fin 0\<rparr>"

definition BinaryWebSocketMessage :: "string \<Rightarrow> WebSocketMessageSpec" where
  "BinaryWebSocketMessage payload =
     \<lparr>wsm_Type = ''Binary'', wsm_Payload = [], wsm_BinaryPayload = payload, wsm_DelaySeconds = Fin 0\<rparr>"

text \<open>\<open>ForDuration\<close>; the duration is in nanoseconds and \<open>seconds\<close> is \<open>Duration.Seconds\<close>.\<close>

definition ForDuration ::
  "(int \<Rightarrow> float64) \<Rightarrow> TrackingConfigurationSpec option \<Rightarrow> int \<Rightarrow> go_ref option list
     \<Rightarrow> TrackingConfigurationSpec option" where
  "ForDuration seconds c duration cancellationContexts =
     map_option (\<lambda>c.
       (let c = c\<lparr>tr_ObservationDurationSeconds := seconds duration\<rparr> in
        case cancellationContexts of
          Some r # _ \<Rightarrow> c\<lparr>tr_ObservationCancellationContext := Some r\<rparr>
        | _ \<Rightarrow> c)) c"

text \<open>
  \<open>json.Unmarshal\<close> of \<open>json.Marshal\<close> of an endpoint: the fields tagged \<open>"-"\<close> are zero in the
  copy. \<open>settings\<close> is what the round trip makes of a \<open>map[string]any\<close>.
\<close>

definition json_endpoint ::
  "((string \<times> go_any) list \<Rightarrow> (string \<times> go_any) list) \<Rightarrow> EndpointSpec \<Rightarrow> EndpointSpec" where
  "json_endpoint settings e =
     e\<lparr>ep_JsonSettings := settings (ep_JsonSettings e),
       ep_JsonConvertSettings := settings (ep_JsonConvertSettings e),
       ep_DelegateStream := map_option (\<lambda>d. d\<lparr>delegate_Produce := None, delegate_Consume := None\<rparr>)
         (ep_DelegateStream e),
       ep_PushDiffusion := map_option (\<lambda>d. d\<lparr>push_Publish := None, push_Subscribe := None\<rparr>)
         (ep_PushDiffusion e),
       ep_Grpc := map_option (\<lambda>d. d\<lparr>grpc_Produce := None, grpc_Consume := None\<rparr>) (ep_Grpc e),
       ep_WebSocket := map_option (\<lambda>d. d\<lparr>ws_Produce := None, ws_Consume := None\<rparr>)
         (ep_WebSocket e)\<rparr>"

text \<open>
  \<open>encoding/json\<close> as the plan uses it: whether \<open>Marshal\<close> accepts the configuration (a NaN, an
  infinity or a malformed raw payload is an error) and what becomes of dynamic settings.
\<close>

record json_codec =
  json_accepts :: "TrackingConfigurationSpec \<Rightarrow> bool"
  json_settings :: "(string \<times> go_any) list \<Rightarrow> (string \<times> go_any) list"

definition json_round_trip ::
  "json_codec \<Rightarrow> TrackingConfigurationSpec \<Rightarrow> TrackingConfigurationSpec option" where
  "json_round_trip js c =
     (if \<not> json_accepts js c then None
      else Some (c\<lparr>tr_Source := map_option (json_endpoint (json_settings js)) (tr_Source c),
                   tr_Destination := map_option (json_endpoint (json_settings js)) (tr_Destination c),
                   tr_ObservationCancellationContext := None\<rparr>))"

end
