(* ===== verification/Scenario.thy ===== *)
theory Scenario
  imports Transports
begin

text \<open>
  Scenarios and what they are built from: load simulations (\<open>simulations.go\<close>), thresholds
  (\<open>thresholds.go\<close>), replies (\<open>step.go\<close>), scenario definitions (\<open>scenario.go\<close>) and traffic mixes
  (\<open>traffic_mix.go\<close>). The builders have value receivers and panic on bad arguments: they are
  functions to \<open>Inl\<close> the panic message or \<open>Inr\<close> the new value.
\<close>

section \<open>Data\<close>

record LoadSimulation =
  sim_Kind :: string
  sim_Copies :: int
  sim_Iterations :: int
  sim_Rate :: int
  sim_MinRate :: int
  sim_MaxRate :: int
  sim_IntervalSeconds :: float64
  sim_DuringSeconds :: float64
  sim_PauseSeconds :: float64

record ThresholdSpec =
  th_Scope :: string
  th_StepName :: string
  th_Field :: string
  th_Operator :: string
  th_Value :: float64
  th_AbortWhenErrorCount :: int
  th_StartCheckAfterSeconds :: float64
  th_scenarioPredicate :: "go_closure option"
  th_stepPredicate :: "go_closure option"
  th_metricPredicate :: "go_closure option"

record LoadStrikeAutopilotHTTPReplay =
  replay_Method :: string
  replay_URL :: string
  replay_Headers :: "(string \<rightharpoonup> string)"
  replay_Body :: string
  replay_ContentType :: string

record scenarioStep =
  step_Name :: string
  step_Run :: "go_closure option"

record replyResult =
  reply_IsSuccess :: bool
  reply_IsError :: bool
  reply_StatusCode :: string
  reply_Message :: string
  reply_SizeBytes :: int
  reply_CustomLatencyMS :: float64
  reply_Payload :: go_any

record scenarioPartitionInfo =
  part_Number :: int
  part_Count :: int

record scenarioDefinition =
  sc_Name :: string
  sc_Init :: "go_closure option"
  sc_Clean :: "go_closure option"
  sc_Weight :: int
  sc_RestartIterationOnFail :: bool
  sc_MaxFailCount :: int
  sc_WarmUpDurationSeconds :: float64
  sc_WarmUpDisabled :: bool
  sc_LoadSimulations :: "LoadSimulation list"
  sc_Thresholds :: "ThresholdSpec list"
  sc_Tracking :: "TrackingConfigurationSpec option"
  sc_Steps :: "scenarioStep list"
  sc_AutopilotHTTP :: "LoadStrikeAutopilotHTTPReplay option"
  sc_InternalLicenseFeatures :: "string list"
  sc_DeclaredStepNames :: "string list"

record trafficMixScenarioShare =
  share_Scenario :: scenarioDefinition
  share_Weight :: int

record trafficMixDefinition =
  mix_Name :: string
  mix_TotalLoad :: "LoadSimulation list"
  mix_ScenarioMix :: "trafficMixScenarioShare list"

definition zero_simulation :: LoadSimulation where
  "zero_simulation =
     \<lparr>sim_Kind = [], sim_Copies = 0, sim_Iterations = 0, sim_Rate = 0, sim_MinRate = 0, sim_MaxRate = 0,
      sim_IntervalSeconds = Fin 0, sim_DuringSeconds = Fin 0, sim_PauseSeconds = Fin 0\<rparr>"

definition zero_threshold :: ThresholdSpec where
  "zero_threshold =
     \<lparr>th_Scope = [], th_StepName = [], th_Field = [], th_Operator = [], th_Value = Fin 0,
      th_AbortWhenErrorCount = 0, th_StartCheckAfterSeconds = Fin 0, th_scenarioPredicate = None,
      th_stepPredicate = None, th_metricPredicate = None\<rparr>"

definition zero_scenario :: scenarioDefinition where
  "zero_scenario =
     \<lparr>sc_Name = [], sc_Init = None, sc_Clean = None, sc_Weight = 0, sc_RestartIterationOnFail = False,
      sc_MaxFailCount = 0, sc_WarmUpDurationSeconds = Fin 0, sc_WarmUpDisabled = False,
      sc_LoadSimulations = [], sc_Thresholds = [], sc_Tracking = None, sc_Steps = [],
      sc_AutopilotHTTP = None, sc_InternalLicenseFeatures = [], sc_DeclaredStepNames = []\<rparr>"

section \<open>Load simulations\<close>

text \<open>\<open>conv\<close> is the platform's conversion of a \<open>float64\<close> that no \<open>int\<close> can hold.\<close>

definition estimateIterations :: "(float64 \<Rightarrow> int) \<Rightarrow> float64 \<Rightarrow> float64 \<Rightarrow> int" where
  "estimateIterations conv intervalSeconds duringSeconds =
     (if f64_le intervalSeconds (Fin 0) \<or> f64_le duringSeconds (Fin 0) then 1
      else maxInt (f64_to_int conv (f64_div_pos duringSeconds intervalSeconds)) 1)"

definition Inject :: "(float64 \<Rightarrow> int) \<Rightarrow> int \<Rightarrow> float64 \<Rightarrow> float64 \<Rightarrow> LoadSimulation" where
  "Inject conv rate intervalSeconds duringSeconds =
     zero_simulation\<lparr>sim_Kind := ''Inject'', sim_Copies := maxInt rate 1,
       sim_Iterations := maxInt (estimateIterations conv intervalSeconds duringSeconds) 1,
       sim_Rate := rate, sim_MinRate := maxInt rate 1, sim_MaxRate := maxInt rate 1,
       sim_IntervalSeconds := intervalSeconds, sim_DuringSeconds := duringSeconds\<rparr>"

definition RampingInject :: "(float64 \<Rightarrow> int) \<Rightarrow> int \<Rightarrow> float64 \<Rightarrow> float64 \<Rightarrow> LoadSimulation" where
  "RampingInject conv rate intervalSeconds duringSeconds =
     (Inject conv rate intervalSeconds duringSeconds)\<lparr>sim_Kind := ''RampingInject''\<rparr>"

definition KeepConstant :: "(float64 \<Rightarrow> int) \<Rightarrow> int \<Rightarrow> float64 \<Rightarrow> LoadSimulation" where
  "KeepConstant conv copies duringSeconds =
     zero_simulation\<lparr>sim_Kind := ''KeepConstant'', sim_Copies := maxInt copies 1,
       sim_Iterations := maxInt (f64_to_int conv duringSeconds) 1, sim_DuringSeconds := duringSeconds\<rparr>"

definition RampingConstant :: "(float64 \<Rightarrow> int) \<Rightarrow> int \<Rightarrow> float64 \<Rightarrow> LoadSimulation" where
  "RampingConstant conv copies duringSeconds =
     (KeepConstant conv copies duringSeconds)\<lparr>sim_Kind := ''RampingConstant''\<rparr>"

definition InjectRandom :: "(float64 \<Rightarrow> int) \<Rightarrow> int \<Rightarrow> int \<Rightarrow> float64 \<Rightarrow> float64 \<Rightarrow> LoadSimulation" where
  "InjectRandom conv minRate maxRate intervalSeconds duringSeconds =
     (let (minRate, maxRate) = (if maxRate < minRate then (maxRate, minRate) else (minRate, maxRate));
          simulation = Inject conv (maxInt maxRate 1) intervalSeconds duringSeconds;
          simulation = simulation\<lparr>sim_Kind := ''InjectRandom'', sim_MinRate := maxInt minRate 1\<rparr>
      in simulation\<lparr>sim_MaxRate := maxInt maxRate (sim_MinRate simulation)\<rparr>)"

definition Pause :: "float64 \<Rightarrow> LoadSimulation" where
  "Pause seconds =
     zero_simulation\<lparr>sim_Kind := ''Pause'', sim_Copies := 1, sim_Iterations := 1,
       sim_PauseSeconds := seconds\<rparr>"

definition IterationsForConstant :: "int \<Rightarrow> int \<Rightarrow> LoadSimulation" where
  "IterationsForConstant copies iterations =
     zero_simulation\<lparr>sim_Kind := ''IterationsForConstant'', sim_Copies := maxInt copies 1,
       sim_Iterations := maxInt iterations 1\<rparr>"

definition IterationsForInject :: "int \<Rightarrow> float64 \<Rightarrow> int \<Rightarrow> LoadSimulation" where
  "IterationsForInject rate intervalSeconds iterations =
     zero_simulation\<lparr>sim_Kind := ''IterationsForInject'', sim_Copies := maxInt rate 1,
       sim_Iterations := maxInt iterations 1, sim_Rate := maxInt rate 1, sim_MinRate := maxInt rate 1,
       sim_MaxRate := maxInt rate 1, sim_IntervalSeconds := intervalSeconds\<rparr>"

section \<open>Thresholds\<close>

definition applyThresholdOptions :: "ThresholdSpec \<Rightarrow> go_any list \<Rightarrow> ThresholdSpec" where
  "applyThresholdOptions spec args =
     (let spec = (case args of
            AnyInt i # _ \<Rightarrow> spec\<lparr>th_AbortWhenErrorCount := i\<rparr>
          | AnyInt64 i # _ \<Rightarrow> spec\<lparr>th_AbortWhenErrorCount := i\<rparr>
          | _ \<Rightarrow> spec)
      in (case args of
            _ # AnyFloat64 f # _ \<Rightarrow> spec\<lparr>th_StartCheckAfterSeconds := f\<rparr>
          | _ # AnyFloat32 f # _ \<Rightarrow> spec\<lparr>th_StartCheckAfterSeconds := f\<rparr>
          | _ \<Rightarrow> spec))"

text \<open>The positional form: field, operator, value, each taken when it is there.\<close>

definition positional_threshold :: "go_fmt \<Rightarrow> ThresholdSpec \<Rightarrow> go_any list \<Rightarrow> ThresholdSpec" where
  "positional_threshold fm spec args =
     (let spec = (if length args > 0 then spec\<lparr>th_Field := asString fm (args ! 0)\<rparr> else spec);
          spec = (if length args > 1 then spec\<lparr>th_Operator := asString fm (args ! 1)\<rparr> else spec)
      in if length args > 2 then spec\<lparr>th_Value := asDouble fm (args ! 2)\<rparr> else spec)"

definition predicate_threshold :: "string \<Rightarrow> ThresholdSpec" where
  "predicate_threshold scope =
     zero_threshold\<lparr>th_Scope := scope, th_Field := ''<predicate>'', th_Operator := ''predicate''\<rparr>"

text \<open>The predicate that a first argument of one of the given function types stands for; \<open>f\<close> may be nil.\<close>

definition given_predicate :: "go_func_type \<Rightarrow> go_func_type list \<Rightarrow> go_any list \<Rightarrow> go_closure option option" where
  "given_predicate native adapted args =
     (case args of
        AnyFunc t f # _ \<Rightarrow>
          if t = native then Some (map_option Plain f)
          else if t \<in> set adapted then Some (Some (Adapt t f))
          else None
      | _ \<Rightarrow> None)"

definition ScenarioThreshold :: "go_fmt \<Rightarrow> go_any list \<Rightarrow> ThresholdSpec" where
  "ScenarioThreshold fm args =
     (case given_predicate ScenarioStatsPredicate
             [LoadStrikeScenarioStatsPredicate, LoadStrikeDetailedScenarioStatsPredicate] args of
        Some p \<Rightarrow>
          applyThresholdOptions ((predicate_threshold ''scenario'')\<lparr>th_scenarioPredicate := p\<rparr>) (tl args)
      | None \<Rightarrow> positional_threshold fm (zero_threshold\<lparr>th_Scope := ''scenario''\<rparr>) args)"

definition StepThreshold :: "go_fmt \<Rightarrow> string \<Rightarrow> go_any list \<Rightarrow> ThresholdSpec res" where
  "StepThreshold fm stepName args =
     (if blank stepName then Inl ''step name must be provided.''
      else case given_predicate StepStatsPredicate
                  [LoadStrikeStepStatsPredicate, LoadStrikeDetailedStepStatsPredicate] args of
             Some p \<Rightarrow>
               Inr (applyThresholdOptions
                 ((predicate_threshold ''step'')\<lparr>th_StepName := stepName, th_stepPredicate := p\<rparr>) (tl args))
           | None \<Rightarrow>
               Inr (positional_threshold fm
                 (zero_threshold\<lparr>th_Scope := ''step'', th_StepName := stepName\<rparr>) args))"

definition MetricThreshold :: "go_fmt \<Rightarrow> go_any list \<Rightarrow> ThresholdSpec" where
  "MetricThreshold fm args =
     (case given_predicate MetricStatsPredicate [LoadStrikeMetricStatsPredicate] args of
        Some p \<Rightarrow>
          applyThresholdOptions ((predicate_threshold ''metric'')\<lparr>th_metricPredicate := p\<rparr>) (tl args)
      | None \<Rightarrow> positional_threshold fm (zero_threshold\<lparr>th_Scope := ''metric''\<rparr>) args)"

section \<open>Replies\<close>

text \<open>\<open>Duration.Seconds\<close>, of nanoseconds, and the product of a \<open>float64\<close> with an exact constant.\<close>

definition f64_times :: "float64 \<Rightarrow> rat \<Rightarrow> float64" where
  "f64_times x k = (case x of Fin a \<Rightarrow> round64 (a * k) | _ \<Rightarrow> x)"

definition duration_seconds :: "int \<Rightarrow> float64" where
  "duration_seconds d =
     (let sec = sgn d * (\<bar>d\<bar> div 1000000000); nsec = sgn d * (\<bar>d\<bar> mod 1000000000) in
      case round64 (of_int nsec / 1000000000) of
        Fin part \<Rightarrow> round64 (of_int sec + part)
      | x \<Rightarrow> x)"

definition reply_size_arg :: "(float64 \<Rightarrow> int) \<Rightarrow> bool \<Rightarrow> go_any \<Rightarrow> string \<times> int \<Rightarrow> string \<times> int" where
  "reply_size_arg conv int32_too arg ms =
     (case ms of (message, sizeBytes) \<Rightarrow>
       (case arg of
          AnyString s \<Rightarrow> (s, sizeBytes)
        | AnyInt i \<Rightarrow> (message, i)
        | AnyInt64 i \<Rightarrow> (message, i)
        | AnyInt32 i \<Rightarrow> (message, if int32_too then i else sizeBytes)
        | AnyFloat64 f \<Rightarrow> (message, f64_to_int conv f)
        | _ \<Rightarrow> (message, sizeBytes)))"

definition parseReplyOptions ::
  "(float64 \<Rightarrow> int) \<Rightarrow> bool \<Rightarrow> go_any list \<Rightarrow> string \<times> int \<times> string \<times> float64" where
  "parseReplyOptions conv success args =
     (let statusCode = (if success then ''200'' else ''500'');
          statusCode = (case args of
             AnyString s # _ \<Rightarrow> if \<not> blank s then s else statusCode | _ \<Rightarrow> statusCode);
          ms = ([], 0);
          ms = (if length args > 1 then reply_size_arg conv True (args ! 1) ms else ms);
          ms = (if length args > 2 then reply_size_arg conv False (args ! 2) ms else ms);
          latency = Fin (- 1);
          latency = (if length args > 3
            then (case args ! 3 of
                    AnyFloat64 f \<Rightarrow> f | AnyFloat32 f \<Rightarrow> f
                  | AnyInt i \<Rightarrow> f64_of_int i | AnyInt64 i \<Rightarrow> f64_of_int i
                  | AnyDuration d \<Rightarrow> f64_times (duration_seconds d) 1000
                  | _ \<Rightarrow> latency)
            else latency)
      in (statusCode, snd ms, fst ms, latency))"

definition okReply :: "(float64 \<Rightarrow> int) \<Rightarrow> go_any list \<Rightarrow> replyResult" where
  "okReply conv args =
     (case parseReplyOptions conv True args of
        (statusCode, sizeBytes, message, customLatencyMS) \<Rightarrow>
          \<lparr>reply_IsSuccess = True, reply_IsError = False, reply_StatusCode = statusCode,
           reply_Message = message, reply_SizeBytes = sizeBytes,
           reply_CustomLatencyMS = customLatencyMS, reply_Payload = AnyNil\<rparr>)"

definition failReply :: "(float64 \<Rightarrow> int) \<Rightarrow> go_any list \<Rightarrow> replyResult" where
  "failReply conv args =
     (case parseReplyOptions conv False args of
        (statusCode, sizeBytes, message, customLatencyMS) \<Rightarrow>
          \<lparr>reply_IsSuccess = False, reply_IsError = True, reply_StatusCode = statusCode,
           reply_Message = message, reply_SizeBytes = sizeBytes,
           reply_CustomLatencyMS = customLatencyMS, reply_Payload = AnyNil\<rparr>)"

section \<open>Scenario definitions\<close>

definition emptyScenario :: "string \<Rightarrow> scenarioDefinition res" where
  "emptyScenario name =
     (if blank name then Inl ''scenario name must be provided.''
      else Inr (zero_scenario\<lparr>sc_Name := name\<rparr>))"

text \<open>
  The run function a scenario is given, as the step function it keeps. A function of another type
  is called by reflection; an argument type reflection does not know panics at the call, not here.
\<close>

definition normalizeScenarioRun :: "go_fmt \<Rightarrow> go_any \<Rightarrow> go_closure res" where
  "normalizeScenarioRun fm run =
     (case run of
        AnyNil \<Rightarrow> Inl ''scenario run must be provided.''
      | AnyFunc t None \<Rightarrow> Inl ''scenario run must be provided.''
      | AnyFunc t (Some f) \<Rightarrow> (if t = StepContextRun then Inr (Plain f) else Inr (Adapt t (Some f)))
      | _ \<Rightarrow> Inl (''unsupported scenario run type '' @ fmt_type fm run))"

definition hook_types :: "go_func_type list" where
  "hook_types = [InitFuncNamed, InitContextErr, HookPlain, InitContextPlain, HookTask,
     AsyncInitFuncNamed, InitContextTask]"

definition normalizeScenarioInitHook :: "go_fmt \<Rightarrow> go_any \<Rightarrow> string \<Rightarrow> go_closure res" where
  "normalizeScenarioInitHook fm hook nilMessage =
     (case hook of
        AnyNil \<Rightarrow> Inl nilMessage
      | AnyFunc t None \<Rightarrow> Inl nilMessage
      | AnyFunc t (Some f) \<Rightarrow>
          if t = HookErr then Inr (Plain f)
          else if t \<in> set hook_types then Inr (Adapt t (Some f))
          else Inl (''unsupported scenario hook type '' @ fmt_type fm hook)
      | _ \<Rightarrow> Inl (''unsupported scenario hook type '' @ fmt_type fm hook))"

definition createScenario :: "go_fmt \<Rightarrow> string \<Rightarrow> go_any \<Rightarrow> scenarioDefinition res" where
  "createScenario fm name run =
     (if blank name then Inl ''scenario name must be provided.''
      else map_sum id (\<lambda>f. zero_scenario\<lparr>sc_Name := name,
             sc_Steps := [\<lparr>step_Name = name, step_Run = Some f\<rparr>]\<rparr>) (normalizeScenarioRun fm run))"

definition WithInit :: "go_fmt \<Rightarrow> go_any \<Rightarrow> scenarioDefinition \<Rightarrow> scenarioDefinition res" where
  "WithInit fm init s =
     map_sum id (\<lambda>f. s\<lparr>sc_Init := Some f\<rparr>)
       (normalizeScenarioInitHook fm init ''scenario init hook must be provided.'')"

definition WithClean :: "go_fmt \<Rightarrow> go_any \<Rightarrow> scenarioDefinition \<Rightarrow> scenarioDefinition res" where
  "WithClean fm clean s =
     map_sum id (\<lambda>f. s\<lparr>sc_Clean := Some f\<rparr>)
       (normalizeScenarioInitHook fm clean ''scenario clean hook must be provided.'')"

definition WithWeight :: "int \<Rightarrow> scenarioDefinition \<Rightarrow> scenarioDefinition" where
  "WithWeight weight s = s\<lparr>sc_Weight := weight\<rparr>"

definition WithRestartIterationOnFail :: "bool \<Rightarrow> scenarioDefinition \<Rightarrow> scenarioDefinition" where
  "WithRestartIterationOnFail enabled s = s\<lparr>sc_RestartIterationOnFail := enabled\<rparr>"

definition WithMaxFailCount :: "int \<Rightarrow> scenarioDefinition \<Rightarrow> scenarioDefinition" where
  "WithMaxFailCount maxFailCount s = s\<lparr>sc_MaxFailCount := maxFailCount\<rparr>"

definition WithWarmUpDuration :: "float64 \<Rightarrow> scenarioDefinition \<Rightarrow> scenarioDefinition" where
  "WithWarmUpDuration seconds s =
     s\<lparr>sc_WarmUpDurationSeconds := seconds, sc_WarmUpDisabled := False\<rparr>"

definition WithoutWarmUp :: "scenarioDefinition \<Rightarrow> scenarioDefinition" where
  "WithoutWarmUp s = s\<lparr>sc_WarmUpDisabled := True\<rparr>"

definition WithLoadSimulations :: "LoadSimulation list \<Rightarrow> scenarioDefinition \<Rightarrow> scenarioDefinition res" where
  "WithLoadSimulations loadSimulations s =
     (if length loadSimulations = 0 then Inl ''At least one load simulation should be provided.''
      else Inr (s\<lparr>sc_LoadSimulations := loadSimulations\<rparr>))"

definition WithThresholds :: "ThresholdSpec list \<Rightarrow> scenarioDefinition \<Rightarrow> scenarioDefinition res" where
  "WithThresholds thresholds s =
     (if length thresholds = 0 then Inl ''At least one threshold should be provided.''
      else Inr (s\<lparr>sc_Thresholds := thresholds\<rparr>))"

definition WithTrackingConfiguration ::
  "TrackingConfigurationSpec option \<Rightarrow> scenarioDefinition \<Rightarrow> scenarioDefinition" where
  "WithTrackingConfiguration tracking s = s\<lparr>sc_Tracking := tracking\<rparr>"

text \<open>The loop of \<open>WithDeclaredSteps\<close>, with the map \<open>seen\<close> and the values so far.\<close>

fun declare_steps :: "string set \<Rightarrow> string list \<Rightarrow> string list \<Rightarrow> string list res" where
  "declare_steps seen [] values = Inr values"
| "declare_steps seen (stepName # rest) values =
     (if blank stepName then Inl ''Declared step names must be non-empty.''
      else if stepName \<in> seen then Inl ''Declared step names must be unique.''
      else declare_steps (insert stepName seen) rest (values @ [stepName]))"

definition WithDeclaredSteps :: "string list \<Rightarrow> scenarioDefinition \<Rightarrow> scenarioDefinition res" where
  "WithDeclaredSteps stepNames s =
     map_sum id (\<lambda>values. s\<lparr>sc_DeclaredStepNames := values\<rparr>) (declare_steps {} stepNames [])"

definition add_feature :: "string \<Rightarrow> string list \<Rightarrow> string list" where
  "add_feature feature features =
     (let normalized = to_lower (trim_space feature) in
      if normalized = [] then features
      else if list_ex (\<lambda>existing. equal_fold (trim_space existing) normalized) features then features
      else features @ [normalized])"

definition withInternalLicenseFeatures :: "string list \<Rightarrow> scenarioDefinition \<Rightarrow> scenarioDefinition" where
  "withInternalLicenseFeatures features s =
     s\<lparr>sc_InternalLicenseFeatures := fold add_feature features (sc_InternalLicenseFeatures s)\<rparr>"

fun first_bad_step :: "scenarioStep list \<Rightarrow> string option" where
  "first_bad_step [] = None"
| "first_bad_step (step # steps) =
     (if blank (step_Name step) then Some ''step name must be provided.''
      else if step_Run step = None then Some ''step run must be provided.''
      else first_bad_step steps)"

definition WithSteps :: "scenarioStep list \<Rightarrow> scenarioDefinition \<Rightarrow> scenarioDefinition res" where
  "WithSteps steps s =
     (if length steps = 0 then Inl ''At least one step should be provided.''
      else case first_bad_step steps of
             Some m \<Rightarrow> Inl m
           | None \<Rightarrow> Inr (s\<lparr>sc_Steps := steps\<rparr>))"

text \<open>\<open>primaryScenarioRun\<close> of \<open>runtime_callback_registry.go\<close>.\<close>

definition primaryScenarioRun :: "scenarioDefinition \<Rightarrow> go_closure option" where
  "primaryScenarioRun scenario = (case sc_Steps scenario of [] \<Rightarrow> None | step # _ \<Rightarrow> step_Run step)"

section \<open>Traffic mixes\<close>

definition ScenarioShare_Create :: "scenarioDefinition option \<Rightarrow> int \<Rightarrow> trafficMixScenarioShare res" where
  "ScenarioShare_Create scenario weight =
     (case scenario of
        None \<Rightarrow> Inl ''scenario must be provided.''
      | Some s \<Rightarrow>
          if weight \<le> 0 then Inl ''Scenario share weight should be greater than zero.''
          else Inr \<lparr>share_Scenario = s, share_Weight = weight\<rparr>)"

definition TrafficMix_Create :: "string \<Rightarrow> trafficMixDefinition res" where
  "TrafficMix_Create name =
     (if blank name then Inl ''Traffic mix name must be provided.''
      else Inr \<lparr>mix_Name = name, mix_TotalLoad = [], mix_ScenarioMix = []\<rparr>)"

definition WithTotalLoad :: "LoadSimulation list \<Rightarrow> trafficMixDefinition \<Rightarrow> trafficMixDefinition res" where
  "WithTotalLoad totalLoad m =
     (if length totalLoad = 0 then Inl ''At least one total load simulation should be provided.''
      else Inr (m\<lparr>mix_TotalLoad := totalLoad\<rparr>))"

definition WithScenarioMix ::
  "trafficMixScenarioShare list \<Rightarrow> trafficMixDefinition \<Rightarrow> trafficMixDefinition res" where
  "WithScenarioMix scenarioMix m =
     (if length scenarioMix = 0 then Inl ''At least one scenario share should be provided.''
      else Inr (m\<lparr>mix_ScenarioMix := scenarioMix\<rparr>))"

section \<open>Lemmas\<close>

lemma declare_steps_iff:
  "declare_steps seen names vals = Inr out \<longleftrightarrow>
     out = vals @ names \<and> distinct names \<and> set names \<inter> seen = {} \<and> (\<forall>n \<in> set names. \<not> blank n)"
  by (induction names arbitrary: seen vals) auto

lemma estimate_pos: "1 \<le> estimateIterations conv i d"
  by (auto simp: estimateIterations_def maxInt_def)

text \<open>What every simulation the constructors make satisfies.\<close>

definition simulation_wf :: "LoadSimulation \<Rightarrow> bool" where
  "simulation_wf sim \<longleftrightarrow>
     1 \<le> sim_Copies sim \<and> 1 \<le> sim_Iterations sim \<and> sim_MinRate sim \<le> sim_MaxRate sim \<and>
     (sim_MaxRate sim \<noteq> 0 \<longrightarrow> 1 \<le> sim_MinRate sim)"

lemma Inject_wf: "simulation_wf (Inject conv r i d)"
  using estimate_pos[of conv i d]
  by (auto simp: simulation_wf_def Inject_def zero_simulation_def maxInt_def)

text \<open>The internal license features: normalised, none twice.\<close>

definition features_wf :: "string list \<Rightarrow> bool" where
  "features_wf fs \<longleftrightarrow> distinct fs \<and> (\<forall>f \<in> set fs. f \<noteq> [] \<and> f = to_lower (trim_space f) \<and> f = trim_space f)"

lemma add_feature_subset: "set fs \<subseteq> set (add_feature f fs)"
  by (auto simp: add_feature_def Let_def)

lemma fold_add_feature_subset: "set fs \<subseteq> set (fold add_feature gs fs)"
proof (induction gs arbitrary: fs)
  case (Cons g gs)
  with add_feature_subset[of fs g] show ?case by (auto simp: subset_iff)
qed simp

lemma add_feature_member:
  assumes "features_wf fs" and "\<not> blank f"
  shows "to_lower (trim_space f) \<in> set (add_feature f fs)"
proof -
  let ?n = "to_lower (trim_space f)"
  have n: "?n \<noteq> []" using assms(2) by (simp add: blank_def)
  show ?thesis
  proof (cases "list_ex (\<lambda>e. equal_fold (trim_space e) ?n) fs")
    case True
    then obtain e where e: "e \<in> set fs" "to_lower (trim_space e) = ?n"
      by (auto simp: list_ex_iff equal_fold_def)
    with assms(1) have "e = ?n" by (auto simp: features_wf_def)
    with e n show ?thesis by (auto simp: add_feature_def Let_def)
  next
    case False
    with n show ?thesis by (simp add: add_feature_def Let_def)
  qed
qed

lemma add_feature_wf: "features_wf fs \<Longrightarrow> features_wf (add_feature f fs)"
proof -
  assume wf: "features_wf fs"
  let ?n = "to_lower (trim_space f)"
  have "?n \<notin> set fs" if "\<not> list_ex (\<lambda>e. equal_fold (trim_space e) ?n) fs"
    using that wf by (auto simp: list_ex_iff equal_fold_def features_wf_def)
  with wf show ?thesis by (auto simp: add_feature_def Let_def features_wf_def)
qed

section \<open>Properties\<close>

text \<open>
  Every load simulation the constructors make is runnable, whatever the numbers they are given
  (negative rates, zero intervals, NaN or overflowing durations, a platform's conversion of floats
  out of range): at least one copy, at least one iteration, and a minimum rate that does not
  exceed the maximum and is positive whenever a rate is set.
\<close>

theorem simulations_runnable:
  "simulation_wf (Inject conv rate i d) \<and> simulation_wf (RampingInject conv rate i d) \<and>
   simulation_wf (KeepConstant conv copies d) \<and> simulation_wf (RampingConstant conv copies d) \<and>
   simulation_wf (InjectRandom conv lo hi i d) \<and> simulation_wf (Pause d) \<and>
   simulation_wf (IterationsForConstant copies n) \<and> simulation_wf (IterationsForInject rate i n)"
proof (intro conjI)
  show "simulation_wf (Inject conv rate i d)" by (rule Inject_wf)
  then show "simulation_wf (RampingInject conv rate i d)"
    by (simp add: RampingInject_def simulation_wf_def)
  show "simulation_wf (KeepConstant conv copies d)" and "simulation_wf (RampingConstant conv copies d)"
    by (simp_all add: RampingConstant_def KeepConstant_def simulation_wf_def zero_simulation_def maxInt_def)
  show "simulation_wf (InjectRandom conv lo hi i d)"
    using estimate_pos[of conv i d]
    by (auto simp: InjectRandom_def Let_def Inject_def zero_simulation_def simulation_wf_def maxInt_def)
  show "simulation_wf (Pause d)" by (simp add: Pause_def simulation_wf_def zero_simulation_def)
  show "simulation_wf (IterationsForConstant copies n)" and "simulation_wf (IterationsForInject rate i n)"
    by (simp_all add: IterationsForConstant_def IterationsForInject_def simulation_wf_def
        zero_simulation_def maxInt_def)
qed

text \<open>
  Declaring steps succeeds exactly when every name is non-blank and none is repeated, and then
  the scenario declares these names, in their order, and is otherwise unchanged.
\<close>

theorem declared_steps_iff:
  "WithDeclaredSteps names s = Inr t \<longleftrightarrow>
     distinct names \<and> list_all (Not \<circ> blank) names \<and> t = s\<lparr>sc_DeclaredStepNames := names\<rparr>"
proof (cases "declare_steps {} names []")
  case (Inl e)
  moreover from Inl have "\<not> (distinct names \<and> (\<forall>n \<in> set names. \<not> blank n))"
    using declare_steps_iff[of "{}" names "[]" names] by auto
  ultimately show ?thesis by (auto simp: WithDeclaredSteps_def list_all_iff)
next
  case (Inr vals)
  with declare_steps_iff[of "{}" names "[]" vals] show ?thesis
    by (auto simp: WithDeclaredSteps_def list_all_iff)
qed

text \<open>
  The internal license features of a scenario stay a set: adding features to a normalised list
  without repetition keeps it so, keeps what was there, and every non-blank feature that was asked
  for is there in its trimmed lower-case form.
\<close>

theorem license_features_are_a_set:
  assumes "features_wf (sc_InternalLicenseFeatures s)"
  shows "features_wf (sc_InternalLicenseFeatures (withInternalLicenseFeatures fs s)) \<and>
    set (sc_InternalLicenseFeatures s) \<subseteq> set (sc_InternalLicenseFeatures (withInternalLicenseFeatures fs s)) \<and>
    (\<forall>f \<in> set fs. \<not> blank f \<longrightarrow>
       to_lower (trim_space f) \<in> set (sc_InternalLicenseFeatures (withInternalLicenseFeatures fs s)))"
proof -
  have "features_wf gs \<Longrightarrow> features_wf (fold add_feature fs gs) \<and>
      (\<forall>f \<in> set fs. \<not> blank f \<longrightarrow> to_lower (trim_space f) \<in> set (fold add_feature fs gs))" for gs
  proof (induction fs arbitrary: gs)
    case (Cons f fs)
    from Cons.IH[OF add_feature_wf[OF Cons.prems, of f]] add_feature_member[OF Cons.prems, of f]
      fold_add_feature_subset[of "add_feature f gs" fs]
    show ?case by auto
  qed simp
  with assms fold_add_feature_subset[of "sc_InternalLicenseFeatures s" fs]
  show ?thesis by (simp add: withInternalLicenseFeatures_def)
qed

lemma license_features_are_a_set_witness:
  "''x'' \<in> set (sc_InternalLicenseFeatures (withInternalLicenseFeatures [''x''] zero_scenario))"
proof -
  have "features_wf (sc_InternalLicenseFeatures zero_scenario)"
    by (simp add: features_wf_def zero_scenario_def)
  moreover have "trim_space ''x'' = ''x''" by (simp add: graphic_def)
  moreover have "to_lower ''x'' = ''x''" by (simp add: to_lower_def lower_char_def)
  ultimately show ?thesis
    using license_features_are_a_set[of zero_scenario "[''x'']"] by (simp add: blank_def)
qed

end
