(* ===== verification/Runtime_Settings.thy ===== *)
theory Runtime_Settings
  imports Go_Values Base64
begin

text \<open>
  The validation of custom settings (\<open>runtime_settings.go\<close>): the SDK walks a value by reflection
  before any of it is encoded as JSON, and refuses reference cycles, nesting below 128 levels,
  numbers that are not finite, maps whose keys are not strings, and values JSON cannot hold.

  A value of package \<open>reflect\<close> is a \<open>jvalue\<close>; what maps, slices and pointers point to is in a heap,
  so that a value may share parts and may contain itself. Types are numbered.
\<close>

section \<open>Values and the heap\<close>

type_synonym type_key = nat
type_synonym heap_addr = nat

datatype jvalue =
    VInvalid
  | VInterface "jvalue option"
  | VBool bool
  | VString string
  | VInt int
  | VFloat float64
  | VMap type_key bool "heap_addr option"
  | VSlice type_key "(heap_addr \<times> nat \<times> nat) option"
  | VArray "jvalue list"
  | VPointer type_key "heap_addr option"
  | VStruct "(string \<times> bool \<times> jvalue) list"
  | VOther string

record go_heap =
  map_at :: "heap_addr \<Rightarrow> (string \<times> jvalue) list"
  slice_at :: "type_key \<Rightarrow> heap_addr \<Rightarrow> jvalue list"
  pointer_at :: "type_key \<Rightarrow> heap_addr \<Rightarrow> jvalue"

text \<open>\<open>runtimeSettingsVisit\<close>: kind, type, pointer, and the length and capacity of a slice.\<close>

datatype container_kind = KMap | KSlice | KPointer

type_synonym runtimeSettingsVisit = "container_kind \<times> type_key \<times> heap_addr \<times> int \<times> int"

definition runtimeSettingsMaximumDepth :: nat where "runtimeSettingsMaximumDepth = 128"

definition runtimeSettingsPath :: "string \<Rightarrow> string \<Rightarrow> string" where
  "runtimeSettingsPath parent key = (if blank parent then key else parent @ ''.'' @ key)"

definition index_path :: "string \<Rightarrow> nat \<Rightarrow> string" where
  "index_path path index = path @ ''['' @ dec_of_nat index @ '']''"

definition errorsForRuntimeSettings :: "string \<Rightarrow> go_error" where
  "errorsForRuntimeSettings message = ''invalid JSON-compatible settings: '' @ message"

definition enterRuntimeSettingsContainer ::
  "runtimeSettingsVisit \<Rightarrow> runtimeSettingsVisit set \<Rightarrow> string \<Rightarrow> runtimeSettingsVisit set res" where
  "enterRuntimeSettingsContainer visit active path =
     (if visit \<in> active then Inl (errorsForRuntimeSettings (path @ '' contains a reference cycle''))
      else Inr (insert visit active))"

definition slice_elements :: "go_heap \<Rightarrow> type_key \<Rightarrow> heap_addr \<Rightarrow> nat \<Rightarrow> jvalue list" where
  "slice_elements h t a len = take len (slice_at h t a)"

definition indexed :: "string \<Rightarrow> jvalue list \<Rightarrow> (string \<times> jvalue) list" where
  "indexed path vs = map (\<lambda>(i, v). (index_path path i, v)) (zip [0..<length vs] vs)"

definition visible_fields :: "string \<Rightarrow> (string \<times> bool \<times> jvalue) list \<Rightarrow> (string \<times> jvalue) list" where
  "visible_fields path flds =
     map (\<lambda>(name, visible, v). (runtimeSettingsPath path name, v))
       (filter (\<lambda>(name, visible, v). visible) flds)"

section \<open>The walk\<close>

text \<open>
  \<open>validateJSONCompatibleSettingsValue\<close>, and its loops over entries, elements and fields. The set
  \<open>active\<close> holds the containers being walked: \<open>defer delete(active, visit)\<close> takes a container out
  again when its walk returns, so each walk sees the containers around it.
\<close>

function validate_value :: "go_heap \<Rightarrow> jvalue \<Rightarrow> runtimeSettingsVisit set \<Rightarrow> string \<Rightarrow> nat \<Rightarrow> unit res"
  and validate_all :: "go_heap \<Rightarrow> (string \<times> jvalue) list \<Rightarrow> runtimeSettingsVisit set \<Rightarrow> nat \<Rightarrow> unit res" where
  "validate_value h v active path depth =
     (if depth > runtimeSettingsMaximumDepth
      then Inl (errorsForRuntimeSettings (path @ '' exceeds the maximum nesting depth of '' @
                dec_of_nat runtimeSettingsMaximumDepth))
      else case v of
        VInvalid \<Rightarrow> Inr ()
      | VInterface None \<Rightarrow> Inr ()
      | VInterface (Some w) \<Rightarrow> validate_value h w active path depth
      | VBool b \<Rightarrow> Inr ()
      | VString s \<Rightarrow> Inr ()
      | VInt i \<Rightarrow> Inr ()
      | VFloat f \<Rightarrow>
          (case f of Fin q \<Rightarrow> Inr ()
           | _ \<Rightarrow> Inl (errorsForRuntimeSettings (path @ '' contains a non-finite number'')))
      | VMap t string_keys target \<Rightarrow>
          if \<not> string_keys
          then Inl (errorsForRuntimeSettings (path @ '' contains a map with non-string keys''))
          else (case target of
                  None \<Rightarrow> Inr ()
                | Some a \<Rightarrow>
                    (case enterRuntimeSettingsContainer (KMap, t, a, -1, -1) active path of
                       Inl e \<Rightarrow> Inl e
                     | Inr active' \<Rightarrow>
                         validate_all h (map (\<lambda>(k, w). (runtimeSettingsPath path k, w)) (map_at h a))
                           active' (depth + 1)))
      | VSlice t target \<Rightarrow>
          (case target of
             None \<Rightarrow> Inr ()
           | Some (a, len, cap) \<Rightarrow>
               (case enterRuntimeSettingsContainer (KSlice, t, a, int len, int cap) active path of
                  Inl e \<Rightarrow> Inl e
                | Inr active' \<Rightarrow>
                    validate_all h (indexed path (slice_elements h t a len)) active' (depth + 1)))
      | VArray vs \<Rightarrow> validate_all h (indexed path vs) active (depth + 1)
      | VPointer t target \<Rightarrow>
          (case target of
             None \<Rightarrow> Inr ()
           | Some a \<Rightarrow>
               (case enterRuntimeSettingsContainer (KPointer, t, a, -1, -1) active path of
                  Inl e \<Rightarrow> Inl e
                | Inr active' \<Rightarrow> validate_value h (pointer_at h t a) active' path (depth + 1)))
      | VStruct flds \<Rightarrow> validate_all h (visible_fields path flds) active (depth + 1)
      | VOther kind \<Rightarrow>
          Inl (errorsForRuntimeSettings (path @ '' contains unsupported '' @ kind @ '' value'')))"
| "validate_all h [] active depth = Inr ()"
| "validate_all h ((path, v) # rest) active depth =
     (case validate_value h v active path depth of
        Inl e \<Rightarrow> Inl e
      | Inr _ \<Rightarrow> validate_all h rest active depth)"
  by pat_completeness auto
termination
  by (relation "measures
       [\<lambda>x. case x of Inl (h, v, act, p, d) \<Rightarrow> 129 - d | Inr (h, vs, act, d) \<Rightarrow> 129 - d,
        \<lambda>x. case x of Inl (h, v, act, p, d) \<Rightarrow> size v
             | Inr (h, vs, act, d) \<Rightarrow> size_list (\<lambda>(p, v). Suc (size v)) vs]")
    (auto simp: runtimeSettingsMaximumDepth_def)

declare validate_value.simps [simp del]

section \<open>Values that JSON can hold\<close>

text \<open>
  \<open>encodable h n v\<close>: following every pointer, \<open>v\<close> unfolds to a finite tree of at most \<open>n\<close> levels,
  all of whose numbers are finite, whose maps have string keys, and which has no function,
  channel or complex number. This says nothing of how the check goes about it.
\<close>

inductive encodable :: "go_heap \<Rightarrow> nat \<Rightarrow> jvalue \<Rightarrow> bool" for h where
  enc_invalid: "encodable h (Suc n) VInvalid"
| enc_nil: "encodable h (Suc n) (VInterface None)"
| enc_bool: "encodable h (Suc n) (VBool b)"
| enc_string: "encodable h (Suc n) (VString s)"
| enc_int: "encodable h (Suc n) (VInt i)"
| enc_float: "encodable h (Suc n) (VFloat (Fin q))"
| enc_nil_map: "encodable h (Suc n) (VMap t True None)"
| enc_nil_slice: "encodable h (Suc n) (VSlice t None)"
| enc_nil_pointer: "encodable h (Suc n) (VPointer t None)"
| enc_interface: "encodable h n w \<Longrightarrow> encodable h n (VInterface (Some w))"
| enc_map: "(\<And>k w. (k, w) \<in> set (map_at h a) \<Longrightarrow> encodable h n w) \<Longrightarrow>
     encodable h (Suc n) (VMap t True (Some a))"
| enc_slice: "(\<And>w. w \<in> set (slice_elements h t a len) \<Longrightarrow> encodable h n w) \<Longrightarrow>
     encodable h (Suc n) (VSlice t (Some (a, len, cap)))"
| enc_array: "(\<And>w. w \<in> set vs \<Longrightarrow> encodable h n w) \<Longrightarrow> encodable h (Suc n) (VArray vs)"
| enc_pointer: "encodable h n (pointer_at h t a) \<Longrightarrow> encodable h (Suc n) (VPointer t (Some a))"
| enc_struct: "(\<And>name w. (name, True, w) \<in> set flds \<Longrightarrow> encodable h n w) \<Longrightarrow>
     encodable h (Suc n) (VStruct flds)"

inductive_cases encodable_cases: "encodable h n v"

inductive_simps encodable_simps:
  "encodable h n VInvalid" "encodable h n (VInterface None)" "encodable h n (VInterface (Some w))"
  "encodable h n (VBool b)" "encodable h n (VString s)" "encodable h n (VInt i)"
  "encodable h n (VFloat f)" "encodable h n (VMap t b None)" "encodable h n (VMap t b (Some a))"
  "encodable h n (VSlice t None)" "encodable h n (VSlice t (Some p))" "encodable h n (VArray vs)"
  "encodable h n (VPointer t None)" "encodable h n (VPointer t (Some a))"
  "encodable h n (VStruct flds)" "encodable h n (VOther k)"

lemma encodable_Suc: "encodable h n v \<Longrightarrow> encodable h (Suc n) v"
  by (induction rule: encodable.induct) (auto intro: encodable.intros)

lemma encodable_mono: "encodable h n v \<Longrightarrow> n \<le> m \<Longrightarrow> encodable h m v"
  by (induction m) (auto simp: le_Suc_eq intro: encodable_Suc)

lemma set_indexed: "(p, w) \<in> set (indexed path vs) \<Longrightarrow> w \<in> set vs"
  by (auto simp: indexed_def dest: set_zip_rightD)

lemma in_indexed: "w \<in> set vs \<Longrightarrow> \<exists>p. (p, w) \<in> set (indexed path vs)"
  by (force simp: indexed_def in_set_conv_nth set_zip image_iff)

lemma set_visible: "(p, w) \<in> set (visible_fields path flds) \<longleftrightarrow>
    (\<exists>name. p = runtimeSettingsPath path name \<and> (name, True, w) \<in> set flds)"
  by (force simp: visible_fields_def)

text \<open>What the walk accepts at depth \<open>d\<close> is encodable within the levels that are left.\<close>

lemma validate_sound:
  "validate_value h v active path d = Inr u \<Longrightarrow> encodable h (129 - d) v"
  "validate_all h vs active d = Inr u \<Longrightarrow> (p, w) \<in> set vs \<Longrightarrow> encodable h (129 - d) w"
proof (induction h v active path d and h vs active d arbitrary: u and p w u
    rule: validate_value_validate_all.induct)
  case (1 h v active path d)
  note run = "1.prems"[unfolded validate_value.simps[of h v]]
  from run have d: "d \<le> 128"
    by (simp add: runtimeSettingsMaximumDepth_def split: if_splits)
  then have n: "129 - d = Suc (128 - d)" and ok: "\<not> runtimeSettingsMaximumDepth < d"
    by (simp_all add: runtimeSettingsMaximumDepth_def)
  have sub: "129 - (d + 1) = 128 - d" by simp
  show ?case
  proof (cases v)
    case (VInterface t)
    show ?thesis
    proof (cases t)
      case (Some w)
      with VInterface run ok have "validate_value h w active path d = Inr u"
        by simp
      from "1.IH"(1)[OF ok VInterface Some this] VInterface Some show ?thesis
        by (simp add: encodable_simps)
    qed (use VInterface in \<open>simp add: n encodable_simps\<close>)
  next
    case (VFloat f)
    with run ok show ?thesis by (cases f) (auto simp: encodable_simps n)
  next
    case (VMap t b target)
    show ?thesis
    proof (cases target)
      case (Some a)
      with VMap run ok have b: b
        and e: "\<exists>act. enterRuntimeSettingsContainer (KMap, t, a, -1, -1) active path = Inr act"
        by (auto split: if_splits sum.splits)
      then obtain act where e: "enterRuntimeSettingsContainer (KMap, t, a, -1, -1) active path = Inr act" by blast
      with VMap Some run ok b
      have "validate_all h (map (\<lambda>(k, w). (runtimeSettingsPath path k, w)) (map_at h a)) act (d + 1) = Inr u"
        by simp
      from "1.IH"(2)[OF ok VMap _ Some e this] b
      have "encodable h (128 - d) w" if "(k, w) \<in> set (map_at h a)" for k w
        using that sub by (force simp: image_iff)
      with b Some VMap show ?thesis by (simp add: n encodable_simps)
    qed (use run ok VMap in \<open>auto simp: encodable_simps n split: if_splits\<close>)
  next
    case (VSlice t target)
    show ?thesis
    proof (cases target)
      case (Some x)
      obtain a len cap where x: "x = (a, len, cap)" by (cases x)
      from VSlice Some run ok x obtain act where
        e: "enterRuntimeSettingsContainer (KSlice, t, a, int len, int cap) active path = Inr act"
        by (auto split: sum.splits)
      with VSlice Some run ok x
      have "validate_all h (indexed path (slice_elements h t a len)) act (d + 1) = Inr u"
        by simp
      from "1.IH"(3)[OF ok VSlice Some x[symmetric] refl e this]
      have "encodable h (128 - d) w" if "w \<in> set (slice_elements h t a len)" for w
        using in_indexed[OF that, of path] sub by auto
      with Some x VSlice show ?thesis by (simp add: n encodable_simps)
    qed (use run ok VSlice in \<open>auto simp: encodable_simps n\<close>)
  next
    case (VArray vs)
    with run ok have "validate_all h (indexed path vs) active (d + 1) = Inr u"
      by simp
    from "1.IH"(4)[OF ok VArray this]
    have "encodable h (128 - d) w" if "w \<in> set vs" for w
      using in_indexed[OF that, of path] sub by auto
    with VArray show ?thesis by (simp add: n encodable_simps)
  next
    case (VPointer t target)
    show ?thesis
    proof (cases target)
      case (Some a)
      from VPointer Some run ok obtain act where
        e: "enterRuntimeSettingsContainer (KPointer, t, a, -1, -1) active path = Inr act"
        by (auto split: sum.splits)
      with VPointer Some run ok have "validate_value h (pointer_at h t a) act path (d + 1) = Inr u"
        by simp
      from "1.IH"(5)[OF ok VPointer Some e this] Some VPointer sub show ?thesis
        by (simp add: n encodable_simps)
    qed (use run ok VPointer in \<open>auto simp: encodable_simps n\<close>)
  next
    case (VStruct flds)
    with run ok have "validate_all h (visible_fields path flds) active (d + 1) = Inr u"
      by simp
    from "1.IH"(6)[OF ok VStruct this]
    have "encodable h (128 - d) w" if "(name, True, w) \<in> set flds" for name w
      using that sub by (force simp: set_visible)
    with VStruct show ?thesis by (simp add: n encodable_simps)
  qed (use run ok in \<open>auto simp: encodable_simps n\<close>)
next
  case (3 h path v rest active d)
  then show ?case by (auto split: sum.splits)
qed simp

text \<open>
  Conversely, what is encodable within the levels left is accepted: a container being walked is
  not met again, because a container inside an encodable value has fewer levels than it.
\<close>

fun container :: "runtimeSettingsVisit \<Rightarrow> jvalue" where
  "container (KMap, t, a, l, c) = VMap t True (Some a)"
| "container (KSlice, t, a, l, c) = VSlice t (Some (a, nat l, nat c))"
| "container (KPointer, t, a, l, c) = VPointer t (Some a)"

definition outside :: "go_heap \<Rightarrow> nat \<Rightarrow> runtimeSettingsVisit set \<Rightarrow> bool" where
  "outside h n active \<longleftrightarrow> (\<forall>x \<in> active. \<not> encodable h n (container x))"

lemma encodable_pos: "encodable h n v \<Longrightarrow> 0 < n"
  by (induction rule: encodable.induct) auto

text \<open>The least number of levels of a container; its contents have one fewer.\<close>

lemma enter_container:
  assumes "encodable h n (container x)" and "outside h n active"
  obtains k where "Suc k \<le> n" "encodable h (Suc k) (container x)"
    "enterRuntimeSettingsContainer x active path = Inr (insert x active)" "outside h k (insert x active)"
proof -
  let ?m = "LEAST m. encodable h m (container x)"
  have m: "encodable h ?m (container x)" using assms(1) by (rule LeastI)
  have le: "?m \<le> n" using assms(1) by (rule Least_le)
  from encodable_pos[OF m] obtain k where k: "?m = Suc k" by (cases ?m) auto
  have "\<not> encodable h k (container x)" using not_less_Least[of k "\<lambda>m. encodable h m (container x)"] k by simp
  moreover have "\<not> encodable h k (container y)" if "y \<in> active" for y
    using that assms(2) encodable_mono[of h k "container y" n] le k by (auto simp: outside_def)
  ultimately have "outside h k (insert x active)" by (simp add: outside_def)
  moreover have "x \<notin> active" using assms by (auto simp: outside_def)
  ultimately show ?thesis using that[of k] le k m by (simp add: enterRuntimeSettingsContainer_def)
qed

lemma outside_mono: "outside h n active \<Longrightarrow> k \<le> n \<Longrightarrow> outside h k active"
  unfolding outside_def using encodable_mono by blast

lemma validate_complete:
  "encodable h n v \<Longrightarrow> n \<le> 129 - d \<Longrightarrow> outside h n active \<Longrightarrow> validate_value h v active path d = Inr ()"
  "(\<And>p w. (p, w) \<in> set vs \<Longrightarrow> encodable h n w) \<Longrightarrow> n \<le> 129 - d \<Longrightarrow> outside h n active \<Longrightarrow>
     validate_all h vs active d = Inr ()"
proof (induction h v active path d and h vs active d arbitrary: n and n
    rule: validate_value_validate_all.induct)
  case (1 h v active path d)
  note enc = "1.prems"(1) and le = "1.prems"(2) and out = "1.prems"(3)
  have ok: "\<not> runtimeSettingsMaximumDepth < d"
    using encodable_pos[OF enc] le by (simp add: runtimeSettingsMaximumDepth_def)
  note eq = validate_value.simps[of h v active path d]
  show ?case
  proof (cases v)
    case (VInterface t)
    show ?thesis
    proof (cases t)
      case (Some w)
      with enc VInterface have "encodable h n w" by (simp add: encodable_simps)
      from "1.IH"(1)[OF ok VInterface Some this le out] show ?thesis
        unfolding eq using ok VInterface Some by simp
    qed (unfold eq, use ok VInterface in simp)
  next
    case (VFloat f)
    with enc obtain q where "f = Fin q" by (auto simp: encodable_simps)
    with ok VFloat show ?thesis unfolding eq by simp
  next
    case (VMap t b target)
    with enc have b: b by (cases target) (auto simp: encodable_simps)
    show ?thesis
    proof (cases target)
      case (Some a)
      with VMap enc b have "encodable h n (container (KMap, t, a, -1, -1))" by simp
      from enter_container[OF this out] obtain k where k: "Suc k \<le> n"
        "encodable h (Suc k) (VMap t True (Some a))" "outside h k (insert (KMap, t, a, -1, -1) active)"
        and e: "enterRuntimeSettingsContainer (KMap, t, a, -1, -1) active path = Inr (insert (KMap, t, a, -1, -1) active)"
        by (metis container.simps(1))
      have "validate_all h (map (\<lambda>(k, w). (runtimeSettingsPath path k, w)) (map_at h a))
          (insert (KMap, t, a, -1, -1) active) (d + 1) = Inr ()"
        using b by (intro "1.IH"(2)[OF ok VMap _ Some e, of k]) (use k le in \<open>auto simp: encodable_simps\<close>)
      then show ?thesis unfolding eq using ok VMap Some b e by simp
    qed (unfold eq, use ok VMap b in simp)
  next
    case (VSlice t target)
    show ?thesis
    proof (cases target)
      case (Some x)
      obtain a len cap where x: "x = (a, len, cap)" by (cases x)
      let ?v = "(KSlice, t, a, int len, int cap)"
      from VSlice Some x enc have "encodable h n (container ?v)" by simp
      from enter_container[OF this out, of path] obtain k where k: "Suc k \<le> n"
        "encodable h (Suc k) (VSlice t (Some (a, len, cap)))" "outside h k (insert ?v active)"
        and e: "enterRuntimeSettingsContainer ?v active path = Inr (insert ?v active)"
        by auto
      have "validate_all h (indexed path (slice_elements h t a len)) (insert ?v active) (d + 1) = Inr ()"
        by (intro "1.IH"(3)[OF ok VSlice Some x[symmetric] refl e, of k])
          (use k le in \<open>auto simp: encodable_simps dest: set_indexed\<close>)
      then show ?thesis unfolding eq using ok VSlice Some x e by simp
    qed (unfold eq, use ok VSlice in simp)
  next
    case (VArray vs)
    with enc obtain k where k: "n = Suc k" "\<And>w. w \<in> set vs \<Longrightarrow> encodable h k w"
      by (auto simp: encodable_simps)
    have "validate_all h (indexed path vs) active (d + 1) = Inr ()"
      by (intro "1.IH"(4)[OF ok VArray, of k]) (use k le out outside_mono in \<open>auto dest: set_indexed\<close>)
    then show ?thesis unfolding eq using ok VArray by simp
  next
    case (VPointer t target)
    show ?thesis
    proof (cases target)
      case (Some a)
      with VPointer enc have "encodable h n (container (KPointer, t, a, -1, -1))" by simp
      from enter_container[OF this out, of path] obtain k where k: "Suc k \<le> n"
        "encodable h (Suc k) (VPointer t (Some a))" "outside h k (insert (KPointer, t, a, -1, -1) active)"
        and e: "enterRuntimeSettingsContainer (KPointer, t, a, -1, -1) active path
                  = Inr (insert (KPointer, t, a, -1, -1) active)"
        by auto
      have "validate_value h (pointer_at h t a) (insert (KPointer, t, a, -1, -1) active) path (d + 1) = Inr ()"
        by (intro "1.IH"(5)[OF ok VPointer Some e, of k]) (use k le in \<open>auto simp: encodable_simps\<close>)
      then show ?thesis unfolding eq using ok VPointer Some e by simp
    qed (unfold eq, use ok VPointer in simp)
  next
    case (VStruct flds)
    with enc obtain k where k: "n = Suc k" "\<And>name w. (name, True, w) \<in> set flds \<Longrightarrow> encodable h k w"
      by (auto simp: encodable_simps)
    have "validate_all h (visible_fields path flds) active (d + 1) = Inr ()"
      by (intro "1.IH"(6)[OF ok VStruct, of k]) (use k le out outside_mono in \<open>auto simp: set_visible\<close>)
    then show ?thesis unfolding eq using ok VStruct by simp
  next
    case (VOther kind)
    with enc show ?thesis by (simp add: encodable_simps)
  qed (unfold eq, use ok in simp_all)
next
  case (3 h path v rest active d)
  have "encodable h n v" by (rule "3.prems"(1)[of path]) simp
  from "3.IH"(1)[OF this "3.prems"(2,3)] have v: "validate_value h v active path d = Inr ()" .
  have "validate_all h rest active d = Inr ()"
    by (rule "3.IH"(2)[OF v]) (use "3.prems" in auto)
  with v show ?case by simp
qed simp

section \<open>Snapshots of settings\<close>

text \<open>
  \<open>cloneJSONCompatibleSettings\<close>: \<open>encode\<close> is \<open>json.Unmarshal\<close> of \<open>json.Marshal\<close>, which the code
  calls only on a value that passed the walk.
\<close>

definition cloneJSONCompatibleSettings ::
  "(go_heap \<Rightarrow> jvalue \<Rightarrow> (string \<times> go_any) list res) \<Rightarrow> go_heap \<Rightarrow> jvalue option
     \<Rightarrow> (string \<times> go_any) list res" where
  "cloneJSONCompatibleSettings encode h source =
     (case source of
        None \<Rightarrow> Inr []
      | Some v \<Rightarrow>
          (case validate_value h v {} ''settings'' 0 of
             Inl e \<Rightarrow> Inl e
           | Inr _ \<Rightarrow>
               (case encode h v of
                  Inl e \<Rightarrow> Inl (errorsForRuntimeSettings (''settings is not JSON-compatible: '' @ e))
                | Inr snapshot \<Rightarrow> Inr snapshot)))"

text \<open>
  \<open>cloneKnownJSONCompatibleSettings\<close>, on settings that are trees of dynamic values, as snapshots
  are: the walk's checks on a tree, and the round trip through JSON, in which every number is a
  \<open>float64\<close> and bytes are base64 text. On settings the check refuses the code panics.
\<close>

fun settings_ok :: "nat \<Rightarrow> go_any \<Rightarrow> bool" where
  "settings_ok 0 v = False"
| "settings_ok (Suc n) (AnyFloat64 f) = (f \<noteq> PInf \<and> f \<noteq> NInf \<and> f \<noteq> NaN)"
| "settings_ok (Suc n) (AnyFloat32 f) = (f \<noteq> PInf \<and> f \<noteq> NInf \<and> f \<noteq> NaN)"
| "settings_ok (Suc n) (AnySlice vs) = list_all (settings_ok n) vs"
| "settings_ok (Suc n) (AnyMap kvs) = list_all (\<lambda>kv. settings_ok n (snd kv)) kvs"
| "settings_ok (Suc n) (AnyFunc t f) = False"
| "settings_ok (Suc n) (AnyOther t r) = False"
| "settings_ok (Suc n) v = True"

fun json_value :: "nat \<Rightarrow> go_any \<Rightarrow> go_any" where
  "json_value 0 v = v"
| "json_value (Suc n) (AnyInt i) = AnyFloat64 (f64_of_int i)"
| "json_value (Suc n) (AnyInt64 i) = AnyFloat64 (f64_of_int i)"
| "json_value (Suc n) (AnyInt32 i) = AnyFloat64 (f64_of_int i)"
| "json_value (Suc n) (AnyDuration i) = AnyFloat64 (f64_of_int i)"
| "json_value (Suc n) (AnyFloat32 f) = AnyFloat64 f"
| "json_value (Suc n) (AnyBytes b) = AnyString (std_encode b)"
| "json_value (Suc n) (AnySlice vs) = AnySlice (map (json_value n) vs)"
| "json_value (Suc n) (AnyMap kvs) = AnyMap (map (\<lambda>(k, v). (k, json_value n v)) kvs)"
| "json_value (Suc n) v = v"

definition cloneKnownJSONCompatibleSettings :: "(string \<times> go_any) list \<Rightarrow> (string \<times> go_any) list res" where
  "cloneKnownJSONCompatibleSettings source =
     (if \<not> list_all (\<lambda>kv. settings_ok 128 (snd kv)) source
      then Inl ''clone validated runtime settings: invalid JSON-compatible settings''
      else Inr (map (\<lambda>(k, v). (k, json_value 128 v)) source))"

text \<open>The round trip of a snapshot is the snapshot.\<close>

lemma json_value_idem: "json_value n (json_value n v) = json_value n v"
  by (induction n v rule: json_value.induct) auto

section \<open>Properties\<close>

text \<open>
  C40: The walk over custom settings ends on every value, cyclic ones included, and accepts exactly
  the values JSON can hold: those that unfold, through every pointer, map and slice, to a finite
  tree of at most 129 levels, with finite numbers, string keys and no functions or channels.
\<close>

theorem settings_accepted_iff:
  "validate_value h v {} path 0 = Inr () \<longleftrightarrow> encodable h 129 v"
proof
  assume "validate_value h v {} path 0 = Inr ()"
  from validate_sound(1)[OF this] show "encodable h 129 v" by simp
next
  assume "encodable h 129 v"
  then show "validate_value h v {} path 0 = Inr ()"
    by (rule validate_complete(1)) (simp_all add: outside_def)
qed

end
