(* ===== verification/Context.thy ===== *)
theory Context
  imports Scenario Runtime_Settings
begin

text \<open>
  The execution context and its fluent operations (\<open>context.go\<close>), the runner that collects
  scenarios around one (\<open>runner.go\<close>), and the reporting sinks they hold. A context operation
  changes its receiver in place and panics on a bad argument, so it is an \<open>act\<close>; on a nil receiver
  it does nothing, and the model has the other case only.
\<close>

section \<open>Reporting sinks\<close>

record InfluxDBSinkOptions =
  influx_ConfigurationSectionPath :: string
  influx_BaseURL :: string
  influx_WriteEndpointPath :: string
  influx_Organization :: string
  influx_Bucket :: string
  influx_Token :: string
  influx_MeasurementName :: string
  influx_MetricsMeasurementName :: string
  influx_TimeoutSeconds :: int
  influx_StaticTags :: "(string \<rightharpoonup> string)"

record TimescaleDBSinkOptions =
  timescale_ConfigurationSectionPath :: string
  timescale_ConnectionString :: string
  timescale_Schema :: string
  timescale_TableName :: string
  timescale_MetricsTableName :: string
  timescale_CreateSchemaIfMissing :: bool
  timescale_EnableHypertableIfAvailable :: bool
  timescale_StaticTags :: "(string \<rightharpoonup> string)"

record GrafanaLokiSinkOptions =
  loki_ConfigurationSectionPath :: string
  loki_BaseURL :: string
  loki_PushEndpointPath :: string
  loki_BearerToken :: string
  loki_Username :: string
  loki_Password :: string
  loki_TenantID :: string
  loki_TimeoutSeconds :: int
  loki_StaticLabels :: "(string \<rightharpoonup> string)"
  loki_MetricsBaseURL :: string
  loki_MetricsEndpointPath :: string
  loki_MetricsHeaders :: "(string \<rightharpoonup> string)"

record DatadogSinkOptions =
  datadog_ConfigurationSectionPath :: string
  datadog_BaseURL :: string
  datadog_LogsEndpointPath :: string
  datadog_MetricsEndpointPath :: string
  datadog_APIKey :: string
  datadog_ApplicationKey :: string
  datadog_Source :: string
  datadog_Service :: string
  datadog_Host :: string
  datadog_TimeoutSeconds :: int
  datadog_StaticTags :: "(string \<rightharpoonup> string)"
  datadog_StaticAttributes :: "(string \<rightharpoonup> string)"

record SplunkSinkOptions =
  splunk_ConfigurationSectionPath :: string
  splunk_BaseURL :: string
  splunk_EventEndpointPath :: string
  splunk_Token :: string
  splunk_Source :: string
  splunk_Sourcetype :: string
  splunk_Index :: string
  splunk_Host :: string
  splunk_TimeoutSeconds :: int
  splunk_StaticFields :: "(string \<rightharpoonup> string)"

record OTELCollectorSinkOptions =
  otel_ConfigurationSectionPath :: string
  otel_BaseURL :: string
  otel_LogsEndpointPath :: string
  otel_MetricsEndpointPath :: string
  otel_TimeoutSeconds :: int
  otel_Headers :: "(string \<rightharpoonup> string)"
  otel_StaticResourceAttributes :: "(string \<rightharpoonup> string)"

record HTTPReportingSinkOptions =
  hsink_EndpointURL :: string
  hsink_Headers :: "(string \<rightharpoonup> string)"
  hsink_TimeoutSeconds :: int
  hsink_Host :: string
  hsink_Port :: int
  hsink_Prefix :: string
  hsink_Tags :: "(string \<rightharpoonup> string)"
  hsink_BearerToken :: string
  hsink_Namespace :: string
  hsink_Region :: string
  hsink_AccessKeyID :: string
  hsink_SecretAccessKey :: string
  hsink_SessionToken :: string
  hsink_APIToken :: string
  hsink_LicenseKey :: string
  hsink_StaticTags :: "(string \<rightharpoonup> string)"
  hsink_StaticDimensions :: "(string \<rightharpoonup> string)"

record KafkaReportingSinkOptions =
  ksink_Topic :: string
  ksink_Publish :: "go_ref option"

record JsonlFileReportingSinkOptions =
  jsonl_Path :: string

text \<open>
  The sinks the SDK knows, and one the user wrote: its name, whether it takes batches of
  iterations, and the value itself.
\<close>

datatype reportingSink =
    InfluxDbReportingSink InfluxDBSinkOptions
  | TimescaleDbReportingSink TimescaleDBSinkOptions
  | GrafanaLokiReportingSink GrafanaLokiSinkOptions
  | DatadogReportingSink DatadogSinkOptions
  | SplunkReportingSink SplunkSinkOptions
  | OtelCollectorReportingSink OTELCollectorSinkOptions
  | PortalReportingSink
  | PrometheusRemoteWriteReportingSink HTTPReportingSinkOptions
  | CloudWatchReportingSink HTTPReportingSinkOptions
  | DynatraceReportingSink HTTPReportingSinkOptions
  | ElasticsearchReportingSink HTTPReportingSinkOptions
  | OpenSearchReportingSink HTTPReportingSinkOptions
  | KafkaReportingSink KafkaReportingSinkOptions
  | StatsDReportingSink HTTPReportingSinkOptions
  | DogStatsDReportingSink HTTPReportingSinkOptions
  | NewRelicReportingSink HTTPReportingSinkOptions
  | NetdataStatsDReportingSink HTTPReportingSinkOptions
  | JsonlFileReportingSink JsonlFileReportingSinkOptions
  | GenericWebhookReportingSink HTTPReportingSinkOptions
  | CustomReportingSink string bool go_ref

fun SinkName :: "reportingSink \<Rightarrow> string" where
  "SinkName (InfluxDbReportingSink opts) = ''influxdb''"
| "SinkName (TimescaleDbReportingSink opts) = ''timescaledb''"
| "SinkName (GrafanaLokiReportingSink opts) = ''grafanaloki''"
| "SinkName (DatadogReportingSink opts) = ''datadog''"
| "SinkName (SplunkReportingSink opts) = ''splunk''"
| "SinkName (OtelCollectorReportingSink opts) = ''otelcollector''"
| "SinkName (PortalReportingSink) = ''portal''"
| "SinkName (PrometheusRemoteWriteReportingSink opts) = ''prometheusremotewrite''"
| "SinkName (CloudWatchReportingSink opts) = ''cloudwatch''"
| "SinkName (DynatraceReportingSink opts) = ''dynatrace''"
| "SinkName (ElasticsearchReportingSink opts) = ''elasticsearch''"
| "SinkName (OpenSearchReportingSink opts) = ''opensearch''"
| "SinkName (KafkaReportingSink opts) = ''kafka''"
| "SinkName (StatsDReportingSink opts) = ''statsd''"
| "SinkName (DogStatsDReportingSink opts) = ''dogstatsd''"
| "SinkName (NewRelicReportingSink opts) = ''newrelic''"
| "SinkName (NetdataStatsDReportingSink opts) = ''netdatastatsd''"
| "SinkName (JsonlFileReportingSink opts) = ''jsonl''"
| "SinkName (GenericWebhookReportingSink opts) = ''webhook''"
| "SinkName (CustomReportingSink name batches r) = name"

text \<open>An interface value: nil, a sink, or a pointer to one, which may be nil.\<close>

datatype sink_value = NilSink | ValueSink reportingSink | PointerSink "reportingSink option"

definition isNilReportingSink :: "sink_value \<Rightarrow> bool" where
  "isNilReportingSink sink \<longleftrightarrow> sink = NilSink \<or> sink = PointerSink None"

text \<open>\<open>sinkName\<close>; on a nil pointer the method call panics, which is \<open>None\<close>.\<close>

definition sinkName :: "sink_value \<Rightarrow> string option" where
  "sinkName sink =
     (case sink of
        NilSink \<Rightarrow> Some []
      | ValueSink s \<Rightarrow> Some (SinkName s)
      | PointerSink p \<Rightarrow> map_option SinkName p)"

section \<open>The context\<close>

datatype NodeType = NodeTypeSingleNode | NodeTypeCoordinator | NodeTypeAgent
datatype RuntimePolicyErrorMode = RuntimePolicyErrorModeFail | RuntimePolicyErrorModeContinue

record nodeInfo =
  node_NodeType :: NodeType
  node_MachineName :: string
  node_CurrentOperation :: string
  node_CurrentOperationType :: int
  node_CoresCount :: int
  node_DotNetVersion :: string
  node_EngineVersion :: string
  node_OS :: string
  node_Processor :: string

record testInfo =
  test_TestSuite :: string
  test_TestName :: string
  test_SessionID :: string
  test_SessionId :: string
  test_ClusterID :: string
  test_ClusterId :: string
  test_CreatedUTC :: int
  test_Created :: int

record contextState =
  ctx_LoadEngineContractVersion :: int
  ctx_MaxInFlight :: int
  ctx_ReportsEnabled :: bool
  ctx_RestartIterationMaxAttempts :: int
  ctx_SinkRetryCount :: int
  ctx_SinkRetryBackoffMs :: int
  ctx_ReportingIntervalSeconds :: float64
  ctx_LicenseValidationTimeoutSeconds :: float64
  ctx_MinimumLogLevel :: string
  ctx_LoggerConfig :: "(string \<times> go_any) list"
  ctx_RunnerKey :: string
  ctx_SessionID :: string
  ctx_ClusterID :: string
  ctx_AgentGroup :: string
  ctx_AgentID :: string
  ctx_ExpectedAgentIDs :: "string list"
  ctx_NatsServerURL :: string
  ctx_NodeType :: NodeType
  ctx_AgentsCount :: int
  ctx_LocalDevClusterEnabled :: bool
  ctx_TargetScenarios :: "string list"
  ctx_AgentTargetScenarios :: "string list"
  ctx_CoordinatorTargetScenarios :: "string list"
  ctx_ScenarioCompletionTimeoutSeconds :: float64
  ctx_ClusterCommandTimeoutSeconds :: float64
  ctx_ConsoleMetricsEnabled :: bool
  ctx_InfraConfigPath :: string
  ctx_ReportingSinks :: "sink_value list"
  ctx_WorkerPlugins :: "(go_ref option) list"
  ctx_RuntimePolicies :: "(go_ref option) list"
  ctx_RuntimePolicyErrorMode :: RuntimePolicyErrorMode
  ctx_ReportFileName :: string
  ctx_ReportFolder :: string
  ctx_ReportFormats :: "string list"
  ctx_TestSuite :: string
  ctx_TestName :: string
  ctx_CustomSettings :: "(string \<times> go_any) list"
  ctx_GlobalCustomSettings :: "(string \<times> go_any) list"
  ctx_testInfo :: testInfo
  ctx_nodeInfo :: nodeInfo
  ctx_Logger :: "go_ref option"
  ctx_reportConfigured :: bool
  ctx_scenarios :: "scenarioDefinition list"
  ctx_trafficMixes :: "trafficMixDefinition list"
  ctx_configError :: "go_error option"
  ctx_agentIndex :: int
  ctx_agentCount :: int

section \<open>Checks\<close>

definition recordConfigError :: "go_error \<Rightarrow> 's act" where
  "recordConfigError e = act_panic e"

definition requireNonBlank :: "string \<Rightarrow> string \<Rightarrow> 's act" where
  "requireNonBlank name v = act_if (blank v) (recordConfigError (name @ '' must be provided''))"

definition requirePositiveInt :: "string \<Rightarrow> int \<Rightarrow> 's act" where
  "requirePositiveInt name v = act_if (v \<le> 0) (recordConfigError (name @ '' must be greater than zero''))"

definition requireNonNegativeInt :: "string \<Rightarrow> int \<Rightarrow> 's act" where
  "requireNonNegativeInt name v = act_if (v < 0) (recordConfigError (name @ '' must be zero or greater''))"

definition validateNames :: "string \<Rightarrow> string list \<Rightarrow> 's act" where
  "validateNames name vals =
     (if length vals = 0 then recordConfigError (name @ '' must contain at least one value'')
      else act_if (list_ex blank vals) (recordConfigError (name @ '' cannot contain blank values'')))"

text \<open>\<open>durationArgumentSeconds\<close>, for its argument of type \<open>any\<close>.\<close>

definition durationArgumentSeconds :: "string \<Rightarrow> go_any \<Rightarrow> float64 res" where
  "durationArgumentSeconds name v =
     (case v of
        AnyFloat64 f \<Rightarrow>
          if f64_le f (Fin 0) then Inl (name @ '' must be greater than zero'') else Inr f
      | AnyFloat32 f \<Rightarrow>
          if f64_le f (Fin 0) then Inl (name @ '' must be greater than zero'') else Inr f
      | AnyInt i \<Rightarrow> if i \<le> 0 then Inl (name @ '' must be greater than zero'') else Inr (f64_of_int i)
      | AnyInt64 i \<Rightarrow> if i \<le> 0 then Inl (name @ '' must be greater than zero'') else Inr (f64_of_int i)
      | AnyDuration d \<Rightarrow>
          if d \<le> 0 then Inl (name @ '' must be greater than zero'') else Inr (duration_seconds d)
      | _ \<Rightarrow> Inl (name @ '' must be provided''))"

definition canonicalLogEventLevel :: "string \<Rightarrow> string option" where
  "canonicalLogEventLevel v =
     map_of [(''verbose'', ''Verbose''), (''debug'', ''Debug''), (''information'', ''Information''),
             (''warning'', ''Warning''), (''error'', ''Error''), (''fatal'', ''Fatal'')]
       (to_lower (trim_space v))"

text \<open>\<open>normalizeLogEventLevel\<close>, for a level, which is a string in the model.\<close>

definition normalizeLogEventLevel :: "string \<Rightarrow> string res" where
  "normalizeLogEventLevel level =
     (case canonicalLogEventLevel level of
        Some canonical \<Rightarrow> Inr canonical
      | None \<Rightarrow> Inl ''minimum log level must be Verbose, Debug, Information, Warning, Error, or Fatal'')"

section \<open>Logger configuration\<close>

text \<open>What \<open>os.Stat\<close> says of a path.\<close>

datatype file_stat = StatFile | StatDirectory | StatMissing | StatFailed

definition logger_target :: "go_any option \<Rightarrow> string option res" where
  "logger_target raw =
     (case raw of
        None \<Rightarrow> Inr None
      | Some (AnyString target) \<Rightarrow>
          let t = to_lower (trim_space target) in
          if t \<in> {''stdout'', ''stderr'', ''file''} then Inr (Some t)
          else Inl ''logger config target must be stdout, stderr, or file''
      | Some _ \<Rightarrow> Inl ''logger config target must be a string'')"

definition logger_format :: "go_any option \<Rightarrow> string option res" where
  "logger_format raw =
     (case raw of
        None \<Rightarrow> Inr None
      | Some (AnyString fmt) \<Rightarrow>
          let f = to_lower (trim_space fmt) in
          if f \<in> {''json'', ''text''} then Inr (Some f)
          else Inl ''logger config format must be json or text''
      | Some _ \<Rightarrow> Inl ''logger config format must be a string'')"

definition logger_path :: "(string \<Rightarrow> file_stat) \<Rightarrow> go_any option \<Rightarrow> string option res" where
  "logger_path stat raw =
     (case raw of
        None \<Rightarrow> Inr None
      | Some (AnyString path) \<Rightarrow>
          let path = trim_space path in
          if path = [] then Inl ''logger config path must be a nonblank string''
          else (case stat path of
                  StatDirectory \<Rightarrow> Inl ''logger config path must identify a file''
                | StatFailed \<Rightarrow> Inl ''logger config path could not be inspected''
                | _ \<Rightarrow> Inr (Some path))
      | Some _ \<Rightarrow> Inl ''logger config path must be a nonblank string'')"

definition logger_minimum :: "go_any option \<Rightarrow> string option res" where
  "logger_minimum raw =
     (case raw of
        None \<Rightarrow> Inr None
      | Some (AnyString minimum) \<Rightarrow>
          (case canonicalLogEventLevel minimum of
             Some c \<Rightarrow> Inr (Some c)
           | None \<Rightarrow>
               Inl ''logger config minimumLevel must be Verbose, Debug, Information, Warning, Error, or Fatal'')
      | Some _ \<Rightarrow> Inl ''logger config minimumLevel must be a string'')"

definition opt_entry :: "string \<Rightarrow> string option \<Rightarrow> (string \<times> go_any) list" where
  "opt_entry key v = (case v of None \<Rightarrow> [] | Some s \<Rightarrow> [(key, AnyString s)])"

text \<open>\<open>normalizeLoggerConfiguration\<close>, of the map that the factory returns; \<open>None\<close> is a nil factory.\<close>

definition normalizeLoggerConfiguration ::
  "(string \<Rightarrow> file_stat) \<Rightarrow> (string \<times> go_any) list option \<Rightarrow> (string \<times> go_any) list res" where
  "normalizeLoggerConfiguration stat config =
     (case config of
        None \<Rightarrow> Inl ''logger config must be provided''
      | Some source \<Rightarrow>
          if \<not> list_all (\<lambda>(k, _). k \<in> {''target'', ''format'', ''path'', ''minimumLevel''}) source
          then Inl ''logger config contains an unsupported option''
          else (case logger_target (map_of source ''target'') of
                  Inl e \<Rightarrow> Inl e
                | Inr target \<Rightarrow>
               (case logger_format (map_of source ''format'') of
                  Inl e \<Rightarrow> Inl e
                | Inr fmt \<Rightarrow>
               (case logger_path stat (map_of source ''path'') of
                  Inl e \<Rightarrow> Inl e
                | Inr path \<Rightarrow>
               (case logger_minimum (map_of source ''minimumLevel'') of
                  Inl e \<Rightarrow> Inl e
                | Inr minimum \<Rightarrow>
                    if target = Some ''file'' \<and> path = None
                    then Inl ''logger config target file requires a path''
                    else if path \<noteq> None \<and> (target = Some ''stdout'' \<or> target = Some ''stderr'')
                    then Inl ''logger config path is available only for the file target''
                    else Inr (opt_entry ''target'' target @ opt_entry ''format'' fmt @
                              opt_entry ''path'' path @ opt_entry ''minimumLevel'' minimum))))))"

section \<open>The operations\<close>

definition act_res :: "'a res \<Rightarrow> ('a \<Rightarrow> 's \<Rightarrow> 's) \<Rightarrow> 's act" where
  "act_res r f = (case r of Inl e \<Rightarrow> act_panic e | Inr x \<Rightarrow> act_ok (f x))"

definition UseLoadEngineV2 :: "contextState act" where
  "UseLoadEngineV2 = act_ok (\<lambda>c. c\<lparr>ctx_LoadEngineContractVersion := 2\<rparr>)"

definition WithMaxInFlight :: "int \<Rightarrow> contextState act" where
  "WithMaxInFlight maxInFlight c =
     (if ctx_LoadEngineContractVersion c \<noteq> 2
      then act_panic ''MaxInFlight is available only when Load Engine V2 is selected.'' c
      else if maxInFlight < 1 \<or> maxInFlight > 1000000
      then act_panic ''MaxInFlight must be an integer from 1 through 1000000.'' c
      else act_ok (\<lambda>c. c\<lparr>ctx_MaxInFlight := maxInFlight\<rparr>) c)"

definition WithRunnerKey :: "string \<Rightarrow> contextState act" where
  "WithRunnerKey runnerKey =
     act_seq (requireNonBlank ''runner key'' runnerKey) (act_ok (\<lambda>c. c\<lparr>ctx_RunnerKey := runnerKey\<rparr>))"

definition WithTestSuite :: "string \<Rightarrow> contextState act" where
  "WithTestSuite testSuite =
     act_seq (requireNonBlank ''test suite'' testSuite) (act_ok (\<lambda>c. c\<lparr>ctx_TestSuite := testSuite\<rparr>))"

definition WithTestName :: "string \<Rightarrow> contextState act" where
  "WithTestName testName =
     act_seq (requireNonBlank ''test name'' testName) (act_ok (\<lambda>c. c\<lparr>ctx_TestName := testName\<rparr>))"

definition WithReportingInterval :: "int \<Rightarrow> contextState act" where
  "WithReportingInterval v =
     act_res (durationArgumentSeconds ''reporting interval'' (AnyDuration v))
       (\<lambda>x c. c\<lparr>ctx_ReportingIntervalSeconds := x\<rparr>)"

definition WithLicenseValidationTimeout :: "int \<Rightarrow> contextState act" where
  "WithLicenseValidationTimeout v =
     act_res (durationArgumentSeconds ''license validation timeout'' (AnyDuration v))
       (\<lambda>x c. c\<lparr>ctx_LicenseValidationTimeoutSeconds := x\<rparr>)"

definition WithMinimumLogLevel :: "string \<Rightarrow> contextState act" where
  "WithMinimumLogLevel level =
     act_res (normalizeLogEventLevel level) (\<lambda>x c. c\<lparr>ctx_MinimumLogLevel := x\<rparr>)"

definition WithLoggerConfig ::
  "(string \<Rightarrow> file_stat) \<Rightarrow> (string \<times> go_any) list option \<Rightarrow> contextState act" where
  "WithLoggerConfig stat config =
     act_res (normalizeLoggerConfiguration stat config) (\<lambda>x c. c\<lparr>ctx_LoggerConfig := x\<rparr>)"

text \<open>\<open>settings\<close> is the outcome of \<open>cloneJSONCompatibleSettings\<close> on the argument.\<close>

definition WithGlobalCustomSettings :: "(string \<times> go_any) list res \<Rightarrow> contextState act" where
  "WithGlobalCustomSettings settings =
     (case settings of
        Inl e \<Rightarrow> recordConfigError (''global custom settings: '' @ e)
      | Inr cloned \<Rightarrow> act_ok (\<lambda>c. c\<lparr>ctx_GlobalCustomSettings := cloned\<rparr>))"

definition WithSessionId :: "string \<Rightarrow> contextState act" where
  "WithSessionId sessionID =
     act_seq (requireNonBlank ''session id'' sessionID) (act_ok (\<lambda>c. c\<lparr>ctx_SessionID := sessionID\<rparr>))"

definition WithClusterId :: "string \<Rightarrow> contextState act" where
  "WithClusterId clusterID =
     act_seq (requireNonBlank ''cluster id'' clusterID) (act_ok (\<lambda>c. c\<lparr>ctx_ClusterID := clusterID\<rparr>))"

definition WithAgentGroup :: "string \<Rightarrow> contextState act" where
  "WithAgentGroup agentGroup =
     act_seq (requireNonBlank ''agent group'' agentGroup) (act_ok (\<lambda>c. c\<lparr>ctx_AgentGroup := agentGroup\<rparr>))"

definition WithAgentID :: "string \<Rightarrow> contextState act" where
  "WithAgentID agentID =
     act_seq (requireNonBlank ''agent id'' agentID) (act_ok (\<lambda>c. c\<lparr>ctx_AgentID := agentID\<rparr>))"

text \<open>The loop of \<open>WithExpectedAgentIDs\<close>: it appends to the context as it goes.\<close>

fun add_agent_ids :: "string set \<Rightarrow> string list \<Rightarrow> contextState act" where
  "add_agent_ids seen [] = act_ok id"
| "add_agent_ids seen (agentID # rest) =
     act_seq (requireNonBlank ''expected agent id'' agentID)
    (act_seq (act_if (agentID \<in> seen) (act_panic ''Expected agent ids must be unique.''))
    (act_seq (act_ok (\<lambda>c. c\<lparr>ctx_ExpectedAgentIDs := ctx_ExpectedAgentIDs c @ [agentID]\<rparr>))
       (add_agent_ids (insert agentID seen) rest)))"

definition WithExpectedAgentIDs :: "string list \<Rightarrow> contextState act" where
  "WithExpectedAgentIDs agentIDs =
     act_seq (act_if (length agentIDs = 0) (act_panic ''At least one expected agent id is required.''))
    (act_seq (act_ok (\<lambda>c. c\<lparr>ctx_ExpectedAgentIDs := []\<rparr>)) (add_agent_ids {} agentIDs))"

definition WithNatsServerURL :: "string \<Rightarrow> contextState act" where
  "WithNatsServerURL serverURL =
     act_seq (requireNonBlank ''nats server url'' serverURL)
       (act_ok (\<lambda>c. c\<lparr>ctx_NatsServerURL := serverURL\<rparr>))"

definition WithNodeType :: "NodeType \<Rightarrow> contextState act" where
  "WithNodeType nodeType = act_ok (\<lambda>c. c\<lparr>ctx_NodeType := nodeType\<rparr>)"

definition EnableLocalDevCluster :: "bool \<Rightarrow> contextState act" where
  "EnableLocalDevCluster enable = act_ok (\<lambda>c. c\<lparr>ctx_LocalDevClusterEnabled := enable\<rparr>)"

definition WithAgentsCount :: "int \<Rightarrow> contextState act" where
  "WithAgentsCount agentsCount =
     act_seq (requirePositiveInt ''agents count'' agentsCount)
       (act_ok (\<lambda>c. c\<lparr>ctx_AgentsCount := agentsCount\<rparr>))"

definition WithTargetScenarios :: "string list \<Rightarrow> contextState act" where
  "WithTargetScenarios targetScenarios =
     act_seq (validateNames ''target scenarios'' targetScenarios)
       (act_ok (\<lambda>c. c\<lparr>ctx_TargetScenarios := targetScenarios\<rparr>))"

definition WithAgentTargetScenarios :: "string list \<Rightarrow> contextState act" where
  "WithAgentTargetScenarios targetScenarios =
     act_seq (validateNames ''agent target scenarios'' targetScenarios)
       (act_ok (\<lambda>c. c\<lparr>ctx_AgentTargetScenarios := targetScenarios\<rparr>))"

definition WithCoordinatorTargetScenarios :: "string list \<Rightarrow> contextState act" where
  "WithCoordinatorTargetScenarios targetScenarios =
     act_seq (validateNames ''coordinator target scenarios'' targetScenarios)
       (act_ok (\<lambda>c. c\<lparr>ctx_CoordinatorTargetScenarios := targetScenarios\<rparr>))"

definition WithScenarioCompletionTimeout :: "int \<Rightarrow> contextState act" where
  "WithScenarioCompletionTimeout v =
     act_res (durationArgumentSeconds ''scenario completion timeout'' (AnyDuration v))
       (\<lambda>x c. c\<lparr>ctx_ScenarioCompletionTimeoutSeconds := x\<rparr>)"

definition WithClusterCommandTimeout :: "int \<Rightarrow> contextState act" where
  "WithClusterCommandTimeout v =
     act_res (durationArgumentSeconds ''cluster command timeout'' (AnyDuration v))
       (\<lambda>x c. c\<lparr>ctx_ClusterCommandTimeoutSeconds := x\<rparr>)"

definition WithDisplayConsoleMetrics :: "bool \<Rightarrow> contextState act" where
  "WithDisplayConsoleMetrics enabled = act_ok (\<lambda>c. c\<lparr>ctx_ConsoleMetricsEnabled := enabled\<rparr>)"

definition WithReportingSinks :: "sink_value list \<Rightarrow> contextState act" where
  "WithReportingSinks reportingSinks =
     act_seq (act_if (length reportingSinks = 0)
               (recordConfigError ''at least one reporting sink should be provided''))
    (act_seq (act_all (map (\<lambda>sink. act_if (isNilReportingSink sink)
                (recordConfigError ''reporting sink collection cannot contain nil values'')) reportingSinks))
       (act_ok (\<lambda>c. c\<lparr>ctx_ReportingSinks := reportingSinks\<rparr>)))"

text \<open>The search of \<open>WithPortalReporting\<close>; a nil pointer among the sinks panics.\<close>

fun has_portal :: "sink_value list \<Rightarrow> bool res" where
  "has_portal [] = Inr False"
| "has_portal (sink # sinks) =
     (case sinkName sink of
        None \<Rightarrow> Inl ''runtime error: invalid memory address or nil pointer dereference''
      | Some name \<Rightarrow> if equal_fold (trim_space name) ''portal'' then Inr True else has_portal sinks)"

definition WithPortalReporting :: "contextState act" where
  "WithPortalReporting c =
     act_res (has_portal (ctx_ReportingSinks c))
       (\<lambda>found c. if found then c
                  else c\<lparr>ctx_ReportingSinks := ctx_ReportingSinks c @ [ValueSink PortalReportingSink]\<rparr>) c"

definition WithWorkerPlugins :: "go_ref option list \<Rightarrow> contextState act" where
  "WithWorkerPlugins workerPlugins =
     act_seq (act_if (length workerPlugins = 0)
               (recordConfigError ''at least one worker plugin should be provided''))
    (act_seq (act_all (map (\<lambda>plugin. act_if (plugin = None)
                (recordConfigError ''worker plugin collection cannot contain nil values'')) workerPlugins))
       (act_ok (\<lambda>c. c\<lparr>ctx_WorkerPlugins := workerPlugins\<rparr>)))"

definition WithRuntimePolicies :: "go_ref option list \<Rightarrow> contextState act" where
  "WithRuntimePolicies runtimePolicies =
     act_seq (act_if (length runtimePolicies = 0)
               (recordConfigError ''at least one runtime policy should be provided''))
    (act_seq (act_all (map (\<lambda>policy. act_if (policy = None)
                (recordConfigError ''runtime policy collection cannot contain nil values'')) runtimePolicies))
       (act_ok (\<lambda>c. c\<lparr>ctx_RuntimePolicies := runtimePolicies\<rparr>)))"

definition WithRuntimePolicyErrorMode :: "RuntimePolicyErrorMode \<Rightarrow> contextState act" where
  "WithRuntimePolicyErrorMode mode = act_ok (\<lambda>c. c\<lparr>ctx_RuntimePolicyErrorMode := mode\<rparr>)"

definition WithReportFolder :: "string \<Rightarrow> contextState act" where
  "WithReportFolder reportFolder =
     act_seq (requireNonBlank ''report folder'' reportFolder)
       (act_ok (\<lambda>c. c\<lparr>ctx_ReportFolder := reportFolder, ctx_reportConfigured := True\<rparr>))"

definition WithReportFileName :: "string \<Rightarrow> contextState act" where
  "WithReportFileName reportFileName =
     act_seq (requireNonBlank ''report file name'' reportFileName)
       (act_ok (\<lambda>c. c\<lparr>ctx_ReportFileName := reportFileName, ctx_reportConfigured := True\<rparr>))"

definition WithReportFormats :: "string list \<Rightarrow> contextState act" where
  "WithReportFormats reportFormats =
     act_seq (act_if (length reportFormats = 0)
               (recordConfigError ''at least one report format should be provided''))
    (act_seq (act_all (map (\<lambda>fmt. act_if (blank fmt)
                (recordConfigError ''report format collection cannot contain empty values'')) reportFormats))
       (act_ok (\<lambda>c. c\<lparr>ctx_ReportFormats := reportFormats, ctx_reportConfigured := True\<rparr>)))"

definition WithoutReports :: "contextState act" where
  "WithoutReports = act_ok (\<lambda>c. c\<lparr>ctx_ReportsEnabled := False\<rparr>)"

definition WithRestartIterationMaxAttempts :: "int \<Rightarrow> contextState act" where
  "WithRestartIterationMaxAttempts attempts =
     act_seq (requireNonNegativeInt ''restart iteration max attempts'' attempts)
       (act_ok (\<lambda>c. c\<lparr>ctx_RestartIterationMaxAttempts := attempts\<rparr>))"

definition LoadInfraConfig :: "string \<Rightarrow> contextState act" where
  "LoadInfraConfig path =
     act_seq (requireNonBlank ''infra config path'' path)
       (act_ok (\<lambda>c. c\<lparr>ctx_InfraConfigPath := path\<rparr>))"

end
