(* ===== verification/Instance_Bridge.thy ===== *)
theory Instance_Bridge
  imports Go_Prelude
begin

text \<open>
  The scenario instances of a run (\<open>runtimeScenarioBridgeState\<close> in
  \<open>runtime_callback_registry.go\<close>). The host calls init, clean and step callbacks of a scenario
  instance from several goroutines; the bridge state serialises them per instance, refuses an
  instance that was cleaned, and on close waits for the callbacks in flight before it clears
  what they shared.

  The code between a \<open>Lock\<close> and its \<open>Unlock\<close> of \<open>s.mu\<close> is one function on the state. The
  sequential operations compose these functions as the code does; the relation \<open>bridge_step\<close>
  interleaves them for any number of threads and one closing thread. The data map of an instance
  lives at an address, the pointer \<open>*runtimeScenarioInstanceState\<close>.
\<close>

section \<open>State and critical sections\<close>

type_synonym addr = nat
type_synonym tid = nat

record runtimeScenarioInstanceKey =
  RunIdentity :: string
  NodeIdentity :: string
  PartitionNumber :: int
  ScenarioName :: string
  ScenarioInstanceID :: string

record 'v bridge =
  active :: "runtimeScenarioInstanceKey \<rightharpoonup> addr"
  completed :: "runtimeScenarioInstanceKey set"
  bridge_closed :: bool
  inFlight :: nat
  instance_data :: "addr \<Rightarrow> (string \<rightharpoonup> 'v)"
  next_addr :: addr

definition newRuntimeScenarioBridgeState :: "'v bridge" where
  "newRuntimeScenarioBridgeState =
     \<lparr>active = Map.empty, completed = {}, bridge_closed = False, inFlight = 0,
      instance_data = (\<lambda>_. Map.empty), next_addr = 0\<rparr>"

definition errRuntimeScenarioInstanceIdentityInvalid :: go_error where
  "errRuntimeScenarioInstanceIdentityInvalid = ''runtime scenario instance identity is invalid''"

definition errRuntimeScenarioInstanceGone :: go_error where
  "errRuntimeScenarioInstanceGone = ''runtime scenario instance is no longer available''"

text \<open>The first critical section of \<open>admitInstance\<close>: find or create the instance, count the call.\<close>

definition admit_enter :: "runtimeScenarioInstanceKey \<Rightarrow> 'v bridge \<Rightarrow> addr option \<times> 'v bridge" where
  "admit_enter key s =
     (if bridge_closed s then (None, s)
      else if key \<in> completed s then (None, s)
      else case active s key of
             Some a \<Rightarrow> (Some a, s\<lparr>inFlight := inFlight s + 1\<rparr>)
           | None \<Rightarrow>
               (Some (next_addr s),
                s\<lparr>active := (active s)(key \<mapsto> next_addr s),
                  instance_data := (instance_data s)(next_addr s := Map.empty),
                  next_addr := next_addr s + 1, inFlight := inFlight s + 1\<rparr>))"

text \<open>The second, with the instance's lock held.\<close>

definition admit_confirm :: "runtimeScenarioInstanceKey \<Rightarrow> addr \<Rightarrow> 'v bridge \<Rightarrow> bool" where
  "admit_confirm key a s \<longleftrightarrow>
     \<not> bridge_closed s \<and> key \<notin> completed s \<and> active s key = Some a"

definition call_done :: "'v bridge \<Rightarrow> 'v bridge" where
  "call_done s = s\<lparr>inFlight := inFlight s - 1\<rparr>"

definition set_data :: "addr \<Rightarrow> (string \<rightharpoonup> 'v) \<Rightarrow> 'v bridge \<Rightarrow> 'v bridge" where
  "set_data a d s = s\<lparr>instance_data := (instance_data s)(a := d)\<rparr>"

text \<open>The critical section at the end of \<open>cleanInstance\<close>.\<close>

definition clean_commit :: "runtimeScenarioInstanceKey \<Rightarrow> 'v bridge \<Rightarrow> 'v bridge" where
  "clean_commit key s =
     (if \<not> bridge_closed s
      then s\<lparr>completed := insert key (completed s), active := (active s)(key := None)\<rparr>
      else s)"

definition beginClose :: "'v bridge \<Rightarrow> addr set option \<times> 'v bridge" where
  "beginClose s =
     (if bridge_closed s then (None, s)
      else (Some (ran (active s)), s\<lparr>bridge_closed := True, active := Map.empty, completed := {}\<rparr>))"

section \<open>The operations, one call at a time\<close>

text \<open>
  A callback takes the data map and leaves it changed, with an error or without. When nobody
  else is in a call, the instance's lock is free and \<open>admitInstance\<close> does not wait.
\<close>

type_synonym 'v invocation = "(string \<rightharpoonup> 'v) \<Rightarrow> go_error option \<times> (string \<rightharpoonup> 'v)"

definition admitInstance :: "runtimeScenarioInstanceKey \<Rightarrow> 'v bridge \<Rightarrow> addr res \<times> 'v bridge" where
  "admitInstance key s =
     (case admit_enter key s of
        (None, s) \<Rightarrow> (Inl errRuntimeScenarioInstanceGone, s)
      | (Some a, s) \<Rightarrow>
          if \<not> admit_confirm key a s then (Inl errRuntimeScenarioInstanceGone, call_done s)
          else (Inr a, s))"

definition withInstance ::
  "runtimeScenarioInstanceKey \<Rightarrow> 'v invocation \<Rightarrow> 'v bridge \<Rightarrow> go_error option \<times> 'v bridge" where
  "withInstance key invoke s =
     (case admitInstance key s of
        (Inl e, s) \<Rightarrow> (Some e, s)
      | (Inr a, s) \<Rightarrow>
          (case invoke (instance_data s a) of
             (err, d) \<Rightarrow> (err, call_done (set_data a d s))))"

definition cleanInstance ::
  "runtimeScenarioInstanceKey \<Rightarrow> 'v invocation \<Rightarrow> 'v bridge \<Rightarrow> go_error option \<times> 'v bridge" where
  "cleanInstance key invoke s =
     (case admitInstance key s of
        (Inl e, s) \<Rightarrow> (Some e, s)
      | (Inr a, s) \<Rightarrow>
          (case invoke (instance_data s a) of
             (Some e, d) \<Rightarrow> (Some e, call_done (set_data a d s))
           | (None, d) \<Rightarrow>
               (None, call_done (clean_commit key (set_data a Map.empty (set_data a d s))))))"

section \<open>Interleaved calls\<close>

text \<open>
  Where a call stands: not begun; waiting for the lock of its instance; holding the lock before
  the second check; in the callback; past it, when cleaning succeeded and the data is cleared;
  releasing the lock with its result; past the unlock; returned.
\<close>

datatype pc =
    Idle
  | Waiting addr
  | Holding addr
  | Invoking addr
  | Cleaned addr
  | Releasing addr "go_error option"
  | Unlocked "go_error option"
  | Finished "go_error option"

text \<open>The closing thread: not begun; waiting for \<open>inFlight\<close>; clearing the detached instances.\<close>

datatype closer_pc = CIdle | CWait "addr set" | CClear "addr set" | CDone

record 'v system =
  shared :: "'v bridge"
  lock_of :: "addr \<rightharpoonup> tid"
  pcs :: "tid \<Rightarrow> pc"
  closer :: closer_pc

record call =
  call_key :: runtimeScenarioInstanceKey
  call_cleans :: bool

definition init_system :: "'v system" where
  "init_system = \<lparr>shared = newRuntimeScenarioBridgeState, lock_of = Map.empty,
     pcs = (\<lambda>_. Idle), closer = CIdle\<rparr>"

definition goto :: "tid \<Rightarrow> pc \<Rightarrow> 'v system \<Rightarrow> 'v system" where
  "goto t p s = s\<lparr>pcs := (pcs s)(t := p)\<rparr>"

definition on_shared :: "('v bridge \<Rightarrow> 'v bridge) \<Rightarrow> 'v system \<Rightarrow> 'v system" where
  "on_shared f s = s\<lparr>shared := f (shared s)\<rparr>"

text \<open>
  One step of the system; \<open>ops t\<close> is the call that thread \<open>t\<close> makes. While the callback runs it
  may change the data of its instance any number of times, then return.
\<close>

inductive bridge_step :: "(tid \<Rightarrow> call) \<Rightarrow> 'v system \<Rightarrow> 'v system \<Rightarrow> bool"
  for ops :: "tid \<Rightarrow> call" where
  st_enter: "pcs s t = Idle \<Longrightarrow> admit_enter (call_key (ops t)) (shared s) = (Some a, b) \<Longrightarrow>
     bridge_step ops s (goto t (Waiting a) (s\<lparr>shared := b\<rparr>))"
| st_refuse: "pcs s t = Idle \<Longrightarrow> admit_enter (call_key (ops t)) (shared s) = (None, b) \<Longrightarrow>
     bridge_step ops s (goto t (Finished (Some errRuntimeScenarioInstanceGone)) (s\<lparr>shared := b\<rparr>))"
| st_lock: "pcs s t = Waiting a \<Longrightarrow> lock_of s a = None \<Longrightarrow>
     bridge_step ops s (goto t (Holding a) (s\<lparr>lock_of := (lock_of s)(a \<mapsto> t)\<rparr>))"
| st_confirm: "pcs s t = Holding a \<Longrightarrow> admit_confirm (call_key (ops t)) a (shared s) \<Longrightarrow>
     bridge_step ops s (goto t (Invoking a) s)"
| st_reject: "pcs s t = Holding a \<Longrightarrow> \<not> admit_confirm (call_key (ops t)) a (shared s) \<Longrightarrow>
     bridge_step ops s (goto t (Releasing a (Some errRuntimeScenarioInstanceGone)) s)"
| st_write: "pcs s t = Invoking a \<Longrightarrow> bridge_step ops s (on_shared (set_data a d) s)"
| st_return: "pcs s t = Invoking a \<Longrightarrow> e \<noteq> None \<or> \<not> call_cleans (ops t) \<Longrightarrow>
     bridge_step ops s (goto t (Releasing a e) s)"
| st_clear: "pcs s t = Invoking a \<Longrightarrow> call_cleans (ops t) \<Longrightarrow>
     bridge_step ops s (goto t (Cleaned a) (on_shared (set_data a Map.empty) s))"
| st_commit: "pcs s t = Cleaned a \<Longrightarrow>
     bridge_step ops s (goto t (Releasing a None) (on_shared (clean_commit (call_key (ops t))) s))"
| st_unlock: "pcs s t = Releasing a e \<Longrightarrow>
     bridge_step ops s (goto t (Unlocked e) (s\<lparr>lock_of := (lock_of s)(a := None)\<rparr>))"
| st_finish: "pcs s t = Unlocked e \<Longrightarrow>
     bridge_step ops s (goto t (Finished e) (on_shared call_done s))"
| st_begin_close: "closer s = CIdle \<Longrightarrow> beginClose (shared s) = (Some D, b) \<Longrightarrow>
     bridge_step ops s (s\<lparr>shared := b, closer := CWait D\<rparr>)"
| st_waited: "closer s = CWait D \<Longrightarrow> inFlight (shared s) = 0 \<Longrightarrow>
     bridge_step ops s (s\<lparr>closer := CClear D\<rparr>)"
| st_clear_one: "closer s = CClear D \<Longrightarrow> a \<in> D \<Longrightarrow> lock_of s a = None \<Longrightarrow>
     bridge_step ops s (on_shared (set_data a Map.empty) (s\<lparr>closer := CClear (D - {a})\<rparr>))"
| st_closed: "closer s = CClear {} \<Longrightarrow> bridge_step ops s (s\<lparr>closer := CDone\<rparr>)"

definition bridge_reachable :: "(tid \<Rightarrow> call) \<Rightarrow> 'v system \<Rightarrow> bool" where
  "bridge_reachable ops = (bridge_step ops)\<^sup>*\<^sup>* init_system"

section \<open>The invariant\<close>

definition holds :: "pc \<Rightarrow> addr \<Rightarrow> bool" where
  "holds p a \<longleftrightarrow> p = Holding a \<or> p = Invoking a \<or> p = Cleaned a \<or> (\<exists>e. p = Releasing a e)"

definition works :: "pc \<Rightarrow> addr \<Rightarrow> bool" where
  "works p a \<longleftrightarrow> p = Invoking a \<or> p = Cleaned a"

definition in_call :: "pc \<Rightarrow> bool" where
  "in_call p \<longleftrightarrow> p \<noteq> Idle \<and> (\<forall>e. p \<noteq> Finished e)"

text \<open>The instances whose data is not known to be cleared.\<close>

definition live :: "'v system \<Rightarrow> addr set" where
  "live s = (case closer s of CIdle \<Rightarrow> ran (active (shared s)) | CWait D \<Rightarrow> D | CClear D \<Rightarrow> D | CDone \<Rightarrow> {})"

definition inv_lock :: "'v system \<Rightarrow> bool" where
  "inv_lock s \<longleftrightarrow> (\<forall>a t. lock_of s a = Some t \<longleftrightarrow> holds (pcs s t) a)"

definition inv_count :: "'v system \<Rightarrow> bool" where
  "inv_count s \<longleftrightarrow> finite {t. in_call (pcs s t)} \<and> inFlight (shared s) = card {t. in_call (pcs s t)}"

fun drained :: "closer_pc \<Rightarrow> bool" where
  "drained CIdle = False"
| "drained (CWait D) = False"
| "drained (CClear D) = True"
| "drained CDone = True"

definition inv_close :: "'v system \<Rightarrow> bool" where
  "inv_close s \<longleftrightarrow>
     (bridge_closed (shared s) \<longleftrightarrow> closer s \<noteq> CIdle) \<and>
     (\<forall>k \<in> completed (shared s). active (shared s) k = None) \<and>
     (drained (closer s) \<longrightarrow> (\<forall>t. \<not> in_call (pcs s t)))"

definition inv_work :: "(tid \<Rightarrow> call) \<Rightarrow> 'v system \<Rightarrow> bool" where
  "inv_work ops s \<longleftrightarrow>
     (\<forall>t a. works (pcs s t) a \<longrightarrow>
        a \<in> live s \<and> (closer s = CIdle \<longrightarrow> active (shared s) (call_key (ops t)) = Some a)) \<and>
     (\<forall>t u a b. works (pcs s t) a \<longrightarrow> works (pcs s u) b \<longrightarrow>
        call_key (ops t) = call_key (ops u) \<longrightarrow> a = b)"

definition inv_data :: "'v system \<Rightarrow> bool" where
  "inv_data s \<longleftrightarrow>
     finite (live s) \<and>
     (\<forall>a. a \<notin> live s \<longrightarrow> instance_data (shared s) a = Map.empty) \<and>
     (\<forall>t a. pcs s t = Cleaned a \<longrightarrow> instance_data (shared s) a = Map.empty)"

definition bridge_inv :: "(tid \<Rightarrow> call) \<Rightarrow> 'v system \<Rightarrow> bool" where
  "bridge_inv ops s \<longleftrightarrow>
     inv_lock s \<and> inv_count s \<and> inv_close s \<and> inv_work ops s \<and> inv_data s"

lemmas pc_defs = holds_def works_def in_call_def
lemmas section_defs = goto_def on_shared_def call_done_def set_data_def clean_commit_def
  admit_confirm_def

lemma goto_simps [simp]:
  "pcs (goto t p s) = (pcs s)(t := p)" "shared (goto t p s) = shared s"
  "lock_of (goto t p s) = lock_of s" "closer (goto t p s) = closer s"
  "pcs (on_shared f s) = pcs s" "shared (on_shared f s) = f (shared s)"
  "lock_of (on_shared f s) = lock_of s" "closer (on_shared f s) = closer s"
  by (simp_all add: goto_def on_shared_def)

lemma live_simps [simp]:
  "live (goto t p s) = live s"
  "closer s \<noteq> CIdle \<Longrightarrow> live (on_shared f s) = live s"
  "live (s\<lparr>lock_of := l\<rparr>) = live s"
  by (auto simp: live_def split: closer_pc.splits)

lemma works_holds: "works p a \<Longrightarrow> holds p a"
  by (auto simp: pc_defs)

lemma holds_in_call: "holds p a \<Longrightarrow> in_call p"
  by (auto simp: pc_defs)

lemma one_holder: "inv_lock s \<Longrightarrow> holds (pcs s t) a \<Longrightarrow> holds (pcs s u) a \<Longrightarrow> t = u"
  unfolding inv_lock_def by (metis option.inject)

lemma admit_enter_Some:
  assumes "admit_enter k s = (Some a, b)"
  shows "\<not> bridge_closed s \<and> \<not> bridge_closed b \<and> k \<notin> completed s \<and> completed b = completed s \<and>
     inFlight b = inFlight s + 1 \<and>
     (active s k = Some a \<and> active b = active s \<and> instance_data b = instance_data s \<or>
      active s k = None \<and> active b = (active s)(k \<mapsto> a) \<and> instance_data b = (instance_data s)(a := Map.empty))"
  using assms by (auto simp: admit_enter_def split: if_splits option.splits)

lemma admit_enter_None: "admit_enter k s = (None, b) \<Longrightarrow> b = s"
  by (auto simp: admit_enter_def split: if_splits option.splits)

lemma step_inv_lock: "bridge_step ops s s' \<Longrightarrow> inv_lock s \<Longrightarrow> inv_lock s'"
  by (erule bridge_step.cases)
    ((auto simp: inv_lock_def holds_def split: if_splits; metis option.inject option.distinct(1))+)

lemma in_call_set: "{u. in_call (((pcs s)(t := p)) u)} =
    (if in_call p then insert t {u. in_call (pcs s u)} else {u. in_call (pcs s u)} - {t})"
  by auto

lemma inv_count_move:
  assumes "inv_count s" and "pcs s' = (pcs s)(t := p)"
    and "inFlight (shared s') =
           (if in_call p then (if in_call (pcs s t) then inFlight (shared s) else inFlight (shared s) + 1)
            else (if in_call (pcs s t) then inFlight (shared s) - 1 else inFlight (shared s)))"
  shows "inv_count s'"
proof -
  let ?S = "{u. in_call (pcs s u)}"
  have mem: "t \<in> ?S \<longleftrightarrow> in_call (pcs s t)" by simp
  from assms show ?thesis
    unfolding inv_count_def assms(2) in_call_set by (auto simp: insert_absorb card_insert_if)
qed

lemma inv_count_same:
  "inv_count s \<Longrightarrow> pcs s' = pcs s \<Longrightarrow> inFlight (shared s') = inFlight (shared s) \<Longrightarrow> inv_count s'"
  by (simp add: inv_count_def)

lemma inv_count_zero: "inv_count s \<Longrightarrow> inFlight (shared s) = 0 \<Longrightarrow> \<not> in_call (pcs s t)"
  by (auto simp: inv_count_def)

lemma step_inv_count: "bridge_step ops s s' \<Longrightarrow> inv_count s \<Longrightarrow> inv_count s'"
proof (induction rule: bridge_step.induct)
  case (st_enter s t a b)
  with admit_enter_Some[OF st_enter(2)] show ?case
    by - (rule inv_count_move[of s _ t "Waiting a"]; simp add: in_call_def)
next
  case (st_refuse s t b)
  with admit_enter_None[OF st_refuse(2)] show ?case
    by - (rule inv_count_move[of s _ t "Finished (Some errRuntimeScenarioInstanceGone)"];
        simp add: in_call_def)
next
  case (st_begin_close s D b)
  then show ?case by - (rule inv_count_same[of s]; auto simp: beginClose_def split: if_splits)
next
  case (st_finish s t e)
  then show ?case
    by - (rule inv_count_move[of s _ t "Finished e"]; simp add: in_call_def call_done_def)
next
  case (st_lock s t a)
  then show ?case by - (rule inv_count_move[of s _ t "Holding a"]; simp add: in_call_def)
next
  case (st_confirm s t a)
  then show ?case by - (rule inv_count_move[of s _ t "Invoking a"]; simp add: in_call_def)
next
  case (st_reject s t a)
  then show ?case
    by - (rule inv_count_move[of s _ t "Releasing a (Some errRuntimeScenarioInstanceGone)"];
        simp add: in_call_def)
next
  case (st_return s t a e)
  then show ?case by - (rule inv_count_move[of s _ t "Releasing a e"]; simp add: in_call_def)
next
  case (st_clear s t a)
  then show ?case
    by - (rule inv_count_move[of s _ t "Cleaned a"]; simp add: in_call_def set_data_def)
next
  case (st_commit s t a)
  then show ?case
    by - (rule inv_count_move[of s _ t "Releasing a None"]; simp add: in_call_def clean_commit_def)
next
  case (st_unlock s t a e)
  then show ?case by - (rule inv_count_move[of s _ t "Unlocked e"]; simp add: in_call_def)
qed (erule inv_count_same; simp add: set_data_def)+

lemma step_inv_close: "bridge_step ops s s' \<Longrightarrow> inv_count s \<Longrightarrow> inv_close s \<Longrightarrow> inv_close s'"
proof (induction rule: bridge_step.induct)
  case (st_enter s t a b)
  then have "\<not> drained (closer s)" "closer s = CIdle"
    using admit_enter_Some[OF st_enter(2)] by (auto simp: inv_close_def)
  then show ?case using st_enter admit_enter_Some[OF st_enter(2)]
    by (auto simp: inv_close_def)
next
  case (st_refuse s t b)
  with admit_enter_None[OF st_refuse(2)] show ?case
    by (auto simp: inv_close_def in_call_def)
next
  case (st_begin_close s D b)
  then show ?case by (auto simp: inv_close_def beginClose_def split: if_splits)
next
  case (st_waited s D)
  then show ?case using inv_count_zero[OF st_waited(3)] by (auto simp: inv_close_def)
qed ((auto simp: inv_close_def section_defs in_call_def split: if_splits; metis pc.distinct) |
     (auto simp: inv_close_def section_defs; fail))+

lemma inv_workD:
  "inv_work ops s \<Longrightarrow> works (pcs s t) a \<Longrightarrow> a \<in> live s"
  "inv_work ops s \<Longrightarrow> works (pcs s t) a \<Longrightarrow> closer s = CIdle \<Longrightarrow>
     active (shared s) (call_key (ops t)) = Some a"
  "inv_work ops s \<Longrightarrow> works (pcs s t) a \<Longrightarrow> works (pcs s u) b \<Longrightarrow>
     call_key (ops t) = call_key (ops u) \<Longrightarrow> a = b"
  unfolding inv_work_def by blast+

lemma inv_workI:
  assumes "\<And>t a. works (pcs s t) a \<Longrightarrow> a \<in> live s"
    and "\<And>t a. works (pcs s t) a \<Longrightarrow> closer s = CIdle \<Longrightarrow> active (shared s) (call_key (ops t)) = Some a"
    and "\<And>t u a b. works (pcs s t) a \<Longrightarrow> works (pcs s u) b \<Longrightarrow>
        call_key (ops t) = call_key (ops u) \<Longrightarrow> a = b"
  shows "inv_work ops s"
  using assms unfolding inv_work_def by blast

lemma works_simps [simp]:
  "works (Invoking a) b = (a = b)" "works (Cleaned a) b = (a = b)" "\<not> works Idle b"
  "\<not> works (Waiting a) b" "\<not> works (Holding a) b" "\<not> works (Releasing a e) b"
  "\<not> works (Unlocked e) b" "\<not> works (Finished e) b"
  by (auto simp: works_def)

text \<open>A step that lets no call begin its work and keeps the table of instances keeps \<open>inv_work\<close>.\<close>

lemma inv_work_mono:
  assumes "inv_work ops s" and "\<And>t a. works (pcs s' t) a \<Longrightarrow> works (pcs s t) a"
    and "active (shared s') = active (shared s)" and "closer s' = closer s"
  shows "inv_work ops s'"
proof -
  have "live s' = live s" using assms(3,4) by (simp add: live_def split: closer_pc.splits)
  then show ?thesis using assms unfolding inv_work_def by metis
qed

lemma step_inv_work:
  assumes "bridge_step ops s s'" and "inv_lock s" and "inv_count s" and "inv_close s" and "inv_work ops s"
  shows "inv_work ops s'"
  using assms
proof (induction rule: bridge_step.induct)
  case (st_enter s t a b)
  note e = admit_enter_Some[OF st_enter(2)]
  then have c: "closer s = CIdle" using st_enter by (simp add: inv_close_def)
  then have l: "live s = ran (active (shared s))" by (simp add: live_def)
  show ?case
  proof (rule inv_workI)
    fix u a' assume "works (pcs (goto t (Waiting a) (s\<lparr>shared := b\<rparr>)) u) a'"
    then have "works (pcs s u) a'" by (auto split: if_splits)
    then have "active (shared s) (call_key (ops u)) = Some a'" using st_enter c by (auto dest: inv_workD)
    then have "active b (call_key (ops u)) = Some a'" using e by auto
    then show "active (shared (goto t (Waiting a) (s\<lparr>shared := b\<rparr>))) (call_key (ops u)) = Some a'"
      and "a' \<in> live (goto t (Waiting a) (s\<lparr>shared := b\<rparr>))"
      using c by (auto simp: live_def intro: ranI)
  next
    fix u v x y assume "works (pcs (goto t (Waiting a) (s\<lparr>shared := b\<rparr>)) u) x"
      "works (pcs (goto t (Waiting a) (s\<lparr>shared := b\<rparr>)) v) y" "call_key (ops u) = call_key (ops v)"
    then show "x = y" using st_enter by (auto split: if_splits dest: inv_workD)
  qed
next
  case (st_refuse s t b)
  then show ?case using admit_enter_None[OF st_refuse(2)]
    by (auto intro!: inv_work_mono[of ops s] split: if_splits)
next
  case (st_confirm s t a)
  then have c: "closer s = CIdle" "active (shared s) (call_key (ops t)) = Some a"
    by (auto simp: inv_close_def admit_confirm_def)
  then have l: "live s = ran (active (shared s))" by (simp add: live_def)
  have act: "active (shared s) (call_key (ops u)) = Some x" if "works (pcs (goto t (Invoking a) s) u) x" for u x
    using that st_confirm c by (auto split: if_splits dest: inv_workD)
  show ?case by (rule inv_workI) (use act c l in \<open>auto intro: ranI\<close>, metis act option.inject)
next
  case (st_commit s t a)
  have other: "works (pcs s u) x \<and> u \<noteq> t" if "works (pcs (goto t (Releasing a None) (on_shared f s)) u) x" for u x f
    using that by (auto split: if_splits)
  have diff: "call_key (ops u) \<noteq> call_key (ops t)" if "works (pcs s u) x" "u \<noteq> t" for u x
  proof
    assume "call_key (ops u) = call_key (ops t)"
    then have "x = a" using st_commit that by (metis inv_workD(3) works_simps(2))
    then show False using one_holder[OF st_commit(2), of u a t] that works_holds st_commit(1)
      by (metis works_simps(2))
  qed
  have ar: "x \<in> ran ((active (shared s))(call_key (ops t) := None))"
    if "works (pcs s u) x" "u \<noteq> t" "closer s = CIdle" for u x
    using diff[OF that(1,2)] inv_workD(2)[OF st_commit(5) that(1,3)] by (auto intro!: ranI[of _ "call_key (ops u)"])
  show ?case
  proof (cases "closer s = CIdle")
    case True
    then have "\<not> bridge_closed (shared s)" using st_commit(4) by (simp add: inv_close_def)
    then have sh: "active (clean_commit (call_key (ops t)) (shared s)) = (active (shared s))(call_key (ops t) := None)"
      by (simp add: clean_commit_def)
    show ?thesis
    proof (rule inv_workI)
      fix u x assume w: "works (pcs (goto t (Releasing a None) (on_shared (clean_commit (call_key (ops t))) s)) u) x"
      have w': "works (pcs s u) x" "u \<noteq> t" using other[OF w] by simp_all
      show "x \<in> live (goto t (Releasing a None) (on_shared (clean_commit (call_key (ops t))) s))"
        using ar[OF w' True] True sh by (simp add: live_def)
      show "active (shared (goto t (Releasing a None) (on_shared (clean_commit (call_key (ops t))) s)))
          (call_key (ops u)) = Some x"
        using diff[OF w'] inv_workD(2)[OF st_commit(5) w'(1) True] sh by simp
    next
      fix u v x y
      assume w: "works (pcs (goto t (Releasing a None) (on_shared (clean_commit (call_key (ops t))) s)) u) x"
        "works (pcs (goto t (Releasing a None) (on_shared (clean_commit (call_key (ops t))) s)) v) y"
        "call_key (ops u) = call_key (ops v)"
      show "x = y" using inv_workD(3)[OF st_commit(5)] other[OF w(1)] other[OF w(2)] w(3) by blast
    qed
  next
    case False
    then have "clean_commit (call_key (ops t)) (shared s) = shared s"
      using st_commit(4) by (simp add: clean_commit_def inv_close_def)
    with st_commit(5) show ?thesis
      by (elim inv_work_mono) (auto split: if_splits)
  qed
next
  case (st_begin_close s D b)
  then show ?case
    by (intro inv_workI) (auto simp: live_def beginClose_def split: if_splits dest: inv_workD)
next
  case (st_waited s D)
  then show ?case by (intro inv_workI) (auto simp: live_def dest: inv_workD)
next
  case (st_clear_one s D a)
  then have "\<not> works (pcs s t) x" for t x
    by (auto simp: inv_close_def dest: works_holds holds_in_call)
  then show ?case by (intro inv_workI) auto
next
  case (st_closed s)
  then have "\<not> works (pcs s t) x" for t x
    by (auto simp: inv_close_def dest: works_holds holds_in_call)
  then show ?case by (intro inv_workI) auto
qed (erule inv_work_mono; auto simp: section_defs split: if_splits; fail)+

lemma inv_dataI:
  assumes "finite (live s)" and "\<And>a. a \<notin> live s \<Longrightarrow> instance_data (shared s) a = Map.empty"
    and "\<And>t a. pcs s t = Cleaned a \<Longrightarrow> instance_data (shared s) a = Map.empty"
  shows "inv_data s"
  using assms unfolding inv_data_def by blast

lemma inv_dataD:
  "inv_data s \<Longrightarrow> finite (live s)"
  "inv_data s \<Longrightarrow> a \<notin> live s \<Longrightarrow> instance_data (shared s) a = Map.empty"
  "inv_data s \<Longrightarrow> pcs s t = Cleaned a \<Longrightarrow> instance_data (shared s) a = Map.empty"
  unfolding inv_data_def by blast+

lemma inv_data_mono:
  assumes "inv_data s" and "\<And>t a. pcs s' t = Cleaned a \<Longrightarrow> pcs s t = Cleaned a"
    and "live s' = live s" and "instance_data (shared s') = instance_data (shared s)"
  shows "inv_data s'"
  using assms by (intro inv_dataI) (auto dest: inv_dataD)

lemma live_cong:
  "active (shared s') = active (shared s) \<Longrightarrow> closer s' = closer s \<Longrightarrow> live s' = live s"
  by (simp add: live_def split: closer_pc.splits)

lemma ran_upd_None: "m k = None \<Longrightarrow> ran (m(k \<mapsto> a)) = insert a (ran m)"
  by (rule ran_map_upd)

lemma step_inv_data:
  assumes "bridge_step ops s s'" and "inv_lock s" and "inv_close s" and "inv_work ops s" and "inv_data s"
  shows "inv_data s'"
  using assms
proof (induction rule: bridge_step.induct)
  case (st_enter s t a b)
  let ?s' = "goto t (Waiting a) (s\<lparr>shared := b\<rparr>)"
  note e = admit_enter_Some[OF st_enter(2)]
  then have c: "closer s = CIdle" using st_enter by (simp add: inv_close_def)
  then have ls: "live s = ran (active (shared s))" "live ?s' = ran (active b)"
    by (simp_all add: live_def goto_def)
  have l: "live ?s' = live s \<and> instance_data b = instance_data (shared s) \<or>
      live ?s' = insert a (live s) \<and> instance_data b = (instance_data (shared s))(a := Map.empty)"
    unfolding ls using e ran_upd_None[of "active (shared s)" "call_key (ops t)" a] by metis
  show ?case
  proof (rule inv_dataI)
    show "finite (live ?s')" using l inv_dataD(1)[OF st_enter(6)] by auto
    show "instance_data (shared ?s') x = Map.empty" if "x \<notin> live ?s'" for x
      using l that inv_dataD(2)[OF st_enter(6)] by auto
    show "instance_data (shared ?s') x = Map.empty" if "pcs ?s' u = Cleaned x" for u x
      using l that inv_dataD(3)[OF st_enter(6), of u x] by (auto split: if_splits)
  qed
next
  case (st_refuse s t b)
  then show ?case using admit_enter_None[OF st_refuse(2)]
    by (elim inv_data_mono) (auto split: if_splits intro: live_cong)
next
  case (st_write s t a d)
  let ?s' = "on_shared (set_data a d) s"
  have l: "live ?s' = live s" by (rule live_cong) (simp_all add: set_data_def)
  have a: "a \<in> live s" using inv_workD(1)[OF st_write(4), of t a] st_write(1) by simp
  show ?case
  proof (rule inv_dataI)
    show "finite (live ?s')" using l inv_dataD(1)[OF st_write(5)] by simp
    show "instance_data (shared ?s') x = Map.empty" if "x \<notin> live ?s'" for x
      using l that a inv_dataD(2)[OF st_write(5)] by (auto simp: set_data_def)
    show "instance_data (shared ?s') x = Map.empty" if "pcs ?s' u = Cleaned x" for u x
    proof -
      have "x \<noteq> a" using that st_write(1) one_holder[OF st_write(2), of u a t]
        by (auto simp: holds_def)
      then show ?thesis using that inv_dataD(3)[OF st_write(5), of u x] by (simp add: set_data_def)
    qed
  qed
next
  case (st_clear s t a)
  have "live (goto t (Cleaned a) (on_shared (set_data a Map.empty) s)) = live s"
    by (rule live_cong) (simp_all add: set_data_def)
  with st_clear(6) show ?case
    by (intro inv_dataI) (auto simp: set_data_def dest: inv_dataD split: if_splits)
next
  case (st_commit s t a)
  let ?s' = "goto t (Releasing a None) (on_shared (clean_commit (call_key (ops t))) s)"
  have d: "instance_data (shared ?s') = instance_data (shared s)"
    by (simp add: clean_commit_def)
  have cl: "instance_data (shared s) a = Map.empty" using inv_dataD(3)[OF st_commit(5)] st_commit(1) by simp
  have sub: "live ?s' \<subseteq> live s \<and> live s \<subseteq> insert a (live ?s')"
  proof (cases "closer s = CIdle")
    case True
    then have "active (shared s) (call_key (ops t)) = Some a" "\<not> bridge_closed (shared s)"
      using st_commit inv_workD(2)[OF st_commit(4), of t a] by (auto simp: inv_close_def)
    with True show ?thesis
      by (auto simp: live_def clean_commit_def ran_def split: if_splits) (metis option.inject)
  next
    case False
    then show ?thesis using st_commit(3) by (auto simp: clean_commit_def inv_close_def)
  qed
  show ?case
  proof (rule inv_dataI)
    show "finite (live ?s')" using sub inv_dataD(1)[OF st_commit(5)] finite_subset by blast
    show "instance_data (shared ?s') x = Map.empty" if "x \<notin> live ?s'" for x
      using that sub cl inv_dataD(2)[OF st_commit(5), of x] unfolding d by (cases "x = a") auto
    show "instance_data (shared ?s') x = Map.empty" if "pcs ?s' u = Cleaned x" for u x
      using that inv_dataD(3)[OF st_commit(5), of u x] unfolding d by (auto split: if_splits)
  qed
next
  case (st_begin_close s D b)
  then show ?case
    by (elim inv_data_mono) (auto simp: live_def beginClose_def split: if_splits)
next
  case (st_waited s D)
  then show ?case by (elim inv_data_mono) (auto simp: live_def)
next
  case (st_clear_one s D a)
  then show ?case unfolding inv_data_def by (auto simp: live_def set_data_def)
next
  case (st_closed s)
  then show ?case by (elim inv_data_mono) (auto simp: live_def)
next
  case (st_lock s t a)
  then show ?case by (elim inv_data_mono) (auto split: if_splits)
next
  case (st_confirm s t a)
  then show ?case by (elim inv_data_mono) (auto split: if_splits)
next
  case (st_reject s t a)
  then show ?case by (elim inv_data_mono) (auto split: if_splits)
next
  case (st_return s t a e)
  then show ?case by (elim inv_data_mono) (auto split: if_splits)
next
  case (st_unlock s t a e)
  then show ?case by (elim inv_data_mono) (auto split: if_splits)
next
  case (st_finish s t e)
  have "live (goto t (Finished e) (on_shared call_done s)) = live s"
    by (rule live_cong) (simp_all add: call_done_def)
  with st_finish(5) show ?case
    by (elim inv_data_mono) (simp_all add: call_done_def split: if_splits)
qed

lemma bridge_inv_init: "bridge_inv ops init_system"
  by (simp add: bridge_inv_def init_system_def inv_lock_def inv_count_def inv_close_def inv_work_def
      inv_data_def live_def pc_defs newRuntimeScenarioBridgeState_def)

lemma bridge_inv_step: "bridge_step ops s s' \<Longrightarrow> bridge_inv ops s \<Longrightarrow> bridge_inv ops s'"
  unfolding bridge_inv_def
  using step_inv_lock step_inv_count step_inv_close step_inv_work step_inv_data by blast

lemma bridge_inv_steps: "(bridge_step ops)\<^sup>*\<^sup>* s s' \<Longrightarrow> bridge_inv ops s \<Longrightarrow> bridge_inv ops s'"
  by (induction rule: rtranclp_induct) (auto intro: bridge_inv_step)

lemma bridge_reachable_inv: "bridge_reachable ops s \<Longrightarrow> bridge_inv ops s"
  unfolding bridge_reachable_def by (erule bridge_inv_steps) (rule bridge_inv_init)

section \<open>Progress\<close>

text \<open>How many steps a call still needs.\<close>

fun left :: "pc \<Rightarrow> nat" where
  "left Idle = 0"
| "left (Waiting a) = 6"
| "left (Holding a) = 5"
| "left (Invoking a) = 4"
| "left (Cleaned a) = 3"
| "left (Releasing a e) = 2"
| "left (Unlocked e) = 1"
| "left (Finished e) = 0"

lemma left_zero: "left p = 0 \<longleftrightarrow> \<not> in_call p"
  by (cases p) (auto simp: in_call_def)

definition work_left :: "'v system \<Rightarrow> nat" where
  "work_left s = sum (\<lambda>t. left (pcs s t)) {t. in_call (pcs s t)}"

lemma work_left_over:
  assumes "finite F" and "{t. in_call (pcs s t)} \<subseteq> F"
  shows "work_left s = sum (\<lambda>t. left (pcs s t)) F"
  unfolding work_left_def using assms by (intro sum.mono_neutral_left) (auto simp: left_zero)

lemma work_left_move:
  assumes "inv_count s" and "pcs s' = (pcs s)(t := p)" and "left p < left (pcs s t)"
  shows "work_left s' < work_left s"
proof -
  let ?F = "{u. in_call (pcs s u)}"
  have t: "t \<in> ?F" using assms(3) left_zero[of "pcs s t"] by auto
  have f: "finite ?F" using assms(1) by (simp add: inv_count_def)
  have "{u. in_call (pcs s' u)} \<subseteq> ?F" using t by (auto simp: assms(2) split: if_splits)
  with f have s': "work_left s' = sum (\<lambda>u. left (pcs s' u)) ?F" by (rule work_left_over)
  show ?thesis unfolding s' work_left_def[of s]
    using f t assms(2,3) by (intro sum_strict_mono_ex1) auto
qed

text \<open>Whenever a call is in flight, some call in flight can move on.\<close>

lemma advance_by:
  "bridge_step ops s s' \<Longrightarrow> pcs s' = (pcs s)(u := p) \<Longrightarrow> left p < left (pcs s u) \<Longrightarrow>
     closer s' = closer s \<Longrightarrow>
     \<exists>s' p. bridge_step ops s s' \<and> pcs s' = (pcs s)(u := p) \<and> left p < left (pcs s u) \<and>
       closer s' = closer s"
  by blast

lemma can_advance:
  assumes "bridge_inv ops s" and "in_call (pcs s t)"
  shows "\<exists>s' u p. bridge_step ops s s' \<and> pcs s' = (pcs s)(u := p) \<and> left p < left (pcs s u) \<and>
     closer s' = closer s"
proof -
  have adv: "\<exists>s' p. bridge_step ops s s' \<and> pcs s' = (pcs s)(u := p) \<and> left p < left (pcs s u) \<and>
      closer s' = closer s" if "in_call (pcs s u)" and "\<forall>a. pcs s u = Waiting a \<longrightarrow> lock_of s a = None" for u
  proof (cases "pcs s u")
    case (Waiting a)
    with that(2) have free: "lock_of s a = None" by simp
    show ?thesis by (rule advance_by[OF st_lock[OF Waiting free, of ops], where p = "Holding a"]) (simp_all add: Waiting)
  next
    case (Holding a)
    show ?thesis
    proof (cases "admit_confirm (call_key (ops u)) a (shared s)")
      case True
      show ?thesis by (rule advance_by[OF st_confirm[of s u a ops, OF Holding True], where p = "Invoking a"]) (simp_all add: Holding)
    next
      case False
      show ?thesis by (rule advance_by[OF st_reject[of s u a ops, OF Holding False], where p = "Releasing a (Some errRuntimeScenarioInstanceGone)"]) (simp_all add: Holding)
    qed
  next
    case (Invoking a)
    show ?thesis by (rule advance_by[OF st_return[of s u a "Some []" ops, OF Invoking], where p = "Releasing a (Some [])"]) (simp_all add: Invoking)
  next
    case (Cleaned a)
    show ?thesis by (rule advance_by[OF st_commit[of s u a ops, OF Cleaned], where p = "Releasing a None"]) (simp_all add: Cleaned)
  next
    case (Releasing a e)
    show ?thesis by (rule advance_by[OF st_unlock[OF Releasing, of ops], where p = "Unlocked e"]) (simp_all add: Releasing)
  next
    case (Unlocked e)
    show ?thesis by (rule advance_by[OF st_finish[OF Unlocked, of ops], where p = "Finished e"]) (simp_all add: Unlocked)
  qed (use that in \<open>simp_all add: in_call_def\<close>)
  show ?thesis
  proof (cases "\<exists>a v. pcs s t = Waiting a \<and> lock_of s a = Some v")
    case True
    then obtain a v where "lock_of s a = Some v" by blast
    then have h: "holds (pcs s v) a" using assms(1) by (simp add: bridge_inv_def inv_lock_def)
    with adv[of v] show ?thesis by (metis holds_in_call holds_def pc.distinct)
  next
    case False
    with adv[of t] assms(2) show ?thesis by (metis option.exhaust)
  qed
qed

lemma calls_can_finish:
  "bridge_inv ops s \<Longrightarrow>
     \<exists>s'. (bridge_step ops)\<^sup>*\<^sup>* s s' \<and> (\<forall>t. \<not> in_call (pcs s' t)) \<and> closer s' = closer s"
proof (induction "work_left s" arbitrary: s rule: less_induct)
  case less
  show ?case
  proof (cases "\<exists>t. in_call (pcs s t)")
    case True
    then obtain s' u p where st: "bridge_step ops s s'" "pcs s' = (pcs s)(u := p)"
      "left p < left (pcs s u)" "closer s' = closer s"
      using can_advance[OF less.prems] by blast
    have "work_left s' < work_left s"
      using less.prems st by (intro work_left_move) (auto simp: bridge_inv_def)
    with less.hyps[OF this bridge_inv_step[OF st(1) less.prems]] st show ?thesis
      by (metis converse_rtranclp_into_rtranclp)
  qed auto
qed

lemma clearing_can_finish:
  assumes "finite D" and "bridge_inv ops s" and "closer s = CClear D"
  shows "\<exists>s'. (bridge_step ops)\<^sup>*\<^sup>* s s' \<and> closer s' = CDone"
  using assms
proof (induction D arbitrary: s rule: finite_psubset_induct)
  case (psubset D)
  show ?case
  proof (cases "D = {}")
    case True
    with psubset.prems st_closed[of s ops] show ?thesis
      by (intro exI[of _ "s\<lparr>closer := CDone\<rparr>"]) auto
  next
    case False
    then obtain a where a: "a \<in> D" by blast
    let ?s = "on_shared (set_data a Map.empty) (s\<lparr>closer := CClear (D - {a})\<rparr>)"
    have "\<not> holds (pcs s t) a" for t
      using psubset.prems by (auto simp: bridge_inv_def inv_close_def dest: holds_in_call)
    then have "lock_of s a = None" using psubset.prems(1)
      by (cases "lock_of s a") (auto simp: bridge_inv_def inv_lock_def)
    then have st: "bridge_step ops s ?s" using psubset.prems(2) a by (intro st_clear_one)
    have "D - {a} \<subset> D" using a by blast
    from psubset.IH[OF this bridge_inv_step[OF st psubset.prems(1)]] st show ?thesis
      by (auto intro: converse_rtranclp_into_rtranclp)
  qed
qed

section \<open>One call at a time is a run\<close>

lemma steps_trans: "bridge_step ops a b \<Longrightarrow> (bridge_step ops)\<^sup>*\<^sup>* b c \<Longrightarrow> (bridge_step ops)\<^sup>*\<^sup>* a c"
  by (rule converse_rtranclp_into_rtranclp)

text \<open>What a call does to the shared state once it has the instance.\<close>

lemma admitInstance_cases:
  assumes "admitInstance k s = (r, b)"
  shows "(r = Inl errRuntimeScenarioInstanceGone \<and> b = s \<and> admit_enter k s = (None, s)) \<or>
    (\<exists>a. r = Inr a \<and> admit_enter k s = (Some a, b) \<and> admit_confirm k a b)"
proof (cases "admit_enter k s")
  case (Pair o' c)
  show ?thesis
  proof (cases o')
    case None
    with Pair admit_enter_None[of k s c] assms show ?thesis by (auto simp: admitInstance_def)
  next
    case (Some a)
    with Pair have e: "admit_enter k s = (Some a, c)" by simp
    have "admit_confirm k a c" using admit_enter_Some[OF e] by (auto simp: admit_confirm_def)
    with e assms show ?thesis by (auto simp: admitInstance_def)
  qed
qed

definition alone :: "tid \<Rightarrow> 'v system \<Rightarrow> bool" where
  "alone t s \<longleftrightarrow> pcs s t = Idle \<and> lock_of s = Map.empty"

text \<open>From the entry to the lock and past the second check.\<close>

lemma run_to_invoking:
  assumes "alone t s" and "admit_enter (call_key (ops t)) (shared s) = (Some a, b)"
    and "admit_confirm (call_key (ops t)) a b"
  shows "(bridge_step ops)\<^sup>*\<^sup>* s
    (s\<lparr>shared := b, lock_of := (lock_of s)(a \<mapsto> t), pcs := (pcs s)(t := Invoking a)\<rparr>)"
proof -
  let ?s1 = "s\<lparr>shared := b, pcs := (pcs s)(t := Waiting a)\<rparr>"
  let ?s2 = "?s1\<lparr>lock_of := (lock_of s)(a \<mapsto> t), pcs := (pcs s)(t := Holding a)\<rparr>"
  let ?s3 = "?s2\<lparr>pcs := (pcs s)(t := Invoking a)\<rparr>"
  have "bridge_step ops s ?s1"
    using st_enter[of s t ops a b] assms by (simp add: alone_def goto_def)
  moreover have "bridge_step ops ?s1 ?s2"
    using st_lock[of ?s1 t a ops] assms(1) by (simp add: alone_def goto_def)
  moreover have "bridge_step ops ?s2 ?s3"
    using st_confirm[of ?s2 t a ops] assms(3) by (simp add: goto_def)
  ultimately have "(bridge_step ops)\<^sup>*\<^sup>* s ?s3" by (meson r_into_rtranclp steps_trans)
  then show ?thesis by simp
qed

lemma run_release:
  assumes "pcs s t = Releasing a e"
  shows "(bridge_step ops)\<^sup>*\<^sup>* s
    (s\<lparr>shared := call_done (shared s), lock_of := (lock_of s)(a := None), pcs := (pcs s)(t := Finished e)\<rparr>)"
proof -
  let ?s1 = "s\<lparr>lock_of := (lock_of s)(a := None), pcs := (pcs s)(t := Unlocked e)\<rparr>"
  let ?s2 = "?s1\<lparr>shared := call_done (shared s), pcs := (pcs s)(t := Finished e)\<rparr>"
  have "bridge_step ops s ?s1" using st_unlock[of s t a e ops] assms by (simp add: goto_def)
  moreover have "bridge_step ops ?s1 ?s2"
    using st_finish[of ?s1 t e ops] by (simp add: goto_def on_shared_def)
  ultimately have "(bridge_step ops)\<^sup>*\<^sup>* s ?s2" by (meson r_into_rtranclp steps_trans)
  moreover have "?s2 = s\<lparr>shared := call_done (shared s), lock_of := (lock_of s)(a := None),
      pcs := (pcs s)(t := Finished e)\<rparr>" by (cases s) simp
  ultimately show ?thesis by simp
qed

definition sequential_call ::
  "call \<Rightarrow> 'v invocation \<Rightarrow> 'v bridge \<Rightarrow> go_error option \<times> 'v bridge" where
  "sequential_call c invoke s =
     (if call_cleans c then cleanInstance (call_key c) invoke s else withInstance (call_key c) invoke s)"

lemma sequential_run:
  assumes "alone t s" and "sequential_call (ops t) invoke (shared s) = (e, b)"
  shows "(bridge_step ops)\<^sup>*\<^sup>* s (s\<lparr>shared := b, pcs := (pcs s)(t := Finished e)\<rparr>)"
proof -
  let ?k = "call_key (ops t)"
  obtain r c where r: "admitInstance ?k (shared s) = (r, c)" by fastforce
  from admitInstance_cases[OF r] show ?thesis
  proof (elim disjE conjE exE)
    assume n: "r = Inl errRuntimeScenarioInstanceGone" "c = shared s"
      "admit_enter ?k (shared s) = (None, shared s)"
    then have "e = Some errRuntimeScenarioInstanceGone \<and> b = shared s"
      using assms(2) r by (auto simp: sequential_call_def withInstance_def cleanInstance_def split: if_splits)
    with n assms(1) st_refuse[of s t ops "shared s"] show ?thesis
      by (simp add: alone_def goto_def r_into_rtranclp)
  next
    fix a assume n: "r = Inr a" "admit_enter ?k (shared s) = (Some a, c)" "admit_confirm ?k a c"
    let ?s1 = "s\<lparr>shared := c, lock_of := (lock_of s)(a \<mapsto> t), pcs := (pcs s)(t := Invoking a)\<rparr>"
    obtain x d where d: "invoke (instance_data c a) = (x, d)" by fastforce
    let ?s2 = "?s1\<lparr>shared := set_data a d c\<rparr>"
    have r1: "(bridge_step ops)\<^sup>*\<^sup>* s ?s1" using assms(1) n(2,3) by (rule run_to_invoking)
    have "bridge_step ops ?s1 ?s2" using st_write[of ?s1 t a ops d] by (simp add: on_shared_def)
    with r1 have run: "(bridge_step ops)\<^sup>*\<^sup>* s ?s2" by (rule rtranclp.rtrancl_into_rtrancl)
    have free: "lock_of s = Map.empty" using assms(1) by (simp add: alone_def)
    then have same: "s\<lparr>shared := w, lock_of := Map.empty, pcs := q\<rparr> = s\<lparr>shared := w, pcs := q\<rparr>" for w q
      by (cases s) simp
    show ?thesis
    proof (cases "call_cleans (ops t) \<and> x = None")
      case False
      let ?s3 = "?s2\<lparr>pcs := (pcs s)(t := Releasing a x)\<rparr>"
      have "bridge_step ops ?s2 ?s3" using st_return[of ?s2 t a x ops] False by (auto simp: goto_def)
      with run have r3: "(bridge_step ops)\<^sup>*\<^sup>* s ?s3" by (rule rtranclp.rtrancl_into_rtrancl)
      have r4: "(bridge_step ops)\<^sup>*\<^sup>* ?s3 (?s3\<lparr>shared := call_done (shared ?s3),
          lock_of := (lock_of ?s3)(a := None), pcs := (pcs ?s3)(t := Finished x)\<rparr>)"
        by (rule run_release) simp
      from rtranclp_trans[OF r3 r4] show ?thesis
        using assms(2) r n(1) d False free same
        by (auto simp: sequential_call_def withInstance_def cleanInstance_def split: if_splits option.splits)
    next
      case True
      let ?s3 = "?s2\<lparr>shared := set_data a Map.empty (set_data a d c), pcs := (pcs s)(t := Cleaned a)\<rparr>"
      let ?s4 = "?s3\<lparr>shared := clean_commit ?k (shared ?s3), pcs := (pcs s)(t := Releasing a None)\<rparr>"
      have "bridge_step ops ?s2 ?s3" using st_clear[of ?s2 t a ops] True by (simp add: goto_def on_shared_def)
      with run have r3: "(bridge_step ops)\<^sup>*\<^sup>* s ?s3" by (rule rtranclp.rtrancl_into_rtrancl)
      have "bridge_step ops ?s3 ?s4" using st_commit[of ?s3 t a ops] by (simp add: goto_def on_shared_def)
      with r3 have r4: "(bridge_step ops)\<^sup>*\<^sup>* s ?s4" by (rule rtranclp.rtrancl_into_rtrancl)
      have r5: "(bridge_step ops)\<^sup>*\<^sup>* ?s4 (?s4\<lparr>shared := call_done (shared ?s4),
          lock_of := (lock_of ?s4)(a := None), pcs := (pcs ?s4)(t := Finished None)\<rparr>)"
        by (rule run_release) simp
      from rtranclp_trans[OF r4 r5] show ?thesis
        using assms(2) r n(1) d True free same by (simp add: sequential_call_def cleanInstance_def)
    qed
  qed
qed

section \<open>Properties\<close>

text \<open>A run in which two calls name the same instance: one is in its callback, one waits.\<close>

definition sample_instance :: runtimeScenarioInstanceKey where
  "sample_instance = \<lparr>RunIdentity = ''run'', NodeIdentity = ''node'', PartitionNumber = 0,
     ScenarioName = ''orders'', ScenarioInstanceID = ''1''\<rparr>"

definition sample_ops :: "tid \<Rightarrow> call" where
  "sample_ops t = \<lparr>call_key = sample_instance, call_cleans = (t = 0)\<rparr>"

definition sample_busy :: "string system" where
  "sample_busy =
     (let s1 = init_system\<lparr>shared := snd (admit_enter sample_instance newRuntimeScenarioBridgeState),
                lock_of := [0 \<mapsto> 0], pcs := (\<lambda>_. Idle)(0 := Invoking 0)\<rparr>
      in goto 1 (Waiting 0) (s1\<lparr>shared := snd (admit_enter sample_instance (shared s1))\<rparr>))"

lemma sample_busy_reachable: "bridge_reachable sample_ops sample_busy"
proof -
  let ?i = "init_system :: string system"
  let ?b = "snd (admit_enter sample_instance (newRuntimeScenarioBridgeState :: string bridge))"
  let ?s1 = "?i\<lparr>shared := ?b, lock_of := [0 \<mapsto> 0], pcs := (\<lambda>_. Idle)(0 := Invoking 0)\<rparr>"
  have "(bridge_step sample_ops)\<^sup>*\<^sup>* ?i
      (?i\<lparr>shared := ?b, lock_of := (lock_of ?i)(0 \<mapsto> 0), pcs := (pcs ?i)(0 := Invoking 0)\<rparr>)"
    by (rule run_to_invoking)
      (simp_all add: alone_def init_system_def sample_ops_def admit_enter_def admit_confirm_def
        newRuntimeScenarioBridgeState_def)
  then have "(bridge_step sample_ops)\<^sup>*\<^sup>* ?i ?s1" by (simp add: init_system_def)
  moreover have "bridge_step sample_ops ?s1 sample_busy"
    using st_enter[of ?s1 1 sample_ops 0 "snd (admit_enter sample_instance ?b)"]
    by (simp add: sample_busy_def init_system_def sample_ops_def admit_enter_def Let_def
        newRuntimeScenarioBridgeState_def)
  ultimately show ?thesis unfolding bridge_reachable_def by (rule rtranclp.rtrancl_into_rtrancl)
qed

text \<open>
  C10: The callbacks of one scenario instance are never run at the same time: in every state that
  any interleaving of calls and a close can reach, two different calls that name the same
  instance are not both between the admission and the release.
\<close>

theorem instance_calls_exclusive:
  assumes "bridge_reachable ops s" and "t \<noteq> u" and "call_key (ops t) = call_key (ops u)"
  shows "\<not> ((\<exists>a. works (pcs s t) a) \<and> (\<exists>b. works (pcs s u) b))"
proof
  assume "(\<exists>a. works (pcs s t) a) \<and> (\<exists>b. works (pcs s u) b)"
  then obtain a b where w: "works (pcs s t) a" "works (pcs s u) b" by blast
  from bridge_reachable_inv[OF assms(1)] have inv: "inv_lock s" "inv_work ops s"
    by (simp_all add: bridge_inv_def)
  have "a = b" using inv_workD(3)[OF inv(2) w assms(3)] .
  with one_holder[OF inv(1)] w assms(2) show False by (metis works_holds)
qed

lemma instance_calls_exclusive_witness:
  "works (pcs sample_busy 0) 0 \<and> \<not> (\<exists>b. works (pcs sample_busy 1) b)"
proof -
  have "works (pcs sample_busy 0) 0" by (simp add: sample_busy_def Let_def)
  moreover have "call_key (sample_ops 0) = call_key (sample_ops 1)" by (simp add: sample_ops_def)
  ultimately show ?thesis
    using instance_calls_exclusive[OF sample_busy_reachable, of 0 1] by auto
qed



text \<open>
  C12: Closing the bridge waits for every callback and leaves nothing behind: when the close has
  returned, no call is in flight, none is between admission and release, and the data of every
  instance there ever was is empty.
\<close>

theorem close_waits_and_clears:
  assumes "bridge_reachable ops s" and "closer s = CDone"
  shows "inFlight (shared s) = 0 \<and> (\<forall>t. \<not> in_call (pcs s t)) \<and>
    (\<forall>a. instance_data (shared s) a = Map.empty)"
proof -
  from bridge_reachable_inv[OF assms(1)] have inv: "inv_count s" "inv_close s" "inv_data s"
    by (simp_all add: bridge_inv_def)
  have "\<forall>t. \<not> in_call (pcs s t)" using inv(2) assms(2) by (simp add: inv_close_def)
  moreover have "inFlight (shared s) = 0" using inv(1) calculation by (simp add: inv_count_def)
  moreover have "live s = {}" using assms(2) by (simp add: live_def)
  ultimately show ?thesis using inv_dataD(2)[OF inv(3)] by simp
qed

lemma sample_close_run:
  "\<exists>s :: string system. bridge_reachable sample_ops s \<and> closer s = CDone"
proof -
  let ?b = "\<lambda>s :: string system. s\<lparr>shared := snd (beginClose (shared s)), closer := CWait {0}\<rparr>"
  have "bridge_step sample_ops sample_busy (?b sample_busy)"
    using st_begin_close[of sample_busy "{0}" "snd (beginClose (shared sample_busy))" sample_ops]
    by (simp add: sample_busy_def Let_def init_system_def beginClose_def admit_enter_def
        newRuntimeScenarioBridgeState_def ran_def)
  with sample_busy_reachable have r: "bridge_reachable sample_ops (?b sample_busy)"
    unfolding bridge_reachable_def by (rule rtranclp.rtrancl_into_rtrancl)
  obtain s1 where s1: "(bridge_step sample_ops)\<^sup>*\<^sup>* (?b sample_busy) s1"
    "\<forall>t. \<not> in_call (pcs s1 t)" "closer s1 = CWait {0}"
    using calls_can_finish[OF bridge_reachable_inv[OF r]] by auto
  have i1: "bridge_inv sample_ops s1" using s1(1) bridge_reachable_inv[OF r] by (rule bridge_inv_steps)
  then have "inFlight (shared s1) = 0" using s1(2) by (simp add: bridge_inv_def inv_count_def)
  with st_waited s1(3) have st: "bridge_step sample_ops s1 (s1\<lparr>closer := CClear {0}\<rparr>)" by blast
  obtain s2 where "(bridge_step sample_ops)\<^sup>*\<^sup>* (s1\<lparr>closer := CClear {0}\<rparr>) s2" "closer s2 = CDone"
    using clearing_can_finish[of "{0}", OF _ bridge_inv_step[OF st i1]] by auto
  with r s1(1) st show ?thesis unfolding bridge_reachable_def
    by (meson converse_rtranclp_into_rtranclp rtranclp_trans)
qed

lemma close_waits_and_clears_witness:
  "\<exists>s :: string system. bridge_reachable sample_ops s \<and> closer s = CDone \<and> inFlight (shared s) = 0 \<and>
     instance_data (shared s) 0 = Map.empty"
proof -
  obtain s :: "string system" where "bridge_reachable sample_ops s" "closer s = CDone"
    using sample_close_run by blast
  with close_waits_and_clears[OF this] show ?thesis by blast
qed

text \<open>
  C33: A close never hangs on the bridge's own account: from every reachable state in which the
  close has begun, some continuation of the run lets every call return and the close finish.
\<close>

theorem close_can_finish:
  assumes "bridge_reachable ops s" and "closer s \<noteq> CIdle"
  shows "\<exists>s'. (bridge_step ops)\<^sup>*\<^sup>* s s' \<and> closer s' = CDone \<and> (\<forall>t. \<not> in_call (pcs s' t))"
proof -
  have done_idle: "\<forall>t. \<not> in_call (pcs x t)" if "bridge_inv ops x" "closer x = CDone" for x :: "'a system"
    using that by (simp add: bridge_inv_def inv_close_def)
  note i = bridge_reachable_inv[OF assms(1)]
  obtain s1 where s1: "(bridge_step ops)\<^sup>*\<^sup>* s s1" "\<forall>t. \<not> in_call (pcs s1 t)" "closer s1 = closer s"
    using calls_can_finish[OF i] by blast
  have i1: "bridge_inv ops s1" using s1(1) i by (rule bridge_inv_steps)
  have clr: "\<exists>s'. (bridge_step ops)\<^sup>*\<^sup>* x s' \<and> closer s' = CDone"
    if "bridge_inv ops x" "closer x = CClear D" for x :: "'a system" and D
    using clearing_can_finish[OF _ that] that inv_dataD(1)[of x]
    by (simp add: bridge_inv_def live_def)
  have "\<exists>s'. (bridge_step ops)\<^sup>*\<^sup>* s1 s' \<and> closer s' = CDone"
  proof (cases "closer s1")
    case (CWait D)
    have "inFlight (shared s1) = 0" using s1(2) i1 by (simp add: bridge_inv_def inv_count_def)
    with st_waited CWait have st: "bridge_step ops s1 (s1\<lparr>closer := CClear D\<rparr>)" by blast
    with clr[OF bridge_inv_step[OF st i1], of D] show ?thesis
      by (auto intro: converse_rtranclp_into_rtranclp)
  next
    case (CClear D)
    with clr[OF i1] show ?thesis by blast
  qed (use assms(2) s1(3) in auto)
  with s1(1) i show ?thesis by (meson bridge_inv_steps done_idle rtranclp_trans)
qed

lemma close_can_finish_witness:
  "\<exists>s s'. bridge_reachable sample_ops (s :: string system) \<and> closer s \<noteq> CIdle \<and>
     (bridge_step sample_ops)\<^sup>*\<^sup>* s s' \<and> closer s' = CDone"
proof -
  obtain s :: "string system" where "bridge_reachable sample_ops s" "closer s = CDone"
    using sample_close_run by blast
  with close_can_finish[OF this(1)] show ?thesis by (metis closer_pc.distinct(5))
qed

text \<open>
  The operations as one goroutine runs them, \<open>withInstance\<close> and \<open>cleanInstance\<close>, are runs of
  the interleaved system: when the bridge's locks are free, the sequential call's result and final
  state are reached by steps of that thread alone. So what is proved of every interleaving holds
  of the operations.
\<close>

theorem sequential_call_is_run:
  assumes "pcs s t = Idle" and "lock_of s = Map.empty"
  shows "(bridge_step ops)\<^sup>*\<^sup>* s
    (s\<lparr>shared := snd (sequential_call (ops t) invoke (shared s)),
       pcs := (pcs s)(t := Finished (fst (sequential_call (ops t) invoke (shared s))))\<rparr>)"
  using assms by (intro sequential_run) (simp_all add: alone_def)

lemma sequential_call_is_run_witness:
  "(bridge_step sample_ops)\<^sup>*\<^sup>* (init_system :: string system)
     (init_system\<lparr>shared := snd (sequential_call (sample_ops 0) (\<lambda>d. (None, d(''k'' \<mapsto> ''v'')))
          newRuntimeScenarioBridgeState), pcs := (\<lambda>_. Idle)(0 := Finished None)\<rparr>)"
  using sequential_call_is_run[of "init_system :: string system" 0 sample_ops "\<lambda>d. (None, d(''k'' \<mapsto> ''v''))"]
  by (simp add: init_system_def sample_ops_def sequential_call_def cleanInstance_def admitInstance_def
      admit_enter_def admit_confirm_def newRuntimeScenarioBridgeState_def)

text \<open>
  After a successful clean the instance is gone for good: every later call that names it is
  refused with the "no longer available" error, runs no callback, and changes nothing; the table
  still has every other instance.
\<close>

theorem cleaned_instance_gone:
  assumes "cleanInstance key f s = (None, s')"
  shows "withInstance key g s' = (Some errRuntimeScenarioInstanceGone, s') \<and>
    cleanInstance key g s' = (Some errRuntimeScenarioInstanceGone, s') \<and>
    (\<forall>k. k \<noteq> key \<longrightarrow> active s' k = active s k)"
proof -
  obtain r b where r: "admitInstance key s = (r, b)" by fastforce
  with assms obtain a where a: "r = Inr a"
    by (cases r) (auto simp: cleanInstance_def)
  with admitInstance_cases[OF r] have e: "admit_enter key s = (Some a, b)" by auto
  from assms r a obtain d where s': "s' = call_done (clean_commit key (set_data a Map.empty (set_data a d b)))"
    by (auto simp: cleanInstance_def split: prod.splits option.splits)
  have "\<not> bridge_closed b" "\<forall>k. k \<noteq> key \<longrightarrow> active b k = active s k"
    using admit_enter_Some[OF e] by auto
  then show ?thesis
    by (simp add: s' section_defs withInstance_def cleanInstance_def admitInstance_def admit_enter_def)
qed

lemma cleaned_instance_gone_witness:
  "withInstance sample_instance (\<lambda>d. (None, d(''k'' \<mapsto> ''v'')))
     (snd (cleanInstance sample_instance (\<lambda>d. (None, d)) newRuntimeScenarioBridgeState))
     = (Some errRuntimeScenarioInstanceGone,
        snd (cleanInstance sample_instance (\<lambda>d. (None, d)) newRuntimeScenarioBridgeState))"
proof -
  have "cleanInstance sample_instance (\<lambda>d. (None, d)) (newRuntimeScenarioBridgeState :: string bridge) =
      (None, snd (cleanInstance sample_instance (\<lambda>d. (None, d)) newRuntimeScenarioBridgeState))"
    by (simp add: cleanInstance_def admitInstance_def admit_enter_def admit_confirm_def
        newRuntimeScenarioBridgeState_def)
  from cleaned_instance_gone[OF this] show ?thesis by blast
qed

end
