(* ===== verification/Consume_Session.thy ===== *)
theory Consume_Session
  imports Go_Prelude
begin

text \<open>
  The stream of consumed events (\<open>runtimeTrackingConsumeSession\<close> in
  \<open>runtime_callback_registry.go\<close>). The user's \<open>consume\<close> function runs in a goroutine of its own,
  begun by the first poll, and hands events to a handler that queues them; polls take what is
  queued, or wait for the channel \<open>wake\<close> (one slot), their context or a timer.

  The critical sections are functions on the session; the relation \<open>session_step\<close> interleaves the
  goroutine, its handler calls (which may be concurrent), any number of polls, and \<open>Close\<close>. The
  history fields \<open>produced\<close> and \<open>delivered\<close> of the system are not in the code: they record the
  events handed to the handler and those returned by a poll, each in order.
\<close>

section \<open>State and critical sections\<close>

text \<open>An error of \<open>consume\<close>, and whether \<open>errors.Is\<close> finds \<open>context.Canceled\<close> in it.\<close>

record consume_error =
  error_text :: go_error
  is_canceled :: bool

record 'e runtimeTrackingConsumeSession =
  messages :: "'e list"
  sess_completed :: bool
  sess_err :: "consume_error option"
  sess_closed :: bool
  sess_cancel :: bool
  wake :: bool

definition newRuntimeTrackingConsumeSession :: "'e runtimeTrackingConsumeSession" where
  "newRuntimeTrackingConsumeSession =
     \<lparr>messages = [], sess_completed = False, sess_err = None, sess_closed = False,
      sess_cancel = False, wake = False\<rparr>"

type_synonym 'e poll_reply = "'e list \<times> bool \<times> consume_error option"

definition snapshot ::
  "'e runtimeTrackingConsumeSession \<Rightarrow> 'e poll_reply \<times> 'e runtimeTrackingConsumeSession" where
  "snapshot s = ((messages s, sess_completed s, sess_err s), s\<lparr>messages := []\<rparr>)"

definition notify :: "'e runtimeTrackingConsumeSession \<Rightarrow> 'e runtimeTrackingConsumeSession" where
  "notify s = s\<lparr>wake := True\<rparr>"

definition enqueue :: "'e \<Rightarrow> 'e runtimeTrackingConsumeSession \<Rightarrow> 'e runtimeTrackingConsumeSession" where
  "enqueue e s = s\<lparr>messages := messages s @ [e]\<rparr>"

definition consume_returned ::
  "consume_error option \<Rightarrow> 'e runtimeTrackingConsumeSession \<Rightarrow> 'e runtimeTrackingConsumeSession" where
  "consume_returned err s =
     (let canceled = (case err of None \<Rightarrow> False | Some e \<Rightarrow> is_canceled e);
          s = (if \<not> (sess_closed s \<and> canceled) then s\<lparr>sess_err := err\<rparr> else s)
      in s\<lparr>sess_completed := True\<rparr>)"

text \<open>\<open>Close\<close>: the session, and whether there is a cancel function to call.\<close>

definition session_close ::
  "'e runtimeTrackingConsumeSession \<Rightarrow> bool \<times> 'e runtimeTrackingConsumeSession" where
  "session_close s = (sess_cancel s, s\<lparr>sess_closed := True\<rparr>)"

text \<open>A reply that ends the loop of \<open>poll\<close>.\<close>

definition reply_ready :: "'e poll_reply \<Rightarrow> bool" where
  "reply_ready r \<longleftrightarrow> (case r of (ms, fin, err) \<Rightarrow> ms \<noteq> [] \<or> fin \<or> err \<noteq> None)"

section \<open>Interleaved polls\<close>

datatype 'e poll_pc =
    PollNew
  | PollCheck
  | PollSelect
  | PollTimer
  | PollDone "'e poll_reply"
  | PollCanceled

datatype consumer_pc = NotStarted | Running | Returned | Ended

record 'e session_system =
  session :: "'e runtimeTrackingConsumeSession"
  polls :: "nat \<Rightarrow> 'e poll_pc"
  consumer :: consumer_pc
  notifying :: nat
  ctx_canceled :: bool
  produced :: "'e list"
  delivered :: "'e list"

definition init_session :: "'e session_system" where
  "init_session = \<lparr>session = newRuntimeTrackingConsumeSession, polls = (\<lambda>_. PollNew),
     consumer = NotStarted, notifying = 0, ctx_canceled = False, produced = [], delivered = []\<rparr>"

definition set_poll :: "nat \<Rightarrow> 'e poll_pc \<Rightarrow> 'e session_system \<Rightarrow> 'e session_system" where
  "set_poll t p s = s\<lparr>polls := (polls s)(t := p)\<rparr>"

text \<open>\<open>startOnce.Do\<close>: the first poll makes the cancel function and begins the goroutine.\<close>

definition start_once :: "'e session_system \<Rightarrow> 'e session_system" where
  "start_once s =
     (if consumer s = NotStarted
      then s\<lparr>session := (session s)\<lparr>sess_cancel := True\<rparr>, consumer := Running\<rparr>
      else s)"

text \<open>\<open>snapshot\<close> with the history of what was returned.\<close>

definition take_snapshot :: "'e session_system \<Rightarrow> 'e poll_reply \<times> 'e session_system" where
  "take_snapshot s =
     (case snapshot (session s) of
        (r, ses) \<Rightarrow> (r, s\<lparr>session := ses, delivered := delivered s @ fst r\<rparr>))"

inductive session_step :: "'e session_system \<Rightarrow> 'e session_system \<Rightarrow> bool" where
  se_start: "polls s t = PollNew \<Longrightarrow> session_step s (set_poll t PollCheck (start_once s))"
| se_check_ready: "polls s t = PollCheck \<Longrightarrow> take_snapshot s = (r, s1) \<Longrightarrow> reply_ready r \<Longrightarrow>
     session_step s (set_poll t (PollDone r) s1)"
| se_check_empty: "polls s t = PollCheck \<Longrightarrow> take_snapshot s = (r, s1) \<Longrightarrow> \<not> reply_ready r \<Longrightarrow>
     session_step s (set_poll t PollSelect s1)"
| se_wake: "polls s t = PollSelect \<Longrightarrow> wake (session s) \<Longrightarrow>
     session_step s (set_poll t PollCheck (s\<lparr>session := (session s)\<lparr>wake := False\<rparr>\<rparr>))"
| se_timer: "polls s t = PollSelect \<Longrightarrow> session_step s (set_poll t PollTimer s)"
| se_timer_snapshot: "polls s t = PollTimer \<Longrightarrow> take_snapshot s = (r, s1) \<Longrightarrow>
     session_step s (set_poll t (PollDone r) s1)"
| se_poll_canceled: "polls s t = PollSelect \<Longrightarrow> session_step s (set_poll t PollCanceled s)"
| se_event: "consumer s = Running \<Longrightarrow>
     session_step s (s\<lparr>session := enqueue e (session s), produced := produced s @ [e],
       notifying := notifying s + 1\<rparr>)"
| se_notify: "0 < notifying s \<Longrightarrow>
     session_step s (s\<lparr>session := notify (session s), notifying := notifying s - 1\<rparr>)"
| se_return: "consumer s = Running \<Longrightarrow>
     session_step s (s\<lparr>session := consume_returned err (session s), consumer := Returned\<rparr>)"
| se_last_notify: "consumer s = Returned \<Longrightarrow>
     session_step s (s\<lparr>session := notify (session s), consumer := Ended\<rparr>)"
| se_close: "session_close (session s) = (c, ses) \<Longrightarrow>
     session_step s (s\<lparr>session := ses, ctx_canceled := (ctx_canceled s \<or> c)\<rparr>)"

definition session_reachable :: "'e session_system \<Rightarrow> bool" where
  "session_reachable = session_step\<^sup>*\<^sup>* init_session"

section \<open>The invariant\<close>

fun looking :: "'e poll_pc \<Rightarrow> bool" where
  "looking PollNew = False"
| "looking PollCheck = True"
| "looking PollSelect = False"
| "looking PollTimer = True"
| "looking (PollDone r) = False"
| "looking PollCanceled = False"

definition inv_flow :: "'e session_system \<Rightarrow> bool" where
  "inv_flow s \<longleftrightarrow>
     delivered s @ messages (session s) = produced s \<and>
     (sess_completed (session s) \<longleftrightarrow> consumer s = Returned \<or> consumer s = Ended) \<and>
     (sess_err (session s) \<noteq> None \<longrightarrow> sess_completed (session s)) \<and>
     (consumer s = NotStarted \<longrightarrow> messages (session s) = [])"

definition inv_wake :: "'e session_system \<Rightarrow> bool" where
  "inv_wake s \<longleftrightarrow>
     (messages (session s) = [] \<or> wake (session s) \<or> 0 < notifying s \<or> (\<exists>t. looking (polls s t)))"

definition inv_final :: "'e session_system \<Rightarrow> bool" where
  "inv_final s \<longleftrightarrow>
     (\<forall>t r. polls s t = PollDone r \<longrightarrow> fst (snd r) \<longrightarrow>
        sess_completed (session s) \<and> messages (session s) = [])"

definition session_inv :: "'e session_system \<Rightarrow> bool" where
  "session_inv s \<longleftrightarrow> inv_flow s \<and> inv_wake s \<and> inv_final s"

lemmas session_defs = snapshot_def notify_def enqueue_def consume_returned_def session_close_def
  set_poll_def start_once_def take_snapshot_def Let_def

lemma session_inv_init: "session_inv init_session"
  by (simp add: session_inv_def inv_flow_def inv_wake_def inv_final_def init_session_def
      newRuntimeTrackingConsumeSession_def)

lemma take_snapshot_facts:
  assumes "take_snapshot s = (r, s1)"
  shows "messages (session s1) = []" "delivered s1 = delivered s @ messages (session s)"
    "fst (snd r) = sess_completed (session s)" "sess_completed (session s1) = sess_completed (session s)"
    "polls s1 = polls s" "consumer s1 = consumer s" "produced s1 = produced s"
    "sess_err (session s1) = sess_err (session s)" "fst r = messages (session s)"
  using assms by (auto simp: take_snapshot_def snapshot_def)

lemma step_inv_flow: "session_step s s' \<Longrightarrow> inv_flow s \<Longrightarrow> inv_flow s'"
  by (erule session_step.cases)
    (auto simp: inv_flow_def session_defs split: if_splits dest: take_snapshot_facts)

lemma looking_upd:
  "looking p \<Longrightarrow> \<exists>u. looking ((f(t := p)) u)"
  "\<not> looking (f t) \<Longrightarrow> \<exists>u. looking (f u) \<Longrightarrow> \<exists>u. looking ((f(t := p)) u)"
  by (auto intro: exI[of _ t])

lemma step_inv_wake: "session_step s s' \<Longrightarrow> inv_wake s \<Longrightarrow> inv_wake s'"
proof (induction rule: session_step.induct)
  case (se_start s t)
  have "\<exists>u. looking (polls (set_poll t PollCheck (start_once s)) u)"
    by (auto simp: session_defs intro!: looking_upd)
  then show ?case by (simp add: inv_wake_def)
next
  case (se_wake s t)
  have "\<exists>u. looking (((polls s)(t := PollCheck)) u)" by (rule looking_upd) simp
  then show ?case by (simp add: inv_wake_def set_poll_def)
next
  case (se_timer s t)
  have "\<exists>u. looking (((polls s)(t := PollTimer)) u)" by (rule looking_upd) simp
  then show ?case by (simp add: inv_wake_def set_poll_def)
next
  case (se_poll_canceled s t)
  then have "(\<exists>u. looking (polls s u)) \<Longrightarrow> \<exists>u. looking (((polls s)(t := PollCanceled)) u)"
    by (intro looking_upd) simp_all
  with se_poll_canceled show ?case by (auto simp: inv_wake_def set_poll_def simp del: fun_upd_apply)
next
  case (se_check_ready s t r s1)
  from take_snapshot_facts(1)[OF se_check_ready(2)] show ?case by (simp add: inv_wake_def set_poll_def)
next
  case (se_check_empty s t r s1)
  from take_snapshot_facts(1)[OF se_check_empty(2)] show ?case by (simp add: inv_wake_def set_poll_def)
next
  case (se_timer_snapshot s t r s1)
  from take_snapshot_facts(1)[OF se_timer_snapshot(2)] show ?case by (simp add: inv_wake_def set_poll_def)
qed (auto simp: inv_wake_def session_defs split: if_splits option.splits)

lemma step_inv_final: "session_step s s' \<Longrightarrow> inv_flow s \<Longrightarrow> inv_final s \<Longrightarrow> inv_final s'"
proof (induction rule: session_step.induct)
  case (se_check_ready s t r s1)
  with take_snapshot_facts[OF se_check_ready(2)] show ?case
    by (auto simp: inv_final_def set_poll_def)
next
  case (se_timer_snapshot s t r s1)
  with take_snapshot_facts[OF se_timer_snapshot(2)] show ?case
    by (auto simp: inv_final_def set_poll_def)
next
  case (se_check_empty s t r s1)
  with take_snapshot_facts[OF se_check_empty(2)] show ?case
    by (auto simp: inv_final_def set_poll_def)
qed (auto simp: inv_final_def inv_flow_def session_defs split: if_splits)

lemma session_inv_step: "session_step s s' \<Longrightarrow> session_inv s \<Longrightarrow> session_inv s'"
  unfolding session_inv_def using step_inv_flow step_inv_wake step_inv_final by blast

lemma session_reachable_inv: "session_reachable s \<Longrightarrow> session_inv s"
  unfolding session_reachable_def
  by (induction rule: rtranclp_induct) (auto intro: session_inv_step session_inv_init)

section \<open>Properties\<close>

text \<open>A run: a poll begins the consumer, two events arrive, the poll takes them.\<close>

definition sample_polled :: "string session_system" where
  "sample_polled =
     init_session\<lparr>session := newRuntimeTrackingConsumeSession\<lparr>sess_cancel := True\<rparr>,
       polls := (\<lambda>_. PollNew)(0 := PollDone ([''a'', ''b''], False, None)),
       consumer := Running, notifying := 2, produced := [''a'', ''b''], delivered := [''a'', ''b'']\<rparr>"

lemma session_reachable_step: "session_reachable s \<Longrightarrow> session_step s s' \<Longrightarrow> session_reachable s'"
  unfolding session_reachable_def by (rule rtranclp.rtrancl_into_rtrancl)

lemma sample_polled_reachable: "session_reachable sample_polled"
proof -
  let ?n = "newRuntimeTrackingConsumeSession\<lparr>sess_cancel := True\<rparr>"
  let ?p = "(\<lambda>_. PollNew)(0 := PollCheck) :: nat \<Rightarrow> string poll_pc"
  let ?s1 = "init_session\<lparr>session := ?n, polls := ?p, consumer := Running\<rparr>"
  let ?s2 = "?s1\<lparr>session := ?n\<lparr>messages := [''a'']\<rparr>, notifying := 1, produced := [''a'']\<rparr>"
  let ?s3 = "?s2\<lparr>session := ?n\<lparr>messages := [''a'', ''b'']\<rparr>, notifying := 2, produced := [''a'', ''b'']\<rparr>"
  have "session_reachable (init_session :: string session_system)" by (simp add: session_reachable_def)
  moreover have "session_step init_session ?s1"
    using se_start[of "init_session :: string session_system" 0] by (simp add: session_defs init_session_def)
  moreover have "session_step ?s1 ?s2"
    using se_event[of ?s1 "''a''"]
    by (simp add: enqueue_def init_session_def newRuntimeTrackingConsumeSession_def)
  moreover have "session_step ?s2 ?s3"
    using se_event[of ?s2 "''b''"] by (simp add: enqueue_def init_session_def numeral_2_eq_2)
  moreover have "session_step ?s3 sample_polled"
    using se_check_ready[of ?s3 0 "([''a'', ''b''], False, None)"
        "?s3\<lparr>session := ?n\<lparr>messages := []\<rparr>, delivered := [''a'', ''b'']\<rparr>"]
    by (simp add: sample_polled_def take_snapshot_def snapshot_def set_poll_def reply_ready_def
        init_session_def newRuntimeTrackingConsumeSession_def)
  ultimately show ?thesis by (meson session_reachable_step)
qed



text \<open>
  C32: No wake-up is lost: while events are queued, the channel \<open>wake\<close> holds its token, or a handler
  call is still to put it there, or some poll is about to take the queue. So when every poll is
  waiting and no handler call is pending, a queued event wakes one of them.
\<close>

theorem no_lost_wakeup:
  assumes "session_reachable s" and "messages (session s) \<noteq> []" and "notifying s = 0"
    and "\<forall>t. polls s t = PollSelect \<or> polls s t = PollNew \<or> (\<exists>r. polls s t = PollDone r) \<or> polls s t = PollCanceled"
  shows "wake (session s)"
proof -
  have "inv_wake s" using session_reachable_inv[OF assms(1)] by (simp add: session_inv_def)
  moreover have "\<not> looking (polls s t)" for t using assms(4) by (metis looking.simps)
  ultimately show ?thesis using assms(2,3) by (simp add: inv_wake_def)
qed

definition sample_queued :: "string session_system" where
  "sample_queued =
     init_session\<lparr>session := newRuntimeTrackingConsumeSession\<lparr>sess_cancel := True, messages := [''a''], wake := True\<rparr>,
       polls := (\<lambda>_. PollNew)(0 := PollSelect), consumer := Running, produced := [''a'']\<rparr>"

lemma sample_queued_reachable: "session_reachable sample_queued"
proof -
  let ?n = "newRuntimeTrackingConsumeSession\<lparr>sess_cancel := True\<rparr>"
  let ?s1 = "init_session\<lparr>session := ?n, polls := (\<lambda>_. PollNew)(0 := PollCheck), consumer := Running\<rparr>
      :: string session_system"
  let ?s2 = "?s1\<lparr>polls := (\<lambda>_. PollNew)(0 := PollSelect)\<rparr>"
  let ?s3 = "?s2\<lparr>session := ?n\<lparr>messages := [''a'']\<rparr>, notifying := 1, produced := [''a'']\<rparr>"
  have "session_reachable (init_session :: string session_system)" by (simp add: session_reachable_def)
  moreover have "session_step init_session ?s1"
    using se_start[of "init_session :: string session_system" 0] by (simp add: session_defs init_session_def)
  moreover have "session_step ?s1 ?s2"
    using se_check_empty[of ?s1 0 "([], False, None)" ?s1]
    by (simp add: take_snapshot_def snapshot_def set_poll_def reply_ready_def
        init_session_def newRuntimeTrackingConsumeSession_def)
  moreover have "session_step ?s2 ?s3"
    using se_event[of ?s2 "''a''"]
    by (simp add: enqueue_def init_session_def newRuntimeTrackingConsumeSession_def)
  moreover have "session_step ?s3 sample_queued"
    using se_notify[of ?s3] by (simp add: notify_def init_session_def sample_queued_def)
  ultimately show ?thesis by (meson session_reachable_step)
qed

lemma no_lost_wakeup_witness: "messages (session sample_queued) \<noteq> [] \<and> wake (session sample_queued)"
proof -
  have "messages (session sample_queued) \<noteq> []" by (simp add: sample_queued_def)
  with no_lost_wakeup[OF sample_queued_reachable] show ?thesis
    by (simp add: sample_queued_def init_session_def)
qed

text \<open>
  A session closed before its first poll is not cancelled: \<open>Close\<close> finds no cancel function to
  call, and a poll that follows still starts the consumer, with a context that nothing has
  cancelled. The session stays reachable in that state: closed, its consumer running, its
  context alive.
\<close>

theorem close_before_first_poll_leaks:
  "\<exists>s1 s2 :: 'e session_system. session_reachable s1 \<and> sess_closed (session s1) \<and> consumer s1 = NotStarted \<and>
     session_step s1 s2 \<and> sess_closed (session s2) \<and> consumer s2 = Running \<and> \<not> ctx_canceled s2"
proof -
  let ?n = "newRuntimeTrackingConsumeSession\<lparr>sess_closed := True\<rparr>"
  let ?s1 = "init_session\<lparr>session := ?n\<rparr> :: 'e session_system"
  let ?s2 = "set_poll 0 PollCheck (start_once ?s1)"
  have "session_step init_session ?s1"
    using se_close[of "init_session :: 'e session_system" False ?n]
    by (simp add: session_close_def init_session_def newRuntimeTrackingConsumeSession_def)
  then have "session_reachable ?s1"
    by (rule session_reachable_step[rotated]) (simp add: session_reachable_def)
  moreover have "session_step ?s1 ?s2" by (rule se_start) (simp add: init_session_def)
  ultimately show ?thesis
    by (intro exI[of _ ?s1] exI[of _ ?s2]) (simp add: session_defs init_session_def)
qed

end
