(* ===== verification/Callback_Registry.thy ===== *)
theory Callback_Registry
  imports Base64 Scenario Instance_Bridge Consume_Session
begin

text \<open>
  The registry of callbacks (\<open>runtimeCallbackRegistry\<close> in \<open>runtime_callback_registry.go\<close>): nine
  tables from opaque identifiers to what the user registered. The plan registers, the HTTP host
  looks up. The registry's mutex makes each operation atomic.

  \<open>crypto/rand\<close> is a parameter: the stream \<open>rg_entropy\<close>, of which \<open>rg_drawn\<close> blocks are used. A
  scenario registration points to a bridge state (\<open>Instance_Bridge\<close>), a consuming tracking
  registration to a session (\<open>Consume_Session\<close>); both live in stores of the registry.
\<close>

section \<open>Data\<close>

record runtimeRegisteredCallback =
  cb_ID :: string
  cb_ScenarioName :: string
  cb_StepName :: string
  cb_Run :: "go_closure option"

text \<open>The closure a threshold registration evaluates, by the predicate it was made from.\<close>

datatype runtimeThresholdRegistration =
    EvaluateScenario go_closure
  | EvaluateStep go_closure
  | EvaluateMetric go_closure

record runtimeScenarioRegistration =
  reg_ScenarioName :: string
  reg_Run :: "go_closure option"
  reg_Init :: "go_closure option"
  reg_Clean :: "go_closure option"
  reg_State :: nat

record runtimeTrackingRegistration =
  trk_Produce :: "go_ref option"
  trk_Consume :: "go_ref option"
  trk_consumeStream :: "nat option"

record runtimeCallbackRegistry =
  rg_closed :: bool
  rg_callbacks :: "string \<rightharpoonup> runtimeRegisteredCallback"
  rg_scenarios :: "string \<rightharpoonup> runtimeScenarioRegistration"
  rg_plugins :: "string \<rightharpoonup> go_ref"
  rg_sinks :: "string \<rightharpoonup> go_ref"
  rg_policies :: "string \<rightharpoonup> go_ref"
  rg_tracking :: "string \<rightharpoonup> runtimeTrackingRegistration"
  rg_thresholds :: "string \<rightharpoonup> runtimeThresholdRegistration"
  rg_publishers :: "string \<rightharpoonup> go_ref"
  rg_observationCancellations :: "string \<rightharpoonup> go_ref"
  rg_bridges :: "nat \<Rightarrow> go_any bridge"
  rg_next_bridge :: nat
  rg_sessions :: "nat \<Rightarrow> EndpointConsumeEvent runtimeTrackingConsumeSession"
  rg_next_session :: nat
  rg_entropy :: "nat \<Rightarrow> string"
  rg_drawn :: nat

definition newRuntimeCallbackRegistry :: "(nat \<Rightarrow> string) \<Rightarrow> runtimeCallbackRegistry" where
  "newRuntimeCallbackRegistry entropy =
     \<lparr>rg_closed = False, rg_callbacks = Map.empty, rg_scenarios = Map.empty, rg_plugins = Map.empty,
      rg_sinks = Map.empty, rg_policies = Map.empty, rg_tracking = Map.empty,
      rg_thresholds = Map.empty, rg_publishers = Map.empty,
      rg_observationCancellations = Map.empty,
      rg_bridges = (\<lambda>_. newRuntimeScenarioBridgeState), rg_next_bridge = 0,
      rg_sessions = (\<lambda>_. newRuntimeTrackingConsumeSession), rg_next_session = 0,
      rg_entropy = entropy, rg_drawn = 0\<rparr>"

section \<open>Registration\<close>

text \<open>\<open>nextCallbackID\<close>: the identifier, and the registry with a block of entropy used.\<close>

definition next_id :: "string \<Rightarrow> runtimeCallbackRegistry \<Rightarrow> string" where
  "next_id pfx r = pfx @ ''-'' @ raw_url_encode (rg_entropy r (rg_drawn r))"

definition nextCallbackID :: "string \<Rightarrow> runtimeCallbackRegistry \<Rightarrow> string \<times> runtimeCallbackRegistry" where
  "nextCallbackID pfx r = (next_id pfx r, r\<lparr>rg_drawn := rg_drawn r + 1\<rparr>)"

definition registerScenarioStep ::
  "string \<Rightarrow> string \<Rightarrow> go_closure option \<Rightarrow> runtimeCallbackRegistry \<Rightarrow> string \<times> runtimeCallbackRegistry" where
  "registerScenarioStep scenarioName stepName run r =
     (if rg_closed r then ([], r)
      else case nextCallbackID ''step'' r of (cid, r) \<Rightarrow>
        (cid, r\<lparr>rg_callbacks := (rg_callbacks r)(cid \<mapsto>
           \<lparr>cb_ID = cid, cb_ScenarioName = scenarioName, cb_StepName = stepName, cb_Run = run\<rparr>)\<rparr>))"

definition registerScenario ::
  "scenarioDefinition \<Rightarrow> runtimeCallbackRegistry \<Rightarrow> string \<times> runtimeCallbackRegistry" where
  "registerScenario scenario r =
     (if rg_closed r then ([], r)
      else case nextCallbackID ''scenario'' r of (cid, r) \<Rightarrow>
        (cid, r\<lparr>rg_scenarios := (rg_scenarios r)(cid \<mapsto>
             \<lparr>reg_ScenarioName = sc_Name scenario, reg_Run = primaryScenarioRun scenario,
              reg_Init = sc_Init scenario, reg_Clean = sc_Clean scenario,
              reg_State = rg_next_bridge r\<rparr>),
           rg_bridges := (rg_bridges r)(rg_next_bridge r := newRuntimeScenarioBridgeState),
           rg_next_bridge := rg_next_bridge r + 1\<rparr>))"

definition newRuntimeThresholdRegistration :: "ThresholdSpec \<Rightarrow> runtimeThresholdRegistration option" where
  "newRuntimeThresholdRegistration threshold =
     (case th_scenarioPredicate threshold of
        Some p \<Rightarrow> Some (EvaluateScenario p)
      | None \<Rightarrow>
     (case th_stepPredicate threshold of
        Some p \<Rightarrow> Some (EvaluateStep p)
      | None \<Rightarrow>
     (case th_metricPredicate threshold of
        Some p \<Rightarrow> Some (EvaluateMetric p)
      | None \<Rightarrow> None)))"

text \<open>The part of \<open>registerThreshold\<close> under the lock.\<close>

definition store_threshold ::
  "runtimeThresholdRegistration \<Rightarrow> runtimeCallbackRegistry \<Rightarrow> string \<times> runtimeCallbackRegistry" where
  "store_threshold registration r =
     (if rg_closed r then ([], r)
      else case nextCallbackID ''threshold'' r of (cid, r) \<Rightarrow>
        (cid, r\<lparr>rg_thresholds := (rg_thresholds r)(cid \<mapsto> registration)\<rparr>))"

definition registerThreshold ::
  "ThresholdSpec \<Rightarrow> runtimeCallbackRegistry \<Rightarrow> (string \<times> bool) \<times> runtimeCallbackRegistry" where
  "registerThreshold threshold r =
     (case newRuntimeThresholdRegistration threshold of
        None \<Rightarrow> (([], False), r)
      | Some registration \<Rightarrow>
          if rg_closed r then (([], False), r)
          else case store_threshold registration r of (cid, r) \<Rightarrow> ((cid, True), r))"

definition registerReportingPublisher ::
  "go_ref \<Rightarrow> runtimeCallbackRegistry \<Rightarrow> string \<times> runtimeCallbackRegistry" where
  "registerReportingPublisher publish r =
     (if rg_closed r then ([], r)
      else case nextCallbackID ''reporting-publish'' r of (cid, r) \<Rightarrow>
        (cid, r\<lparr>rg_publishers := (rg_publishers r)(cid \<mapsto> publish)\<rparr>))"

definition registerWorkerPlugin ::
  "go_ref \<Rightarrow> runtimeCallbackRegistry \<Rightarrow> string \<times> runtimeCallbackRegistry" where
  "registerWorkerPlugin plugin r =
     (if rg_closed r then ([], r)
      else case nextCallbackID ''plugin'' r of (cid, r) \<Rightarrow>
        (cid, r\<lparr>rg_plugins := (rg_plugins r)(cid \<mapsto> plugin)\<rparr>))"

definition registerReportingSink ::
  "go_ref \<Rightarrow> runtimeCallbackRegistry \<Rightarrow> string \<times> runtimeCallbackRegistry" where
  "registerReportingSink sink r =
     (if rg_closed r then ([], r)
      else case nextCallbackID ''sink'' r of (cid, r) \<Rightarrow>
        (cid, r\<lparr>rg_sinks := (rg_sinks r)(cid \<mapsto> sink)\<rparr>))"

definition registerRuntimePolicy ::
  "go_ref \<Rightarrow> runtimeCallbackRegistry \<Rightarrow> string \<times> runtimeCallbackRegistry" where
  "registerRuntimePolicy policy r =
     (if rg_closed r then ([], r)
      else case nextCallbackID ''policy'' r of (cid, r) \<Rightarrow>
        (cid, r\<lparr>rg_policies := (rg_policies r)(cid \<mapsto> policy)\<rparr>))"

definition registerTrackingProduce ::
  "go_ref \<Rightarrow> runtimeCallbackRegistry \<Rightarrow> string \<times> runtimeCallbackRegistry" where
  "registerTrackingProduce produce r =
     (if rg_closed r then ([], r)
      else case nextCallbackID ''tracking-produce'' r of (cid, r) \<Rightarrow>
        (cid, r\<lparr>rg_tracking := (rg_tracking r)(cid \<mapsto>
           \<lparr>trk_Produce = Some produce, trk_Consume = None, trk_consumeStream = None\<rparr>)\<rparr>))"

definition registerTrackingConsume ::
  "go_ref \<Rightarrow> runtimeCallbackRegistry \<Rightarrow> string \<times> runtimeCallbackRegistry" where
  "registerTrackingConsume consume r =
     (if rg_closed r then ([], r)
      else case nextCallbackID ''tracking-consume'' r of (cid, r) \<Rightarrow>
        (cid, r\<lparr>rg_tracking := (rg_tracking r)(cid \<mapsto>
             \<lparr>trk_Produce = None, trk_Consume = Some consume,
              trk_consumeStream = Some (rg_next_session r)\<rparr>),
           rg_sessions := (rg_sessions r)(rg_next_session r := newRuntimeTrackingConsumeSession),
           rg_next_session := rg_next_session r + 1\<rparr>))"

text \<open>The part of \<open>registerObservationCancellation\<close> under the lock.\<close>

definition store_observation ::
  "go_ref \<Rightarrow> runtimeCallbackRegistry \<Rightarrow> string \<times> runtimeCallbackRegistry" where
  "store_observation observationContext r =
     (if rg_closed r then ([], r)
      else case nextCallbackID ''observation-cancellation'' r of (cid, r) \<Rightarrow>
        (cid, r\<lparr>rg_observationCancellations :=
           (rg_observationCancellations r)(cid \<mapsto> observationContext)\<rparr>))"

definition registerObservationCancellation ::
  "go_ref option \<Rightarrow> runtimeCallbackRegistry \<Rightarrow> string \<times> runtimeCallbackRegistry" where
  "registerObservationCancellation observationContext r =
     (case observationContext of None \<Rightarrow> ([], r) | Some c \<Rightarrow> store_observation c r)"

section \<open>Close\<close>

text \<open>
  \<open>finishClose\<close>, for the detached instances of one bridge, once no call is in flight.
\<close>

definition clear_instances :: "addr set \<Rightarrow> 'v bridge \<Rightarrow> 'v bridge" where
  "clear_instances D b =
     b\<lparr>instance_data := (\<lambda>a. if a \<in> D then Map.empty else instance_data b a)\<rparr>"

text \<open>The part of \<open>Close\<close> under the registry's lock: what was detached, and the registry.\<close>

definition registry_begin_close ::
  "runtimeCallbackRegistry \<Rightarrow> (nat \<Rightarrow> addr set option) \<times> runtimeCallbackRegistry" where
  "registry_begin_close r =
     (let states = reg_State ` ran (rg_scenarios r) in
      (\<lambda>p. if p \<in> states then fst (beginClose (rg_bridges r p)) else None,
       r\<lparr>rg_closed := True,
         rg_bridges := (\<lambda>p. if p \<in> states then snd (beginClose (rg_bridges r p)) else rg_bridges r p),
         rg_observationCancellations := Map.empty\<rparr>))"

definition registry_finish_close ::
  "(nat \<Rightarrow> addr set option) \<Rightarrow> runtimeCallbackRegistry \<Rightarrow> runtimeCallbackRegistry" where
  "registry_finish_close detached r =
     (let streams = {q. \<exists>t \<in> ran (rg_tracking r). trk_consumeStream t = Some q} in
      r\<lparr>rg_sessions := (\<lambda>q. if q \<in> streams then snd (session_close (rg_sessions r q)) else rg_sessions r q),
        rg_bridges := (\<lambda>p. case detached p of
           None \<Rightarrow> rg_bridges r p | Some D \<Rightarrow> clear_instances D (rg_bridges r p))\<rparr>)"

definition registry_Close :: "runtimeCallbackRegistry \<Rightarrow> runtimeCallbackRegistry" where
  "registry_Close r =
     (if rg_closed r then r
      else case registry_begin_close r of (detached, r) \<Rightarrow> registry_finish_close detached r)"

section \<open>The contract of a table\<close>

text \<open>
  What a client of the registry relies on: a registration on an open registry returns the next
  identifier and stores the value under it in its table; on a closed one it returns the empty
  identifier and changes nothing.
\<close>

locale callback_table =
  fixes pfx :: string
    and table :: "runtimeCallbackRegistry \<Rightarrow> (string \<rightharpoonup> 'v)"
    and stored :: "string \<Rightarrow> 'a \<Rightarrow> runtimeCallbackRegistry \<Rightarrow> 'v"
    and register :: "'a \<Rightarrow> runtimeCallbackRegistry \<Rightarrow> string \<times> runtimeCallbackRegistry"
  assumes closed_refuses: "rg_closed r \<Longrightarrow> register x r = ([], r)"
    and open_id: "\<not> rg_closed r \<Longrightarrow> fst (register x r) = next_id pfx r"
    and open_stores: "\<not> rg_closed r \<Longrightarrow>
      table (snd (register x r)) = (table r)(next_id pfx r \<mapsto> stored (next_id pfx r) x r)"
    and open_frame: "\<not> rg_closed r \<Longrightarrow>
      \<not> rg_closed (snd (register x r)) \<and> rg_entropy (snd (register x r)) = rg_entropy r \<and>
      rg_drawn (snd (register x r)) = rg_drawn r + 1"
begin

lemma registered_found:
  "register x r = (i, r') \<Longrightarrow> \<not> rg_closed r \<Longrightarrow> table r' i = Some (stored i x r)"
  using open_id[of r x] open_stores[of r x] by simp

lemma others_kept:
  "register x r = (i, r') \<Longrightarrow> j \<noteq> i \<Longrightarrow> table r' j = table r j"
proof (cases "rg_closed r")
  case False
  moreover assume "register x r = (i, r')" "j \<noteq> i"
  ultimately show ?thesis using open_id[of r x] open_stores[of r x] by simp
qed (use closed_refuses in auto)

lemma id_not_empty: "register x r = (i, r') \<Longrightarrow> i = [] \<longleftrightarrow> rg_closed r"
  using closed_refuses[of r x] open_id[of r x] by (cases "rg_closed r") (auto simp: next_id_def)

end

lemmas register_defs = registerScenarioStep_def registerScenario_def store_threshold_def
  registerReportingPublisher_def registerWorkerPlugin_def registerReportingSink_def
  registerRuntimePolicy_def registerTrackingProduce_def registerTrackingConsume_def
  store_observation_def nextCallbackID_def

interpretation step_table: callback_table "''step''" rg_callbacks
  "\<lambda>i (sn, st, f) r. \<lparr>cb_ID = i, cb_ScenarioName = sn, cb_StepName = st, cb_Run = f\<rparr>"
  "\<lambda>(sn, st, f). registerScenarioStep sn st f"
  by unfold_locales (auto simp: register_defs next_id_def)

interpretation scenario_table: callback_table "''scenario''" rg_scenarios
  "\<lambda>i s r. \<lparr>reg_ScenarioName = sc_Name s, reg_Run = primaryScenarioRun s, reg_Init = sc_Init s,
     reg_Clean = sc_Clean s, reg_State = rg_next_bridge r\<rparr>"
  registerScenario
  by unfold_locales (auto simp: register_defs next_id_def)

interpretation threshold_table: callback_table "''threshold''" rg_thresholds "\<lambda>i t r. t" store_threshold
  by unfold_locales (auto simp: register_defs next_id_def)

interpretation publisher_table: callback_table "''reporting-publish''" rg_publishers "\<lambda>i f r. f"
  registerReportingPublisher
  by unfold_locales (auto simp: register_defs next_id_def)

interpretation plugin_table: callback_table "''plugin''" rg_plugins "\<lambda>i f r. f" registerWorkerPlugin
  by unfold_locales (auto simp: register_defs next_id_def)

interpretation sink_table: callback_table "''sink''" rg_sinks "\<lambda>i f r. f" registerReportingSink
  by unfold_locales (auto simp: register_defs next_id_def)

interpretation policy_table: callback_table "''policy''" rg_policies "\<lambda>i f r. f" registerRuntimePolicy
  by unfold_locales (auto simp: register_defs next_id_def)

interpretation produce_table: callback_table "''tracking-produce''" rg_tracking
  "\<lambda>i f r. \<lparr>trk_Produce = Some f, trk_Consume = None, trk_consumeStream = None\<rparr>"
  registerTrackingProduce
  by unfold_locales (auto simp: register_defs next_id_def)

interpretation consume_table: callback_table "''tracking-consume''" rg_tracking
  "\<lambda>i f r. \<lparr>trk_Produce = None, trk_Consume = Some f, trk_consumeStream = Some (rg_next_session r)\<rparr>"
  registerTrackingConsume
  by unfold_locales (auto simp: register_defs next_id_def)

interpretation observation_table: callback_table "''observation-cancellation''" rg_observationCancellations
  "\<lambda>i c r. c" store_observation
  by unfold_locales (auto simp: register_defs next_id_def)

section \<open>Any sequence of registrations\<close>

text \<open>A call of one of the registration functions with its arguments, and what is found under its identifier.\<close>

datatype registration =
    RegStep string string "go_closure option"
  | RegScenario scenarioDefinition
  | RegThreshold ThresholdSpec
  | RegPublisher go_ref
  | RegPlugin go_ref
  | RegSink go_ref
  | RegPolicy go_ref
  | RegProduce go_ref
  | RegConsume go_ref
  | RegObservation "go_ref option"

fun register_one :: "registration \<Rightarrow> runtimeCallbackRegistry \<Rightarrow> string \<times> runtimeCallbackRegistry" where
  "register_one (RegStep sn st f) r = registerScenarioStep sn st f r"
| "register_one (RegScenario s) r = registerScenario s r"
| "register_one (RegThreshold t) r = (case registerThreshold t r of ((i, _), r) \<Rightarrow> (i, r))"
| "register_one (RegPublisher f) r = registerReportingPublisher f r"
| "register_one (RegPlugin f) r = registerWorkerPlugin f r"
| "register_one (RegSink f) r = registerReportingSink f r"
| "register_one (RegPolicy f) r = registerRuntimePolicy f r"
| "register_one (RegProduce f) r = registerTrackingProduce f r"
| "register_one (RegConsume f) r = registerTrackingConsume f r"
| "register_one (RegObservation c) r = registerObservationCancellation c r"

fun register_all :: "registration list \<Rightarrow> runtimeCallbackRegistry \<Rightarrow> string list \<times> runtimeCallbackRegistry" where
  "register_all [] r = ([], r)"
| "register_all (x # xs) r =
     (case register_one x r of (i, r) \<Rightarrow> (case register_all xs r of (is, r) \<Rightarrow> (i # is, r)))"

text \<open>The lookup functions of the host, by the kind of what was registered.\<close>

fun finds :: "runtimeCallbackRegistry \<Rightarrow> string \<Rightarrow> registration \<Rightarrow> bool" where
  "finds r i (RegStep sn st f) \<longleftrightarrow>
     rg_callbacks r i = Some \<lparr>cb_ID = i, cb_ScenarioName = sn, cb_StepName = st, cb_Run = f\<rparr>"
| "finds r i (RegScenario s) \<longleftrightarrow>
     (\<exists>p. rg_scenarios r i = Some \<lparr>reg_ScenarioName = sc_Name s, reg_Run = primaryScenarioRun s,
        reg_Init = sc_Init s, reg_Clean = sc_Clean s, reg_State = p\<rparr>)"
| "finds r i (RegThreshold t) \<longleftrightarrow> rg_thresholds r i = newRuntimeThresholdRegistration t \<and> rg_thresholds r i \<noteq> None"
| "finds r i (RegPublisher f) \<longleftrightarrow> rg_publishers r i = Some f"
| "finds r i (RegPlugin f) \<longleftrightarrow> rg_plugins r i = Some f"
| "finds r i (RegSink f) \<longleftrightarrow> rg_sinks r i = Some f"
| "finds r i (RegPolicy f) \<longleftrightarrow> rg_policies r i = Some f"
| "finds r i (RegProduce f) \<longleftrightarrow>
     rg_tracking r i = Some \<lparr>trk_Produce = Some f, trk_Consume = None, trk_consumeStream = None\<rparr>"
| "finds r i (RegConsume f) \<longleftrightarrow>
     (\<exists>q. rg_tracking r i = Some \<lparr>trk_Produce = None, trk_Consume = Some f, trk_consumeStream = Some q\<rparr>)"
| "finds r i (RegObservation c) \<longleftrightarrow> rg_observationCancellations r i = c \<and> c \<noteq> None"

text \<open>A threshold without a predicate and a nil context are not registered.\<close>

fun registrable :: "registration \<Rightarrow> bool" where
  "registrable (RegThreshold t) = (newRuntimeThresholdRegistration t \<noteq> None)"
| "registrable (RegObservation c) = (c \<noteq> None)"
| "registrable _ = True"

text \<open>Every identifier in use was made from a block of entropy already drawn.\<close>

definition used_ids :: "runtimeCallbackRegistry \<Rightarrow> string set" where
  "used_ids r =
     dom (rg_callbacks r) \<union> dom (rg_scenarios r) \<union> dom (rg_thresholds r) \<union> dom (rg_publishers r) \<union>
     dom (rg_plugins r) \<union> dom (rg_sinks r) \<union> dom (rg_policies r) \<union> dom (rg_tracking r) \<union>
     dom (rg_observationCancellations r)"

definition made_before :: "nat \<Rightarrow> (nat \<Rightarrow> string) \<Rightarrow> string \<Rightarrow> bool" where
  "made_before n e i \<longleftrightarrow> (\<exists>p. \<exists>k < n. i = p @ ''-'' @ raw_url_encode (e k))"

definition registry_wf :: "runtimeCallbackRegistry \<Rightarrow> bool" where
  "registry_wf r \<longleftrightarrow> (\<forall>i \<in> used_ids r. made_before (rg_drawn r) (rg_entropy r) i)"

text \<open>
  The first \<open>n\<close> blocks of entropy do what random blocks are drawn for: 16 bytes each, none twice.
\<close>

definition fresh_entropy :: "nat \<Rightarrow> (nat \<Rightarrow> string) \<Rightarrow> bool" where
  "fresh_entropy n e \<longleftrightarrow> inj_on e {..<n} \<and> (\<forall>k < n. length (e k) = 16)"

lemma made_id_inj:
  assumes "fresh_entropy n e" and "p @ ''-'' @ raw_url_encode (e k) = q @ ''-'' @ raw_url_encode (e m)"
    and "k < n" and "m < n"
  shows "k = m"
proof -
  have "length (raw_url_encode (e k)) = length (raw_url_encode (e m))"
    using assms(1,3,4) by (simp add: fresh_entropy_def length_raw_url_encode)
  with assms(2) have "raw_url_encode (e k) = raw_url_encode (e m)"
    by (simp add: append_eq_append_conv flip: append_assoc)
  with assms(1,3,4) raw_url_inj[of "e k" "e m"] have "e k = e m" by (simp add: fresh_entropy_def)
  with assms(1,3,4) show ?thesis by (auto simp: fresh_entropy_def dest: inj_onD)
qed

lemma made_before_mono: "made_before n e i \<Longrightarrow> n \<le> m \<Longrightarrow> made_before m e i"
  unfolding made_before_def by (blast intro: less_le_trans)

lemma next_id_fresh:
  assumes "registry_wf r" and "fresh_entropy n (rg_entropy r)" and "rg_drawn r < n"
  shows "next_id p r \<notin> used_ids r"
proof
  assume "next_id p r \<in> used_ids r"
  with assms(1) obtain q k where k: "k < rg_drawn r"
    and e: "p @ ''-'' @ raw_url_encode (rg_entropy r (rg_drawn r)) = q @ ''-'' @ raw_url_encode (rg_entropy r k)"
    unfolding registry_wf_def made_before_def next_id_def by blast
  from made_id_inj[OF assms(2) e assms(3)] k assms(3) show False by simp
qed

text \<open>Two registries whose tables agree except at one identifier.\<close>

definition same_off :: "string \<Rightarrow> runtimeCallbackRegistry \<Rightarrow> runtimeCallbackRegistry \<Rightarrow> bool" where
  "same_off i r r' \<longleftrightarrow>
     (\<forall>j. j \<noteq> i \<longrightarrow>
        rg_callbacks r' j = rg_callbacks r j \<and> rg_scenarios r' j = rg_scenarios r j \<and>
        rg_thresholds r' j = rg_thresholds r j \<and> rg_publishers r' j = rg_publishers r j \<and>
        rg_plugins r' j = rg_plugins r j \<and> rg_sinks r' j = rg_sinks r j \<and>
        rg_policies r' j = rg_policies r j \<and> rg_tracking r' j = rg_tracking r j \<and>
        rg_observationCancellations r' j = rg_observationCancellations r j)"

lemma same_offD:
  "same_off i r r' \<Longrightarrow> j \<noteq> i \<Longrightarrow>
     rg_callbacks r' j = rg_callbacks r j \<and> rg_scenarios r' j = rg_scenarios r j \<and>
     rg_thresholds r' j = rg_thresholds r j \<and> rg_publishers r' j = rg_publishers r j \<and>
     rg_plugins r' j = rg_plugins r j \<and> rg_sinks r' j = rg_sinks r j \<and>
     rg_policies r' j = rg_policies r j \<and> rg_tracking r' j = rg_tracking r j \<and>
     rg_observationCancellations r' j = rg_observationCancellations r j"
  unfolding same_off_def by blast

lemma same_off_finds: "same_off i r r' \<Longrightarrow> j \<noteq> i \<Longrightarrow> finds r' j x \<longleftrightarrow> finds r j x"
  by (drule same_offD[of i r r' j], assumption, cases x) simp_all

lemma same_off_used: "same_off i r r' \<Longrightarrow> used_ids r' \<subseteq> insert i (used_ids r)"
  by (auto simp: used_ids_def same_off_def)

lemma finds_used: "registrable x \<Longrightarrow> finds r i x \<Longrightarrow> i \<in> used_ids r"
  by (cases x) (auto simp: used_ids_def)

lemmas table_found = step_table.registered_found scenario_table.registered_found
  threshold_table.registered_found publisher_table.registered_found plugin_table.registered_found
  sink_table.registered_found policy_table.registered_found produce_table.registered_found
  consume_table.registered_found observation_table.registered_found

lemma register_one_step:
  assumes "register_one x r = (i, r')" and "\<not> rg_closed r" and "registrable x"
  shows "(\<exists>p. i = next_id p r) \<and> same_off i r r' \<and> finds r' i x \<and> \<not> rg_closed r' \<and>
    rg_entropy r' = rg_entropy r \<and> rg_drawn r' = rg_drawn r + 1"
  using assms
  by (cases x)
    (auto simp: register_defs registerThreshold_def registerObservationCancellation_def same_off_def
      split: option.splits if_splits)

lemma register_one_wf:
  assumes "register_one x r = (i, r')" and "\<not> rg_closed r" and "registrable x" and "registry_wf r"
  shows "registry_wf r'"
proof -
  from register_one_step[OF assms(1-3)] obtain p where i: "i = next_id p r" and off: "same_off i r r'"
    and e: "rg_entropy r' = rg_entropy r" "rg_drawn r' = rg_drawn r + 1" by blast
  have "made_before (rg_drawn r') (rg_entropy r') i"
    unfolding made_before_def i next_id_def e by (intro exI[of _ p] exI[of _ "rg_drawn r"]) simp
  moreover have "made_before (rg_drawn r') (rg_entropy r') j" if "j \<in> used_ids r" for j
    using that assms(4) made_before_mono[of "rg_drawn r" _ j "rg_drawn r'"] by (simp add: registry_wf_def e)
  ultimately show ?thesis using same_off_used[OF off] by (auto simp: registry_wf_def)
qed

lemma register_all_spec:
  assumes "register_all xs r = (is, r')" and "\<not> rg_closed r" and "\<forall>x \<in> set xs. registrable x"
    and "registry_wf r" and "fresh_entropy n (rg_entropy r)" and "rg_drawn r + length xs \<le> n"
  shows "length is = length xs \<and> distinct is \<and> set is \<inter> used_ids r = {} \<and> [] \<notin> set is \<and>
    (\<forall>k < length xs. finds r' (is ! k) (xs ! k)) \<and>
    (\<forall>j y. j \<in> used_ids r \<longrightarrow> finds r j y \<longrightarrow> finds r' j y)"
  using assms
proof (induction xs arbitrary: r r' "is")
  case (Cons x xs)
  obtain i r1 where one: "register_one x r = (i, r1)" by fastforce
  obtain js where rest: "register_all xs r1 = (js, r')" and is_def: "is = i # js"
    using one Cons.prems(1) by (auto split: prod.splits)
  have reg: "registrable x" using Cons.prems(3) by simp
  from register_one_step[OF one Cons.prems(2) reg] obtain p where i: "i = next_id p r"
    and off: "same_off i r r1" and f: "finds r1 i x" and c: "\<not> rg_closed r1"
    and e: "rg_entropy r1 = rg_entropy r" "rg_drawn r1 = rg_drawn r + 1" by blast
  have new: "i \<notin> used_ids r" using next_id_fresh[OF Cons.prems(4,5)] Cons.prems(6) i by simp
  have used: "i \<in> used_ids r1" using finds_used[OF reg f] .
  have "registry_wf r1" using register_one_wf[OF one Cons.prems(2) reg Cons.prems(4)] .
  with Cons.IH[OF rest c] Cons.prems(3,5,6) e
  have ih: "length js = length xs" "distinct js" "set js \<inter> used_ids r1 = {}" "[] \<notin> set js"
    "\<forall>k < length xs. finds r' (js ! k) (xs ! k)" "\<forall>j y. j \<in> used_ids r1 \<longrightarrow> finds r1 j y \<longrightarrow> finds r' j y"
    by auto
  have sub: "used_ids r \<subseteq> used_ids r1"
  proof
    fix j assume j: "j \<in> used_ids r"
    with new have "j \<noteq> i" by blast
    from same_offD[OF off this] j show "j \<in> used_ids r1" by (simp add: used_ids_def dom_def)
  qed
  have "finds r' i x" using ih(6) used f by blast
  moreover have "finds r' j y" if "j \<in> used_ids r" "finds r j y" for j y
    using that ih(6) sub new same_off_finds[OF off, of j y] by blast
  moreover have "i \<noteq> []" using i by (simp add: next_id_def)
  moreover have "i \<notin> set js" using ih(3) used by blast
  ultimately show ?case using ih sub new unfolding is_def
    by (auto simp: nth_Cons split: nat.splits)
qed simp

lemma closed_register_one: "rg_closed r \<Longrightarrow> register_one x r = ([], r)"
  by (cases x)
    (auto simp: registerThreshold_def registerObservationCancellation_def step_table.closed_refuses
      scenario_table.closed_refuses publisher_table.closed_refuses plugin_table.closed_refuses
      sink_table.closed_refuses policy_table.closed_refuses produce_table.closed_refuses
      consume_table.closed_refuses observation_table.closed_refuses registerScenarioStep_def
      split: option.splits)

lemma registry_Close_closed: "rg_closed (registry_Close r)"
  by (simp add: registry_Close_def registry_begin_close_def registry_finish_close_def Let_def)

section \<open>Properties\<close>

text \<open>An entropy source for concrete runs: different blocks, up to 256 of them.\<close>

definition counter_entropy :: "nat \<Rightarrow> string" where
  "counter_entropy n = replicate 15 CHR 0x00 @ [char_of n]"

lemma counter_entropy_fresh: "n \<le> 256 \<Longrightarrow> fresh_entropy n counter_entropy"
proof -
  assume n: "n \<le> 256"
  have "k = m" if "k < n" "m < n" "counter_entropy k = counter_entropy m" for k m
  proof -
    from that(3) have "byte_nat (char_of k) = byte_nat (char_of m)" by (simp add: counter_entropy_def)
    with that(1,2) n show ?thesis by simp
  qed
  then show ?thesis by (auto simp: fresh_entropy_def inj_on_def) (simp add: counter_entropy_def)
qed

text \<open>
  Whatever the SDK registers can be looked up as it was registered: after any sequence of
  registrations on a new registry, of steps, scenarios, thresholds with a predicate, publishers,
  plugins, sinks, policies, tracking callbacks and observation contexts, the identifiers are
  distinct and non-empty and the lookup of each gives the value registered under it, provided the
  random blocks drawn were different.
\<close>

theorem registrations_found:
  assumes "fresh_entropy (length xs) e" and "register_all xs (newRuntimeCallbackRegistry e) = (is, r)"
    and "\<forall>x \<in> set xs. registrable x"
  shows "length is = length xs \<and> distinct is \<and> [] \<notin> set is \<and>
    (\<forall>k < length xs. finds r (is ! k) (xs ! k))"
proof -
  have "registry_wf (newRuntimeCallbackRegistry e)"
    by (simp add: registry_wf_def used_ids_def newRuntimeCallbackRegistry_def)
  with register_all_spec[OF assms(2) _ assms(3)] assms(1) show ?thesis
    by (simp add: newRuntimeCallbackRegistry_def)
qed

lemma registrations_found_witness:
  "distinct (fst (register_all [RegPlugin 7, RegProduce 8] (newRuntimeCallbackRegistry counter_entropy)))"
proof -
  obtain "is" r where run: "register_all [RegPlugin 7, RegProduce 8] (newRuntimeCallbackRegistry counter_entropy) = (is, r)"
    by fastforce
  have "fresh_entropy (length [RegPlugin 7, RegProduce 8]) counter_entropy"
    by (rule counter_entropy_fresh) simp
  from registrations_found[OF this run] show ?thesis unfolding run by simp
qed

text \<open>
  A closed registry is final: after \<open>Close\<close> every registration returns the empty identifier
  and changes nothing, and a second \<open>Close\<close> changes nothing. The close of an open registry forgets
  the observation contexts, closes the bridge of every scenario and empties the data of its
  instances, and closes every consume stream; the tables of the other callbacks keep their
  entries.
\<close>

theorem closed_registry_is_final:
  "register_one x (registry_Close r) = ([], registry_Close r) \<and>
   registry_Close (registry_Close r) = registry_Close r \<and>
   (rg_closed r \<or>
      rg_observationCancellations (registry_Close r) = Map.empty \<and>
      (\<forall>s \<in> ran (rg_scenarios r).
         bridge_closed (rg_bridges (registry_Close r) (reg_State s)) \<and>
         (\<forall>k a. active (rg_bridges r (reg_State s)) k = Some a \<longrightarrow> bridge_closed (rg_bridges r (reg_State s)) \<or>
            instance_data (rg_bridges (registry_Close r) (reg_State s)) a = Map.empty)) \<and>
      (\<forall>t \<in> ran (rg_tracking r). \<forall>q. trk_consumeStream t = Some q \<longrightarrow>
         sess_closed (rg_sessions (registry_Close r) q)) \<and>
      rg_scenarios (registry_Close r) = rg_scenarios r \<and> rg_tracking (registry_Close r) = rg_tracking r)"
proof (intro conjI)
  show "register_one x (registry_Close r) = ([], registry_Close r)"
    by (rule closed_register_one[OF registry_Close_closed])
  show "registry_Close (registry_Close r) = registry_Close r"
    using registry_Close_closed[of r] by (simp add: registry_Close_def[of "registry_Close r"])
qed (auto simp: registry_Close_def registry_begin_close_def registry_finish_close_def Let_def
    beginClose_def clear_instances_def session_close_def ran_def split: option.splits if_splits)

lemma closed_registry_is_final_witness:
  "register_one (RegPlugin 7) (registry_Close (newRuntimeCallbackRegistry counter_entropy)) =
     ([], registry_Close (newRuntimeCallbackRegistry counter_entropy))"
  using closed_registry_is_final[of "RegPlugin 7" "newRuntimeCallbackRegistry counter_entropy"] by blast

end
