(* ===== verification/Host_Urls.thy ===== *)
theory Host_Urls
  imports Base64
begin

text \<open>
  The addresses of the callbacks (\<open>runtime_http_host.go\<close>): the URLs the host hands out for an
  identifier, the patterns it serves, and how a handler reads the identifier back from a path.
  \<open>net/http\<close> serves the longest pattern that is a prefix of the path; no pattern of the host is a
  prefix of another, so that the order of the patterns does not matter.
\<close>

section \<open>Addresses\<close>

record runtimeHTTPHostHandle =
  host_baseURL :: string

definition scenarioCallbackURL :: "runtimeHTTPHostHandle \<Rightarrow> string \<Rightarrow> string \<Rightarrow> string" where
  "scenarioCallbackURL h i stage = host_baseURL h @ ''/callbacks/scenario/'' @ i @ ''/'' @ stage"

definition pluginCallbackURL :: "runtimeHTTPHostHandle \<Rightarrow> string \<Rightarrow> string" where
  "pluginCallbackURL h i = host_baseURL h @ ''/callbacks/plugin/'' @ i"

definition sinkCallbackURL :: "runtimeHTTPHostHandle \<Rightarrow> string \<Rightarrow> string" where
  "sinkCallbackURL h i = host_baseURL h @ ''/callbacks/sink/'' @ i"

definition policyCallbackURL :: "runtimeHTTPHostHandle \<Rightarrow> string \<Rightarrow> string" where
  "policyCallbackURL h i = host_baseURL h @ ''/callbacks/policy/'' @ i"

definition trackingProduceCallbackURL :: "runtimeHTTPHostHandle \<Rightarrow> string \<Rightarrow> string" where
  "trackingProduceCallbackURL h i = host_baseURL h @ ''/callbacks/tracking/'' @ i @ ''/produce''"

definition trackingConsumeCallbackURL :: "runtimeHTTPHostHandle \<Rightarrow> string \<Rightarrow> string" where
  "trackingConsumeCallbackURL h i = host_baseURL h @ ''/callbacks/tracking/'' @ i @ ''/consume''"

definition thresholdCallbackURL :: "runtimeHTTPHostHandle \<Rightarrow> string \<Rightarrow> string" where
  "thresholdCallbackURL h i = host_baseURL h @ ''/callbacks/threshold/'' @ i"

definition reportingPublishCallbackURL :: "runtimeHTTPHostHandle \<Rightarrow> string \<Rightarrow> string" where
  "reportingPublishCallbackURL h i = host_baseURL h @ ''/callbacks/reporting-publish/'' @ i"

definition observationCancellationCallbackURL :: "runtimeHTTPHostHandle \<Rightarrow> string \<Rightarrow> string" where
  "observationCancellationCallbackURL h i =
     host_baseURL h @ ''/callbacks/observation-cancellation/'' @ i"

section \<open>Patterns and paths\<close>

datatype callback_route =
    ScenarioRoute | PluginRoute | SinkRoute | PolicyRoute | TrackingRoute | ThresholdRoute
  | PublishRoute | ObservationRoute

definition served_patterns :: "(string \<times> callback_route) list" where
  "served_patterns =
     [(''/callbacks/scenario/'', ScenarioRoute),
      (''/callbacks/plugin/'', PluginRoute),
      (''/callbacks/sink/'', SinkRoute),
      (''/callbacks/policy/'', PolicyRoute),
      (''/callbacks/tracking/'', TrackingRoute),
      (''/callbacks/threshold/'', ThresholdRoute),
      (''/callbacks/reporting-publish/'', PublishRoute),
      (''/callbacks/observation-cancellation/'', ObservationRoute)]"

definition route_of :: "string \<Rightarrow> callback_route option" where
  "route_of path = map_option snd (find (\<lambda>(pat, _). prefix pat path) served_patterns)"

definition runtimeCallbackPathParts :: "string \<Rightarrow> string \<Rightarrow> (string \<times> string) option" where
  "runtimeCallbackPathParts path pfx =
     (let trimmed = trim_prefix pfx path;
          parts = split_on (CHR ''/'') (trim_char (CHR ''/'') trimmed)
      in if length parts \<noteq> 2 \<or> blank (parts ! 0) \<or> blank (parts ! 1) then None
         else Some (parts ! 0, parts ! 1))"

text \<open>The identifier that the threshold and the publisher handlers read, and the one of a cancellation.\<close>

definition single_path_id :: "string \<Rightarrow> string \<Rightarrow> string option" where
  "single_path_id path pfx =
     (let i = trim_char (CHR ''/'') (trim_prefix pfx path) in
      if i = [] \<or> CHR ''/'' \<in> set i then None else Some i)"

definition observation_path_id :: "string \<Rightarrow> string option" where
  "observation_path_id path =
     (let i = trim_prefix ''/callbacks/observation-cancellation/'' path in
      if i = path \<or> i = [] \<or> i \<noteq> trim_space i \<or> CHR ''/'' \<in> set i \<or> CHR 0x5C \<in> set i then None
      else Some i)"

section \<open>Reading an identifier back\<close>

text \<open>What every identifier of the registry is like.\<close>

definition path_safe :: "string \<Rightarrow> bool" where
  "path_safe i \<longleftrightarrow> i \<noteq> [] \<and> list_all graphic i \<and> CHR ''/'' \<notin> set i \<and> CHR 0x5C \<notin> set i"

lemma path_safe_not_blank: "path_safe i \<Longrightarrow> \<not> blank i"
  by (simp add: path_safe_def blank_def)

lemma trim_char_ends:
  "s \<noteq> [] \<Longrightarrow> hd s \<noteq> c \<Longrightarrow> last s \<noteq> c \<Longrightarrow> trim_char c s = s"
  by (simp add: trim_char_def dropWhile_eq_self_iff[THEN iffD2] hd_rev)

lemma path_parts_back:
  assumes "path_safe i" and "path_safe stage"
  shows "runtimeCallbackPathParts (pfx @ i @ CHR ''/'' # stage) pfx = Some (i, stage)"
proof -
  have ends: "hd i \<noteq> CHR ''/''" "last stage \<noteq> CHR ''/''" "i \<noteq> []" "stage \<noteq> []"
    using assms by (auto simp: path_safe_def dest: hd_in_set last_in_set)
  then have "trim_char (CHR ''/'') (i @ CHR ''/'' # stage) = i @ CHR ''/'' # stage"
    by (intro trim_char_ends) auto
  moreover have "split_on (CHR ''/'') (i @ CHR ''/'' # stage) = [i, stage]"
    using assms by (simp add: path_safe_def split_on_append split_on_single)
  ultimately show ?thesis
    using assms[THEN path_safe_not_blank] by (simp add: runtimeCallbackPathParts_def Let_def)
qed

lemma single_id_back: "path_safe i \<Longrightarrow> single_path_id (pfx @ i) pfx = Some i"
  by (simp add: single_path_id_def Let_def path_safe_def trim_char_id)

lemma observation_id_back:
  "path_safe i \<Longrightarrow> observation_path_id (''/callbacks/observation-cancellation/'' @ i) = Some i"
  by (simp add: observation_path_id_def Let_def path_safe_def trim_prefix_def)

lemma url_enc_no_backslash: "n < 64 \<Longrightarrow> url_enc n \<noteq> CHR 0x5C"
  by (rule char_neq_byte) (auto simp: url_enc_def std_enc_bytes byte_nat_def[of "CHR 0x5C"])

lemma url_digits_safe: "CHR 0x5C \<notin> set (raw_url_encode s)"
  using raw_url_digits[of "CHR 0x5C" s] url_enc_no_backslash by force

lemma path_safe_id:
  "list_all graphic p \<Longrightarrow> CHR ''/'' \<notin> set p \<Longrightarrow> CHR 0x5C \<notin> set p \<Longrightarrow>
   path_safe (p @ ''-'' @ raw_url_encode s)"
  using raw_url_no_slash[of s] raw_url_graphic[of s] url_digits_safe[of s]
  by (auto simp: path_safe_def graphic_def)

lemmas url_defs = scenarioCallbackURL_def pluginCallbackURL_def sinkCallbackURL_def
  policyCallbackURL_def trackingProduceCallbackURL_def trackingConsumeCallbackURL_def
  thresholdCallbackURL_def reportingPublishCallbackURL_def observationCancellationCallbackURL_def

end
