(* ===== verification/Runtime_Plan.thy ===== *)
theory Runtime_Plan
  imports Context Callback_Registry Host_Urls "HOL-Library.State_Monad"
begin

text \<open>
  The run plan (\<open>runtime_plan.go\<close>): what the SDK sends to the engine instead of the program's
  functions. Building a plan registers every function and puts the URL of its identifier in the plan,
  so it is a computation that threads the registry, in the state monad of the library.
\<close>

section \<open>Data\<close>

record runtimeThresholdPlan =
  pth_Scope :: string
  pth_StepName :: string
  pth_Field :: string
  pth_Operator :: string
  pth_Value :: float64
  pth_AbortWhenErrorCount :: int
  pth_StartCheckAfterSeconds :: float64
  pth_PredicateCallbackURL :: string

record runtimeReportingSinkPlan =
  psink_Kind :: string
  psink_Name :: string
  psink_CallbackURL :: string
  psink_PublishCallbackURL :: string
  psink_SupportsIterationBatches :: bool
  psink_InfluxDB :: "InfluxDBSinkOptions option"
  psink_TimescaleDB :: "TimescaleDBSinkOptions option"
  psink_GrafanaLoki :: "GrafanaLokiSinkOptions option"
  psink_Datadog :: "DatadogSinkOptions option"
  psink_Splunk :: "SplunkSinkOptions option"
  psink_OTELCollector :: "OTELCollectorSinkOptions option"
  psink_HTTP :: "HTTPReportingSinkOptions option"
  psink_Kafka :: "KafkaReportingSinkOptions option"
  psink_JsonlFile :: "JsonlFileReportingSinkOptions option"

record runtimeWorkerPluginPlan =
  pplugin_Name :: string
  pplugin_CallbackURL :: string

record runtimePolicyPlan =
  ppolicy_Name :: string
  ppolicy_CallbackURL :: string

record runtimeContextPlan =
  pctx_LoadEngineContractVersion :: int
  pctx_MaxInFlight :: int
  pctx_ReportsEnabled :: bool
  pctx_RestartIterationMaxAttempts :: int
  pctx_SinkRetryCount :: int
  pctx_SinkRetryBackoffMs :: int
  pctx_ReportingIntervalSeconds :: float64
  pctx_LicenseValidationTimeoutSeconds :: float64
  pctx_MinimumLogLevel :: string
  pctx_LoggerConfig :: "(string \<times> go_any) list"
  pctx_RunnerKey :: string
  pctx_SessionID :: string
  pctx_ClusterID :: string
  pctx_AgentGroup :: string
  pctx_AgentID :: string
  pctx_ExpectedAgentIDs :: "string list"
  pctx_NatsServerURL :: string
  pctx_NodeType :: NodeType
  pctx_AgentsCount :: int
  pctx_LocalDevClusterEnabled :: bool
  pctx_TargetScenarios :: "string list"
  pctx_AgentTargetScenarios :: "string list"
  pctx_CoordinatorTargetScenarios :: "string list"
  pctx_ScenarioCompletionTimeoutSeconds :: float64
  pctx_ClusterCommandTimeoutSeconds :: float64
  pctx_ConsoleMetricsEnabled :: bool
  pctx_InfraConfigPath :: string
  pctx_ReportingSinks :: "runtimeReportingSinkPlan list"
  pctx_WorkerPlugins :: "runtimeWorkerPluginPlan list"
  pctx_RuntimePolicies :: "runtimePolicyPlan list"
  pctx_RuntimePolicyErrorMode :: RuntimePolicyErrorMode
  pctx_ReportFileName :: string
  pctx_ReportFolder :: string
  pctx_ReportFormats :: "string list"
  pctx_TestSuite :: string
  pctx_TestName :: string
  pctx_CustomSettings :: "(string \<times> go_any) list"
  pctx_GlobalCustomSettings :: "(string \<times> go_any) list"

record runtimeScenarioPlan =
  pscn_Name :: string
  pscn_StepCallbackURL :: string
  pscn_InitCallbackURL :: string
  pscn_CleanCallbackURL :: string
  pscn_MetricsCallbackURL :: string
  pscn_Weight :: int
  pscn_RestartIterationOnFail :: bool
  pscn_MaxFailCount :: int
  pscn_WarmUpDurationSeconds :: float64
  pscn_WarmUpDisabled :: bool
  pscn_LoadSimulations :: "LoadSimulation list"
  pscn_Thresholds :: "runtimeThresholdPlan list"
  pscn_Tracking :: "TrackingConfigurationSpec option"
  pscn_AutopilotHTTP :: "LoadStrikeAutopilotHTTPReplay option"
  pscn_InternalLicenseFeatures :: "string list"
  pscn_DeclaredStepNames :: "string list"

record runtimeTrafficMixScenarioSharePlan =
  pshare_Weight :: int
  pshare_Scenario :: runtimeScenarioPlan

record runtimeTrafficMixPlan =
  pmix_Name :: string
  pmix_TotalLoad :: "LoadSimulation list"
  pmix_ScenarioMix :: "runtimeTrafficMixScenarioSharePlan list"

record runtimePlan =
  plan_SDKVersion :: string
  plan_ProtocolVersion :: int
  plan_Capabilities :: "string list"
  plan_Context :: runtimeContextPlan
  plan_Scenarios :: "runtimeScenarioPlan list"
  plan_TrafficMixes :: "runtimeTrafficMixPlan list"

record runtimeContextExtensionPlan =
  pext_ReportingSinks :: "runtimeReportingSinkPlan list"
  pext_WorkerPlugins :: "runtimeWorkerPluginPlan list"
  pext_RuntimePolicies :: "runtimePolicyPlan list"

text \<open>
  What the code asks of the values the program gave it: the name of a plugin, the name a policy
  reports when it has the method \<open>GetTypeName\<close>, and the name of a policy's type behind its pointers
  (\<open>None\<close> when there is no such type).
\<close>

record user_names =
  names_PluginName :: "go_ref \<Rightarrow> string"
  names_GetTypeName :: "go_ref \<Rightarrow> string option"
  names_reflect :: "go_ref \<Rightarrow> string option"

section \<open>Capabilities of the bridge\<close>

definition RuntimeArtifactVersion :: string where
  "RuntimeArtifactVersion = ''v0.2.3''"

definition RuntimeProtocolVersion :: int where
  "RuntimeProtocolVersion = 2"

definition runtimeBridgeCapabilities :: "string list" where
  "runtimeBridgeCapabilities =
     [''callback-logs-v1'', ''kafka-publisher-callback-v1'', ''observation-cancellation-v1'',
      ''scenario-context-v2'', ''scenario-request-cancellation-v1'',
      ''threshold-predicate-callback-v1'']"

fun firstDuplicateRuntimeCapability :: "string list \<Rightarrow> string" where
  "firstDuplicateRuntimeCapability (a # b # vs) =
     (if b = a then b else firstDuplicateRuntimeCapability (b # vs))"
| "firstDuplicateRuntimeCapability _ = []"

fun firstRuntimeCapabilitySetDifference :: "string list \<Rightarrow> string list \<Rightarrow> string" where
  "firstRuntimeCapabilitySetDifference [] rs = []"
| "firstRuntimeCapabilitySetDifference (v # ls) rs =
     (if v \<notin> set rs then v else firstRuntimeCapabilitySetDifference ls rs)"

definition validateRuntimeCapabilities :: "string list \<Rightarrow> unit res" where
  "validateRuntimeCapabilities actual =
     (let expected = runtimeBridgeCapabilities;
          duplicate = firstDuplicateRuntimeCapability actual;
          missing = firstRuntimeCapabilitySetDifference expected actual;
          unexpected = firstRuntimeCapabilitySetDifference actual expected
      in if \<not> sorted actual then Inl ''runtime bridge capabilities must be sorted''
         else if duplicate \<noteq> []
         then Inl (''runtime bridge capability mismatch: duplicate '' @ duplicate)
         else if missing \<noteq> [] then Inl (''runtime bridge capability mismatch: missing '' @ missing)
         else if unexpected \<noteq> []
         then Inl (''runtime bridge capability mismatch: unexpected '' @ unexpected)
         else if actual \<noteq> expected then Inl ''runtime bridge capability mismatch''
         else Inr ())"

definition validateForLaunch :: "runtimePlan \<Rightarrow> unit res" where
  "validateForLaunch plan =
     (if plan_ProtocolVersion plan \<noteq> RuntimeProtocolVersion
      then Inl (''runtime bridge protocol mismatch: expected '' @ dec_of_int RuntimeProtocolVersion @
                '', got '' @ dec_of_int (plan_ProtocolVersion plan))
      else validateRuntimeCapabilities (plan_Capabilities plan))"

section \<open>The settings of the context\<close>

definition resolvedMinimumLogLevel :: "contextState \<Rightarrow> string" where
  "resolvedMinimumLogLevel c =
     (if trim_space (ctx_MinimumLogLevel c) \<noteq> [] then ctx_MinimumLogLevel c
      else (case map_of (ctx_LoggerConfig c) ''minimumLevel'' of
              Some (AnyString configured) \<Rightarrow>
                if trim_space configured \<noteq> [] then configured else ''Information''
            | _ \<Rightarrow> ''Information''))"

text \<open>\<open>Inl\<close> is the panic of a snapshot; the extensions of the plan are filled in later.\<close>

definition newRuntimeContextPlan :: "contextState \<Rightarrow> runtimeContextPlan res" where
  "newRuntimeContextPlan c =
     (case cloneKnownJSONCompatibleSettings (ctx_LoggerConfig c) of
        Inl e \<Rightarrow> Inl e
      | Inr logger \<Rightarrow>
     (case cloneKnownJSONCompatibleSettings (ctx_CustomSettings c) of
        Inl e \<Rightarrow> Inl e
      | Inr custom \<Rightarrow>
     (case cloneKnownJSONCompatibleSettings (ctx_GlobalCustomSettings c) of
        Inl e \<Rightarrow> Inl e
      | Inr global \<Rightarrow>
          Inr \<lparr>pctx_LoadEngineContractVersion = ctx_LoadEngineContractVersion c,
            pctx_MaxInFlight = ctx_MaxInFlight c,
            pctx_ReportsEnabled = ctx_ReportsEnabled c,
            pctx_RestartIterationMaxAttempts = ctx_RestartIterationMaxAttempts c,
            pctx_SinkRetryCount = ctx_SinkRetryCount c,
            pctx_SinkRetryBackoffMs = ctx_SinkRetryBackoffMs c,
            pctx_ReportingIntervalSeconds = ctx_ReportingIntervalSeconds c,
            pctx_LicenseValidationTimeoutSeconds = ctx_LicenseValidationTimeoutSeconds c,
            pctx_MinimumLogLevel = resolvedMinimumLogLevel c, pctx_LoggerConfig = logger,
            pctx_RunnerKey = ctx_RunnerKey c, pctx_SessionID = ctx_SessionID c,
            pctx_ClusterID = ctx_ClusterID c, pctx_AgentGroup = ctx_AgentGroup c,
            pctx_AgentID = ctx_AgentID c, pctx_ExpectedAgentIDs = ctx_ExpectedAgentIDs c,
            pctx_NatsServerURL = ctx_NatsServerURL c, pctx_NodeType = ctx_NodeType c,
            pctx_AgentsCount = ctx_AgentsCount c,
            pctx_LocalDevClusterEnabled = ctx_LocalDevClusterEnabled c,
            pctx_TargetScenarios = ctx_TargetScenarios c,
            pctx_AgentTargetScenarios = ctx_AgentTargetScenarios c,
            pctx_CoordinatorTargetScenarios = ctx_CoordinatorTargetScenarios c,
            pctx_ScenarioCompletionTimeoutSeconds = ctx_ScenarioCompletionTimeoutSeconds c,
            pctx_ClusterCommandTimeoutSeconds = ctx_ClusterCommandTimeoutSeconds c,
            pctx_ConsoleMetricsEnabled = ctx_ConsoleMetricsEnabled c,
            pctx_InfraConfigPath = ctx_InfraConfigPath c, pctx_ReportingSinks = [],
            pctx_WorkerPlugins = [], pctx_RuntimePolicies = [],
            pctx_RuntimePolicyErrorMode = ctx_RuntimePolicyErrorMode c,
            pctx_ReportFileName = ctx_ReportFileName c,
            pctx_ReportFolder = ctx_ReportFolder c,
            pctx_ReportFormats = ctx_ReportFormats c, pctx_TestSuite = ctx_TestSuite c,
            pctx_TestName = ctx_TestName c, pctx_CustomSettings = custom,
            pctx_GlobalCustomSettings = global\<rparr>)))"

section \<open>Thresholds and tracking\<close>

definition newRuntimeThresholdPlan :: "ThresholdSpec \<Rightarrow> runtimeThresholdPlan" where
  "newRuntimeThresholdPlan spec =
     \<lparr>pth_Scope = th_Scope spec, pth_StepName = th_StepName spec, pth_Field = th_Field spec,
      pth_Operator = th_Operator spec, pth_Value = th_Value spec,
      pth_AbortWhenErrorCount = th_AbortWhenErrorCount spec,
      pth_StartCheckAfterSeconds = th_StartCheckAfterSeconds spec, pth_PredicateCallbackURL = []\<rparr>"

type_synonym 'a planner = "(runtimeCallbackRegistry, 'a) state"

fun buildRuntimeThresholdPlans ::
  "runtimeHTTPHostHandle \<Rightarrow> ThresholdSpec list \<Rightarrow> runtimeThresholdPlan list planner" where
  "buildRuntimeThresholdPlans h [] = State_Monad.return []"
| "buildRuntimeThresholdPlans h (threshold # thresholds) = do {
     (i, ok) \<leftarrow> State (registerThreshold threshold);
     let plan = newRuntimeThresholdPlan threshold;
     let plan = (if ok then plan\<lparr>pth_PredicateCallbackURL := thresholdCallbackURL h i\<rparr> else plan);
     rest \<leftarrow> buildRuntimeThresholdPlans h thresholds;
     State_Monad.return (plan # rest)
   }"

text \<open>
  One of the statements \<open>if f != nil { id := register(f); clone.URL = url(id) }\<close>: \<open>register\<close> and
  the assignment, on the function when there is one.
\<close>

definition register_into ::
  "'f option \<Rightarrow> ('f \<Rightarrow> runtimeCallbackRegistry \<Rightarrow> string \<times> runtimeCallbackRegistry)
     \<Rightarrow> (string \<Rightarrow> 'c \<Rightarrow> 'c) \<Rightarrow> 'c \<Rightarrow> 'c planner" where
  "register_into f register assign c =
     (case f of
        None \<Rightarrow> State_Monad.return c
      | Some f \<Rightarrow> do { i \<leftarrow> State (register f); State_Monad.return (assign i c) })"

definition clone_delegate_stream ::
  "runtimeHTTPHostHandle \<Rightarrow> DelegateEndpointOptions \<Rightarrow> DelegateEndpointOptions
     \<Rightarrow> DelegateEndpointOptions planner" where
  "clone_delegate_stream h source cloned = do {
     cloned \<leftarrow> register_into (delegate_Produce source) registerTrackingProduce
       (\<lambda>i c. c\<lparr>delegate_ProduceCallbackURL := trackingProduceCallbackURL h i\<rparr>) cloned;
     register_into (delegate_Consume source) registerTrackingConsume
       (\<lambda>i c. c\<lparr>delegate_ConsumeCallbackURL := trackingConsumeCallbackURL h i\<rparr>) cloned
   }"

definition clone_push_diffusion ::
  "runtimeHTTPHostHandle \<Rightarrow> PushDiffusionEndpointOptions \<Rightarrow> PushDiffusionEndpointOptions
     \<Rightarrow> PushDiffusionEndpointOptions planner" where
  "clone_push_diffusion h source cloned = do {
     cloned \<leftarrow> register_into (push_Publish source) registerTrackingProduce
       (\<lambda>i c. c\<lparr>push_PublishCallbackURL := trackingProduceCallbackURL h i\<rparr>) cloned;
     register_into (push_Subscribe source) registerTrackingConsume
       (\<lambda>i c. c\<lparr>push_SubscribeCallbackURL := trackingConsumeCallbackURL h i\<rparr>) cloned
   }"

definition clone_grpc ::
  "runtimeHTTPHostHandle \<Rightarrow> GrpcEndpointOptions \<Rightarrow> GrpcEndpointOptions \<Rightarrow> GrpcEndpointOptions planner" where
  "clone_grpc h source cloned = do {
     cloned \<leftarrow> register_into (grpc_Produce source) registerTrackingProduce
       (\<lambda>i c. c\<lparr>grpc_ProduceCallbackURL := trackingProduceCallbackURL h i\<rparr>) cloned;
     register_into (grpc_Consume source) registerTrackingConsume
       (\<lambda>i c. c\<lparr>grpc_ConsumeCallbackURL := trackingConsumeCallbackURL h i\<rparr>) cloned
   }"

definition clone_web_socket ::
  "runtimeHTTPHostHandle \<Rightarrow> WebSocketEndpointOptions \<Rightarrow> WebSocketEndpointOptions
     \<Rightarrow> WebSocketEndpointOptions planner" where
  "clone_web_socket h source cloned = do {
     cloned \<leftarrow> register_into (ws_Produce source) registerTrackingProduce
       (\<lambda>i c. c\<lparr>ws_ProduceCallbackURL := trackingProduceCallbackURL h i\<rparr>) cloned;
     register_into (ws_Consume source) registerTrackingConsume
       (\<lambda>i c. c\<lparr>ws_ConsumeCallbackURL := trackingConsumeCallbackURL h i\<rparr>) cloned
   }"

text \<open>One transport of an endpoint, when the source and its copy both have it.\<close>

definition clone_both :: "('c \<Rightarrow> 'c \<Rightarrow> 'c planner) \<Rightarrow> 'c option \<Rightarrow> 'c option \<Rightarrow> 'c option planner" where
  "clone_both clone source cloned =
     (case (source, cloned) of
        (Some s, Some c) \<Rightarrow> do { c \<leftarrow> clone s c; State_Monad.return (Some c) }
      | _ \<Rightarrow> State_Monad.return cloned)"

definition cloneEndpointSpecWithCallbackURLs ::
  "runtimeHTTPHostHandle \<Rightarrow> EndpointSpec \<Rightarrow> EndpointSpec \<Rightarrow> EndpointSpec planner" where
  "cloneEndpointSpecWithCallbackURLs h source cloned = do {
     delegateStream \<leftarrow> clone_both (clone_delegate_stream h) (ep_DelegateStream source) (ep_DelegateStream cloned);
     pushDiffusion \<leftarrow> clone_both (clone_push_diffusion h) (ep_PushDiffusion source) (ep_PushDiffusion cloned);
     grpc \<leftarrow> clone_both (clone_grpc h) (ep_Grpc source) (ep_Grpc cloned);
     webSocket \<leftarrow> clone_both (clone_web_socket h) (ep_WebSocket source) (ep_WebSocket cloned);
     State_Monad.return (cloned\<lparr>ep_DelegateStream := delegateStream, ep_PushDiffusion := pushDiffusion,
       ep_Grpc := grpc, ep_WebSocket := webSocket\<rparr>)
   }"

text \<open>The observation context of a tracking configuration; an empty identifier leaves no URL.\<close>

definition register_observation ::
  "runtimeHTTPHostHandle \<Rightarrow> go_ref option \<Rightarrow> TrackingConfigurationSpec \<Rightarrow> TrackingConfigurationSpec planner" where
  "register_observation h observation =
     register_into observation (\<lambda>c. registerObservationCancellation (Some c))
       (\<lambda>i c. if i \<noteq> []
              then c\<lparr>tr_ObservationCancellationCallbackURL := observationCancellationCallbackURL h i\<rparr>
              else c)"

definition cloneTrackingConfigurationWithCallbackURLs ::
  "json_codec \<Rightarrow> runtimeHTTPHostHandle \<Rightarrow> TrackingConfigurationSpec \<Rightarrow> TrackingConfigurationSpec planner" where
  "cloneTrackingConfigurationWithCallbackURLs js h source =
     (case json_round_trip js source of
        None \<Rightarrow> State_Monad.return source
      | Some cloned \<Rightarrow> do {
          cloned \<leftarrow> register_observation h (tr_ObservationCancellationContext source) cloned;
          src \<leftarrow> clone_both (cloneEndpointSpecWithCallbackURLs h) (tr_Source source) (tr_Source cloned);
          dst \<leftarrow> clone_both (cloneEndpointSpecWithCallbackURLs h) (tr_Destination source) (tr_Destination cloned);
          State_Monad.return (cloned\<lparr>tr_Source := src, tr_Destination := dst\<rparr>)
        })"

section \<open>Scenarios\<close>

definition cloneAutopilotHTTPReplay :: "LoadStrikeAutopilotHTTPReplay option \<Rightarrow> LoadStrikeAutopilotHTTPReplay option" where
  "cloneAutopilotHTTPReplay source =
     map_option (\<lambda>s. \<lparr>replay_Method = replay_Method s, replay_URL = replay_URL s,
       replay_Headers = replay_Headers s, replay_Body = replay_Body s,
       replay_ContentType = replay_ContentType s\<rparr>) source"

definition register_scenario_urls ::
  "runtimeHTTPHostHandle \<Rightarrow> scenarioDefinition \<Rightarrow> runtimeScenarioPlan \<Rightarrow> runtimeScenarioPlan planner" where
  "register_scenario_urls h scenario item = do {
     i \<leftarrow> State (registerScenario scenario);
     let item = item\<lparr>pscn_StepCallbackURL := scenarioCallbackURL h i ''step'',
                     pscn_MetricsCallbackURL := scenarioCallbackURL h i ''metrics''\<rparr>;
     let item = (if sc_Init scenario \<noteq> None
                 then item\<lparr>pscn_InitCallbackURL := scenarioCallbackURL h i ''init''\<rparr> else item);
     let item = (if sc_Clean scenario \<noteq> None
                 then item\<lparr>pscn_CleanCallbackURL := scenarioCallbackURL h i ''clean''\<rparr> else item);
     State_Monad.return item
   }"

definition buildRuntimeScenarioPlan ::
  "json_codec \<Rightarrow> runtimeHTTPHostHandle \<Rightarrow> scenarioDefinition \<Rightarrow> runtimeScenarioPlan planner" where
  "buildRuntimeScenarioPlan js h scenario = do {
     thresholds \<leftarrow> buildRuntimeThresholdPlans h (sc_Thresholds scenario);
     let item = \<lparr>pscn_Name = sc_Name scenario, pscn_StepCallbackURL = [], pscn_InitCallbackURL = [],
       pscn_CleanCallbackURL = [], pscn_MetricsCallbackURL = [], pscn_Weight = sc_Weight scenario,
       pscn_RestartIterationOnFail = sc_RestartIterationOnFail scenario,
       pscn_MaxFailCount = sc_MaxFailCount scenario,
       pscn_WarmUpDurationSeconds = sc_WarmUpDurationSeconds scenario,
       pscn_WarmUpDisabled = sc_WarmUpDisabled scenario,
       pscn_LoadSimulations = sc_LoadSimulations scenario, pscn_Thresholds = thresholds,
       pscn_Tracking = None, pscn_AutopilotHTTP = cloneAutopilotHTTPReplay (sc_AutopilotHTTP scenario),
       pscn_InternalLicenseFeatures = sc_InternalLicenseFeatures scenario,
       pscn_DeclaredStepNames = sc_DeclaredStepNames scenario\<rparr>;
     item \<leftarrow> (if sc_AutopilotHTTP scenario = None then register_scenario_urls h scenario item
              else State_Monad.return item);
     (case sc_Tracking scenario of
        None \<Rightarrow> State_Monad.return item
      | Some tracking \<Rightarrow> do {
          tracking \<leftarrow> cloneTrackingConfigurationWithCallbackURLs js h tracking;
          State_Monad.return (item\<lparr>pscn_Tracking := Some tracking\<rparr>)
        })
   }"

fun scenario_plans ::
  "json_codec \<Rightarrow> runtimeHTTPHostHandle \<Rightarrow> scenarioDefinition list \<Rightarrow> runtimeScenarioPlan list planner" where
  "scenario_plans js h [] = State_Monad.return []"
| "scenario_plans js h (scenario # scenarios) = do {
     item \<leftarrow> buildRuntimeScenarioPlan js h scenario;
     items \<leftarrow> scenario_plans js h scenarios;
     State_Monad.return (item # items)
   }"

fun share_plans ::
  "json_codec \<Rightarrow> runtimeHTTPHostHandle \<Rightarrow> trafficMixScenarioShare list
     \<Rightarrow> runtimeTrafficMixScenarioSharePlan list planner" where
  "share_plans js h [] = State_Monad.return []"
| "share_plans js h (share # shares) = do {
     item \<leftarrow> buildRuntimeScenarioPlan js h (share_Scenario share);
     items \<leftarrow> share_plans js h shares;
     State_Monad.return (\<lparr>pshare_Weight = share_Weight share, pshare_Scenario = item\<rparr> # items)
   }"

fun mix_plans ::
  "json_codec \<Rightarrow> runtimeHTTPHostHandle \<Rightarrow> trafficMixDefinition list \<Rightarrow> runtimeTrafficMixPlan list planner" where
  "mix_plans js h [] = State_Monad.return []"
| "mix_plans js h (mix # mixes) = do {
     shares \<leftarrow> share_plans js h (mix_ScenarioMix mix);
     items \<leftarrow> mix_plans js h mixes;
     State_Monad.return (\<lparr>pmix_Name = mix_Name mix, pmix_TotalLoad = mix_TotalLoad mix,
       pmix_ScenarioMix = shares\<rparr> # items)
   }"

section \<open>Sinks, plugins and policies\<close>

text \<open>A plan of a sink with its kind and name, and the other fields at their zero values.\<close>

definition sink_plan :: "string \<Rightarrow> string \<Rightarrow> runtimeReportingSinkPlan" where
  "sink_plan kind name =
     \<lparr>psink_Kind = kind, psink_Name = name, psink_CallbackURL = [], psink_PublishCallbackURL = [],
      psink_SupportsIterationBatches = False, psink_InfluxDB = None, psink_TimescaleDB = None,
      psink_GrafanaLoki = None, psink_Datadog = None, psink_Splunk = None, psink_OTELCollector = None,
      psink_HTTP = None, psink_Kafka = None, psink_JsonlFile = None\<rparr>"

definition buildRuntimeKafkaReportingSinkPlan ::
  "runtimeHTTPHostHandle \<Rightarrow> string \<Rightarrow> KafkaReportingSinkOptions \<Rightarrow> runtimeReportingSinkPlan planner" where
  "buildRuntimeKafkaReportingSinkPlan h name opts =
     register_into (ksink_Publish opts) registerReportingPublisher
       (\<lambda>i plan. plan\<lparr>psink_PublishCallbackURL := reportingPublishCallbackURL h i\<rparr>)
       ((sink_plan ''kafka'' name)
          \<lparr>psink_Kafka := Some \<lparr>ksink_Topic = ksink_Topic opts, ksink_Publish = None\<rparr>\<rparr>)"

fun implementsIterationBatchSink :: "reportingSink \<Rightarrow> bool" where
  "implementsIterationBatchSink (CustomReportingSink name batches r) = batches"
| "implementsIterationBatchSink _ = False"

text \<open>The type switch, on a sink or what a pointer that is not nil points to.\<close>

fun buildRuntimeReportingSinkPlan ::
  "runtimeHTTPHostHandle \<Rightarrow> reportingSink \<Rightarrow> runtimeReportingSinkPlan planner" where
  "buildRuntimeReportingSinkPlan h (InfluxDbReportingSink opts) =
     State_Monad.return ((sink_plan ''influxdb'' (SinkName (InfluxDbReportingSink opts)))\<lparr>psink_InfluxDB := Some opts\<rparr>)"
| "buildRuntimeReportingSinkPlan h (TimescaleDbReportingSink opts) =
     State_Monad.return ((sink_plan ''timescaledb'' (SinkName (TimescaleDbReportingSink opts)))\<lparr>psink_TimescaleDB := Some opts\<rparr>)"
| "buildRuntimeReportingSinkPlan h (GrafanaLokiReportingSink opts) =
     State_Monad.return ((sink_plan ''grafanaloki'' (SinkName (GrafanaLokiReportingSink opts)))\<lparr>psink_GrafanaLoki := Some opts\<rparr>)"
| "buildRuntimeReportingSinkPlan h (DatadogReportingSink opts) =
     State_Monad.return ((sink_plan ''datadog'' (SinkName (DatadogReportingSink opts)))\<lparr>psink_Datadog := Some opts\<rparr>)"
| "buildRuntimeReportingSinkPlan h (SplunkReportingSink opts) =
     State_Monad.return ((sink_plan ''splunk'' (SinkName (SplunkReportingSink opts)))\<lparr>psink_Splunk := Some opts\<rparr>)"
| "buildRuntimeReportingSinkPlan h (OtelCollectorReportingSink opts) =
     State_Monad.return ((sink_plan ''otelcollector'' (SinkName (OtelCollectorReportingSink opts)))\<lparr>psink_OTELCollector := Some opts\<rparr>)"
| "buildRuntimeReportingSinkPlan h PortalReportingSink =
     State_Monad.return (sink_plan ''portal'' (SinkName PortalReportingSink))"
| "buildRuntimeReportingSinkPlan h (PrometheusRemoteWriteReportingSink opts) =
     State_Monad.return ((sink_plan ''prometheusremotewrite'' (SinkName (PrometheusRemoteWriteReportingSink opts)))\<lparr>psink_HTTP := Some opts\<rparr>)"
| "buildRuntimeReportingSinkPlan h (CloudWatchReportingSink opts) =
     State_Monad.return ((sink_plan ''cloudwatch'' (SinkName (CloudWatchReportingSink opts)))\<lparr>psink_HTTP := Some opts\<rparr>)"
| "buildRuntimeReportingSinkPlan h (DynatraceReportingSink opts) =
     State_Monad.return ((sink_plan ''dynatrace'' (SinkName (DynatraceReportingSink opts)))\<lparr>psink_HTTP := Some opts\<rparr>)"
| "buildRuntimeReportingSinkPlan h (ElasticsearchReportingSink opts) =
     State_Monad.return ((sink_plan ''elasticsearch'' (SinkName (ElasticsearchReportingSink opts)))\<lparr>psink_HTTP := Some opts\<rparr>)"
| "buildRuntimeReportingSinkPlan h (OpenSearchReportingSink opts) =
     State_Monad.return ((sink_plan ''opensearch'' (SinkName (OpenSearchReportingSink opts)))\<lparr>psink_HTTP := Some opts\<rparr>)"
| "buildRuntimeReportingSinkPlan h (KafkaReportingSink opts) =
     buildRuntimeKafkaReportingSinkPlan h (SinkName (KafkaReportingSink opts)) opts"
| "buildRuntimeReportingSinkPlan h (StatsDReportingSink opts) =
     State_Monad.return ((sink_plan ''statsd'' (SinkName (StatsDReportingSink opts)))\<lparr>psink_HTTP := Some opts\<rparr>)"
| "buildRuntimeReportingSinkPlan h (DogStatsDReportingSink opts) =
     State_Monad.return ((sink_plan ''dogstatsd'' (SinkName (DogStatsDReportingSink opts)))\<lparr>psink_HTTP := Some opts\<rparr>)"
| "buildRuntimeReportingSinkPlan h (NewRelicReportingSink opts) =
     State_Monad.return ((sink_plan ''newrelic'' (SinkName (NewRelicReportingSink opts)))\<lparr>psink_HTTP := Some opts\<rparr>)"
| "buildRuntimeReportingSinkPlan h (NetdataStatsDReportingSink opts) =
     State_Monad.return ((sink_plan ''netdatastatsd'' (SinkName (NetdataStatsDReportingSink opts)))\<lparr>psink_HTTP := Some opts\<rparr>)"
| "buildRuntimeReportingSinkPlan h (JsonlFileReportingSink opts) =
     State_Monad.return ((sink_plan ''jsonl'' (SinkName (JsonlFileReportingSink opts)))\<lparr>psink_JsonlFile := Some opts\<rparr>)"
| "buildRuntimeReportingSinkPlan h (GenericWebhookReportingSink opts) =
     State_Monad.return ((sink_plan ''webhook'' (SinkName (GenericWebhookReportingSink opts)))\<lparr>psink_HTTP := Some opts\<rparr>)"
| "buildRuntimeReportingSinkPlan h (CustomReportingSink name batches sink) = do {
     i \<leftarrow> State (registerReportingSink sink);
     State_Monad.return ((sink_plan ''callback'' (firstNonBlank [name, ''reporting-sink'']))
       \<lparr>psink_CallbackURL := sinkCallbackURL h i,
        psink_SupportsIterationBatches := implementsIterationBatchSink (CustomReportingSink name batches sink)\<rparr>)
   }"

definition validateContainmentReportingSink :: "sink_value \<Rightarrow> unit res" where
  "validateContainmentReportingSink sink =
     (if isNilReportingSink sink then Inl ''reporting sink collection cannot contain nil values''
      else Inr ())"

definition runtimePolicyName :: "user_names \<Rightarrow> go_ref option \<Rightarrow> string" where
  "runtimePolicyName names policy =
     (case policy of
        None \<Rightarrow> []
      | Some p \<Rightarrow>
          (case names_GetTypeName names p of
             Some name \<Rightarrow> trim_space name
           | None \<Rightarrow>
               (case names_reflect names p of
                  None \<Rightarrow> ''runtime-policy''
                | Some name \<Rightarrow> if trim_space name \<noteq> [] then trim_space name else ''runtime-policy'')))"

fun plugin_plans ::
  "user_names \<Rightarrow> runtimeHTTPHostHandle \<Rightarrow> go_ref option list \<Rightarrow> runtimeWorkerPluginPlan list planner" where
  "plugin_plans names h [] = State_Monad.return []"
| "plugin_plans names h (None # plugins) = plugin_plans names h plugins"
| "plugin_plans names h (Some plugin # plugins) = do {
     i \<leftarrow> State (registerWorkerPlugin plugin);
     rest \<leftarrow> plugin_plans names h plugins;
     State_Monad.return
       (\<lparr>pplugin_Name = firstNonBlank [names_PluginName names plugin, ''worker-plugin''],
         pplugin_CallbackURL = pluginCallbackURL h i\<rparr> # rest)
   }"

fun policy_plans ::
  "user_names \<Rightarrow> runtimeHTTPHostHandle \<Rightarrow> go_ref option list \<Rightarrow> runtimePolicyPlan list planner" where
  "policy_plans names h [] = State_Monad.return []"
| "policy_plans names h (None # policies) = policy_plans names h policies"
| "policy_plans names h (Some policy # policies) = do {
     i \<leftarrow> State (registerRuntimePolicy policy);
     rest \<leftarrow> policy_plans names h policies;
     State_Monad.return
       (\<lparr>ppolicy_Name = runtimePolicyName names (Some policy),
         ppolicy_CallbackURL = policyCallbackURL h i\<rparr> # rest)
   }"

definition sink_of :: "sink_value \<Rightarrow> reportingSink option" where
  "sink_of sink = (case sink of NilSink \<Rightarrow> None | ValueSink s \<Rightarrow> Some s | PointerSink p \<Rightarrow> p)"

text \<open>The loop over the sinks ends at the first nil one, with what was registered before it.\<close>

fun reporting_sink_plans ::
  "runtimeHTTPHostHandle \<Rightarrow> sink_value list \<Rightarrow> runtimeReportingSinkPlan list res planner" where
  "reporting_sink_plans h [] = State_Monad.return (Inr [])"
| "reporting_sink_plans h (sink # sinks) =
     (case validateContainmentReportingSink sink of
        Inl e \<Rightarrow> State_Monad.return (Inl e)
      | Inr _ \<Rightarrow> do {
          plan \<leftarrow> buildRuntimeReportingSinkPlan h (the (sink_of sink));
          rest \<leftarrow> reporting_sink_plans h sinks;
          State_Monad.return (map_sum id (\<lambda>plans. plan # plans) rest)
        })"

definition buildRuntimeContextExtensions ::
  "user_names \<Rightarrow> runtimeHTTPHostHandle \<Rightarrow> contextState \<Rightarrow> runtimeContextExtensionPlan res planner" where
  "buildRuntimeContextExtensions names h c = do {
     plugins \<leftarrow> plugin_plans names h (ctx_WorkerPlugins c);
     policies \<leftarrow> policy_plans names h (ctx_RuntimePolicies c);
     sinks \<leftarrow> reporting_sink_plans h (ctx_ReportingSinks c);
     State_Monad.return (map_sum id (\<lambda>sinks. \<lparr>pext_ReportingSinks = sinks,
       pext_WorkerPlugins = plugins, pext_RuntimePolicies = policies\<rparr>) sinks)
   }"

section \<open>Checks before a run\<close>

definition nativeGRPCUnsupportedMessage :: string where
  "nativeGRPCUnsupportedMessage = ''Native gRPC execution is not available in this SDK version. Provide the endpoint Produce/Consume delegate instead.''"

definition validate_endpoint_capabilities :: "EndpointSpec \<Rightarrow> bool \<Rightarrow> unit res" where
  "validate_endpoint_capabilities endpoint allowNativeWebSocket =
     (let mode = trim_space (ep_Mode endpoint);
          kind = to_lower (trim_space (ep_Kind endpoint))
      in if kind = ''grpc'' then
           (case ep_Grpc endpoint of
              None \<Rightarrow> Inr ()
            | Some grpc \<Rightarrow>
                if grpc_NativeClient grpc = None then Inr ()
                else if equal_fold mode ''Produce'' \<and> grpc_Produce grpc = None \<and>
                        trim_space (grpc_ProduceCallbackURL grpc) = []
                then Inl nativeGRPCUnsupportedMessage
                else if equal_fold mode ''Consume'' \<and> grpc_Consume grpc = None \<and>
                        trim_space (grpc_ConsumeCallbackURL grpc) = []
                then Inl nativeGRPCUnsupportedMessage
                else Inr ())
         else if kind = ''websocket'' \<and> \<not> allowNativeWebSocket then
           (case ep_WebSocket endpoint of
              None \<Rightarrow> Inr ()
            | Some ws \<Rightarrow>
                if ws_NativeClient ws = None then Inr ()
                else if equal_fold mode ''Produce'' \<and> ws_Produce ws = None \<and>
                        trim_space (ws_ProduceCallbackURL ws) = []
                then Inl ''Native WebSocket execution is not available in this release. Configure callback-backed Produce instead.''
                else if equal_fold mode ''Consume'' \<and> ws_Consume ws = None \<and>
                        trim_space (ws_ConsumeCallbackURL ws) = []
                then Inl ''Native WebSocket execution is not available in this release. Configure callback-backed Consume instead.''
                else Inr ())
         else Inr ())"

definition validatePlanCapabilities :: "TrackingConfigurationSpec option \<Rightarrow> bool \<Rightarrow> unit res" where
  "validatePlanCapabilities tracking allowNativeWebSocket =
     (case tracking of
        None \<Rightarrow> Inr ()
      | Some t \<Rightarrow>
          (case (case tr_Source t of None \<Rightarrow> Inr ()
                 | Some e \<Rightarrow> validate_endpoint_capabilities e allowNativeWebSocket) of
             Inl e \<Rightarrow> Inl e
           | Inr _ \<Rightarrow>
               (case tr_Destination t of None \<Rightarrow> Inr ()
                | Some e \<Rightarrow> validate_endpoint_capabilities e allowNativeWebSocket)))"

definition validateContainmentCapabilities :: "TrackingConfigurationSpec option \<Rightarrow> unit res" where
  "validateContainmentCapabilities tracking = validatePlanCapabilities tracking False"

definition validateRuntimePlanCapabilities :: "TrackingConfigurationSpec option \<Rightarrow> unit res" where
  "validateRuntimePlanCapabilities tracking = validatePlanCapabilities tracking True"

fun validate_all_capabilities :: "scenarioDefinition list \<Rightarrow> unit res" where
  "validate_all_capabilities [] = Inr ()"
| "validate_all_capabilities (scenario # scenarios) =
     (case validateRuntimePlanCapabilities (sc_Tracking scenario) of
        Inl e \<Rightarrow> Inl e
      | Inr _ \<Rightarrow> validate_all_capabilities scenarios)"

text \<open>Every scenario of the run: those of the context, then those of its mixes.\<close>

definition all_scenarios :: "contextState \<Rightarrow> scenarioDefinition list" where
  "all_scenarios c =
     ctx_scenarios c @ concat (map (\<lambda>mix. map share_Scenario (mix_ScenarioMix mix)) (ctx_trafficMixes c))"

section \<open>The plan\<close>

text \<open>The code returns the plan or an error, or panics on settings JSON cannot hold.\<close>

datatype plan_result = Planned runtimePlan | PlanError go_error | PlanPanic string

definition buildRuntimePlan ::
  "json_codec \<Rightarrow> user_names \<Rightarrow> contextState option \<Rightarrow> runtimeHTTPHostHandle \<Rightarrow> plan_result planner" where
  "buildRuntimePlan js names context h =
     (case context of
        None \<Rightarrow> State_Monad.return (PlanError ''context must be provided'')
      | Some c \<Rightarrow>
     (case validate_all_capabilities (all_scenarios c) of
        Inl e \<Rightarrow> State_Monad.return (PlanError e)
      | Inr _ \<Rightarrow>
     (case newRuntimeContextPlan c of
        Inl e \<Rightarrow> State_Monad.return (PlanPanic e)
      | Inr contextPlan \<Rightarrow> do {
          extensions \<leftarrow> buildRuntimeContextExtensions names h c;
          (case extensions of
             Inl e \<Rightarrow> State_Monad.return (PlanError e)
           | Inr ext \<Rightarrow> do {
               scenarios \<leftarrow> scenario_plans js h (ctx_scenarios c);
               mixes \<leftarrow> mix_plans js h (ctx_trafficMixes c);
               State_Monad.return (Planned
                 \<lparr>plan_SDKVersion = RuntimeArtifactVersion,
                  plan_ProtocolVersion = RuntimeProtocolVersion,
                  plan_Capabilities = runtimeBridgeCapabilities,
                  plan_Context = contextPlan\<lparr>pctx_ReportingSinks := pext_ReportingSinks ext,
                    pctx_WorkerPlugins := pext_WorkerPlugins ext,
                    pctx_RuntimePolicies := pext_RuntimePolicies ext\<rparr>,
                  plan_Scenarios = scenarios, plan_TrafficMixes = mixes\<rparr>)
             })
        })))"

section \<open>What the engine is told it can do\<close>

lemma capabilities_sorted: "sorted runtimeBridgeCapabilities"
  by (simp add: runtimeBridgeCapabilities_def)

lemma first_duplicate_strict: "sorted_wrt (<) vs \<Longrightarrow> firstDuplicateRuntimeCapability vs = []"
  by (induction vs rule: firstDuplicateRuntimeCapability.induct) auto

lemma first_difference_subset: "set ls \<subseteq> set rs \<Longrightarrow> firstRuntimeCapabilitySetDifference ls rs = []"
  by (induction ls) auto

lemma capabilities_strict: "sorted_wrt (<) runtimeBridgeCapabilities"
  by (simp add: runtimeBridgeCapabilities_def)

text \<open>
  Before a plan is sent its protocol version and its capabilities are checked, and the check
  accepts exactly the version and the list of this SDK; of the four tests that give a more precise
  message none refuses that list, and none lets another one pass.
\<close>

theorem launch_check_exact:
  "validateForLaunch plan = Inr () \<longleftrightarrow>
     plan_ProtocolVersion plan = RuntimeProtocolVersion \<and> plan_Capabilities plan = runtimeBridgeCapabilities"
  using capabilities_sorted first_duplicate_strict[OF capabilities_strict]
    first_difference_subset[of runtimeBridgeCapabilities runtimeBridgeCapabilities]
  by (auto simp: validateForLaunch_def validateRuntimeCapabilities_def Let_def)

end
