(* ===== verification/Runner.thy ===== *)
theory Runner
  imports Context
begin

text \<open>
  The runner (\<open>runner.go\<close>): it collects scenarios and traffic mixes around a context, merges a
  context that the user configured, and builds the context a run uses. The theory also proves
  what the fluent operations of the context, in any order and whether or not they panic, leave
  true of it.
\<close>

section \<open>State and operations\<close>

record runnerState =
  run_scenarios :: "scenarioDefinition list"
  run_trafficMixes :: "trafficMixDefinition list"
  run_context :: contextState

definition errNoScenarios :: go_error where
  "errNoScenarios = ''At least one scenario must be added before building the runner context.''"

definition zero_testInfo :: testInfo where
  "zero_testInfo = \<lparr>test_TestSuite = [], test_TestName = [], test_SessionID = [], test_SessionId = [],
     test_ClusterID = [], test_ClusterId = [], test_CreatedUTC = 0, test_Created = 0\<rparr>"

definition zero_nodeInfo :: nodeInfo where
  "zero_nodeInfo = \<lparr>node_NodeType = NodeTypeSingleNode, node_MachineName = [], node_CurrentOperation = [],
     node_CurrentOperationType = 0, node_CoresCount = 0, node_DotNetVersion = [],
     node_EngineVersion = [], node_OS = [], node_Processor = []\<rparr>"

definition default_context :: contextState where
  "default_context =
     \<lparr>ctx_LoadEngineContractVersion = 0, ctx_MaxInFlight = 0, ctx_ReportsEnabled = True,
      ctx_RestartIterationMaxAttempts = 3, ctx_SinkRetryCount = 3, ctx_SinkRetryBackoffMs = 250,
      ctx_ReportingIntervalSeconds = Fin 0, ctx_LicenseValidationTimeoutSeconds = Fin 10,
      ctx_MinimumLogLevel = [], ctx_LoggerConfig = [], ctx_RunnerKey = [], ctx_SessionID = [],
      ctx_ClusterID = [], ctx_AgentGroup = [], ctx_AgentID = [], ctx_ExpectedAgentIDs = [],
      ctx_NatsServerURL = [], ctx_NodeType = NodeTypeSingleNode, ctx_AgentsCount = 1,
      ctx_LocalDevClusterEnabled = False, ctx_TargetScenarios = [], ctx_AgentTargetScenarios = [],
      ctx_CoordinatorTargetScenarios = [], ctx_ScenarioCompletionTimeoutSeconds = Fin 0,
      ctx_ClusterCommandTimeoutSeconds = Fin 0, ctx_ConsoleMetricsEnabled = True,
      ctx_InfraConfigPath = [], ctx_ReportingSinks = [], ctx_WorkerPlugins = [],
      ctx_RuntimePolicies = [], ctx_RuntimePolicyErrorMode = RuntimePolicyErrorModeFail,
      ctx_ReportFileName = [], ctx_ReportFolder = [],
      ctx_ReportFormats = [''html'', ''txt'', ''csv'', ''md''], ctx_TestSuite = [], ctx_TestName = [],
      ctx_CustomSettings = [], ctx_GlobalCustomSettings = [], ctx_testInfo = zero_testInfo,
      ctx_nodeInfo = zero_nodeInfo, ctx_Logger = None, ctx_reportConfigured = False,
      ctx_scenarios = [], ctx_trafficMixes = [], ctx_configError = None, ctx_agentIndex = 0,
      ctx_agentCount = 0\<rparr>"

definition newRunnerState :: runnerState where
  "newRunnerState = \<lparr>run_scenarios = [], run_trafficMixes = [], run_context = default_context\<rparr>"

definition validateScenarioValue :: "scenarioDefinition \<Rightarrow> 's act" where
  "validateScenarioValue scenario =
     act_if (blank (sc_Name scenario)) (act_panic ''scenario name must be provided.'')"

definition addScenarioNative :: "scenarioDefinition \<Rightarrow> runnerState act" where
  "addScenarioNative scenario =
     act_seq (validateScenarioValue scenario)
       (act_ok (\<lambda>r. r\<lparr>run_scenarios := run_scenarios r @ [scenario]\<rparr>))"

text \<open>\<open>AddScenario\<close>, for a scenario that may be nil.\<close>

definition AddScenario :: "scenarioDefinition option \<Rightarrow> runnerState act" where
  "AddScenario scenario =
     (case scenario of
        None \<Rightarrow> act_panic ''scenario must be provided.''
      | Some s \<Rightarrow> addScenarioNative s)"

definition AddScenarios :: "scenarioDefinition option list \<Rightarrow> runnerState act" where
  "AddScenarios scenarios =
     act_seq (act_if (length scenarios = 0) (act_panic ''At least one scenario must be provided.''))
       (act_all (map AddScenario scenarios))"

definition AddTrafficMix :: "trafficMixDefinition \<Rightarrow> runnerState act" where
  "AddTrafficMix native =
     act_seq (act_if (length (mix_TotalLoad native) = 0)
               (act_panic ''Traffic mix total load must be configured before registration.''))
    (act_seq (act_if (length (mix_ScenarioMix native) = 0)
               (act_panic ''Traffic mix scenario shares must be configured before registration.''))
       (act_ok (\<lambda>r. r\<lparr>run_trafficMixes := run_trafficMixes r @ [native]\<rparr>)))"

text \<open>The fluent operations of the runner, which hand on to those of its context.\<close>

definition on_context :: "contextState act \<Rightarrow> runnerState act" where
  "on_context f r = (case f (run_context r) of (m, c) \<Rightarrow> (m, r\<lparr>run_context := c\<rparr>))"

definition runner_WithLicenseValidationTimeout :: "int \<Rightarrow> runnerState act" where
  "runner_WithLicenseValidationTimeout x = on_context (WithLicenseValidationTimeout x)"

definition runner_WithTestSuite :: "string \<Rightarrow> runnerState act" where
  "runner_WithTestSuite x = on_context (WithTestSuite x)"

definition runner_WithTestName :: "string \<Rightarrow> runnerState act" where
  "runner_WithTestName x = on_context (WithTestName x)"

definition runner_WithReportingInterval :: "int \<Rightarrow> runnerState act" where
  "runner_WithReportingInterval x = on_context (WithReportingInterval x)"

definition runner_UseLoadEngineV2 :: "runnerState act" where
  "runner_UseLoadEngineV2 = on_context UseLoadEngineV2"

definition runner_WithMaxInFlight :: "int \<Rightarrow> runnerState act" where
  "runner_WithMaxInFlight x = on_context (WithMaxInFlight x)"

definition runner_WithMinimumLogLevel :: "string \<Rightarrow> runnerState act" where
  "runner_WithMinimumLogLevel x = on_context (WithMinimumLogLevel x)"

definition runner_WithLoggerConfig :: "(string \<Rightarrow> file_stat) \<Rightarrow> (string \<times> go_any) list option \<Rightarrow> runnerState act" where
  "runner_WithLoggerConfig stat x = on_context (WithLoggerConfig stat x)"

definition runner_WithGlobalCustomSettings :: "(string \<times> go_any) list res \<Rightarrow> runnerState act" where
  "runner_WithGlobalCustomSettings x = on_context (WithGlobalCustomSettings x)"

definition runner_WithRunnerKey :: "string \<Rightarrow> runnerState act" where
  "runner_WithRunnerKey x = on_context (WithRunnerKey x)"

definition runner_WithSessionId :: "string \<Rightarrow> runnerState act" where
  "runner_WithSessionId x = on_context (WithSessionId x)"

definition runner_WithClusterId :: "string \<Rightarrow> runnerState act" where
  "runner_WithClusterId x = on_context (WithClusterId x)"

definition runner_WithAgentGroup :: "string \<Rightarrow> runnerState act" where
  "runner_WithAgentGroup x = on_context (WithAgentGroup x)"

definition runner_WithNatsServerURL :: "string \<Rightarrow> runnerState act" where
  "runner_WithNatsServerURL x = on_context (WithNatsServerURL x)"

definition runner_WithNodeType :: "NodeType \<Rightarrow> runnerState act" where
  "runner_WithNodeType x = on_context (WithNodeType x)"

definition runner_WithAgentsCount :: "int \<Rightarrow> runnerState act" where
  "runner_WithAgentsCount x = on_context (WithAgentsCount x)"

definition runner_WithTargetScenarios :: "string list \<Rightarrow> runnerState act" where
  "runner_WithTargetScenarios x = on_context (WithTargetScenarios x)"

definition runner_WithAgentTargetScenarios :: "string list \<Rightarrow> runnerState act" where
  "runner_WithAgentTargetScenarios x = on_context (WithAgentTargetScenarios x)"

definition runner_WithCoordinatorTargetScenarios :: "string list \<Rightarrow> runnerState act" where
  "runner_WithCoordinatorTargetScenarios x = on_context (WithCoordinatorTargetScenarios x)"

definition runner_WithScenarioCompletionTimeout :: "int \<Rightarrow> runnerState act" where
  "runner_WithScenarioCompletionTimeout x = on_context (WithScenarioCompletionTimeout x)"

definition runner_WithClusterCommandTimeout :: "int \<Rightarrow> runnerState act" where
  "runner_WithClusterCommandTimeout x = on_context (WithClusterCommandTimeout x)"

definition runner_WithDisplayConsoleMetrics :: "bool \<Rightarrow> runnerState act" where
  "runner_WithDisplayConsoleMetrics x = on_context (WithDisplayConsoleMetrics x)"

definition runner_EnableLocalDevCluster :: "bool \<Rightarrow> runnerState act" where
  "runner_EnableLocalDevCluster x = on_context (EnableLocalDevCluster x)"

definition runner_WithReportingSinks :: "sink_value list \<Rightarrow> runnerState act" where
  "runner_WithReportingSinks x = on_context (WithReportingSinks x)"

definition runner_WithPortalReporting :: "runnerState act" where
  "runner_WithPortalReporting = on_context WithPortalReporting"

definition runner_WithWorkerPlugins :: "go_ref option list \<Rightarrow> runnerState act" where
  "runner_WithWorkerPlugins x = on_context (WithWorkerPlugins x)"

definition runner_WithRuntimePolicies :: "go_ref option list \<Rightarrow> runnerState act" where
  "runner_WithRuntimePolicies x = on_context (WithRuntimePolicies x)"

definition runner_WithRuntimePolicyErrorMode :: "RuntimePolicyErrorMode \<Rightarrow> runnerState act" where
  "runner_WithRuntimePolicyErrorMode x = on_context (WithRuntimePolicyErrorMode x)"

definition runner_WithReportFolder :: "string \<Rightarrow> runnerState act" where
  "runner_WithReportFolder x = on_context (WithReportFolder x)"

definition runner_WithReportFileName :: "string \<Rightarrow> runnerState act" where
  "runner_WithReportFileName x = on_context (WithReportFileName x)"

definition runner_WithReportFormats :: "string list \<Rightarrow> runnerState act" where
  "runner_WithReportFormats x = on_context (WithReportFormats x)"

definition runner_WithRestartIterationMaxAttempts :: "int \<Rightarrow> runnerState act" where
  "runner_WithRestartIterationMaxAttempts x = on_context (WithRestartIterationMaxAttempts x)"

definition runner_WithoutReports :: "runnerState act" where
  "runner_WithoutReports = act_ok (\<lambda>r. r\<lparr>run_context := (run_context r)\<lparr>ctx_ReportsEnabled := False\<rparr>\<rparr>)"

text \<open>
  \<open>ConfigureContext\<close>: the scenarios of the context, when it has any, replace the runner's; its
  settings are copied; the rest of it becomes the runner's context.
\<close>

definition ConfigureContext :: "contextState \<Rightarrow> runnerState act" where
  "ConfigureContext native r =
     (let r = (if length (ctx_scenarios native) > 0
               then r\<lparr>run_scenarios := ctx_scenarios native\<rparr> else r);
          native = native\<lparr>ctx_scenarios := []\<rparr>
      in case cloneKnownJSONCompatibleSettings (ctx_CustomSettings native) of
           Inl e \<Rightarrow> (Some e, r)
         | Inr custom \<Rightarrow>
             (case cloneKnownJSONCompatibleSettings (ctx_GlobalCustomSettings native) of
                Inl e \<Rightarrow> (Some e, r)
              | Inr global \<Rightarrow>
                  (None, r\<lparr>run_context := native\<lparr>ctx_CustomSettings := custom,
                             ctx_GlobalCustomSettings := global\<rparr>\<rparr>)))"

text \<open>
  \<open>Configure\<close>: the callback gets the runner's own context, which it may change, and may panic; it
  returns a context, whose native part may be nil.
\<close>

type_synonym contextConfigurator = "contextState \<Rightarrow> string option \<times> contextState \<times> contextState option"

definition Configure :: "contextConfigurator option \<Rightarrow> runnerState act" where
  "Configure configure r =
     (case configure of
        None \<Rightarrow> act_panic ''configure callback must be provided'' r
      | Some f \<Rightarrow>
          (case f (run_context r) of
             (Some m, c, _) \<Rightarrow> (Some m, r\<lparr>run_context := c\<rparr>)
           | (None, c, None) \<Rightarrow> (None, r\<lparr>run_context := c\<rparr>)
           | (None, c, Some native) \<Rightarrow> ConfigureContext native (r\<lparr>run_context := c\<rparr>)))"

definition BuildContext :: "runnerState \<Rightarrow> contextState res" where
  "BuildContext r =
     (if length (run_scenarios r) = 0 \<and> length (run_trafficMixes r) = 0 then Inl errNoScenarios
      else case cloneKnownJSONCompatibleSettings (ctx_CustomSettings (run_context r)) of
             Inl e \<Rightarrow> Inl e
           | Inr custom \<Rightarrow>
               (case cloneKnownJSONCompatibleSettings (ctx_GlobalCustomSettings (run_context r)) of
                  Inl e \<Rightarrow> Inl e
                | Inr global \<Rightarrow>
                    Inr ((run_context r)\<lparr>ctx_CustomSettings := custom, ctx_GlobalCustomSettings := global,
                           ctx_scenarios := run_scenarios r, ctx_trafficMixes := run_trafficMixes r\<rparr>)))"

text \<open>\<open>RegisterScenarios\<close> and \<open>RegisterTrafficMix\<close>: a runner with these, and its context.\<close>

definition act_build :: "runnerState act \<Rightarrow> contextState res" where
  "act_build f = (case f newRunnerState of (Some m, _) \<Rightarrow> Inl m | (None, r) \<Rightarrow> BuildContext r)"

definition RegisterScenarios :: "scenarioDefinition list \<Rightarrow> contextState res" where
  "RegisterScenarios scenarios =
     (if length scenarios = 0 then Inl ''At least one scenario must be provided.''
      else act_build (act_all (map addScenarioNative scenarios)))"

definition RegisterTrafficMix :: "trafficMixDefinition \<Rightarrow> contextState res" where
  "RegisterTrafficMix trafficMix = act_build (AddTrafficMix trafficMix)"

section \<open>What every operation keeps\<close>

definition names_ok :: "string list \<Rightarrow> bool" where
  "names_ok ns \<longleftrightarrow> (\<forall>n \<in> set ns. \<not> blank n)"

definition unset_or_given :: "string \<Rightarrow> bool" where
  "unset_or_given s \<longleftrightarrow> s = [] \<or> \<not> blank s"

definition logger_ok :: "(string \<times> go_any) list \<Rightarrow> bool" where
  "logger_ok cfg \<longleftrightarrow>
     (\<forall>(k, v) \<in> set cfg. k \<in> {''target'', ''format'', ''path'', ''minimumLevel''} \<and> (\<exists>s. v = AnyString s)) \<and>
     (map_of cfg ''target'' = Some (AnyString ''file'') \<longrightarrow> map_of cfg ''path'' \<noteq> None)"

definition context_ok :: "contextState \<Rightarrow> bool" where
  "context_ok c \<longleftrightarrow>
     (ctx_MaxInFlight c = 0 \<or> 1 \<le> ctx_MaxInFlight c \<and> ctx_MaxInFlight c \<le> 1000000) \<and>
     1 \<le> ctx_AgentsCount c \<and> 0 \<le> ctx_RestartIterationMaxAttempts c \<and>
     unset_or_given (ctx_RunnerKey c) \<and> unset_or_given (ctx_TestSuite c) \<and> unset_or_given (ctx_TestName c) \<and>
     unset_or_given (ctx_SessionID c) \<and> unset_or_given (ctx_ClusterID c) \<and>
     unset_or_given (ctx_AgentGroup c) \<and> unset_or_given (ctx_AgentID c) \<and>
     unset_or_given (ctx_NatsServerURL c) \<and> unset_or_given (ctx_ReportFolder c) \<and>
     unset_or_given (ctx_ReportFileName c) \<and> unset_or_given (ctx_InfraConfigPath c) \<and>
     names_ok (ctx_TargetScenarios c) \<and> names_ok (ctx_AgentTargetScenarios c) \<and>
     names_ok (ctx_CoordinatorTargetScenarios c) \<and>
     names_ok (ctx_ExpectedAgentIDs c) \<and> distinct (ctx_ExpectedAgentIDs c) \<and>
     names_ok (ctx_ReportFormats c) \<and>
     (ctx_MinimumLogLevel c = [] \<or> canonicalLogEventLevel (ctx_MinimumLogLevel c) = Some (ctx_MinimumLogLevel c)) \<and>
     logger_ok (ctx_LoggerConfig c) \<and>
     (\<forall>s \<in> set (ctx_ReportingSinks c). \<not> isNilReportingSink s) \<and>
     None \<notin> set (ctx_WorkerPlugins c) \<and> None \<notin> set (ctx_RuntimePolicies c)"

text \<open>The fluent operations of the context, with any arguments.\<close>

inductive context_op :: "contextState act \<Rightarrow> bool" where
  "context_op UseLoadEngineV2"
| "context_op (WithMaxInFlight n)"
| "context_op (WithRunnerKey s)"
| "context_op (WithTestSuite s)"
| "context_op (WithTestName s)"
| "context_op (WithReportingInterval d)"
| "context_op (WithLicenseValidationTimeout d)"
| "context_op (WithMinimumLogLevel s)"
| "context_op (WithLoggerConfig stat cfg)"
| "context_op (WithGlobalCustomSettings settings)"
| "context_op (WithSessionId s)"
| "context_op (WithClusterId s)"
| "context_op (WithAgentGroup s)"
| "context_op (WithAgentID s)"
| "context_op (WithExpectedAgentIDs ss)"
| "context_op (WithNatsServerURL s)"
| "context_op (WithNodeType nt)"
| "context_op (EnableLocalDevCluster b)"
| "context_op (WithAgentsCount n)"
| "context_op (WithTargetScenarios ss)"
| "context_op (WithAgentTargetScenarios ss)"
| "context_op (WithCoordinatorTargetScenarios ss)"
| "context_op (WithScenarioCompletionTimeout d)"
| "context_op (WithClusterCommandTimeout d)"
| "context_op (WithDisplayConsoleMetrics b)"
| "context_op (WithReportingSinks sinks)"
| "context_op WithPortalReporting"
| "context_op (WithWorkerPlugins ps)"
| "context_op (WithRuntimePolicies ps)"
| "context_op (WithRuntimePolicyErrorMode m)"
| "context_op (WithReportFolder s)"
| "context_op (WithReportFileName s)"
| "context_op (WithReportFormats ss)"
| "context_op WithoutReports"
| "context_op (WithRestartIterationMaxAttempts n)"
| "context_op (LoadInfraConfig s)"

text \<open>A program that goes on after a panic it recovers from.\<close>

definition run_ops :: "contextState act list \<Rightarrow> contextState \<Rightarrow> contextState" where
  "run_ops fs c = fold (\<lambda>f c. snd (f c)) fs c"

lemma canonical_levels:
  "canonicalLogEventLevel ''Verbose'' = Some ''Verbose''" "canonicalLogEventLevel ''Debug'' = Some ''Debug''"
  "canonicalLogEventLevel ''Information'' = Some ''Information''"
  "canonicalLogEventLevel ''Warning'' = Some ''Warning''" "canonicalLogEventLevel ''Error'' = Some ''Error''"
  "canonicalLogEventLevel ''Fatal'' = Some ''Fatal''"
  by (simp_all add: canonicalLogEventLevel_def graphic_def to_lower_def lower_char_def char_of_def bit_0)

lemma canonical_idem: "canonicalLogEventLevel s = Some t \<Longrightarrow> canonicalLogEventLevel t = Some t"
  unfolding canonicalLogEventLevel_def [of s]
  by (drule map_of_SomeD) (auto simp only: set_simps insert_iff empty_iff prod.inject canonical_levels)

lemma default_context_ok: "context_ok default_context"
  by (simp add: context_ok_def default_context_def unset_or_given_def names_ok_def logger_ok_def
      isNilReportingSink_def blank_def graphic_def)

section \<open>The context stays valid\<close>

named_theorems keeps_intros \<open>the invariant of the context is kept\<close>

lemma act_keeps_res: "(\<And>x. r = Inr x \<Longrightarrow> act_keeps P (act_ok (f x))) \<Longrightarrow> act_keeps P (act_res r f)"
  by (cases r) (auto simp: act_res_def)

lemma act_keeps_recordConfigError: "act_keeps P (recordConfigError e)"
  by (auto simp: recordConfigError_def)

text \<open>An action after a check only has to keep the invariant where the check passes.\<close>

lemma act_keeps_checked:
  "(\<not> b \<Longrightarrow> act_keeps P f) \<Longrightarrow> act_keeps P (act_seq (act_if b (act_panic m)) f)"
  by (cases b) (auto simp: act_keeps_def act_seq_def)

lemma act_seq_all_checks:
  "act_seq (act_all (map (\<lambda>x. act_if (p x) (act_panic m)) xs)) f =
     (if list_ex p xs then act_panic m else f)"
  by (induction xs) (auto simp: act_seq_def act_if_def act_panic_def act_ok_def fun_eq_iff)

lemma validateNames_then:
  "act_seq (validateNames name vals) f =
     (if vals = [] then act_panic (name @ '' must contain at least one value'')
      else if list_ex blank vals then act_panic (name @ '' cannot contain blank values'') else f)"
  by (auto simp: validateNames_def act_seq_def act_if_def act_panic_def act_ok_def recordConfigError_def fun_eq_iff)

lemmas op_defs =
  UseLoadEngineV2_def WithRunnerKey_def WithTestSuite_def WithTestName_def
  WithReportingInterval_def WithLicenseValidationTimeout_def 
  WithGlobalCustomSettings_def WithSessionId_def WithClusterId_def
  WithAgentGroup_def WithAgentID_def WithNatsServerURL_def
  WithNodeType_def EnableLocalDevCluster_def WithAgentsCount_def WithTargetScenarios_def
  WithAgentTargetScenarios_def WithCoordinatorTargetScenarios_def
  WithScenarioCompletionTimeout_def WithClusterCommandTimeout_def WithDisplayConsoleMetrics_def
  WithReportingSinks_def WithWorkerPlugins_def WithRuntimePolicies_def
  WithRuntimePolicyErrorMode_def WithReportFolder_def WithReportFileName_def WithReportFormats_def
  WithoutReports_def WithRestartIterationMaxAttempts_def LoadInfraConfig_def

lemmas check_defs =
  requireNonBlank_def requirePositiveInt_def requireNonNegativeInt_def recordConfigError_def
  act_seq_all_checks validateNames_then

lemmas ok_defs = context_ok_def unset_or_given_def names_ok_def

lemma simple_ops_keep1:
  "act_keeps context_ok UseLoadEngineV2"
  "act_keeps context_ok (WithRunnerKey s)"
  "act_keeps context_ok (WithTestSuite s)"
  "act_keeps context_ok (WithTestName s)"
  "act_keeps context_ok (WithReportingInterval d)"
  "act_keeps context_ok (WithLicenseValidationTimeout d)"
  "act_keeps context_ok (WithGlobalCustomSettings g)"
  "act_keeps context_ok (WithSessionId s)"
  unfolding op_defs check_defs
  by (auto intro!: act_keeps_checked act_keeps_res simp: ok_defs list_ex_iff split: sum.splits if_splits)

lemma simple_ops_keep2:
  "act_keeps context_ok (WithClusterId s)"
  "act_keeps context_ok (WithAgentGroup s)"
  "act_keeps context_ok (WithAgentID s)"
  "act_keeps context_ok (WithNatsServerURL s)"
  "act_keeps context_ok (WithNodeType nt)"
  "act_keeps context_ok (EnableLocalDevCluster b)"
  "act_keeps context_ok (WithAgentsCount n)"
  "act_keeps context_ok (WithTargetScenarios ss)"
  unfolding op_defs check_defs
  by (auto intro!: act_keeps_checked act_keeps_res simp: ok_defs list_ex_iff split: sum.splits if_splits)

lemma simple_ops_keep3:
  "act_keeps context_ok (WithAgentTargetScenarios ss)"
  "act_keeps context_ok (WithCoordinatorTargetScenarios ss)"
  "act_keeps context_ok (WithScenarioCompletionTimeout d)"
  "act_keeps context_ok (WithClusterCommandTimeout d)"
  "act_keeps context_ok (WithDisplayConsoleMetrics b)"
  "act_keeps context_ok (WithReportingSinks sinks)"
  "act_keeps context_ok (WithWorkerPlugins ps)"
  "act_keeps context_ok (WithRuntimePolicies ps)"
  unfolding op_defs check_defs
  by (auto intro!: act_keeps_checked act_keeps_res simp: ok_defs list_ex_iff split: sum.splits if_splits)

lemma simple_ops_keep4:
  "act_keeps context_ok (WithRuntimePolicyErrorMode m)"
  "act_keeps context_ok (WithReportFolder s)"
  "act_keeps context_ok (WithReportFileName s)"
  "act_keeps context_ok (WithReportFormats ss)"
  "act_keeps context_ok WithoutReports"
  "act_keeps context_ok (WithRestartIterationMaxAttempts n)"
  "act_keeps context_ok (LoadInfraConfig s)"
  unfolding op_defs check_defs
  by (auto intro!: act_keeps_checked act_keeps_res simp: ok_defs list_ex_iff split: sum.splits if_splits)

lemmas simple_ops_keep = simple_ops_keep1 simple_ops_keep2 simple_ops_keep3 simple_ops_keep4

lemma WithMaxInFlight_keeps: "act_keeps context_ok (WithMaxInFlight n)"
  by (auto simp: act_keeps_def WithMaxInFlight_def context_ok_def)

lemma WithMinimumLogLevel_keeps: "act_keeps context_ok (WithMinimumLogLevel s)"
  unfolding WithMinimumLogLevel_def
  by (rule act_keeps_res) (auto simp: normalizeLogEventLevel_def context_ok_def canonical_idem split: option.splits)

lemma context_ok_expected:
  "context_ok c \<Longrightarrow> names_ok ids \<Longrightarrow> distinct ids \<Longrightarrow> context_ok (c\<lparr>ctx_ExpectedAgentIDs := ids\<rparr>)"
  by (simp add: context_ok_def)

lemma expected_ok: "context_ok c \<Longrightarrow> names_ok (ctx_ExpectedAgentIDs c) \<and> distinct (ctx_ExpectedAgentIDs c)"
  by (simp add: context_ok_def)

lemma add_agent_ids_keeps:
  "context_ok c \<Longrightarrow> set (ctx_ExpectedAgentIDs c) \<subseteq> seen \<Longrightarrow> context_ok (snd (add_agent_ids seen ids c))"
proof (induction ids arbitrary: seen c)
  case (Cons a ids)
  let ?c = "c\<lparr>ctx_ExpectedAgentIDs := ctx_ExpectedAgentIDs c @ [a]\<rparr>"
  show ?case
  proof (cases "blank a \<or> a \<in> seen")
    case True
    with Cons.prems show ?thesis
      by (auto simp: act_seq_def act_if_def requireNonBlank_def recordConfigError_def)
  next
    case False
    with Cons.prems have "names_ok (ctx_ExpectedAgentIDs c @ [a])" "distinct (ctx_ExpectedAgentIDs c @ [a])"
      using expected_ok [OF Cons.prems(1)] by (auto simp: names_ok_def)
    from context_ok_expected [OF Cons.prems(1) this]
    have "context_ok ?c" "set (ctx_ExpectedAgentIDs ?c) \<subseteq> insert a seen"
      using Cons.prems(2) by auto
    from Cons.IH[OF this] False show ?thesis
      by (simp add: act_seq_def act_if_def requireNonBlank_def)
  qed
qed simp

lemma WithExpectedAgentIDs_keeps: "act_keeps context_ok (WithExpectedAgentIDs ids)"
proof -
  have "context_ok c \<Longrightarrow> context_ok (c\<lparr>ctx_ExpectedAgentIDs := []\<rparr>)" for c
    by (simp add: context_ok_expected names_ok_def)
  then show ?thesis
    unfolding WithExpectedAgentIDs_def
    by (intro act_keeps_checked) (simp add: act_keeps_def act_seq_def add_agent_ids_keeps)
qed

lemma WithPortalReporting_keeps: "act_keeps context_ok WithPortalReporting"
  by (auto simp: act_keeps_def WithPortalReporting_def act_res_def context_ok_def isNilReportingSink_def
      split: sum.splits)

lemma opt_entry_simps [simp]: "opt_entry k None = []" "opt_entry k (Some s) = [(k, AnyString s)]"
  by (simp_all add: opt_entry_def)

lemma logger_entries:
  "set (opt_entry k v) = (case v of None \<Rightarrow> {} | Some s \<Rightarrow> {(k, AnyString s)})"
  by (cases v) auto

lemma logger_result_ok:
  assumes "target = Some ''file'' \<longrightarrow> path \<noteq> None"
  shows "logger_ok (opt_entry ''target'' target @ opt_entry ''format'' fmt @
                    opt_entry ''path'' path @ opt_entry ''minimumLevel'' minimum)"
  using assms
  by (cases target; cases fmt; cases path; cases minimum) (simp_all add: logger_ok_def)

lemma normalized_logger_ok: "normalizeLoggerConfiguration stat cfg = Inr out \<Longrightarrow> logger_ok out"
  unfolding normalizeLoggerConfiguration_def
  by (auto split: option.splits sum.splits if_splits intro: logger_result_ok)

lemma WithLoggerConfig_keeps: "act_keeps context_ok (WithLoggerConfig stat cfg)"
  by (auto simp: act_keeps_def WithLoggerConfig_def act_res_def context_ok_def
      split: sum.splits dest: normalized_logger_ok)

lemma context_op_keeps: "context_op f \<Longrightarrow> act_keeps context_ok f"
  by (induction rule: context_op.induct)
    (rule simple_ops_keep WithMaxInFlight_keeps WithMinimumLogLevel_keeps WithExpectedAgentIDs_keeps
      WithPortalReporting_keeps WithLoggerConfig_keeps)+

section \<open>Properties of the context\<close>

lemma run_ops_keeps: "list_all context_op fs \<Longrightarrow> context_ok c \<Longrightarrow> context_ok (run_ops fs c)"
  by (induction fs arbitrary: c) (auto simp: run_ops_def dest: context_op_keeps act_keepsD)



section \<open>Properties of the runner\<close>

definition scenarios_named :: "scenarioDefinition list \<Rightarrow> bool" where
  "scenarios_named ss \<longleftrightarrow> (\<forall>s \<in> set ss. \<not> blank (sc_Name s))"

definition mixes_configured :: "trafficMixDefinition list \<Rightarrow> bool" where
  "mixes_configured ms \<longleftrightarrow> (\<forall>m \<in> set ms. mix_TotalLoad m \<noteq> [] \<and> mix_ScenarioMix m \<noteq> [])"

definition full_context_ok :: "contextState \<Rightarrow> bool" where
  "full_context_ok c \<longleftrightarrow> context_ok c \<and> scenarios_named (ctx_scenarios c) \<and> mixes_configured (ctx_trafficMixes c)"

definition runner_ok :: "runnerState \<Rightarrow> bool" where
  "runner_ok r \<longleftrightarrow>
     full_context_ok (run_context r) \<and> scenarios_named (run_scenarios r) \<and> mixes_configured (run_trafficMixes r)"

text \<open>
  The operations of a runner. The contexts that \<open>ConfigureContext\<close> and \<open>Configure\<close> bring in are
  ones that the fluent operations left valid.
\<close>

inductive runner_op :: "runnerState act \<Rightarrow> bool" where
  "runner_op (AddScenario s)"
| "runner_op (AddScenarios ss)"
| "runner_op (AddTrafficMix m)"
| "context_op f \<Longrightarrow> runner_op (on_context f)"
| "runner_op runner_WithoutReports"
| "full_context_ok c \<Longrightarrow> runner_op (ConfigureContext c)"
| "(\<And>c m c' n. f c = (m, c', n) \<Longrightarrow> full_context_ok c \<Longrightarrow>
       full_context_ok c' \<and> (\<forall>d. n = Some d \<longrightarrow> full_context_ok d)) \<Longrightarrow>
   runner_op (Configure (Some f))"
| "runner_op (Configure None)"

lemma addScenarioNative_keeps: "act_keeps runner_ok (addScenarioNative s)"
  by (auto simp: act_keeps_def addScenarioNative_def validateScenarioValue_def act_seq_def act_if_def
      runner_ok_def scenarios_named_def)

lemma AddScenario_keeps: "act_keeps runner_ok (AddScenario s)"
  by (cases s) (auto simp: AddScenario_def addScenarioNative_keeps)

lemma AddScenarios_keeps: "act_keeps runner_ok (AddScenarios ss)"
  unfolding AddScenarios_def by (intro act_keeps_checked act_keeps_all) (auto simp: AddScenario_keeps)

lemma AddTrafficMix_keeps: "act_keeps runner_ok (AddTrafficMix m)"
  unfolding AddTrafficMix_def
  by (intro act_keeps_checked act_keeps_ok) (auto simp: runner_ok_def mixes_configured_def)

text \<open>The fluent operations of a context leave its scenarios and mixes as they are.\<close>

abbreviation holds_load :: "scenarioDefinition list \<Rightarrow> trafficMixDefinition list \<Rightarrow> contextState \<Rightarrow> bool" where
  "holds_load ss ms c \<equiv> ctx_scenarios c = ss \<and> ctx_trafficMixes c = ms"

lemma add_agent_ids_load: "act_keeps (holds_load ss ms) (add_agent_ids seen ids)"
  by (induction ids arbitrary: seen)
    (auto intro!: act_keeps_seq act_keeps_if simp: requireNonBlank_def recordConfigError_def)

lemma special_ops_load:
  "act_keeps (holds_load ss ms) (WithMaxInFlight n)" "act_keeps (holds_load ss ms) WithPortalReporting"
  "act_keeps (holds_load ss ms) (WithMinimumLogLevel s)" "act_keeps (holds_load ss ms) (WithLoggerConfig st cfg)"
  by (auto simp: act_keeps_def WithMaxInFlight_def WithPortalReporting_def WithMinimumLogLevel_def
      WithLoggerConfig_def act_res_def split: sum.splits)

lemma WithExpectedAgentIDs_load: "act_keeps (holds_load ss ms) (WithExpectedAgentIDs ids)"
  unfolding WithExpectedAgentIDs_def recordConfigError_def
  by (auto intro!: act_keeps_seq act_keeps_if add_agent_ids_load)

lemma context_op_load: "context_op f \<Longrightarrow> act_keeps (holds_load ss ms) f"
  by (induction rule: context_op.induct; (rule special_ops_load WithExpectedAgentIDs_load)?;
      (unfold op_defs check_defs)?;
      (auto intro!: act_keeps_checked act_keeps_res split: sum.splits)?; (simp add: act_keeps_def)?)

lemma context_op_full: "context_op f \<Longrightarrow> act_keeps full_context_ok f"
  using context_op_keeps [of f] context_op_load [of f]
  by (auto simp: act_keeps_def full_context_ok_def)

lemma on_context_keeps: "context_op f \<Longrightarrow> act_keeps runner_ok (on_context f)"
  using context_op_full [of f] by (auto simp: act_keeps_def on_context_def runner_ok_def split: prod.splits)

lemma full_context_settings:
  "full_context_ok c \<Longrightarrow>
   full_context_ok (c\<lparr>ctx_scenarios := [], ctx_CustomSettings := u, ctx_GlobalCustomSettings := v\<rparr>)"
  by (simp add: full_context_ok_def context_ok_def scenarios_named_def)

lemma ConfigureContext_keeps: "full_context_ok c \<Longrightarrow> act_keeps runner_ok (ConfigureContext c)"
  using full_context_settings [of c]
  by (auto simp: act_keeps_def ConfigureContext_def Let_def runner_ok_def full_context_ok_def split: sum.splits)

lemma Configure_keeps:
  assumes "\<And>c m c' n. f c = (m, c', n) \<Longrightarrow> full_context_ok c \<Longrightarrow>
             full_context_ok c' \<and> (\<forall>d. n = Some d \<longrightarrow> full_context_ok d)"
  shows "act_keeps runner_ok (Configure (Some f))"
proof (unfold act_keeps_def, intro allI impI)
  fix r assume r: "runner_ok r"
  obtain m c n where f: "f (run_context r) = (m, c, n)" by (cases "f (run_context r)") auto
  from assms [OF f] r have c: "full_context_ok c" "\<And>d. n = Some d \<Longrightarrow> full_context_ok d"
    by (auto simp: runner_ok_def)
  with r have r': "runner_ok (r\<lparr>run_context := c\<rparr>)" by (simp add: runner_ok_def)
  show "runner_ok (snd (Configure (Some f) r))"
  proof (cases m)
    case None
    then show ?thesis
      using f r' act_keepsD [OF ConfigureContext_keeps r'] c(2)
      by (cases n) (simp_all add: Configure_def)
  qed (simp add: Configure_def f r')
qed

lemma runner_op_keeps: "runner_op f \<Longrightarrow> act_keeps runner_ok f"
proof (induction rule: runner_op.induct)
  case 5
  have "full_context_ok c \<Longrightarrow> full_context_ok (c\<lparr>ctx_ReportsEnabled := False\<rparr>)" for c
    by (simp add: full_context_ok_def context_ok_def)
  then show ?case
    unfolding runner_WithoutReports_def by (intro act_keeps_ok) (simp add: runner_ok_def)
next
  case (7 f)
  then show ?case by (rule Configure_keeps)
next
  case 8
  show ?case by (simp add: act_keeps_def Configure_def)
qed (simp_all add: AddScenario_keeps AddScenarios_keeps AddTrafficMix_keeps on_context_keeps ConfigureContext_keeps)

lemma new_runner_ok: "runner_ok newRunnerState"
  using default_context_ok
  by (simp add: runner_ok_def newRunnerState_def full_context_ok_def scenarios_named_def mixes_configured_def
      default_context_def)

definition run_runner :: "runnerState act list \<Rightarrow> runnerState" where
  "run_runner fs = fold (\<lambda>f r. snd (f r)) fs newRunnerState"

lemma run_runner_keeps: "list_all runner_op fs \<Longrightarrow> runner_ok r \<Longrightarrow> runner_ok (fold (\<lambda>f r. snd (f r)) fs r)"
  by (induction fs arbitrary: r) (auto dest: runner_op_keeps act_keepsD)

lemma BuildContext_cases:
  "BuildContext r = Inr c \<Longrightarrow>
     (run_scenarios r \<noteq> [] \<or> run_trafficMixes r \<noteq> []) \<and>
     ctx_scenarios c = run_scenarios r \<and> ctx_trafficMixes c = run_trafficMixes r \<and>
     (context_ok (run_context r) \<longrightarrow> context_ok c)"
  by (auto simp: BuildContext_def context_ok_def split: if_splits sum.splits)



text \<open>a context that holds a traffic mix and no scenario loses the mix when a new runner is
  configured with it: the runner then has nothing to run and \<open>BuildContext\<close> panics.\<close>

theorem configure_context_drops_mixes:
  assumes "RegisterTrafficMix m = Inr c" and "ConfigureContext c newRunnerState = (None, r)"
  shows "ctx_trafficMixes c = [m] \<and> BuildContext r = Inl errNoScenarios"
proof -
  from assms(1) have c: "ctx_scenarios c = []" "ctx_trafficMixes c = [m]"
    by (auto simp: RegisterTrafficMix_def act_build_def AddTrafficMix_def act_seq_def act_if_def
        newRunnerState_def BuildContext_def split: if_splits sum.splits prod.splits option.splits)
  with assms(2) have "run_scenarios r = []" "run_trafficMixes r = []"
    by (auto simp: ConfigureContext_def newRunnerState_def Let_def split: sum.splits)
  with c show ?thesis by (simp add: BuildContext_def)
qed

theorem configure_context_drops_mixes_witness:
  "BuildContext (newRunnerState\<lparr>run_context := default_context\<lparr>ctx_trafficMixes :=
     [\<lparr>mix_Name = ''mix'', mix_TotalLoad = [zero_simulation],
       mix_ScenarioMix = [\<lparr>share_Scenario = zero_scenario, share_Weight = 1\<rparr>]\<rparr>]\<rparr>\<rparr>) = Inl errNoScenarios"
  (is "BuildContext ?r = _")
proof -
  let ?m = "\<lparr>mix_Name = ''mix'', mix_TotalLoad = [zero_simulation],
       mix_ScenarioMix = [\<lparr>share_Scenario = zero_scenario, share_Weight = 1\<rparr>]\<rparr>"
  let ?c = "default_context\<lparr>ctx_trafficMixes := [?m]\<rparr>"
  have "RegisterTrafficMix ?m = Inr ?c"
    by (simp add: RegisterTrafficMix_def act_build_def AddTrafficMix_def act_seq_def newRunnerState_def
        BuildContext_def default_context_def cloneKnownJSONCompatibleSettings_def)
  moreover have "ConfigureContext ?c newRunnerState = (None, ?r)"
    by (simp add: ConfigureContext_def newRunnerState_def default_context_def
        cloneKnownJSONCompatibleSettings_def)
  ultimately show ?thesis using configure_context_drops_mixes by blast
qed

end
