(* ===== verification/Plan_Registrations.thy ===== *)
theory Plan_Registrations
  imports Runtime_Plan Runner
begin

text \<open>
  What building a plan does, as a specification: the list of registrations it makes, read off the
  context, and the URLs of the plan that stand for each of them. The builder is shown to refine it:
  it performs exactly these registrations, in this order, and puts exactly their URLs in the plan.
\<close>

section \<open>The registrations of a context\<close>

text \<open>The addresses at which the host answers for a registration.\<close>

fun callback_urls :: "runtimeHTTPHostHandle \<Rightarrow> registration \<Rightarrow> string \<Rightarrow> string list" where
  "callback_urls h (RegScenario s) i =
     [scenarioCallbackURL h i ''step'', scenarioCallbackURL h i ''metrics''] @
     (if sc_Init s \<noteq> None then [scenarioCallbackURL h i ''init''] else []) @
     (if sc_Clean s \<noteq> None then [scenarioCallbackURL h i ''clean''] else [])"
| "callback_urls h (RegThreshold t) i = [thresholdCallbackURL h i]"
| "callback_urls h (RegPublisher f) i = [reportingPublishCallbackURL h i]"
| "callback_urls h (RegPlugin p) i = [pluginCallbackURL h i]"
| "callback_urls h (RegSink s) i = [sinkCallbackURL h i]"
| "callback_urls h (RegPolicy p) i = [policyCallbackURL h i]"
| "callback_urls h (RegProduce f) i = [trackingProduceCallbackURL h i]"
| "callback_urls h (RegConsume f) i = [trackingConsumeCallbackURL h i]"
| "callback_urls h (RegObservation c) i = [observationCancellationCallbackURL h i]"
| "callback_urls h (RegStep sn st f) i = []"

definition opt_regs :: "('f \<Rightarrow> registration) \<Rightarrow> 'f option \<Rightarrow> registration list" where
  "opt_regs reg f = (case f of None \<Rightarrow> [] | Some f \<Rightarrow> [reg f])"

definition opt_urls :: "'f option \<Rightarrow> string \<Rightarrow> string list list" where
  "opt_urls f url = (case f of None \<Rightarrow> [] | Some _ \<Rightarrow> [[url]])"

definition threshold_regs :: "ThresholdSpec list \<Rightarrow> registration list" where
  "threshold_regs ts = map RegThreshold (filter (\<lambda>t. newRuntimeThresholdRegistration t \<noteq> None) ts)"

fun threshold_urls :: "ThresholdSpec list \<Rightarrow> runtimeThresholdPlan list \<Rightarrow> string list list" where
  "threshold_urls (t # ts) (p # ps) =
     opt_urls (newRuntimeThresholdRegistration t) (pth_PredicateCallbackURL p) @ threshold_urls ts ps"
| "threshold_urls _ _ = []"

definition delegate_regs :: "DelegateEndpointOptions \<Rightarrow> registration list" where
  "delegate_regs d = opt_regs RegProduce (delegate_Produce d) @ opt_regs RegConsume (delegate_Consume d)"

definition delegate_urls :: "DelegateEndpointOptions \<Rightarrow> DelegateEndpointOptions \<Rightarrow> string list list" where
  "delegate_urls d c = opt_urls (delegate_Produce d) (delegate_ProduceCallbackURL c) @
     opt_urls (delegate_Consume d) (delegate_ConsumeCallbackURL c)"

definition push_regs :: "PushDiffusionEndpointOptions \<Rightarrow> registration list" where
  "push_regs d = opt_regs RegProduce (push_Publish d) @ opt_regs RegConsume (push_Subscribe d)"

definition push_urls :: "PushDiffusionEndpointOptions \<Rightarrow> PushDiffusionEndpointOptions \<Rightarrow> string list list" where
  "push_urls d c = opt_urls (push_Publish d) (push_PublishCallbackURL c) @
     opt_urls (push_Subscribe d) (push_SubscribeCallbackURL c)"

definition grpc_regs :: "GrpcEndpointOptions \<Rightarrow> registration list" where
  "grpc_regs d = opt_regs RegProduce (grpc_Produce d) @ opt_regs RegConsume (grpc_Consume d)"

definition grpc_urls :: "GrpcEndpointOptions \<Rightarrow> GrpcEndpointOptions \<Rightarrow> string list list" where
  "grpc_urls d c = opt_urls (grpc_Produce d) (grpc_ProduceCallbackURL c) @
     opt_urls (grpc_Consume d) (grpc_ConsumeCallbackURL c)"

definition ws_regs :: "WebSocketEndpointOptions \<Rightarrow> registration list" where
  "ws_regs d = opt_regs RegProduce (ws_Produce d) @ opt_regs RegConsume (ws_Consume d)"

definition ws_urls :: "WebSocketEndpointOptions \<Rightarrow> WebSocketEndpointOptions \<Rightarrow> string list list" where
  "ws_urls d c = opt_urls (ws_Produce d) (ws_ProduceCallbackURL c) @
     opt_urls (ws_Consume d) (ws_ConsumeCallbackURL c)"

text \<open>For a part that may be missing, of the source and of its copy.\<close>

definition part_regs :: "('c \<Rightarrow> registration list) \<Rightarrow> 'c option \<Rightarrow> registration list" where
  "part_regs regs d = (case d of None \<Rightarrow> [] | Some d \<Rightarrow> regs d)"

definition part_urls :: "('c \<Rightarrow> 'c \<Rightarrow> string list list) \<Rightarrow> 'c option \<Rightarrow> 'c option \<Rightarrow> string list list" where
  "part_urls urls d c = (case (d, c) of (Some d, Some c) \<Rightarrow> urls d c | _ \<Rightarrow> [])"

definition endpoint_regs :: "EndpointSpec \<Rightarrow> registration list" where
  "endpoint_regs e = part_regs delegate_regs (ep_DelegateStream e) @ part_regs push_regs (ep_PushDiffusion e) @
     part_regs grpc_regs (ep_Grpc e) @ part_regs ws_regs (ep_WebSocket e)"

definition endpoint_urls :: "EndpointSpec \<Rightarrow> EndpointSpec \<Rightarrow> string list list" where
  "endpoint_urls e c =
     part_urls delegate_urls (ep_DelegateStream e) (ep_DelegateStream c) @
     part_urls push_urls (ep_PushDiffusion e) (ep_PushDiffusion c) @
     part_urls grpc_urls (ep_Grpc e) (ep_Grpc c) @ part_urls ws_urls (ep_WebSocket e) (ep_WebSocket c)"

definition tracking_regs :: "json_codec \<Rightarrow> TrackingConfigurationSpec \<Rightarrow> registration list" where
  "tracking_regs js t =
     (if \<not> json_accepts js t then []
      else opt_regs (\<lambda>c. RegObservation (Some c)) (tr_ObservationCancellationContext t) @
           part_regs endpoint_regs (tr_Source t) @ part_regs endpoint_regs (tr_Destination t))"

definition tracking_urls ::
  "json_codec \<Rightarrow> TrackingConfigurationSpec \<Rightarrow> TrackingConfigurationSpec \<Rightarrow> string list list" where
  "tracking_urls js t c =
     (if \<not> json_accepts js t then []
      else opt_urls (tr_ObservationCancellationContext t) (tr_ObservationCancellationCallbackURL c) @
           part_urls endpoint_urls (tr_Source t) (tr_Source c) @
           part_urls endpoint_urls (tr_Destination t) (tr_Destination c))"

definition scenario_regs :: "json_codec \<Rightarrow> scenarioDefinition \<Rightarrow> registration list" where
  "scenario_regs js s =
     threshold_regs (sc_Thresholds s) @
     (if sc_AutopilotHTTP s = None then [RegScenario s] else []) @
     part_regs (tracking_regs js) (sc_Tracking s)"

definition scenario_slot :: "scenarioDefinition \<Rightarrow> runtimeScenarioPlan \<Rightarrow> string list" where
  "scenario_slot s p =
     [pscn_StepCallbackURL p, pscn_MetricsCallbackURL p] @
     (if sc_Init s \<noteq> None then [pscn_InitCallbackURL p] else []) @
     (if sc_Clean s \<noteq> None then [pscn_CleanCallbackURL p] else [])"

definition scenario_urls :: "json_codec \<Rightarrow> scenarioDefinition \<Rightarrow> runtimeScenarioPlan \<Rightarrow> string list list" where
  "scenario_urls js s p =
     threshold_urls (sc_Thresholds s) (pscn_Thresholds p) @
     (if sc_AutopilotHTTP s = None then [scenario_slot s p] else []) @
     part_urls (tracking_urls js) (sc_Tracking s) (pscn_Tracking p)"

fun sink_regs :: "reportingSink \<Rightarrow> registration list" where
  "sink_regs (KafkaReportingSink opts) = opt_regs RegPublisher (ksink_Publish opts)"
| "sink_regs (CustomReportingSink name batches r) = [RegSink r]"
| "sink_regs _ = []"

fun sink_urls :: "reportingSink \<Rightarrow> runtimeReportingSinkPlan \<Rightarrow> string list list" where
  "sink_urls (KafkaReportingSink opts) p = opt_urls (ksink_Publish opts) (psink_PublishCallbackURL p)"
| "sink_urls (CustomReportingSink name batches r) p = [[psink_CallbackURL p]]"
| "sink_urls _ p = []"

definition given :: "'a option list \<Rightarrow> 'a list" where
  "given vs = map the (filter (\<lambda>v. v \<noteq> None) vs)"

definition context_regs :: "contextState \<Rightarrow> registration list" where
  "context_regs c =
     map RegPlugin (given (ctx_WorkerPlugins c)) @ map RegPolicy (given (ctx_RuntimePolicies c)) @
     concat (map (\<lambda>s. part_regs sink_regs (sink_of s)) (ctx_ReportingSinks c))"

definition context_urls :: "contextState \<Rightarrow> runtimeContextPlan \<Rightarrow> string list list" where
  "context_urls c p =
     map (\<lambda>q. [pplugin_CallbackURL q]) (pctx_WorkerPlugins p) @
     map (\<lambda>q. [ppolicy_CallbackURL q]) (pctx_RuntimePolicies p) @
     concat (map2 (\<lambda>s q. case sink_of s of None \<Rightarrow> [] | Some s \<Rightarrow> sink_urls s q)
       (ctx_ReportingSinks c) (pctx_ReportingSinks p))"

definition plan_registrations :: "json_codec \<Rightarrow> contextState \<Rightarrow> registration list" where
  "plan_registrations js c = context_regs c @ concat (map (scenario_regs js) (all_scenarios c))"

text \<open>The scenario plans of a plan, in the order of \<open>all_scenarios\<close>.\<close>

definition planned_scenarios :: "runtimePlan \<Rightarrow> runtimeScenarioPlan list" where
  "planned_scenarios p =
     plan_Scenarios p @ concat (map (\<lambda>m. map pshare_Scenario (pmix_ScenarioMix m)) (plan_TrafficMixes p))"

definition plan_urls :: "json_codec \<Rightarrow> contextState \<Rightarrow> runtimePlan \<Rightarrow> string list list" where
  "plan_urls js c p =
     context_urls c (plan_Context p) @
     concat (map2 (scenario_urls js) (all_scenarios c) (planned_scenarios p))"

section \<open>Builders that register\<close>

text \<open>
  \<open>makes xs Q m\<close>: on an open registry \<open>m\<close> performs the registrations \<open>xs\<close>, one after the other, and
  nothing else, and \<open>Q\<close> relates their identifiers and its result.
\<close>

definition makes :: "registration list \<Rightarrow> (string list \<Rightarrow> 'a \<Rightarrow> bool) \<Rightarrow> 'a planner \<Rightarrow> bool" where
  "makes xs Q m \<longleftrightarrow> list_all registrable xs \<and>
     (\<forall>r. \<not> rg_closed r \<longrightarrow>
        snd (run_state m r) = snd (register_all xs r) \<and> Q (fst (register_all xs r)) (fst (run_state m r)))"

lemma register_all_append:
  "register_all (xs @ ys) r =
     (case register_all xs r of (is, r) \<Rightarrow> case register_all ys r of (js, r) \<Rightarrow> (is @ js, r))"
  by (induction xs arbitrary: r) (auto split: prod.splits)

lemma register_all_open:
  "\<not> rg_closed r \<Longrightarrow> list_all registrable xs \<Longrightarrow>
     \<not> rg_closed (snd (register_all xs r)) \<and> length (fst (register_all xs r)) = length xs \<and>
     list_all path_safe (fst (register_all xs r))"
proof (induction xs arbitrary: r)
  case (Cons x xs)
  obtain i r1 where one: "register_one x r = (i, r1)" by fastforce
  have "\<not> rg_closed r1" using register_one_step[OF one] Cons.prems by simp
  moreover have "path_safe i"
    using one Cons.prems
    by (cases x) (auto simp: register_defs registerThreshold_def registerObservationCancellation_def
        next_id_def path_safe_def raw_url_no_slash url_digits_safe raw_url_graphic graphic_def
        split: option.splits if_splits)
  ultimately show ?case using Cons.IH[of r1] Cons.prems one by (auto split: prod.splits)
qed simp

lemma makes_return: "Q [] v \<Longrightarrow> makes [] Q (State_Monad.return v)"
  by (simp add: makes_def)

lemma makes_bind:
  assumes m: "makes xs Q m"
    and k: "\<And>is v. length is = length xs \<Longrightarrow> list_all path_safe is \<Longrightarrow> Q is v \<Longrightarrow>
              makes ys (\<lambda>js w. S (is @ js) w) (k v)"
    and zs: "zs = xs @ ys"
  shows "makes zs S (State_Monad.bind m k)"
proof -
  have reg: "list_all registrable xs" using m by (simp add: makes_def)
  have step: "snd (run_state (State_Monad.bind m k) r) = snd (register_all zs r) \<and>
      S (fst (register_all zs r)) (fst (run_state (State_Monad.bind m k) r))" if r: "\<not> rg_closed r" for r
  proof -
    obtain "is" r1 where xs: "register_all xs r = (is, r1)" by fastforce
    obtain v where v: "run_state m r = (v, r1)" and q: "Q is v"
      using m r xs unfolding makes_def by (metis fst_conv snd_conv prod.collapse)
    from register_all_open[OF r reg] xs have "makes ys (\<lambda>js w. S (is @ js) w) (k v)" and r1: "\<not> rg_closed r1"
      using k[OF _ _ q] by auto
    then show ?thesis using v xs by (auto simp: makes_def zs register_all_append split: prod.splits)
  qed
  have "list_all registrable zs"
  proof -
    obtain "is" r1 where xs: "register_all xs (newRuntimeCallbackRegistry counter_entropy) = (is, r1)" by fastforce
    have o: "\<not> rg_closed (newRuntimeCallbackRegistry counter_entropy)" by (simp add: newRuntimeCallbackRegistry_def)
    then obtain v where "Q is v" using m xs unfolding makes_def by (metis fst_conv)
    with register_all_open[OF o reg] xs have "makes ys (\<lambda>js w. S (is @ js) w) (k v)" using k by auto
    then show ?thesis using reg by (simp add: makes_def zs)
  qed
  with step show ?thesis by (simp add: makes_def)
qed

lemma makes_mono: "makes xs Q m \<Longrightarrow> (\<And>is v. length is = length xs \<Longrightarrow> Q is v \<Longrightarrow> S is v) \<Longrightarrow> makes xs S m"
  using register_all_open unfolding makes_def by blast

text \<open>The URLs \<open>U\<close> of the result are those of the registrations.\<close>

abbreviation url_list :: "runtimeHTTPHostHandle \<Rightarrow> registration list \<Rightarrow> string list \<Rightarrow> string list list" where
  "url_list h xs is \<equiv> map2 (callback_urls h) xs is"

definition registers ::
  "runtimeHTTPHostHandle \<Rightarrow> registration list \<Rightarrow> ('a \<Rightarrow> string list list) \<Rightarrow> 'a planner \<Rightarrow> bool" where
  "registers h xs U m \<longleftrightarrow> makes xs (\<lambda>is v. U v = url_list h xs is) m"

text \<open>The same after others, whose URLs are \<open>acc\<close>.\<close>

definition emits ::
  "runtimeHTTPHostHandle \<Rightarrow> registration list \<Rightarrow> ('a \<Rightarrow> string list list) \<Rightarrow> string list list \<Rightarrow> 'a planner \<Rightarrow> bool" where
  "emits h xs W acc m \<longleftrightarrow> makes xs (\<lambda>is w. W w = acc @ url_list h xs is) m"

lemma emits_registers: "emits h xs U [] m \<Longrightarrow> registers h xs U m"
  by (simp add: emits_def registers_def)

lemma emits_return: "W v = acc \<Longrightarrow> emits h [] W acc (State_Monad.return v)"
  by (simp add: emits_def makes_return)

lemma emits_bind_frame:
  assumes "makes xs (\<lambda>is v. U v = url_list h xs is \<and> R v) m"
    and "\<And>v. R v \<Longrightarrow> emits h ys W (acc @ U v) (k v)"
  shows "emits h (xs @ ys) W acc (State_Monad.bind m k)"
  unfolding emits_def
proof (rule makes_bind[OF assms(1) _ refl])
  fix "is" v
  assume "length is = length xs" and v: "U v = url_list h xs is \<and> R v"
  then show "makes ys (\<lambda>js w. W w = acc @ url_list h (xs @ ys) (is @ js)) (k v)"
    using assms(2)[of v] by (auto simp: emits_def elim!: makes_mono)
qed

lemma emits_bind:
  "registers h xs U m \<Longrightarrow> (\<And>v. emits h ys W (acc @ U v) (k v)) \<Longrightarrow>
   emits h (xs @ ys) W acc (State_Monad.bind m k)"
  by (rule emits_bind_frame[where R = "\<lambda>_. True" and U = U]) (simp_all add: registers_def)

lemma emits_last:
  "registers h xs U m \<Longrightarrow> (\<And>v. W (f v) = acc @ U v) \<Longrightarrow>
   emits h xs W acc (State_Monad.bind m (\<lambda>v. State_Monad.return (f v)))"
  using emits_bind[of h xs U m "[]" W acc "\<lambda>v. State_Monad.return (f v)"] by (simp add: emits_return)

lemma makes_register: "registrable x \<Longrightarrow> makes [x] (\<lambda>is i. is = [i]) (State (register_one x))"
  by (auto simp: makes_def split: prod.splits)

lemma makes_into:
  assumes "\<And>x. register x = register_one (reg x)" and "\<And>x. registrable (reg x)"
  shows "makes (opt_regs reg f)
    (\<lambda>is v. (f = None \<and> v = c) \<or> (\<exists>i. is = [i] \<and> i \<noteq> [] \<and> f \<noteq> None \<and> v = assign i c))
    (register_into f register assign c)"
proof (cases f)
  case (Some x)
  have "makes [reg x] (\<lambda>is v. \<exists>i. is = [i] \<and> i \<noteq> [] \<and> v = assign i c)
    (State_Monad.bind (State (register_one (reg x))) (\<lambda>i. State_Monad.return (assign i c)))"
    by (rule makes_bind[OF makes_register[OF assms(2)], where ys = "[]"])
       (auto intro!: makes_return simp: path_safe_def)
  then show ?thesis by (simp add: Some register_into_def opt_regs_def assms(1))
qed (auto simp: register_into_def opt_regs_def intro!: makes_return)

lemma makes_into_produce:
  "makes (opt_regs RegProduce f)
    (\<lambda>is v. (f = None \<and> v = c) \<or> (\<exists>i. is = [i] \<and> i \<noteq> [] \<and> f \<noteq> None \<and> v = assign i c))
    (register_into f registerTrackingProduce assign c)"
  by (rule makes_into) (auto simp: fun_eq_iff)

lemma makes_into_consume:
  "makes (opt_regs RegConsume f)
    (\<lambda>is v. (f = None \<and> v = c) \<or> (\<exists>i. is = [i] \<and> i \<noteq> [] \<and> f \<noteq> None \<and> v = assign i c))
    (register_into f registerTrackingConsume assign c)"
  by (rule makes_into) (auto simp: fun_eq_iff)

text \<open>The two statements of a transport; \<open>P\<close> and \<open>C\<close> are the URL fields they assign.\<close>

lemma registers_pair:
  assumes "\<And>i c. P (pa i c) = trackingProduceCallbackURL h i"
    and "\<And>j c. P (ca j c) = P c"
    and "\<And>j c. C (ca j c) = trackingConsumeCallbackURL h j"
  shows "registers h (opt_regs RegProduce p @ opt_regs RegConsume q)
    (\<lambda>v. opt_urls p (P v) @ opt_urls q (C v))
    (do { c \<leftarrow> register_into p registerTrackingProduce pa c;
          register_into q registerTrackingConsume ca c })"
  unfolding registers_def
proof (rule makes_bind[OF makes_into_produce _ refl])
  fix "is" v
  assume p: "length is = length (opt_regs RegProduce p)"
    "(p = None \<and> v = c) \<or> (\<exists>i. is = [i] \<and> i \<noteq> [] \<and> p \<noteq> None \<and> v = pa i c)"
  show "makes (opt_regs RegConsume q)
     (\<lambda>js w. opt_urls p (P w) @ opt_urls q (C w) =
        url_list h (opt_regs RegProduce p @ opt_regs RegConsume q) (is @ js))
     (register_into q registerTrackingConsume ca v)"
    by (rule makes_mono[OF makes_into_consume])
       (use p assms in \<open>auto simp: opt_regs_def opt_urls_def split: option.splits\<close>)
qed

lemma registers_delegate: "registers h (delegate_regs d) (delegate_urls d) (clone_delegate_stream h d c)"
  unfolding delegate_regs_def delegate_urls_def[abs_def] clone_delegate_stream_def
  by (rule registers_pair) simp_all

lemma registers_push: "registers h (push_regs d) (push_urls d) (clone_push_diffusion h d c)"
  unfolding push_regs_def push_urls_def[abs_def] clone_push_diffusion_def
  by (rule registers_pair) simp_all

lemma registers_grpc: "registers h (grpc_regs d) (grpc_urls d) (clone_grpc h d c)"
  unfolding grpc_regs_def grpc_urls_def[abs_def] clone_grpc_def
  by (rule registers_pair) simp_all

lemma registers_ws: "registers h (ws_regs d) (ws_urls d) (clone_web_socket h d c)"
  unfolding ws_regs_def ws_urls_def[abs_def] clone_web_socket_def
  by (rule registers_pair) simp_all

lemma registers_both:
  assumes "\<And>s c. source = Some s \<Longrightarrow> cloned = Some c \<Longrightarrow> registers h (regs s) (urls s) (clone s c)"
    and "source \<noteq> None \<Longrightarrow> cloned \<noteq> None"
  shows "registers h (part_regs regs source) (part_urls urls source) (clone_both clone source cloned)"
proof (cases source)
  case (Some s)
  with assms(2) obtain c where c: "cloned = Some c" by auto
  show ?thesis unfolding Some c clone_both_def part_regs_def part_urls_def
    by (auto intro!: emits_registers emits_last[OF assms(1)[OF Some c]])
qed (auto simp: clone_both_def part_regs_def part_urls_def intro!: emits_registers emits_return)

section \<open>The builders\<close>

text \<open>A copy of an endpoint with the transports of the original.\<close>

definition same_parts :: "EndpointSpec \<Rightarrow> EndpointSpec \<Rightarrow> bool" where
  "same_parts e c \<longleftrightarrow>
     (ep_DelegateStream e \<noteq> None \<longrightarrow> ep_DelegateStream c \<noteq> None) \<and>
     (ep_PushDiffusion e \<noteq> None \<longrightarrow> ep_PushDiffusion c \<noteq> None) \<and>
     (ep_Grpc e \<noteq> None \<longrightarrow> ep_Grpc c \<noteq> None) \<and> (ep_WebSocket e \<noteq> None \<longrightarrow> ep_WebSocket c \<noteq> None)"

lemma same_parts_json: "same_parts e (json_endpoint settings e)"
  by (simp add: same_parts_def json_endpoint_def)

lemma registers_endpoint:
  "same_parts e c \<Longrightarrow> registers h (endpoint_regs e) (endpoint_urls e) (cloneEndpointSpecWithCallbackURLs h e c)"
  unfolding endpoint_regs_def cloneEndpointSpecWithCallbackURLs_def
  by (rule emits_registers)
     (intro emits_bind[OF registers_both] emits_last[OF registers_both]; simp add: same_parts_def
        endpoint_urls_def registers_delegate registers_push registers_grpc registers_ws)

lemma makes_observation:
  "makes (opt_regs (\<lambda>c. RegObservation (Some c)) f)
    (\<lambda>is v. opt_urls f (tr_ObservationCancellationCallbackURL v) =
              url_list h (opt_regs (\<lambda>c. RegObservation (Some c)) f) is \<and>
            tr_Source v = tr_Source c \<and> tr_Destination v = tr_Destination c)
    (register_observation h f c)"
  unfolding register_observation_def
  by (rule makes_mono[OF makes_into]) (auto simp: fun_eq_iff opt_urls_def opt_regs_def split: option.splits)

lemma registers_tracking:
  "registers h (tracking_regs js t) (tracking_urls js t) (cloneTrackingConfigurationWithCallbackURLs js h t)"
proof (cases "json_round_trip js t")
  case None
  then show ?thesis
    by (auto simp: cloneTrackingConfigurationWithCallbackURLs_def json_round_trip_def tracking_regs_def
        tracking_urls_def split: if_splits intro!: emits_registers emits_return)
next
  case (Some c)
  then have acc: "json_accepts js t" and c: "tr_Source c = map_option (json_endpoint (json_settings js)) (tr_Source t)"
    "tr_Destination c = map_option (json_endpoint (json_settings js)) (tr_Destination t)"
    by (auto simp: json_round_trip_def split: if_splits)
  have regs: "tracking_regs js t =
      opt_regs (\<lambda>c. RegObservation (Some c)) (tr_ObservationCancellationContext t) @
      part_regs endpoint_regs (tr_Source t) @ part_regs endpoint_regs (tr_Destination t)"
    using acc by (simp add: tracking_regs_def)
  show ?thesis
    unfolding cloneTrackingConfigurationWithCallbackURLs_def Some option.case regs
    by (rule emits_registers, intro emits_bind_frame[OF makes_observation]
        emits_bind[OF registers_both] emits_last[OF registers_both])
       (use acc in \<open>auto simp: c same_parts_json tracking_urls_def registers_endpoint\<close>)
qed

lemma makes_threshold:
  "makes (threshold_regs [t])
    (\<lambda>is (i, ok). if newRuntimeThresholdRegistration t = None then is = [] \<and> \<not> ok else is = [i] \<and> ok)
    (State (registerThreshold t))"
  by (auto simp: makes_def threshold_regs_def registerThreshold_def split: option.splits prod.splits)

lemma registers_thresholds:
  "registers h (threshold_regs ts) (threshold_urls ts) (buildRuntimeThresholdPlans h ts)"
proof (induction ts)
  case Nil
  show ?case by (auto simp: threshold_regs_def intro!: emits_registers emits_return)
next
  case (Cons t ts)
  have regs: "threshold_regs (t # ts) = threshold_regs [t] @ threshold_regs ts"
    by (simp add: threshold_regs_def)
  show ?case
    unfolding regs registers_def buildRuntimeThresholdPlans.simps
  proof (rule makes_bind[OF makes_threshold _ refl])
    fix "is" :: "string list" and v
    assume "length is = length (threshold_regs [t])"
      and "case v of (i, ok) \<Rightarrow>
        if newRuntimeThresholdRegistration t = None then is = [] \<and> \<not> ok else is = [i] \<and> ok"
    then show "makes (threshold_regs ts)
        (\<lambda>js w. threshold_urls (t # ts) w = url_list h (threshold_regs [t] @ threshold_regs ts) (is @ js))
        (case v of (i, ok) \<Rightarrow>
           let plan = newRuntimeThresholdPlan t;
               plan = (if ok then plan\<lparr>pth_PredicateCallbackURL := thresholdCallbackURL h i\<rparr> else plan)
           in do {
             rest \<leftarrow> buildRuntimeThresholdPlans h ts;
             State_Monad.return (plan # rest)
           })"
      by (cases v, simp only: prod.case Let_def,
          intro makes_bind[OF Cons.IH[unfolded registers_def], where ys = "[]"])
         (auto simp: threshold_regs_def opt_urls_def split: if_splits intro!: makes_return)
  qed
qed

lemma register_one_scenario: "register_one (RegScenario s) = registerScenario s"
  by (simp add: fun_eq_iff)

lemma makes_scenario_urls:
  "makes [RegScenario s]
    (\<lambda>is v. [scenario_slot s v] = url_list h [RegScenario s] is \<and>
            pscn_Thresholds v = pscn_Thresholds p)
    (register_scenario_urls h s p)"
  unfolding register_scenario_urls_def
  by (rule makes_bind[OF makes_register[of "RegScenario s", unfolded register_one_scenario], where ys = "[]"])
     (auto simp: Let_def scenario_slot_def intro!: makes_return)

lemma registers_scenario:
  "registers h (scenario_regs js s) (scenario_urls js s) (buildRuntimeScenarioPlan js h s)"
proof -
  have tail: "emits h (part_regs (tracking_regs js) (sc_Tracking s)) (scenario_urls js s) acc
      (case sc_Tracking s of
         None \<Rightarrow> State_Monad.return p
       | Some tracking \<Rightarrow> do {
           tracking \<leftarrow> cloneTrackingConfigurationWithCallbackURLs js h tracking;
           State_Monad.return (p\<lparr>pscn_Tracking := Some tracking\<rparr>) })"
    if "acc = threshold_urls (sc_Thresholds s) (pscn_Thresholds p) @
       (if sc_AutopilotHTTP s = None then [scenario_slot s p] else [])" for p acc
    unfolding that
    by (cases "sc_Tracking s")
       (auto simp: part_regs_def part_urls_def scenario_urls_def scenario_slot_def
          intro!: emits_return emits_last[OF registers_tracking])
  show ?thesis
  proof (cases "sc_AutopilotHTTP s = None")
    case True
    have regs: "scenario_regs js s =
        threshold_regs (sc_Thresholds s) @ [RegScenario s] @ part_regs (tracking_regs js) (sc_Tracking s)"
      by (simp add: scenario_regs_def True)
    show ?thesis
      unfolding regs buildRuntimeScenarioPlan_def Let_def if_P[OF True]
      by (rule emits_registers, rule emits_bind[OF registers_thresholds],
          rule emits_bind_frame[OF makes_scenario_urls], rule tail)
         (simp add: True)
  next
    case False
    have regs: "scenario_regs js s =
        threshold_regs (sc_Thresholds s) @ part_regs (tracking_regs js) (sc_Tracking s)"
      by (simp add: scenario_regs_def False)
    show ?thesis
      unfolding regs buildRuntimeScenarioPlan_def Let_def if_not_P[OF False] bind_left_identity
      by (rule emits_registers, rule emits_bind[OF registers_thresholds], rule tail) (simp add: False)
  qed
qed

lemma registers_frame:
  "registers h xs U m \<Longrightarrow> (\<And>r. R (fst (run_state m r))) \<Longrightarrow>
   makes xs (\<lambda>is v. U v = url_list h xs is \<and> R v) m"
  by (simp add: registers_def makes_def)

lemma registers_scenarios:
  "registers h (concat (map (scenario_regs js) ss)) (\<lambda>ps. concat (map2 (scenario_urls js) ss ps))
    (scenario_plans js h ss)"
proof (induction ss)
  case (Cons s ss)
  show ?case
    by (simp, rule emits_registers, rule emits_bind[OF registers_scenario], rule emits_last[OF Cons.IH]) simp
qed (auto intro!: emits_registers emits_return)

lemma length_scenario_plans: "length (fst (run_state (scenario_plans js h ss) r)) = length ss"
  by (induction ss arbitrary: r) (auto split: prod.splits, metis fst_conv)

lemma registers_shares:
  "registers h (concat (map (scenario_regs js) (map share_Scenario shares)))
    (\<lambda>ps. concat (map2 (scenario_urls js) (map share_Scenario shares) (map pshare_Scenario ps)))
    (share_plans js h shares)"
proof (induction shares)
  case (Cons s ss)
  show ?case
    by (simp, rule emits_registers, rule emits_bind[OF registers_scenario],
        rule emits_last[OF Cons.IH[simplified]]) simp
qed (auto intro!: emits_registers emits_return)

lemma length_share_plans: "length (fst (run_state (share_plans js h ss) r)) = length ss"
  by (induction ss arbitrary: r) (auto split: prod.splits, metis fst_conv)

text \<open>The scenarios of the mixes, in the context and in the plan.\<close>

definition mix_scenarios :: "trafficMixDefinition list \<Rightarrow> scenarioDefinition list" where
  "mix_scenarios mixes = concat (map (\<lambda>m. map share_Scenario (mix_ScenarioMix m)) mixes)"

definition mix_scenario_plans :: "runtimeTrafficMixPlan list \<Rightarrow> runtimeScenarioPlan list" where
  "mix_scenario_plans mixes = concat (map (\<lambda>m. map pshare_Scenario (pmix_ScenarioMix m)) mixes)"

lemma registers_mixes:
  "registers h (concat (map (scenario_regs js) (mix_scenarios mixes)))
    (\<lambda>ms. concat (map2 (scenario_urls js) (mix_scenarios mixes) (mix_scenario_plans ms)))
    (mix_plans js h mixes)"
proof (induction mixes)
  case (Cons mix mixes)
  have regs: "concat (map (scenario_regs js) (mix_scenarios (mix # mixes))) =
      concat (map (scenario_regs js) (map share_Scenario (mix_ScenarioMix mix))) @
      concat (map (scenario_regs js) (mix_scenarios mixes))"
    by (simp add: mix_scenarios_def)
  show ?case
    unfolding regs mix_plans.simps
    by (rule emits_registers, rule emits_bind_frame[OF registers_frame[OF registers_shares,
          where R = "\<lambda>ps. length ps = length (mix_ScenarioMix mix)"]],
        rule length_share_plans, rule emits_last[OF Cons.IH])
       (simp add: mix_scenarios_def mix_scenario_plans_def)
qed (auto simp: mix_scenarios_def mix_scenario_plans_def intro!: emits_registers emits_return)

lemma registers_one:
  assumes "register_one x = register" and "registrable x"
  shows "registers h [x] (\<lambda>i. [callback_urls h x i]) (State register)"
  using makes_register[OF assms(2)] by (auto simp: registers_def assms(1) elim!: makes_mono)

lemma registers_plugins:
  "registers h (map RegPlugin (given ps)) (map (\<lambda>q. [pplugin_CallbackURL q])) (plugin_plans names h ps)"
proof (induction names h ps rule: plugin_plans.induct)
  case (3 names h p ps)
  have regs: "map RegPlugin (given (Some p # ps)) = [RegPlugin p] @ map RegPlugin (given ps)"
    by (simp add: given_def)
  show ?case
    unfolding regs plugin_plans.simps
    by (rule emits_registers, rule emits_bind[OF registers_one], simp add: fun_eq_iff, simp,
        rule emits_last[OF 3]) simp
qed (auto simp: given_def intro!: emits_registers emits_return)

lemma registers_policies:
  "registers h (map RegPolicy (given ps)) (map (\<lambda>q. [ppolicy_CallbackURL q])) (policy_plans names h ps)"
proof (induction names h ps rule: policy_plans.induct)
  case (3 names h p ps)
  have regs: "map RegPolicy (given (Some p # ps)) = [RegPolicy p] @ map RegPolicy (given ps)"
    by (simp add: given_def)
  show ?case
    unfolding regs policy_plans.simps
    by (rule emits_registers, rule emits_bind[OF registers_one], simp add: fun_eq_iff, simp,
        rule emits_last[OF 3]) simp
qed (auto simp: given_def intro!: emits_registers emits_return)

lemma registers_sink: "registers h (sink_regs s) (sink_urls s) (buildRuntimeReportingSinkPlan h s)"
proof (cases s)
  case (CustomReportingSink name batches r)
  have "emits h ([RegSink r] @ []) (sink_urls s) [] (buildRuntimeReportingSinkPlan h s)"
    unfolding CustomReportingSink buildRuntimeReportingSinkPlan.simps
    by (rule emits_bind[OF registers_one], simp add: fun_eq_iff, simp, rule emits_return) simp
  then show ?thesis using CustomReportingSink by (simp add: emits_registers)
next
  case (KafkaReportingSink opts)
  show ?thesis
    unfolding KafkaReportingSink buildRuntimeReportingSinkPlan.simps buildRuntimeKafkaReportingSinkPlan_def
      sink_regs.simps registers_def
    by (rule makes_mono[OF makes_into]) (auto simp: fun_eq_iff opt_urls_def opt_regs_def split: option.splits)
qed (auto intro!: emits_registers emits_return)

text \<open>With a nil sink the loop stops in an error; otherwise it plans every sink.\<close>

lemma sink_plans_error_iff:
  "(\<exists>e. fst (run_state (reporting_sink_plans h ss) r) = Inl e) \<longleftrightarrow> list_ex isNilReportingSink ss"
proof (induction ss arbitrary: r)
  case (Cons s ss)
  show ?case
  proof (cases "isNilReportingSink s")
    case False
    obtain p r1 where one: "run_state (buildRuntimeReportingSinkPlan h (the (sink_of s))) r = (p, r1)" by fastforce
    obtain v r2 where rest: "run_state (reporting_sink_plans h ss) r1 = (v, r2)" by fastforce
    show ?thesis using Cons.IH[of r1] rest one False
      by (cases v) (auto simp: validateContainmentReportingSink_def)
  qed (simp add: validateContainmentReportingSink_def)
qed simp

definition sinks_urls :: "sink_value list \<Rightarrow> runtimeReportingSinkPlan list \<Rightarrow> string list list" where
  "sinks_urls ss qs = concat (map2 (\<lambda>s q. case sink_of s of None \<Rightarrow> [] | Some s \<Rightarrow> sink_urls s q) ss qs)"

lemma registers_sinks:
  "list_all (\<lambda>s. \<not> isNilReportingSink s) ss \<Longrightarrow>
   makes (concat (map (\<lambda>s. part_regs sink_regs (sink_of s)) ss))
     (\<lambda>is v. case_sum (\<lambda>_. []) (sinks_urls ss) v =
        url_list h (concat (map (\<lambda>s. part_regs sink_regs (sink_of s)) ss)) is \<and> \<not> isl v)
     (reporting_sink_plans h ss)"
proof (induction ss)
  case (Cons s ss)
  then have nil: "validateContainmentReportingSink s = Inr ()"
    by (simp add: validateContainmentReportingSink_def)
  obtain t where s: "sink_of s = Some t"
    using Cons.prems by (cases s) (auto simp: isNilReportingSink_def sink_of_def)
  have regs: "concat (map (\<lambda>s. part_regs sink_regs (sink_of s)) (s # ss)) =
      sink_regs (the (sink_of s)) @ concat (map (\<lambda>s. part_regs sink_regs (sink_of s)) ss)"
    by (simp add: part_regs_def s)
  have urls: "sinks_urls (s # ss) (q # qs) = sink_urls (the (sink_of s)) q @ sinks_urls ss qs" for q qs
    by (simp add: sinks_urls_def s)
  show ?case
    unfolding reporting_sink_plans.simps nil sum.case regs
  proof (rule makes_bind[OF registers_sink[unfolded registers_def] _ refl], rule makes_bind[where ys = "[]"])
    show "makes (concat (map (\<lambda>s. part_regs sink_regs (sink_of s)) ss))
     (\<lambda>is v. case_sum (\<lambda>_. []) (sinks_urls ss) v =
        url_list h (concat (map (\<lambda>s. part_regs sink_regs (sink_of s)) ss)) is \<and> \<not> isl v)
     (reporting_sink_plans h ss)" using Cons by simp
  qed (auto intro!: makes_return simp: urls split: sum.splits)
qed (auto simp: sinks_urls_def intro!: makes_return)

lemma registers_extensions:
  assumes "list_all (\<lambda>s. \<not> isNilReportingSink s) (ctx_ReportingSinks c)"
  shows "makes (context_regs c)
    (\<lambda>is v. \<exists>ext. v = Inr ext \<and>
       map (\<lambda>q. [pplugin_CallbackURL q]) (pext_WorkerPlugins ext) @
       map (\<lambda>q. [ppolicy_CallbackURL q]) (pext_RuntimePolicies ext) @
       sinks_urls (ctx_ReportingSinks c) (pext_ReportingSinks ext) = url_list h (context_regs c) is)
    (buildRuntimeContextExtensions names h c)"
  unfolding context_regs_def buildRuntimeContextExtensions_def
  apply (rule makes_bind[OF registers_plugins[unfolded registers_def] _ refl])
  apply (rule makes_bind[OF registers_policies[unfolded registers_def] _ refl])
  apply (rule makes_bind[OF registers_sinks[OF assms], where ys = "[]"])
  by (auto intro!: makes_return split: sum.splits simp: isl_def) 

section \<open>When a plan is built, and what it holds\<close>

lemma validate_all_iff:
  "validate_all_capabilities ss = Inr () \<longleftrightarrow>
     list_all (\<lambda>s. validateRuntimePlanCapabilities (sc_Tracking s) = Inr ()) ss"
  by (induction ss) (auto split: sum.splits)

definition settings_representable :: "contextState \<Rightarrow> bool" where
  "settings_representable c \<longleftrightarrow>
     list_all (\<lambda>kv. settings_ok 128 (snd kv))
       (ctx_LoggerConfig c @ ctx_CustomSettings c @ ctx_GlobalCustomSettings c)"

lemma context_plan_iff: "(\<exists>p. newRuntimeContextPlan c = Inr p) \<longleftrightarrow> settings_representable c"
  by (auto simp: newRuntimeContextPlan_def settings_representable_def cloneKnownJSONCompatibleSettings_def
      split: sum.splits)

text \<open>The conditions under which the builder returns a plan.\<close>

definition plannable :: "contextState \<Rightarrow> bool" where
  "plannable c \<longleftrightarrow>
     list_all (\<lambda>s. validateRuntimePlanCapabilities (sc_Tracking s) = Inr ()) (all_scenarios c) \<and>
     settings_representable c \<and> list_all (\<lambda>s. \<not> isNilReportingSink s) (ctx_ReportingSinks c)"

lemma context_urls_alt:
  "context_urls c p = map (\<lambda>q. [pplugin_CallbackURL q]) (pctx_WorkerPlugins p) @
     map (\<lambda>q. [ppolicy_CallbackURL q]) (pctx_RuntimePolicies p) @
     sinks_urls (ctx_ReportingSinks c) (pctx_ReportingSinks p)"
  by (simp add: context_urls_def sinks_urls_def)

lemma plan_makes:
  assumes "plannable c"
  shows "makes (plan_registrations js c)
    (\<lambda>is v. \<exists>p. v = Planned p \<and> plan_urls js c p = url_list h (plan_registrations js c) is \<and>
       length (plan_Scenarios p) = length (ctx_scenarios c) \<and> validateForLaunch p = Inr ())
    (buildRuntimePlan js names (Some c) h)"
proof -
  have ok: "validate_all_capabilities (all_scenarios c) = Inr ()"
    using assms by (simp add: validate_all_iff plannable_def)
  obtain cp where cp: "newRuntimeContextPlan c = Inr cp"
    using assms context_plan_iff[of c] by (auto simp: plannable_def)
  have regs: "plan_registrations js c = context_regs c @ concat (map (scenario_regs js) (ctx_scenarios c)) @
      concat (map (scenario_regs js) (mix_scenarios (ctx_trafficMixes c)))"
    by (simp add: plan_registrations_def all_scenarios_def mix_scenarios_def)
  have sinks: "list_all (\<lambda>s. \<not> isNilReportingSink s) (ctx_ReportingSinks c)"
    using assms by (simp add: plannable_def)
  show ?thesis
    unfolding regs buildRuntimePlan_def option.case ok sum.case cp
  proof (rule makes_bind[OF registers_extensions[OF sinks] _ refl], clarsimp,
      rule makes_bind[OF registers_frame[OF registers_scenarios,
        where R = "\<lambda>ps. length ps = length (ctx_scenarios c)"]],
      rule length_scenario_plans, rule makes_bind[OF registers_mixes[unfolded registers_def], where ys = "[]"])
  qed (auto intro!: makes_return simp: launch_check_exact plan_urls_def context_urls_alt all_scenarios_def
      planned_scenarios_def mix_scenarios_def mix_scenario_plans_def)
qed

lemma plan_built:
  assumes "plannable c" and "\<not> rg_closed r"
  obtains p where "fst (run_state (buildRuntimePlan js names (Some c) h) r) = Planned p"
  using plan_makes[OF assms(1)] assms(2) unfolding makes_def by blast

lemma built_plannable:
  assumes "fst (run_state (buildRuntimePlan js names (Some c) h) r) = Planned p"
  shows "plannable c"
proof -
  have "\<exists>e. fst (run_state (buildRuntimeContextExtensions names h c) r) = Inl e"
    if "\<not> list_all (\<lambda>s. \<not> isNilReportingSink s) (ctx_ReportingSinks c)"
    using sink_plans_error_iff that
    by (auto simp: buildRuntimeContextExtensions_def list_ex_iff list_all_iff split: prod.splits)
       (metis fst_conv map_sum.simps(1))
  then show ?thesis
    using assms context_plan_iff[of c]
    by (auto simp: buildRuntimePlan_def plannable_def validate_all_iff[symmetric]
        split: sum.splits prod.splits)
qed


definition sample_js :: json_codec where
  "sample_js = \<lparr>json_accepts = (\<lambda>_. True), json_settings = id\<rparr>"

definition sample_names :: user_names where
  "sample_names = \<lparr>names_PluginName = (\<lambda>_. ''plugin''), names_GetTypeName = (\<lambda>_. None),
     names_reflect = (\<lambda>_. Some ''Policy'')\<rparr>"

definition sample_host :: runtimeHTTPHostHandle where
  "sample_host = \<lparr>host_baseURL = ''http://127.0.0.1:4000''\<rparr>"

definition sample_registry :: runtimeCallbackRegistry where
  "sample_registry = newRuntimeCallbackRegistry counter_entropy"

definition sample_context :: contextState where
  "sample_context = default_context\<lparr>ctx_WorkerPlugins := [None, Some 7],
     ctx_ReportingSinks := [ValueSink PortalReportingSink, PointerSink (Some (CustomReportingSink ''mine'' True 9))]\<rparr>"

lemma sample_plannable: "plannable sample_context"
  by (simp add: plannable_def sample_context_def default_context_def all_scenarios_def
      settings_representable_def isNilReportingSink_def)

lemma sample_registry_open: "\<not> rg_closed sample_registry"
  by (simp add: sample_registry_def newRuntimeCallbackRegistry_def)


lemma plan_run:
  assumes "run_state (buildRuntimePlan js names (Some c) h) (newRuntimeCallbackRegistry e) = (Planned p, r)"
    and "fresh_entropy (length (plan_registrations js c)) e"
  obtains "is" where "length is = length (plan_registrations js c)" and "distinct is"
    and "list_all path_safe is" and "\<forall>k < length is. finds r (is ! k) (plan_registrations js c ! k)"
    and "plan_urls js c p = map2 (callback_urls h) (plan_registrations js c) is"
proof -
  let ?r0 = "newRuntimeCallbackRegistry e"
  have o: "\<not> rg_closed ?r0" by (simp add: newRuntimeCallbackRegistry_def)
  have "plannable c" using built_plannable assms(1) by (metis fst_conv)
  note makes = plan_makes[OF this, unfolded makes_def]
  obtain "is" r' where all: "register_all (plan_registrations js c) ?r0 = (is, r')" by fastforce
  have r: "r' = r" and urls: "plan_urls js c p = map2 (callback_urls h) (plan_registrations js c) is"
    using makes o all assms(1) by (metis fst_conv snd_conv plan_result.inject(1))+
  have "registry_wf ?r0"
    by (simp add: registry_wf_def used_ids_def newRuntimeCallbackRegistry_def)
  moreover have "\<forall>x \<in> set (plan_registrations js c). registrable x"
    using makes by (simp add: list_all_iff)
  ultimately have "length is = length (plan_registrations js c) \<and> distinct is \<and>
      (\<forall>k < length (plan_registrations js c). finds r (is ! k) (plan_registrations js c ! k))"
    using register_all_spec[OF all o] assms(2) r by (simp add: newRuntimeCallbackRegistry_def)
  moreover have "list_all path_safe is" using register_all_open[OF o] makes all by (metis fst_conv)
  ultimately show ?thesis using urls that by auto
qed

text \<open>
  The plan stands for the program: when it is built on a new registry, the URLs in it, at the
  places where the program gave a function, are those of distinct identifiers under which the
  registry holds exactly these functions (plugins, policies, sinks, Kafka publishers, threshold
  predicates, scenarios, and the produce, consume and observation callbacks of their tracking), in
  the order of the context.
\<close>

theorem plan_registers_everything:
  assumes "run_state (buildRuntimePlan js names (Some c) h) (newRuntimeCallbackRegistry e) = (Planned p, r)"
    and "fresh_entropy (length (plan_registrations js c)) e"
  shows "\<exists>is. length is = length (plan_registrations js c) \<and> distinct is \<and>
    (\<forall>k < length is. finds r (is ! k) (plan_registrations js c ! k)) \<and>
    plan_urls js c p = map2 (callback_urls h) (plan_registrations js c) is"
  by (rule plan_run[OF assms]) blast

theorem plan_registers_everything_witness:
  "\<exists>p r i j. run_state (buildRuntimePlan sample_js sample_names (Some sample_context) sample_host)
       (newRuntimeCallbackRegistry counter_entropy) = (Planned p, r) \<and> i \<noteq> j \<and>
     rg_plugins r i = Some 7 \<and> rg_sinks r j = Some 9 \<and>
     plan_urls sample_js sample_context p = [[pluginCallbackURL sample_host i], [sinkCallbackURL sample_host j]]"
proof -
  have regs: "plan_registrations sample_js sample_context = [RegPlugin 7, RegSink 9]"
    by (simp add: plan_registrations_def context_regs_def sample_context_def default_context_def
        all_scenarios_def given_def part_regs_def sink_of_def)
  obtain p where "fst (run_state (buildRuntimePlan sample_js sample_names (Some sample_context) sample_host)
       (newRuntimeCallbackRegistry counter_entropy)) = Planned p"
    using plan_built[OF sample_plannable sample_registry_open] by (metis sample_registry_def)
  then obtain r where run: "run_state (buildRuntimePlan sample_js sample_names (Some sample_context) sample_host)
       (newRuntimeCallbackRegistry counter_entropy) = (Planned p, r)" by (metis prod.collapse)
  have "fresh_entropy (length (plan_registrations sample_js sample_context)) counter_entropy"
    unfolding regs by (rule counter_entropy_fresh) simp
  from plan_registers_everything[OF run this] obtain "is" where
    "length is = length [RegPlugin 7, RegSink 9]" "distinct is"
    "\<forall>k < length is. finds r (is ! k) ([RegPlugin 7, RegSink 9] ! k)"
    "plan_urls sample_js sample_context p = url_list sample_host [RegPlugin 7, RegSink 9] is"
    unfolding regs by blast
  then obtain i j where "is = [i, j]" "i \<noteq> j" "rg_plugins r i = Some 7" "rg_sinks r j = Some 9"
    "plan_urls sample_js sample_context p = [[pluginCallbackURL sample_host i], [sinkCallbackURL sample_host j]]"
    by (auto simp: length_Suc_conv All_less_Suc)
  with run show ?thesis by blast
qed

end
