(* ===== verification/Runtime_Config.thy ===== *)
theory Runtime_Config
  imports Runner
begin

text \<open>
  The JSON configuration file (\<open>config.go\<close>): the checks on the document, its decoding into the
  configuration records, the normalisation of the section, how a loaded configuration is applied to
  a context, and the command line arguments of a run. The document is the syntax tree of the file:
  an object keeps its members in the order of the text, and the same key may come twice. A literal
  of digits is \<open>JInt\<close>, any other number \<open>JNum\<close>.
\<close>

section \<open>Data\<close>

datatype json =
    JNull
  | JBool bool
  | JInt int
  | JNum string
  | JStr string
  | JArr "json list"
  | JObj "(string \<times> json) list"

text \<open>
  What \<open>encoding/json\<close> does that the SDK does not: the \<open>float64\<close> of a number literal, if it has one,
  and the text of the error for a value of the wrong type.
\<close>

record json_pkg =
  js_number :: "string \<Rightarrow> float64 option"
  js_type_error :: "string \<Rightarrow> json \<Rightarrow> go_error"

record runtimeLicenseValidationConfig =
  lic_TimeoutMS :: "int option"

record runtimeConfigSection =
  cfg_TestSuite :: "string option"
  cfg_TestName :: "string option"
  cfg_SessionID :: "string option"
  cfg_ReportFolder :: "string option"
  cfg_ReportFileName :: "string option"
  cfg_ReportFormats :: "json option"
  cfg_ReportingIntervalMS :: "int option"
  cfg_ScenarioCompletionTimeoutMS :: "int option"
  cfg_ClusterCommandTimeoutMS :: "int option"
  cfg_NodeType :: "json option"
  cfg_ClusterID :: "string option"
  cfg_AgentGroup :: "string option"
  cfg_AgentID :: "string option"
  cfg_ExpectedAgentIDs :: "json option"
  cfg_AgentsCount :: "int option"
  cfg_NatsServerURL :: "string option"
  cfg_TargetScenarios :: "json option"
  cfg_AgentTargetScenarios :: "json option"
  cfg_CoordinatorTargetScenarios :: "json option"
  cfg_MinimumLogLevel :: "string option"
  cfg_DisplayConsoleMetrics :: "json option"
  cfg_EnableLocalDevCluster :: "json option"
  cfg_RestartIterationMaxAttempts :: "int option"
  cfg_SinkRetryCount :: "int option"
  cfg_SinkRetryBackoffMs :: "int option"
  cfg_RunnerKey :: "string option"
  cfg_WithoutReports :: "json option"
  cfg_UseLoadEngineV2 :: "json option"
  cfg_MaxInFlight :: "int option"
  cfg_LicenseValidation :: runtimeLicenseValidationConfig
  cfg_parsedReportFormats :: "string list"
  cfg_parsedNodeType :: "NodeType option"
  cfg_parsedExpectedAgentIDs :: "string list"
  cfg_parsedTargetScenarios :: "string list"
  cfg_parsedAgentTargetScenarios :: "string list"
  cfg_parsedCoordinatorScenarios :: "string list"
  cfg_parsedMinimumLogLevel :: "string option"
  cfg_parsedDisplayConsoleMetrics :: "bool option"
  cfg_parsedEnableLocalDevCluster :: "bool option"
  cfg_parsedWithoutReports :: "bool option"
  cfg_parsedUseLoadEngineV2 :: "bool option"

record runtimeConfigFile =
  file_LoadStrike :: runtimeConfigSection
  file_CustomSettings :: "(string \<times> go_any) list"

definition zero_section :: runtimeConfigSection where
  "zero_section =
     \<lparr>cfg_TestSuite = None, cfg_TestName = None, cfg_SessionID = None, cfg_ReportFolder = None,
      cfg_ReportFileName = None, cfg_ReportFormats = None, cfg_ReportingIntervalMS = None,
      cfg_ScenarioCompletionTimeoutMS = None, cfg_ClusterCommandTimeoutMS = None, cfg_NodeType =
      None, cfg_ClusterID = None, cfg_AgentGroup = None, cfg_AgentID = None, cfg_ExpectedAgentIDs =
      None, cfg_AgentsCount = None, cfg_NatsServerURL = None, cfg_TargetScenarios = None,
      cfg_AgentTargetScenarios = None, cfg_CoordinatorTargetScenarios = None, cfg_MinimumLogLevel =
      None, cfg_DisplayConsoleMetrics = None, cfg_EnableLocalDevCluster = None,
      cfg_RestartIterationMaxAttempts = None, cfg_SinkRetryCount = None, cfg_SinkRetryBackoffMs =
      None, cfg_RunnerKey = None, cfg_WithoutReports = None, cfg_UseLoadEngineV2 = None,
      cfg_MaxInFlight = None, cfg_LicenseValidation = \<lparr>lic_TimeoutMS = None\<rparr>,
      cfg_parsedReportFormats = [], cfg_parsedNodeType = None, cfg_parsedExpectedAgentIDs = [],
      cfg_parsedTargetScenarios = [], cfg_parsedAgentTargetScenarios = [],
      cfg_parsedCoordinatorScenarios = [], cfg_parsedMinimumLogLevel = None,
      cfg_parsedDisplayConsoleMetrics = None, cfg_parsedEnableLocalDevCluster = None,
      cfg_parsedWithoutReports = None, cfg_parsedUseLoadEngineV2 = None\<rparr>"

definition documentedRuntimeConfigKeys :: "string list" where
  "documentedRuntimeConfigKeys =
     [''TestSuite'', ''TestName'', ''SessionId'', ''ReportFolder'', ''ReportFileName'', ''ReportFormats'',
      ''ReportingIntervalMs'', ''ScenarioCompletionTimeoutMs'', ''ClusterCommandTimeoutMs'', ''NodeType'',
      ''ClusterId'', ''AgentGroup'', ''AgentId'', ''ExpectedAgentIds'', ''AgentsCount'', ''NatsServerUrl'',
      ''TargetScenarios'', ''AgentTargetScenarios'', ''CoordinatorTargetScenarios'', ''MinimumLogLevel'',
      ''DisplayConsoleMetrics'', ''EnableLocalDevCluster'', ''RestartIterationMaxAttempts'',
      ''SinkRetryCount'', ''SinkRetryBackoffMs'', ''RunnerKey'', ''WithoutReports'', ''UseLoadEngineV2'',
      ''MaxInFlight'']"

definition maximumRuntimeConfigSinkRetryCount :: int where
  "maximumRuntimeConfigSinkRetryCount = 100"

section \<open>Decoding\<close>

definition json_object :: "json \<Rightarrow> (string \<times> json) list option" where
  "json_object j = (case j of JObj kvs \<Rightarrow> Some (last_wins kvs) | JNull \<Rightarrow> Some [] | _ \<Rightarrow> None)"

text \<open>Decoding into \<open>any\<close>: every number is a \<open>float64\<close>.\<close>

fun sequence_opt :: "'a option list \<Rightarrow> 'a list option" where
  "sequence_opt [] = Some []"
| "sequence_opt (x # xs) =
     (case x of None \<Rightarrow> None | Some v \<Rightarrow> map_option ((#) v) (sequence_opt xs))"

definition finite_float :: "float64 \<Rightarrow> bool" where
  "finite_float f \<longleftrightarrow> (case f of Fin x \<Rightarrow> True | _ \<Rightarrow> False)"

function json_any :: "json_pkg \<Rightarrow> json \<Rightarrow> go_any option" where
  "json_any js JNull = Some AnyNil"
| "json_any js (JBool b) = Some (AnyBool b)"
| "json_any js (JInt i) =
     (if finite_float (f64_of_int i) then Some (AnyFloat64 (f64_of_int i)) else None)"
| "json_any js (JNum n) = map_option AnyFloat64 (js_number js n)"
| "json_any js (JStr s) = Some (AnyString s)"
| "json_any js (JArr vs) = map_option AnySlice (sequence_opt (map (json_any js) vs))"
| "json_any js (JObj kvs) =
     map_option (\<lambda>out. AnyMap (last_wins out))
       (sequence_opt (map (\<lambda>kv. map_option (Pair (fst kv)) (json_any js (snd kv))) kvs))"
  by pat_completeness auto
termination
proof (relation "measure (size o snd)", goal_cases)
  case (2 js vs v)
  then show ?case by (simp add: less_Suc_eq_le size_list_estimation')
next
  case (3 js kvs kv)
  have "size (snd kv) \<le> size_prod (\<lambda>x. 0) size kv" by (cases kv) simp
  from size_list_estimation' [where f = "size_prod (\<lambda>x. 0) size", OF 3 this] show ?case by (simp add: less_Suc_eq_le)
qed simp

text \<open>
  Decoding into the section: a member goes to the field with its name, whatever the case of its
  letters, members without a field are skipped, a later member overwrites. A pointer field takes
  nil from null, and a raw field takes any value.
\<close>

type_synonym field_decoder = "json_pkg \<Rightarrow> string \<Rightarrow> json \<Rightarrow> runtimeConfigSection \<Rightarrow> runtimeConfigSection res"

definition js_str :: "(string option \<Rightarrow> runtimeConfigSection \<Rightarrow> runtimeConfigSection) \<Rightarrow> field_decoder" where
  "js_str upd js key v s =
     (case v of JNull \<Rightarrow> Inr (upd None s) | JStr t \<Rightarrow> Inr (upd (Some t) s) | _ \<Rightarrow> Inl (js_type_error js key v))"

definition decode_int :: "json_pkg \<Rightarrow> string \<Rightarrow> json \<Rightarrow> int option res" where
  "decode_int js key v =
     (case v of
        JNull \<Rightarrow> Inr None
      | JInt i \<Rightarrow> if int_range i then Inr (Some i) else Inl (js_type_error js key v)
      | _ \<Rightarrow> Inl (js_type_error js key v))"

definition js_int :: "(int option \<Rightarrow> runtimeConfigSection \<Rightarrow> runtimeConfigSection) \<Rightarrow> field_decoder" where
  "js_int upd js key v s = map_sum id (\<lambda>i. upd i s) (decode_int js key v)"

definition js_raw :: "(json option \<Rightarrow> runtimeConfigSection \<Rightarrow> runtimeConfigSection) \<Rightarrow> field_decoder" where
  "js_raw upd js key v s = Inr (upd (Some v) s)"

fun decode_license ::
  "json_pkg \<Rightarrow> (string \<times> json) list \<Rightarrow> runtimeLicenseValidationConfig \<Rightarrow> runtimeLicenseValidationConfig res" where
  "decode_license js [] l = Inr l"
| "decode_license js ((k, v) # kvs) l =
     (if equal_fold k ''TimeoutMs''
      then (case decode_int js ''TimeoutMs'' v of
              Inl e \<Rightarrow> Inl e
            | Inr t \<Rightarrow> decode_license js kvs (l\<lparr>lic_TimeoutMS := t\<rparr>))
      else decode_license js kvs l)"

definition js_license :: field_decoder where
  "js_license js key v s =
     (case v of
        JNull \<Rightarrow> Inr s
      | JObj kvs \<Rightarrow>
          map_sum id (\<lambda>l. s\<lparr>cfg_LicenseValidation := l\<rparr>) (decode_license js kvs (cfg_LicenseValidation s))
      | _ \<Rightarrow> Inl (js_type_error js key v))"

definition section_fields :: "(string \<times> field_decoder) list" where
  "section_fields =
     [(''TestSuite'', js_str (\<lambda>v s. s\<lparr>cfg_TestSuite := v\<rparr>)),
      (''TestName'', js_str (\<lambda>v s. s\<lparr>cfg_TestName := v\<rparr>)),
      (''SessionId'', js_str (\<lambda>v s. s\<lparr>cfg_SessionID := v\<rparr>)),
      (''ReportFolder'', js_str (\<lambda>v s. s\<lparr>cfg_ReportFolder := v\<rparr>)),
      (''ReportFileName'', js_str (\<lambda>v s. s\<lparr>cfg_ReportFileName := v\<rparr>)),
      (''ReportFormats'', js_raw (\<lambda>v s. s\<lparr>cfg_ReportFormats := v\<rparr>)),
      (''ReportingIntervalMs'', js_int (\<lambda>v s. s\<lparr>cfg_ReportingIntervalMS := v\<rparr>)),
      (''ScenarioCompletionTimeoutMs'', js_int (\<lambda>v s. s\<lparr>cfg_ScenarioCompletionTimeoutMS := v\<rparr>)),
      (''ClusterCommandTimeoutMs'', js_int (\<lambda>v s. s\<lparr>cfg_ClusterCommandTimeoutMS := v\<rparr>)),
      (''NodeType'', js_raw (\<lambda>v s. s\<lparr>cfg_NodeType := v\<rparr>)),
      (''ClusterId'', js_str (\<lambda>v s. s\<lparr>cfg_ClusterID := v\<rparr>)),
      (''AgentGroup'', js_str (\<lambda>v s. s\<lparr>cfg_AgentGroup := v\<rparr>)),
      (''AgentId'', js_str (\<lambda>v s. s\<lparr>cfg_AgentID := v\<rparr>)),
      (''ExpectedAgentIds'', js_raw (\<lambda>v s. s\<lparr>cfg_ExpectedAgentIDs := v\<rparr>)),
      (''AgentsCount'', js_int (\<lambda>v s. s\<lparr>cfg_AgentsCount := v\<rparr>)),
      (''NatsServerUrl'', js_str (\<lambda>v s. s\<lparr>cfg_NatsServerURL := v\<rparr>)),
      (''TargetScenarios'', js_raw (\<lambda>v s. s\<lparr>cfg_TargetScenarios := v\<rparr>)),
      (''AgentTargetScenarios'', js_raw (\<lambda>v s. s\<lparr>cfg_AgentTargetScenarios := v\<rparr>)),
      (''CoordinatorTargetScenarios'', js_raw (\<lambda>v s. s\<lparr>cfg_CoordinatorTargetScenarios := v\<rparr>)),
      (''MinimumLogLevel'', js_str (\<lambda>v s. s\<lparr>cfg_MinimumLogLevel := v\<rparr>)),
      (''DisplayConsoleMetrics'', js_raw (\<lambda>v s. s\<lparr>cfg_DisplayConsoleMetrics := v\<rparr>)),
      (''EnableLocalDevCluster'', js_raw (\<lambda>v s. s\<lparr>cfg_EnableLocalDevCluster := v\<rparr>)),
      (''RestartIterationMaxAttempts'', js_int (\<lambda>v s. s\<lparr>cfg_RestartIterationMaxAttempts := v\<rparr>)),
      (''SinkRetryCount'', js_int (\<lambda>v s. s\<lparr>cfg_SinkRetryCount := v\<rparr>)),
      (''SinkRetryBackoffMs'', js_int (\<lambda>v s. s\<lparr>cfg_SinkRetryBackoffMs := v\<rparr>)),
      (''RunnerKey'', js_str (\<lambda>v s. s\<lparr>cfg_RunnerKey := v\<rparr>)),
      (''WithoutReports'', js_raw (\<lambda>v s. s\<lparr>cfg_WithoutReports := v\<rparr>)),
      (''UseLoadEngineV2'', js_raw (\<lambda>v s. s\<lparr>cfg_UseLoadEngineV2 := v\<rparr>)),
      (''MaxInFlight'', js_int (\<lambda>v s. s\<lparr>cfg_MaxInFlight := v\<rparr>)),
      (''LicenseValidation'', js_license)]"

fun field_named :: "string \<Rightarrow> (string \<times> 'a) list \<Rightarrow> (string \<times> 'a) option" where
  "field_named k [] = None"
| "field_named k (f # fs) = (if equal_fold k (fst f) then Some f else field_named k fs)"

fun decode_section ::
  "json_pkg \<Rightarrow> (string \<times> json) list \<Rightarrow> runtimeConfigSection \<Rightarrow> runtimeConfigSection res" where
  "decode_section js [] s = Inr s"
| "decode_section js ((k, v) # kvs) s =
     (case field_named k section_fields of
        None \<Rightarrow> decode_section js kvs s
      | Some (key, dec) \<Rightarrow>
          (case dec js key v s of Inl e \<Rightarrow> Inl e | Inr s' \<Rightarrow> decode_section js kvs s'))"

fun decode_root ::
  "json_pkg \<Rightarrow> (string \<times> json) list \<Rightarrow> runtimeConfigSection \<Rightarrow> runtimeConfigSection res" where
  "decode_root js [] s = Inr s"
| "decode_root js ((k, v) # kvs) s =
     (if equal_fold k ''LoadStrike''
      then (case v of
              JObj sec \<Rightarrow>
                (case decode_section js sec s of Inl e \<Rightarrow> Inl e | Inr s' \<Rightarrow> decode_root js kvs s')
            | JNull \<Rightarrow> decode_root js kvs s
            | _ \<Rightarrow> Inl (js_type_error js ''LoadStrike'' v))
      else decode_root js kvs s)"

section \<open>Checks on the document\<close>

text \<open>
  The code walks a Go map, in any order; the order only chooses which of several errors is reported.
  Here it is the order of the document.
\<close>

fun rejectCaseInsensitiveDuplicateConfigKeys ::
  "string \<Rightarrow> (string \<times> json) list \<Rightarrow> (string \<times> string) list \<Rightarrow> unit res" where
  "rejectCaseInsensitiveDuplicateConfigKeys scope [] seen = Inr ()"
| "rejectCaseInsensitiveDuplicateConfigKeys scope ((key, v) # kvs) seen =
     (case map_of seen (to_lower key) of
        Some first \<Rightarrow>
          Inl (scope @ ''.'' @ first @ '' has duplicate case-insensitive spellings ('' @ first @ '' and '' @ key @ '')'')
      | None \<Rightarrow> rejectCaseInsensitiveDuplicateConfigKeys scope kvs ((to_lower key, key) # seen))"

definition caseInsensitiveRawConfigValue :: "(string \<times> json) list \<Rightarrow> string \<Rightarrow> json option" where
  "caseInsensitiveRawConfigValue vals key = map_option snd (find (\<lambda>kv. equal_fold (fst kv) key) vals)"

text \<open>Sequences of checks: the first error, or go on.\<close>

definition res_bind :: "'a res \<Rightarrow> ('a \<Rightarrow> 'b res) \<Rightarrow> 'b res" where
  "res_bind r f = (case r of Inl e \<Rightarrow> Inl e | Inr x \<Rightarrow> f x)"

definition fail_if :: "bool \<Rightarrow> go_error \<Rightarrow> unit res" where
  "fail_if b e = (if b then Inl e else Inr ())"

fun check_all :: "('a \<Rightarrow> unit res) \<Rightarrow> 'a list \<Rightarrow> unit res" where
  "check_all f [] = Inr ()"
| "check_all f (x # xs) = res_bind (f x) (\<lambda>_. check_all f xs)"

definition forbid_key :: "string \<Rightarrow> (string \<times> json) list \<Rightarrow> string \<Rightarrow> unit res" where
  "forbid_key scope vals key =
     fail_if (caseInsensitiveRawConfigValue vals key \<noteq> None) (scope @ ''.'' @ key @ '' is not supported'')"

definition forbid_null :: "string \<Rightarrow> (string \<times> json) list \<Rightarrow> string \<Rightarrow> unit res" where
  "forbid_null scope vals key =
     fail_if (caseInsensitiveRawConfigValue vals key = Some JNull) (scope @ ''.'' @ key @ '' cannot be null'')"

definition removed_keys :: "string list" where
  "removed_keys = [''DisableLicenseEnforcement'', ''SkipLicenseValidation'']"

definition validate_license :: "json \<Rightarrow> unit res" where
  "validate_license raw =
     (if raw = JNull then Inl ''LoadStrike.LicenseValidation cannot be null''
      else case json_object raw of
             None \<Rightarrow> Inl ''LoadStrike.LicenseValidation must be a JSON object''
           | Some license \<Rightarrow>
               res_bind (rejectCaseInsensitiveDuplicateConfigKeys ''LoadStrike.LicenseValidation'' license []) (\<lambda>_.
               res_bind (check_all (forbid_key ''LoadStrike.LicenseValidation'' license)
                           [''BaseUrl'', ''ApiUrl'', ''Url'']) (\<lambda>_.
               forbid_null ''LoadStrike.LicenseValidation'' license ''TimeoutMs'')))"

definition validate_section :: "json \<Rightarrow> unit res" where
  "validate_section raw =
     (if raw = JNull then Inl ''LoadStrike cannot be null''
      else case json_object raw of
             None \<Rightarrow> Inl ''LoadStrike must be a JSON object''
           | Some section \<Rightarrow>
               res_bind (rejectCaseInsensitiveDuplicateConfigKeys ''LoadStrike'' section []) (\<lambda>_.
               res_bind (check_all (forbid_key ''LoadStrike'' section) removed_keys) (\<lambda>_.
               res_bind (check_all (forbid_null ''LoadStrike'' section) documentedRuntimeConfigKeys) (\<lambda>_.
               case caseInsensitiveRawConfigValue section ''LicenseValidation'' of
                 None \<Rightarrow> Inr ()
               | Some licenseRaw \<Rightarrow> validate_license licenseRaw))))"

definition validateRuntimeConfigDocument :: "json_pkg \<Rightarrow> json \<Rightarrow> unit res" where
  "validateRuntimeConfigDocument js body =
     (if body = JNull then Inl ''configuration root must be a JSON object and cannot be null''
      else case json_object body of
             None \<Rightarrow> Inl (js_type_error js [] body)
           | Some members \<Rightarrow>
               res_bind (rejectCaseInsensitiveDuplicateConfigKeys ''configuration root'' members []) (\<lambda>_.
               res_bind (check_all (forbid_key ''configuration'' members) removed_keys) (\<lambda>_.
               case caseInsensitiveRawConfigValue members ''LoadStrike'' of
                 None \<Rightarrow> Inr ()
               | Some loadStrikeRaw \<Rightarrow> validate_section loadStrikeRaw)))"

section \<open>Parsing the section\<close>

definition parseRuntimeStrictBool :: "string \<Rightarrow> json option \<Rightarrow> bool option res" where
  "parseRuntimeStrictBool key raw =
     (case raw of
        None \<Rightarrow> Inr None
      | Some JNull \<Rightarrow> Inr (Some False)
      | Some (JBool b) \<Rightarrow> Inr (Some b)
      | Some (JStr text) \<Rightarrow>
          let t = to_lower (trim_space text) in
          if t = ''true'' then Inr (Some True)
          else if t = ''false'' then Inr (Some False)
          else Inl (''LoadStrike.'' @ key @ '' must be true or false'')
      | Some _ \<Rightarrow> Inl (''LoadStrike.'' @ key @ '' must be true or false''))"

text \<open>The element of a decoded string list: null leaves the zero value.\<close>

definition string_element :: "json \<Rightarrow> string option" where
  "string_element j = (case j of JStr s \<Rightarrow> Some s | JNull \<Rightarrow> Some [] | _ \<Rightarrow> None)"

definition string_list_values :: "json \<Rightarrow> string list option" where
  "string_list_values j =
     (case j of
        JStr s \<Rightarrow> Some (split_on (CHR '','') s)
      | JNull \<Rightarrow> Some [[]]
      | JArr vs \<Rightarrow> sequence_opt (map string_element vs)
      | _ \<Rightarrow> None)"

fun normalize_strings :: "string \<Rightarrow> string list \<Rightarrow> string set \<Rightarrow> string list \<Rightarrow> string list res" where
  "normalize_strings key [] seen out = Inr out"
| "normalize_strings key (v # vs) seen out =
     (let trimmed = trim_space v in
      if trimmed = [] then Inl (''LoadStrike.'' @ key @ '' cannot contain blank or null values'')
      else if trimmed \<in> seen then normalize_strings key vs seen out
      else normalize_strings key vs (insert trimmed seen) (out @ [trimmed]))"

definition parseRuntimeStringList :: "string \<Rightarrow> json option \<Rightarrow> string list res" where
  "parseRuntimeStringList key raw =
     (case raw of
        None \<Rightarrow> Inr []
      | Some j \<Rightarrow>
          (case string_list_values j of
             None \<Rightarrow> Inl (''LoadStrike.'' @ key @ '' must be a comma-delimited string or an array of strings'')
           | Some vals \<Rightarrow>
               res_bind (normalize_strings key vals {} []) (\<lambda>normalized.
               if length normalized = 0
               then Inl (''LoadStrike.'' @ key @ '' must contain at least one value'')
               else Inr normalized)))"

definition report_format :: "string \<Rightarrow> string option" where
  "report_format v =
     map_of [(''html'', ''html''), (''txt'', ''txt''), (''csv'', ''csv''), (''md'', ''md''), (''markdown'', ''md'')]
       (to_lower v)"

fun report_formats :: "string list \<Rightarrow> string set \<Rightarrow> string list \<Rightarrow> string list res" where
  "report_formats [] seen out = Inr out"
| "report_formats (v # vs) seen out =
     (case report_format v of
        None \<Rightarrow> Inl (''LoadStrike.ReportFormats contains unsupported format '' @ [CHR 0x22] @ v @ [CHR 0x22])
      | Some f \<Rightarrow>
          if f \<in> seen then report_formats vs seen out
          else report_formats vs (insert f seen) (out @ [f]))"

definition parseRuntimeReportFormats :: "json option \<Rightarrow> string list res" where
  "parseRuntimeReportFormats raw =
     res_bind (parseRuntimeStringList ''ReportFormats'' raw) (\<lambda>vals.
     if raw = None then Inr [] else report_formats vals {} [])"

definition node_type_error :: go_error where
  "node_type_error = ''LoadStrike.NodeType must be SingleNode, Coordinator, Agent, 0, 1, or 2''"

definition parseRuntimeNodeType :: "json option \<Rightarrow> NodeType option res" where
  "parseRuntimeNodeType raw =
     (case raw of
        None \<Rightarrow> Inr None
      | Some JNull \<Rightarrow> Inr (Some NodeTypeSingleNode)
      | Some (JInt number) \<Rightarrow>
          if number = 0 then Inr (Some NodeTypeSingleNode)
          else if number = 1 then Inr (Some NodeTypeCoordinator)
          else if number = 2 then Inr (Some NodeTypeAgent)
          else Inl node_type_error
      | Some (JStr text) \<Rightarrow>
          let t = to_lower (trim_space text) in
          if t \<in> {''single'', ''singlenode'', ''0''} then Inr (Some NodeTypeSingleNode)
          else if t \<in> {''coordinator'', ''1''} then Inr (Some NodeTypeCoordinator)
          else if t \<in> {''agent'', ''2''} then Inr (Some NodeTypeAgent)
          else Inl node_type_error
      | Some _ \<Rightarrow> Inl node_type_error)"

definition parseRuntimeMinimumLogLevel :: "string option \<Rightarrow> string option res" where
  "parseRuntimeMinimumLogLevel raw =
     (case raw of
        None \<Rightarrow> Inr None
      | Some text \<Rightarrow>
          (case map_of [(''verbose'', ''Verbose''), (''debug'', ''Debug''), (''information'', ''Information''),
                        (''warning'', ''Warning''), (''error'', ''Error''), (''fatal'', ''Fatal'')]
                  (to_lower (trim_space text)) of
             Some level \<Rightarrow> Inr (Some level)
           | None \<Rightarrow>
               Inl ''LoadStrike.MinimumLogLevel must be Verbose, Debug, Information, Warning, Error, or Fatal''))"

text \<open>A duration is a number of nanoseconds.\<close>

definition runtimeConfigMilliseconds :: "string \<Rightarrow> int \<Rightarrow> int res" where
  "runtimeConfigMilliseconds key milliseconds =
     (if milliseconds \<le> 0 \<or> milliseconds > 9223372036854
      then Inl (''LoadStrike.'' @ key @
        '' must be a positive whole number of milliseconds within the supported duration range'')
      else Inr (milliseconds * 1000000))"

definition blank_strings :: "runtimeConfigSection \<Rightarrow> (string \<times> string option) list" where
  "blank_strings c =
     [(''TestSuite'', cfg_TestSuite c), (''TestName'', cfg_TestName c), (''SessionId'', cfg_SessionID c),
      (''ReportFolder'', cfg_ReportFolder c), (''ReportFileName'', cfg_ReportFileName c),
      (''ClusterId'', cfg_ClusterID c), (''AgentGroup'', cfg_AgentGroup c), (''AgentId'', cfg_AgentID c),
      (''NatsServerUrl'', cfg_NatsServerURL c), (''RunnerKey'', cfg_RunnerKey c)]"

definition millisecond_fields :: "runtimeConfigSection \<Rightarrow> (string \<times> int option) list" where
  "millisecond_fields c =
     [(''ReportingIntervalMs'', cfg_ReportingIntervalMS c),
      (''ScenarioCompletionTimeoutMs'', cfg_ScenarioCompletionTimeoutMS c),
      (''ClusterCommandTimeoutMs'', cfg_ClusterCommandTimeoutMS c),
      (''LicenseValidation.TimeoutMs'', lic_TimeoutMS (cfg_LicenseValidation c))]"

definition count_fields :: "runtimeConfigSection \<Rightarrow> (string \<times> int option) list" where
  "count_fields c =
     [(''RestartIterationMaxAttempts'', cfg_RestartIterationMaxAttempts c),
      (''SinkRetryCount'', cfg_SinkRetryCount c), (''SinkRetryBackoffMs'', cfg_SinkRetryBackoffMs c)]"

definition check_numbers :: "runtimeConfigSection \<Rightarrow> unit res" where
  "check_numbers c =
     res_bind (check_all (\<lambda>(key, v). case v of
                 None \<Rightarrow> Inr ()
               | Some ms \<Rightarrow> res_bind (runtimeConfigMilliseconds key ms) (\<lambda>_. Inr ())) (millisecond_fields c)) (\<lambda>_.
     res_bind (fail_if (case cfg_AgentsCount c of None \<Rightarrow> False | Some n \<Rightarrow> n \<le> 0)
                 ''LoadStrike.AgentsCount must be greater than zero'') (\<lambda>_.
     res_bind (check_all (\<lambda>(key, v). fail_if (case v of None \<Rightarrow> False | Some n \<Rightarrow> n < 0)
                 (''LoadStrike.'' @ key @ '' must be zero or greater'')) (count_fields c)) (\<lambda>_.
     fail_if (case cfg_MaxInFlight c of None \<Rightarrow> False | Some n \<Rightarrow> n < 1 \<or> n > 1000000)
       ''LoadStrike.MaxInFlight must be an integer from 1 through 1000000'')))"

definition normalizeRuntimeConfigSection :: "runtimeConfigSection \<Rightarrow> runtimeConfigSection res" where
  "normalizeRuntimeConfigSection c =
     res_bind (check_all (\<lambda>(key, v). fail_if (case v of None \<Rightarrow> False | Some t \<Rightarrow> blank t)
                 (''LoadStrike.'' @ key @ '' must be provided'')) (blank_strings c)) (\<lambda>_.
     res_bind (parseRuntimeReportFormats (cfg_ReportFormats c)) (\<lambda>formats.
     res_bind (parseRuntimeNodeType (cfg_NodeType c)) (\<lambda>nodeType.
     res_bind (parseRuntimeStringList ''ExpectedAgentIds'' (cfg_ExpectedAgentIDs c)) (\<lambda>expected.
     res_bind (parseRuntimeStringList ''TargetScenarios'' (cfg_TargetScenarios c)) (\<lambda>targets.
     res_bind (parseRuntimeStringList ''AgentTargetScenarios'' (cfg_AgentTargetScenarios c)) (\<lambda>agentTargets.
     res_bind (parseRuntimeStringList ''CoordinatorTargetScenarios'' (cfg_CoordinatorTargetScenarios c)) (\<lambda>coordTargets.
     res_bind (parseRuntimeMinimumLogLevel (cfg_MinimumLogLevel c)) (\<lambda>level.
     res_bind (parseRuntimeStrictBool ''DisplayConsoleMetrics'' (cfg_DisplayConsoleMetrics c)) (\<lambda>display.
     res_bind (parseRuntimeStrictBool ''EnableLocalDevCluster'' (cfg_EnableLocalDevCluster c)) (\<lambda>local.
     res_bind (parseRuntimeStrictBool ''WithoutReports'' (cfg_WithoutReports c)) (\<lambda>noReports.
     res_bind (parseRuntimeStrictBool ''UseLoadEngineV2'' (cfg_UseLoadEngineV2 c)) (\<lambda>v2.
     res_bind (check_numbers c) (\<lambda>_.
       Inr (c\<lparr>cfg_parsedReportFormats := formats, cfg_parsedNodeType := nodeType,
              cfg_parsedExpectedAgentIDs := expected, cfg_parsedTargetScenarios := targets,
              cfg_parsedAgentTargetScenarios := agentTargets, cfg_parsedCoordinatorScenarios := coordTargets,
              cfg_parsedMinimumLogLevel := level, cfg_parsedDisplayConsoleMetrics := display,
              cfg_parsedEnableLocalDevCluster := local, cfg_parsedWithoutReports := noReports,
              cfg_parsedUseLoadEngineV2 := v2\<rparr>))))))))))))))"

section \<open>Loading\<close>

text \<open>
  \<open>read\<close> is \<open>os.ReadFile\<close> and the syntax check of the JSON text. The custom settings are the
  whole document; as decoded JSON they are a tree of dynamic values.
\<close>

definition config_settings :: "json_pkg \<Rightarrow> json \<Rightarrow> (string \<times> go_any) list res" where
  "config_settings js body =
     (case json_any js body of
        Some (AnyMap root_settings) \<Rightarrow>
          (case cloneKnownJSONCompatibleSettings root_settings of
             Inl e \<Rightarrow> Inl (''config custom settings: '' @ e)
           | Inr cloned \<Rightarrow> Inr cloned)
      | _ \<Rightarrow> Inl (js_type_error js [] body))"

definition loadRuntimeConfig :: "json_pkg \<Rightarrow> json res \<Rightarrow> runtimeConfigFile res" where
  "loadRuntimeConfig js read =
     res_bind read (\<lambda>body.
     res_bind (validateRuntimeConfigDocument js body) (\<lambda>_.
     res_bind (case body of
                 JObj members \<Rightarrow>
                   (case decode_root js members zero_section of
                      Inl e \<Rightarrow> Inl (''invalid LoadStrike configuration: '' @ e)
                    | Inr decoded \<Rightarrow> Inr decoded)
               | _ \<Rightarrow> Inl (''invalid LoadStrike configuration: '' @ js_type_error js [] body)) (\<lambda>decoded.
     res_bind (normalizeRuntimeConfigSection decoded) (\<lambda>section.
     res_bind (config_settings js body) (\<lambda>settings.
       Inr \<lparr>file_LoadStrike = section, file_CustomSettings = settings\<rparr>)))))"

section \<open>Applying\<close>

definition duration_or_zero :: "string \<Rightarrow> int \<Rightarrow> int" where
  "duration_or_zero key ms = (case runtimeConfigMilliseconds key ms of Inl e \<Rightarrow> 0 | Inr d \<Rightarrow> d)"

definition apply_settings :: "(string \<times> go_any) list \<Rightarrow> contextState act" where
  "apply_settings settings =
     act_res (cloneKnownJSONCompatibleSettings settings) (\<lambda>v c. c\<lparr>ctx_CustomSettings := v\<rparr>)"

definition apply_engine :: "bool \<Rightarrow> contextState act" where
  "apply_engine v2 =
     (if v2 then UseLoadEngineV2 else act_ok (\<lambda>c. c\<lparr>ctx_LoadEngineContractVersion := 0\<rparr>))"

definition apply_max_in_flight :: "int \<Rightarrow> contextState act" where
  "apply_max_in_flight n c =
     (if ctx_LoadEngineContractVersion c \<noteq> 2
      then recordConfigError ''LoadStrike.MaxInFlight is available only when Load Engine V2 is selected'' c
      else WithMaxInFlight n c)"

definition candidate_steps :: "runtimeConfigFile \<Rightarrow> contextState act list" where
  "candidate_steps config =
     (let section = file_LoadStrike config in
      [apply_settings (file_CustomSettings config),
       act_opt (cfg_TestSuite section) WithTestSuite,
       act_opt (cfg_TestName section) WithTestName,
       act_opt (cfg_SessionID section) WithSessionId,
       act_opt (cfg_ReportFolder section) WithReportFolder,
       act_opt (cfg_ReportFileName section) WithReportFileName,
       act_if (cfg_ReportFormats section \<noteq> None) (WithReportFormats (cfg_parsedReportFormats section)),
       act_opt (cfg_ReportingIntervalMS section)
         (\<lambda>ms. WithReportingInterval (duration_or_zero ''ReportingIntervalMs'' ms)),
       act_opt (cfg_ScenarioCompletionTimeoutMS section)
         (\<lambda>ms. WithScenarioCompletionTimeout (duration_or_zero ''ScenarioCompletionTimeoutMs'' ms)),
       act_opt (cfg_ClusterCommandTimeoutMS section)
         (\<lambda>ms. WithClusterCommandTimeout (duration_or_zero ''ClusterCommandTimeoutMs'' ms)),
       act_opt (cfg_parsedNodeType section) WithNodeType,
       act_opt (cfg_ClusterID section) WithClusterId,
       act_opt (cfg_AgentGroup section) WithAgentGroup,
       act_opt (cfg_AgentID section) WithAgentID,
       act_if (cfg_ExpectedAgentIDs section \<noteq> None) (WithExpectedAgentIDs (cfg_parsedExpectedAgentIDs section)),
       act_opt (cfg_AgentsCount section) WithAgentsCount,
       act_opt (cfg_NatsServerURL section) WithNatsServerURL,
       act_if (cfg_TargetScenarios section \<noteq> None) (WithTargetScenarios (cfg_parsedTargetScenarios section)),
       act_if (cfg_AgentTargetScenarios section \<noteq> None)
         (WithAgentTargetScenarios (cfg_parsedAgentTargetScenarios section)),
       act_if (cfg_CoordinatorTargetScenarios section \<noteq> None)
         (WithCoordinatorTargetScenarios (cfg_parsedCoordinatorScenarios section)),
       act_opt (cfg_parsedMinimumLogLevel section) WithMinimumLogLevel,
       act_opt (cfg_parsedDisplayConsoleMetrics section) WithDisplayConsoleMetrics,
       act_opt (cfg_parsedEnableLocalDevCluster section) EnableLocalDevCluster,
       act_opt (cfg_RestartIterationMaxAttempts section)
         (\<lambda>n. act_if (n \<ge> 0) (WithRestartIterationMaxAttempts n)),
       act_opt (cfg_SinkRetryCount section)
         (\<lambda>n. act_if (n \<ge> 0) (act_ok (\<lambda>c. c\<lparr>ctx_SinkRetryCount := min n maximumRuntimeConfigSinkRetryCount\<rparr>))),
       act_opt (cfg_SinkRetryBackoffMs section)
         (\<lambda>n. act_if (n \<ge> 0) (act_ok (\<lambda>c. c\<lparr>ctx_SinkRetryBackoffMs := n\<rparr>))),
       act_opt (cfg_RunnerKey section) WithRunnerKey,
       act_opt (cfg_parsedWithoutReports section) (\<lambda>b. act_ok (\<lambda>c. c\<lparr>ctx_ReportsEnabled := \<not> b\<rparr>)),
       act_opt (cfg_parsedUseLoadEngineV2 section) apply_engine,
       act_opt (cfg_MaxInFlight section) apply_max_in_flight,
       act_opt (lic_TimeoutMS (cfg_LicenseValidation section))
         (\<lambda>ms. WithLicenseValidationTimeout (duration_or_zero ''LicenseValidation.TimeoutMs'' ms))])"

definition applyRuntimeConfigCandidate :: "runtimeConfigFile \<Rightarrow> contextState act" where
  "applyRuntimeConfigCandidate config = act_all (candidate_steps config)"

text \<open>\<open>applyRuntimeConfig\<close> works on a copy, and assigns it when nothing panicked.\<close>

definition applyRuntimeConfig :: "runtimeConfigFile \<Rightarrow> contextState act" where
  "applyRuntimeConfig config c =
     (case applyRuntimeConfigCandidate config c of
        (None, candidate) \<Rightarrow> (None, candidate)
      | (Some m, _) \<Rightarrow> (Some m, c))"

text \<open>\<open>LoadConfig\<close>, of a context and of a runner.\<close>

definition LoadConfig :: "json_pkg \<Rightarrow> (string \<Rightarrow> json res) \<Rightarrow> string \<Rightarrow> contextState act" where
  "LoadConfig js read path =
     act_seq (requireNonBlank ''config path'' path)
       (case loadRuntimeConfig js (read path) of
          Inl e \<Rightarrow> recordConfigError e
        | Inr config \<Rightarrow> applyRuntimeConfig config)"

definition runner_LoadConfig :: "json_pkg \<Rightarrow> (string \<Rightarrow> json res) \<Rightarrow> string \<Rightarrow> runnerState act" where
  "runner_LoadConfig js read path =
     (if blank path then recordConfigError ''config path must be provided''
      else case loadRuntimeConfig js (read path) of
             Inl e \<Rightarrow> recordConfigError e
           | Inr config \<Rightarrow> on_context (applyRuntimeConfig config))"

definition runner_LoadInfraConfig :: "string \<Rightarrow> runnerState act" where
  "runner_LoadInfraConfig path = on_context (LoadInfraConfig path)"

section \<open>Arguments of a run\<close>

text \<open>\<open>strconv.Atoi\<close>.\<close>

definition digit_value :: "char \<Rightarrow> int option" where
  "digit_value c =
     (if 48 \<le> (of_char c :: nat) \<and> (of_char c :: nat) \<le> 57 then Some (of_char c - 48) else None)"

fun digits_value :: "int \<Rightarrow> string \<Rightarrow> int option" where
  "digits_value n [] = Some n"
| "digits_value n (c # cs) =
     (case digit_value c of None \<Rightarrow> None | Some d \<Rightarrow> digits_value (10 * n + d) cs)"

definition in_int :: "int option \<Rightarrow> int option" where
  "in_int v = (case v of Some n \<Rightarrow> if int_range n then Some n else None | None \<Rightarrow> None)"

definition Atoi :: "string \<Rightarrow> int option" where
  "Atoi s =
     (case s of
        [] \<Rightarrow> None
      | c # cs \<Rightarrow>
          if c = CHR ''-'' then (if cs = [] then None else in_int (map_option uminus (digits_value 0 cs)))
          else if c = CHR ''+'' then (if cs = [] then None else in_int (digits_value 0 cs))
          else in_int (digits_value 0 s))"

definition parseRunArg :: "string \<Rightarrow> (string \<times> string) option" where
  "parseRunArg arg =
     (if \<not> prefix ''--'' arg then None
      else case cut_at (CHR ''='') (trim_prefix ''--'' arg) of
             None \<Rightarrow> None
           | Some (name, v) \<Rightarrow> if name = [] then None else Some (to_lower (trim_space name), trim_space v))"

definition natural_arg :: "string \<Rightarrow> (int \<Rightarrow> contextState \<Rightarrow> contextState) \<Rightarrow> contextState act" where
  "natural_arg v f =
     (case Atoi v of Some n \<Rightarrow> if n \<ge> 0 then act_ok (f n) else act_ok id | None \<Rightarrow> act_ok id)"

definition apply_run_arg :: "string \<Rightarrow> contextState act" where
  "apply_run_arg arg =
     (case parseRunArg arg of
        None \<Rightarrow> act_ok id
      | Some (name, v) \<Rightarrow>
          if name = ''restartiterationmaxattempts''
          then natural_arg v (\<lambda>n c. c\<lparr>ctx_RestartIterationMaxAttempts := n\<rparr>)
          else if name = ''sinkretrycount'' then natural_arg v (\<lambda>n c. c\<lparr>ctx_SinkRetryCount := n\<rparr>)
          else if name = ''sinkretrybackoffms'' then natural_arg v (\<lambda>n c. c\<lparr>ctx_SinkRetryBackoffMs := n\<rparr>)
          else if name = ''disablelicenseenforcement''
          then act_panic ''disable license enforcement has been removed and is no longer supported''
          else act_ok id)"

text \<open>\<open>applyRunArgs\<close> returns the error, where the operations of a context panic with it.\<close>

definition applyRunArgs :: "string list \<Rightarrow> contextState act" where
  "applyRunArgs args = act_all (map apply_run_arg args)"

section \<open>Lemmas on the checks\<close>

lemma res_bind_simps [simp]: "res_bind (Inl e) f = Inl e" "res_bind (Inr x) f = f x"
  by (simp_all add: res_bind_def)

lemma res_bind_Inr: "res_bind r f = Inr y \<longleftrightarrow> (\<exists>x. r = Inr x \<and> f x = Inr y)"
  by (cases r) auto

lemma fail_if_Inr [simp]: "fail_if b e = Inr u \<longleftrightarrow> \<not> b"
  by (simp add: fail_if_def)

lemma check_all_Inr: "check_all f xs = Inr u \<longleftrightarrow> (\<forall>x \<in> set xs. f x = Inr ())"
  by (induction xs) (auto simp: res_bind_Inr)

lemma distinct_keys_iff:
  "rejectCaseInsensitiveDuplicateConfigKeys scope kvs seen = Inr u \<longleftrightarrow>
     distinct (map (to_lower \<circ> fst) kvs) \<and> to_lower ` fst ` set kvs \<inter> fst ` set seen = {}"
proof (induction scope kvs seen rule: rejectCaseInsensitiveDuplicateConfigKeys.induct)
  case (2 scope key v kvs seen)
  have "map_of seen (to_lower key) = None \<longleftrightarrow> to_lower key \<notin> fst ` set seen"
    by (rule map_of_eq_None_iff)
  with 2 show ?case by (auto split: option.splits simp: image_image)
qed simp

lemma raw_value_None: "caseInsensitiveRawConfigValue kvs key = None \<longleftrightarrow> (\<forall>(k, v) \<in> set kvs. \<not> equal_fold k key)"
  by (auto simp: caseInsensitiveRawConfigValue_def find_None_iff)

lemma raw_value_unique:
  assumes "distinct (map (to_lower \<circ> fst) kvs)" and "(k, v) \<in> set kvs" and "equal_fold k key"
  shows "caseInsensitiveRawConfigValue kvs key = Some v"
  using assms
proof (induction kvs)
  case (Cons kv kvs)
  show ?case
  proof (cases "equal_fold (fst kv) key")
    case True
    have "(k, v) \<notin> set kvs"
    proof
      assume "(k, v) \<in> set kvs"
      then have "to_lower k \<in> (to_lower \<circ> fst) ` set kvs" by force
      with Cons.prems(1,3) True show False by (simp add: equal_fold_def)
    qed
    with Cons.prems(2) True show ?thesis by (auto simp: caseInsensitiveRawConfigValue_def)
  next
    case False
    with Cons show ?thesis by (auto simp: caseInsensitiveRawConfigValue_def)
  qed
qed simp

lemma normalize_strings_Inr:
  "normalize_strings key vs seen out = Inr r \<Longrightarrow> distinct out \<Longrightarrow> set out = seen \<Longrightarrow>
   distinct r \<and> set r = set out \<union> trim_space ` set vs \<and> (\<forall>v \<in> set vs. trim_space v \<noteq> [])"
proof (induction vs arbitrary: seen out)
  case (Cons v vs)
  then have v: "trim_space v \<noteq> []" by (auto simp: Let_def)
  show ?case
  proof (cases "trim_space v \<in> seen")
    case True
    with Cons.prems v have "normalize_strings key vs seen out = Inr r" by (simp add: Let_def)
    from Cons.IH [OF this Cons.prems(2,3)] v True Cons.prems(3) show ?thesis by auto
  next
    case False
    with Cons.prems v
    have "normalize_strings key vs (insert (trim_space v) seen) (out @ [trim_space v]) = Inr r"
      "distinct (out @ [trim_space v])" "set (out @ [trim_space v]) = insert (trim_space v) seen"
      by (auto simp: Let_def)
    from Cons.IH [OF this] v show ?thesis by auto
  qed
qed simp

lemma blank_iff: "blank s \<longleftrightarrow> trim_space s = []"
  by (simp add: blank_def)

lemma string_list_ok:
  assumes "parseRuntimeStringList key (Some j) = Inr vs"
  shows "vs \<noteq> []" "distinct vs" "\<forall>v \<in> set vs. trim_space v = v \<and> \<not> blank v"
    "\<exists>raw. string_list_values j = Some raw \<and> set vs = trim_space ` set raw"
proof -
  from assms obtain raw where raw: "string_list_values j = Some raw"
    and n: "normalize_strings key raw {} [] = Inr vs" and "vs \<noteq> []"
    by (auto simp: parseRuntimeStringList_def res_bind_Inr split: option.splits if_splits)
  show "vs \<noteq> []" by fact
  from normalize_strings_Inr [OF n] have *: "distinct vs" "set vs = trim_space ` set raw"
    "\<forall>v \<in> set raw. trim_space v \<noteq> []" by auto
  then show "distinct vs" "\<forall>v \<in> set vs. trim_space v = v \<and> \<not> blank v" by (auto simp: blank_iff)
  from raw * show "\<exists>raw. string_list_values j = Some raw \<and> set vs = trim_space ` set raw" by auto
qed

lemma report_formats_Inr:
  "report_formats vs seen out = Inr r \<Longrightarrow> distinct out \<Longrightarrow> set out = seen \<Longrightarrow>
   distinct r \<and> set out \<subseteq> set r \<and> set r \<subseteq> set out \<union> {''html'', ''txt'', ''csv'', ''md''} \<and>
   (vs \<noteq> [] \<longrightarrow> r \<noteq> [])"
proof (induction vs seen out rule: report_formats.induct)
  case (2 v vs seen out)
  from 2(3) obtain f where f: "report_format v = Some f" by (auto split: option.splits)
  then have "f \<in> {''html'', ''txt'', ''csv'', ''md''}"
    unfolding report_format_def by (drule_tac map_of_SomeD) auto
  with 2 f show ?case by (auto split: if_splits)
qed auto

lemma known_formats_not_blank: "f \<in> {''html'', ''txt'', ''csv'', ''md''} \<Longrightarrow> \<not> blank f"
  by (auto simp: blank_def graphic_def)

lemma parsed_formats_ok:
  assumes "parseRuntimeReportFormats (Some j) = Inr fs"
  shows "fs \<noteq> [] \<and> distinct fs \<and> set fs \<subseteq> {''html'', ''txt'', ''csv'', ''md''}"
proof -
  from assms obtain vs where "parseRuntimeStringList ''ReportFormats'' (Some j) = Inr vs"
    and r: "report_formats vs {} [] = Inr fs"
    by (auto simp: parseRuntimeReportFormats_def res_bind_Inr)
  from string_list_ok(1) [OF this(1)] report_formats_Inr [OF r] show ?thesis by auto
qed

section \<open>A loaded section\<close>

text \<open>What the normalisation establishes of the section it returns.\<close>

definition list_field_ok :: "json option \<Rightarrow> string list \<Rightarrow> bool" where
  "list_field_ok raw vs \<longleftrightarrow> raw \<noteq> None \<longrightarrow> vs \<noteq> [] \<and> distinct vs \<and> names_ok vs"

definition section_ok :: "runtimeConfigSection \<Rightarrow> bool" where
  "section_ok s \<longleftrightarrow>
     (\<forall>(k, v) \<in> set (blank_strings s). \<forall>t. v = Some t \<longrightarrow> \<not> blank t) \<and>
     (\<forall>(k, v) \<in> set (millisecond_fields s). \<forall>t. v = Some t \<longrightarrow> 0 < t \<and> t \<le> 9223372036854) \<and>
     (\<forall>(k, v) \<in> set (count_fields s). \<forall>t. v = Some t \<longrightarrow> 0 \<le> t) \<and>
     (\<forall>n. cfg_AgentsCount s = Some n \<longrightarrow> 0 < n) \<and>
     (\<forall>n. cfg_MaxInFlight s = Some n \<longrightarrow> 1 \<le> n \<and> n \<le> 1000000) \<and>
     list_field_ok (cfg_ReportFormats s) (cfg_parsedReportFormats s) \<and>
     list_field_ok (cfg_ExpectedAgentIDs s) (cfg_parsedExpectedAgentIDs s) \<and>
     list_field_ok (cfg_TargetScenarios s) (cfg_parsedTargetScenarios s) \<and>
     list_field_ok (cfg_AgentTargetScenarios s) (cfg_parsedAgentTargetScenarios s) \<and>
     list_field_ok (cfg_CoordinatorTargetScenarios s) (cfg_parsedCoordinatorScenarios s) \<and>
     (\<forall>l. cfg_parsedMinimumLogLevel s = Some l \<longrightarrow> canonicalLogEventLevel l = Some l)"

lemma string_field_ok: "parseRuntimeStringList key raw = Inr vs \<Longrightarrow> list_field_ok raw vs"
  using string_list_ok [of key "the raw" vs] by (auto simp: list_field_ok_def names_ok_def)

lemma format_field_ok: "parseRuntimeReportFormats raw = Inr fs \<Longrightarrow> list_field_ok raw fs"
proof (cases raw)
  case (Some j)
  assume "parseRuntimeReportFormats raw = Inr fs"
  with Some parsed_formats_ok [of j fs] known_formats_not_blank
  show ?thesis unfolding list_field_ok_def names_ok_def by blast
qed (simp add: list_field_ok_def)

lemma level_field_ok:
  assumes "parseRuntimeMinimumLogLevel raw = Inr (Some l)"
  shows "canonicalLogEventLevel l = Some l"
proof -
  from assms obtain t where "canonicalLogEventLevel t = Some l"
    unfolding parseRuntimeMinimumLogLevel_def canonicalLogEventLevel_def by (cases raw) (auto split: option.splits)
  then show ?thesis by (rule canonical_idem)
qed

lemma milliseconds_Inr: "runtimeConfigMilliseconds key ms = Inr d \<longleftrightarrow> 0 < ms \<and> ms \<le> 9223372036854 \<and> d = ms * 1000000"
  by (auto simp: runtimeConfigMilliseconds_def)

lemma check_numbers_ok:
  assumes "check_numbers s = Inr u"
  shows "\<forall>(k, v) \<in> set (millisecond_fields s). \<forall>t. v = Some t \<longrightarrow> 0 < t \<and> t \<le> 9223372036854"
    and "\<forall>(k, v) \<in> set (count_fields s). \<forall>t. v = Some t \<longrightarrow> 0 \<le> t"
    and "\<forall>n. cfg_AgentsCount s = Some n \<longrightarrow> 0 < n"
    and "\<forall>n. cfg_MaxInFlight s = Some n \<longrightarrow> 1 \<le> n \<and> n \<le> 1000000"
proof -
  from assms
  have *: "\<forall>(k, v) \<in> set (millisecond_fields s). (case v of None \<Rightarrow> Inr ()
               | Some ms \<Rightarrow> res_bind (runtimeConfigMilliseconds k ms) (\<lambda>_. Inr ())) = Inr ()"
    "\<forall>(k, v) \<in> set (count_fields s). \<not> (case v of None \<Rightarrow> False | Some n \<Rightarrow> n < 0)"
    "\<not> (case cfg_AgentsCount s of None \<Rightarrow> False | Some n \<Rightarrow> n \<le> 0)"
    "\<not> (case cfg_MaxInFlight s of None \<Rightarrow> False | Some n \<Rightarrow> n < 1 \<or> n > 1000000)"
    by (auto simp: check_numbers_def res_bind_Inr check_all_Inr simp del: split_paired_Ex)
  from *(1) show "\<forall>(k, v) \<in> set (millisecond_fields s). \<forall>t. v = Some t \<longrightarrow> 0 < t \<and> t \<le> 9223372036854"
    by (fastforce simp: res_bind_Inr milliseconds_Inr)
  from *(2) show "\<forall>(k, v) \<in> set (count_fields s). \<forall>t. v = Some t \<longrightarrow> 0 \<le> t" by fastforce
  from *(3) show "\<forall>n. cfg_AgentsCount s = Some n \<longrightarrow> 0 < n" by auto
  from *(4) show "\<forall>n. cfg_MaxInFlight s = Some n \<longrightarrow> 1 \<le> n \<and> n \<le> 1000000" by auto
qed

lemma normalized_section_ok:
  assumes "normalizeRuntimeConfigSection c = Inr s"
  shows "section_ok s"
proof -
  from assms obtain formats nodeType expected targets agentTargets coordTargets level display local noReports v2 u
    where n: "check_numbers c = Inr u"
    and b: "\<forall>x \<in> set (blank_strings c). (case x of (key, v) \<Rightarrow>
        fail_if (case v of None \<Rightarrow> False | Some t \<Rightarrow> blank t) (''LoadStrike.'' @ key @ '' must be provided'')) = Inr ()"
    and f: "parseRuntimeReportFormats (cfg_ReportFormats c) = Inr formats"
    and l: "parseRuntimeStringList ''ExpectedAgentIds'' (cfg_ExpectedAgentIDs c) = Inr expected"
      "parseRuntimeStringList ''TargetScenarios'' (cfg_TargetScenarios c) = Inr targets"
      "parseRuntimeStringList ''AgentTargetScenarios'' (cfg_AgentTargetScenarios c) = Inr agentTargets"
      "parseRuntimeStringList ''CoordinatorTargetScenarios'' (cfg_CoordinatorTargetScenarios c) = Inr coordTargets"
    and lev: "parseRuntimeMinimumLogLevel (cfg_MinimumLogLevel c) = Inr level"
    and "Inr (c\<lparr>cfg_parsedReportFormats := formats, cfg_parsedNodeType := nodeType,
              cfg_parsedExpectedAgentIDs := expected, cfg_parsedTargetScenarios := targets,
              cfg_parsedAgentTargetScenarios := agentTargets, cfg_parsedCoordinatorScenarios := coordTargets,
              cfg_parsedMinimumLogLevel := level, cfg_parsedDisplayConsoleMetrics := display,
              cfg_parsedEnableLocalDevCluster := local, cfg_parsedWithoutReports := noReports,
              cfg_parsedUseLoadEngineV2 := v2\<rparr>) = (Inr s :: runtimeConfigSection res)"
    unfolding normalizeRuntimeConfigSection_def res_bind_Inr check_all_Inr by (elim exE conjE) (rule that)
  then have s: "s = c\<lparr>cfg_parsedReportFormats := formats, cfg_parsedNodeType := nodeType,
              cfg_parsedExpectedAgentIDs := expected, cfg_parsedTargetScenarios := targets,
              cfg_parsedAgentTargetScenarios := agentTargets, cfg_parsedCoordinatorScenarios := coordTargets,
              cfg_parsedMinimumLogLevel := level, cfg_parsedDisplayConsoleMetrics := display,
              cfg_parsedEnableLocalDevCluster := local, cfg_parsedWithoutReports := noReports,
              cfg_parsedUseLoadEngineV2 := v2\<rparr>"
    by simp
  have fields: "blank_strings s = blank_strings c" "millisecond_fields s = millisecond_fields c"
    "count_fields s = count_fields c"
    by (simp_all add: s blank_strings_def millisecond_fields_def count_fields_def)
  have "\<forall>(k, v) \<in> set (blank_strings s). \<forall>t. v = Some t \<longrightarrow> \<not> blank t"
    using b unfolding fields by fastforce
  moreover have "canonicalLogEventLevel x = Some x" if "level = Some x" for x
    using lev level_field_ok that by blast
  ultimately show ?thesis
    using check_numbers_ok [OF n] f l
    unfolding section_ok_def fields by (auto simp: s intro: string_field_ok format_field_ok)
qed

section \<open>Applying a loaded section\<close>

text \<open>A step that never panics and leaves the selected engine as it is.\<close>

definition quiet :: "contextState act \<Rightarrow> bool" where
  "quiet f \<longleftrightarrow> (\<forall>c. fst (f c) = None \<and>
     ctx_LoadEngineContractVersion (snd (f c)) = ctx_LoadEngineContractVersion c)"

lemma quiet_ok: "(\<And>c. ctx_LoadEngineContractVersion (g c) = ctx_LoadEngineContractVersion c) \<Longrightarrow> quiet (act_ok g)"
  by (simp add: quiet_def)

lemma quiet_opt: "(\<And>x. v = Some x \<Longrightarrow> quiet (f x)) \<Longrightarrow> quiet (act_opt v f)"
  by (cases v) (simp_all add: quiet_ok)

lemma quiet_if: "(b \<Longrightarrow> quiet f) \<Longrightarrow> quiet (act_if b f)"
  by (cases b) (simp_all add: quiet_ok)

lemma quiet_seq: "quiet f \<Longrightarrow> quiet g \<Longrightarrow> quiet (act_seq f g)"
  by (auto simp: quiet_def act_seq_def split: prod.splits option.splits) (metis fst_conv snd_conv option.distinct(1))+

lemma quiet_names: "vs \<noteq> [] \<Longrightarrow> names_ok vs \<Longrightarrow> quiet (validateNames name vs)"
  by (auto simp: validateNames_def names_ok_def quiet_ok act_if_def list_ex_iff)

lemma quiet_strings:
  assumes "\<not> blank t"
  shows "quiet (WithTestSuite t)" "quiet (WithTestName t)" "quiet (WithSessionId t)" "quiet (WithReportFolder t)"
    "quiet (WithReportFileName t)" "quiet (WithClusterId t)" "quiet (WithAgentGroup t)" "quiet (WithAgentID t)"
    "quiet (WithNatsServerURL t)" "quiet (WithRunnerKey t)"
  using assms by (simp_all add: quiet_def act_seq_def requireNonBlank_def op_defs)

lemma quiet_durations:
  assumes "0 < d"
  shows "quiet (WithReportingInterval d)" "quiet (WithScenarioCompletionTimeout d)"
    "quiet (WithClusterCommandTimeout d)" "quiet (WithLicenseValidationTimeout d)"
  using assms by (simp_all add: quiet_def op_defs durationArgumentSeconds_def act_res_def)

lemma quiet_add_agent_ids:
  "distinct ids \<Longrightarrow> names_ok ids \<Longrightarrow> set ids \<inter> seen = {} \<Longrightarrow> quiet (add_agent_ids seen ids)"
proof (induction ids arbitrary: seen)
  case (Cons a ids)
  then show ?case
    by (auto intro!: quiet_seq quiet_ok simp: names_ok_def requireNonBlank_def)
qed (simp add: quiet_ok)

lemma quiet_lists:
  assumes "vs \<noteq> []" and "names_ok vs"
  shows "quiet (WithTargetScenarios vs)" "quiet (WithAgentTargetScenarios vs)"
    "quiet (WithCoordinatorTargetScenarios vs)" "quiet (WithReportFormats vs)"
    "distinct vs \<Longrightarrow> quiet (WithExpectedAgentIDs vs)"
proof -
  from assms show "quiet (WithTargetScenarios vs)" "quiet (WithAgentTargetScenarios vs)"
    "quiet (WithCoordinatorTargetScenarios vs)"
    by (simp_all add: op_defs quiet_seq quiet_names quiet_ok)
  from assms have "\<not> list_ex blank vs" by (auto simp: names_ok_def list_ex_iff)
  with assms show "quiet (WithReportFormats vs)"
    by (simp add: op_defs check_defs quiet_seq quiet_ok)
  show "distinct vs \<Longrightarrow> quiet (WithExpectedAgentIDs vs)"
    using assms by (simp add: WithExpectedAgentIDs_def quiet_seq quiet_ok quiet_add_agent_ids)
qed

lemma quiet_others:
  "quiet (WithNodeType nt)" "quiet (WithDisplayConsoleMetrics b)" "quiet (EnableLocalDevCluster b)"
  "0 < n \<Longrightarrow> quiet (WithAgentsCount n)" "0 \<le> n \<Longrightarrow> quiet (WithRestartIterationMaxAttempts n)"
  "canonicalLogEventLevel l = Some l \<Longrightarrow> quiet (WithMinimumLogLevel l)"
  by (simp_all add: quiet_def op_defs requirePositiveInt_def requireNonNegativeInt_def act_seq_def
      WithMinimumLogLevel_def normalizeLogEventLevel_def act_res_def)

lemma act_all_append: "act_all (fs @ gs) = act_seq (act_all fs) (act_all gs)"
proof (induction fs)
  case (Cons f fs)
  then show ?case by (auto simp: act_seq_def fun_eq_iff split: prod.splits option.splits)
qed (auto simp: act_seq_def fun_eq_iff)

lemma quiet_all: "list_all quiet fs \<Longrightarrow> quiet (act_all fs)"
  by (induction fs) (auto intro: quiet_seq quiet_ok)

text \<open>A decoded document is its own snapshot, so that taking a second one cannot fail.\<close>

lemma sequence_opt_mem: "sequence_opt xs = Some ys \<Longrightarrow> y \<in> set ys \<Longrightarrow> Some y \<in> set xs"
  by (induction xs arbitrary: ys) (auto split: option.splits)

lemma set_last_wins: "set (last_wins kvs) \<subseteq> set kvs"
  by (induction kvs rule: last_wins.induct) auto

lemma json_value_atoms:
  "json_value n AnyNil = AnyNil" "json_value n (AnyBool b) = AnyBool b"
  "json_value n (AnyFloat64 x) = AnyFloat64 x" "json_value n (AnyString s) = AnyString s"
  by (cases n; simp)+

lemma json_any_snapshot: "json_any js j = Some v \<Longrightarrow> json_value n v = v"
proof (induction js j arbitrary: v n rule: json_any.induct)
  case (6 js vs)
  then obtain ws where v: "v = AnySlice ws" and ws: "sequence_opt (map (json_any js) vs) = Some ws" by auto
  have "json_value m w = w" if "w \<in> set ws" for m w
    using sequence_opt_mem [OF ws that] 6(1) by auto
  then show ?case using v by (cases n) (auto intro: map_idI)
next
  case (7 js kvs)
  then obtain ws where v: "v = AnyMap (last_wins ws)"
    and ws: "sequence_opt (map (\<lambda>kv. map_option (Pair (fst kv)) (json_any js (snd kv))) kvs) = Some ws" by auto
  have "json_value m (snd w) = snd w" if "w \<in> set (last_wins ws)" for m w
  proof -
    from that set_last_wins have "w \<in> set ws" by blast
    from sequence_opt_mem [OF ws this] obtain kv where "kv \<in> set kvs" "json_any js (snd kv) = Some (snd w)"
      by (auto dest!: sym [of "Some w"])
    then show ?thesis by (rule 7(1))
  qed
  then show ?case using v by (cases n) (simp_all add: map_idI case_prod_beta)
qed (auto simp: json_value_atoms split: if_splits)

lemma config_settings_again:
  assumes "config_settings js body = Inr settings"
  shows "cloneKnownJSONCompatibleSettings settings = Inr settings"
proof -
  from assms obtain kvs where b: "json_any js body = Some (AnyMap kvs)"
    and c: "cloneKnownJSONCompatibleSettings kvs = Inr settings"
    by (auto simp: config_settings_def split: option.splits go_any.splits sum.splits)
  have "map (\<lambda>(k, v). (k, json_value 128 v)) kvs = kvs"
    using json_any_snapshot [OF b, of 129] by (simp add: numeral_eq_Suc)
  with c show ?thesis by (auto simp: cloneKnownJSONCompatibleSettings_def split: if_splits)
qed

lemma loaded_config_ok:
  assumes "loadRuntimeConfig js (Inr body) = Inr cfg"
  shows "section_ok (file_LoadStrike cfg)"
    and "cloneKnownJSONCompatibleSettings (file_CustomSettings cfg) = Inr (file_CustomSettings cfg)"
    and "validateRuntimeConfigDocument js body = Inr ()"
  using assms normalized_section_ok config_settings_again
  by (auto simp: loadRuntimeConfig_def res_bind_Inr simp del: split_paired_Ex)

lemma section_ok_fields:
  assumes "section_ok s"
  shows "cfg_TestSuite s = Some t \<Longrightarrow> \<not> blank t" "cfg_TestName s = Some t \<Longrightarrow> \<not> blank t"
    "cfg_SessionID s = Some t \<Longrightarrow> \<not> blank t" "cfg_ReportFolder s = Some t \<Longrightarrow> \<not> blank t"
    "cfg_ReportFileName s = Some t \<Longrightarrow> \<not> blank t" "cfg_ClusterID s = Some t \<Longrightarrow> \<not> blank t"
    "cfg_AgentGroup s = Some t \<Longrightarrow> \<not> blank t" "cfg_AgentID s = Some t \<Longrightarrow> \<not> blank t"
    "cfg_NatsServerURL s = Some t \<Longrightarrow> \<not> blank t" "cfg_RunnerKey s = Some t \<Longrightarrow> \<not> blank t"
    "cfg_ReportingIntervalMS s = Some ms \<Longrightarrow> 0 < duration_or_zero k ms"
    "cfg_ScenarioCompletionTimeoutMS s = Some ms \<Longrightarrow> 0 < duration_or_zero k ms"
    "cfg_ClusterCommandTimeoutMS s = Some ms \<Longrightarrow> 0 < duration_or_zero k ms"
    "lic_TimeoutMS (cfg_LicenseValidation s) = Some ms \<Longrightarrow> 0 < duration_or_zero k ms"
    "cfg_AgentsCount s = Some n \<Longrightarrow> 0 < n"
    "cfg_MaxInFlight s = Some n \<Longrightarrow> 1 \<le> n \<and> n \<le> 1000000"
    "cfg_ReportFormats s \<noteq> None \<Longrightarrow> quiet (WithReportFormats (cfg_parsedReportFormats s))"
    "cfg_ExpectedAgentIDs s \<noteq> None \<Longrightarrow> quiet (WithExpectedAgentIDs (cfg_parsedExpectedAgentIDs s))"
    "cfg_TargetScenarios s \<noteq> None \<Longrightarrow> quiet (WithTargetScenarios (cfg_parsedTargetScenarios s))"
    "cfg_AgentTargetScenarios s \<noteq> None \<Longrightarrow> quiet (WithAgentTargetScenarios (cfg_parsedAgentTargetScenarios s))"
    "cfg_CoordinatorTargetScenarios s \<noteq> None \<Longrightarrow>
       quiet (WithCoordinatorTargetScenarios (cfg_parsedCoordinatorScenarios s))"
    "cfg_parsedMinimumLogLevel s = Some l \<Longrightarrow> canonicalLogEventLevel l = Some l"
  using assms
  by (simp_all add: section_ok_def blank_strings_def millisecond_fields_def list_field_ok_def quiet_lists
      duration_or_zero_def runtimeConfigMilliseconds_def)

lemma quiet_steps:
  assumes "section_ok (file_LoadStrike cfg)"
    and "cloneKnownJSONCompatibleSettings (file_CustomSettings cfg) = Inr settings"
  shows "list_all quiet (take 28 (candidate_steps cfg))"
  unfolding candidate_steps_def Let_def
  using assms(2)
  by (simp add: apply_settings_def act_res_def, intro conjI)
    (rule quiet_opt quiet_if quiet_strings quiet_durations quiet_others quiet_ok
       section_ok_fields [OF assms(1)] | assumption | simp)+

section \<open>Properties\<close>

definition v2_selected :: "runtimeConfigFile \<Rightarrow> contextState \<Rightarrow> bool" where
  "v2_selected cfg c \<longleftrightarrow>
     (case cfg_parsedUseLoadEngineV2 (file_LoadStrike cfg) of
        Some b \<Rightarrow> b
      | None \<Rightarrow> ctx_LoadEngineContractVersion c = 2)"

definition errMaxInFlight :: go_error where
  "errMaxInFlight = ''LoadStrike.MaxInFlight is available only when Load Engine V2 is selected''"

lemma candidate_steps_split:
  "candidate_steps cfg = take 28 (candidate_steps cfg) @
     [act_opt (cfg_parsedUseLoadEngineV2 (file_LoadStrike cfg)) apply_engine,
      act_opt (cfg_MaxInFlight (file_LoadStrike cfg)) apply_max_in_flight,
      act_opt (lic_TimeoutMS (cfg_LicenseValidation (file_LoadStrike cfg)))
         (\<lambda>ms. WithLicenseValidationTimeout (duration_or_zero ''LicenseValidation.TimeoutMs'' ms))]"
  by (simp add: candidate_steps_def Let_def)

lemma quiet_first: "quiet f \<Longrightarrow> \<exists>c'. act_seq f g c = g c' \<and>
    ctx_LoadEngineContractVersion c' = ctx_LoadEngineContractVersion c"
proof -
  assume "quiet f"
  then have "fst (f c) = None" "ctx_LoadEngineContractVersion (snd (f c)) = ctx_LoadEngineContractVersion c"
    by (simp_all add: quiet_def)
  then show ?thesis by (intro exI [of _ "snd (f c)"]) (auto simp: act_seq_def split: prod.splits)
qed

text \<open>
  C28: a configuration that was loaded applies as a whole or not at all. It applies unless it asks
  for a bound on the iterations in flight while the second load engine is not selected; then the
  operation panics with that message and the context is exactly what it was.
\<close>

theorem loaded_config_applies_or_not:
  assumes "loadRuntimeConfig js (Inr body) = Inr cfg"
  shows "applyRuntimeConfig cfg c =
     (if cfg_MaxInFlight (file_LoadStrike cfg) \<noteq> None \<and> \<not> v2_selected cfg c
      then (Some errMaxInFlight, c)
      else (None, snd (applyRuntimeConfigCandidate cfg c)))"
proof -
  let ?s = "file_LoadStrike cfg"
  let ?lic = "act_opt (lic_TimeoutMS (cfg_LicenseValidation ?s))
         (\<lambda>ms. WithLicenseValidationTimeout (duration_or_zero ''LicenseValidation.TimeoutMs'' ms))"
  note ok = loaded_config_ok [OF assms]
  let ?pre = "act_all (take 28 (candidate_steps cfg))"
  let ?rest = "act_seq (act_opt (cfg_parsedUseLoadEngineV2 ?s) apply_engine)
       (act_seq (act_opt (cfg_MaxInFlight ?s) apply_max_in_flight) (act_seq ?lic (act_ok id)))"
  have pre: "quiet ?pre" by (rule quiet_all [OF quiet_steps [OF ok(1,2)]])
  have "applyRuntimeConfigCandidate cfg c = act_seq ?pre ?rest c"
    unfolding applyRuntimeConfigCandidate_def
    using arg_cong [OF candidate_steps_split [of cfg], of act_all]
    by (simp only: act_all_append act_all.simps)
  with quiet_first [OF pre, of ?rest c] obtain c1
    where run: "applyRuntimeConfigCandidate cfg c = ?rest c1"
      and "ctx_LoadEngineContractVersion c1 = ctx_LoadEngineContractVersion c"
    by (simp only:) blast
  then have "\<exists>c2. act_opt (cfg_parsedUseLoadEngineV2 ?s) apply_engine c1 = (None, c2) \<and>
      (ctx_LoadEngineContractVersion c2 = 2 \<longleftrightarrow> v2_selected cfg c)"
    by (cases "cfg_parsedUseLoadEngineV2 ?s"; cases "the (cfg_parsedUseLoadEngineV2 ?s)")
      (auto simp: v2_selected_def apply_engine_def UseLoadEngineV2_def)
  then obtain c2 where eng: "act_opt (cfg_parsedUseLoadEngineV2 ?s) apply_engine c1 = (None, c2)"
      and v2: "ctx_LoadEngineContractVersion c2 = 2 \<longleftrightarrow> v2_selected cfg c" by blast
  have run2: "applyRuntimeConfigCandidate cfg c =
       act_seq (act_opt (cfg_MaxInFlight ?s) apply_max_in_flight) (act_seq ?lic (act_ok id)) c2"
    by (simp add: run act_seq_def [of "act_opt (cfg_parsedUseLoadEngineV2 ?s) apply_engine"] eng)
  have "quiet ?lic" by (rule quiet_opt quiet_durations section_ok_fields [OF ok(1)] | assumption)+
  then have lic: "fst (act_seq ?lic (act_ok id) d) = None" for d
    by (auto simp: quiet_def act_seq_def split: prod.splits option.splits) (metis fst_conv option.distinct(1))
  have "fst (applyRuntimeConfigCandidate cfg c) =
      (if cfg_MaxInFlight ?s \<noteq> None \<and> \<not> v2_selected cfg c then Some errMaxInFlight else None)"
    using section_ok_fields(16) [OF ok(1)] lic v2
    by (cases "cfg_MaxInFlight ?s")
      (auto simp: run2 act_seq_def apply_max_in_flight_def WithMaxInFlight_def recordConfigError_def errMaxInFlight_def)
  then show ?thesis
    by (cases "applyRuntimeConfigCandidate cfg c") (auto simp: applyRuntimeConfig_def split: if_splits)
qed

text \<open>The names of the fields, folded, to evaluate the decoding of a document.\<close>

lemmas char_eval = to_lower_def lower_char_def char_of_def bit_0

lemma folded_names:
  "to_lower ''LoadStrike'' = ''loadstrike''" "to_lower ''TestSuite'' = ''testsuite''"
  "to_lower ''TestName'' = ''testname''" "to_lower ''SessionId'' = ''sessionid''"
  "to_lower ''ReportFolder'' = ''reportfolder''" "to_lower ''ReportFileName'' = ''reportfilename''"
  "to_lower ''ReportFormats'' = ''reportformats''" "to_lower ''ReportingIntervalMs'' = ''reportingintervalms''"
  "to_lower ''ScenarioCompletionTimeoutMs'' = ''scenariocompletiontimeoutms''"
  "to_lower ''ClusterCommandTimeoutMs'' = ''clustercommandtimeoutms''" "to_lower ''NodeType'' = ''nodetype''"
  "to_lower ''ClusterId'' = ''clusterid''" "to_lower ''AgentGroup'' = ''agentgroup''"
  "to_lower ''AgentId'' = ''agentid''" "to_lower ''ExpectedAgentIds'' = ''expectedagentids''"
  "to_lower ''AgentsCount'' = ''agentscount''" "to_lower ''NatsServerUrl'' = ''natsserverurl''"
  "to_lower ''TargetScenarios'' = ''targetscenarios''"
  "to_lower ''AgentTargetScenarios'' = ''agenttargetscenarios''"
  "to_lower ''CoordinatorTargetScenarios'' = ''coordinatortargetscenarios''"
  "to_lower ''MinimumLogLevel'' = ''minimumloglevel''"
  "to_lower ''DisplayConsoleMetrics'' = ''displayconsolemetrics''"
  "to_lower ''EnableLocalDevCluster'' = ''enablelocaldevcluster''"
  "to_lower ''RestartIterationMaxAttempts'' = ''restartiterationmaxattempts''"
  "to_lower ''SinkRetryCount'' = ''sinkretrycount''" "to_lower ''SinkRetryBackoffMs'' = ''sinkretrybackoffms''"
  "to_lower ''RunnerKey'' = ''runnerkey''" "to_lower ''WithoutReports'' = ''withoutreports''"
  "to_lower ''UseLoadEngineV2'' = ''useloadenginev2''" "to_lower ''MaxInFlight'' = ''maxinflight''"
  "to_lower ''LicenseValidation'' = ''licensevalidation''"
  "to_lower ''DisableLicenseEnforcement'' = ''disablelicenseenforcement''"
  "to_lower ''SkipLicenseValidation'' = ''skiplicensevalidation''"
  by (simp_all add: char_eval)

definition sample_doc :: json where
  "sample_doc = JObj [(''LoadStrike'', JObj [(''MaxInFlight'', JInt 5)])]"

definition sample_js :: json_pkg where
  "sample_js = \<lparr>js_number = (\<lambda>n. None), js_type_error = (\<lambda>key v. ''bad value'')\<rparr>"

lemma finite_five: "f64_of_int 5 = Fin 5"
  by code_simp

lemma sample_doc_valid: "validateRuntimeConfigDocument sample_js sample_doc = Inr ()"
  by (simp add: validateRuntimeConfigDocument_def sample_doc_def json_object_def removed_keys_def forbid_key_def
      forbid_null_def caseInsensitiveRawConfigValue_def equal_fold_def folded_names validate_section_def
      documentedRuntimeConfigKeys_def fail_if_def)

lemma sample_doc_decodes:
  "decode_root sample_js [(''LoadStrike'', JObj [(''MaxInFlight'', JInt 5)])] zero_section =
     Inr (zero_section\<lparr>cfg_MaxInFlight := Some 5\<rparr>)"
  by (simp add: section_fields_def equal_fold_def folded_names js_int_def decode_int_def int_range_def)

lemma zero_section_normal:
  "normalizeRuntimeConfigSection (zero_section\<lparr>cfg_MaxInFlight := Some 5\<rparr>) = Inr (zero_section\<lparr>cfg_MaxInFlight := Some 5\<rparr>)"
  by (simp add: normalizeRuntimeConfigSection_def zero_section_def blank_strings_def fail_if_def
      parseRuntimeReportFormats_def parseRuntimeStringList_def parseRuntimeNodeType_def
      parseRuntimeMinimumLogLevel_def parseRuntimeStrictBool_def check_numbers_def millisecond_fields_def
      count_fields_def)

lemma sample_doc_loads:
  "loadRuntimeConfig sample_js (Inr sample_doc) =
     Inr \<lparr>file_LoadStrike = zero_section\<lparr>cfg_MaxInFlight := Some 5\<rparr>,
          file_CustomSettings = [(''LoadStrike'', AnyMap [(''MaxInFlight'', AnyFloat64 (Fin 5))])]\<rparr>"
  unfolding loadRuntimeConfig_def
  by (simp add: sample_doc_valid)
    (simp add: sample_doc_def sample_doc_decodes [simplified] zero_section_normal config_settings_def finite_five finite_float_def
      cloneKnownJSONCompatibleSettings_def numeral_eq_Suc)

theorem loaded_config_applies_or_not_witness:
  "applyRuntimeConfig \<lparr>file_LoadStrike = zero_section\<lparr>cfg_MaxInFlight := Some 5\<rparr>,
      file_CustomSettings = [(''LoadStrike'', AnyMap [(''MaxInFlight'', AnyFloat64 (Fin 5))])]\<rparr> default_context
     = (Some errMaxInFlight, default_context)"
  using loaded_config_applies_or_not [OF sample_doc_loads, of default_context]
  by (simp add: v2_selected_def zero_section_def default_context_def)

text \<open>a list of names in a configuration, whether written as one comma separated string or as an
  array, is read as the trimmed values without repetition; blank and null entries are refused.\<close>

theorem string_lists_normalized:
  assumes "parseRuntimeStringList key (Some j) = Inr vs"
  shows "vs \<noteq> [] \<and> distinct vs \<and> (\<forall>v \<in> set vs. trim_space v = v \<and> \<not> blank v) \<and>
    (\<exists>raw. string_list_values j = Some raw \<and> set vs = trim_space ` set raw)"
  using string_list_ok [OF assms] by simp

theorem string_lists_normalized_witness:
  "distinct [''a'', ''b''] \<and> parseRuntimeStringList ''TargetScenarios'' (Some (JArr [JStr ''a'', JStr ''b'', JStr ''a'']))
     = Inr [''a'', ''b'']"
proof -
  have *: "parseRuntimeStringList ''TargetScenarios'' (Some (JArr [JStr ''a'', JStr ''b'', JStr ''a''])) = Inr [''a'', ''b'']"
    by (simp add: parseRuntimeStringList_def string_list_values_def string_element_def graphic_def Let_def)
  from string_lists_normalized [OF this] * show ?thesis by simp
qed

text \<open>
  a document that loads has no removed license switch at its root, and its \<open>LoadStrike\<close> section
  is an object without a removed switch, without null for a documented key, and with no two keys that
  differ only in case.
\<close>

theorem loaded_document_checked:
  assumes "loadRuntimeConfig js (Inr body) = Inr cfg"
  shows "\<exists>members. json_object body = Some members \<and> distinct (map (to_lower \<circ> fst) members) \<and>
    (\<forall>(k, v) \<in> set members. \<forall>r \<in> set removed_keys. \<not> equal_fold k r) \<and>
    (\<forall>(k, v) \<in> set members. equal_fold k ''LoadStrike'' \<longrightarrow>
       (\<exists>sec. json_object v = Some sec \<and> distinct (map (to_lower \<circ> fst) sec) \<and>
          (\<forall>(k', w) \<in> set sec. (\<forall>r \<in> set removed_keys. \<not> equal_fold k' r) \<and>
             (\<forall>d \<in> set documentedRuntimeConfigKeys. equal_fold k' d \<longrightarrow> w \<noteq> JNull))))"
proof -
  from loaded_config_ok(3) [OF assms] obtain members where m: "json_object body = Some members"
    and d: "distinct (map (to_lower \<circ> fst) members)"
    and r: "\<forall>r \<in> set removed_keys. caseInsensitiveRawConfigValue members r = None"
    and s: "(case caseInsensitiveRawConfigValue members ''LoadStrike'' of
               None \<Rightarrow> Inr () | Some loadStrikeRaw \<Rightarrow> validate_section loadStrikeRaw) = Inr ()"
    by (auto simp: validateRuntimeConfigDocument_def res_bind_Inr check_all_Inr distinct_keys_iff forbid_key_def
        split: if_splits option.splits simp del: split_paired_Ex)
  have "\<exists>sec. json_object v = Some sec \<and> distinct (map (to_lower \<circ> fst) sec) \<and>
          (\<forall>(k', w) \<in> set sec. (\<forall>r \<in> set removed_keys. \<not> equal_fold k' r) \<and>
             (\<forall>d \<in> set documentedRuntimeConfigKeys. equal_fold k' d \<longrightarrow> w \<noteq> JNull))"
    if kv: "(k, v) \<in> set members" "equal_fold k ''LoadStrike''" for k v
  proof -
    from s raw_value_unique [OF d kv] have "validate_section v = Inr ()" by simp
    then obtain sec where sec: "json_object v = Some sec" "distinct (map (to_lower \<circ> fst) sec)"
      and rk: "\<forall>r \<in> set removed_keys. caseInsensitiveRawConfigValue sec r = None"
      and nk: "\<forall>d \<in> set documentedRuntimeConfigKeys. caseInsensitiveRawConfigValue sec d \<noteq> Some JNull"
      by (auto simp: validate_section_def res_bind_Inr check_all_Inr distinct_keys_iff forbid_key_def forbid_null_def
          split: if_splits option.splits simp del: split_paired_Ex)
    have "w \<noteq> JNull" if "(k', w) \<in> set sec" "d \<in> set documentedRuntimeConfigKeys" "equal_fold k' d" for k' w d
      using raw_value_unique [OF sec(2) that(1,3)] nk that(2) by auto
    with sec rk show ?thesis by (fastforce simp: raw_value_None)
  qed
  with m d r show ?thesis by (fastforce simp: raw_value_None)
qed

theorem loaded_document_checked_witness:
  "\<not> equal_fold ''LoadStrike'' ''SkipLicenseValidation'' \<and> json_object sample_doc = Some [(''LoadStrike'', JObj [(''MaxInFlight'', JInt 5)])]"
  using loaded_document_checked [OF sample_doc_loads]
  by (simp add: sample_doc_def json_object_def removed_keys_def)

text \<open>
  the checks read the document as a map, which keeps the last of two members with the same key,
  but the decoding merges them: what a first \<open>LoadStrike\<close> section sets takes effect without having
  been checked.
\<close>

theorem repeated_section_not_checked:
  "validateRuntimeConfigDocument js (JObj [(''LoadStrike'', JObj kvs), (''LoadStrike'', JObj [])]) = Inr () \<and>
   decode_root js [(''LoadStrike'', JObj kvs), (''LoadStrike'', JObj [])] zero_section = decode_section js kvs zero_section"
  by (auto simp: validateRuntimeConfigDocument_def json_object_def removed_keys_def forbid_key_def forbid_null_def
      caseInsensitiveRawConfigValue_def equal_fold_def folded_names validate_section_def fail_if_def
      documentedRuntimeConfigKeys_def split: sum.splits)

section \<open>The context stays valid\<close>

lemma apply_settings_keeps: "act_keeps context_ok (apply_settings v)"
  unfolding apply_settings_def by (rule act_keeps_res) (auto simp: context_ok_def)

lemma plain_steps_keep:
  "act_keeps context_ok (act_ok (\<lambda>c. c\<lparr>ctx_SinkRetryCount := n\<rparr>))"
  "act_keeps context_ok (act_ok (\<lambda>c. c\<lparr>ctx_SinkRetryBackoffMs := n\<rparr>))"
  "act_keeps context_ok (act_ok (\<lambda>c. c\<lparr>ctx_ReportsEnabled := b\<rparr>))"
  "act_keeps context_ok (act_ok (\<lambda>c. c\<lparr>ctx_LoadEngineContractVersion := v\<rparr>))"
  by (simp_all add: act_keeps_def context_ok_def)

lemma apply_engine_keeps: "act_keeps context_ok (apply_engine b)"
  by (simp add: apply_engine_def plain_steps_keep simple_ops_keep)

lemma apply_max_in_flight_keeps: "act_keeps context_ok (apply_max_in_flight n)"
  using WithMaxInFlight_keeps [of n] by (auto simp: act_keeps_def apply_max_in_flight_def recordConfigError_def)

lemma candidate_keeps: "act_keeps context_ok (applyRuntimeConfigCandidate cfg)"
proof -
  have "list_all (act_keeps context_ok) (candidate_steps cfg)"
    unfolding candidate_steps_def Let_def
    by (simp only: list.pred_inject, intro conjI TrueI)
      (rule act_keeps_opt act_keeps_if apply_settings_keeps plain_steps_keep apply_engine_keeps
         apply_max_in_flight_keeps simple_ops_keep WithMinimumLogLevel_keeps WithExpectedAgentIDs_keeps)+
  then show ?thesis unfolding applyRuntimeConfigCandidate_def list_all_iff by (intro act_keeps_all) blast
qed

lemma applyRuntimeConfig_keeps: "act_keeps context_ok (applyRuntimeConfig cfg)"
  using candidate_keeps [of cfg]
  by (fastforce simp: act_keeps_def applyRuntimeConfig_def split: prod.splits option.splits)

text \<open>loading a configuration, of whatever file, keeps a context valid, also when it panics.\<close>

theorem load_config_keeps_context:
  assumes "context_ok c"
  shows "context_ok (snd (LoadConfig js read path c))"
proof -
  have "act_keeps context_ok (LoadConfig js read path)"
    unfolding LoadConfig_def requireNonBlank_def
    by (cases "loadRuntimeConfig js (read path)")
      (auto intro!: act_keeps_seq act_keeps_if act_keeps_recordConfigError applyRuntimeConfig_keeps)
  then show ?thesis using assms by (rule act_keepsD)
qed

theorem load_config_keeps_context_witness:
  "context_ok (snd (LoadConfig sample_js (\<lambda>path. Inr sample_doc) ''load.json'' default_context))"
  by (rule load_config_keeps_context) (rule default_context_ok)

section \<open>Run arguments\<close>

abbreviation disables_licensing :: "string \<Rightarrow> bool" where
  "disables_licensing arg \<equiv> \<exists>v. parseRunArg arg = Some (''disablelicenseenforcement'', v)"

definition retries_changed :: "contextState \<Rightarrow> contextState \<Rightarrow> bool" where
  "retries_changed c d \<longleftrightarrow>
     (\<exists>a n b. d = c\<lparr>ctx_RestartIterationMaxAttempts := a, ctx_SinkRetryCount := n, ctx_SinkRetryBackoffMs := b\<rparr> \<and>
        (0 \<le> a \<or> a = ctx_RestartIterationMaxAttempts c) \<and> (0 \<le> n \<or> n = ctx_SinkRetryCount c) \<and>
        (0 \<le> b \<or> b = ctx_SinkRetryBackoffMs c))"

lemma retries_refl: "retries_changed c c"
  unfolding retries_changed_def by (intro exI [of _ "ctx_RestartIterationMaxAttempts c"]
      exI [of _ "ctx_SinkRetryCount c"] exI [of _ "ctx_SinkRetryBackoffMs c"]) simp

lemma retries_trans: "retries_changed c d \<Longrightarrow> retries_changed d e \<Longrightarrow> retries_changed c e"
proof -
  assume cd: "retries_changed c d" and de: "retries_changed d e"
  from cd obtain a n b where d: "d = c\<lparr>ctx_RestartIterationMaxAttempts := a, ctx_SinkRetryCount := n, ctx_SinkRetryBackoffMs := b\<rparr>"
    and 1: "0 \<le> a \<or> a = ctx_RestartIterationMaxAttempts c" "0 \<le> n \<or> n = ctx_SinkRetryCount c"
      "0 \<le> b \<or> b = ctx_SinkRetryBackoffMs c" unfolding retries_changed_def by blast
  from de obtain a' n' b'
    where e: "e = d\<lparr>ctx_RestartIterationMaxAttempts := a', ctx_SinkRetryCount := n', ctx_SinkRetryBackoffMs := b'\<rparr>"
    and 2: "0 \<le> a' \<or> a' = ctx_RestartIterationMaxAttempts d" "0 \<le> n' \<or> n' = ctx_SinkRetryCount d"
      "0 \<le> b' \<or> b' = ctx_SinkRetryBackoffMs d" unfolding retries_changed_def by blast
  from d e have "e = c\<lparr>ctx_RestartIterationMaxAttempts := a', ctx_SinkRetryCount := n', ctx_SinkRetryBackoffMs := b'\<rparr>"
    by simp
  moreover have "0 \<le> a' \<or> a' = ctx_RestartIterationMaxAttempts c" "0 \<le> n' \<or> n' = ctx_SinkRetryCount c"
      "0 \<le> b' \<or> b' = ctx_SinkRetryBackoffMs c" using 1 2 d by auto
  ultimately show ?thesis unfolding retries_changed_def by blast
qed

lemma retries_fields:
  assumes "0 \<le> n"
  shows "retries_changed c (c\<lparr>ctx_RestartIterationMaxAttempts := n\<rparr>)"
    "retries_changed c (c\<lparr>ctx_SinkRetryCount := n\<rparr>)" "retries_changed c (c\<lparr>ctx_SinkRetryBackoffMs := n\<rparr>)"
proof -
  let ?a = "ctx_RestartIterationMaxAttempts c" and ?n = "ctx_SinkRetryCount c" and ?b = "ctx_SinkRetryBackoffMs c"
  from assms show "retries_changed c (c\<lparr>ctx_RestartIterationMaxAttempts := n\<rparr>)"
    unfolding retries_changed_def by (intro exI [of _ n] exI [of _ ?n] exI [of _ ?b]) simp
  from assms show "retries_changed c (c\<lparr>ctx_SinkRetryCount := n\<rparr>)"
    unfolding retries_changed_def by (intro exI [of _ ?a] exI [of _ n] exI [of _ ?b]) simp
  from assms show "retries_changed c (c\<lparr>ctx_SinkRetryBackoffMs := n\<rparr>)"
    unfolding retries_changed_def by (intro exI [of _ ?a] exI [of _ ?n] exI [of _ n]) simp
qed

lemma natural_arg_None: "fst (natural_arg v f c) = None"
  by (simp add: natural_arg_def split: option.splits)

lemma apply_run_arg_cases:
  "fst (apply_run_arg arg c) \<noteq> None \<longleftrightarrow> disables_licensing arg"
  "retries_changed c (snd (apply_run_arg arg c))"
  by (auto simp: apply_run_arg_def natural_arg_None natural_arg_def retries_refl retries_fields split: option.splits)

text \<open>
  the arguments of a run change nothing of the context but its three retry settings, never to a
  negative number, and they fail exactly when one of them tries to switch off license enforcement.
\<close>

theorem run_args_limited:
  "(fst (applyRunArgs args c) \<noteq> None \<longleftrightarrow> list_ex disables_licensing args) \<and>
   retries_changed c (snd (applyRunArgs args c))"
proof (induction args arbitrary: c)
  case (Cons arg args)
  obtain m d where a: "apply_run_arg arg c = (m, d)" by (cases "apply_run_arg arg c")
  with apply_run_arg_cases [where arg = arg and c = c] have "m \<noteq> None \<longleftrightarrow> disables_licensing arg" "retries_changed c d"
    by simp_all
  with Cons.IH [of d] show ?case
    by (cases m) (auto simp: applyRunArgs_def act_seq_def a intro: retries_trans)
qed (simp add: applyRunArgs_def retries_refl)

end
