(* ===== verification/Callback_Context.thy ===== *)
theory Callback_Context
  imports Context "HOL-Library.Word"
begin

text \<open>
  What a callback of the engine gives the program's functions, and what they can do with it: the log
  of a callback (\<open>runtime_http_host.go\<close>) and its logger (\<open>runtime_contexts.go\<close>), the context of a
  step with its requests to stop (\<open>step.go\<close>, \<open>execution_control.go\<close>), and metrics (\<open>metrics.go\<close>).
  Strings are the bytes of Go's strings, so that a length is a number of bytes.
\<close>

section \<open>UTF-8\<close>

definition byte_in :: "nat \<Rightarrow> nat \<Rightarrow> char \<Rightarrow> bool" where
  "byte_in a b c \<longleftrightarrow> a \<le> (of_char c :: nat) \<and> (of_char c :: nat) \<le> b"

text \<open>\<open>utf8.ValidString\<close>: the byte sequences of the Unicode standard's table.\<close>

fun utf8_valid :: "string \<Rightarrow> bool" where
  "utf8_valid [] = True"
| "utf8_valid (a # s) =
     (if byte_in 0 0x7F a then utf8_valid s
      else if byte_in 0xC2 0xDF a then
        (case s of b # t \<Rightarrow> byte_in 0x80 0xBF b \<and> utf8_valid t | [] \<Rightarrow> False)
      else if byte_in 0xE0 0xEF a then
        (case s of
           b # c # t \<Rightarrow>
             byte_in (if byte_in 0xE0 0xE0 a then 0xA0 else 0x80) (if byte_in 0xED 0xED a then 0x9F else 0xBF) b \<and>
             byte_in 0x80 0xBF c \<and> utf8_valid t
         | _ \<Rightarrow> False)
      else if byte_in 0xF0 0xF4 a then
        (case s of
           b # c # d # t \<Rightarrow>
             byte_in (if byte_in 0xF0 0xF0 a then 0x90 else 0x80) (if byte_in 0xF4 0xF4 a then 0x8F else 0xBF) b \<and>
             byte_in 0x80 0xBF c \<and> byte_in 0x80 0xBF d \<and> utf8_valid t
         | _ \<Rightarrow> False)
      else False)"

lemma utf8_valid_ascii: "list_all (byte_in 0 0x7F) s \<Longrightarrow> utf8_valid s"
  by (induction s) simp_all

section \<open>The log of a callback\<close>

record runtimeCallbackLog =
  log_Level :: string
  log_Message :: string

record runtimeCallbackLogBuffer =
  buf_logs :: "runtimeCallbackLog list"
  buf_aggregateBytes :: nat
  buf_err :: "go_error option"

definition runtimeCallbackMaximumLogCount :: nat where "runtimeCallbackMaximumLogCount = 1000"

definition runtimeCallbackMaximumLogBytes :: nat where "runtimeCallbackMaximumLogBytes = 256 * 1024"

definition errRuntimeCallbackLogLimitExceeded :: go_error where
  "errRuntimeCallbackLogLimitExceeded = ''runtime callback log limit exceeded''"

definition errRuntimeCallbackLogInvalidUTF8 :: go_error where
  "errRuntimeCallbackLogInvalidUTF8 = ''runtime callback log contains invalid UTF-8''"

definition newRuntimeCallbackLogBuffer :: runtimeCallbackLogBuffer where
  "newRuntimeCallbackLogBuffer = \<lparr>buf_logs = [], buf_aggregateBytes = 0, buf_err = None\<rparr>"

definition log_append :: "string \<Rightarrow> string \<Rightarrow> runtimeCallbackLogBuffer \<Rightarrow> runtimeCallbackLogBuffer" where
  "log_append level message b =
     (if buf_err b \<noteq> None then b
      else if \<not> utf8_valid level \<or> \<not> utf8_valid message
      then b\<lparr>buf_err := Some errRuntimeCallbackLogInvalidUTF8\<rparr>
      else let entryBytes = length level + length message in
        if length (buf_logs b) \<ge> runtimeCallbackMaximumLogCount \<or>
           buf_aggregateBytes b + entryBytes > runtimeCallbackMaximumLogBytes
        then b\<lparr>buf_err := Some errRuntimeCallbackLogLimitExceeded\<rparr>
        else b\<lparr>buf_logs := buf_logs b @ [\<lparr>log_Level = level, log_Message = message\<rparr>],
               buf_aggregateBytes := buf_aggregateBytes b + entryBytes\<rparr>)"

definition log_result :: "runtimeCallbackLogBuffer \<Rightarrow> runtimeCallbackLog list res" where
  "log_result b = (case buf_err b of Some e \<Rightarrow> Inl e | None \<Rightarrow> Inr (buf_logs b))"

text \<open>
  The methods of the logger. \<open>sprintf\<close> is \<open>fmt.Sprintf\<close>; with no arguments the format is the
  message.
\<close>

datatype log_level = Verbose | Debug | Information | Warning | Error | Fatal

fun level_name :: "log_level \<Rightarrow> string" where
  "level_name Verbose = ''Verbose''"
| "level_name Debug = ''Debug''"
| "level_name Information = ''Information''"
| "level_name Warning = ''Warning''"
| "level_name Error = ''Error''"
| "level_name Fatal = ''Fatal''"

definition logger_log ::
  "(string \<Rightarrow> go_any list \<Rightarrow> string) \<Rightarrow> log_level \<Rightarrow> string \<Rightarrow> go_any list
     \<Rightarrow> runtimeCallbackLogBuffer \<Rightarrow> runtimeCallbackLogBuffer" where
  "logger_log sprintf level fmt args b =
     (let message = (if length args > 0 then sprintf fmt args else fmt) in
      log_append (level_name level) message b)"

section \<open>Stopping\<close>

record executionControl =
  ec_testCancelled :: bool
  ec_testStopped :: bool
  ec_stoppedScenarios :: "string \<rightharpoonup> string"

definition newExecutionControl :: executionControl where
  "newExecutionControl = \<lparr>ec_testCancelled = False, ec_testStopped = False, ec_stoppedScenarios = Map.empty\<rparr>"

definition stopTest :: "string \<Rightarrow> executionControl \<Rightarrow> executionControl" where
  "stopTest reason c =
     (let alreadyStopped = ec_testStopped c; c = c\<lparr>ec_testStopped := True\<rparr> in
      if \<not> alreadyStopped then c\<lparr>ec_testCancelled := True\<rparr> else c)"

definition control_stopScenario :: "string \<Rightarrow> string \<Rightarrow> executionControl \<Rightarrow> executionControl" where
  "control_stopScenario scenarioName reason c =
     (let name = trim_space scenarioName in
      if name = [] then c
      else c\<lparr>ec_stoppedScenarios := (ec_stoppedScenarios c)(to_lower name \<mapsto> reason)\<rparr>)"

definition shouldStopTest :: "executionControl option \<Rightarrow> bool" where
  "shouldStopTest c = (case c of None \<Rightarrow> False | Some c \<Rightarrow> ec_testStopped c)"

definition shouldStopScenario :: "string \<Rightarrow> executionControl option \<Rightarrow> bool" where
  "shouldStopScenario scenarioName c =
     (case c of
        None \<Rightarrow> False
      | Some c \<Rightarrow> ec_stoppedScenarios c (to_lower (trim_space scenarioName)) \<noteq> None)"

section \<open>The context of a step\<close>

record LoadStrikeScenarioInfo =
  si_InstanceID :: string
  si_InstanceId :: string
  si_InstanceNumber :: int
  si_ScenarioDuration :: int
  si_ScenarioName :: string
  si_ScenarioOperation :: int

text \<open>
  \<open>sr_scenarioCancel\<close> is the cancel function of the scenario, if any, by whether it was called. The
  logger, the random numbers and the cancellation token are objects of the run, not data; a
  callback's map \<open>Data\<close> is new and empty and is dropped with the context.
\<close>

record stepRuntimeContext =
  sr_ScenarioName :: string
  sr_StepName :: string
  sr_TestSuite :: string
  sr_TestName :: string
  sr_InvocationNumber :: int
  sr_ScenarioInstanceData :: "string \<rightharpoonup> go_any"
  sr_nodeInfo :: nodeInfo
  sr_testInfo :: testInfo
  sr_ScenarioInfo :: LoadStrikeScenarioInfo
  sr_Partition :: scenarioPartitionInfo
  sr_CustomSettings :: "(string \<times> go_any) list"
  sr_GlobalCustomSettings :: "(string \<times> go_any) list"
  sr_Random :: int
  sr_scenarioCancel :: "bool option"
  sr_executionControl :: "executionControl option"
  sr_scenarioTimerStarted :: int
  sr_stopRequested :: bool
  sr_stopScenarioName :: string
  sr_stopScenarioReason :: string
  sr_stopCurrentTest :: bool
  sr_stopCurrentTestReason :: string

definition StopScenario :: "string list \<Rightarrow> stepRuntimeContext \<Rightarrow> stepRuntimeContext" where
  "StopScenario args c =
     (let scenarioName = sr_ScenarioName c;
          reason = [];
          reason = (if length args = 1 then args ! 0 else reason);
          (scenarioName, reason) = (if length args \<ge> 2 then (args ! 0, args ! 1) else (scenarioName, reason));
          effective = firstNonBlank [trim_space scenarioName, sr_ScenarioName c];
          c = c\<lparr>sr_stopRequested := True, sr_stopScenarioName := effective, sr_stopScenarioReason := reason,
                sr_executionControl := map_option (control_stopScenario effective reason) (sr_executionControl c)\<rparr>
      in if equal_fold (trim_space effective) (sr_ScenarioName c)
         then c\<lparr>sr_scenarioCancel := map_option (\<lambda>_. True) (sr_scenarioCancel c)\<rparr> else c)"

definition StopCurrentTest :: "string \<Rightarrow> stepRuntimeContext \<Rightarrow> stepRuntimeContext" where
  "StopCurrentTest reason c =
     c\<lparr>sr_stopCurrentTest := True, sr_stopCurrentTestReason := reason, sr_stopRequested := True,
       sr_executionControl := map_option (stopTest reason) (sr_executionControl c),
       sr_scenarioCancel := map_option (\<lambda>_. True) (sr_scenarioCancel c)\<rparr>"

text \<open>\<open>LoadStrikeStep.Run\<close> names the step that runs, unless an earlier one did.\<close>

definition name_step :: "string \<Rightarrow> stepRuntimeContext \<Rightarrow> stepRuntimeContext" where
  "name_step name c = (if sr_StepName c = [] then c\<lparr>sr_StepName := name\<rparr> else c)"

text \<open>\<open>now\<close> is the current time and 0 the zero time.\<close>

definition GetScenarioTimerTime :: "int \<Rightarrow> stepRuntimeContext \<Rightarrow> int" where
  "GetScenarioTimerTime now c =
     (if sr_scenarioTimerStarted c = 0 then 0 else now - sr_scenarioTimerStarted c)"

text \<open>What the function of a scenario does with its context, in the order in which it does it.\<close>

datatype step_action =
    LogMessage log_level string "go_any list"
  | StopScenarioCall "string list"
  | StopCurrentTestCall string
  | NameStep string

fun step_act ::
  "(string \<Rightarrow> go_any list \<Rightarrow> string) \<Rightarrow> step_action \<Rightarrow> stepRuntimeContext \<times> runtimeCallbackLogBuffer
     \<Rightarrow> stepRuntimeContext \<times> runtimeCallbackLogBuffer" where
  "step_act sprintf (LogMessage level fmt args) (c, b) = (c, logger_log sprintf level fmt args b)"
| "step_act sprintf (StopScenarioCall args) (c, b) = (StopScenario args c, b)"
| "step_act sprintf (StopCurrentTestCall reason) (c, b) = (StopCurrentTest reason c, b)"
| "step_act sprintf (NameStep name) (c, b) = (name_step name c, b)"

section \<open>Metrics\<close>

record counterMetric =
  cm_metricName :: string
  cm_unitOfMeasure :: string
  cm_value :: "64 word"

record gaugeMetric =
  gm_metricName :: string
  gm_unitOfMeasure :: string
  gm_value :: float64

text \<open>A metric the program registered: one of the SDK's, or a type of its own that is neither.\<close>

datatype metric = CounterMetric counterMetric | GaugeMetric gaugeMetric | OtherMetric string string

definition CreateCounter :: "string \<Rightarrow> string \<Rightarrow> metric res" where
  "CreateCounter metricName unitOfMeasure =
     (if metricName = [] then Inl ''metric name must be provided''
      else Inr (CounterMetric \<lparr>cm_metricName = metricName, cm_unitOfMeasure = unitOfMeasure, cm_value = 0\<rparr>))"

definition CreateGauge :: "string \<Rightarrow> string \<Rightarrow> metric res" where
  "CreateGauge metricName unitOfMeasure =
     (if metricName = [] then Inl ''metric name must be provided''
      else Inr (GaugeMetric \<lparr>gm_metricName = metricName, gm_unitOfMeasure = unitOfMeasure, gm_value = Fin 0\<rparr>))"

definition counter_Add :: "64 word \<Rightarrow> counterMetric \<Rightarrow> counterMetric" where
  "counter_Add v m = m\<lparr>cm_value := cm_value m + v\<rparr>"

definition gauge_Set :: "float64 \<Rightarrow> gaugeMetric \<Rightarrow> gaugeMetric" where
  "gauge_Set v m = m\<lparr>gm_value := v\<rparr>"

record runtimeScenarioMetricDescriptor =
  md_Kind :: string
  md_MetricName :: string
  md_UnitOfMeasure :: string

record LoadStrikeCounterStats =
  lcs_MetricName :: string
  lcs_ScenarioName :: string
  lcs_UnitOfMeasure :: string
  lcs_Value :: "64 word"

record LoadStrikeGaugeStats =
  lgs_MetricName :: string
  lgs_ScenarioName :: string
  lgs_UnitOfMeasure :: string
  lgs_Value :: float64

record runtimeScenarioMetricsSnapshot =
  ms_Counters :: "LoadStrikeCounterStats list"
  ms_Gauges :: "LoadStrikeGaugeStats list"

fun runtimeMetricDescriptors :: "metric list \<Rightarrow> runtimeScenarioMetricDescriptor list" where
  "runtimeMetricDescriptors [] = []"
| "runtimeMetricDescriptors (CounterMetric m # ms) =
     \<lparr>md_Kind = ''counter'', md_MetricName = cm_metricName m, md_UnitOfMeasure = cm_unitOfMeasure m\<rparr>
     # runtimeMetricDescriptors ms"
| "runtimeMetricDescriptors (GaugeMetric m # ms) =
     \<lparr>md_Kind = ''gauge'', md_MetricName = gm_metricName m, md_UnitOfMeasure = gm_unitOfMeasure m\<rparr>
     # runtimeMetricDescriptors ms"
| "runtimeMetricDescriptors (OtherMetric n u # ms) = runtimeMetricDescriptors ms"

fun metricSnapshot :: "metric list \<Rightarrow> runtimeScenarioMetricsSnapshot" where
  "metricSnapshot [] = \<lparr>ms_Counters = [], ms_Gauges = []\<rparr>"
| "metricSnapshot (CounterMetric m # ms) =
     (let s = metricSnapshot ms in s\<lparr>ms_Counters :=
        \<lparr>lcs_MetricName = cm_metricName m, lcs_ScenarioName = [], lcs_UnitOfMeasure = cm_unitOfMeasure m,
         lcs_Value = cm_value m\<rparr> # ms_Counters s\<rparr>)"
| "metricSnapshot (GaugeMetric m # ms) =
     (let s = metricSnapshot ms in s\<lparr>ms_Gauges :=
        \<lparr>lgs_MetricName = gm_metricName m, lgs_ScenarioName = [], lgs_UnitOfMeasure = gm_unitOfMeasure m,
         lgs_Value = gm_value m\<rparr> # ms_Gauges s\<rparr>)"
| "metricSnapshot (OtherMetric n u # ms) = metricSnapshot ms"

section \<open>Properties\<close>

definition log_entry :: "string \<times> string \<Rightarrow> runtimeCallbackLog" where
  "log_entry e = \<lparr>log_Level = fst e, log_Message = snd e\<rparr>"

definition entry_bytes :: "string \<times> string \<Rightarrow> nat" where
  "entry_bytes e = length (fst e) + length (snd e)"

definition log_appends :: "(string \<times> string) list \<Rightarrow> runtimeCallbackLogBuffer \<Rightarrow> runtimeCallbackLogBuffer" where
  "log_appends es b = fold (\<lambda>e. log_append (fst e) (snd e)) es b"

lemma log_appends_Cons [simp]: "log_appends (e # es) b = log_appends es (log_append (fst e) (snd e) b)"
  by (simp add: log_appends_def)

lemma log_appends_error: "buf_err b \<noteq> None \<Longrightarrow> log_appends es b = b"
  by (induction es) (simp_all add: log_append_def log_appends_def)

lemma log_appends_result:
  assumes "buf_err b = None" and "length (buf_logs b) \<le> runtimeCallbackMaximumLogCount"
    and "buf_aggregateBytes b \<le> runtimeCallbackMaximumLogBytes"
  shows "log_result (log_appends es b) = Inr logs \<longleftrightarrow>
    logs = buf_logs b @ map log_entry es \<and> list_all (\<lambda>e. utf8_valid (fst e) \<and> utf8_valid (snd e)) es \<and>
    length (buf_logs b) + length es \<le> runtimeCallbackMaximumLogCount \<and>
    buf_aggregateBytes b + sum_list (map entry_bytes es) \<le> runtimeCallbackMaximumLogBytes"
  using assms
proof (induction es arbitrary: b)
  case Nil
  then show ?case by (auto simp: log_appends_def log_result_def)
next
  case (Cons e es)
  let ?b = "log_append (fst e) (snd e) b"
  show ?case
  proof (cases "buf_err ?b")
    case None
    with Cons.prems have "?b = b\<lparr>buf_logs := buf_logs b @ [log_entry e],
          buf_aggregateBytes := buf_aggregateBytes b + entry_bytes e\<rparr>"
      and "utf8_valid (fst e)" "utf8_valid (snd e)" "length (buf_logs ?b) \<le> runtimeCallbackMaximumLogCount"
      "buf_aggregateBytes ?b \<le> runtimeCallbackMaximumLogBytes"
      by (auto simp: log_append_def log_entry_def entry_bytes_def Let_def split: if_splits)
    with Cons.IH[of ?b] None show ?thesis by auto
  next
    case (Some err)
    with log_appends_error[of ?b es] have "log_result (log_appends (e # es) b) = Inl err"
      by (simp add: log_result_def)
    moreover have "\<not> (utf8_valid (fst e) \<and> utf8_valid (snd e) \<and>
        length (buf_logs b) + 1 \<le> runtimeCallbackMaximumLogCount \<and>
        buf_aggregateBytes b + entry_bytes e \<le> runtimeCallbackMaximumLogBytes)"
      using Some Cons.prems(1) by (auto simp: log_append_def entry_bytes_def Let_def split: if_splits)
    ultimately show ?thesis by auto
  qed
qed

text \<open>
  C35: The log of a callback is all or nothing: it is returned exactly when every entry is valid
  UTF-8, there are at most 1000 and they have at most 256 KiB, and then it has every entry, in order;
  otherwise the callback fails.
\<close>

theorem callback_log_all_or_nothing:
  "log_result (log_appends es newRuntimeCallbackLogBuffer) = Inr logs \<longleftrightarrow>
     logs = map log_entry es \<and> list_all (\<lambda>e. utf8_valid (fst e) \<and> utf8_valid (snd e)) es \<and>
     length es \<le> 1000 \<and> sum_list (map entry_bytes es) \<le> 262144"
  by (subst log_appends_result)
     (simp_all add: newRuntimeCallbackLogBuffer_def runtimeCallbackMaximumLogCount_def
        runtimeCallbackMaximumLogBytes_def)

end
