(* ===== verification/Host_Requests.thy ===== *)
theory Host_Requests
  imports Callback_Context Instance_Bridge
begin

text \<open>
  The requests the engine sends to the host (\<open>runtime_http_host.go\<close>) and what the host checks of
  them before it calls the program: the identity of a scenario instance, the metadata of a callback,
  the payload of a threshold predicate, the reply of a step. \<open>encoding/json\<close> decodes the requests;
  a value the host only hands on (statistics, results, batches) is a reference.
\<close>

section \<open>Requests\<close>

record runtimeHTTPTestInfo =
  hti_TestSuite :: string
  hti_TestName :: string
  hti_SessionID :: string
  hti_ClusterID :: string
  hti_CreatedUTC :: string

record runtimeHTTPNodeInfo =
  hni_NodeType :: NodeType
  hni_MachineName :: string
  hni_CurrentOperation :: string
  hni_CurrentOperationType :: int
  hni_CoresCount :: int
  hni_DotNetVersion :: string
  hni_EngineVersion :: string
  hni_OS :: string
  hni_Processor :: string

record runtimeHTTPScenarioInfo =
  hsi_InstanceID :: string
  hsi_InstanceNumber :: int
  hsi_ScenarioDurationNanoseconds :: int
  hsi_ScenarioName :: string
  hsi_ScenarioOperation :: int

record runtimeHTTPScenarioPartition =
  hsp_Number :: int
  hsp_Count :: int

record runtimeHTTPScenarioHookRequest =
  hook_RunIdentity :: string
  hook_NodeIdentity :: string
  hook_PartitionNumber :: "int option"
  hook_ScenarioName :: string
  hook_ScenarioInstanceID :: string
  hook_TestSuite :: string
  hook_TestName :: string
  hook_InvocationNumber :: int
  hook_ScenarioStartedUTC :: string
  hook_AgentIndex :: int
  hook_AgentCount :: int
  hook_TestInfo :: "runtimeHTTPTestInfo option"
  hook_NodeInfo :: "runtimeHTTPNodeInfo option"
  hook_ScenarioInfo :: "runtimeHTTPScenarioInfo option"
  hook_Partition :: "runtimeHTTPScenarioPartition option"
  hook_CustomSettings :: "(string \<times> go_any) list"
  hook_GlobalCustomSettings :: "(string \<times> go_any) list"

record runtimeScenarioCallbackMetadata =
  meta_TestInfo :: testInfo
  meta_NodeInfo :: nodeInfo
  meta_ScenarioInfo :: LoadStrikeScenarioInfo
  meta_Partition :: scenarioPartitionInfo
  meta_CustomSettings :: "(string \<times> go_any) list"
  meta_GlobalCustomSettings :: "(string \<times> go_any) list"

text \<open>The errors of a scenario callback, by what \<open>errors.Is\<close> finds in them; all have a message.\<close>

datatype callback_error = IdentityInvalid string | InstanceGone | OtherError string

fun callback_message :: "callback_error \<Rightarrow> string" where
  "callback_message (IdentityInvalid detail) = errRuntimeScenarioInstanceIdentityInvalid @ '': '' @ detail"
| "callback_message InstanceGone = errRuntimeScenarioInstanceGone"
| "callback_message (OtherError e) = e"

section \<open>The identity of an instance\<close>

definition identity_field_ok :: "string \<Rightarrow> bool" where
  "identity_field_ok v \<longleftrightarrow> utf8_valid v \<and> trim_space v \<noteq> [] \<and> length v \<le> 512"

fun first_bad_identity :: "(string \<times> string) list \<Rightarrow> string option" where
  "first_bad_identity [] = None"
| "first_bad_identity ((name, v) # fs) =
     (if \<not> utf8_valid v \<or> trim_space v = [] \<or> length v > 512 then Some name else first_bad_identity fs)"

definition scenarioInstanceKey ::
  "runtimeHTTPScenarioHookRequest \<Rightarrow> callback_error + runtimeScenarioInstanceKey" where
  "scenarioInstanceKey r =
     (case first_bad_identity
             [(''runIdentity'', hook_RunIdentity r), (''nodeIdentity'', hook_NodeIdentity r),
              (''scenarioName'', hook_ScenarioName r), (''scenarioInstanceId'', hook_ScenarioInstanceID r)] of
        Some name \<Rightarrow> Inl (IdentityInvalid (name @ '' must contain between 1 and 512 UTF-8 bytes''))
      | None \<Rightarrow>
          (case hook_PartitionNumber r of
             None \<Rightarrow> Inl (IdentityInvalid ''partitionNumber must be a nonnegative integer'')
           | Some n \<Rightarrow>
               if n < 0 then Inl (IdentityInvalid ''partitionNumber must be a nonnegative integer'')
               else Inr \<lparr>RunIdentity = hook_RunIdentity r, NodeIdentity = hook_NodeIdentity r,
                         PartitionNumber = n, ScenarioName = hook_ScenarioName r,
                         ScenarioInstanceID = hook_ScenarioInstanceID r\<rparr>))"

text \<open>What the two optional parts of the request are checked for: \<open>None\<close> is no objection.\<close>

definition scenario_info_objection :: "runtimeHTTPScenarioHookRequest \<Rightarrow> string option" where
  "scenario_info_objection r =
     (case hook_ScenarioInfo r of
        None \<Rightarrow> None
      | Some info \<Rightarrow>
          if hsi_ScenarioName info \<noteq> hook_ScenarioName r
          then Some ''scenarioInfo.scenarioName must match scenarioName''
          else if hsi_InstanceID info \<noteq> hook_ScenarioInstanceID r
          then Some ''scenarioInfo.instanceId must match scenarioInstanceId''
          else if hsi_InstanceNumber info < 0 \<or> hsi_ScenarioDurationNanoseconds info < 0
          then Some ''scenarioInfo instance number and duration must be nonnegative''
          else None)"

definition partition_objection :: "int \<Rightarrow> runtimeHTTPScenarioHookRequest \<Rightarrow> string option" where
  "partition_objection number r =
     (case hook_Partition r of
        None \<Rightarrow> None
      | Some p \<Rightarrow>
          if hsp_Number p \<noteq> number then Some ''partition.number must match partitionNumber''
          else if hsp_Count p < 1 then Some ''partition.count must be a positive integer''
          else None)"

definition scenarioInstanceKeyForRegistration ::
  "string \<Rightarrow> runtimeHTTPScenarioHookRequest \<Rightarrow> callback_error + runtimeScenarioInstanceKey" where
  "scenarioInstanceKeyForRegistration registeredScenarioName r =
     (case scenarioInstanceKey r of
        Inl e \<Rightarrow> Inl e
      | Inr key \<Rightarrow>
          if hook_ScenarioName r \<noteq> registeredScenarioName
          then Inl (IdentityInvalid ''scenarioName does not match the registered callback'')
          else (case scenario_info_objection r of
                  Some objection \<Rightarrow> Inl (IdentityInvalid objection)
                | None \<Rightarrow>
                    (case partition_objection (PartitionNumber key) r of
                       Some objection \<Rightarrow> Inl (IdentityInvalid objection)
                     | None \<Rightarrow> Inr key)))"

section \<open>The metadata of a callback\<close>

text \<open>\<open>normalizeTestInfo\<close> and \<open>normalizeScenarioInfo\<close> of \<open>results.go\<close>; 0 is the zero time.\<close>

definition normalizeTestInfo :: "testInfo \<Rightarrow> testInfo" where
  "normalizeTestInfo info =
     (let info = (if trim_space (test_SessionID info) = [] then info\<lparr>test_SessionID := test_SessionId info\<rparr> else info);
          info = (if trim_space (test_SessionId info) = [] then info\<lparr>test_SessionId := test_SessionID info\<rparr> else info);
          info = (if trim_space (test_ClusterID info) = [] then info\<lparr>test_ClusterID := test_ClusterId info\<rparr> else info);
          info = (if trim_space (test_ClusterId info) = [] then info\<lparr>test_ClusterId := test_ClusterID info\<rparr> else info);
          info = (if test_CreatedUTC info = 0 then info\<lparr>test_CreatedUTC := test_Created info\<rparr> else info);
          info = (if test_Created info = 0 then info\<lparr>test_Created := test_CreatedUTC info\<rparr> else info)
      in info)"

definition normalizeScenarioInfo :: "LoadStrikeScenarioInfo \<Rightarrow> LoadStrikeScenarioInfo" where
  "normalizeScenarioInfo info =
     (let info = (if trim_space (si_InstanceID info) = [] then info\<lparr>si_InstanceID := si_InstanceId info\<rparr> else info);
          info = (if trim_space (si_InstanceId info) = [] then info\<lparr>si_InstanceId := si_InstanceID info\<rparr> else info)
      in info)"

text \<open>
  Decoded settings are trees, whose snapshot the code takes with \<open>cloneJSONCompatibleSettings\<close>; the
  text of a refusal is that of the walk in \<open>Runtime_Settings\<close>. \<open>parse_time\<close> is
  \<open>time.Parse(time.RFC3339Nano, \<dots>)\<close>, in UTC.
\<close>

record request_env =
  env_parse_time :: "string \<Rightarrow> int option"
  env_settings_error :: "(string \<times> go_any) list \<Rightarrow> go_error"

definition snapshot_settings :: "request_env \<Rightarrow> (string \<times> go_any) list \<Rightarrow> (string \<times> go_any) list res" where
  "snapshot_settings env source =
     (case cloneKnownJSONCompatibleSettings source of
        Inl _ \<Rightarrow> Inl (env_settings_error env source)
      | Inr snapshot \<Rightarrow> Inr snapshot)"

definition callbackMetadata ::
  "request_env \<Rightarrow> runtimeHTTPScenarioHookRequest \<Rightarrow> callback_error + runtimeScenarioCallbackMetadata" where
  "callbackMetadata env r =
     (case (hook_TestInfo r, hook_NodeInfo r, hook_ScenarioInfo r, hook_Partition r) of
        (Some test, Some node, Some info, Some part) \<Rightarrow>
          (case snapshot_settings env (hook_CustomSettings r) of
             Inl e \<Rightarrow> Inl (IdentityInvalid (''customSettings: '' @ e))
           | Inr custom \<Rightarrow>
          (case snapshot_settings env (hook_GlobalCustomSettings r) of
             Inl e \<Rightarrow> Inl (IdentityInvalid (''globalCustomSettings: '' @ e))
           | Inr global \<Rightarrow>
          (case env_parse_time env (hti_CreatedUTC test) of
             None \<Rightarrow> Inl (IdentityInvalid ''testInfo.createdUtc must be an RFC3339Nano timestamp'')
           | Some created \<Rightarrow> Inr
               \<lparr>meta_TestInfo = normalizeTestInfo
                  \<lparr>test_TestSuite = hti_TestSuite test, test_TestName = hti_TestName test,
                   test_SessionID = hti_SessionID test, test_SessionId = [],
                   test_ClusterID = hti_ClusterID test, test_ClusterId = [],
                   test_CreatedUTC = created, test_Created = 0\<rparr>,
                meta_NodeInfo =
                  \<lparr>node_NodeType = hni_NodeType node, node_MachineName = hni_MachineName node,
                   node_CurrentOperation = hni_CurrentOperation node,
                   node_CurrentOperationType = hni_CurrentOperationType node,
                   node_CoresCount = hni_CoresCount node, node_DotNetVersion = hni_DotNetVersion node,
                   node_EngineVersion = hni_EngineVersion node, node_OS = hni_OS node,
                   node_Processor = hni_Processor node\<rparr>,
                meta_ScenarioInfo = normalizeScenarioInfo
                  \<lparr>si_InstanceID = hsi_InstanceID info, si_InstanceId = [],
                   si_InstanceNumber = hsi_InstanceNumber info,
                   si_ScenarioDuration = hsi_ScenarioDurationNanoseconds info,
                   si_ScenarioName = hsi_ScenarioName info,
                   si_ScenarioOperation = hsi_ScenarioOperation info\<rparr>,
                meta_Partition = \<lparr>part_Number = hsp_Number part, part_Count = hsp_Count part\<rparr>,
                meta_CustomSettings = custom, meta_GlobalCustomSettings = global\<rparr>)))
      | _ \<Rightarrow> Inl (IdentityInvalid ''testInfo, nodeInfo, scenarioInfo, and partition are required''))"

text \<open>On a machine where \<open>int\<close> has 64 bits no \<open>int64\<close> is out of its range.\<close>

definition runtimeInvocationNumberToInt :: "int \<Rightarrow> int" where
  "runtimeInvocationNumberToInt v =
     (let maxInt = 2 ^ 63 - 1; minInt = - maxInt - 1 in
      if v > maxInt then maxInt else if v < minInt then minInt else v)"

definition runtimeParseScenarioStartedUTC :: "request_env \<Rightarrow> string \<Rightarrow> int" where
  "runtimeParseScenarioStartedUTC env v =
     (if trim_space v = [] then 0 else (case env_parse_time env v of None \<Rightarrow> 0 | Some t \<Rightarrow> t))"

section \<open>Properties\<close>

lemma first_bad_None:
  "first_bad_identity fs = None \<longleftrightarrow> list_all (\<lambda>f. identity_field_ok (snd f)) fs"
  by (induction fs rule: first_bad_identity.induct) (auto simp: identity_field_ok_def not_less)

text \<open>
  C36: A callback is admitted to an instance only under its full identity: the key a request gives is
  made of its five fields, each name valid UTF-8 of at most 512 bytes and not blank and the partition
  not negative, the scenario is the one registered under the callback's identifier, and the optional
  parts agree with it. Requests with the same key have the same five fields.
\<close>

theorem instance_key_is_identity:
  "scenarioInstanceKeyForRegistration registered r = Inr key \<longleftrightarrow>
     key = \<lparr>RunIdentity = hook_RunIdentity r, NodeIdentity = hook_NodeIdentity r,
            PartitionNumber = the (hook_PartitionNumber r), ScenarioName = registered,
            ScenarioInstanceID = hook_ScenarioInstanceID r\<rparr> \<and>
     hook_ScenarioName r = registered \<and> hook_PartitionNumber r = Some (PartitionNumber key) \<and>
     0 \<le> PartitionNumber key \<and>
     list_all (\<lambda>v. utf8_valid v \<and> trim_space v \<noteq> [] \<and> length v \<le> 512)
       [hook_RunIdentity r, hook_NodeIdentity r, registered, hook_ScenarioInstanceID r] \<and>
     pred_option (\<lambda>i. hsi_ScenarioName i = registered \<and> hsi_InstanceID i = hook_ScenarioInstanceID r \<and>
       0 \<le> hsi_InstanceNumber i \<and> 0 \<le> hsi_ScenarioDurationNanoseconds i) (hook_ScenarioInfo r) \<and>
     pred_option (\<lambda>p. hsp_Number p = PartitionNumber key \<and> 1 \<le> hsp_Count p) (hook_Partition r)"
proof -
  let ?fs = "[(''runIdentity'', hook_RunIdentity r), (''nodeIdentity'', hook_NodeIdentity r),
     (''scenarioName'', hook_ScenarioName r), (''scenarioInstanceId'', hook_ScenarioInstanceID r)]"
  have fs: "first_bad_identity ?fs = None \<longleftrightarrow>
      list_all identity_field_ok
        [hook_RunIdentity r, hook_NodeIdentity r, hook_ScenarioName r, hook_ScenarioInstanceID r]"
    by (simp only: first_bad_None) simp
  have info: "scenario_info_objection r = None \<longleftrightarrow>
      pred_option (\<lambda>i. hsi_ScenarioName i = hook_ScenarioName r \<and> hsi_InstanceID i = hook_ScenarioInstanceID r \<and>
        0 \<le> hsi_InstanceNumber i \<and> 0 \<le> hsi_ScenarioDurationNanoseconds i) (hook_ScenarioInfo r)"
    by (auto simp: scenario_info_objection_def split: option.splits)
  have part: "partition_objection n r = None \<longleftrightarrow>
      pred_option (\<lambda>p. hsp_Number p = n \<and> 1 \<le> hsp_Count p) (hook_Partition r)" for n
    by (auto simp: partition_objection_def split: option.splits)
  have "scenarioInstanceKeyForRegistration registered r = Inr key \<longleftrightarrow>
     key = \<lparr>RunIdentity = hook_RunIdentity r, NodeIdentity = hook_NodeIdentity r,
            PartitionNumber = the (hook_PartitionNumber r), ScenarioName = registered,
            ScenarioInstanceID = hook_ScenarioInstanceID r\<rparr> \<and>
     hook_ScenarioName r = registered \<and> hook_PartitionNumber r = Some (PartitionNumber key) \<and>
     0 \<le> PartitionNumber key \<and> first_bad_identity ?fs = None \<and>
     scenario_info_objection r = None \<and> partition_objection (PartitionNumber key) r = None"
    unfolding scenarioInstanceKeyForRegistration_def scenarioInstanceKey_def
    by (cases "first_bad_identity ?fs"; cases "hook_PartitionNumber r") (auto split: option.splits if_splits)
  then show ?thesis
    unfolding fs info part identity_field_ok_def by (cases "hook_ScenarioName r = registered") simp_all
qed

end
