(* ===== verification/Stat_Values.thy ===== *)
theory Stat_Values
  imports Host_Requests Runner
begin

text \<open>
  The values of a run's results (\<open>results.go\<close>) and their public wrappers
  (\<open>public_wrapper_models.go\<close>, \<open>public_info_models.go\<close>, \<open>public_realtime_stats.go\<close>): each
  wrapper is made from a native value by \<open>new\<dots>\<close> and turned back by \<open>toNative\<close>.

  Counts and byte numbers are only stored, so they are \<open>int\<close>; a duration is an \<open>int\<close> of
  nanoseconds. A nil slice or map is not told from an empty one. \<open>conv\<close> is what the machine makes
  of a \<open>float64\<close> outside the range of the integer type it is converted to.
\<close>

section \<open>Wrappers\<close>

text \<open>
  What every public wrapper promises: a wrapper survives the way to a native value and back. The
  lists and the optional values of a wrapper inherit the promise.
\<close>

locale wrapper =
  fixes wrap :: "'n \<Rightarrow> 'p" and unwrap :: "'p \<Rightarrow> 'n"
  assumes wrap_unwrap [simp]: "wrap (unwrap p) = p"
begin

lemma wrap_unwrap_list [simp]: "map (wrap \<circ> unwrap) ps = ps"
  by (simp add: map_idI)

lemma wrap_unwrap_option [simp]: "map_option (wrap \<circ> unwrap) p = p"
  by (cases p) simp_all

lemma unwrap_inject: "unwrap p = unwrap q \<longleftrightarrow> p = q"
  by (metis wrap_unwrap)

lemma wrap_onto: "\<exists>n. p = wrap n"
  by (metis wrap_unwrap)

end

text \<open>\<open>cloneAnyMap\<close>: a map of its own with the same entries.\<close>

definition cloneAnyMap :: "(string \<times> go_any) list \<Rightarrow> (string \<times> go_any) list" where
  "cloneAnyMap source = (if length source = 0 then [] else map (\<lambda>(key, value). (key, value)) source)"

lemma cloneAnyMap_id [simp]: "cloneAnyMap = id"
  by (rule ext) (simp add: cloneAnyMap_def)

section \<open>Measurements\<close>

record requestStats =
  rqs_Count :: int
  rqs_Percent :: int
  rqs_RPS :: float64

record LoadStrikeRequestStats =
  lrs_Count :: int
  lrs_Percent :: int
  lrs_RPS :: float64

definition newLoadStrikeRequestStats :: "requestStats \<Rightarrow> LoadStrikeRequestStats" where
  "newLoadStrikeRequestStats native =
     \<lparr>lrs_Count = rqs_Count native, lrs_Percent = rqs_Percent native,
      lrs_RPS = rqs_RPS native\<rparr>"

definition requestStats_toNative :: "LoadStrikeRequestStats \<Rightarrow> requestStats" where
  "requestStats_toNative s =
     \<lparr>rqs_Count = lrs_Count s, rqs_Percent = lrs_Percent s, rqs_RPS = lrs_RPS s\<rparr>"

interpretation lrs_w: wrapper newLoadStrikeRequestStats requestStats_toNative
  by unfold_locales (simp add: newLoadStrikeRequestStats_def requestStats_toNative_def)

record dataTransferStats =
  dts_AllBytes :: int
  dts_AllBytes64 :: string
  dts_MinBytes :: int
  dts_MaxBytes :: int
  dts_MeanBytes :: int
  dts_Percent50 :: int
  dts_Percent75 :: int
  dts_Percent95 :: int
  dts_Percent99 :: int
  dts_Percent100 :: int
  dts_StdDev :: float64

record LoadStrikeDataTransferStats =
  ldt_AllBytes :: int
  ldt_AllBytes64 :: string
  ldt_MinBytes :: int
  ldt_MaxBytes :: int
  ldt_MeanBytes :: int
  ldt_Percent50 :: int
  ldt_Percent75 :: int
  ldt_Percent95 :: int
  ldt_Percent99 :: int
  ldt_Percent100 :: int
  ldt_StdDev :: float64

definition newLoadStrikeDataTransferStats :: "dataTransferStats \<Rightarrow> LoadStrikeDataTransferStats" where
  "newLoadStrikeDataTransferStats native =
     \<lparr>ldt_AllBytes = dts_AllBytes native, ldt_AllBytes64 = dts_AllBytes64 native,
      ldt_MinBytes = dts_MinBytes native, ldt_MaxBytes = dts_MaxBytes native,
      ldt_MeanBytes = dts_MeanBytes native, ldt_Percent50 = dts_Percent50 native,
      ldt_Percent75 = dts_Percent75 native, ldt_Percent95 = dts_Percent95 native,
      ldt_Percent99 = dts_Percent99 native, ldt_Percent100 = dts_Percent100 native,
      ldt_StdDev = dts_StdDev native\<rparr>"

definition dataTransferStats_toNative :: "LoadStrikeDataTransferStats \<Rightarrow> dataTransferStats" where
  "dataTransferStats_toNative s =
     \<lparr>dts_AllBytes = ldt_AllBytes s, dts_AllBytes64 = ldt_AllBytes64 s,
      dts_MinBytes = ldt_MinBytes s, dts_MaxBytes = ldt_MaxBytes s, dts_MeanBytes = ldt_MeanBytes s,
      dts_Percent50 = ldt_Percent50 s, dts_Percent75 = ldt_Percent75 s,
      dts_Percent95 = ldt_Percent95 s, dts_Percent99 = ldt_Percent99 s,
      dts_Percent100 = ldt_Percent100 s, dts_StdDev = ldt_StdDev s\<rparr>"

interpretation ldt_w: wrapper newLoadStrikeDataTransferStats dataTransferStats_toNative
  by unfold_locales (simp add: newLoadStrikeDataTransferStats_def dataTransferStats_toNative_def)

record latencyCount =
  lct_LessOrEq800 :: int
  lct_More800Less1200 :: int
  lct_MoreOrEq1200 :: int

record LoadStrikeLatencyCount =
  llc_LessOrEq800 :: int
  llc_More800Less1200 :: int
  llc_MoreOrEq1200 :: int

definition newLoadStrikeLatencyCount :: "latencyCount \<Rightarrow> LoadStrikeLatencyCount" where
  "newLoadStrikeLatencyCount native =
     \<lparr>llc_LessOrEq800 = lct_LessOrEq800 native, llc_More800Less1200 = lct_More800Less1200 native,
      llc_MoreOrEq1200 = lct_MoreOrEq1200 native\<rparr>"

definition latencyCount_toNative :: "LoadStrikeLatencyCount \<Rightarrow> latencyCount" where
  "latencyCount_toNative s =
     \<lparr>lct_LessOrEq800 = llc_LessOrEq800 s, lct_More800Less1200 = llc_More800Less1200 s,
      lct_MoreOrEq1200 = llc_MoreOrEq1200 s\<rparr>"

interpretation llc_w: wrapper newLoadStrikeLatencyCount latencyCount_toNative
  by unfold_locales (simp add: newLoadStrikeLatencyCount_def latencyCount_toNative_def)

text \<open>The public latencies leave out the older names of the percentiles and the number of samples.\<close>

record latencyStats =
  lat_LatencyCount :: latencyCount
  lat_MinMs :: float64
  lat_MaxMs :: float64
  lat_MeanMs :: float64
  lat_Percent50 :: float64
  lat_Percent75 :: float64
  lat_Percent95 :: float64
  lat_Percent99 :: float64
  lat_Percent100 :: float64
  lat_StdDev :: float64
  lat_P50Ms :: float64
  lat_P75Ms :: float64
  lat_P80Ms :: float64
  lat_P85Ms :: float64
  lat_P90Ms :: float64
  lat_P95Ms :: float64
  lat_P99Ms :: float64
  lat_Samples :: int

record LoadStrikeLatencyStats =
  llt_LatencyCount :: LoadStrikeLatencyCount
  llt_MinMs :: float64
  llt_MaxMs :: float64
  llt_MeanMs :: float64
  llt_Percent50 :: float64
  llt_Percent75 :: float64
  llt_Percent95 :: float64
  llt_Percent99 :: float64
  llt_Percent100 :: float64
  llt_StdDev :: float64

definition newLoadStrikeLatencyStats :: "latencyStats \<Rightarrow> LoadStrikeLatencyStats" where
  "newLoadStrikeLatencyStats native =
     \<lparr>llt_LatencyCount = newLoadStrikeLatencyCount (lat_LatencyCount native),
      llt_MinMs = lat_MinMs native, llt_MaxMs = lat_MaxMs native, llt_MeanMs = lat_MeanMs native,
      llt_Percent50 = lat_Percent50 native, llt_Percent75 = lat_Percent75 native,
      llt_Percent95 = lat_Percent95 native, llt_Percent99 = lat_Percent99 native,
      llt_Percent100 = lat_Percent100 native, llt_StdDev = lat_StdDev native\<rparr>"

definition latencyStats_toNative :: "LoadStrikeLatencyStats \<Rightarrow> latencyStats" where
  "latencyStats_toNative s =
     \<lparr>lat_LatencyCount = latencyCount_toNative (llt_LatencyCount s), lat_MinMs = llt_MinMs s,
      lat_MaxMs = llt_MaxMs s, lat_MeanMs = llt_MeanMs s, lat_Percent50 = llt_Percent50 s,
      lat_Percent75 = llt_Percent75 s, lat_Percent95 = llt_Percent95 s,
      lat_Percent99 = llt_Percent99 s, lat_Percent100 = llt_Percent100 s, lat_StdDev = llt_StdDev s,
      lat_P50Ms = Fin 0, lat_P75Ms = Fin 0, lat_P80Ms = Fin 0, lat_P85Ms = Fin 0, lat_P90Ms = Fin 0,
      lat_P95Ms = Fin 0, lat_P99Ms = Fin 0, lat_Samples = 0\<rparr>"

interpretation llt_w: wrapper newLoadStrikeLatencyStats latencyStats_toNative
  by unfold_locales (simp add: newLoadStrikeLatencyStats_def latencyStats_toNative_def)

record statusCodeStats =
  scs_StatusCode :: string
  scs_Message :: string
  scs_IsError :: bool
  scs_Count :: int
  scs_Percent :: int

record LoadStrikeStatusCodeStats =
  lsc_StatusCode :: string
  lsc_Message :: string
  lsc_IsError :: bool
  lsc_Count :: int
  lsc_Percent :: int

definition newLoadStrikeStatusCodeStats :: "statusCodeStats \<Rightarrow> LoadStrikeStatusCodeStats" where
  "newLoadStrikeStatusCodeStats native =
     \<lparr>lsc_StatusCode = scs_StatusCode native, lsc_Message = scs_Message native,
      lsc_IsError = scs_IsError native, lsc_Count = scs_Count native,
      lsc_Percent = scs_Percent native\<rparr>"

definition statusCodeStats_toNative :: "LoadStrikeStatusCodeStats \<Rightarrow> statusCodeStats" where
  "statusCodeStats_toNative s =
     \<lparr>scs_StatusCode = lsc_StatusCode s, scs_Message = lsc_Message s, scs_IsError = lsc_IsError s,
      scs_Count = lsc_Count s, scs_Percent = lsc_Percent s\<rparr>"

interpretation lsc_w: wrapper newLoadStrikeStatusCodeStats statusCodeStats_toNative
  by unfold_locales (simp add: newLoadStrikeStatusCodeStats_def statusCodeStats_toNative_def)

record measurementStats =
  mea_Count64 :: string
  mea_DistributionMode :: string
  mea_MaxRelativeError :: float64
  mea_Request :: requestStats
  mea_DataTransfer :: dataTransferStats
  mea_Latency :: latencyStats
  mea_StatusCodes :: "statusCodeStats list"

record LoadStrikeMeasurementStats =
  lme_Count64 :: string
  lme_DistributionMode :: string
  lme_MaxRelativeError :: float64
  lme_Request :: LoadStrikeRequestStats
  lme_DataTransfer :: LoadStrikeDataTransferStats
  lme_Latency :: LoadStrikeLatencyStats
  lme_StatusCodes :: "LoadStrikeStatusCodeStats list"

definition newLoadStrikeMeasurementStats :: "measurementStats \<Rightarrow> LoadStrikeMeasurementStats" where
  "newLoadStrikeMeasurementStats native =
     \<lparr>lme_Count64 = mea_Count64 native, lme_DistributionMode = mea_DistributionMode native,
      lme_MaxRelativeError = mea_MaxRelativeError native,
      lme_Request = newLoadStrikeRequestStats (mea_Request native),
      lme_DataTransfer = newLoadStrikeDataTransferStats (mea_DataTransfer native),
      lme_Latency = newLoadStrikeLatencyStats (mea_Latency native),
      lme_StatusCodes = map newLoadStrikeStatusCodeStats (mea_StatusCodes native)\<rparr>"

definition measurementStats_toNative :: "LoadStrikeMeasurementStats \<Rightarrow> measurementStats" where
  "measurementStats_toNative s =
     \<lparr>mea_Count64 = lme_Count64 s, mea_DistributionMode = lme_DistributionMode s,
      mea_MaxRelativeError = lme_MaxRelativeError s,
      mea_Request = requestStats_toNative (lme_Request s),
      mea_DataTransfer = dataTransferStats_toNative (lme_DataTransfer s),
      mea_Latency = latencyStats_toNative (lme_Latency s),
      mea_StatusCodes = map statusCodeStats_toNative (lme_StatusCodes s)\<rparr>"

interpretation lme_w: wrapper newLoadStrikeMeasurementStats measurementStats_toNative
  by unfold_locales (simp add: newLoadStrikeMeasurementStats_def measurementStats_toNative_def)

record loadSimulationStats =
  lss_SimulationName :: string
  lss_Value :: int

record LoadStrikeLoadSimulationStats =
  lls_SimulationName :: string
  lls_Value :: int

definition newLoadStrikeLoadSimulationStats :: "loadSimulationStats \<Rightarrow> LoadStrikeLoadSimulationStats" where
  "newLoadStrikeLoadSimulationStats native =
     \<lparr>lls_SimulationName = lss_SimulationName native, lls_Value = lss_Value native\<rparr>"

definition loadSimulationStats_toNative :: "LoadStrikeLoadSimulationStats \<Rightarrow> loadSimulationStats" where
  "loadSimulationStats_toNative s =
     \<lparr>lss_SimulationName = lls_SimulationName s, lss_Value = lls_Value s\<rparr>"

interpretation lls_w: wrapper newLoadStrikeLoadSimulationStats loadSimulationStats_toNative
  by unfold_locales (simp add: newLoadStrikeLoadSimulationStats_def loadSimulationStats_toNative_def)

section \<open>Metrics\<close>

record counterStats =
  cst_MetricName :: string
  cst_ScenarioName :: string
  cst_UnitOfMeasure :: string
  cst_Value :: "64 word"

definition newLoadStrikeCounterStats :: "counterStats \<Rightarrow> LoadStrikeCounterStats" where
  "newLoadStrikeCounterStats native =
     \<lparr>lcs_MetricName = cst_MetricName native, lcs_ScenarioName = cst_ScenarioName native,
      lcs_UnitOfMeasure = cst_UnitOfMeasure native, lcs_Value = cst_Value native\<rparr>"

definition counterStats_toNative :: "LoadStrikeCounterStats \<Rightarrow> counterStats" where
  "counterStats_toNative s =
     \<lparr>cst_MetricName = lcs_MetricName s, cst_ScenarioName = lcs_ScenarioName s,
      cst_UnitOfMeasure = lcs_UnitOfMeasure s, cst_Value = lcs_Value s\<rparr>"

interpretation lcs_w: wrapper newLoadStrikeCounterStats counterStats_toNative
  by unfold_locales (simp add: newLoadStrikeCounterStats_def counterStats_toNative_def)

record gaugeStats =
  gst_MetricName :: string
  gst_ScenarioName :: string
  gst_UnitOfMeasure :: string
  gst_Value :: float64

definition newLoadStrikeGaugeStats :: "gaugeStats \<Rightarrow> LoadStrikeGaugeStats" where
  "newLoadStrikeGaugeStats native =
     \<lparr>lgs_MetricName = gst_MetricName native, lgs_ScenarioName = gst_ScenarioName native,
      lgs_UnitOfMeasure = gst_UnitOfMeasure native, lgs_Value = gst_Value native\<rparr>"

definition gaugeStats_toNative :: "LoadStrikeGaugeStats \<Rightarrow> gaugeStats" where
  "gaugeStats_toNative s =
     \<lparr>gst_MetricName = lgs_MetricName s, gst_ScenarioName = lgs_ScenarioName s,
      gst_UnitOfMeasure = lgs_UnitOfMeasure s, gst_Value = lgs_Value s\<rparr>"

interpretation lgs_w: wrapper newLoadStrikeGaugeStats gaugeStats_toNative
  by unfold_locales (simp add: newLoadStrikeGaugeStats_def gaugeStats_toNative_def)

text \<open>
  Durations are stated twice in a result, as nanoseconds and as milliseconds. A result that has
  only the milliseconds gets the nanoseconds from them.
\<close>

fun f64_mul_pos :: "float64 \<Rightarrow> rat \<Rightarrow> float64" where
  "f64_mul_pos (Fin a) b = round64 (a * b)"
| "f64_mul_pos x b = x"

definition millisecond :: rat where "millisecond = 1000000"

definition duration_of_ms :: "(float64 \<Rightarrow> int) \<Rightarrow> float64 \<Rightarrow> int" where
  "duration_of_ms conv ms = f64_to_int conv (f64_mul_pos ms millisecond)"

definition ms_of_duration :: "int \<Rightarrow> float64" where
  "ms_of_duration d = f64_div_pos (f64_of_int d) (Fin millisecond)"

definition fill_duration :: "(float64 \<Rightarrow> int) \<Rightarrow> int \<Rightarrow> float64 \<Rightarrow> int" where
  "fill_duration conv d ms = (if d = 0 \<and> f64_lt (Fin 0) ms then duration_of_ms conv ms else d)"

lemma fill_duration_again [simp]: "fill_duration conv (fill_duration conv d ms) ms = fill_duration conv d ms"
  by (simp add: fill_duration_def)

lemma fill_duration_own [simp]: "fill_duration conv d (ms_of_duration d) = d"
  by (simp add: fill_duration_def ms_of_duration_def f64_of_int_def round64_def millisecond_def)

record metricStats =
  mst_DurationMS :: float64
  mst_Duration :: int
  mst_Counters :: "counterStats list"
  mst_Gauges :: "gaugeStats list"

record LoadStrikeMetricStats =
  lms_Counters :: "LoadStrikeCounterStats list"
  lms_Duration :: int
  lms_Gauges :: "LoadStrikeGaugeStats list"

definition normalizeMetricStats :: "(float64 \<Rightarrow> int) \<Rightarrow> metricStats \<Rightarrow> metricStats" where
  "normalizeMetricStats conv stats =
     stats\<lparr>mst_Duration := fill_duration conv (mst_Duration stats) (mst_DurationMS stats)\<rparr>"

lemma normalizeMetricStats_again [simp]:
  "normalizeMetricStats conv (normalizeMetricStats conv stats) = normalizeMetricStats conv stats"
  by (simp add: normalizeMetricStats_def)

definition newLoadStrikeMetricStats :: "(float64 \<Rightarrow> int) \<Rightarrow> metricStats \<Rightarrow> LoadStrikeMetricStats" where
  "newLoadStrikeMetricStats conv native =
     (let native = normalizeMetricStats conv native in
      \<lparr>lms_Counters = map newLoadStrikeCounterStats (mst_Counters native),
       lms_Duration = mst_Duration native,
       lms_Gauges = map newLoadStrikeGaugeStats (mst_Gauges native)\<rparr>)"

definition metricStats_toNative :: "LoadStrikeMetricStats \<Rightarrow> metricStats" where
  "metricStats_toNative s =
     \<lparr>mst_DurationMS = ms_of_duration (lms_Duration s), mst_Duration = lms_Duration s,
      mst_Counters = map counterStats_toNative (lms_Counters s),
      mst_Gauges = map gaugeStats_toNative (lms_Gauges s)\<rparr>"

lemma normalize_metricStats_toNative [simp]:
  "normalizeMetricStats conv (metricStats_toNative s) = metricStats_toNative s"
  by (simp add: normalizeMetricStats_def metricStats_toNative_def)

interpretation lms_w: wrapper "newLoadStrikeMetricStats conv" metricStats_toNative for conv
  by unfold_locales (simp add: newLoadStrikeMetricStats_def, simp add: metricStats_toNative_def)

lemma newLoadStrikeMetricStats_normalize [simp]:
  "newLoadStrikeMetricStats conv (normalizeMetricStats conv stats) = newLoadStrikeMetricStats conv stats"
  by (simp add: newLoadStrikeMetricStats_def)

section \<open>Thresholds, policies, sinks and plugins\<close>

record metricResult =
  mrs_Name :: string
  mrs_ScenarioName :: string
  mrs_Type :: string
  mrs_Value :: float64
  mrs_Unit :: string
  mrs_UnitOfMeasure :: string

record LoadStrikeMetricValue =
  lmv_Name :: string
  lmv_ScenarioName :: string
  lmv_Type :: string
  lmv_UnitOfMeasure :: string
  lmv_Value :: float64

definition newLoadStrikeMetricValue :: "metricResult \<Rightarrow> LoadStrikeMetricValue" where
  "newLoadStrikeMetricValue native =
     \<lparr>lmv_Name = mrs_Name native, lmv_ScenarioName = mrs_ScenarioName native,
      lmv_Type = mrs_Type native, lmv_UnitOfMeasure = mrs_UnitOfMeasure native,
      lmv_Value = mrs_Value native\<rparr>"

definition metricValue_toNative :: "LoadStrikeMetricValue \<Rightarrow> metricResult" where
  "metricValue_toNative s =
     \<lparr>mrs_Name = lmv_Name s, mrs_ScenarioName = lmv_ScenarioName s, mrs_Type = lmv_Type s,
      mrs_Value = lmv_Value s, mrs_Unit = [], mrs_UnitOfMeasure = lmv_UnitOfMeasure s\<rparr>"

interpretation lmv_w: wrapper newLoadStrikeMetricValue metricValue_toNative
  by unfold_locales (simp add: newLoadStrikeMetricValue_def metricValue_toNative_def)

record thresholdResult =
  tre_ScenarioName :: string
  tre_StepName :: string
  tre_CheckExpression :: string
  tre_ErrorCount :: int
  tre_IsFailed :: bool
  tre_ExceptionMessage :: string

record LoadStrikeThresholdResult =
  ltr_ScenarioName :: string
  ltr_StepName :: string
  ltr_CheckExpression :: string
  ltr_ErrorCount :: int
  ltr_IsFailed :: bool
  ltr_ExceptionMessage :: string

definition newLoadStrikeThresholdResult :: "thresholdResult \<Rightarrow> LoadStrikeThresholdResult" where
  "newLoadStrikeThresholdResult native =
     \<lparr>ltr_ScenarioName = tre_ScenarioName native, ltr_StepName = tre_StepName native,
      ltr_CheckExpression = tre_CheckExpression native, ltr_ErrorCount = tre_ErrorCount native,
      ltr_IsFailed = tre_IsFailed native,
      ltr_ExceptionMessage = tre_ExceptionMessage native\<rparr>"

definition thresholdResult_toNative :: "LoadStrikeThresholdResult \<Rightarrow> thresholdResult" where
  "thresholdResult_toNative s =
     \<lparr>tre_ScenarioName = ltr_ScenarioName s, tre_StepName = ltr_StepName s,
      tre_CheckExpression = ltr_CheckExpression s, tre_ErrorCount = ltr_ErrorCount s,
      tre_IsFailed = ltr_IsFailed s, tre_ExceptionMessage = ltr_ExceptionMessage s\<rparr>"

interpretation ltr_w: wrapper newLoadStrikeThresholdResult thresholdResult_toNative
  by unfold_locales (simp add: newLoadStrikeThresholdResult_def thresholdResult_toNative_def)

record RuntimePolicyError =
  rpe_PolicyName :: string
  rpe_CallbackName :: string
  rpe_ScenarioName :: string
  rpe_StepName :: string
  rpe_Message :: string

record LoadStrikeRuntimePolicyError =
  lpe_PolicyName :: string
  lpe_CallbackName :: string
  lpe_ScenarioName :: string
  lpe_StepName :: string
  lpe_Message :: string

definition newLoadStrikeRuntimePolicyError :: "RuntimePolicyError \<Rightarrow> LoadStrikeRuntimePolicyError" where
  "newLoadStrikeRuntimePolicyError native =
     \<lparr>lpe_PolicyName = rpe_PolicyName native, lpe_CallbackName = rpe_CallbackName native,
      lpe_ScenarioName = rpe_ScenarioName native, lpe_StepName = rpe_StepName native,
      lpe_Message = rpe_Message native\<rparr>"

definition runtimePolicyError_toNative :: "LoadStrikeRuntimePolicyError \<Rightarrow> RuntimePolicyError" where
  "runtimePolicyError_toNative s =
     \<lparr>rpe_PolicyName = lpe_PolicyName s, rpe_CallbackName = lpe_CallbackName s,
      rpe_ScenarioName = lpe_ScenarioName s, rpe_StepName = lpe_StepName s,
      rpe_Message = lpe_Message s\<rparr>"

interpretation lpe_w: wrapper newLoadStrikeRuntimePolicyError runtimePolicyError_toNative
  by unfold_locales (simp add: newLoadStrikeRuntimePolicyError_def runtimePolicyError_toNative_def)

record sinkErrorResult =
  ser_SinkName :: string
  ser_Phase :: string
  ser_Message :: string
  ser_Attempts :: int

record LoadStrikeSinkError =
  lse_SinkName :: string
  lse_Phase :: string
  lse_Message :: string
  lse_Attempts :: int

definition newLoadStrikeSinkError :: "sinkErrorResult \<Rightarrow> LoadStrikeSinkError" where
  "newLoadStrikeSinkError native =
     \<lparr>lse_SinkName = ser_SinkName native, lse_Phase = ser_Phase native,
      lse_Message = ser_Message native, lse_Attempts = ser_Attempts native\<rparr>"

definition sinkError_toNative :: "LoadStrikeSinkError \<Rightarrow> sinkErrorResult" where
  "sinkError_toNative s =
     \<lparr>ser_SinkName = lse_SinkName s, ser_Phase = lse_Phase s, ser_Message = lse_Message s,
      ser_Attempts = lse_Attempts s\<rparr>"

interpretation lse_w: wrapper newLoadStrikeSinkError sinkError_toNative
  by unfold_locales (simp add: newLoadStrikeSinkError_def sinkError_toNative_def)

record pluginDataTable =
  pdt_TableName :: string
  pdt_Rows :: "(string \<times> go_any) list list"

record LoadStrikePluginDataTable =
  lpt_TableName :: string
  lpt_Rows :: "(string \<times> go_any) list list"

definition newLoadStrikePluginDataTable :: "pluginDataTable \<Rightarrow> LoadStrikePluginDataTable" where
  "newLoadStrikePluginDataTable native =
     \<lparr>lpt_TableName = pdt_TableName native, lpt_Rows = map cloneAnyMap (pdt_Rows native)\<rparr>"

definition pluginDataTable_toNative :: "LoadStrikePluginDataTable \<Rightarrow> pluginDataTable" where
  "pluginDataTable_toNative s =
     \<lparr>pdt_TableName = lpt_TableName s, pdt_Rows = map cloneAnyMap (lpt_Rows s)\<rparr>"

interpretation lpt_w: wrapper newLoadStrikePluginDataTable pluginDataTable_toNative
  by unfold_locales (simp add: newLoadStrikePluginDataTable_def pluginDataTable_toNative_def)

record pluginData =
  pda_PluginName :: string
  pda_Hints :: "string list"
  pda_Tables :: "pluginDataTable list"

record LoadStrikePluginData =
  lpd_PluginName :: string
  lpd_Hints :: "string list"
  lpd_Tables :: "LoadStrikePluginDataTable list"

definition newLoadStrikePluginData :: "pluginData \<Rightarrow> LoadStrikePluginData" where
  "newLoadStrikePluginData native =
     \<lparr>lpd_PluginName = pda_PluginName native, lpd_Hints = pda_Hints native,
      lpd_Tables = map newLoadStrikePluginDataTable (pda_Tables native)\<rparr>"

definition pluginData_toNative :: "LoadStrikePluginData \<Rightarrow> pluginData" where
  "pluginData_toNative s =
     \<lparr>pda_PluginName = lpd_PluginName s, pda_Hints = lpd_Hints s,
      pda_Tables = map pluginDataTable_toNative (lpd_Tables s)\<rparr>"

interpretation lpd_w: wrapper newLoadStrikePluginData pluginData_toNative
  by unfold_locales (simp add: newLoadStrikePluginData_def pluginData_toNative_def)

section \<open>Operations\<close>

text \<open>\<open>LoadStrikeOperationType\<close> is an \<open>int\<close> with the constants 0 to 6.\<close>

definition parseOperationType :: "string \<Rightarrow> int" where
  "parseOperationType value =
     (let value = trim_space (to_lower value) in
      if value = ''init'' then 1 else if value = ''warmup'' then 2 else if value = ''bombing'' then 3
      else if value = ''stop'' then 4 else if value = ''complete'' then 5 else if value = ''error'' then 6
      else 0)"

definition operationTypeName :: "int \<Rightarrow> string" where
  "operationTypeName value =
     (if value = 1 then ''Init'' else if value = 2 then ''WarmUp'' else if value = 3 then ''Bombing''
      else if value = 4 then ''Stop'' else if value = 5 then ''Complete'' else if value = 6 then ''Error''
      else ''None'')"

lemma parse_operationTypeName:
  "parseOperationType (operationTypeName value) = (if 1 \<le> value \<and> value \<le> 6 then value else 0)"
proof -
  have "value \<in> {1..6} \<or> \<not> (1 \<le> value \<and> value \<le> 6)"
    by auto
  moreover have "{1..6 :: int} = {1, 2, 3, 4, 5, 6}"
    by auto
  moreover have "parseOperationType ''Init'' = 1" "parseOperationType ''WarmUp'' = 2"
    "parseOperationType ''Bombing'' = 3" "parseOperationType ''Stop'' = 4"
    "parseOperationType ''Complete'' = 5" "parseOperationType ''Error'' = 6"
    "parseOperationType ''None'' = 0"
    by code_simp+
  ultimately show ?thesis
    by (auto simp: operationTypeName_def)
qed

definition nodeOperationType :: "nodeInfo \<Rightarrow> int" where
  "nodeOperationType native =
     (if node_CurrentOperationType native \<noteq> 0 then node_CurrentOperationType native
      else parseOperationType (node_CurrentOperation native))"

record LoadStrikeNodeInfo =
  lni_CoresCount :: int
  lni_CurrentOperation :: int
  lni_DotNetVersion :: string
  lni_MachineName :: string
  lni_EngineVersion :: string
  lni_NodeType :: NodeType
  lni_OS :: string
  lni_Processor :: string

definition newLoadStrikeNodeInfo :: "nodeInfo \<Rightarrow> LoadStrikeNodeInfo" where
  "newLoadStrikeNodeInfo native =
     \<lparr>lni_CoresCount = node_CoresCount native, lni_CurrentOperation = nodeOperationType native,
      lni_DotNetVersion = node_DotNetVersion native, lni_MachineName = node_MachineName native,
      lni_EngineVersion = node_EngineVersion native, lni_NodeType = node_NodeType native,
      lni_OS = node_OS native, lni_Processor = node_Processor native\<rparr>"

definition nodeInfo_toNative :: "LoadStrikeNodeInfo \<Rightarrow> nodeInfo" where
  "nodeInfo_toNative i =
     \<lparr>node_NodeType = lni_NodeType i, node_MachineName = lni_MachineName i,
      node_CurrentOperation = operationTypeName (lni_CurrentOperation i),
      node_CurrentOperationType = lni_CurrentOperation i, node_CoresCount = lni_CoresCount i,
      node_DotNetVersion = lni_DotNetVersion i, node_EngineVersion = lni_EngineVersion i,
      node_OS = lni_OS i, node_Processor = lni_Processor i\<rparr>"

lemma parse_operationTypeName_zero [simp]: "parseOperationType (operationTypeName 0) = 0"
  by (simp add: parse_operationTypeName)

interpretation lni_w: wrapper newLoadStrikeNodeInfo nodeInfo_toNative
  by unfold_locales (simp add: newLoadStrikeNodeInfo_def nodeInfo_toNative_def nodeOperationType_def)

section \<open>The test\<close>

text \<open>\<open>LoadStrikeTestInfo\<close> keeps one spelling of each identifier; 0 is the zero time.\<close>

record LoadStrikeTestInfo =
  lti_ClusterId :: string
  lti_Created :: int
  lti_SessionId :: string
  lti_TestName :: string
  lti_TestSuite :: string

definition newLoadStrikeTestInfo :: "testInfo \<Rightarrow> LoadStrikeTestInfo" where
  "newLoadStrikeTestInfo native =
     (let native = normalizeTestInfo native in
      \<lparr>lti_ClusterId = test_ClusterId native, lti_Created = test_Created native,
       lti_SessionId = test_SessionId native, lti_TestName = test_TestName native,
       lti_TestSuite = test_TestSuite native\<rparr>)"

definition testInfo_toNative :: "LoadStrikeTestInfo \<Rightarrow> testInfo" where
  "testInfo_toNative i =
     normalizeTestInfo (zero_testInfo\<lparr>test_ClusterId := lti_ClusterId i, test_Created := lti_Created i,
       test_SessionId := lti_SessionId i, test_TestName := lti_TestName i,
       test_TestSuite := lti_TestSuite i\<rparr>)"

text \<open>The pairs that \<open>normalizeTestInfo\<close> fills, each from the other.\<close>

definition filled :: "string \<Rightarrow> string \<Rightarrow> string" where
  "filled a b = (if trim_space a = [] then b else a)"

definition filled_time :: "int \<Rightarrow> int \<Rightarrow> int" where
  "filled_time a b = (if a = 0 then b else a)"

lemma filled_again [simp]:
  "filled (filled a b) (filled b (filled a b)) = filled a b"
  "filled (filled b (filled a b)) (filled a b) = filled b (filled a b)"
  by (simp_all add: filled_def)

lemma filled_Nil [simp]: "filled [] b = b" "filled b b = b"
  by (simp_all add: filled_def)

lemma filled_time_again [simp]:
  "filled_time (filled_time a b) (filled_time b (filled_time a b)) = filled_time a b"
  "filled_time (filled_time b (filled_time a b)) (filled_time a b) = filled_time b (filled_time a b)"
  "filled_time 0 b = b" "filled_time b b = b"
  by (simp_all add: filled_time_def)

lemma fill_steps:
  "(if trim_space (test_SessionID i) = [] then i\<lparr>test_SessionID := v\<rparr> else i) =
     i\<lparr>test_SessionID := filled (test_SessionID i) v\<rparr>"
  "(if trim_space (test_SessionId i) = [] then i\<lparr>test_SessionId := v\<rparr> else i) =
     i\<lparr>test_SessionId := filled (test_SessionId i) v\<rparr>"
  "(if trim_space (test_ClusterID i) = [] then i\<lparr>test_ClusterID := v\<rparr> else i) =
     i\<lparr>test_ClusterID := filled (test_ClusterID i) v\<rparr>"
  "(if trim_space (test_ClusterId i) = [] then i\<lparr>test_ClusterId := v\<rparr> else i) =
     i\<lparr>test_ClusterId := filled (test_ClusterId i) v\<rparr>"
  "(if test_CreatedUTC i = 0 then i\<lparr>test_CreatedUTC := t\<rparr> else i) =
     i\<lparr>test_CreatedUTC := filled_time (test_CreatedUTC i) t\<rparr>"
  "(if test_Created i = 0 then i\<lparr>test_Created := t\<rparr> else i) =
     i\<lparr>test_Created := filled_time (test_Created i) t\<rparr>"
  by (cases i; simp add: filled_def filled_time_def)+

lemma normalizeTestInfo_fields:
  "normalizeTestInfo info =
     info\<lparr>test_SessionID := filled (test_SessionID info) (test_SessionId info),
          test_SessionId := filled (test_SessionId info) (filled (test_SessionID info) (test_SessionId info)),
          test_ClusterID := filled (test_ClusterID info) (test_ClusterId info),
          test_ClusterId := filled (test_ClusterId info) (filled (test_ClusterID info) (test_ClusterId info)),
          test_CreatedUTC := filled_time (test_CreatedUTC info) (test_Created info),
          test_Created := filled_time (test_Created info) (filled_time (test_CreatedUTC info) (test_Created info))\<rparr>"
  by (simp add: normalizeTestInfo_def fill_steps Let_def)

lemma normalizeTestInfo_again [simp]: "normalizeTestInfo (normalizeTestInfo info) = normalizeTestInfo info"
  by (simp add: normalizeTestInfo_fields)

interpretation lti_w: wrapper newLoadStrikeTestInfo testInfo_toNative
  by unfold_locales
    (simp add: newLoadStrikeTestInfo_def testInfo_toNative_def, simp add: normalizeTestInfo_fields zero_testInfo_def)

lemma newLoadStrikeTestInfo_normalize [simp]:
  "newLoadStrikeTestInfo (normalizeTestInfo info) = newLoadStrikeTestInfo info"
  by (simp add: newLoadStrikeTestInfo_def)

end
