(* ===== verification/Scenario_Stats.thy ===== *)
theory Scenario_Stats
  imports Stat_Values
begin

text \<open>
  The statistics of steps and scenarios (\<open>results.go\<close>), the two public views of them, the
  detailed one of \<open>public_detailed_results.go\<close> and the realtime one of
  \<open>public_realtime_stats.go\<close>, and the lookups by name. A lookup that panics is \<open>Inl\<close> the
  message. \<open>scenarioStats.FindStepStats\<close> writes the flavour of the lookup into the list it shares
  with its caller, so it also gives the statistics it leaves.
\<close>

section \<open>Steps\<close>

datatype statsLookupFlavor = statsLookupFlavorDetailed | statsLookupFlavorRealtime

definition cloneStatusCodeCounts :: "(string \<times> int) list \<Rightarrow> (string \<times> int) list" where
  "cloneStatusCodeCounts source = (if length source = 0 then [] else map (\<lambda>(key, value). (key, value)) source)"

lemma cloneStatusCodeCounts_id [simp]: "cloneStatusCodeCounts = id"
  by (rule ext) (simp add: cloneStatusCodeCounts_def)

record stepStats =
  st_ScenarioName :: string
  st_StepName :: string
  st_AllMeasurement :: "measurementStats option"
  st_AllBytes :: int
  st_AllRequestCount :: int
  st_AllOKCount :: int
  st_AllFailCount :: int
  st_TotalBytes :: int
  st_TotalLatencyMS :: float64
  st_AvgLatencyMS :: float64
  st_MinLatencyMS :: float64
  st_MaxLatencyMS :: float64
  st_StatusCodes :: "(string \<times> int) list"
  st_Ok :: measurementStats
  st_Fail :: measurementStats
  st_SortIndex :: int
  st_lookupFlavor :: statsLookupFlavor

record LoadStrikeDetailedStepStats =
  dst_scenarioName :: string
  dst_stepName :: string
  dst_allBytes :: int
  dst_allRequestCount :: int
  dst_allOKCount :: int
  dst_allFailCount :: int
  dst_totalBytes :: int
  dst_totalLatencyMS :: float64
  dst_avgLatencyMS :: float64
  dst_minLatencyMS :: float64
  dst_maxLatencyMS :: float64
  dst_statusCodes :: "(string \<times> int) list"
  dst_allMeasurement :: "LoadStrikeMeasurementStats option"
  dst_ok :: LoadStrikeMeasurementStats
  dst_fail :: LoadStrikeMeasurementStats
  dst_sortIndex :: int
  dst_lookupFlavor :: statsLookupFlavor

definition newLoadStrikeDetailedStepStats :: "stepStats \<Rightarrow> LoadStrikeDetailedStepStats" where
  "newLoadStrikeDetailedStepStats native =
     \<lparr>dst_scenarioName = st_ScenarioName native, dst_stepName = st_StepName native,
      dst_allBytes = st_AllBytes native, dst_allRequestCount = st_AllRequestCount native,
      dst_allOKCount = st_AllOKCount native, dst_allFailCount = st_AllFailCount native,
      dst_totalBytes = st_TotalBytes native, dst_totalLatencyMS = st_TotalLatencyMS native,
      dst_avgLatencyMS = st_AvgLatencyMS native, dst_minLatencyMS = st_MinLatencyMS native,
      dst_maxLatencyMS = st_MaxLatencyMS native,
      dst_statusCodes = cloneStatusCodeCounts (st_StatusCodes native),
      dst_allMeasurement = map_option newLoadStrikeMeasurementStats (st_AllMeasurement native),
      dst_ok = newLoadStrikeMeasurementStats (st_Ok native),
      dst_fail = newLoadStrikeMeasurementStats (st_Fail native),
      dst_sortIndex = st_SortIndex native, dst_lookupFlavor = st_lookupFlavor native\<rparr>"

definition detailedStepStats_toNative :: "LoadStrikeDetailedStepStats \<Rightarrow> stepStats" where
  "detailedStepStats_toNative s =
     \<lparr>st_ScenarioName = dst_scenarioName s, st_StepName = dst_stepName s,
      st_AllMeasurement = map_option measurementStats_toNative (dst_allMeasurement s),
      st_AllBytes = dst_allBytes s, st_AllRequestCount = dst_allRequestCount s,
      st_AllOKCount = dst_allOKCount s, st_AllFailCount = dst_allFailCount s,
      st_TotalBytes = dst_totalBytes s, st_TotalLatencyMS = dst_totalLatencyMS s,
      st_AvgLatencyMS = dst_avgLatencyMS s, st_MinLatencyMS = dst_minLatencyMS s,
      st_MaxLatencyMS = dst_maxLatencyMS s,
      st_StatusCodes = cloneStatusCodeCounts (dst_statusCodes s),
      st_Ok = measurementStats_toNative (dst_ok s),
      st_Fail = measurementStats_toNative (dst_fail s), st_SortIndex = dst_sortIndex s,
      st_lookupFlavor = dst_lookupFlavor s\<rparr>"

interpretation dst_w: wrapper newLoadStrikeDetailedStepStats detailedStepStats_toNative
  by unfold_locales (simp add: newLoadStrikeDetailedStepStats_def detailedStepStats_toNative_def
    option.map_comp)

record LoadStrikeStepStats =
  lst_AllMeasurement :: "LoadStrikeMeasurementStats option"
  lst_Fail :: LoadStrikeMeasurementStats
  lst_Ok :: LoadStrikeMeasurementStats
  lst_SortIndex :: int
  lst_StepName :: string

definition newLoadStrikeStepStats :: "stepStats \<Rightarrow> LoadStrikeStepStats" where
  "newLoadStrikeStepStats native =
     \<lparr>lst_AllMeasurement = map_option newLoadStrikeMeasurementStats (st_AllMeasurement native),
      lst_Fail = newLoadStrikeMeasurementStats (st_Fail native),
      lst_Ok = newLoadStrikeMeasurementStats (st_Ok native), lst_SortIndex = st_SortIndex native,
      lst_StepName = st_StepName native\<rparr>"

definition stepStats_toNative :: "LoadStrikeStepStats \<Rightarrow> stepStats" where
  "stepStats_toNative s =
     \<lparr>st_ScenarioName = [], st_StepName = lst_StepName s,
      st_AllMeasurement = map_option measurementStats_toNative (lst_AllMeasurement s),
      st_AllBytes = 0, st_AllRequestCount = 0, st_AllOKCount = 0, st_AllFailCount = 0,
      st_TotalBytes = 0, st_TotalLatencyMS = Fin 0, st_AvgLatencyMS = Fin 0,
      st_MinLatencyMS = Fin 0, st_MaxLatencyMS = Fin 0, st_StatusCodes = [],
      st_Ok = measurementStats_toNative (lst_Ok s),
      st_Fail = measurementStats_toNative (lst_Fail s), st_SortIndex = lst_SortIndex s,
      st_lookupFlavor = statsLookupFlavorDetailed\<rparr>"

interpretation lst_w: wrapper newLoadStrikeStepStats stepStats_toNative
  by unfold_locales (simp add: newLoadStrikeStepStats_def stepStats_toNative_def option.map_comp)

section \<open>Scenarios\<close>

record scenarioStats =
  sst_ScenarioName :: string
  sst_AllMeasurement :: "measurementStats option"
  sst_AllBytes :: int
  sst_AllRequestCount :: int
  sst_AllOKCount :: int
  sst_AllFailCount :: int
  sst_TotalBytes :: int
  sst_TotalLatencyMS :: float64
  sst_AvgLatencyMS :: float64
  sst_MinLatencyMS :: float64
  sst_MaxLatencyMS :: float64
  sst_StatusCodes :: "(string \<times> int) list"
  sst_CurrentOperation :: string
  sst_CurrentOperationType :: int
  sst_DurationMS :: float64
  sst_Duration :: int
  sst_Ok :: measurementStats
  sst_Fail :: measurementStats
  sst_LoadSimulationStats :: loadSimulationStats
  sst_SortIndex :: int
  sst_stepStats :: "stepStats list"
  sst_lookupFlavor :: statsLookupFlavor

definition normalizeScenarioStats :: "(float64 \<Rightarrow> int) \<Rightarrow> scenarioStats \<Rightarrow> scenarioStats" where
  "normalizeScenarioStats conv stats =
     stats\<lparr>sst_Duration := fill_duration conv (sst_Duration stats) (sst_DurationMS stats),
           sst_CurrentOperationType :=
             (if sst_CurrentOperationType stats = 0 \<and> trim_space (sst_CurrentOperation stats) \<noteq> []
              then parseOperationType (sst_CurrentOperation stats) else sst_CurrentOperationType stats),
           sst_stepStats := map (\<lambda>step.
             if sst_lookupFlavor stats = statsLookupFlavorRealtime
             then step\<lparr>st_lookupFlavor := statsLookupFlavorRealtime\<rparr> else step) (sst_stepStats stats)\<rparr>"

text \<open>What normalisation achieves.\<close>

definition scenario_normal :: "(float64 \<Rightarrow> int) \<Rightarrow> scenarioStats \<Rightarrow> bool" where
  "scenario_normal conv stats \<longleftrightarrow>
     fill_duration conv (sst_Duration stats) (sst_DurationMS stats) = sst_Duration stats \<and>
     (sst_CurrentOperationType stats = 0 \<longrightarrow> trim_space (sst_CurrentOperation stats) \<noteq> [] \<longrightarrow>
        parseOperationType (sst_CurrentOperation stats) = 0) \<and>
     (sst_lookupFlavor stats = statsLookupFlavorRealtime \<longrightarrow>
        list_all (\<lambda>step. st_lookupFlavor step = statsLookupFlavorRealtime) (sst_stepStats stats))"

lemma normalizeScenarioStats_normal: "scenario_normal conv (normalizeScenarioStats conv stats)"
  by (auto simp: scenario_normal_def normalizeScenarioStats_def list_all_iff)

lemma scenario_normal_fixed: "scenario_normal conv stats \<Longrightarrow> normalizeScenarioStats conv stats = stats"
  by (auto simp: scenario_normal_def normalizeScenarioStats_def list_all_iff map_idI)

lemma normalizeScenarioStats_again [simp]:
  "normalizeScenarioStats conv (normalizeScenarioStats conv stats) = normalizeScenarioStats conv stats"
  by (rule scenario_normal_fixed [OF normalizeScenarioStats_normal])

section \<open>The detailed view\<close>

record LoadStrikeDetailedScenarioStats =
  dss_scenarioName :: string
  dss_allBytes :: int
  dss_allRequestCount :: int
  dss_allOKCount :: int
  dss_allFailCount :: int
  dss_totalBytes :: int
  dss_totalLatencyMS :: float64
  dss_avgLatencyMS :: float64
  dss_minLatencyMS :: float64
  dss_maxLatencyMS :: float64
  dss_statusCodes :: "(string \<times> int) list"
  dss_allMeasurement :: "LoadStrikeMeasurementStats option"
  dss_currentOperation :: string
  dss_currentOperationType :: int
  dss_durationMS :: float64
  dss_duration :: int
  dss_ok :: LoadStrikeMeasurementStats
  dss_fail :: LoadStrikeMeasurementStats
  dss_loadSimulationStats :: LoadStrikeLoadSimulationStats
  dss_sortIndex :: int
  dss_stepStats :: "LoadStrikeDetailedStepStats list"
  dss_lookupFlavor :: statsLookupFlavor

definition newLoadStrikeDetailedScenarioStats :: "(float64 \<Rightarrow> int) \<Rightarrow> scenarioStats \<Rightarrow> LoadStrikeDetailedScenarioStats" where
  "newLoadStrikeDetailedScenarioStats conv native =
     (let native = normalizeScenarioStats conv native in
       \<lparr>dss_scenarioName = sst_ScenarioName native, dss_allBytes = sst_AllBytes native,
        dss_allRequestCount = sst_AllRequestCount native, dss_allOKCount = sst_AllOKCount native,
        dss_allFailCount = sst_AllFailCount native, dss_totalBytes = sst_TotalBytes native,
        dss_totalLatencyMS = sst_TotalLatencyMS native, dss_avgLatencyMS = sst_AvgLatencyMS native,
        dss_minLatencyMS = sst_MinLatencyMS native, dss_maxLatencyMS = sst_MaxLatencyMS native,
        dss_statusCodes = cloneStatusCodeCounts (sst_StatusCodes native),
        dss_allMeasurement = map_option newLoadStrikeMeasurementStats (sst_AllMeasurement native),
        dss_currentOperation = sst_CurrentOperation native,
        dss_currentOperationType = sst_CurrentOperationType native,
        dss_durationMS = sst_DurationMS native, dss_duration = sst_Duration native,
        dss_ok = newLoadStrikeMeasurementStats (sst_Ok native),
        dss_fail = newLoadStrikeMeasurementStats (sst_Fail native),
        dss_loadSimulationStats = newLoadStrikeLoadSimulationStats (sst_LoadSimulationStats native),
        dss_sortIndex = sst_SortIndex native,
        dss_stepStats = map newLoadStrikeDetailedStepStats (sst_stepStats native),
        dss_lookupFlavor = sst_lookupFlavor native\<rparr>)"

definition detailed_native :: "LoadStrikeDetailedScenarioStats \<Rightarrow> scenarioStats" where
  "detailed_native s =
     \<lparr>sst_ScenarioName = dss_scenarioName s,
      sst_AllMeasurement = map_option measurementStats_toNative (dss_allMeasurement s),
      sst_AllBytes = dss_allBytes s, sst_AllRequestCount = dss_allRequestCount s,
      sst_AllOKCount = dss_allOKCount s, sst_AllFailCount = dss_allFailCount s,
      sst_TotalBytes = dss_totalBytes s, sst_TotalLatencyMS = dss_totalLatencyMS s,
      sst_AvgLatencyMS = dss_avgLatencyMS s, sst_MinLatencyMS = dss_minLatencyMS s,
      sst_MaxLatencyMS = dss_maxLatencyMS s,
      sst_StatusCodes = cloneStatusCodeCounts (dss_statusCodes s),
      sst_CurrentOperation = dss_currentOperation s,
      sst_CurrentOperationType = dss_currentOperationType s, sst_DurationMS = dss_durationMS s,
      sst_Duration = dss_duration s, sst_Ok = measurementStats_toNative (dss_ok s),
      sst_Fail = measurementStats_toNative (dss_fail s),
      sst_LoadSimulationStats = loadSimulationStats_toNative (dss_loadSimulationStats s),
      sst_SortIndex = dss_sortIndex s,
      sst_stepStats = map detailedStepStats_toNative (dss_stepStats s),
      sst_lookupFlavor = dss_lookupFlavor s\<rparr>"

definition detailedScenarioStats_toNative ::
  "(float64 \<Rightarrow> int) \<Rightarrow> LoadStrikeDetailedScenarioStats \<Rightarrow> scenarioStats" where
  "detailedScenarioStats_toNative conv s = normalizeScenarioStats conv (detailed_native s)"

section \<open>The realtime view\<close>

definition operationTypeFromScenarioStats :: "scenarioStats \<Rightarrow> int" where
  "operationTypeFromScenarioStats stats =
     (if sst_CurrentOperationType stats \<noteq> 0 then sst_CurrentOperationType stats
      else parseOperationType (sst_CurrentOperation stats))"

record LoadStrikeScenarioStats =
  lsn_AllMeasurement :: "LoadStrikeMeasurementStats option"
  lsn_AllBytes :: int
  lsn_AllFailCount :: int
  lsn_AllOKCount :: int
  lsn_AllRequestCount :: int
  lsn_CurrentOperation :: int
  lsn_Duration :: int
  lsn_Fail :: LoadStrikeMeasurementStats
  lsn_LoadSimulationStats :: LoadStrikeLoadSimulationStats
  lsn_Ok :: LoadStrikeMeasurementStats
  lsn_ScenarioName :: string
  lsn_SortIndex :: int
  lsn_stepStats :: "LoadStrikeStepStats list"

definition newLoadStrikeScenarioStats :: "(float64 \<Rightarrow> int) \<Rightarrow> scenarioStats \<Rightarrow> LoadStrikeScenarioStats" where
  "newLoadStrikeScenarioStats conv native =
     (let native = normalizeScenarioStats conv native in
       \<lparr>lsn_AllMeasurement = map_option newLoadStrikeMeasurementStats (sst_AllMeasurement native),
        lsn_AllBytes = sst_AllBytes native, lsn_AllFailCount = sst_AllFailCount native,
        lsn_AllOKCount = sst_AllOKCount native, lsn_AllRequestCount = sst_AllRequestCount native,
        lsn_CurrentOperation = operationTypeFromScenarioStats native,
        lsn_Duration = sst_Duration native,
        lsn_Fail = newLoadStrikeMeasurementStats (sst_Fail native),
        lsn_LoadSimulationStats = newLoadStrikeLoadSimulationStats (sst_LoadSimulationStats native),
        lsn_Ok = newLoadStrikeMeasurementStats (sst_Ok native),
        lsn_ScenarioName = sst_ScenarioName native, lsn_SortIndex = sst_SortIndex native,
        lsn_stepStats = map newLoadStrikeStepStats (sst_stepStats native)\<rparr>)"

definition scenarioStats_toNative :: "LoadStrikeScenarioStats \<Rightarrow> scenarioStats" where
  "scenarioStats_toNative s =
     \<lparr>sst_ScenarioName = lsn_ScenarioName s,
      sst_AllMeasurement = map_option measurementStats_toNative (lsn_AllMeasurement s),
      sst_AllBytes = lsn_AllBytes s, sst_AllRequestCount = lsn_AllRequestCount s,
      sst_AllOKCount = lsn_AllOKCount s, sst_AllFailCount = lsn_AllFailCount s, sst_TotalBytes = 0,
      sst_TotalLatencyMS = Fin 0, sst_AvgLatencyMS = Fin 0, sst_MinLatencyMS = Fin 0,
      sst_MaxLatencyMS = Fin 0, sst_StatusCodes = [],
      sst_CurrentOperation = operationTypeName (lsn_CurrentOperation s),
      sst_CurrentOperationType = lsn_CurrentOperation s,
      sst_DurationMS = ms_of_duration (lsn_Duration s), sst_Duration = lsn_Duration s,
      sst_Ok = measurementStats_toNative (lsn_Ok s),
      sst_Fail = measurementStats_toNative (lsn_Fail s),
      sst_LoadSimulationStats = loadSimulationStats_toNative (lsn_LoadSimulationStats s),
      sst_SortIndex = lsn_SortIndex s, sst_stepStats = map stepStats_toNative (lsn_stepStats s),
      sst_lookupFlavor = statsLookupFlavorDetailed\<rparr>"

section \<open>Lookups\<close>

text \<open>A loop that looks for the first element with a name, and changes it in place.\<close>

fun update_first :: "('a \<Rightarrow> bool) \<Rightarrow> ('a \<Rightarrow> 'a) \<Rightarrow> 'a list \<Rightarrow> 'a option \<times> 'a list" where
  "update_first P f [] = (None, [])"
| "update_first P f (x # xs) =
     (if P x then (Some (f x), f x # xs)
      else case update_first P f xs of (found, ys) \<Rightarrow> (found, x # ys))"

lemma update_first_find: "fst (update_first P f xs) = map_option f (List.find P xs)"
  by (induction xs) (auto split: prod.splits)

definition validateStepStatsLookupName :: "string \<Rightarrow> unit res" where
  "validateStepStatsLookupName stepName =
     (if trim_space stepName = [] then Inl ''step name must be provided'' else Inr ())"

definition validateScenarioStatsLookupName :: "string \<Rightarrow> unit res" where
  "validateScenarioStatsLookupName scenarioName =
     (if trim_space scenarioName = [] then Inl ''scenario name must be provided'' else Inr ())"

definition check_step_name :: "statsLookupFlavor \<Rightarrow> string \<Rightarrow> unit res" where
  "check_step_name flavor stepName =
     (if flavor \<noteq> statsLookupFlavorRealtime then validateStepStatsLookupName stepName else Inr ())"

text \<open>Steps look up themselves.\<close>

definition stepStats_FindStepStats :: "stepStats \<Rightarrow> string \<Rightarrow> stepStats option res" where
  "stepStats_FindStepStats s stepName =
     (case check_step_name (st_lookupFlavor s) stepName of
        Inl e \<Rightarrow> Inl e
      | Inr _ \<Rightarrow> Inr (if st_StepName s = stepName then Some s else None))"

definition step_missing :: "statsLookupFlavor \<Rightarrow> string \<Rightarrow> string" where
  "step_missing flavor stepName =
     (if flavor = statsLookupFlavorRealtime then ''Step stats not found: '' @ stepName @ ''.''
      else ''Step '' @ [CHR 0x27] @ stepName @ [CHR 0x27] @ '' was not found.'')"

definition stepStats_GetStepStats :: "stepStats \<Rightarrow> string \<Rightarrow> stepStats res" where
  "stepStats_GetStepStats s stepName =
     (case stepStats_FindStepStats s stepName of
        Inl e \<Rightarrow> Inl e
      | Inr (Some step) \<Rightarrow> Inr step
      | Inr None \<Rightarrow> Inl (step_missing (st_lookupFlavor s) stepName))"

definition detailedStepStats_FindStepStats ::
  "LoadStrikeDetailedStepStats \<Rightarrow> string \<Rightarrow> LoadStrikeDetailedStepStats option res" where
  "detailedStepStats_FindStepStats s stepName =
     (case check_step_name (dst_lookupFlavor s) stepName of
        Inl e \<Rightarrow> Inl e
      | Inr _ \<Rightarrow> Inr (if dst_stepName s = stepName then Some s else None))"

definition detailedStepStats_GetStepStats ::
  "LoadStrikeDetailedStepStats \<Rightarrow> string \<Rightarrow> LoadStrikeDetailedStepStats res" where
  "detailedStepStats_GetStepStats s stepName =
     (case detailedStepStats_FindStepStats s stepName of
        Inl e \<Rightarrow> Inl e
      | Inr (Some step) \<Rightarrow> Inr step
      | Inr None \<Rightarrow> Inl (step_missing (dst_lookupFlavor s) stepName))"

text \<open>The steps of a scenario.\<close>

definition scenarioStats_FindStepStats ::
  "scenarioStats \<Rightarrow> string \<Rightarrow> (stepStats option \<times> scenarioStats) res" where
  "scenarioStats_FindStepStats s stepName =
     (case check_step_name (sst_lookupFlavor s) stepName of
        Inl e \<Rightarrow> Inl e
      | Inr _ \<Rightarrow>
          (case update_first (\<lambda>step. st_StepName step = stepName)
                  (\<lambda>step. step\<lparr>st_lookupFlavor := sst_lookupFlavor s\<rparr>) (sst_stepStats s) of
             (found, steps) \<Rightarrow> Inr (found, s\<lparr>sst_stepStats := steps\<rparr>)))"

definition scenario_step_missing :: "statsLookupFlavor \<Rightarrow> string \<Rightarrow> string \<Rightarrow> string" where
  "scenario_step_missing flavor stepName scenarioName =
     (if flavor = statsLookupFlavorRealtime then ''Step stats not found: '' @ stepName @ ''.''
      else ''Step '' @ [CHR 0x27] @ stepName @ [CHR 0x27] @ '' was not found for scenario '' @ [CHR 0x27] @
             scenarioName @ [CHR 0x27] @ ''.'')"

definition scenarioStats_GetStepStats :: "scenarioStats \<Rightarrow> string \<Rightarrow> (stepStats \<times> scenarioStats) res" where
  "scenarioStats_GetStepStats s stepName =
     (case scenarioStats_FindStepStats s stepName of
        Inl e \<Rightarrow> Inl e
      | Inr (Some step, s') \<Rightarrow> Inr (step, s')
      | Inr (None, s') \<Rightarrow> Inl (scenario_step_missing (sst_lookupFlavor s) stepName (sst_ScenarioName s)))"

definition detailedScenarioStats_FindStepStats ::
  "LoadStrikeDetailedScenarioStats \<Rightarrow> string \<Rightarrow> LoadStrikeDetailedStepStats option res" where
  "detailedScenarioStats_FindStepStats s stepName =
     (case check_step_name (dss_lookupFlavor s) stepName of
        Inl e \<Rightarrow> Inl e
      | Inr _ \<Rightarrow>
          Inr (map_option (\<lambda>value. value\<lparr>dst_lookupFlavor := dss_lookupFlavor s\<rparr>)
                 (List.find (\<lambda>step. dst_stepName step = stepName) (dss_stepStats s))))"

definition detailedScenarioStats_GetStepStats ::
  "LoadStrikeDetailedScenarioStats \<Rightarrow> string \<Rightarrow> LoadStrikeDetailedStepStats res" where
  "detailedScenarioStats_GetStepStats s stepName =
     (case detailedScenarioStats_FindStepStats s stepName of
        Inl e \<Rightarrow> Inl e
      | Inr (Some step) \<Rightarrow> Inr step
      | Inr None \<Rightarrow> Inl (scenario_step_missing (dss_lookupFlavor s) stepName (dss_scenarioName s)))"

definition realtimeScenarioStats_FindStepStats ::
  "LoadStrikeScenarioStats \<Rightarrow> string \<Rightarrow> LoadStrikeStepStats option" where
  "realtimeScenarioStats_FindStepStats s stepName =
     List.find (\<lambda>step. lst_StepName step = stepName) (lsn_stepStats s)"

definition realtimeScenarioStats_GetStepStats ::
  "LoadStrikeScenarioStats \<Rightarrow> string \<Rightarrow> LoadStrikeStepStats res" where
  "realtimeScenarioStats_GetStepStats s stepName =
     (case realtimeScenarioStats_FindStepStats s stepName of
        Some step \<Rightarrow> Inr step
      | None \<Rightarrow> Inl (''step stats not found: '' @ stepName @ ''.''))"

section \<open>Facts\<close>

lemma find_map: "List.find P (map f xs) = map_option f (List.find (\<lambda>x. P (f x)) xs)"
  by (induction xs) auto

lemma dst_simps [simp]:
  "dst_stepName (newLoadStrikeDetailedStepStats s) = st_StepName s"
  "dst_lookupFlavor (newLoadStrikeDetailedStepStats s) = st_lookupFlavor s"
  "(newLoadStrikeDetailedStepStats s)\<lparr>dst_lookupFlavor := f\<rparr> =
     newLoadStrikeDetailedStepStats (s\<lparr>st_lookupFlavor := f\<rparr>)"
  by (simp_all add: newLoadStrikeDetailedStepStats_def)

lemma dss_simps [simp]:
  "dss_scenarioName (newLoadStrikeDetailedScenarioStats conv s) = sst_ScenarioName s"
  "dss_lookupFlavor (newLoadStrikeDetailedScenarioStats conv s) = sst_lookupFlavor s"
  "dss_stepStats (newLoadStrikeDetailedScenarioStats conv s) =
     map newLoadStrikeDetailedStepStats (sst_stepStats (normalizeScenarioStats conv s))"
  by (simp_all add: newLoadStrikeDetailedScenarioStats_def normalizeScenarioStats_def)

text \<open>The public lookup of a step is the native one, seen through the wrapper.\<close>

lemma detailed_find_step:
  "detailedScenarioStats_FindStepStats (newLoadStrikeDetailedScenarioStats conv s) stepName =
     map_sum id (\<lambda>r. map_option newLoadStrikeDetailedStepStats (fst r)) (scenarioStats_FindStepStats s stepName)"
  using update_first_find [of "\<lambda>step. st_StepName step = stepName"
      "\<lambda>step. step\<lparr>st_lookupFlavor := sst_lookupFlavor s\<rparr>" "sst_stepStats s"]
  by (cases "sst_lookupFlavor s")
    (auto simp: detailedScenarioStats_FindStepStats_def scenarioStats_FindStepStats_def find_map o_def
      normalizeScenarioStats_def option.map_comp split: sum.splits prod.splits)

lemma detailed_get_step:
  "detailedScenarioStats_GetStepStats (newLoadStrikeDetailedScenarioStats conv s) stepName =
     map_sum id (\<lambda>r. newLoadStrikeDetailedStepStats (fst r)) (scenarioStats_GetStepStats s stepName)"
  by (auto simp: detailedScenarioStats_GetStepStats_def scenarioStats_GetStepStats_def detailed_find_step
      split: sum.splits prod.splits option.splits)

text \<open>A view that is made from statistics survives the way to native statistics and back.\<close>

definition detailed_normal :: "(float64 \<Rightarrow> int) \<Rightarrow> LoadStrikeDetailedScenarioStats \<Rightarrow> bool" where
  "detailed_normal conv p \<longleftrightarrow>
     fill_duration conv (dss_duration p) (dss_durationMS p) = dss_duration p \<and>
     (dss_currentOperationType p = 0 \<longrightarrow> trim_space (dss_currentOperation p) \<noteq> [] \<longrightarrow>
        parseOperationType (dss_currentOperation p) = 0) \<and>
     (dss_lookupFlavor p = statsLookupFlavorRealtime \<longrightarrow>
        list_all (\<lambda>step. dst_lookupFlavor step = statsLookupFlavorRealtime) (dss_stepStats p))"

lemma detailed_normal_wrap: "detailed_normal conv (newLoadStrikeDetailedScenarioStats conv s)"
  using normalizeScenarioStats_normal [of conv s]
  by (auto simp: detailed_normal_def scenario_normal_def newLoadStrikeDetailedScenarioStats_def list_all_iff Let_def)

lemma detailed_native_normal: "detailed_normal conv p \<Longrightarrow> scenario_normal conv (detailed_native p)"
  by (auto simp: detailed_normal_def scenario_normal_def detailed_native_def list_all_iff
    detailedStepStats_toNative_def)

lemma detailed_wrap_unwrap:
  assumes "detailed_normal conv p"
  shows "newLoadStrikeDetailedScenarioStats conv (detailedScenarioStats_toNative conv p) = p"
proof -
  have "normalizeScenarioStats conv (detailed_native p) = detailed_native p"
    using assms by (simp add: detailed_native_normal scenario_normal_fixed)
  then show ?thesis
    by (simp add: detailedScenarioStats_toNative_def newLoadStrikeDetailedScenarioStats_def)
      (simp add: detailed_native_def option.map_comp)
qed

lemma scenarioStats_toNative_normal [simp]:
  "normalizeScenarioStats conv (scenarioStats_toNative s) = scenarioStats_toNative s"
  by (rule scenario_normal_fixed) (auto simp: scenario_normal_def scenarioStats_toNative_def)

interpretation lsn_w: wrapper "newLoadStrikeScenarioStats conv" scenarioStats_toNative for conv
  by unfold_locales
    (simp add: newLoadStrikeScenarioStats_def,
     simp add: scenarioStats_toNative_def operationTypeFromScenarioStats_def option.map_comp Let_def)

end
