(* ===== verification/Float_Rounding.thy ===== *)
theory Float_Rounding
  imports Float64
begin

text \<open>
  When rounding to a \<open>float64\<close> is exact: every number of at most 53 binary digits that is not too
  large and not too small is represented as it is.
\<close>

lemma floorlog_rat:
  assumes "0 < n"
  defines "a \<equiv> floorlog 2 (nat n)"
  shows "(2 :: rat) ^ (a - 1) \<le> of_int n" and "of_int n < (2 :: rat) ^ a" and "0 < a"
proof -
  from assms have "2 ^ (a - 1) \<le> nat n \<and> nat n < 2 ^ a"
    unfolding a_def by (intro floorlog_bounds) simp_all
  then have "2 ^ (a - 1) \<le> n" and "n < 2 ^ a"
    using assms by (simp_all add: le_nat_iff nat_less_iff)
  then have "(of_int (2 ^ (a - 1)) :: rat) \<le> of_int n" and "of_int n < (of_int (2 ^ a) :: rat)"
    by (simp_all only: of_int_le_iff of_int_less_iff)
  then show "(2 :: rat) ^ (a - 1) \<le> of_int n" and "of_int n < (2 :: rat) ^ a"
    by simp_all
  show "0 < a"
    using assms by (simp add: a_def floorlog_def)
qed

text \<open>\<open>log2_floor\<close> is the floor of the logarithm.\<close>

lemma log2_floor_bounds:
  assumes "0 < x"
  shows "2 powi log2_floor x \<le> x" and "x < 2 powi (log2_floor x + 1)"
proof -
  obtain n d where nd: "quotient_of x = (n, d)"
    by force
  then have d: "0 < d" and x: "x = of_int n / of_int d"
    by (simp_all add: quotient_of_denom_pos quotient_of_div)
  with assms have n: "0 < n"
    by (simp add: zero_less_divide_iff)
  define a b where "a = floorlog 2 (nat n)" and "b = floorlog 2 (nat d)"
  have nlo: "(2 :: rat) ^ (a - 1) \<le> of_int n" and nhi: "of_int n < (2 :: rat) ^ a" and "0 < a"
    using floorlog_rat [OF n] by (simp_all add: a_def)
  have dlo: "(2 :: rat) ^ (b - 1) \<le> of_int d" and dhi: "of_int d < (2 :: rat) ^ b" and "0 < b"
    using floorlog_rat [OF d] by (simp_all add: b_def)
  let ?e = "int a - int b"
  have pa: "(2 :: rat) ^ a = 2 * 2 ^ (a - 1)" and pb: "(2 :: rat) ^ b = 2 * 2 ^ (b - 1)"
    using \<open>0 < a\<close> \<open>0 < b\<close> by (simp_all flip: power_Suc)
  have e: "(2 :: rat) powi ?e = 2 ^ a / 2 ^ b"
    by (simp add: power_int_diff)
  have dpos: "(0 :: rat) < of_int d"
    using d by simp
  have "x < 2 ^ a / 2 ^ (b - 1)"
  proof -
    have "x \<le> of_int n / 2 ^ (b - 1)"
      unfolding x using n dlo d by (intro divide_left_mono) simp_all
    also have "\<dots> < 2 ^ a / 2 ^ (b - 1)"
      using nhi by (simp add: divide_strict_right_mono)
    finally show ?thesis .
  qed
  then have hi: "x < 2 powi (?e + 1)"
    by (simp add: power_int_add e pb)
  have "2 ^ (a - 1) / 2 ^ b < x"
  proof -
    have "(2 :: rat) ^ (a - 1) / 2 ^ b < 2 ^ (a - 1) / of_int d"
      using dhi dpos by (intro divide_strict_left_mono) simp_all
    also have "\<dots> \<le> x"
      unfolding x using nlo dpos by (simp add: divide_right_mono)
    finally show ?thesis .
  qed
  then have lo: "2 powi (?e - 1) < x"
    by (simp add: power_int_diff e pa)
  have l: "log2_floor x = (if 2 powi ?e \<le> x then ?e else ?e - 1)"
    by (simp add: log2_floor_def nd a_def b_def Let_def)
  show "2 powi log2_floor x \<le> x" "x < 2 powi (log2_floor x + 1)"
    using hi lo by (auto simp: l)
qed

lemma powi_less_cancel: "(2 :: rat) powi a < 2 powi b \<Longrightarrow> a < b"
  by (metis not_less one_le_numeral power_int_increasing)

lemma round64_exact:
  assumes m: "\<bar>m\<bar> < 2 ^ 53" and k: "- 1074 \<le> k" "k \<le> 971"
  shows "round64 (of_int m * 2 powi k) = Fin (of_int m * 2 powi k)"
proof (cases "m = 0")
  case False
  define x where "x = (of_int m * 2 powi k :: rat)"
  define e where "e = max (log2_floor \<bar>x\<bar> - 52) (- 1074)"
  have ax: "\<bar>x\<bar> = of_int \<bar>m\<bar> * 2 powi k"
    by (simp add: x_def abs_mult)
  then have pos: "0 < \<bar>x\<bar>"
    using False by simp
  note b = log2_floor_bounds [OF pos]
  have "\<bar>x\<bar> < 2 ^ 53 * 2 powi k"
    unfolding ax using m by (metis mult_strict_right_mono of_int_less_iff of_int_numeral of_int_power zero_less_numeral zero_less_power_int)
  also have "\<dots> = 2 powi (53 + k)"
    by (simp add: power_int_add)
  finally have small: "\<bar>x\<bar> < 2 powi (53 + k)" .
  with b(1) have "log2_floor \<bar>x\<bar> < 53 + k"
    by (meson order_le_less_trans powi_less_cancel)
  with k have ek: "e \<le> k"
    by (simp add: e_def)
  have "\<bar>x\<bar> / 2 powi e = of_int \<bar>m\<bar> * 2 powi (k - e)"
    by (simp add: ax power_int_diff)
  also have "\<dots> = of_int (\<bar>m\<bar> * 2 ^ nat (k - e))"
    using ek by (simp add: power_int_def)
  finally have whole: "\<bar>x\<bar> / 2 powi e = of_int (\<bar>m\<bar> * 2 ^ nat (k - e))" .
  have v: "of_int (round_half_even (\<bar>x\<bar> / 2 powi e)) * 2 powi e = \<bar>x\<bar>"
    using whole by (metis nonzero_divide_eq_eq power_int_eq_0_iff round_half_even_of_int zero_neq_numeral)
  have "(2 :: rat) powi (53 + k) \<le> 2 powi 1024"
    using k by (intro power_int_increasing) simp_all
  with small have "\<bar>x\<bar> < 2 ^ 1024"
    by (simp add: power_int_def)
  then show ?thesis
    unfolding x_def [symmetric] round64_def Let_def e_def [symmetric] v using pos by auto
qed (simp add: round64_def)

text \<open>Addition of a finite value.\<close>

fun f64_add_fin :: "float64 \<Rightarrow> rat \<Rightarrow> float64" where
  "f64_add_fin (Fin a) b = round64 (a + b)"
| "f64_add_fin x b = x"

text \<open>\<open>int64(value + 0.5)\<close>: a whole number of at most 52 binary digits is kept.\<close>

lemma round64_int: "\<bar>n\<bar> < 2 ^ 53 \<Longrightarrow> f64_of_int n = Fin (of_int n)"
  using round64_exact [of n 0] by (simp add: f64_of_int_def)

lemma round64_half: "0 \<le> n \<Longrightarrow> n < 2 ^ 52 \<Longrightarrow> round64 (of_int n + 1 / 2) = Fin (of_int n + 1 / 2)"
  using round64_exact [of "2 * n + 1" "- 1"] by (simp add: power_int_minus field_simps)

lemma half_up_whole:
  assumes "0 \<le> n" and "n < 2 ^ 52"
  shows "f64_to_int conv (f64_add_fin (f64_of_int n) (1 / 2)) = n"
proof -
  have "\<lfloor>of_int n + 1 / 2 :: rat\<rfloor> = n"
    by linarith
  then have t: "truncate (of_int n + 1 / 2) = n"
    using assms by (simp add: truncate_def)
  from assms have "f64_of_int n = Fin (of_int n)"
    by (intro round64_int) simp
  with t assms show ?thesis
    by (simp add: round64_half f64_to_int_def int_range_def)
qed

end
