(* ===== verification/Run_Results.thy ===== *)
theory Run_Results
  imports Scenario_Stats Float_Rounding
begin

text \<open>
  The result of a run and the statistics of a node (\<open>results.go\<close>) and their public views
  (\<open>public_detailed_results.go\<close>, \<open>public_realtime_stats.go\<close>): the conversions both ways, the lookup
  of a scenario, and the rows of correlated events. A map from names is an association list with
  distinct keys.

  A native lookup normalises the statistics it finds in the list it shares with its caller;
  \<open>runResult_FindScenarioStats\<close> gives the result it leaves. The lookup in the statistics of a node
  gives only the value: what it changes in its caller depends on the capacity of a slice.
\<close>

section \<open>Correlation rows\<close>

text \<open>
  \<open>rse_stringer\<close> is the method \<open>String\<close> of a value that has one, and \<open>fmt_sprint\<close> of
  \<open>rse_fmt\<close> is what the verb \<open>%v\<close> prints.
\<close>

record result_env =
  rse_conv :: "float64 \<Rightarrow> int"
  rse_stringer :: "go_any \<Rightarrow> string option"
  rse_fmt :: go_fmt

definition stringFromAny :: "result_env \<Rightarrow> go_any \<Rightarrow> string" where
  "stringFromAny E value =
     (case value of
        AnyString s \<Rightarrow> s
      | AnyNil \<Rightarrow> []
      | _ \<Rightarrow> (case rse_stringer E value of Some s \<Rightarrow> s | None \<Rightarrow> fmt_sprint (rse_fmt E) value))"

definition boolFromAny :: "go_any \<Rightarrow> bool" where
  "boolFromAny value =
     (case value of
        AnyBool b \<Rightarrow> b
      | AnyString s \<Rightarrow> trim_space (to_lower s) \<in> {''true'', ''1'', ''yes''}
      | AnyInt i \<Rightarrow> i \<noteq> 0
      | AnyInt64 i \<Rightarrow> i \<noteq> 0
      | AnyFloat64 f \<Rightarrow> f \<noteq> Fin 0
      | _ \<Rightarrow> False)"

definition any_at :: "(string \<times> go_any) list \<Rightarrow> string \<Rightarrow> go_any" where
  "any_at row key = (case map_of row key of None \<Rightarrow> AnyNil | Some v \<Rightarrow> v)"

record correlationRow =
  cro_OccurredUTC :: string
  cro_ScenarioName :: string
  cro_Source :: string
  cro_Destination :: string
  cro_RunMode :: string
  cro_Status :: string
  cro_TrackingID :: string
  cro_EventID :: string
  cro_SourceTimestampUTC :: string
  cro_DestinationTimestampUTC :: string
  cro_LatencyMS :: string
  cro_Message :: string
  cro_IsSuccess :: bool
  cro_IsFailure :: bool
  cro_GatherByField :: string
  cro_GatherByValue :: string

definition correlationRow_toMap :: "correlationRow \<Rightarrow> (string \<times> go_any) list" where
  "correlationRow_toMap r =
     [(''OccurredUtc'', AnyString (cro_OccurredUTC r)),
      (''ScenarioName'', AnyString (cro_ScenarioName r)),
      (''Source'', AnyString (cro_Source r)),
      (''Destination'', AnyString (cro_Destination r)),
      (''RunMode'', AnyString (cro_RunMode r)),
      (''Status'', AnyString (cro_Status r)),
      (''TrackingId'', AnyString (cro_TrackingID r)),
      (''EventId'', AnyString (cro_EventID r)),
      (''SourceTimestampUtc'', AnyString (cro_SourceTimestampUTC r)),
      (''DestinationTimestampUtc'', AnyString (cro_DestinationTimestampUTC r)),
      (''LatencyMs'', AnyString (cro_LatencyMS r)),
      (''Message'', AnyString (cro_Message r)),
      (''IsSuccess'', AnyBool (cro_IsSuccess r)),
      (''IsFailure'', AnyBool (cro_IsFailure r)),
      (''GatherByField'', AnyString (cro_GatherByField r)),
      (''GatherByValue'', AnyString (cro_GatherByValue r))]"

definition newCorrelationRowFromMap :: "result_env \<Rightarrow> (string \<times> go_any) list \<Rightarrow> correlationRow" where
  "newCorrelationRowFromMap E row =
     \<lparr>cro_OccurredUTC = stringFromAny E (any_at row ''OccurredUtc''),
      cro_ScenarioName = stringFromAny E (any_at row ''ScenarioName''),
      cro_Source = stringFromAny E (any_at row ''Source''),
      cro_Destination = stringFromAny E (any_at row ''Destination''),
      cro_RunMode = stringFromAny E (any_at row ''RunMode''),
      cro_Status = stringFromAny E (any_at row ''Status''),
      cro_TrackingID = stringFromAny E (any_at row ''TrackingId''),
      cro_EventID = stringFromAny E (any_at row ''EventId''),
      cro_SourceTimestampUTC = stringFromAny E (any_at row ''SourceTimestampUtc''),
      cro_DestinationTimestampUTC = stringFromAny E (any_at row ''DestinationTimestampUtc''),
      cro_LatencyMS = stringFromAny E (any_at row ''LatencyMs''),
      cro_Message = stringFromAny E (any_at row ''Message''),
      cro_IsSuccess = boolFromAny (any_at row ''IsSuccess''),
      cro_IsFailure = boolFromAny (any_at row ''IsFailure''),
      cro_GatherByField = stringFromAny E (any_at row ''GatherByField''),
      cro_GatherByValue = stringFromAny E (any_at row ''GatherByValue'')\<rparr>"

definition newPublicCorrelationRows :: "correlationRow list \<Rightarrow> (string \<times> go_any) list list" where
  "newPublicCorrelationRows rows = (if length rows = 0 then [] else map correlationRow_toMap rows)"

definition toNativeCorrelationRows :: "result_env \<Rightarrow> (string \<times> go_any) list list \<Rightarrow> correlationRow list" where
  "toNativeCorrelationRows E rows = (if length rows = 0 then [] else map (newCorrelationRowFromMap E) rows)"

lemma correlationRow_read_back [simp]: "newCorrelationRowFromMap E (correlationRow_toMap r) = r"
  by (simp add: newCorrelationRowFromMap_def correlationRow_toMap_def any_at_def stringFromAny_def boolFromAny_def)

lemma correlationRows_read_back [simp]:
  "toNativeCorrelationRows E (newPublicCorrelationRows rows) = rows"
  by (simp add: toNativeCorrelationRows_def newPublicCorrelationRows_def o_def)

section \<open>Durations by scenario\<close>

definition whole_ms :: "(float64 \<Rightarrow> int) \<Rightarrow> float64 \<Rightarrow> int" where
  "whole_ms conv value = f64_to_int conv (f64_add_fin value (1 / 2))"

definition cloneInt64MapFromFloatMap ::
  "(float64 \<Rightarrow> int) \<Rightarrow> (string \<times> float64) list \<Rightarrow> (string \<times> int) list" where
  "cloneInt64MapFromFloatMap conv source =
     (if length source = 0 then [] else map (\<lambda>(key, value). (key, whole_ms conv value)) source)"

definition cloneFloatMapFromInt64Map :: "(string \<times> int) list \<Rightarrow> (string \<times> float64) list" where
  "cloneFloatMapFromInt64Map source =
     (if length source = 0 then [] else map (\<lambda>(key, value). (key, f64_of_int value)) source)"

definition duration_exact :: "int \<Rightarrow> bool" where
  "duration_exact n \<longleftrightarrow> 0 \<le> n \<and> n < 2 ^ 52"

lemma whole_ms_exact [simp]: "duration_exact n \<Longrightarrow> whole_ms conv (f64_of_int n) = n"
  by (simp add: duration_exact_def whole_ms_def half_up_whole)

lemma durations_read_back:
  "list_all (\<lambda>(key, n). duration_exact n) ds \<Longrightarrow>
     cloneInt64MapFromFloatMap conv (cloneFloatMapFromInt64Map ds) = ds"
  by (auto simp: cloneInt64MapFromFloatMap_def cloneFloatMapFromInt64Map_def list_all_iff intro!: map_idI)

section \<open>Observations\<close>

record LoadStrikeGeneratorWarning =
  lgw_Code :: string
  lgw_Message :: string
  lgw_SinkName :: string
  lgw_ScenarioName :: string
  lgw_ScenarioIndex :: int
  lgw_SimulationIndex :: int
  lgw_SimulationKind :: string
  lgw_Count64 :: string
  lgw_FirstObservedUTCNs :: string
  lgw_LastObservedUTCNs :: string

record LoadStrikeObservationSinkDeliveryStats =
  osd_SinkName :: string
  osd_DeliveredCount64 :: string
  osd_DroppedCount64 :: string
  osd_FailedCount64 :: string

record LoadStrikeObservationDeliveryStats =
  ods_LastBatchSequence64 :: string
  ods_CapturedCount64 :: string
  ods_DeliveredCount64 :: string
  ods_DroppedBufferCount64 :: string
  ods_DroppedSinkCount64 :: string
  ods_Sinks :: "LoadStrikeObservationSinkDeliveryStats list"

definition SinkDroppedCount64 :: "LoadStrikeObservationDeliveryStats \<Rightarrow> string \<Rightarrow> string" where
  "SinkDroppedCount64 s name =
     (case List.find (\<lambda>x. osd_SinkName x = name) (ods_Sinks s) of
        Some x \<Rightarrow> osd_DroppedCount64 x
      | None \<Rightarrow> ''0'')"

section \<open>The result of a run\<close>

record runResult =
  rur_StartedUTC :: int
  rur_CompletedUTC :: int
  rur_DurationMS :: float64
  rur_Duration :: int
  rur_AllBytes :: int
  rur_AllRequestCount :: int
  rur_AllOKCount :: int
  rur_AllFailCount :: int
  rur_FailedThresholds :: int
  rur_NodeType :: NodeType
  rur_nodeInfo :: nodeInfo
  rur_testInfo :: testInfo
  rur_Thresholds :: "thresholdResult list"
  rur_ThresholdResults :: "thresholdResult list"
  rur_metricStats :: metricStats
  rur_Metrics :: "metricResult list"
  rur_scenarioStats :: "scenarioStats list"
  rur_stepStats :: "stepStats list"
  rur_ScenarioDurationsMS :: "(string \<times> float64) list"
  rur_PluginsData :: "pluginData list"
  rur_DisabledSinks :: "string list"
  rur_SinkErrors :: "sinkErrorResult list"
  rur_ReportFiles :: "string list"
  rur_LogFiles :: "string list"
  rur_PolicyErrors :: "RuntimePolicyError list"
  rur_GeneratorWarnings :: "LoadStrikeGeneratorWarning list"
  rur_ObservationDeliveryStats :: LoadStrikeObservationDeliveryStats
  rur_ReportingComplete :: bool
  rur_CorrelationRows :: "correlationRow list"
  rur_FailedCorrelationRows :: "correlationRow list"
  rur_reportTrace :: "go_ref option"

definition zero_runResult :: runResult where
  "zero_runResult =
     \<lparr>rur_StartedUTC = 0, rur_CompletedUTC = 0, rur_DurationMS = Fin 0, rur_Duration = 0, rur_AllBytes = 0,
      rur_AllRequestCount = 0, rur_AllOKCount = 0, rur_AllFailCount = 0, rur_FailedThresholds = 0,
      rur_NodeType = NodeTypeSingleNode, rur_nodeInfo = zero_nodeInfo, rur_testInfo = zero_testInfo,
      rur_Thresholds = [], rur_ThresholdResults = [],
      rur_metricStats = \<lparr>mst_DurationMS = Fin 0, mst_Duration = 0, mst_Counters = [], mst_Gauges = []\<rparr>,
      rur_Metrics = [], rur_scenarioStats = [], rur_stepStats = [], rur_ScenarioDurationsMS = [],
      rur_PluginsData = [], rur_DisabledSinks = [], rur_SinkErrors = [], rur_ReportFiles = [],
      rur_LogFiles = [], rur_PolicyErrors = [], rur_GeneratorWarnings = [],
      rur_ObservationDeliveryStats = \<lparr>ods_LastBatchSequence64 = [], ods_CapturedCount64 = [],
        ods_DeliveredCount64 = [], ods_DroppedBufferCount64 = [], ods_DroppedSinkCount64 = [], ods_Sinks = []\<rparr>,
      rur_ReportingComplete = False, rur_CorrelationRows = [], rur_FailedCorrelationRows = [],
      rur_reportTrace = None\<rparr>"

definition normalizeRunResult :: "(float64 \<Rightarrow> int) \<Rightarrow> runResult \<Rightarrow> runResult" where
  "normalizeRunResult conv result =
     result\<lparr>rur_Duration := fill_duration conv (rur_Duration result) (rur_DurationMS result),
            rur_testInfo := normalizeTestInfo (rur_testInfo result),
            rur_metricStats := normalizeMetricStats conv (rur_metricStats result)\<rparr>"

lemma normalizeRunResult_again [simp]:
  "normalizeRunResult conv (normalizeRunResult conv result) = normalizeRunResult conv result"
  by (simp add: normalizeRunResult_def)

record LoadStrikeRunResult =
  lrr_startedUTC :: int
  lrr_completedUTC :: int
  lrr_durationMS :: float64
  lrr_duration :: int
  lrr_allBytes :: int
  lrr_allRequestCount :: int
  lrr_allOKCount :: int
  lrr_allFailCount :: int
  lrr_failedThresholds :: int
  lrr_nodeType :: NodeType
  lrr_nodeInfo :: LoadStrikeNodeInfo
  lrr_testInfo :: LoadStrikeTestInfo
  lrr_thresholds :: "LoadStrikeThresholdResult list"
  lrr_thresholdResults :: "LoadStrikeThresholdResult list"
  lrr_metricStats :: LoadStrikeMetricStats
  lrr_metrics :: "LoadStrikeMetricValue list"
  lrr_scenarioStats :: "LoadStrikeDetailedScenarioStats list"
  lrr_stepStats :: "LoadStrikeDetailedStepStats list"
  lrr_scenarioDurationsMS :: "(string \<times> int) list"
  lrr_pluginsData :: "LoadStrikePluginData list"
  lrr_disabledSinks :: "string list"
  lrr_sinkErrors :: "LoadStrikeSinkError list"
  lrr_reportFiles :: "string list"
  lrr_logFiles :: "string list"
  lrr_policyErrors :: "LoadStrikeRuntimePolicyError list"
  lrr_generatorWarnings :: "LoadStrikeGeneratorWarning list"
  lrr_observationDeliveryStats :: LoadStrikeObservationDeliveryStats
  lrr_reportingComplete :: bool
  lrr_correlationRows :: "(string \<times> go_any) list list"
  lrr_failedCorrelationRows :: "(string \<times> go_any) list list"
  lrr_reportTrace :: "go_ref option"

definition newLoadStrikeRunResult :: "result_env \<Rightarrow> runResult \<Rightarrow> LoadStrikeRunResult" where
  "newLoadStrikeRunResult E native =
     (let native = normalizeRunResult (rse_conv E) native in
       \<lparr>lrr_startedUTC = rur_StartedUTC native, lrr_completedUTC = rur_CompletedUTC native,
        lrr_durationMS = rur_DurationMS native, lrr_duration = rur_Duration native,
        lrr_allBytes = rur_AllBytes native, lrr_allRequestCount = rur_AllRequestCount native,
        lrr_allOKCount = rur_AllOKCount native, lrr_allFailCount = rur_AllFailCount native,
        lrr_failedThresholds = rur_FailedThresholds native, lrr_nodeType = rur_NodeType native,
        lrr_nodeInfo = newLoadStrikeNodeInfo (rur_nodeInfo native),
        lrr_testInfo = newLoadStrikeTestInfo (rur_testInfo native),
        lrr_thresholds = map newLoadStrikeThresholdResult (rur_Thresholds native),
        lrr_thresholdResults = map newLoadStrikeThresholdResult (rur_ThresholdResults native),
        lrr_metricStats = newLoadStrikeMetricStats (rse_conv E) (rur_metricStats native),
        lrr_metrics = map newLoadStrikeMetricValue (rur_Metrics native),
        lrr_scenarioStats = map (newLoadStrikeDetailedScenarioStats (rse_conv E)) (rur_scenarioStats native),
        lrr_stepStats = map newLoadStrikeDetailedStepStats (rur_stepStats native),
        lrr_scenarioDurationsMS = cloneInt64MapFromFloatMap (rse_conv E) (rur_ScenarioDurationsMS native),
        lrr_pluginsData = map newLoadStrikePluginData (rur_PluginsData native),
        lrr_disabledSinks = rur_DisabledSinks native,
        lrr_sinkErrors = map newLoadStrikeSinkError (rur_SinkErrors native),
        lrr_reportFiles = rur_ReportFiles native, lrr_logFiles = rur_LogFiles native,
        lrr_policyErrors = map newLoadStrikeRuntimePolicyError (rur_PolicyErrors native),
        lrr_generatorWarnings = rur_GeneratorWarnings native,
        lrr_observationDeliveryStats = rur_ObservationDeliveryStats native,
        lrr_reportingComplete = rur_ReportingComplete native,
        lrr_correlationRows = newPublicCorrelationRows (rur_CorrelationRows native),
        lrr_failedCorrelationRows = newPublicCorrelationRows (rur_FailedCorrelationRows native),
        lrr_reportTrace = rur_reportTrace native\<rparr>)"

definition run_native :: "result_env \<Rightarrow> LoadStrikeRunResult \<Rightarrow> runResult" where
  "run_native E r =
     \<lparr>rur_StartedUTC = lrr_startedUTC r, rur_CompletedUTC = lrr_completedUTC r,
      rur_DurationMS = lrr_durationMS r, rur_Duration = lrr_duration r,
      rur_AllBytes = lrr_allBytes r, rur_AllRequestCount = lrr_allRequestCount r,
      rur_AllOKCount = lrr_allOKCount r, rur_AllFailCount = lrr_allFailCount r,
      rur_FailedThresholds = lrr_failedThresholds r, rur_NodeType = lrr_nodeType r,
      rur_nodeInfo = nodeInfo_toNative (lrr_nodeInfo r),
      rur_testInfo = testInfo_toNative (lrr_testInfo r),
      rur_Thresholds = map thresholdResult_toNative (lrr_thresholds r),
      rur_ThresholdResults = map thresholdResult_toNative (lrr_thresholdResults r),
      rur_metricStats = metricStats_toNative (lrr_metricStats r),
      rur_Metrics = map metricValue_toNative (lrr_metrics r),
      rur_scenarioStats = map (detailedScenarioStats_toNative (rse_conv E)) (lrr_scenarioStats r),
      rur_stepStats = map detailedStepStats_toNative (lrr_stepStats r),
      rur_ScenarioDurationsMS = cloneFloatMapFromInt64Map (lrr_scenarioDurationsMS r),
      rur_PluginsData = map pluginData_toNative (lrr_pluginsData r),
      rur_DisabledSinks = lrr_disabledSinks r,
      rur_SinkErrors = map sinkError_toNative (lrr_sinkErrors r),
      rur_ReportFiles = lrr_reportFiles r, rur_LogFiles = lrr_logFiles r,
      rur_PolicyErrors = map runtimePolicyError_toNative (lrr_policyErrors r),
      rur_GeneratorWarnings = lrr_generatorWarnings r,
      rur_ObservationDeliveryStats = lrr_observationDeliveryStats r,
      rur_ReportingComplete = lrr_reportingComplete r,
      rur_CorrelationRows = toNativeCorrelationRows E (lrr_correlationRows r),
      rur_FailedCorrelationRows = toNativeCorrelationRows E (lrr_failedCorrelationRows r),
      rur_reportTrace = lrr_reportTrace r\<rparr>"

definition runResult_toNative :: "result_env \<Rightarrow> LoadStrikeRunResult \<Rightarrow> runResult" where
  "runResult_toNative E r = normalizeRunResult (rse_conv E) (run_native E r)"

definition runResult_FindScenarioStats ::
  "(float64 \<Rightarrow> int) \<Rightarrow> runResult \<Rightarrow> string \<Rightarrow> (scenarioStats option \<times> runResult) res" where
  "runResult_FindScenarioStats conv r scenarioName =
     (case validateScenarioStatsLookupName scenarioName of
        Inl e \<Rightarrow> Inl e
      | Inr _ \<Rightarrow>
          (case update_first (\<lambda>s. sst_ScenarioName s = scenarioName) (normalizeScenarioStats conv)
                  (rur_scenarioStats r) of
             (found, scenarios) \<Rightarrow> Inr (found, r\<lparr>rur_scenarioStats := scenarios\<rparr>)))"

definition scenario_missing :: "string \<Rightarrow> string" where
  "scenario_missing scenarioName =
     ''Scenario '' @ [CHR 0x27] @ scenarioName @ [CHR 0x27] @ '' was not found.''"

definition runResult_GetScenarioStats ::
  "(float64 \<Rightarrow> int) \<Rightarrow> runResult \<Rightarrow> string \<Rightarrow> (scenarioStats \<times> runResult) res" where
  "runResult_GetScenarioStats conv r scenarioName =
     (case runResult_FindScenarioStats conv r scenarioName of
        Inl e \<Rightarrow> Inl e
      | Inr (Some s, r') \<Rightarrow> Inr (s, r')
      | Inr (None, r') \<Rightarrow> Inl (scenario_missing scenarioName))"

definition public_FindScenarioStats ::
  "LoadStrikeRunResult \<Rightarrow> string \<Rightarrow> LoadStrikeDetailedScenarioStats option res" where
  "public_FindScenarioStats r scenarioName =
     (case validateScenarioStatsLookupName scenarioName of
        Inl e \<Rightarrow> Inl e
      | Inr _ \<Rightarrow> Inr (List.find (\<lambda>s. dss_scenarioName s = scenarioName) (lrr_scenarioStats r)))"

definition public_GetScenarioStats ::
  "LoadStrikeRunResult \<Rightarrow> string \<Rightarrow> LoadStrikeDetailedScenarioStats res" where
  "public_GetScenarioStats r scenarioName =
     (case public_FindScenarioStats r scenarioName of
        Inl e \<Rightarrow> Inl e
      | Inr (Some s) \<Rightarrow> Inr s
      | Inr None \<Rightarrow> Inl (scenario_missing scenarioName))"

section \<open>The statistics of a node\<close>

record nodeStats =
  nst_AllBytes :: int
  nst_AllRequestCount :: int
  nst_AllOKCount :: int
  nst_AllFailCount :: int
  nst_DurationMS :: float64
  nst_Duration :: int
  nst_Metrics :: metricStats
  nst_nodeInfo :: nodeInfo
  nst_testInfo :: testInfo
  nst_PluginsData :: "pluginData list"
  nst_scenarioStats :: "scenarioStats list"
  nst_Scenarios :: "scenarioStats list"
  nst_Thresholds :: "thresholdResult list"

text \<open>
  The list \<open>Scenarios\<close> is an older name of \<open>scenarioStats\<close>: the one that is empty is filled from the
  other, and after the scenarios are normalised both are the same list.
\<close>

definition normalizeNodeStats :: "(float64 \<Rightarrow> int) \<Rightarrow> nodeStats \<Rightarrow> nodeStats" where
  "normalizeNodeStats conv stats =
     (let stats = stats\<lparr>nst_Duration := fill_duration conv (nst_Duration stats) (nst_DurationMS stats)\<rparr>;
          stats = (if length (nst_scenarioStats stats) = 0 \<and> length (nst_Scenarios stats) > 0
                   then stats\<lparr>nst_scenarioStats := nst_Scenarios stats\<rparr> else stats);
          stats = (if length (nst_Scenarios stats) = 0 \<and> length (nst_scenarioStats stats) > 0
                   then stats\<lparr>nst_Scenarios := nst_scenarioStats stats\<rparr> else stats);
          stats = stats\<lparr>nst_testInfo := normalizeTestInfo (nst_testInfo stats)\<rparr>;
          stats = stats\<lparr>nst_scenarioStats := map (normalizeScenarioStats conv) (nst_scenarioStats stats)\<rparr>;
          stats = (if length (nst_scenarioStats stats) > 0
                   then stats\<lparr>nst_Scenarios := nst_scenarioStats stats\<rparr> else stats)
      in stats\<lparr>nst_Metrics := normalizeMetricStats conv (nst_Metrics stats)\<rparr>)"

definition node_scenarios :: "nodeStats \<Rightarrow> scenarioStats list" where
  "node_scenarios n = (if nst_scenarioStats n = [] then nst_Scenarios n else nst_scenarioStats n)"

lemma node_steps:
  "(if length (nst_scenarioStats n) = 0 \<and> length (nst_Scenarios n) > 0
    then n\<lparr>nst_scenarioStats := nst_Scenarios n\<rparr> else n) = n\<lparr>nst_scenarioStats := node_scenarios n\<rparr>"
  "(if length (nst_Scenarios n) = 0 \<and> length (nst_scenarioStats n) > 0
    then n\<lparr>nst_Scenarios := nst_scenarioStats n\<rparr> else n) =
     n\<lparr>nst_Scenarios := if nst_Scenarios n = [] then nst_scenarioStats n else nst_Scenarios n\<rparr>"
  "(if length (nst_scenarioStats n) > 0 then n\<lparr>nst_Scenarios := nst_scenarioStats n\<rparr> else n) =
     n\<lparr>nst_Scenarios := if nst_scenarioStats n = [] then nst_Scenarios n else nst_scenarioStats n\<rparr>"
  by (cases n; simp add: node_scenarios_def; fail)+

lemma normalizeNodeStats_fields:
  "normalizeNodeStats conv n =
     n\<lparr>nst_Duration := fill_duration conv (nst_Duration n) (nst_DurationMS n),
       nst_testInfo := normalizeTestInfo (nst_testInfo n),
       nst_scenarioStats := map (normalizeScenarioStats conv) (node_scenarios n),
       nst_Scenarios := map (normalizeScenarioStats conv) (node_scenarios n),
       nst_Metrics := normalizeMetricStats conv (nst_Metrics n)\<rparr>"
  unfolding normalizeNodeStats_def node_steps Let_def by (cases n) (auto simp: node_scenarios_def)

lemma normalizeNodeStats_again [simp]:
  "normalizeNodeStats conv (normalizeNodeStats conv n) = normalizeNodeStats conv n"
  by (simp add: normalizeNodeStats_fields node_scenarios_def o_def)

definition normalizedNodeScenarioStats :: "(float64 \<Rightarrow> int) \<Rightarrow> nodeStats \<Rightarrow> scenarioStats list" where
  "normalizedNodeScenarioStats conv stats = nst_scenarioStats (normalizeNodeStats conv stats)"

definition realtime_scenario :: "scenarioStats \<Rightarrow> scenarioStats" where
  "realtime_scenario s =
     s\<lparr>sst_lookupFlavor := statsLookupFlavorRealtime,
       sst_stepStats := map (\<lambda>step. step\<lparr>st_lookupFlavor := statsLookupFlavorRealtime\<rparr>) (sst_stepStats s)\<rparr>"

definition nodeStats_FindScenarioStats ::
  "(float64 \<Rightarrow> int) \<Rightarrow> nodeStats \<Rightarrow> string \<Rightarrow> scenarioStats option" where
  "nodeStats_FindScenarioStats conv n scenarioName =
     map_option (\<lambda>s. normalizeScenarioStats conv (realtime_scenario s))
       (List.find (\<lambda>s. sst_ScenarioName s = scenarioName) (normalizedNodeScenarioStats conv n))"

definition nodeStats_GetScenarioStats :: "(float64 \<Rightarrow> int) \<Rightarrow> nodeStats \<Rightarrow> string \<Rightarrow> scenarioStats res" where
  "nodeStats_GetScenarioStats conv n scenarioName =
     (case nodeStats_FindScenarioStats conv n scenarioName of
        Some s \<Rightarrow> Inr s
      | None \<Rightarrow> Inl (''Scenario stats not found: '' @ scenarioName @ ''.''))"

record loadStrikeNodeStats =
  lns_AllBytes :: int
  lns_AllFailCount :: int
  lns_AllOKCount :: int
  lns_AllRequestCount :: int
  lns_Duration :: int
  lns_Metrics :: LoadStrikeMetricStats
  lns_nodeInfo :: LoadStrikeNodeInfo
  lns_PluginsData :: "LoadStrikePluginData list"
  lns_scenarioStats :: "LoadStrikeScenarioStats list"
  lns_testInfo :: LoadStrikeTestInfo
  lns_Thresholds :: "LoadStrikeThresholdResult list"

definition newLoadStrikeNodeStats :: "(float64 \<Rightarrow> int) \<Rightarrow> nodeStats \<Rightarrow> loadStrikeNodeStats" where
  "newLoadStrikeNodeStats conv native =
     (let native = normalizeNodeStats conv native in
       \<lparr>lns_AllBytes = nst_AllBytes native, lns_AllFailCount = nst_AllFailCount native,
        lns_AllOKCount = nst_AllOKCount native, lns_AllRequestCount = nst_AllRequestCount native,
        lns_Duration = nst_Duration native,
        lns_Metrics = newLoadStrikeMetricStats conv (nst_Metrics native),
        lns_nodeInfo = newLoadStrikeNodeInfo (nst_nodeInfo native),
        lns_PluginsData = map newLoadStrikePluginData (nst_PluginsData native),
        lns_scenarioStats = map (newLoadStrikeScenarioStats conv) (nst_scenarioStats native),
        lns_testInfo = newLoadStrikeTestInfo (nst_testInfo native),
        lns_Thresholds = map newLoadStrikeThresholdResult (nst_Thresholds native)\<rparr>)"

definition node_native :: "loadStrikeNodeStats \<Rightarrow> nodeStats" where
  "node_native n =
     \<lparr>nst_AllBytes = lns_AllBytes n, nst_AllRequestCount = lns_AllRequestCount n,
      nst_AllOKCount = lns_AllOKCount n, nst_AllFailCount = lns_AllFailCount n,
      nst_DurationMS = ms_of_duration (lns_Duration n), nst_Duration = lns_Duration n,
      nst_Metrics = metricStats_toNative (lns_Metrics n),
      nst_nodeInfo = nodeInfo_toNative (lns_nodeInfo n),
      nst_testInfo = testInfo_toNative (lns_testInfo n),
      nst_PluginsData = map pluginData_toNative (lns_PluginsData n),
      nst_scenarioStats = map scenarioStats_toNative (lns_scenarioStats n), nst_Scenarios = [],
      nst_Thresholds = map thresholdResult_toNative (lns_Thresholds n)\<rparr>"

definition nodeStats_toNative :: "(float64 \<Rightarrow> int) \<Rightarrow> loadStrikeNodeStats \<Rightarrow> nodeStats" where
  "nodeStats_toNative conv n = normalizeNodeStats conv (node_native n)"

definition public_node_FindScenarioStats ::
  "loadStrikeNodeStats \<Rightarrow> string \<Rightarrow> LoadStrikeScenarioStats option" where
  "public_node_FindScenarioStats n scenarioName =
     List.find (\<lambda>s. lsn_ScenarioName s = scenarioName) (lns_scenarioStats n)"

definition public_node_GetScenarioStats :: "loadStrikeNodeStats \<Rightarrow> string \<Rightarrow> LoadStrikeScenarioStats res" where
  "public_node_GetScenarioStats n scenarioName =
     (case public_node_FindScenarioStats n scenarioName of
        Some s \<Rightarrow> Inr s
      | None \<Rightarrow> Inl (''scenario stats not found: '' @ scenarioName @ ''.''))"

definition toLoadStrikeScenarioStats ::
  "(float64 \<Rightarrow> int) \<Rightarrow> scenarioStats list \<Rightarrow> LoadStrikeScenarioStats list" where
  "toLoadStrikeScenarioStats conv items =
     (if length items = 0 then [] else map (newLoadStrikeScenarioStats conv) items)"

section \<open>Views survive the way back\<close>

lemma node_native_normal [simp]:
  "normalizeNodeStats conv (node_native n) = (node_native n)\<lparr>nst_Scenarios := nst_scenarioStats (node_native n)\<rparr>"
proof -
  have "map (normalizeScenarioStats conv) (node_scenarios (node_native n)) = nst_scenarioStats (node_native n)"
    by (simp add: node_scenarios_def node_native_def o_def)
  moreover have "normalizeTestInfo (testInfo_toNative i) = testInfo_toNative i" for i
    by (simp add: testInfo_toNative_def)
  ultimately show ?thesis
    by (simp add: normalizeNodeStats_fields) (simp add: node_native_def)
qed

interpretation lns_w: wrapper "newLoadStrikeNodeStats conv" "nodeStats_toNative conv" for conv
proof unfold_locales
  fix p
  have "newLoadStrikeNodeStats conv (nodeStats_toNative conv p) = newLoadStrikeNodeStats conv (node_native p)"
    by (simp add: newLoadStrikeNodeStats_def nodeStats_toNative_def normalizeNodeStats_fields node_scenarios_def)
  also have "\<dots> = p"
    by (simp add: newLoadStrikeNodeStats_def) (simp add: node_native_def Let_def)
  finally show "newLoadStrikeNodeStats conv (nodeStats_toNative conv p) = p" .
qed

definition public_normal :: "result_env \<Rightarrow> LoadStrikeRunResult \<Rightarrow> bool" where
  "public_normal E p \<longleftrightarrow>
     fill_duration (rse_conv E) (lrr_duration p) (lrr_durationMS p) = lrr_duration p \<and>
     list_all (detailed_normal (rse_conv E)) (lrr_scenarioStats p) \<and>
     list_all (\<lambda>(key, n). duration_exact n) (lrr_scenarioDurationsMS p) \<and>
     newPublicCorrelationRows (toNativeCorrelationRows E (lrr_correlationRows p)) = lrr_correlationRows p \<and>
     newPublicCorrelationRows (toNativeCorrelationRows E (lrr_failedCorrelationRows p)) =
       lrr_failedCorrelationRows p"

lemma scenarios_read_back:
  "list_all (detailed_normal conv) ps \<Longrightarrow>
     map (newLoadStrikeDetailedScenarioStats conv \<circ> detailedScenarioStats_toNative conv) ps = ps"
  by (auto simp: list_all_iff detailed_wrap_unwrap intro!: map_idI)

lemma newLoadStrikeRunResult_normalize [simp]:
  "newLoadStrikeRunResult E (normalizeRunResult (rse_conv E) r) = newLoadStrikeRunResult E r"
  by (simp add: newLoadStrikeRunResult_def)

lemma run_wrap_unwrap:
  assumes "public_normal E p"
  shows "newLoadStrikeRunResult E (runResult_toNative E p) = p"
proof -
  have n: "normalizeRunResult (rse_conv E) (run_native E p) = run_native E p"
    using assms by (simp add: normalizeRunResult_def public_normal_def) (simp add: run_native_def testInfo_toNative_def)
  show ?thesis
    using assms unfolding runResult_toNative_def newLoadStrikeRunResult_normalize
    by (simp add: newLoadStrikeRunResult_def n Let_def)
      (simp add: run_native_def public_normal_def scenarios_read_back durations_read_back)
qed

lemma public_normal_wrap:
  assumes "list_all (\<lambda>(key, value). duration_exact (whole_ms (rse_conv E) value)) (rur_ScenarioDurationsMS r)"
  shows "public_normal E (newLoadStrikeRunResult E r)"
proof -
  let ?n = "normalizeRunResult (rse_conv E) r"
  have "list_all (\<lambda>(key, n). duration_exact n)
      (cloneInt64MapFromFloatMap (rse_conv E) (rur_ScenarioDurationsMS ?n))"
    using assms by (auto simp: cloneInt64MapFromFloatMap_def normalizeRunResult_def list_all_iff)
  then show ?thesis
    by (simp add: public_normal_def newLoadStrikeRunResult_def Let_def list_all_iff detailed_normal_wrap)
      (simp add: normalizeRunResult_def)
qed

definition sample_env :: result_env where
  "sample_env = \<lparr>rse_conv = \<lambda>_. 0, rse_stringer = \<lambda>_. None,
     rse_fmt = \<lparr>fmt_sprint = \<lambda>_. [], fmt_sscan = \<lambda>_. None, fmt_type = \<lambda>_. [], fmt_number = \<lambda>_. Fin 0\<rparr>\<rparr>"

definition sample_result :: runResult where
  "sample_result =
     zero_runResult\<lparr>rur_StartedUTC := 5, rur_CompletedUTC := 9, rur_DurationMS := Fin 4,
       rur_AllRequestCount := 3, rur_AllOKCount := 2, rur_AllFailCount := 1,
       rur_ScenarioDurationsMS := [(''orders'', Fin (3 / 2))], rur_DisabledSinks := [''sink''],
       rur_ReportingComplete := True\<rparr>"

lemma whole_ms_sample: "whole_ms conv (Fin (3 / 2)) = 2"
  using round64_exact [of 2 0] by (simp add: whole_ms_def f64_to_int_def Float64.truncate_def int_range_def)

text \<open>
  C23: The public result of a run keeps everything it shows on the way to a native result and back,
  if every duration of a scenario, rounded to whole milliseconds, is not negative and below 2 to
  the 52.
\<close>

theorem public_result_survives:
  assumes "\<forall>(key, value) \<in> set (rur_ScenarioDurationsMS r). duration_exact (whole_ms (rse_conv E) value)"
  shows "newLoadStrikeRunResult E (runResult_toNative E (newLoadStrikeRunResult E r)) = newLoadStrikeRunResult E r"
  by (rule run_wrap_unwrap, rule public_normal_wrap) (use assms in \<open>simp add: list_all_iff\<close>)

lemma public_result_survives_witness:
  "lrr_scenarioDurationsMS (newLoadStrikeRunResult sample_env sample_result) = [(''orders'', 2)] \<and>
   newLoadStrikeRunResult sample_env (runResult_toNative sample_env (newLoadStrikeRunResult sample_env sample_result)) =
     newLoadStrikeRunResult sample_env sample_result"
  using public_result_survives [of sample_result sample_env]
  by (simp add: sample_result_def zero_runResult_def whole_ms_sample duration_exact_def)
    (simp add: newLoadStrikeRunResult_def normalizeRunResult_def cloneInt64MapFromFloatMap_def whole_ms_sample Let_def)

section \<open>Lookups\<close>

lemma lrr_scenarioStats_wrap:
  "lrr_scenarioStats (newLoadStrikeRunResult E r) =
     map (newLoadStrikeDetailedScenarioStats (rse_conv E)) (rur_scenarioStats r)"
  by (simp add: newLoadStrikeRunResult_def normalizeRunResult_def Let_def)

lemma newDetailed_normalize [simp]:
  "newLoadStrikeDetailedScenarioStats conv (normalizeScenarioStats conv s) = newLoadStrikeDetailedScenarioStats conv s"
  by (simp add: newLoadStrikeDetailedScenarioStats_def)

lemma public_find_scenario:
  "public_FindScenarioStats (newLoadStrikeRunResult E r) name =
     map_sum id (\<lambda>x. map_option (newLoadStrikeDetailedScenarioStats (rse_conv E)) (fst x))
       (runResult_FindScenarioStats (rse_conv E) r name)"
  using update_first_find [of "\<lambda>s. sst_ScenarioName s = name" "normalizeScenarioStats (rse_conv E)" "rur_scenarioStats r"]
  by (auto simp: public_FindScenarioStats_def runResult_FindScenarioStats_def lrr_scenarioStats_wrap find_map
      option.map_comp o_def split: sum.splits prod.splits)

definition native_step :: "result_env \<Rightarrow> runResult \<Rightarrow> string \<Rightarrow> string \<Rightarrow> stepStats res" where
  "native_step E r scenarioName stepName =
     (case runResult_GetScenarioStats (rse_conv E) r scenarioName of
        Inl e \<Rightarrow> Inl e
      | Inr (s, _) \<Rightarrow> map_sum id fst (scenarioStats_GetStepStats s stepName))"

definition public_step :: "LoadStrikeRunResult \<Rightarrow> string \<Rightarrow> string \<Rightarrow> LoadStrikeDetailedStepStats res" where
  "public_step p scenarioName stepName =
     (case public_GetScenarioStats p scenarioName of
        Inl e \<Rightarrow> Inl e
      | Inr s \<Rightarrow> detailedScenarioStats_GetStepStats s stepName)"

lemma public_get_scenario:
  "public_GetScenarioStats (newLoadStrikeRunResult E r) name =
     map_sum id (\<lambda>x. newLoadStrikeDetailedScenarioStats (rse_conv E) (fst x))
       (runResult_GetScenarioStats (rse_conv E) r name)"
  by (auto simp: public_GetScenarioStats_def runResult_GetScenarioStats_def public_find_scenario
      split: sum.splits prod.splits option.splits)

text \<open>
  C24: Looking up a scenario in the public result and then a step in what was found is looking both
  up in the native result, with the same panics; what the native lookup writes into the result
  changes no later lookup.
\<close>

theorem public_lookups_agree:
  "public_step (newLoadStrikeRunResult E r) scenarioName stepName =
     map_sum id newLoadStrikeDetailedStepStats (native_step E r scenarioName stepName)"
  by (auto simp: public_step_def native_step_def public_get_scenario detailed_get_step
      sum.map_comp comp_def id_def split: sum.splits prod.splits)

end
