(* ===== verification/Result_Json.thy ===== *)
theory Result_Json
  imports Run_Results
begin

text \<open>
  Results and statistics as JSON (\<open>results.go\<close>, \<open>public_detailed_results.go\<close>): what the methods
  \<open>MarshalJSON\<close> hand to \<open>encoding/json\<close> and what the methods \<open>UnmarshalJSON\<close> make of what it has
  decoded. A payload is the local struct of such a method; the text itself, with the members that
  \<open>omitempty\<close> leaves out, is the library's. A nested value goes through its own methods, as the
  library calls them. A member the payload does not have, or whose tag is \<open>json:"-"\<close>, is zero after
  decoding: the flavour of a lookup, the second spelling of the identifiers of a test, the trace.
\<close>

section \<open>Scenarios\<close>

definition decoded_step :: "stepStats \<Rightarrow> stepStats" where
  "decoded_step s = s\<lparr>st_lookupFlavor := statsLookupFlavorDetailed\<rparr>"

definition decoded_testInfo :: "testInfo \<Rightarrow> testInfo" where
  "decoded_testInfo info = info\<lparr>test_SessionId := [], test_ClusterId := []\<rparr>"

record scenarioStatsPayload =
  ssp_ScenarioName :: string
  ssp_AllMeasurement :: "measurementStats option"
  ssp_AllBytes :: int
  ssp_AllRequestCount :: int
  ssp_AllOKCount :: int
  ssp_AllFailCount :: int
  ssp_TotalBytes :: int
  ssp_TotalLatencyMS :: float64
  ssp_AvgLatencyMS :: float64
  ssp_MinLatencyMS :: float64
  ssp_MaxLatencyMS :: float64
  ssp_StatusCodes :: "(string \<times> int) list"
  ssp_CurrentOperation :: string
  ssp_CurrentOperationType :: int
  ssp_DurationMS :: float64
  ssp_Duration :: int
  ssp_Ok :: measurementStats
  ssp_Fail :: measurementStats
  ssp_LoadSimulationStats :: loadSimulationStats
  ssp_SortIndex :: int
  ssp_StepStats :: "stepStats list"

definition scenarioStats_payload :: "(float64 \<Rightarrow> int) \<Rightarrow> scenarioStats \<Rightarrow> scenarioStatsPayload" where
  "scenarioStats_payload conv s =
     (let normalized = normalizeScenarioStats conv s in
       \<lparr>ssp_ScenarioName = sst_ScenarioName normalized,
        ssp_AllMeasurement = sst_AllMeasurement normalized, ssp_AllBytes = sst_AllBytes normalized,
        ssp_AllRequestCount = sst_AllRequestCount normalized,
        ssp_AllOKCount = sst_AllOKCount normalized, ssp_AllFailCount = sst_AllFailCount normalized,
        ssp_TotalBytes = sst_TotalBytes normalized,
        ssp_TotalLatencyMS = sst_TotalLatencyMS normalized,
        ssp_AvgLatencyMS = sst_AvgLatencyMS normalized,
        ssp_MinLatencyMS = sst_MinLatencyMS normalized,
        ssp_MaxLatencyMS = sst_MaxLatencyMS normalized,
        ssp_StatusCodes = cloneStatusCodeCounts (sst_StatusCodes normalized),
        ssp_CurrentOperation = sst_CurrentOperation normalized,
        ssp_CurrentOperationType = sst_CurrentOperationType normalized,
        ssp_DurationMS = sst_DurationMS normalized, ssp_Duration = sst_Duration normalized,
        ssp_Ok = sst_Ok normalized, ssp_Fail = sst_Fail normalized,
        ssp_LoadSimulationStats = sst_LoadSimulationStats normalized,
        ssp_SortIndex = sst_SortIndex normalized, ssp_StepStats = sst_stepStats normalized\<rparr>)"

definition scenarioStats_decoded :: "(float64 \<Rightarrow> int) \<Rightarrow> scenarioStatsPayload \<Rightarrow> scenarioStats" where
  "scenarioStats_decoded conv decoded =
     normalizeScenarioStats conv (
       \<lparr>sst_ScenarioName = ssp_ScenarioName decoded,
        sst_AllMeasurement = ssp_AllMeasurement decoded, sst_AllBytes = ssp_AllBytes decoded,
        sst_AllRequestCount = ssp_AllRequestCount decoded, sst_AllOKCount = ssp_AllOKCount decoded,
        sst_AllFailCount = ssp_AllFailCount decoded, sst_TotalBytes = ssp_TotalBytes decoded,
        sst_TotalLatencyMS = ssp_TotalLatencyMS decoded, sst_AvgLatencyMS = ssp_AvgLatencyMS decoded,
        sst_MinLatencyMS = ssp_MinLatencyMS decoded, sst_MaxLatencyMS = ssp_MaxLatencyMS decoded,
        sst_StatusCodes = cloneStatusCodeCounts (ssp_StatusCodes decoded),
        sst_CurrentOperation = ssp_CurrentOperation decoded,
        sst_CurrentOperationType = ssp_CurrentOperationType decoded,
        sst_DurationMS = ssp_DurationMS decoded, sst_Duration = ssp_Duration decoded,
        sst_Ok = ssp_Ok decoded, sst_Fail = ssp_Fail decoded,
        sst_LoadSimulationStats = ssp_LoadSimulationStats decoded,
        sst_SortIndex = ssp_SortIndex decoded,
        sst_stepStats = map decoded_step (ssp_StepStats decoded),
        sst_lookupFlavor = statsLookupFlavorDetailed\<rparr>)"

section \<open>The result of a run\<close>

text \<open>
  The times are written as times and read as raw JSON; \<open>ReportingComplete\<close> is read as a pointer, so
  that an older document without it counts as complete.
\<close>

record ('t, 'b) runResultPayload =
  rrp_StartedUTC :: 't
  rrp_CompletedUTC :: 't
  rrp_DurationMS :: float64
  rrp_Duration :: int
  rrp_AllBytes :: int
  rrp_AllRequestCount :: int
  rrp_AllOKCount :: int
  rrp_AllFailCount :: int
  rrp_FailedThresholds :: int
  rrp_NodeType :: NodeType
  rrp_NodeInfo :: nodeInfo
  rrp_TestInfo :: testInfo
  rrp_Thresholds :: "thresholdResult list"
  rrp_ThresholdResults :: "thresholdResult list"
  rrp_MetricStats :: metricStats
  rrp_Metrics :: "metricResult list"
  rrp_ScenarioStats :: "scenarioStatsPayload list"
  rrp_StepStats :: "stepStats list"
  rrp_ScenarioDurationsMS :: "(string \<times> float64) list"
  rrp_PluginsData :: "pluginData list"
  rrp_DisabledSinks :: "string list"
  rrp_SinkErrors :: "sinkErrorResult list"
  rrp_ReportFiles :: "string list"
  rrp_LogFiles :: "string list"
  rrp_PolicyErrors :: "RuntimePolicyError list"
  rrp_GeneratorWarnings :: "LoadStrikeGeneratorWarning list"
  rrp_ObservationDeliveryStats :: LoadStrikeObservationDeliveryStats
  rrp_ReportingComplete :: 'b
  rrp_CorrelationRows :: "correlationRow list"
  rrp_FailedCorrelationRows :: "correlationRow list"

definition runResult_payload ::
  "(float64 \<Rightarrow> int) \<Rightarrow> runResult \<Rightarrow> (int, bool) runResultPayload" where
  "runResult_payload conv r =
     (let normalized = normalizeRunResult conv r in
       \<lparr>rrp_StartedUTC = rur_StartedUTC normalized, rrp_CompletedUTC = rur_CompletedUTC normalized,
        rrp_DurationMS = rur_DurationMS normalized, rrp_Duration = rur_Duration normalized,
        rrp_AllBytes = rur_AllBytes normalized, rrp_AllRequestCount = rur_AllRequestCount normalized,
        rrp_AllOKCount = rur_AllOKCount normalized, rrp_AllFailCount = rur_AllFailCount normalized,
        rrp_FailedThresholds = rur_FailedThresholds normalized,
        rrp_NodeType = rur_NodeType normalized, rrp_NodeInfo = rur_nodeInfo normalized,
        rrp_TestInfo = rur_testInfo normalized, rrp_Thresholds = rur_Thresholds normalized,
        rrp_ThresholdResults = rur_ThresholdResults normalized,
        rrp_MetricStats = rur_metricStats normalized, rrp_Metrics = rur_Metrics normalized,
        rrp_ScenarioStats = map (scenarioStats_payload conv) (rur_scenarioStats normalized),
        rrp_StepStats = rur_stepStats normalized,
        rrp_ScenarioDurationsMS = rur_ScenarioDurationsMS normalized,
        rrp_PluginsData = rur_PluginsData normalized,
        rrp_DisabledSinks = rur_DisabledSinks normalized, rrp_SinkErrors = rur_SinkErrors normalized,
        rrp_ReportFiles = rur_ReportFiles normalized, rrp_LogFiles = rur_LogFiles normalized,
        rrp_PolicyErrors = rur_PolicyErrors normalized,
        rrp_GeneratorWarnings = rur_GeneratorWarnings normalized,
        rrp_ObservationDeliveryStats = rur_ObservationDeliveryStats normalized,
        rrp_ReportingComplete = rur_ReportingComplete normalized,
        rrp_CorrelationRows = rur_CorrelationRows normalized,
        rrp_FailedCorrelationRows = rur_FailedCorrelationRows normalized\<rparr>)"

definition runResult_decoded ::
  "(float64 \<Rightarrow> int) \<Rightarrow> (string, bool option) runResultPayload \<Rightarrow> int \<Rightarrow> int \<Rightarrow> runResult" where
  "runResult_decoded conv decoded startedUTC completedUTC =
     normalizeRunResult conv (
       \<lparr>rur_StartedUTC = startedUTC, rur_CompletedUTC = completedUTC,
        rur_DurationMS = rrp_DurationMS decoded, rur_Duration = rrp_Duration decoded,
        rur_AllBytes = rrp_AllBytes decoded, rur_AllRequestCount = rrp_AllRequestCount decoded,
        rur_AllOKCount = rrp_AllOKCount decoded, rur_AllFailCount = rrp_AllFailCount decoded,
        rur_FailedThresholds = rrp_FailedThresholds decoded, rur_NodeType = rrp_NodeType decoded,
        rur_nodeInfo = rrp_NodeInfo decoded, rur_testInfo = decoded_testInfo (rrp_TestInfo decoded),
        rur_Thresholds = rrp_Thresholds decoded, rur_ThresholdResults = rrp_ThresholdResults decoded,
        rur_metricStats = rrp_MetricStats decoded, rur_Metrics = rrp_Metrics decoded,
        rur_scenarioStats = map (scenarioStats_decoded conv) (rrp_ScenarioStats decoded),
        rur_stepStats = map decoded_step (rrp_StepStats decoded),
        rur_ScenarioDurationsMS = rrp_ScenarioDurationsMS decoded,
        rur_PluginsData = rrp_PluginsData decoded, rur_DisabledSinks = rrp_DisabledSinks decoded,
        rur_SinkErrors = rrp_SinkErrors decoded, rur_ReportFiles = rrp_ReportFiles decoded,
        rur_LogFiles = rrp_LogFiles decoded, rur_PolicyErrors = rrp_PolicyErrors decoded,
        rur_GeneratorWarnings = rrp_GeneratorWarnings decoded,
        rur_ObservationDeliveryStats = rrp_ObservationDeliveryStats decoded,
        rur_ReportingComplete = (case rrp_ReportingComplete decoded of None \<Rightarrow> True | Some b \<Rightarrow> b),
        rur_CorrelationRows = rrp_CorrelationRows decoded,
        rur_FailedCorrelationRows = rrp_FailedCorrelationRows decoded, rur_reportTrace = None\<rparr>)"

text \<open>
  \<open>js_unquote\<close> is \<open>json.Unmarshal\<close> into a string and \<open>js_parse_time\<close> is
  \<open>time.Parse(time.RFC3339Nano, \<dots>)\<close>; 0 is the zero time.
\<close>

record result_json =
  js_unquote :: "string \<Rightarrow> string res"
  js_parse_time :: "string \<Rightarrow> int res"

definition decodeRunResultTimestamp :: "result_json \<Rightarrow> string \<Rightarrow> int res" where
  "decodeRunResultTimestamp J data =
     (if length data = 0 \<or> data = ''null'' then Inr 0
      else case js_unquote J data of
             Inl e \<Rightarrow> Inl e
           | Inr text \<Rightarrow> if text = [] then Inr 0 else js_parse_time J text)"

definition runResult_UnmarshalJSON ::
  "(string \<Rightarrow> (string, bool option) runResultPayload res) \<Rightarrow> result_json \<Rightarrow> (float64 \<Rightarrow> int) \<Rightarrow> string
     \<Rightarrow> runResult \<Rightarrow> go_error option \<times> runResult" where
  "runResult_UnmarshalJSON decode J conv data r =
     (case decode data of
        Inl e \<Rightarrow> (Some e, r)
      | Inr decoded \<Rightarrow>
          (case decodeRunResultTimestamp J (rrp_StartedUTC decoded) of
             Inl e \<Rightarrow> (Some (''decode StartedUtc: '' @ e), r)
           | Inr startedUTC \<Rightarrow>
               (case decodeRunResultTimestamp J (rrp_CompletedUTC decoded) of
                  Inl e \<Rightarrow> (Some (''decode CompletedUtc: '' @ e), r)
                | Inr completedUTC \<Rightarrow> (None, runResult_decoded conv decoded startedUTC completedUTC))))"

definition runResult_MarshalJSON ::
  "((int, bool) runResultPayload \<Rightarrow> string res) \<Rightarrow> (float64 \<Rightarrow> int) \<Rightarrow> runResult \<Rightarrow> string res" where
  "runResult_MarshalJSON encode conv r = encode (runResult_payload conv r)"

section \<open>The statistics of a node\<close>

text \<open>Documents have the list of scenarios under one of two names.\<close>

record nodeStatsPayload =
  nsp_AllBytes :: int
  nsp_AllRequestCount :: int
  nsp_AllOKCount :: int
  nsp_AllFailCount :: int
  nsp_DurationMS :: float64
  nsp_Duration :: int
  nsp_Metrics :: metricStats
  nsp_NodeInfo :: nodeInfo
  nsp_TestInfo :: testInfo
  nsp_PluginsData :: "pluginData list"
  nsp_ScenarioStats :: "scenarioStatsPayload list"
  nsp_Scenarios :: "scenarioStatsPayload list"
  nsp_Thresholds :: "thresholdResult list"

definition nodeStats_payload :: "(float64 \<Rightarrow> int) \<Rightarrow> nodeStats \<Rightarrow> nodeStatsPayload" where
  "nodeStats_payload conv n =
     (let normalized = normalizeNodeStats conv n in
       \<lparr>nsp_AllBytes = nst_AllBytes normalized,
        nsp_AllRequestCount = nst_AllRequestCount normalized,
        nsp_AllOKCount = nst_AllOKCount normalized, nsp_AllFailCount = nst_AllFailCount normalized,
        nsp_DurationMS = nst_DurationMS normalized, nsp_Duration = nst_Duration normalized,
        nsp_Metrics = nst_Metrics normalized, nsp_NodeInfo = nst_nodeInfo normalized,
        nsp_TestInfo = nst_testInfo normalized, nsp_PluginsData = nst_PluginsData normalized,
        nsp_ScenarioStats = map (scenarioStats_payload conv) (nst_scenarioStats normalized),
        nsp_Scenarios = [], nsp_Thresholds = nst_Thresholds normalized\<rparr>)"

definition nodeStats_decoded :: "(float64 \<Rightarrow> int) \<Rightarrow> nodeStatsPayload \<Rightarrow> nodeStats" where
  "nodeStats_decoded conv decoded =
     (let scenarios = map (scenarioStats_decoded conv)
            (if length (nsp_ScenarioStats decoded) = 0 then nsp_Scenarios decoded else nsp_ScenarioStats decoded) in
      normalizeNodeStats conv (
        \<lparr>nst_AllBytes = nsp_AllBytes decoded, nst_AllRequestCount = nsp_AllRequestCount decoded,
         nst_AllOKCount = nsp_AllOKCount decoded, nst_AllFailCount = nsp_AllFailCount decoded,
         nst_DurationMS = nsp_DurationMS decoded, nst_Duration = nsp_Duration decoded,
         nst_Metrics = nsp_Metrics decoded, nst_nodeInfo = nsp_NodeInfo decoded,
         nst_testInfo = decoded_testInfo (nsp_TestInfo decoded),
         nst_PluginsData = nsp_PluginsData decoded, nst_scenarioStats = scenarios,
         nst_Scenarios = scenarios, nst_Thresholds = nsp_Thresholds decoded\<rparr>))"

section \<open>The public result\<close>

text \<open>
  The public result is written as its native one, as a map of raw members: without \<open>Duration\<close> and
  \<open>NodeType\<close>, with null for a time that is not set and whole milliseconds for the scenarios.
\<close>

record raw_json =
  raw_decode :: "string \<Rightarrow> (string \<rightharpoonup> string) res"
  raw_durations :: "(string \<times> int) list \<Rightarrow> string res"
  raw_encode :: "(string \<rightharpoonup> string) \<Rightarrow> string res"

definition cloneInt64Map :: "(string \<times> int) list \<Rightarrow> (string \<times> int) list" where
  "cloneInt64Map source = (if length source = 0 then [] else map (\<lambda>(key, value). (key, value)) source)"

definition public_members ::
  "LoadStrikeRunResult \<Rightarrow> string \<Rightarrow> (string \<rightharpoonup> string) \<Rightarrow> (string \<rightharpoonup> string)" where
  "public_members r durations decoded =
     (let decoded = (if lrr_startedUTC r = 0 then decoded(''StartedUtc'' \<mapsto> ''null'') else decoded);
          decoded = (if lrr_completedUTC r = 0 then decoded(''CompletedUtc'' \<mapsto> ''null'') else decoded);
          decoded = decoded(''Duration'' := None, ''NodeType'' := None)
      in decoded(''ScenarioDurationsMs'' \<mapsto> durations))"

definition public_MarshalJSON ::
  "((int, bool) runResultPayload \<Rightarrow> string res) \<Rightarrow> raw_json \<Rightarrow> result_env \<Rightarrow> LoadStrikeRunResult \<Rightarrow> string res" where
  "public_MarshalJSON encode R E r =
     (case runResult_MarshalJSON encode (rse_conv E) (runResult_toNative E r) of
        Inl e \<Rightarrow> Inl e
      | Inr body \<Rightarrow>
          (case raw_decode R body of
             Inl e \<Rightarrow> Inl e
           | Inr decoded \<Rightarrow>
               (case raw_durations R (cloneInt64Map (lrr_scenarioDurationsMS r)) of
                  Inl e \<Rightarrow> Inl e
                | Inr durations \<Rightarrow> raw_encode R (public_members r durations decoded))))"

definition public_UnmarshalJSON ::
  "(string \<Rightarrow> (string, bool option) runResultPayload res) \<Rightarrow> result_json \<Rightarrow> result_env \<Rightarrow> string
     \<Rightarrow> runResult \<Rightarrow> LoadStrikeRunResult \<Rightarrow> go_error option \<times> LoadStrikeRunResult" where
  "public_UnmarshalJSON decode J E data zero r =
     (case runResult_UnmarshalJSON decode J (rse_conv E) data zero of
        (Some e, _) \<Rightarrow> (Some e, r)
      | (None, native) \<Rightarrow> (None, newLoadStrikeRunResult E native))"

section \<open>Facts\<close>

lemma decoded_testInfo_fields:
  "normalizeTestInfo (decoded_testInfo info) =
     info\<lparr>test_SessionID := filled (test_SessionID info) [], test_SessionId := filled (test_SessionID info) [],
          test_ClusterID := filled (test_ClusterID info) [], test_ClusterId := filled (test_ClusterID info) [],
          test_CreatedUTC := filled_time (test_CreatedUTC info) (test_Created info),
          test_Created := filled_time (test_Created info) (filled_time (test_CreatedUTC info) (test_Created info))\<rparr>"
  by (simp add: normalizeTestInfo_fields decoded_testInfo_def)

lemma scenarioStats_decoded_normal [simp]: "scenario_normal conv (scenarioStats_decoded conv p)"
  by (simp add: scenarioStats_decoded_def normalizeScenarioStats_normal)

lemma scenarioStats_decoded_flavor [simp]:
  "sst_lookupFlavor (scenarioStats_decoded conv p) = statsLookupFlavorDetailed"
  "list_all (\<lambda>s. st_lookupFlavor s = statsLookupFlavorDetailed) (sst_stepStats (scenarioStats_decoded conv p))"
  by (simp_all add: scenarioStats_decoded_def normalizeScenarioStats_def decoded_step_def list_all_iff)

text \<open>The order a result that was read is in.\<close>

definition result_normal :: "(float64 \<Rightarrow> int) \<Rightarrow> runResult \<Rightarrow> bool" where
  "result_normal conv r \<longleftrightarrow>
     fill_duration conv (rur_Duration r) (rur_DurationMS r) = rur_Duration r \<and>
     normalizeMetricStats conv (rur_metricStats r) = rur_metricStats r \<and>
     test_SessionId (rur_testInfo r) = test_SessionID (rur_testInfo r) \<and>
     test_ClusterId (rur_testInfo r) = test_ClusterID (rur_testInfo r) \<and>
     (test_Created (rur_testInfo r) = 0 \<longleftrightarrow> test_CreatedUTC (rur_testInfo r) = 0) \<and>
     list_all (\<lambda>s. scenario_normal conv s \<and> sst_lookupFlavor s = statsLookupFlavorDetailed \<and>
                   list_all (\<lambda>step. st_lookupFlavor step = statsLookupFlavorDetailed) (sst_stepStats s))
       (rur_scenarioStats r) \<and>
     list_all (\<lambda>step. st_lookupFlavor step = statsLookupFlavorDetailed) (rur_stepStats r) \<and>
     rur_reportTrace r = None"

lemma runResult_decoded_normal: "result_normal conv (runResult_decoded conv p t1 t2)"
  unfolding result_normal_def runResult_decoded_def normalizeRunResult_def
  by (auto simp: list_all_iff decoded_step_def decoded_testInfo_fields filled_time_def
      scenarioStats_decoded_flavor [unfolded list_all_iff])

lemma runResult_decoded_complete:
  "rur_ReportingComplete (runResult_decoded conv p t1 t2) \<longleftrightarrow> rrp_ReportingComplete p \<noteq> Some False"
  by (auto simp: runResult_decoded_def normalizeRunResult_def split: option.splits)

text \<open>
  C26: A result that is read from JSON is in order: its durations are filled in, both spellings of
  an identifier agree, every scenario has its operation type, nothing has the flavour of realtime
  lookups, and reporting counts as complete unless the document denies it. A document that is
  refused leaves the result as it was.
\<close>

theorem read_result_normal:
  "case runResult_UnmarshalJSON decode J conv data r of
     (Some e, r') \<Rightarrow> r' = r
   | (None, r') \<Rightarrow> result_normal conv r' \<and>
       (\<exists>decoded. decode data = Inr decoded \<and>
          (rur_ReportingComplete r' \<longleftrightarrow> rrp_ReportingComplete decoded \<noteq> Some False))"
  by (auto simp: runResult_UnmarshalJSON_def runResult_decoded_normal runResult_decoded_complete
      split: sum.splits)

section \<open>What JSON keeps\<close>

text \<open>
  A payload as it is decoded from its own text, where \<open>time_text\<close> is the JSON text of a time: all
  members but the times come back as they were.
\<close>

definition as_read ::
  "(int \<Rightarrow> string) \<Rightarrow> (int, bool) runResultPayload \<Rightarrow> (string, bool option) runResultPayload" where
  "as_read time_text p =
     \<lparr>rrp_StartedUTC = time_text (rrp_StartedUTC p), rrp_CompletedUTC = time_text (rrp_CompletedUTC p),
      rrp_DurationMS = rrp_DurationMS p, rrp_Duration = rrp_Duration p,
      rrp_AllBytes = rrp_AllBytes p, rrp_AllRequestCount = rrp_AllRequestCount p,
      rrp_AllOKCount = rrp_AllOKCount p, rrp_AllFailCount = rrp_AllFailCount p,
      rrp_FailedThresholds = rrp_FailedThresholds p, rrp_NodeType = rrp_NodeType p,
      rrp_NodeInfo = rrp_NodeInfo p, rrp_TestInfo = rrp_TestInfo p,
      rrp_Thresholds = rrp_Thresholds p, rrp_ThresholdResults = rrp_ThresholdResults p,
      rrp_MetricStats = rrp_MetricStats p, rrp_Metrics = rrp_Metrics p,
      rrp_ScenarioStats = rrp_ScenarioStats p, rrp_StepStats = rrp_StepStats p,
      rrp_ScenarioDurationsMS = rrp_ScenarioDurationsMS p, rrp_PluginsData = rrp_PluginsData p,
      rrp_DisabledSinks = rrp_DisabledSinks p, rrp_SinkErrors = rrp_SinkErrors p,
      rrp_ReportFiles = rrp_ReportFiles p, rrp_LogFiles = rrp_LogFiles p,
      rrp_PolicyErrors = rrp_PolicyErrors p, rrp_GeneratorWarnings = rrp_GeneratorWarnings p,
      rrp_ObservationDeliveryStats = rrp_ObservationDeliveryStats p,
      rrp_ReportingComplete = Some (rrp_ReportingComplete p),
      rrp_CorrelationRows = rrp_CorrelationRows p,
      rrp_FailedCorrelationRows = rrp_FailedCorrelationRows p\<rparr>"

definition json_view :: "(float64 \<Rightarrow> int) \<Rightarrow> runResult \<Rightarrow> runResult" where
  "json_view conv r =
     (let r = normalizeRunResult conv r in
      r\<lparr>rur_testInfo := normalizeTestInfo (decoded_testInfo (rur_testInfo r)),
        rur_scenarioStats := map (\<lambda>s. scenarioStats_decoded conv (scenarioStats_payload conv s)) (rur_scenarioStats r),
        rur_stepStats := map decoded_step (rur_stepStats r), rur_reportTrace := None\<rparr>)"

lemma scenario_json_view:
  "sst_lookupFlavor s = statsLookupFlavorDetailed \<Longrightarrow>
     list_all (\<lambda>step. st_lookupFlavor step = statsLookupFlavorDetailed) (sst_stepStats s) \<Longrightarrow>
     scenarioStats_decoded conv (scenarioStats_payload conv s) = normalizeScenarioStats conv s"
  by (cases s) (auto simp: scenarioStats_decoded_def scenarioStats_payload_def normalizeScenarioStats_def
    decoded_step_def list_all_iff Let_def intro!: map_idI)


definition sample_json :: result_json where
  "sample_json = \<lparr>js_unquote = \<lambda>s. Inr (butlast (tl s)), js_parse_time = \<lambda>s. Inr (int (length s))\<rparr>"

definition sample_time_text :: "int \<Rightarrow> string" where
  "sample_time_text t = CHR 0x22 # replicate (nat t) (CHR ''t'') @ [CHR 0x22]"


end
