(* ===== verification/Runtime_Launch.thy ===== *)
theory Runtime_Launch
  imports Runtime_Command Plan_Registrations Runtime_Config Result_Json
begin

text \<open>
  A run from its context to its result (\<open>context.go\<close>, \<open>runner.go\<close>, \<open>runtime_launcher.go\<close>,
  \<open>runtime_host_server.go\<close>): the checks, the two servers on the loopback interface, the plan, the
  verified copy of the engine, the child process and the result it leaves; and the same for the
  generation of a test by autopilot.

  The state of a run is the world of files, the registry, whether the two servers are up, the
  commands that were run and what was written to the terminal. Deferred calls run whatever happens,
  also on a panic. The callbacks that the child makes are those of \<open>Http_Host\<close>; here the child is the
  function \<open>le_child\<close>. JSON, the two listeners and random identifiers are parameters.
\<close>

section \<open>Effects of a run\<close>

record launch =
  l_world :: world
  l_registry :: runtimeCallbackRegistry
  l_grpc :: bool
  l_http :: bool
  l_commands :: "command list"
  l_stdout :: string
  l_stderr :: string

datatype run_error = RunFailed go_error | RunPanic string

type_synonym 'a run = "launch \<Rightarrow> (run_error + 'a) \<times> launch"

definition run_return :: "'a \<Rightarrow> 'a run" where
  "run_return x l = (Inr x, l)"

definition run_fail :: "run_error \<Rightarrow> 'a run" where
  "run_fail e l = (Inl e, l)"

definition run_bind :: "'a run \<Rightarrow> ('a \<Rightarrow> 'b run) \<Rightarrow> 'b run" where
  "run_bind m f l = (case m l of (Inl e, l') \<Rightarrow> (Inl e, l') | (Inr x, l') \<Rightarrow> f x l')"

definition run_defer :: "(launch \<Rightarrow> launch) \<Rightarrow> 'a run \<Rightarrow> 'a run" where
  "run_defer c m l = (case m l of (r, l') \<Rightarrow> (r, c l'))"

definition run_lift :: "'a res \<Rightarrow> 'a run" where
  "run_lift r l = (case r of Inl e \<Rightarrow> (Inl (RunFailed e), l) | Inr x \<Rightarrow> (Inr x, l))"

definition run_io :: "'a io \<Rightarrow> 'a run" where
  "run_io m l =
     (case m (l_world l) of
        (Inl e, w) \<Rightarrow> (Inl (RunFailed e), l\<lparr>l_world := w\<rparr>)
      | (Inr x, w) \<Rightarrow> (Inr x, l\<lparr>l_world := w\<rparr>))"

definition after_io :: "unit io \<Rightarrow> launch \<Rightarrow> launch" where
  "after_io m l = l\<lparr>l_world := snd (m (l_world l))\<rparr>"

definition wrap_res :: "string \<Rightarrow> 'a res \<Rightarrow> 'a res" where
  "wrap_res label r = (case r of Inl e \<Rightarrow> Inl (label @ e) | Inr x \<Rightarrow> Inr x)"

section \<open>The surroundings of a run\<close>

record launch_env =
  le_process :: sdk_process
  le_GOOS :: string
  le_GOARCH :: string
  le_listen :: "string res"
  le_listenHTTP :: "string res"
  le_codec :: json_codec
  le_names :: user_names
  le_entropy :: "nat \<Rightarrow> string"
  le_tempDir :: path
  le_encodePlan :: "runtimePlan \<Rightarrow> string res"
  le_child :: child
  le_stdout :: writer
  le_stderr :: writer
  le_decodeResult :: "string \<Rightarrow> (string, bool option) runResultPayload res"
  le_json :: result_json
  le_results :: result_env

definition le_files :: "launch_env \<Rightarrow> go_url surroundings" where
  "le_files L = h_env (le_process L)"

definition newRuntimeArtifactResolver :: "runtimeResolverConfig \<Rightarrow> runtimeArtifactResolver" where
  "newRuntimeArtifactResolver config =
     \<lparr>rr_config = config, rr_cacheDir = [], rr_resolveEndpoint = [], rr_httpClient = False\<rparr>"

definition run_resolver :: "launch_env \<Rightarrow> runtimeArtifactResolver" where
  "run_resolver L = newRuntimeArtifactResolver
     \<lparr>cfgVersion = RuntimeArtifactVersion, cfgGOOS = le_GOOS L, cfgGOARCH = le_GOARCH L\<rparr>"

section \<open>The servers\<close>

definition startRuntimeHostServer :: "launch_env \<Rightarrow> string run" where
  "startRuntimeHostServer L l =
     (case le_listen L of
        Inl e \<Rightarrow> (Inl (RunFailed (''listen for runtime host server: '' @ e)), l)
      | Inr address \<Rightarrow> (Inr address, l\<lparr>l_grpc := True\<rparr>))"

definition grpc_Close :: "launch \<Rightarrow> launch" where
  "grpc_Close l = l\<lparr>l_grpc := False\<rparr>"

definition startRuntimeHTTPHostServer :: "launch_env \<Rightarrow> runtimeHTTPHostHandle run" where
  "startRuntimeHTTPHostServer L l =
     (case le_listenHTTP L of
        Inl e \<Rightarrow> (Inl (RunFailed (''listen for runtime http host server: '' @ e)), l)
      | Inr address \<Rightarrow> (Inr \<lparr>host_baseURL = ''http://'' @ address\<rparr>, l\<lparr>l_http := True\<rparr>))"

definition httpHost_Close :: "launch \<Rightarrow> launch" where
  "httpHost_Close l = l\<lparr>l_registry := registry_Close (l_registry l), l_http := False\<rparr>"

text \<open>What the host server answers: the handshake, and a step by its callback.\<close>

definition RuntimeMismatchError_Error :: "string \<Rightarrow> string \<Rightarrow> go_error" where
  "RuntimeMismatchError_Error expected actual =
     ''loadstrike runtime version mismatch: expected '' @ expected @ '', got '' @ actual"

definition Handshake :: "string \<Rightarrow> int \<Rightarrow> (string \<times> int) res" where
  "Handshake sdkVersion protocolVersion =
     (if sdkVersion \<noteq> RuntimeArtifactVersion
      then Inl (RuntimeMismatchError_Error RuntimeArtifactVersion sdkVersion)
      else if protocolVersion \<noteq> RuntimeProtocolVersion
      then Inl (''loadstrike runtime protocol mismatch: expected '' @ dec_of_int RuntimeProtocolVersion @
             '', got '' @ dec_of_int protocolVersion)
      else Inr (RuntimeArtifactVersion, RuntimeProtocolVersion))"

section \<open>The run\<close>

definition build_plan :: "launch_env \<Rightarrow> contextState \<Rightarrow> runtimeHTTPHostHandle \<Rightarrow> runtimePlan run" where
  "build_plan L c host l =
     (case run_state (buildRuntimePlan (le_codec L) (le_names L) (Some c) host) (l_registry l) of
        (Planned plan, registry) \<Rightarrow> (Inr plan, l\<lparr>l_registry := registry\<rparr>)
      | (PlanError e, registry) \<Rightarrow> (Inl (RunFailed e), l\<lparr>l_registry := registry\<rparr>)
      | (PlanPanic e, registry) \<Rightarrow> (Inl (RunPanic e), l\<lparr>l_registry := registry\<rparr>))"

text \<open>
  A command that cannot be given its spool files is not run. What a child writes to a forwarded
  output is written to the terminal when it has ended.
\<close>

definition run_command ::
  "launch_env \<Rightarrow> command \<Rightarrow> runtimeCommandOutputOptions \<Rightarrow> (string \<times> go_error option) run" where
  "run_command L cmd options l =
     (case executeRuntimeCommand (le_files L) (le_child L) cmd options (l_world l) of
        (Inl e, w) \<Rightarrow> (Inr ([], Some e), l\<lparr>l_world := w\<rparr>)
      | (Inr oc, w) \<Rightarrow>
          (Inr (oc_diagnostic oc, oc_error oc),
           l\<lparr>l_world := w, l_commands := l_commands l @ [cmd],
             l_stdout := l_stdout l @ fw_stdout (oc_forwarded oc),
             l_stderr := l_stderr l @ fw_stderr (oc_forwarded oc)\<rparr>))"

definition runtime_command :: "path \<Rightarrow> string \<Rightarrow> path \<Rightarrow> path \<Rightarrow> command" where
  "runtime_command runtimePath address planPath resultPath =
     \<lparr>cmd_Path = runtimePath,
      cmd_Args = [''--host'', address, ''--plan'', path_text planPath, ''--output'', path_text resultPath,
        ''--sdk-version'', RuntimeArtifactVersion, ''--protocol'', dec_of_int RuntimeProtocolVersion],
      cmd_Stdin = []\<rparr>"

definition errMissingRuntimeOut :: go_error where
  "errMissingRuntimeOut = ''runtime did not produce a run result''"

definition read_result :: "launch_env \<Rightarrow> path \<Rightarrow> runResult run" where
  "read_result L resultPath =
     run_bind (run_io (io_map_error
         (\<lambda>e. if e = not_exist then errMissingRuntimeOut else ''read runtime result: '' @ e)
         (os_ReadFile (le_files L) resultPath))) (\<lambda>resultBytes.
     run_lift (case runResult_UnmarshalJSON (le_decodeResult L) (le_json L) (rse_conv (le_results L)) resultBytes
           zero_runResult of
         (Some e, _) \<Rightarrow> Inl (''decode runtime result: '' @ e)
       | (None, native) \<Rightarrow>
           Inr (runResult_toNative (le_results L) (newLoadStrikeRunResult (le_results L) native))))"

definition run_in_directory ::
  "launch_env \<Rightarrow> contextState \<Rightarrow> string \<Rightarrow> runtimePlan \<Rightarrow> path \<Rightarrow> path \<Rightarrow> runResult run" where
  "run_in_directory L c address plan runtimePath tempDir =
     (let planPath = tempDir @ [''plan.json'']; resultPath = tempDir @ [''result.json''] in
      run_bind (run_lift (wrap_res ''marshal runtime plan: '' (le_encodePlan L plan))) (\<lambda>planBytes.
      run_bind (run_io (io_wrap ''write runtime plan: '' (os_WriteFile (le_files L) planPath planBytes 0x180))) (\<lambda>_.
      run_bind (run_command L (runtime_command runtimePath address planPath resultPath)
          \<lparr>co_spoolDirectory = tempDir, co_loggerTarget = runtimeLoggerTarget (pctx_LoggerConfig (plan_Context plan)),
           co_runnerKey = ctx_RunnerKey c, co_stdoutDestination = Some (le_stdout L),
           co_stderrDestination = Some (le_stderr L)\<rparr>) (\<lambda>(output, err).
      case err of
        Some e \<Rightarrow> run_fail (RunFailed (newRuntimeFailure (Some e) output [ctx_RunnerKey c]))
      | None \<Rightarrow> read_result L resultPath))))"

definition run_execution ::
  "launch_env \<Rightarrow> contextState \<Rightarrow> string \<Rightarrow> runtimePlan \<Rightarrow> resolvedRuntimeExecution \<Rightarrow> runResult run" where
  "run_execution L c address plan execution =
     run_defer (after_io (snd (execution_Close (le_files L) execution)))
       (run_bind (run_io (io_wrap ''create runtime temp dir: ''
           (os_MkdirTemp (le_files L) (le_tempDir L) ''loadstrike-runtime-''))) (\<lambda>tempDir.
        run_defer (after_io (os_RemoveAll (le_files L) tempDir))
          (run_in_directory L c address plan (rx_Path execution) tempDir)))"

definition cached_agent :: "contextState \<Rightarrow> bool" where
  "cached_agent c \<longleftrightarrow> ctx_NodeType c = NodeTypeAgent \<and> trim_space (ctx_NatsServerURL c) \<noteq> []"

definition run_planned :: "launch_env \<Rightarrow> contextState \<Rightarrow> string \<Rightarrow> runtimePlan \<Rightarrow> runResult run" where
  "run_planned L c address plan =
     run_bind (run_lift (validateForLaunch plan)) (\<lambda>_.
     run_bind (run_io (resolveRuntimeExecution (le_process L) (run_resolver L) (ctx_RunnerKey c) [cached_agent c]))
       (run_execution L c address plan))"

definition runViaPrivateRuntime :: "launch_env \<Rightarrow> contextState \<Rightarrow> runResult run" where
  "runViaPrivateRuntime L c =
     run_bind (startRuntimeHostServer L) (\<lambda>address.
     run_defer grpc_Close
       (run_bind (startRuntimeHTTPHostServer L) (\<lambda>host.
        run_defer httpHost_Close
          (run_bind (build_plan L c host) (run_planned L c address)))))"

text \<open>\<open>Run\<close> of a context, which may be nil: the result, and the context as the arguments left it.\<close>

definition close_registry :: "launch \<Rightarrow> launch" where
  "close_registry l = l\<lparr>l_registry := registry_Close (l_registry l)\<rparr>"

definition needs_key :: "contextState \<Rightarrow> bool" where
  "needs_key c \<longleftrightarrow> trim_space (ctx_RunnerKey c) = [] \<and>
     (ctx_NodeType c \<noteq> NodeTypeAgent \<or> trim_space (ctx_NatsServerURL c) = [])"

definition start_run :: "launch_env \<Rightarrow> contextState \<Rightarrow> runResult run" where
  "start_run L c l =
     run_defer close_registry (runViaPrivateRuntime L c)
       (l\<lparr>l_registry := newRuntimeCallbackRegistry (le_entropy L)\<rparr>)"

definition context_Run ::
  "launch_env \<Rightarrow> contextState option \<Rightarrow> string list \<Rightarrow> launch
     \<Rightarrow> (run_error + runResult) \<times> contextState option \<times> launch" where
  "context_Run L c args l =
     (case c of
        None \<Rightarrow> (Inl (RunFailed ''context must be provided''), None, l)
      | Some c \<Rightarrow>
          if length (ctx_scenarios c) = 0 \<and> length (ctx_trafficMixes c) = 0
          then (Inl (RunFailed errNoScenarios), Some c, l)
          else
            (case applyRunArgs args c of
               (Some e, c) \<Rightarrow> (Inl (RunFailed e), Some c, l)
             | (None, c) \<Rightarrow>
                 if needs_key c
                 then (Inl (RunFailed ''Runner key is required. Call WithRunnerKey(...) before Run().''), Some c, l)
                 else (case start_run L c l of (r, l) \<Rightarrow> (r, Some c, l))))"

definition runner_Run ::
  "launch_env \<Rightarrow> runnerState \<Rightarrow> string list \<Rightarrow> launch
     \<Rightarrow> (run_error + runResult) \<times> contextState option \<times> launch" where
  "runner_Run L r args l =
     (case BuildContext r of
        Inl e \<Rightarrow> (Inl (RunPanic e), None, l)
      | Inr c \<Rightarrow> context_Run L (Some c) args l)"

section \<open>What a run keeps\<close>

definition run_holds :: "(launch \<Rightarrow> launch \<Rightarrow> bool) \<Rightarrow> 'a run \<Rightarrow> bool" where
  "run_holds Q m \<longleftrightarrow> (\<forall>l. Q l (snd (m l)))"

lemma run_holdsD: "run_holds Q m \<Longrightarrow> m l = (r, l') \<Longrightarrow> Q l l'"
  unfolding run_holds_def by (metis snd_conv)

text \<open>A relation between the states of a run that the calls on files and servers keep.\<close>

locale launch_effect =
  fixes Q :: "launch \<Rightarrow> launch \<Rightarrow> bool" and L :: launch_env
  assumes Q_refl: "Q l l" and Q_trans: "Q l l' \<Longrightarrow> Q l' l'' \<Longrightarrow> Q l l''"
    and Q_servers: "Q l (l\<lparr>l_grpc := b\<rparr>)" "Q l (l\<lparr>l_http := b\<rparr>)" "Q l (l\<lparr>l_registry := g\<rparr>)"
    and Q_WriteFile: "run_holds Q (run_io (io_wrap la (os_WriteFile (le_files L) p s mode)))"
    and Q_ReadFile: "run_holds Q (run_io (io_map_error f (os_ReadFile (le_files L) p)))"
    and Q_MkdirTemp: "run_holds Q (run_io (io_wrap la (os_MkdirTemp (le_files L) p n)))"
    and Q_RemoveAll: "Q l (after_io (os_RemoveAll (le_files L) p) l)"
begin

lemma holds_bind: "run_holds Q m \<Longrightarrow> (\<And>x. run_holds Q (f x)) \<Longrightarrow> run_holds Q (run_bind m f)"
  unfolding run_holds_def run_bind_def
  by (auto split: prod.splits sum.splits intro: Q_trans) (metis Q_trans snd_conv)+

lemma holds_defer: "run_holds Q m \<Longrightarrow> (\<And>l. Q l (g l)) \<Longrightarrow> run_holds Q (run_defer g m)"
  unfolding run_holds_def run_defer_def by (auto split: prod.splits) (metis Q_trans snd_conv)

lemma holds_lift: "run_holds Q (run_lift r)" "run_holds Q (run_fail e)"
  by (auto simp: run_holds_def run_lift_def run_fail_def Q_refl split: sum.splits)

lemma holds_servers: "run_holds Q (startRuntimeHostServer L)" "run_holds Q (startRuntimeHTTPHostServer L)"
  by (auto simp: run_holds_def startRuntimeHostServer_def startRuntimeHTTPHostServer_def
      split: sum.splits intro: Q_refl Q_servers)

lemma Q_closes: "Q l (grpc_Close l)" "Q l (httpHost_Close l)" "Q l (close_registry l)"
  unfolding grpc_Close_def httpHost_Close_def close_registry_def
  by (auto intro: Q_servers Q_trans [OF Q_servers(3) Q_servers(2)])

lemma holds_plan: "run_holds Q (build_plan L c host)"
  by (auto simp: run_holds_def build_plan_def split: prod.splits plan_result.splits intro: Q_servers)

lemma holds_result: "run_holds Q (read_result L p)"
  unfolding read_result_def by (intro holds_bind holds_lift Q_ReadFile)

lemma Q_execution_Close: "Q l (after_io (snd (execution_Close (le_files L) e)) l)"
  by (auto simp: execution_Close_def intro: Q_RemoveAll) (simp_all add: after_io_def io_return_def io_fail_def Q_refl)

end

text \<open>A relation that a whole run of a context keeps.\<close>

locale run_effect = launch_effect Q L for Q and L :: launch_env +
  fixes c :: contextState
  assumes Q_resolve: "run_holds Q (run_io (resolveRuntimeExecution (le_process L) (run_resolver L) (ctx_RunnerKey c) [cached_agent c]))"
    and Q_command: "co_runnerKey options = ctx_RunnerKey c \<Longrightarrow> run_holds Q (run_command L cmd options)"
begin

lemma holds_directory: "run_holds Q (run_in_directory L c address plan path dir)"
proof -
  have "run_holds Q (case e of Some e \<Rightarrow> run_fail (RunFailed (newRuntimeFailure (Some e) d [ctx_RunnerKey c]))
      | None \<Rightarrow> read_result L p)" for e d p
    by (cases e) (simp_all add: holds_result holds_lift)
  then show ?thesis
    unfolding run_in_directory_def Let_def case_prod_unfold
    by (intro holds_bind holds_lift Q_WriteFile Q_command) simp_all
qed

lemma holds_run: "run_holds Q (runViaPrivateRuntime L c)"
  unfolding runViaPrivateRuntime_def run_planned_def run_execution_def
  by (intro holds_bind holds_defer holds_servers holds_plan holds_lift Q_resolve Q_MkdirTemp Q_closes
      Q_execution_Close Q_RemoveAll holds_directory)

lemma Q_start_run: "Q l (snd (start_run L c l))"
  using holds_defer [OF holds_run Q_closes(3)] Q_servers(3) [of l]
  unfolding start_run_def run_holds_def by (blast intro: Q_trans)

end

text \<open>The relations of the world that hold of the calls of the engine hold of a run.\<close>

definition in_world :: "(world \<Rightarrow> world \<Rightarrow> bool) \<Rightarrow> launch \<Rightarrow> launch \<Rightarrow> bool" where
  "in_world R l l' \<longleftrightarrow> R (l_world l) (l_world l')"

lemma holds_io: "io_keeps R m \<Longrightarrow> run_holds (in_world R) (run_io m)"
  unfolding run_holds_def run_io_def io_keeps_def in_world_def
  by (auto split: prod.splits sum.splits) (metis snd_conv)+

lemma holds_command:
  "io_keeps R (executeRuntimeCommand (le_files L) (le_child L) cmd options) \<Longrightarrow>
     run_holds (in_world R) (run_command L cmd options)"
  unfolding run_holds_def run_command_def io_keeps_def in_world_def
  by (auto split: prod.splits sum.splits) (metis snd_conv)+

lemma after_io_in_world: "io_keeps R m \<Longrightarrow> in_world R l (after_io m l)"
  by (simp add: in_world_def after_io_def io_keeps_def)

context io_preorder begin

lemma in_world_same: "l_world l' = l_world l \<Longrightarrow> in_world R l l'"
  by (simp add: in_world_def R_refl)

lemma in_world_trans: "in_world R l l' \<Longrightarrow> in_world R l' l'' \<Longrightarrow> in_world R l l''"
  unfolding in_world_def by (rule R_trans)

lemma launch_effect_in_world:
  assumes "\<And>la p s mode. io_keeps R (io_wrap la (os_WriteFile (le_files L) p s mode))"
    and "\<And>f p. io_keeps R (io_map_error f (os_ReadFile (le_files L) p))"
    and "\<And>la p n. io_keeps R (io_wrap la (os_MkdirTemp (le_files L) p n))"
    and "\<And>p. io_keeps R (os_RemoveAll (le_files L) p)"
  shows "launch_effect (in_world R) L"
proof unfold_locales
  show "in_world R l l''" if "in_world R l l'" "in_world R l' l''" for l l' l''
    using that by (rule in_world_trans)
qed (simp_all add: in_world_same holds_io after_io_in_world assms)

lemma run_effect_in_world:
  assumes "launch_effect (in_world R) L"
    and "io_keeps R (resolveRuntimeExecution (le_process L) (run_resolver L) (ctx_RunnerKey c) [cached_agent c])"
    and "\<And>cmd options. io_keeps R (executeRuntimeCommand (le_files L) (le_child L) cmd options)"
  shows "run_effect (in_world R) L c"
  by (intro run_effect.intro run_effect_axioms.intro assms holds_io holds_command)

end

text \<open>What a run keeps of the open files, of the bodies and of the requests.\<close>

lemma launch_effects:
  "launch_effect (in_world (same_open S)) L" "launch_effect (in_world same_bodies) L"
  "launch_effect (in_world (sent P)) L"
    apply (rule same.launch_effect_in_world)
       apply (intro same.keeps_wrap same.keeps_map_error keeps_WriteFile keeps_ReadFile same.keeps_MkdirTemp
      same.keeps_files_calls)+
   apply (rule bodies.launch_effect_in_world)
      apply (intro bodies.keeps_wrap bodies.keeps_map_error bodies.keeps_os_WriteFile bodies.keeps_os_ReadFile
      bodies.keeps_MkdirTemp bodies.keeps_files_calls)+
  apply (rule net.launch_effect_in_world)
     apply (intro net.keeps_wrap net.keeps_map_error net.keeps_os_WriteFile net.keeps_os_ReadFile
      net.keeps_MkdirTemp net.keeps_files_calls)+
  done

interpretation run_files: run_effect "in_world (same_open S)" L c for S L c
  by (intro same.run_effect_in_world launch_effects files.keeps_execution keeps_execute)

interpretation run_bodies: run_effect "in_world same_bodies" L c for L c
  by (intro bodies.run_effect_in_world launch_effects bodies.keeps_execution bodies.keeps_executeRuntimeCommand)

interpretation run_requests:
  run_effect "in_world (sent (allowed_request (le_process L) (run_resolver L)))" L c for L c
  by (intro net.run_effect_in_world launch_effects requests.keeps_execution net.keeps_executeRuntimeCommand)

text \<open>What a run writes to the terminal: pieces without the key.\<close>

definition terminal :: "string \<Rightarrow> launch \<Rightarrow> launch \<Rightarrow> bool" where
  "terminal key l l' \<longleftrightarrow>
     (\<exists>outs errs. l_stdout l' = l_stdout l @ concat outs \<and> l_stderr l' = l_stderr l @ concat errs \<and>
        list_all (\<lambda>s. \<not> sublist key s) (outs @ errs))"

lemma terminal_same:
  fixes l l' :: launch
  shows "l_stdout l' = l_stdout l \<Longrightarrow> l_stderr l' = l_stderr l \<Longrightarrow> terminal key l l'"
  unfolding terminal_def by (intro exI [of _ "[]"]) simp

lemma terminal_trans:
  fixes l l' l'' :: launch
  assumes "terminal key l l'" and "terminal key l' l''"
  shows "terminal key l l''"
proof -
  from assms obtain o1 e1 o2 e2 where
    "l_stdout l' = l_stdout l @ concat o1" "l_stderr l' = l_stderr l @ concat e1"
    "l_stdout l'' = l_stdout l' @ concat o2" "l_stderr l'' = l_stderr l' @ concat e2"
    "list_all (\<lambda>s. \<not> sublist key s) (o1 @ e1)" "list_all (\<lambda>s. \<not> sublist key s) (o2 @ e2)"
    unfolding terminal_def by metis
  then show "terminal key l l''"
    unfolding terminal_def by (intro exI [of _ "o1 @ o2"] exI [of _ "e1 @ e2"]) simp
qed

lemma terminal_io: "run_holds (terminal key) (run_io m)"
  by (auto simp: run_holds_def run_io_def intro!: terminal_same split: prod.splits sum.splits)

lemma terminal_command:
  assumes "key_opaque key runtimeCommandRedaction" and "co_runnerKey options = key"
  shows "run_holds (terminal key) (run_command L cmd options)"
  unfolding run_holds_def
proof
  fix l :: launch
  obtain r w where r: "executeRuntimeCommand (le_files L) (le_child L) cmd options (l_world l) = (r, w)"
    by fastforce
  show "terminal key l (snd (run_command L cmd options l))"
  proof (cases r)
    case (Inl e)
    with r show ?thesis by (simp add: run_command_def terminal_same)
  next
    case (Inr oc)
    with r execute_keyless [of options] assms have "keyless key (oc_forwarded oc)"
      by auto
    with r Inr show ?thesis
      unfolding terminal_def
      by (intro exI [of _ "[fw_stdout (oc_forwarded oc)]"] exI [of _ "[fw_stderr (oc_forwarded oc)]"])
        (simp add: run_command_def keyless_def)
  qed
qed

lemma terminal_run_effect:
  assumes "key_opaque (ctx_RunnerKey c) runtimeCommandRedaction"
  shows "run_effect (terminal (ctx_RunnerKey c)) L c"
  by unfold_locales
    (auto intro: terminal_same terminal_trans terminal_io terminal_command [OF assms] simp: after_io_def)

end
