(* ===== verification/Installed_Runtime.thy ===== *)
theory Installed_Runtime
  imports Artifact_Resolver
begin

text \<open>
  An installed engine is found and started: on a system where no call fails and no other process
  interferes, a cache in order is used without the network. The lemmas follow the operations of the
  cache call by call.
\<close>

section \<open>A calm system\<close>

definition calm :: "'u surroundings \<Rightarrow> bool" where
  "calm env \<longleftrightarrow> (\<forall>k. fault env k = None) \<and> (\<forall>k fs. meddle env k fs = fs) \<and> umask env = 0 \<and> (\<forall>k. pick_fd env k = k)"

definition fresh_fds :: "world \<Rightarrow> bool" where
  "fresh_fds w \<longleftrightarrow> (\<forall>fd \<ge> w_calls w. w_open w fd = None)"

lemma calm_sys: "calm env \<Longrightarrow> sys env f w = f (w_calls w) (w\<lparr>w_calls := Suc (w_calls w)\<rparr>)"
  by (simp add: calm_def sys_def Let_def)

lemma calm_Lstat:
  "calm env \<Longrightarrow> at_path p (w_files w) = Some (i, n) \<Longrightarrow>
     os_Lstat env p w = (Inr (info_of i n), w\<lparr>w_calls := Suc (w_calls w)\<rparr>)"
  by (auto simp: os_Lstat_def calm_sys with_node_def io_return_def at_path_def split: option.splits)

lemma calm_Fstat:
  "calm env \<Longrightarrow> w_open w fd = Some f \<Longrightarrow> nodes (w_files w) (of_node f) = Some n \<Longrightarrow>
     os_Fstat env fd w = (Inr (info_of (of_node f) n), w\<lparr>w_calls := Suc (w_calls w)\<rparr>)"
  by (simp add: os_Fstat_def calm_sys with_file_def with_node_def io_return_def)

lemma calm_OpenNoFollow:
  "calm env \<Longrightarrow> at_path p (w_files w) = Some (i, n) \<Longrightarrow> type_of (nd_kind n) \<noteq> TLink \<Longrightarrow>
     (d \<longrightarrow> nd_kind n = Directory) \<Longrightarrow> w_open w (w_calls w) = None \<Longrightarrow>
     os_OpenNoFollow env p d w = (Inr (w_calls w),
       w\<lparr>w_calls := Suc (w_calls w), w_open := (w_open w)(w_calls w \<mapsto> \<lparr>of_node = i, of_offset = 0\<rparr>)\<rparr>)"
  by (auto simp: os_OpenNoFollow_def calm_sys with_node_def open_fd_def at_path_def Let_def calm_def split: option.splits)

lemma calm_Close:
  "calm env \<Longrightarrow> os_Close env fd w = (Inr (), w\<lparr>w_calls := Suc (w_calls w), w_open := (w_open w)(fd := None)\<rparr>)"
  by (simp add: os_Close_def calm_sys io_return_def)

lemma calm_Fchmod:
  "calm env \<Longrightarrow> w_open w fd = Some f \<Longrightarrow> nodes (w_files w) (of_node f) = Some n \<Longrightarrow> nd_perm n = m \<Longrightarrow>
     os_Fchmod env fd m w = (Inr (), w\<lparr>w_calls := Suc (w_calls w)\<rparr>)"
  by (simp add: os_Fchmod_def calm_sys with_file_def with_node_def set_node_def fun_upd_idem)

lemma calm_Seek0:
  "calm env \<Longrightarrow> w_open w fd = Some f \<Longrightarrow>
     os_Seek0 env fd w = (Inr (), w\<lparr>w_calls := Suc (w_calls w), w_open := (w_open w)(fd \<mapsto> f\<lparr>of_offset := 0\<rparr>)\<rparr>)"
  by (simp add: os_Seek0_def calm_sys with_file_def set_offset_def)

lemma calm_Read:
  "calm env \<Longrightarrow> w_open w fd = Some f \<Longrightarrow> nodes (w_files w) (of_node f) = Some n \<Longrightarrow>
     os_Read env fd k w =
       (let s = take k (drop (of_offset f) (content (nd_kind n))) in
        (Inr s, w\<lparr>w_calls := Suc (w_calls w), w_open := (w_open w)(fd \<mapsto> f\<lparr>of_offset := of_offset f + length s\<rparr>)\<rparr>))"
  by (simp add: os_Read_def calm_sys with_file_def with_node_def set_offset_def Let_def)

section \<open>Objects in order\<close>

definition in_order :: "nat \<Rightarrow> node \<Rightarrow> bool" where
  "in_order user n \<longleftrightarrow> nd_uid n = user \<and> \<not> others_may_write (nd_perm n AND 0x1FF)"

lemma calm_openStable:
  assumes "calm env" and "at_path p (w_files w) = Some (i, n)" and "fresh_fds w"
    and "type_of (nd_kind n) = (if d then TDirectory else TRegular)" and "l \<longrightarrow> nd_links n = 1" and "in_order (euid env) n"
  shows "openStableRuntimeObject env p d l w =
    (Inr \<lparr>op_file = Suc (w_calls w), op_path = p, op_identity = \<lparr>id_file = i, id_links = nd_links n\<rparr>, op_info = info_of i n\<rparr>,
     w\<lparr>w_calls := w_calls w + 6, w_open := (w_open w)(Suc (w_calls w) \<mapsto> \<lparr>of_node = i, of_offset = 0\<rparr>)\<rparr>)"
proof -
  have "nodes (w_files w) i = Some n" using assms(2) by (auto simp: at_path_def split: option.splits)
  moreover have "w_open w (Suc (w_calls w)) = None" using assms(3) by (simp add: fresh_fds_def)
  moreover have "d \<longrightarrow> nd_kind n = Directory" using assms(4) by (cases "nd_kind n") (auto split: if_splits)
  moreover have "type_of (nd_kind n) \<noteq> TLink" using assms(4) by (simp split: if_splits)
  ultimately show ?thesis
    using assms(1,2,4,5,6)
    by (simp add: openStableRuntimeObject_def check_opened_def runtimeObjectIdentityForFile_def
        validateRuntimeObjectSecurity_def io_bind_def io_then_def io_guard_def io_return_def io_on_error_def
        calm_Lstat calm_OpenNoFollow calm_Fstat SameFile_def in_order_def info_of_def)
qed

text \<open>A program that returns a value and leaves everything but the count of calls as it was.\<close>

definition yields :: "'a io \<Rightarrow> 'a \<Rightarrow> world \<Rightarrow> bool" where
  "yields m x w \<longleftrightarrow> (\<exists>c \<ge> w_calls w. m w = (Inr x, w\<lparr>w_calls := c\<rparr>))"

definition later :: "world \<Rightarrow> nat \<Rightarrow> world" where
  "later w c = w\<lparr>w_calls := c\<rparr>"

lemma later_simps [simp]:
  "w_files (later w c) = w_files w" "w_open (later w c) = w_open w" "w_calls (later w c) = c"
  "w_requests (later w c) = w_requests w" "w_bodies (later w c) = w_bodies w" "later (later w c) d = later w d"
  by (simp_all add: later_def)

lemma fresh_later: "fresh_fds w \<Longrightarrow> w_calls w \<le> c \<Longrightarrow> fresh_fds (later w c)"
  by (simp add: fresh_fds_def)

lemma yields_run: "yields m x w \<Longrightarrow> \<exists>c \<ge> w_calls w. m w = (Inr x, later w c)"
  by (simp add: yields_def later_def)

lemma yieldsI: "m w = (Inr x, w\<lparr>w_calls := c\<rparr>) \<Longrightarrow> w_calls w \<le> c \<Longrightarrow> yields m x w"
  by (auto simp: yields_def)

lemma yields_bind:
  assumes "yields m x w" and "\<And>c. w_calls w \<le> c \<Longrightarrow> yields (f x) y (later w c)"
  shows "yields (io_bind m f) y w"
proof -
  obtain c where c: "w_calls w \<le> c" "m w = (Inr x, later w c)" using yields_run[OF assms(1)] by blast
  obtain c' where "c \<le> c'" "f x (later w c) = (Inr y, later (later w c) c')"
    using yields_run[OF assms(2)[OF c(1)]] by auto
  with c show ?thesis by (intro yieldsI[where c = c']) (simp_all add: io_bind_def later_def)
qed

lemma yields_then: "yields m () w \<Longrightarrow> (\<And>c. w_calls w \<le> c \<Longrightarrow> yields k y (later w c)) \<Longrightarrow> yields (io_then m k) y w"
  unfolding io_then_def by (rule yields_bind)

lemma yields_return: "yields (io_return x) x w"
  by (rule yieldsI[where c = "w_calls w"]) (simp_all add: io_return_def)

lemma yields_guard: "b \<Longrightarrow> yields (io_guard b e) () w"
  by (simp add: io_guard_def yields_return)

lemma yields_lift: "r = Inr x \<Longrightarrow> yields (io_lift r) x w"
  by (rule yieldsI[where c = "w_calls w"]) (simp_all add: io_lift_def)

lemma yields_wrap: "yields m x w \<Longrightarrow> yields (io_wrap l m) x w"
  by (auto simp: yields_def io_wrap_def io_map_error_def)

lemma yields_try: "yields m x w \<Longrightarrow> yields (io_try m) (Inr x) w"
  by (auto simp: yields_def io_try_def)

lemma yields_Lstat: "calm env \<Longrightarrow> at_path p (w_files w) = Some (i, n) \<Longrightarrow> yields (os_Lstat env p) (info_of i n) w"
  by (rule yieldsI[OF calm_Lstat]) auto

section \<open>Reading\<close>

lemma calm_copy:
  assumes "calm env" and "nodes (w_files w) i = Some n" and "w_open w fd = Some \<lparr>of_node = i, of_offset = off\<rparr>"
  shows "\<exists>c \<ge> w_calls w. \<exists>off'. copy_opened env fd (\<lambda>_. io_return ()) limit w =
    (Inr (take limit (drop off (content (nd_kind n)))),
     w\<lparr>w_calls := c, w_open := (w_open w)(fd \<mapsto> \<lparr>of_node = i, of_offset = off'\<rparr>)\<rparr>)"
  using assms(2,3)
proof (induction limit arbitrary: w off rule: less_induct)
  case (less limit)
  show ?case
  proof (cases "limit = 0")
    case True
    with less.prems have "copy_opened env fd (\<lambda>_. io_return ()) limit w =
        (Inr (take limit (drop off (content (nd_kind n)))),
         w\<lparr>w_calls := w_calls w, w_open := (w_open w)(fd \<mapsto> \<lparr>of_node = i, of_offset = off\<rparr>)\<rparr>)"
      by (simp add: copy_opened.simps io_return_def fun_upd_idem)
    then show ?thesis by blast
  next
    case False
    let ?chunk = "take (min 32768 limit) (drop off (content (nd_kind n)))"
    let ?w = "w\<lparr>w_calls := Suc (w_calls w), w_open := (w_open w)(fd \<mapsto> \<lparr>of_node = i, of_offset = off + length ?chunk\<rparr>)\<rparr>"
    have rd: "os_Read env fd (min 32768 limit) w = (Inr ?chunk, ?w)"
      using less.prems by (simp add: calm_Read[OF assms(1)] Let_def)
    show ?thesis
    proof (cases "?chunk = []")
      case True
      then have "length (content (nd_kind n)) \<le> off" using False by (auto simp: min_def split: if_splits)
      then have "take limit (drop off (content (nd_kind n))) = []" by simp
      moreover define v where "v = ?w"
      then have "copy_opened env fd (\<lambda>_. io_return ()) limit w = (Inr [], v)"
        by (subst copy_opened.simps) (use False rd[folded v_def] True in \<open>simp add: io_bind_def io_return_def\<close>)
      then have "copy_opened env fd (\<lambda>_. io_return ()) limit w = (Inr [], ?w)" unfolding v_def .
      ultimately have "copy_opened env fd (\<lambda>_. io_return ()) limit w =
          (Inr (take limit (drop off (content (nd_kind n)))), ?w)" by (simp only:)
      moreover have "w_calls w \<le> Suc (w_calls w)" by simp
      ultimately show ?thesis by blast
    next
      case nonempty: False
      have lt: "limit - length ?chunk < limit" using nonempty False by simp
      have now: "nodes (w_files ?w) i = Some n" "w_open ?w fd = Some \<lparr>of_node = i, of_offset = off + length ?chunk\<rparr>"
        using less.prems by simp_all
      obtain c off' where c: "w_calls ?w \<le> c" and rest:
        "copy_opened env fd (\<lambda>_. io_return ()) (limit - length ?chunk) ?w =
           (Inr (take (limit - length ?chunk) (drop (off + length ?chunk) (content (nd_kind n)))),
            ?w\<lparr>w_calls := c, w_open := (w_open ?w)(fd \<mapsto> \<lparr>of_node = i, of_offset = off'\<rparr>)\<rparr>)"
        using less.IH[OF lt now] by blast
      have whole: "?chunk @ take (limit - length ?chunk) (drop (off + length ?chunk) (content (nd_kind n))) =
          take limit (drop off (content (nd_kind n)))"
        by (rule chunk_then_rest[OF refl]) simp
      have "copy_opened env fd (\<lambda>_. io_return ()) limit w =
          (Inr (take limit (drop off (content (nd_kind n)))),
           w\<lparr>w_calls := c, w_open := (w_open w)(fd \<mapsto> \<lparr>of_node = i, of_offset = off'\<rparr>)\<rparr>)"
        unfolding whole[symmetric]
        by (subst copy_opened.simps) (use False rd rest nonempty in \<open>simp add: io_bind_def io_return_def\<close>)
      moreover have "w_calls w \<le> c" using c by simp
      ultimately show ?thesis by blast
    qed
  qed
qed

lemma calm_ensureStable:
  assumes "calm env" and "at_path p (w_files w) = Some (i, n)" and "map_option of_node (w_open w fd) = Some i"
  shows "yields (ensureStable env \<lparr>op_file = fd, op_path = p, op_identity = \<lparr>id_file = i, id_links = nd_links n\<rparr>,
    op_info = info_of i n\<rparr>) () w"
proof -
  have "nodes (w_files w) i = Some n" using assms(2) by (auto simp: at_path_def split: option.splits)
  with assms show ?thesis
    by (intro yieldsI[where c = "w_calls w + 3"])
      (auto simp: ensureStable_def runtimeObjectIdentityForFile_def io_bind_def io_then_def io_guard_def io_return_def
        calm_Fstat calm_Lstat SameFile_def info_of_def)
qed

section \<open>Checking an installed file\<close>

lemma calm_protect_and_close:
  assumes "calm env" and "nodes (w_files w) i = Some n" and "nd_perm n = m" and "m AND 0x1FF = m"
    and "w_open w (op_file ob) = Some \<lparr>of_node = i, of_offset = 0\<rparr>" and "op_info ob = info_of i n"
  shows "protect_and_close env p m ob w =
    (Inr (), w\<lparr>w_calls := w_calls w + 2, w_open := (w_open w)(op_file ob := None)\<rparr>)"
  using assms
  by (simp add: protect_and_close_def verifyRuntimeCacheFileMode_def protectOpenedRuntimeObject_def object_Close_def
      io_bind_def io_then_def io_guard_def io_return_def io_on_error_def calm_Fchmod calm_Close info_of_def)

lemma fresh_upd_None: "fresh_fds w \<Longrightarrow> (w_open w)(Suc (w_calls w) := None) = w_open w"
  by (simp add: fresh_fds_def fun_upd_idem)

text \<open>A file is opened, made private once more and closed, as every check of the cache begins.\<close>

lemma calm_reprotect:
  assumes "calm env" and "at_path p (w_files w) = Some (i, n)" and "fresh_fds w" and "type_of (nd_kind n) = TRegular"
    and "nd_links n = 1" and "in_order (euid env) n" and "nd_perm n = m" and "m AND 0x1FF = m"
  shows "yields (io_bind (openStableRuntimeObject env p False True) (protect_and_close env p m)) () w"
proof -
  have "nodes (w_files w) i = Some n" using assms(2) by (auto simp: at_path_def split: option.splits)
  with assms show ?thesis
    by (intro yieldsI[where c = "w_calls w + 8"])
      (simp_all add: calm_openStable io_bind_def calm_protect_and_close fresh_upd_None)
qed

lemma calm_read_all:
  assumes "calm env" and "nodes (w_files w) i = Some n" and "w_open w fd = Some \<lparr>of_node = i, of_offset = 0\<rparr>"
    and "length (content (nd_kind n)) < limit"
  obtains c off where "w_calls w \<le> c" and "copy_opened env fd (\<lambda>_. io_return ()) limit w =
    (Inr (content (nd_kind n)), w\<lparr>w_calls := c, w_open := (w_open w)(fd \<mapsto> \<lparr>of_node = i, of_offset = off\<rparr>)\<rparr>)"
  using calm_copy[OF assms(1-3), of limit] assms(4) by auto

text \<open>A check of an open file that reads it and closes it again.\<close>

lemma calm_hash:
  assumes "calm env" and "at_path p (w_files w) = Some (i, n)" and "w_open w fd = Some \<lparr>of_node = i, of_offset = 0\<rparr>"
    and "length (content (nd_kind n)) \<le> runtime_artifact_limit"
    and ob: "ob = \<lparr>op_file = fd, op_path = p, op_identity = \<lparr>id_file = i, id_links = nd_links n\<rparr>, op_info = info_of i n\<rparr>"
    and digest: "hex_encode (sha256 cr (content (nd_kind n))) = digest"
  obtains c off where "w_calls w \<le> c" and "hashOpenedRuntimeObject cr env ob w =
    (Inr digest,
     w\<lparr>w_calls := c, w_open := (w_open w)(fd \<mapsto> \<lparr>of_node = i, of_offset = off\<rparr>)\<rparr>)"
proof -
  have nd: "nodes (w_files w) i = Some n" using assms(2) by (auto simp: at_path_def split: option.splits)
  let ?w1 = "w\<lparr>w_calls := Suc (w_calls w)\<rparr>"
  have seek: "os_Seek0 env fd w = (Inr (), ?w1)"
    using assms(1,3) by (simp add: calm_Seek0 fun_upd_idem)
  obtain c off where c: "Suc (w_calls w) \<le> c" and rd:
    "copy_opened env fd (\<lambda>_. io_return ()) (runtime_artifact_limit + 1) ?w1 =
       (Inr (content (nd_kind n)), ?w1\<lparr>w_calls := c, w_open := (w_open w)(fd \<mapsto> \<lparr>of_node = i, of_offset = off\<rparr>)\<rparr>)"
    using calm_read_all[of env ?w1 i n fd "runtime_artifact_limit + 1"] assms(1,3,4) nd by auto
  let ?w2 = "w\<lparr>w_calls := c, w_open := (w_open w)(fd \<mapsto> \<lparr>of_node = i, of_offset = off\<rparr>)\<rparr>"
  obtain c' where c': "c \<le> c'" "ensureStable env ob ?w2 = (Inr (), ?w2\<lparr>w_calls := c'\<rparr>)"
    using calm_ensureStable[of env p ?w2 i n fd] assms(1,2) by (auto simp: yields_def ob)
  show ?thesis
    by (rule that[of c' off])
      (use c c' seek rd assms(4) digest in
        \<open>simp_all add: hashOpenedRuntimeObject_def io_bind_def io_then_def io_guard_def io_return_def ob\<close>)
qed

text \<open>An executable in order passes, and nothing changes.\<close>

definition installed_file :: "nat \<Rightarrow> u32 \<Rightarrow> node \<Rightarrow> bool" where
  "installed_file user mode n \<longleftrightarrow>
     type_of (nd_kind n) = TRegular \<and> nd_links n = 1 \<and> nd_uid n = user \<and> nd_perm n = mode"

lemma installed_in_order:
  "installed_file user runtimeCacheRuntimePermissions n \<Longrightarrow> in_order user n"
  "installed_file user runtimeCacheSidecarPermissions n \<Longrightarrow> in_order user n"
  by (simp_all add: installed_file_def in_order_def others_may_write_def runtimeCacheRuntimePermissions_def
      runtimeCacheSidecarPermissions_def)

lemma modes_plain:
  "runtimeCacheRuntimePermissions AND 0x1FF = runtimeCacheRuntimePermissions"
  "runtimeCacheSidecarPermissions AND 0x1FF = runtimeCacheSidecarPermissions"
  by (simp_all add: runtimeCacheRuntimePermissions_def runtimeCacheSidecarPermissions_def)

lemma calm_verify:
  assumes "calm env" and "at_path p (w_files w) = Some (i, n)" and "fresh_fds w"
    and "installed_file (euid env) runtimeCacheRuntimePermissions n"
    and "length (content (nd_kind n)) \<le> runtime_artifact_limit"
    and "hex_encode (sha256 cr (content (nd_kind n))) = digest" and "isLowerHex64 digest"
  shows "yields (verifyRuntimeArtifactFile cr env p digest) () w"
proof -
  have order: "in_order (euid env) n" using installed_in_order(1)[OF assms(4)] .
  have nd: "nodes (w_files w) i = Some n" using assms(2) by (auto simp: at_path_def split: option.splits)
  have again: "yields (io_bind (openStableRuntimeObject env p False True)
      (\<lambda>ob. io_defer (object_Close env ob) (verify_hash cr env digest ob))) () v"
    if v: "w_files v = w_files w" "fresh_fds v" for v
  proof -
    let ?fd = "Suc (w_calls v)"
    let ?ob = "\<lparr>op_file = ?fd, op_path = p, op_identity = \<lparr>id_file = i, id_links = nd_links n\<rparr>, op_info = info_of i n\<rparr>"
    let ?v = "v\<lparr>w_calls := w_calls v + 6, w_open := (w_open v)(?fd \<mapsto> \<lparr>of_node = i, of_offset = 0\<rparr>)\<rparr>"
    have op: "openStableRuntimeObject env p False True v = (Inr ?ob, ?v)"
      using assms(1,2,4) order v by (simp add: calm_openStable installed_file_def)
    obtain c off where c: "w_calls v + 6 \<le> c" and h: "hashOpenedRuntimeObject cr env ?ob ?v =
        (Inr digest, ?v\<lparr>w_calls := c, w_open := (w_open ?v)(?fd \<mapsto> \<lparr>of_node = i, of_offset = off\<rparr>)\<rparr>)"
      by (rule calm_hash[of env p ?v i n ?fd ?ob cr digest]) (use assms(1,2,5,6) v in simp_all)
    show ?thesis
      by (rule yieldsI[where c = "Suc c"])
        (use c op h fresh_upd_None[OF v(2)] in
          \<open>simp_all add: io_bind_def io_defer_def verify_hash_def io_wrap_def io_map_error_def io_guard_def io_return_def
            object_Close_def calm_Close[OF assms(1)]\<close>)
  qed
  show ?thesis
    unfolding verifyRuntimeArtifactFile_def
    by (intro yields_then yields_guard assms(7) calm_reprotect[where i = i and n = n] again)
      (use assms order modes_plain fresh_later in \<open>auto simp: installed_file_def\<close>)
qed

section \<open>Reading an installed sidecar\<close>

lemma calm_sidecar:
  assumes "calm env" and "at_path p (w_files w) = Some (i, n)" and "fresh_fds w"
    and sidecar_ok: "installed_file (euid env) runtimeCacheSidecarPermissions n"
    and "length (content (nd_kind n)) \<le> max_manifest_bytes"
    and "parseRuntimeManifestV2 (content (nd_kind n)) = Inr m"
  shows "yields (readRuntimeManifestSidecar env p) m w"
proof -
  have order: "in_order (euid env) n" using installed_in_order(2)[OF sidecar_ok] .
  have nd: "nodes (w_files w) i = Some n" using assms(2) by (auto simp: at_path_def split: option.splits)
  have size: "fi_size (info_of i n) = length (content (nd_kind n))" by (simp add: info_of_def)
  have first: "yields (io_bind (openStableRuntimeObject env p False True) (\<lambda>ob.
       io_then (io_on_error (object_Close env ob)
         (io_guard (fi_size (op_info ob) \<le> max_manifest_bytes) ''runtime manifest sidecar exceeds the safety limit''))
       (protect_and_close env p runtimeCacheSidecarPermissions ob))) () w"
    using assms order nd size modes_plain fresh_upd_None[OF assms(3)]
    by (intro yieldsI[where c = "w_calls w + 8"])
      (simp_all add: calm_openStable io_bind_def io_then_def io_guard_def io_return_def io_on_error_def installed_file_def
        calm_protect_and_close)
  have again: "yields (io_bind (openStableRuntimeObject env p False True)
      (\<lambda>ob. io_defer (object_Close env ob) (read_sidecar env ob))) m v"
    if v: "w_files v = w_files w" "fresh_fds v" for v
  proof -
    let ?fd = "Suc (w_calls v)"
    let ?ob = "\<lparr>op_file = ?fd, op_path = p, op_identity = \<lparr>id_file = i, id_links = nd_links n\<rparr>, op_info = info_of i n\<rparr>"
    let ?v = "v\<lparr>w_calls := w_calls v + 6, w_open := (w_open v)(?fd \<mapsto> \<lparr>of_node = i, of_offset = 0\<rparr>)\<rparr>"
    have op: "openStableRuntimeObject env p False True v = (Inr ?ob, ?v)"
      using assms(1,2) sidecar_ok order v by (simp add: calm_openStable installed_file_def)
    obtain c off where c: "w_calls ?v \<le> c" and rd: "copy_opened env ?fd (\<lambda>_. io_return ()) (max_manifest_bytes + 1) ?v =
        (Inr (content (nd_kind n)), ?v\<lparr>w_calls := c, w_open := (w_open ?v)(?fd \<mapsto> \<lparr>of_node = i, of_offset = off\<rparr>)\<rparr>)"
      by (rule calm_read_all[of env ?v i n ?fd "max_manifest_bytes + 1"]) (use assms(1,5) nd v in simp_all)
    let ?u = "?v\<lparr>w_calls := c, w_open := (w_open ?v)(?fd \<mapsto> \<lparr>of_node = i, of_offset = off\<rparr>)\<rparr>"
    obtain c' where c': "c \<le> c'" "ensureStable env ?ob ?u = (Inr (), ?u\<lparr>w_calls := c'\<rparr>)"
      using calm_ensureStable[of env p ?u i n ?fd] assms(1,2) v by (auto simp: yields_def)
    show ?thesis
      by (rule yieldsI[where c = "Suc c'"])
        (use c c' op rd size assms(5,6) fresh_upd_None[OF v(2)] in
          \<open>simp_all add: read_sidecar_def decodeRuntimeManifest_def decode_content_def io_bind_def io_then_def io_defer_def
            io_wrap_def io_map_error_def io_guard_def io_return_def io_lift_def object_Close_def calm_Close[OF assms(1)]\<close>)
  qed
  show ?thesis
    unfolding readRuntimeManifestSidecar_def
    by (intro yields_then first again) (use assms(3) fresh_later in auto)
qed

section \<open>Directories in order\<close>

definition private_directory :: "nat \<Rightarrow> node \<Rightarrow> bool" where
  "private_directory user n \<longleftrightarrow> nd_kind n = Directory \<and> nd_uid n = user \<and> nd_perm n = runtimeCacheDirectoryPermissions"

lemma directory_mode: "runtimeCacheDirectoryPermissions AND 0x1FF = runtimeCacheDirectoryPermissions"
  "\<not> others_may_write runtimeCacheDirectoryPermissions"
  by (simp_all add: runtimeCacheDirectoryPermissions_def others_may_write_def)

lemma calm_component:
  assumes "calm env" and "at_path p (w_files w) = Some (i, n)" and "fresh_fds w" and "private_directory (euid env) n"
  shows "yields (ensure_component env p) () w"
proof -
  have nd: "nodes (w_files w) i = Some n" using assms(2) by (auto simp: at_path_def split: option.splits)
  have order: "in_order (euid env) n" using assms(4) directory_mode by (simp add: private_directory_def in_order_def)
  have open_dir: "openStableRuntimeObject env p True False v =
    (Inr \<lparr>op_file = Suc (w_calls v), op_path = p, op_identity = \<lparr>id_file = i, id_links = nd_links n\<rparr>, op_info = info_of i n\<rparr>,
     v\<lparr>w_calls := w_calls v + 6, w_open := (w_open v)(Suc (w_calls v) \<mapsto> \<lparr>of_node = i, of_offset = 0\<rparr>)\<rparr>)"
    if "w_files v = w_files w" "fresh_fds v" for v
    using assms(1,2,4) order that by (simp add: calm_openStable private_directory_def)
  have existing: "yields (existing_component env p (info_of i n)) () v" if "w_files v = w_files w" "fresh_fds v" for v
    using assms(1,4) nd open_dir[OF that] that fresh_upd_None[OF that(2)] directory_mode
    by (intro yieldsI[where c = "w_calls v + 8"])
      (simp_all add: existing_component_def io_bind_def io_then_def io_guard_def io_return_def io_wrap_def io_map_error_def
        io_on_error_def protectOpenedRuntimeObject_def object_Close_def calm_Fchmod calm_Close private_directory_def info_of_def)
  have reopen: "yields (io_bind (io_wrap a (openStableRuntimeObject env p True False)) (\<lambda>ob.
     io_then (io_wrap b (object_Close env ob)) k)) () v"
    if "w_files v = w_files w" "fresh_fds v" and k: "\<And>c. w_calls v \<le> c \<Longrightarrow> yields k () (later v c)" for v a b k
  proof -
    obtain c where c: "7 + w_calls v \<le> c" "k (later v (7 + w_calls v)) = (Inr (), later v c)"
      using yields_run[OF k[of "7 + w_calls v"]] by (auto simp: later_def)
    show ?thesis
      using open_dir[OF that(1,2)] fresh_upd_None[OF that(2)] c
      by (intro yieldsI[where c = c])
        (simp_all add: io_bind_def io_then_def io_wrap_def io_map_error_def object_Close_def calm_Close[OF assms(1)] later_def)
  qed
  have refreshed: "yields (io_bind (io_wrap a (os_Lstat env p))
      (\<lambda>refreshed. io_guard (fi_perm refreshed = runtimeCacheDirectoryPermissions) (e refreshed))) () v"
    if "w_files v = w_files w" for v a e
    using assms(1,2,4) that directory_mode
    by (intro yields_bind[OF yields_wrap[OF yields_Lstat]] yields_guard) (auto simp: info_of_def private_directory_def)
  show ?thesis
    unfolding ensure_component_def
    by (rule yields_bind[OF yields_try[OF yields_Lstat[OF assms(1,2)]]], simp only: sum.case, rule yields_then[OF existing])
      (use assms(3) fresh_later[OF assms(3)] in \<open>auto intro!: reopen refreshed\<close>)
qed

lemma calm_components:
  assumes "calm env" and "fresh_fds w" and "list_all ordinary cs"
    and "\<And>a. strict_prefix p a \<Longrightarrow> prefix a (p @ cs) \<Longrightarrow> \<exists>i n. at_path a (w_files w) = Some (i, n) \<and> private_directory (euid env) n"
  shows "yields (ensure_components env p cs) () w"
  using assms(2-)
proof (induction cs arbitrary: p w)
  case (Cons c cs)
  obtain i n where n: "at_path (p @ [c]) (w_files w) = Some (i, n)" "private_directory (euid env) n"
    using Cons.prems(3)[of "p @ [c]"] by (auto simp: strict_prefix_def)
  have "yields (ensure_components env (p @ [c]) cs) () (later w k)" if "w_calls w \<le> k" for k
  proof (rule Cons.IH)
    fix a
    assume "strict_prefix (p @ [c]) a" and "prefix a ((p @ [c]) @ cs)"
    moreover from this have "strict_prefix p a" by (auto simp: strict_prefix_def prefix_def)
    ultimately show "\<exists>i n. at_path a (w_files (later w k)) = Some (i, n) \<and> private_directory (euid env) n"
      using Cons.prems(3)[of a] by simp
  qed (use Cons.prems fresh_later[OF Cons.prems(1) that] in auto)
  moreover have "yields (ensure_component env (p @ [c])) () w"
    using assms(1) n(1) Cons.prems(1) n(2) by (rule calm_component)
  ultimately show ?case
    using Cons.prems(2) by (auto simp: ordinary_def intro: yields_then)
qed (simp add: yields_return)

lemma calm_ensure:
  assumes "calm env" and "fresh_fds w" and "list_all ordinary cs" and "walk 255 (w_files w) [] root = Some root"
    and "at_path root (w_files w) = Some (i, n)" and "nd_kind n = Directory" and "in_order (euid env) n"
    and "\<And>a. strict_prefix root a \<Longrightarrow> prefix a (root @ cs) \<Longrightarrow>
      \<exists>i n. at_path a (w_files w) = Some (i, n) \<and> private_directory (euid env) n"
  shows "yields (ensureRuntimeCacheDirectory env root (root @ cs)) () w"
proof -
  have within: "runtimePathWithinRoot root (root @ cs)"
    using assms(3) using filepath_Rel_append[of root cs] by (cases cs) (auto simp: runtimePathWithinRoot_def ordinary_def)
  have eval: "yields (os_EvalSymlinks env root) root v" if "w_files v = w_files w" for v
    using assms(1,4) that by (intro yieldsI[where c = "Suc (w_calls v)"]) (simp_all add: os_EvalSymlinks_def calm_sys)
  have rest: "yields (if root = root @ cs then io_return () else ensure_components env root (filepath_Rel root (root @ cs))) () v"
    if "w_files v = w_files w" "fresh_fds v" for v
    using calm_components[OF assms(1) that(2) assms(3)] assms(8) that by (auto simp: filepath_Rel_append yields_return)
  have root: "yields (io_bind (io_wrap a (openStableRuntimeObject env root True False)) (\<lambda>ob.
     io_then (io_wrap b (object_Close env ob)) k)) () v"
    if "w_files v = w_files w" "fresh_fds v" and k: "\<And>c. w_calls v \<le> c \<Longrightarrow> yields k () (later v c)" for v a b k
  proof -
    obtain c where c: "7 + w_calls v \<le> c" "k (later v (7 + w_calls v)) = (Inr (), later v c)"
      using yields_run[OF k[of "7 + w_calls v"]] by (auto simp: later_def)
    show ?thesis
      using assms(1,5,6,7) that(1,2) fresh_upd_None[OF that(2)] c
      by (intro yieldsI[where c = c])
        (simp_all add: calm_openStable io_bind_def io_then_def io_wrap_def io_map_error_def object_Close_def
          calm_Close[OF assms(1)] later_def)
  qed
  show ?thesis
    unfolding ensureRuntimeCacheDirectory_def
    by (intro yields_then[OF yields_guard[OF within]] yields_bind[OF yields_wrap[OF eval]] root rest
        yields_then[OF yields_guard]) (use fresh_later[OF assms(2)] in auto)
qed

section \<open>An installed engine\<close>

text \<open>Paths without links.\<close>

definition real_path :: "files \<Rightarrow> path \<Rightarrow> bool" where
  "real_path fs p \<longleftrightarrow> walk 0 fs [] p = Some p"

lemma walk_0:
  "walk 0 fs at (c # cs) =
     (case Option.bind (entry fs (at @ [c])) (nodes fs) of
        None \<Rightarrow> None | Some n \<Rightarrow> if type_of (nd_kind n) = TLink then None else walk 0 fs (at @ [c]) cs)"
  by (auto split: option.split node_kind.split)

lemma walk_0_Some: "walk 0 fs at cs = Some r \<Longrightarrow> r = at @ cs"
proof (induction cs arbitrary: at)
  case (Cons c cs)
  then have "walk 0 fs (at @ [c]) cs = Some r" unfolding walk_0 by (auto split: option.splits if_splits)
  then show ?case using Cons.IH by fastforce
qed simp

lemma walk_0_more: "walk 0 fs at cs = Some r \<Longrightarrow> walk k fs at cs = Some r"
proof (induction cs arbitrary: at)
  case (Cons c cs)
  then obtain n where n: "Option.bind (entry fs (at @ [c])) (nodes fs) = Some n" "type_of (nd_kind n) \<noteq> TLink"
    "walk 0 fs (at @ [c]) cs = Some r" unfolding walk_0 by (auto split: option.splits if_splits)
  then show ?case using Cons.IH[OF n(3)] by (cases "nd_kind n") simp_all
qed simp

lemma walk_0_append: "walk 0 fs at (cs @ ds) = (case walk 0 fs at cs of None \<Rightarrow> None | Some r \<Rightarrow> walk 0 fs r ds)"
proof (induction cs arbitrary: at)
  case (Cons c cs)
  show ?case unfolding append_Cons walk_0 Cons.IH by (simp split: option.split)
qed simp

lemma real_prefix: "real_path fs (p @ q) \<Longrightarrow> real_path fs p"
  unfolding real_path_def walk_0_append using walk_0_Some[of fs "[]" p] by (auto split: option.splits)

lemma real_walk: "real_path fs p \<Longrightarrow> walk k fs [] p = Some p"
  by (simp add: real_path_def walk_0_more[where r = p])

definition node_at :: "(node \<Rightarrow> bool) \<Rightarrow> path \<Rightarrow> files \<Rightarrow> bool" where
  "node_at P p fs = (case at_path p fs of None \<Rightarrow> False | Some (i, n) \<Rightarrow> P n)"

lemma node_at_Some: "node_at P p fs \<longleftrightarrow> (\<exists>i n. at_path p fs = Some (i, n) \<and> P n)"
  by (auto simp: node_at_def split: option.splits)

definition runtime_directories :: "runtimeArtifactResolver \<Rightarrow> string list" where
  "runtime_directories r =
     [''runtime'', cfgVersion (rr_config r), cfgGOOS (rr_config r) @ ''-'' @ cfgGOARCH (rr_config r)]"

text \<open>The cache at a root holds the executable of a manifest and the manifest itself, all in order.\<close>

definition installed :: "sdk_process \<Rightarrow> runtimeArtifactResolver \<Rightarrow> runtimeArtifactManifest \<Rightarrow> path \<Rightarrow> files \<Rightarrow> bool" where
  "installed h r m root fs \<longleftrightarrow>
     (let user = euid (h_env h); p = root @ runtime_directories r @ [expectedRuntimeExecutableName r] in
      select_root h (rr_cacheDir r) = Inr root \<and> path_ok root \<and> list_all ordinary (runtime_directories r) \<and>
      real_path fs (root @ runtime_directories r) \<and>
      node_at (\<lambda>n. nd_kind n = Directory \<and> in_order user n) root fs \<and>
      list_all (\<lambda>k. node_at (private_directory user) (root @ take k (runtime_directories r)) fs) [1, 2, 3] \<and>
      node_at (\<lambda>n. installed_file user runtimeCacheRuntimePermissions n \<and>
        length (content (nd_kind n)) \<le> runtime_artifact_limit \<and>
        hex_encode (sha256 (h_crypto h) (content (nd_kind n))) = SHA256 (Claims m)) p fs \<and>
      node_at (\<lambda>n. installed_file user runtimeCacheSidecarPermissions n \<and>
        length (content (nd_kind n)) \<le> max_manifest_bytes \<and>
        parseRuntimeManifestV2 (content (nd_kind n)) = Inr m) (manifest_path p) fs)"

lemma executable_ordinary: "ordinary (expectedRuntimeExecutableName r)"
  by (simp add: expectedRuntimeExecutableName_def ordinary_def)

lemma installed_path:
  "installed h r m root fs \<Longrightarrow>
     expectedRuntimePath h r = Some (root @ runtime_directories r @ [expectedRuntimeExecutableName r])"
  using executable_ordinary[of r]
  by (simp add: installed_def expectedRuntimePath_def runtime_directories_def filepath_join_ordinary Let_def)

lemma prefixes_of_three:
  "strict_prefix root a \<Longrightarrow> prefix a (root @ [x, y, z]) \<Longrightarrow> a \<in> {root @ [x], root @ [x, y], root @ [x, y, z]}"
  by (auto simp: strict_prefix_def prefix_append prefix_Cons)

lemma installed_ensure:
  assumes "calm (h_env h)" and "fresh_fds w" and "installed h r m root (w_files w)"
  shows "yields (ensureRuntimeCacheDirectory (h_env h) root (root @ runtime_directories r)) () w"
proof -
  obtain i n where root: "at_path root (w_files w) = Some (i, n)" "nd_kind n = Directory" "in_order (euid (h_env h)) n"
    using assms(3) by (auto simp: installed_def node_at_Some Let_def)
  have dirs: "\<exists>i n. at_path a (w_files w) = Some (i, n) \<and> private_directory (euid (h_env h)) n"
    if "strict_prefix root a" "prefix a (root @ runtime_directories r)" for a
    using assms(3) prefixes_of_three[OF that[unfolded runtime_directories_def]]
    by (auto simp: installed_def node_at_Some runtime_directories_def Let_def)
  show ?thesis
    by (rule calm_ensure[OF assms(1,2) _ _ root dirs])
      (use assms(3) in \<open>auto simp: installed_def Let_def real_walk[OF real_prefix]\<close>)
qed

lemma installed_sidecar:
  assumes "calm (h_env h)" and "fresh_fds w" and "installed h r m root (w_files w)"
  shows "yields (readRuntimeManifestSidecar (h_env h)
    (manifest_path (root @ runtime_directories r @ [expectedRuntimeExecutableName r]))) m w"
  using assms by (auto simp: installed_def node_at_Some Let_def intro: calm_sidecar)

lemma verified_digest:
  assumes "verifyRuntimeManifest h m config now = Inr ()" and "parseRuntimeManifestV2 s = Inr m"
  shows "isLowerHex64 (SHA256 (Claims m))"
proof -
  have "canonicalJSON m = s" using assms(2) by (rule parse_facts) blast
  with assms verified_manifest[of h m config now] obtain keys where
    "verifyRuntimeManifestV2 (h_crypto h) (Inr m) config keys now = Inr m" by auto
  then have "validateRuntimeManifestV2Claims (Claims m) config now = Inr ()" using verify_accepts by blast
  then have "validate_claim_values (Claims m) = Inr ()"
    by (auto simp: validateRuntimeManifestV2Claims_def split: sum.splits)
  then show ?thesis by (rule claim_values_facts)
qed

text \<open>The path is found without the network.\<close>

lemma installed_resolves:
  assumes "calm (h_env h)" and "fresh_fds w" and inst: "installed h r m root (w_files w)"
    and "trim_space key \<noteq> [] \<or> cached_only key flags"
    and "transportPolicy h r = Inr policy" and "validateArtifactURL (h_net h) policy (DownloadURL (Claims m)) = Inr u"
    and verified: "\<And>k. verifyRuntimeManifest h m (rr_config r) (h_now h k) = Inr ()"
  shows "yields (resolveRuntimePath h r key flags) (root @ runtime_directories r @ [expectedRuntimeExecutableName r]) w"
proof -
  let ?p = "root @ runtime_directories r @ [expectedRuntimeExecutableName r]"
  obtain i n where exe: "at_path ?p (w_files w) = Some (i, n)" "installed_file (euid (h_env h)) runtimeCacheRuntimePermissions n"
    "length (content (nd_kind n)) \<le> runtime_artifact_limit"
    "hex_encode (sha256 (h_crypto h) (content (nd_kind n))) = SHA256 (Claims m)"
    using inst by (auto simp: installed_def node_at_Some Let_def)
  have digest: "isLowerHex64 (SHA256 (Claims m))"
    using inst verified by (auto simp: installed_def node_at_Some Let_def intro: verified_digest)
  have from_: "yields (resolve_from h r k c now policy root ?p) ?p v"
    if v: "w_files v = w_files w" "fresh_fds v" and now: "verifyRuntimeManifest h m (rr_config r) now = Inr ()" for v k c now
  proof -
    obtain d where d: "w_calls v \<le> d" "readRuntimeManifestSidecar (h_env h) (manifest_path ?p) v = (Inr m, later v d)"
      using yields_run[OF installed_sidecar[OF assms(1) v(2)]] inst v(1) by fastforce
    have "yields (verifyRuntimeArtifactFile (h_crypto h) (h_env h) ?p (SHA256 (Claims m))) () (later v d)"
      using assms(1) exe v d(1) fresh_later digest by (intro calm_verify) auto
    from yields_run[OF this] obtain d' where d': "d \<le> d'"
      "verifyRuntimeArtifactFile (h_crypto h) (h_env h) ?p (SHA256 (Claims m)) (later v d) = (Inr (), later v d')" by auto
    show ?thesis
      using d d' assms(6) now
      by (intro yieldsI[where c = d'])
        (simp_all add: resolve_from_def Let_def io_bind_def io_try_def io_return_def is_error_def flip: later_def)
  qed
  obtain d where d: "w_calls w \<le> d" "ensureRuntimeCacheDirectory (h_env h) root (filepath_Dir ?p) w = (Inr (), later w d)"
    using yields_run[OF installed_ensure[OF assms(1-3)]] by (auto simp: filepath_Dir_def butlast_append)
  obtain d' where d': "d \<le> d'"
    "resolve_from h r (trim_space key) (cached_only key flags) (h_now h d) policy root ?p (later w d) = (Inr ?p, later w d')"
    using yields_run[OF from_[OF _ fresh_later[OF assms(2) d(1)] verified]] by fastforce
  have select: "select_root h (rr_cacheDir r) = Inr root" using inst by (simp add: installed_def Let_def)
  obtain keys where keys: "configuredRuntimePublisherKeyring h = Inr keys"
    using verified[of 0] by (auto simp: verifyRuntimeManifest_def split: sum.splits)
  show ?thesis
    using d d' assms(4,5) select keys installed_path[OF inst]
    by (intro yieldsI[where c = d'])
      (simp_all add: resolveRuntimePath_def Let_def io_then_def io_bind_def io_guard_def io_return_def io_lift_def
        io_wrap_def io_map_error_def flip: later_def)
qed

end
