(* ===== verification/Started_Runtime.thy ===== *)
theory Started_Runtime
  imports Installed_Runtime
begin

text \<open>
  The private copy of an installed engine is made, and so resolving an execution succeeds on a calm
  system without the network.
\<close>

section \<open>Growing file systems\<close>

definition same_kind :: "node_kind \<Rightarrow> node_kind \<Rightarrow> bool" where
  "same_kind a b \<longleftrightarrow> a = b \<or> type_of a = TRegular \<and> type_of b = TRegular"

definition extends :: "files \<Rightarrow> files \<Rightarrow> bool" where
  "extends fs fs' \<longleftrightarrow> (\<forall>q i. entry fs q = Some i \<longrightarrow> entry fs' q = Some i) \<and>
     (\<forall>i n. nodes fs i = Some n \<longrightarrow> (\<exists>n'. nodes fs' i = Some n' \<and> same_kind (nd_kind n) (nd_kind n')))"

definition add_entry :: "path \<Rightarrow> nat \<Rightarrow> node \<Rightarrow> files \<Rightarrow> files" where
  "add_entry p i n fs = \<lparr>names = AList.update p i (names fs), nodes = (nodes fs)(i \<mapsto> n)\<rparr>"

definition put_node :: "nat \<Rightarrow> node \<Rightarrow> files \<Rightarrow> files" where
  "put_node i n fs = fs\<lparr>nodes := (nodes fs)(i \<mapsto> n)\<rparr>"

lemma files_changes [simp]:
  "entry (add_entry p i n fs) = (entry fs)(p \<mapsto> i)" "nodes (add_entry p i n fs) = (nodes fs)(i \<mapsto> n)"
  "entry (put_node i n fs) = entry fs" "nodes (put_node i n fs) = (nodes fs)(i \<mapsto> n)"
  by (simp_all add: entry_def add_entry_def put_node_def AList.update_conv')

lemma extends_trans: "extends a b \<Longrightarrow> extends b c \<Longrightarrow> extends a c"
  by (fastforce simp: extends_def same_kind_def)

lemma extends_add: "entry fs p = None \<Longrightarrow> nodes fs i = None \<Longrightarrow> extends fs (add_entry p i n fs)"
  by (auto simp: extends_def same_kind_def)

lemma extends_put: "nodes fs i = Some n \<Longrightarrow> same_kind (nd_kind n) (nd_kind n') \<Longrightarrow> extends fs (put_node i n' fs)"
  by (auto simp: extends_def same_kind_def)

lemma walk_extends: "walk k fs at cs = Some r \<Longrightarrow> extends fs fs' \<Longrightarrow> walk k fs' at cs = Some r"
proof (induction k fs at cs rule: walk.induct)
  case (2 k fs at c cs)
  then obtain n where n: "Option.bind (entry fs (at @ [c])) (nodes fs) = Some n" by (auto split: option.splits)
  then obtain n' where n': "Option.bind (entry fs' (at @ [c])) (nodes fs') = Some n'" "same_kind (nd_kind n) (nd_kind n')"
    using "2.prems"(2) by (auto simp: extends_def bind_eq_Some_conv) metis
  note walk.simps [simp del]
  show ?case
  proof (cases "type_of (nd_kind n) = TLink")
    case True
    then obtain target where target: "nd_kind n = Symlink target" by (cases "nd_kind n") auto
    with n "2.prems"(1) obtain k' where k': "k = Suc k'" "walk k' fs [] (target @ cs) = Some r"
      by (auto simp: walk.simps(2) split: nat.splits)
    have "walk k' fs' [] (target @ cs) = Some r" using "2.IH"(3)[OF n target k'(1,2) "2.prems"(2)] .
    moreover have "nd_kind n' = Symlink target" using n'(2) target by (auto simp: same_kind_def)
    ultimately show ?thesis using n'(1) k'(1) by (simp add: walk.simps(2))
  next
    case False
    then have "walk k fs (at @ [c]) cs = Some r"
      using n "2.prems"(1) by (cases "nd_kind n") (simp_all add: walk.simps(2))
    then have "walk k fs' (at @ [c]) cs = Some r"
      using False "2.IH"[OF n] "2.prems"(2) by (cases "nd_kind n") auto
    then show ?thesis using n' False by (cases "nd_kind n'") (auto simp: walk.simps(2) same_kind_def)
  qed
qed (simp add: walk.simps)

lemma real_extends: "real_path fs p \<Longrightarrow> extends fs fs' \<Longrightarrow> real_path fs' p"
  unfolding real_path_def by (rule walk_extends)

lemma real_snoc:
  "real_path fs p \<Longrightarrow> entry fs (p @ [c]) = Some i \<Longrightarrow> nodes fs i = Some n \<Longrightarrow> type_of (nd_kind n) \<noteq> TLink \<Longrightarrow>
     real_path fs (p @ [c])"
  by (simp add: real_path_def walk_0_append walk_0 del: walk.simps(2))

lemma real_place: "real_path fs p \<Longrightarrow> place fs (p @ [c]) = Some (p @ [c])"
  by (simp add: place_def real_walk)

lemma real_at: "real_path fs p \<Longrightarrow> at_path (p @ [c]) fs = Option.bind (entry fs (p @ [c])) (\<lambda>i. map_option (Pair i) (nodes fs i))"
  by (simp add: at_path_def look_def real_place split: option.splits)

lemma at_path_extends:
  assumes "at_path p fs = Some (i, n)" and "extends fs fs'" and "nodes fs' i = Some n'"
  shows "at_path p fs' = Some (i, n')"
proof -
  obtain q where q: "place fs p = Some q" "entry fs q = Some i"
    using assms(1) by (auto simp: at_path_def look_def bind_eq_Some_conv split: option.splits)
  then have "place fs' p = Some q" using walk_extends[OF _ assms(2)] by (auto simp: place_def split: if_splits)
  moreover have "entry fs' q = Some i" using q(2) assms(2) by (simp add: extends_def)
  ultimately show ?thesis using assms(3) by (simp add: at_path_def look_def)
qed

section \<open>Writing on a calm system\<close>

lemma calm_new_entry:
  assumes "calm env" and "real_path (w_files w) p" and "is_directory (w_files w) p"
    and "entry (w_files w) (p @ [c]) = None" and "nodes (w_files w) (pick_node env k) = None"
  shows "new_entry env k (p @ [c]) kind mode w = (Inr (pick_node env k),
    w\<lparr>w_files := add_entry (p @ [c]) (pick_node env k)
       \<lparr>nd_kind = kind, nd_uid = euid env, nd_perm = mode, nd_links = (if kind = Directory then 2 else 1),
        nd_mtime = tick env k\<rparr> (w_files w)\<rparr>)"
  using assms by (simp add: new_entry_def Let_def real_place add_entry_def calm_def)

lemma calm_MkdirTemp:
  assumes "calm env" and "real_path (w_files w) p" and "is_directory (w_files w) p"
    and "entry (w_files w) (p @ [name @ pick_name env (w_calls w)]) = None"
    and "nodes (w_files w) (pick_node env (w_calls w)) = None"
  shows "os_MkdirTemp env p name w = (Inr (p @ [name @ pick_name env (w_calls w)]),
    w\<lparr>w_calls := Suc (w_calls w),
      w_files := add_entry (p @ [name @ pick_name env (w_calls w)]) (pick_node env (w_calls w))
       \<lparr>nd_kind = Directory, nd_uid = euid env, nd_perm = 0x1C0, nd_links = 2, nd_mtime = tick env (w_calls w)\<rparr>
       (w_files w)\<rparr>)"
  using assms calm_new_entry[of env "w\<lparr>w_calls := Suc (w_calls w)\<rparr>" p "name @ pick_name env (w_calls w)" "w_calls w"]
  by (simp add: os_MkdirTemp_def os_Mkdir_def Let_def io_bind_def io_return_def calm_sys)

lemma calm_Create:
  assumes "calm env" and "real_path (w_files w) p" and "is_directory (w_files w) p"
    and "entry (w_files w) (p @ [c]) = None" and "nodes (w_files w) (pick_node env (w_calls w)) = None"
    and "w_open w (w_calls w) = None"
  shows "os_Create env (p @ [c]) mode w = (Inr (w_calls w),
    w\<lparr>w_calls := Suc (w_calls w),
      w_files := add_entry (p @ [c]) (pick_node env (w_calls w))
       \<lparr>nd_kind = Regular [], nd_uid = euid env, nd_perm = mode, nd_links = 1, nd_mtime = tick env (w_calls w)\<rparr> (w_files w),
      w_open := (w_open w)(w_calls w \<mapsto> \<lparr>of_node = pick_node env (w_calls w), of_offset = 0\<rparr>)\<rparr>)"
  using assms calm_new_entry[of env "w\<lparr>w_calls := Suc (w_calls w)\<rparr>" p c "w_calls w"]
  by (simp add: os_Create_def io_bind_def calm_sys open_fd_def Let_def calm_def)

lemma calm_Chmod:
  "calm env \<Longrightarrow> real_path (w_files w) p \<Longrightarrow> entry (w_files w) p = Some i \<Longrightarrow> nodes (w_files w) i = Some n \<Longrightarrow>
     os_Chmod env p m w = (Inr (), w\<lparr>w_calls := Suc (w_calls w), w_files := put_node i (n\<lparr>nd_perm := m\<rparr>) (w_files w)\<rparr>)"
  by (simp add: os_Chmod_def calm_sys follow_def real_walk with_node_def set_node_def put_node_def)

lemma calm_Sync: "calm env \<Longrightarrow> w_open w fd = Some f \<Longrightarrow> os_Sync env fd w = (Inr (), w\<lparr>w_calls := Suc (w_calls w)\<rparr>)"
  by (simp add: os_Sync_def calm_sys with_file_def io_return_def)

lemma calm_append:
  "calm env \<Longrightarrow> w_open w fd = Some \<lparr>of_node = j, of_offset = length s\<rparr> \<Longrightarrow> nodes (w_files w) j = Some n \<Longrightarrow>
     nd_kind n = Regular s \<Longrightarrow>
     os_Write env fd t w = (Inr (),
       w\<lparr>w_calls := Suc (w_calls w),
         w_files := put_node j (n\<lparr>nd_kind := Regular (s @ t), nd_mtime := tick env (w_calls w)\<rparr>) (w_files w),
         w_open := (w_open w)(fd \<mapsto> \<lparr>of_node = j, of_offset = length (s @ t)\<rparr>)\<rparr>)"
  by (simp add: os_Write_def Let_def calm_sys io_return_def write_at_def with_file_def with_node_def set_node_def
      set_offset_def put_node_def)

text \<open>The copy loop: what is read from one open file is appended to another.\<close>

lemma calm_transfer:
  assumes "calm env" and "fd \<noteq> fd'" and "i \<noteq> j" and "nodes (w_files w) i = Some n"
    and "w_open w fd = Some \<lparr>of_node = i, of_offset = off\<rparr>"
    and "nodes (w_files w) j = Some m" and "nd_kind m = Regular s"
    and "w_open w fd' = Some \<lparr>of_node = j, of_offset = length s\<rparr>"
  shows "\<exists>w' off' m'. copy_opened env fd (os_Write env fd') limit w = (Inr (take limit (drop off (content (nd_kind n)))), w') \<and>
    w_calls w \<le> w_calls w' \<and> w_files w' = put_node j m' (w_files w) \<and>
    nd_kind m' = Regular (s @ take limit (drop off (content (nd_kind n)))) \<and> nd_uid m' = nd_uid m \<and> nd_links m' = nd_links m \<and>
    w_open w' = (w_open w)(fd \<mapsto> \<lparr>of_node = i, of_offset = off'\<rparr>,
      fd' \<mapsto> \<lparr>of_node = j, of_offset = length s + length (take limit (drop off (content (nd_kind n))))\<rparr>)"
  using assms(4-)
proof (induction limit arbitrary: w off m s rule: less_induct)
  case (less limit)
  let ?rest = "\<lambda>k off. take k (drop off (content (nd_kind n)))"
  define chunk where "chunk = ?rest (min 32768 limit) off"
  define w1 where "w1 = w\<lparr>w_calls := Suc (w_calls w), w_open := (w_open w)(fd \<mapsto> \<lparr>of_node = i, of_offset = off + length chunk\<rparr>)\<rparr>"
  have rd: "os_Read env fd (min 32768 limit) w = (Inr chunk, w1)"
    using less.prems by (simp add: calm_Read[OF assms(1)] Let_def chunk_def w1_def)
  show ?case
  proof (cases "chunk = []")
    case True
    then have empty: "take limit (drop off (content (nd_kind n))) = []" by (auto simp: chunk_def min_def split: if_splits)
    have "\<exists>w'. copy_opened env fd (os_Write env fd') limit w = (Inr [], w') \<and> w_calls w \<le> w_calls w' \<and>
        w_files w' = w_files w \<and> w_open w' = w_open w"
    proof (cases "limit = 0")
      case False
      have "copy_opened env fd (os_Write env fd') limit w = (Inr [], w1)"
        by (subst copy_opened.simps) (simp add: False rd True io_bind_def io_return_def)
      moreover have "w_open w1 = w_open w" using True less.prems(2) by (simp add: w1_def fun_upd_idem)
      ultimately show ?thesis by (auto simp: w1_def)
    qed (simp add: copy_opened.simps io_return_def)
    then obtain w' where w': "copy_opened env fd (os_Write env fd') limit w = (Inr [], w')" "w_calls w \<le> w_calls w'"
      "w_files w' = w_files w" "w_open w' = w_open w" by blast
    have none: "length (take limit (drop off (content (nd_kind n)))) = 0" using empty by (simp only: list.size)
    show ?thesis
    proof (intro exI conjI)
      show "copy_opened env fd (os_Write env fd') limit w = (Inr (take limit (drop off (content (nd_kind n)))), w')"
        using w'(1) unfolding empty .
      show "w_files w' = put_node j m (w_files w)" using less.prems w'(3) by (simp add: put_node_def fun_upd_idem)
      show "nd_kind m = Regular (s @ take limit (drop off (content (nd_kind n))))"
        using less.prems(4) unfolding empty by simp
      show "w_open w' = (w_open w)(fd \<mapsto> \<lparr>of_node = i, of_offset = off\<rparr>,
          fd' \<mapsto> \<lparr>of_node = j, of_offset = length s + length (take limit (drop off (content (nd_kind n))))\<rparr>)"
        using less.prems assms(2) w'(4) unfolding none by (auto simp: fun_eq_iff)
    qed (use w'(2) in simp_all)
  next
    case False
    then have limit: "limit \<noteq> 0" by (auto simp: chunk_def)
    define m1 where "m1 = m\<lparr>nd_kind := Regular (s @ chunk), nd_mtime := tick env (w_calls w1)\<rparr>"
    define w2 where "w2 = w1\<lparr>w_calls := Suc (w_calls w1), w_files := put_node j m1 (w_files w1),
         w_open := (w_open w1)(fd' \<mapsto> \<lparr>of_node = j, of_offset = length (s @ chunk)\<rparr>)\<rparr>"
    have wr: "os_Write env fd' chunk w1 = (Inr (), w2)"
      unfolding w2_def m1_def by (rule calm_append) (use assms(1,2) less.prems in \<open>simp_all add: w1_def\<close>)
    have lt: "limit - length chunk < limit" using False limit by (simp add: chunk_def)
    have now: "nodes (w_files w2) i = Some n" "w_open w2 fd = Some \<lparr>of_node = i, of_offset = off + length chunk\<rparr>"
      "nodes (w_files w2) j = Some m1" "nd_kind m1 = Regular (s @ chunk)"
      "w_open w2 fd' = Some \<lparr>of_node = j, of_offset = length (s @ chunk)\<rparr>"
      using assms(2,3) less.prems by (simp_all add: w1_def w2_def m1_def)
    obtain w' off' m' where w': "copy_opened env fd (os_Write env fd') (limit - length chunk) w2 =
        (Inr (?rest (limit - length chunk) (off + length chunk)), w')" "w_calls w2 \<le> w_calls w'"
      "w_files w' = put_node j m' (w_files w2)"
      "nd_kind m' = Regular ((s @ chunk) @ ?rest (limit - length chunk) (off + length chunk))"
      "nd_uid m' = nd_uid m1" "nd_links m' = nd_links m1"
      "w_open w' = (w_open w2)(fd \<mapsto> \<lparr>of_node = i, of_offset = off'\<rparr>,
        fd' \<mapsto> \<lparr>of_node = j, of_offset = length (s @ chunk) + length (?rest (limit - length chunk) (off + length chunk))\<rparr>)"
      using less.IH[OF lt now] by blast
    have whole: "chunk @ ?rest (limit - length chunk) (off + length chunk) = ?rest limit off"
      by (rule chunk_then_rest[OF chunk_def]) simp
    have "copy_opened env fd (os_Write env fd') limit w = (Inr (?rest limit off), w')"
      unfolding whole[symmetric]
      by (subst copy_opened.simps) (use False limit rd wr w'(1) in \<open>simp add: io_bind_def io_return_def flip: chunk_def\<close>)
    moreover have "length chunk + length (?rest (limit - length chunk) (off + length chunk)) = length (?rest limit off)"
      by (simp only: whole[symmetric] length_append)
    moreover have "put_node j m' (w_files w2) = put_node j m' (w_files w)" by (simp add: w2_def w1_def put_node_def)
    ultimately show ?thesis
      using w'(2-) whole assms(2)
      by (intro exI[of _ w'] exI[of _ off'] exI[of _ m'])
        (auto simp: w1_def w2_def m1_def fun_upd_twist add.assoc)
  qed
qed

section \<open>The private copy\<close>

text \<open>The copied bytes are checked and the copy is brought to the disk.\<close>

lemma calm_copy_source:
  assumes calm: "calm env" and at: "at_path p (w_files w) = Some (i, n)" and fd: "w_open w fd = Some f" "of_node f = i"
    and ob: "ob = \<lparr>op_file = fd, op_path = p, op_identity = \<lparr>id_file = i, id_links = nd_links n\<rparr>, op_info = info_of i n\<rparr>"
    and "length (content (nd_kind n)) \<le> runtime_artifact_limit" and "hex_encode (sha256 cr (content (nd_kind n))) = digest"
    and ne: "fd \<noteq> fd'" "i \<noteq> j" and m: "nodes (w_files w) j = Some m" "nd_kind m = Regular []"
    and fd': "w_open w fd' = Some \<lparr>of_node = j, of_offset = 0\<rparr>"
  obtains w' m' off off' where "copy_source cr env digest ob fd' w = (Inr (), w')" and "w_calls w \<le> w_calls w'"
    and "w_files w' = put_node j m' (w_files w)" and "nd_kind m' = Regular (content (nd_kind n))"
    and "nd_uid m' = nd_uid m" and "nd_links m' = nd_links m"
    and "w_open w' = (w_open w)(fd \<mapsto> \<lparr>of_node = i, of_offset = off\<rparr>, fd' \<mapsto> \<lparr>of_node = j, of_offset = off'\<rparr>)"
proof -
  have nd: "nodes (w_files w) i = Some n" using at by (auto simp: at_path_def split: option.splits)
  define w1 where "w1 = w\<lparr>w_calls := Suc (w_calls w), w_open := (w_open w)(fd \<mapsto> \<lparr>of_node = i, of_offset = 0\<rparr>)\<rparr>"
  have seek: "os_Seek0 env fd w = (Inr (), w1)" using calm fd by (cases f) (simp add: calm_Seek0 w1_def)
  have now: "nodes (w_files w1) i = Some n" "w_open w1 fd = Some \<lparr>of_node = i, of_offset = 0\<rparr>"
    "nodes (w_files w1) j = Some m" "w_open w1 fd' = Some \<lparr>of_node = j, of_offset = length ([] :: string)\<rparr>"
    using nd m ne fd' by (simp_all add: w1_def)
  obtain w2 off m' where w2: "copy_opened env fd (os_Write env fd') (runtime_artifact_limit + 1) w1 = (Inr (content (nd_kind n)), w2)"
    "w_calls w1 \<le> w_calls w2" "w_files w2 = put_node j m' (w_files w1)" "nd_kind m' = Regular (content (nd_kind n))"
    "nd_uid m' = nd_uid m" "nd_links m' = nd_links m"
    "w_open w2 = (w_open w1)(fd \<mapsto> \<lparr>of_node = i, of_offset = off\<rparr>,
      fd' \<mapsto> \<lparr>of_node = j, of_offset = length (content (nd_kind n))\<rparr>)"
    using calm_transfer[OF calm ne(1,2) now(1,2,3) m(2) now(4), of "runtime_artifact_limit + 1"] assms(6) by auto
  have "extends (w_files w1) (w_files w2)"
    unfolding w2(3) by (rule extends_put[OF now(3)]) (simp add: same_kind_def m(2) w2(4))
  then have at2: "at_path p (w_files w2) = Some (i, n)"
    by (rule at_path_extends[rotated]) (use at now(1) ne(2) w2(3) in \<open>simp_all add: w1_def\<close>)
  obtain c where c: "w_calls w2 \<le> c" "ensureStable env ob w2 = (Inr (), later w2 c)"
    using yields_run[OF calm_ensureStable[OF calm at2, of fd]] w2(7) ne(1) by (auto simp: ob)
  have sync: "os_Sync env fd' (later w2 c) = (Inr (), later w2 (Suc c))"
    using calm_Sync[OF calm, of "later w2 c" fd'] w2(7) by (simp add: later_def)
  show ?thesis
    by (rule that[of "later w2 (Suc c)" m' off "length (content (nd_kind n))"])
      (use seek w2 c sync assms(6,7) in \<open>simp_all add: copy_source_def ob io_then_def io_bind_def io_wrap_def
        io_map_error_def io_guard_def io_return_def w1_def\<close>)
qed

lemma calm_fill:
  assumes calm: "calm env" and fresh: "fresh_fds w" and d: "path_ok d" "ordinary b" "real_path (w_files w) d"
    and dir: "entry (w_files w) d = Some e" "nodes (w_files w) e = Some nd" "nd_kind nd = Directory"
      "nd_perm nd = runtimeCacheDirectoryPermissions"
    and room: "entry (w_files w) (d @ [b]) = None" "\<And>k. w_calls w \<le> k \<Longrightarrow> nodes (w_files w) (pick_node env k) = None"
    and at: "at_path p (w_files w) = Some (i, n)" and fd: "w_open w fd = Some f" "of_node f = i"
    and ob: "ob = \<lparr>op_file = fd, op_path = p, op_identity = \<lparr>id_file = i, id_links = nd_links n\<rparr>, op_info = info_of i n\<rparr>"
    and bytes: "length (content (nd_kind n)) \<le> runtime_artifact_limit" "hex_encode (sha256 cr (content (nd_kind n))) = digest"
    and digest: "isLowerHex64 digest" and p: "filepath_Base p = b"
  shows "\<exists>w'. fill_execution_directory cr env p digest ob d w =
    (Inr \<lparr>rx_Path = d @ [b], rx_directory = d, rx_closed = False\<rparr>, w')"
proof -
  define w1 where "w1 = w\<lparr>w_calls := Suc (w_calls w)\<rparr>"
  have chmod: "os_Chmod env d runtimeCacheDirectoryPermissions w = (Inr (), w1)"
    using calm_Chmod[OF calm d(3) dir(1,2), of runtimeCacheDirectoryPermissions] dir(2,4)
    by (simp add: put_node_def fun_upd_idem w1_def)
  define j where "j = pick_node env (w_calls w1)"
  define fd' where "fd' = w_calls w1"
  define m where "m = \<lparr>nd_kind = Regular [], nd_uid = euid env, nd_perm = runtimeCacheSidecarPermissions, nd_links = 1,
    nd_mtime = tick env (w_calls w1)\<rparr>"
  define w2 where "w2 = w1\<lparr>w_calls := Suc (w_calls w1), w_files := add_entry (d @ [b]) j m (w_files w1),
    w_open := (w_open w1)(fd' \<mapsto> \<lparr>of_node = j, of_offset = 0\<rparr>)\<rparr>"
  have j: "nodes (w_files w1) j = None" using room(2) by (simp add: j_def w1_def)
  have none: "entry (w_files w1) (d @ [b]) = None" using room(1) by (simp add: w1_def)
  have create: "os_Create env (d @ [b]) runtimeCacheSidecarPermissions w1 = (Inr fd', w2)"
    unfolding w2_def fd'_def m_def j_def
    by (rule calm_Create[OF calm]) (use d(3) dir fresh none j in \<open>simp_all add: w1_def j_def is_directory_def fresh_fds_def\<close>)
  have ext2: "extends (w_files w) (w_files w2)" using extends_add[OF none j] by (simp add: w2_def w1_def)
  have i: "nodes (w_files w) i = Some n" using at by (auto simp: at_path_def split: option.splits)
  have ne: "fd \<noteq> fd'" "i \<noteq> j"
    using fresh fd(1) i j by (auto simp: fresh_fds_def fd'_def w1_def not_less_eq_eq dest: spec[of _ fd])
  have at2: "at_path p (w_files w2) = Some (i, n)"
    by (rule at_path_extends[OF at ext2]) (use i ne in \<open>simp add: w2_def w1_def\<close>)
  obtain w3 m' off off' where w3: "copy_source cr env digest ob fd' w2 = (Inr (), w3)" "w_calls w2 \<le> w_calls w3"
    "w_files w3 = put_node j m' (w_files w2)" "nd_kind m' = Regular (content (nd_kind n))" "nd_uid m' = nd_uid m"
    "nd_links m' = nd_links m"
    "w_open w3 = (w_open w2)(fd \<mapsto> \<lparr>of_node = i, of_offset = off\<rparr>, fd' \<mapsto> \<lparr>of_node = j, of_offset = off'\<rparr>)"
    by (rule calm_copy_source[OF calm at2 _ fd(2) ob bytes ne])
      (use ne fd fresh in \<open>auto simp: w2_def w1_def m_def fd'_def\<close>)
  define w4 where "w4 = w3\<lparr>w_calls := Suc (w_calls w3), w_open := (w_open w3)(fd' := None)\<rparr>"
  have close: "os_Close env fd' w3 = (Inr (), w4)" by (simp add: calm_Close[OF calm] w4_def)
  have ext3: "extends (w_files w2) (w_files w4)"
    unfolding w4_def using w3(3,4) extends_put[of "w_files w2" j m m']
    by (simp add: w2_def w1_def m_def same_kind_def)
  have there: "entry (w_files w4) (d @ [b]) = Some j" "nodes (w_files w4) j = Some m'" by (simp_all add: w4_def w3(3) w2_def)
  have real: "real_path (w_files w4) (d @ [b])"
    by (rule real_snoc[OF real_extends[OF real_extends[OF d(3) ext2] ext3] there]) (simp add: w3(4))
  define m4 where "m4 = m'\<lparr>nd_perm := runtimeCacheRuntimePermissions\<rparr>"
  define w5 where "w5 = w4\<lparr>w_calls := Suc (w_calls w4), w_files := put_node j m4 (w_files w4)\<rparr>"
  have protect: "os_Chmod env (d @ [b]) runtimeCacheRuntimePermissions w4 = (Inr (), w5)"
    unfolding w5_def m4_def by (rule calm_Chmod[OF calm real there])
  have real5: "real_path (w_files w5) (d @ [b])"
    by (rule real_extends[OF real]) (simp add: w5_def extends_put[OF there(2)] same_kind_def m4_def)
  have at5: "at_path (d @ [b]) (w_files w5) = Some (j, m4)"
    using real_at[OF real_prefix[OF real5]] there by (simp add: w5_def)
  have "fresh_fds w5"
    using fresh w3(2,7) fd(1) by (auto simp: fresh_fds_def w5_def w4_def w2_def w1_def fd'_def)
  then have "yields (verifyRuntimeArtifactFile cr env (d @ [b]) digest) () w5"
    using bytes digest w3(4-6)
    by (intro calm_verify[OF calm at5]) (simp_all add: m4_def m_def installed_file_def)
  from yields_run[OF this] obtain c where
    "verifyRuntimeArtifactFile cr env (d @ [b]) digest w5 = (Inr (), later w5 c)" by blast
  with chmod create w3(1) close protect show ?thesis
    using d(1,2)
    by (simp add: fill_execution_directory_def Let_def p filepath_join_ordinary protectRuntimeObject_def io_then_def
        io_bind_def io_wrap_def io_map_error_def io_on_error_def io_return_def)
qed

text \<open>There is room for the copy: numbers of nodes and temporary names that are not in use.\<close>

definition room :: "'u surroundings \<Rightarrow> world \<Rightarrow> path \<Rightarrow> bool" where
  "room env w d \<longleftrightarrow> inj (pick_node env) \<and>
     (\<forall>k \<ge> w_calls w. nodes (w_files w) (pick_node env k) = None \<and> CHR ''/'' \<notin> set (pick_name env k) \<and>
        (\<forall>q. prefix (d @ [execution_prefix @ pick_name env k]) q \<longrightarrow> entry (w_files w) q = None))"

lemma roomD:
  assumes "room env w d" and "w_calls w \<le> k"
  shows "nodes (w_files w) (pick_node env k) = None" "CHR ''/'' \<notin> set (pick_name env k)"
    "prefix (d @ [execution_prefix @ pick_name env k]) q \<Longrightarrow> entry (w_files w) q = None"
  using assms unfolding room_def by blast+

lemma room_later: "room env w d \<Longrightarrow> w_calls w \<le> c \<Longrightarrow> room env (later w c) d"
  unfolding room_def later_simps by (meson le_trans)

lemma calm_prepare:
  assumes calm: "calm env" and fresh: "fresh_fds w" and d: "path_ok (d @ [b])" "real_path (w_files w) d" "is_directory (w_files w) d"
    and room: "room env w d" and at: "at_path (d @ [b]) (w_files w) = Some (i, n)"
    and inst: "installed_file (euid env) runtimeCacheRuntimePermissions n"
    and bytes: "length (content (nd_kind n)) \<le> runtime_artifact_limit" "hex_encode (sha256 cr (content (nd_kind n))) = digest"
    and digest: "isLowerHex64 digest"
  shows "\<exists>e w'. prepareRuntimeExecutionCopy cr env (d @ [b]) digest None w = (Inr e, w')"
proof -
  have nd: "nodes (w_files w) i = Some n" using at by (auto simp: at_path_def split: option.splits)
  define w1 where "w1 = later w (Suc (w_calls w))"
  have lstat: "os_Lstat env (d @ [b]) w = (Inr (info_of i n), w1)"
    using calm_Lstat[OF calm at] by (simp add: w1_def later_def)
  define fd where "fd = Suc (w_calls w1)"
  define ob where "ob = \<lparr>op_file = fd, op_path = d @ [b], op_identity = \<lparr>id_file = i, id_links = nd_links n\<rparr>, op_info = info_of i n\<rparr>"
  define w2 where "w2 = w1\<lparr>w_calls := w_calls w1 + 6, w_open := (w_open w1)(fd \<mapsto> \<lparr>of_node = i, of_offset = 0\<rparr>)\<rparr>"
  have op: "openStableRuntimeObject env (d @ [b]) False True w1 = (Inr ob, w2)"
    unfolding w2_def ob_def fd_def
    by (rule calm_openStable[OF calm])
      (use at fresh_later[OF fresh] inst installed_in_order(1)[OF inst] in \<open>simp_all add: w1_def installed_file_def\<close>)
  define w3 where "w3 = w2\<lparr>w_calls := Suc (w_calls w2)\<rparr>"
  have protect: "os_Fchmod env fd runtimeCacheRuntimePermissions w2 = (Inr (), w3)"
    unfolding w3_def using inst nd by (intro calm_Fchmod[OF calm, where n = n and f = "\<lparr>of_node = i, of_offset = 0\<rparr>"]) (simp_all add: w2_def w1_def installed_file_def)
  let ?k = "w_calls w3"
  let ?d = "d @ [execution_prefix @ pick_name env ?k]"
  have at3: "at_path (d @ [b]) (w_files w3) = Some (i, n)" using at by (simp add: w3_def w2_def w1_def)
  have files3: "w_files w3 = w_files w" and calls3: "w_calls w \<le> ?k" by (simp_all add: w3_def w2_def w1_def)
  define m where "m = \<lparr>nd_kind = Directory, nd_uid = euid env, nd_perm = runtimeCacheDirectoryPermissions, nd_links = 2,
    nd_mtime = tick env ?k\<rparr>"
  define w4 where "w4 = w3\<lparr>w_calls := Suc ?k, w_files := add_entry ?d (pick_node env ?k) m (w_files w3)\<rparr>"
  have free: "entry (w_files w3) q = None" if "prefix ?d q" for q
    using roomD(3)[OF room calls3 that] files3 by simp
  have node: "nodes (w_files w3) (pick_node env k) = None" if "?k \<le> k" for k
    using roomD(1)[OF room, of k] calls3 that files3 by simp
  have mkdir: "os_MkdirTemp env d execution_prefix w3 = (Inr ?d, w4)"
    unfolding w4_def m_def runtimeCacheDirectoryPermissions_def
    by (rule calm_MkdirTemp[OF calm]) (use d free[of ?d] node[of ?k] files3 in simp_all)
  have ext: "extends (w_files w3) (w_files w4)"
    unfolding w4_def using free[of ?d] node[of ?k] by (simp add: extends_add)
  have there: "entry (w_files w4) ?d = Some (pick_node env ?k)" "nodes (w_files w4) (pick_node env ?k) = Some m"
    by (simp_all add: w4_def)
  have real: "real_path (w_files w4) ?d"
    by (rule real_snoc[OF real_extends[OF _ ext] there]) (use d(2) files3 in \<open>simp_all add: m_def\<close>)
  have at4: "at_path (d @ [b]) (w_files w4) = Some (i, n)"
    by (rule at_path_extends[OF at3 ext]) (use nd node[of ?k] files3 in \<open>auto simp: w4_def\<close>)
  have "\<exists>w'. fill_execution_directory cr env (d @ [b]) digest ob ?d w4 =
      (Inr \<lparr>rx_Path = ?d @ [b], rx_directory = ?d, rx_closed = False\<rparr>, w')"
  proof (rule calm_fill[OF calm _ _ _ real there])
    show "fresh_fds w4" using fresh by (auto simp: fresh_fds_def w4_def w3_def w2_def w1_def fd_def)
    show "path_ok ?d" using d(1) roomD(2)[OF room calls3] by (auto simp: path_ok_def ordinary_def execution_prefix_def)
    show "ordinary b" using d(1) by (simp add: path_ok_def)
    show "entry (w_files w4) (?d @ [b]) = None" using free[of "?d @ [b]"] by (simp add: w4_def)
    show "nodes (w_files w4) (pick_node env k) = None" if "w_calls w4 \<le> k" for k
      using node[of k] room that by (auto simp: w4_def room_def dest: injD)
    show "w_open w4 fd = Some \<lparr>of_node = i, of_offset = 0\<rparr>" by (simp add: w4_def w3_def w2_def)
  qed (use at4 bytes digest in \<open>simp_all add: m_def ob_def filepath_Base_def\<close>)
  then obtain v where "fill_execution_directory cr env (d @ [b]) digest ob ?d w4 =
      (Inr \<lparr>rx_Path = ?d @ [b], rx_directory = ?d, rx_closed = False\<rparr>, v)" by blast
  with lstat op protect mkdir show ?thesis
    using inst digest
    by (simp add: prepareRuntimeExecutionCopy_def io_then_def io_bind_def io_guard_def io_return_def io_wrap_def
        io_map_error_def io_on_error_def io_defer_def verifyRuntimeCacheFileMode_def protectOpenedRuntimeObject_def
        SameFile_def info_of_def ob_def installed_file_def filepath_Dir_def modes_plain)
qed

section \<open>Starting an installed engine\<close>

text \<open>
  A process whose cache is in order, for a manifest that verifies at any time and names a URL that the
  transport policy allows.
\<close>

definition ready :: "sdk_process \<Rightarrow> runtimeArtifactResolver \<Rightarrow> runtimeArtifactManifest \<Rightarrow> path \<Rightarrow> world \<Rightarrow> bool" where
  "ready h r m root w \<longleftrightarrow>
     installed h r m root (w_files w) \<and> fresh_fds w \<and> room (h_env h) w (root @ runtime_directories r) \<and>
     (\<forall>k. verifyRuntimeManifest h m (rr_config r) (h_now h k) = Inr ()) \<and>
     (\<exists>policy u. transportPolicy h r = Inr policy \<and>
        validateArtifactURL (h_net h) policy (DownloadURL (Claims m)) = Inr u)"

lemma calm_private: "calm env \<Longrightarrow> private_path env p"
  by (simp add: calm_def private_path_def)

lemma runtime_started:
  assumes calm: "calm (h_env h)" and ready: "ready h r m root w" and key: "trim_space key \<noteq> [] \<or> cached_only key flags"
  obtains e w' where "resolveRuntimeExecution h r key flags w = (Inr e, w')" and "w_requests w' = w_requests w"
    and "checked_file (h_crypto h) (euid (h_env h)) (rx_Path e) (SHA256 (Claims m)) (w_files w')"
proof -
  let ?d = "root @ runtime_directories r" and ?b = "expectedRuntimeExecutableName r"
  from ready obtain policy u where inst: "installed h r m root (w_files w)" and fresh: "fresh_fds w"
    and room: "room (h_env h) w ?d" and verified: "\<And>k. verifyRuntimeManifest h m (rr_config r) (h_now h k) = Inr ()"
    and policy: "transportPolicy h r = Inr policy" "validateArtifactURL (h_net h) policy (DownloadURL (Claims m)) = Inr u"
    by (auto simp: ready_def)
  obtain c where c: "w_calls w \<le> c" "resolveRuntimePath h r key flags w = (Inr (?d @ [?b]), later w c)"
    using yields_run[OF installed_resolves[OF calm fresh inst key policy verified]] by auto
  have inst': "installed h r m root (w_files (later w c))" using inst by simp
  obtain c' where c': "c \<le> c'"
    "readRuntimeManifestSidecar (h_env h) (manifest_path (?d @ [?b])) (later w c) = (Inr m, later w c')"
    using yields_run[OF installed_sidecar[OF calm fresh_later[OF fresh c(1)] inst']] by auto
  obtain i n where exe: "at_path (?d @ [?b]) (w_files w) = Some (i, n)"
    "installed_file (euid (h_env h)) runtimeCacheRuntimePermissions n"
    "length (content (nd_kind n)) \<le> runtime_artifact_limit"
    "hex_encode (sha256 (h_crypto h) (content (nd_kind n))) = SHA256 (Claims m)"
    using inst by (auto simp: installed_def node_at_Some Let_def)
  have real: "real_path (w_files w) ?d" using inst by (simp add: installed_def Let_def)
  have "node_at (private_directory (euid (h_env h))) ?d (w_files w)"
    using inst by (simp add: installed_def Let_def runtime_directories_def)
  then have dir: "is_directory (w_files w) ?d"
    using real_at[of "w_files w" "root @ take 2 (runtime_directories r)"] real_prefix[of _ "root @ take 2 (runtime_directories r)"] real
    by (auto simp: node_at_Some is_directory_def private_directory_def runtime_directories_def bind_eq_Some_conv)
  have digest: "isLowerHex64 (SHA256 (Claims m))"
    using inst verified by (auto simp: installed_def node_at_Some Let_def intro: verified_digest)
  have "path_ok (?d @ [?b])"
    using inst executable_ordinary by (simp add: installed_def path_ok_def Let_def)
  then obtain e w' where prepared:
    "prepareRuntimeExecutionCopy (h_crypto h) (h_env h) (?d @ [?b]) (SHA256 (Claims m)) None (later w c') = (Inr e, w')"
    using calm_prepare[OF calm, of "later w c'" ?d ?b i n "h_crypto h" "SHA256 (Claims m)"] fresh_later[OF fresh, of c']
      room_later[OF room, of c'] real dir exe digest c(1) c'(1) by auto
  have run: "resolveRuntimeExecution h r key flags w = (Inr e, w')"
    using c(2) c'(2) prepared verified installed_path[OF inst]
    by (simp add: resolveRuntimeExecution_def execute_resolved_def io_bind_def io_then_def io_wrap_def io_map_error_def io_lift_def)
  have "sent (\<lambda>_. False) (later w c') w'"
    by (rule io_keepsD[OF net.keeps_prepare prepared]) simp
  then have "w_requests w' = w_requests w" by (auto simp: sent_def list_all_iff)
  with run execution_copy_checked[OF prepared calm_private[OF calm]] show ?thesis using that by blast
qed

text \<open>
  A request to the licensing service: the one that asks for a manifest, or one for what a verified
  manifest names.
\<close>

definition service_request :: "sdk_process \<Rightarrow> runtimeArtifactResolver \<Rightarrow> http_request \<Rightarrow> bool" where
  "service_request h r rq \<longleftrightarrow>
     (\<exists>u o_url. rq_url rq = url_String (h_net h) u \<and> canonical_url u \<and> Scheme u = ''https'' \<and>
      url_Parse (h_net h) (origin_text (h_net h) ''https://licensing.loadstrike.com'') = Some o_url \<and>
      equal_fold (Host u) (Host o_url) \<and>
      (rq_method rq = ''POST'' \<or>
       rq_method rq = ''GET'' \<and> rq_body rq = [] \<and>
       (\<exists>m now. verifyRuntimeManifest h m (rr_config r) now = Inr () \<and> url_Parse (h_net h) (DownloadURL (Claims m)) = Some u)))"

lemma allowed_service:
  assumes "trim_space (rr_resolveEndpoint r) = []" and "\<not> rr_httpClient r" and "\<not> h_isGoTestBinary h"
    and "trim_space (h_token h) = []" and "allowed_request h r rq"
  shows "service_request h r rq"
proof -
  let ?service = "''https://licensing.loadstrike.com''"
  have policies: "newRuntimeTransportPolicy (h_net h) ?service False = Inr policy"
    if "transportPolicy h r = Inr policy \<or> resolveTransportPolicy h r = Inr policy" for policy
    using that assms(1-4)
    by (auto simp: transportPolicy_def resolveTransportPolicy_def resolveLicensingAPIBaseURL_def
        resolveCompiledBlackboxLicensingAPIBaseURL_def)
  have goes: "canonical_url u \<and> Scheme u = ''https'' \<and> (\<exists>o_url.
      url_Parse (h_net h) (origin_text (h_net h) ?service) = Some o_url \<and> equal_fold (Host u) (Host o_url)) \<and>
      url_Parse (h_net h) raw = Some u"
    if "transportPolicy h r = Inr policy \<or> resolveTransportPolicy h r = Inr policy"
      and "validateURL (h_net h) policy raw label = Inr u" for policy raw label u
    using validated_origin[OF policies[OF that(1)] that(2)] validated_facts(1,2)[OF that(2)] by metis
  show ?thesis
    using assms(5) goes
    unfolding service_request_def allowed_request_def resolve_request_def download_request_def validateResolveURL_def
      validateArtifactURL_def
    by blast
qed

lemma executed_signed:
  assumes "resolveRuntimeExecution h r key flags w = (Inr e, w')" and "private_path (h_env h) (rx_Path e)"
  shows "\<exists>m keys k. configuredRuntimePublisherKeyring h = Inr keys \<and>
    verifyRuntimeManifestV2 (h_crypto h) (Inr m) (rr_config r) keys (h_now h k) = Inr m \<and>
    checked_file (h_crypto h) (euid (h_env h)) (rx_Path e) (SHA256 (Claims m)) (w_files w')"
proof -
  from assms(1) obtain p q m w1 w2 where
    1: "readRuntimeManifestSidecar (h_env h) q w1 = (Inr m, w2)" and
    2: "execute_resolved h r p m w2 = (Inr e, w')"
    by (auto simp: resolveRuntimeExecution_def io_Inr split: option.splits)
  from 2 have 3: "verifyRuntimeManifest h m (rr_config r) (h_now h (w_calls w2)) = Inr ()"
    "prepareRuntimeExecutionCopy (h_crypto h) (h_env h) p (SHA256 (Claims m)) None w2 = (Inr e, w')"
    by (auto simp: execute_resolved_def io_Inr)
  show ?thesis
    using verified_manifest[OF 3(1) read_sidecar_parsed[OF 1]] execution_copy_checked[OF 3(2) assms(2)] by blast
qed

section \<open>Properties\<close>

text \<open>
  C9: An engine that is installed starts. On a system where no call fails and no other process
  interferes, with the cache in order, a manifest that verifies and either a runner key or the leave of
  an agent to use its cache, resolving succeeds without a request to the network and gives a private
  copy that hashes to the manifest's digest.
\<close>

theorem installed_runtime_starts:
  assumes "calm (h_env h)" and "ready h r m root w" and "trim_space key \<noteq> [] \<or> cached_only key flags"
  shows "\<exists>e w'. resolveRuntimeExecution h r key flags w = (Inr e, w') \<and> w_requests w' = w_requests w \<and>
    checked_file (h_crypto h) (euid (h_env h)) (rx_Path e) (SHA256 (Claims m)) (w_files w')"
  using runtime_started[OF assms] by metis

definition sample_surroundings :: "go_url surroundings" where
  "sample_surroundings =
     \<lparr>fault = (\<lambda>_. None), meddle = (\<lambda>_ fs. fs), written = (\<lambda>_. 0), pick_fd = (\<lambda>k. k), pick_node = (\<lambda>k. k + 10),
      pick_name = (\<lambda>_. ''x''), tick = (\<lambda>_. 0), answer = (\<lambda>_ _. Unreachable ''no route''), euid = 1000, umask = 0\<rparr>"

definition sample_process :: sdk_process where
  "sample_process =
     \<lparr>h_crypto = sample_crypto, h_net = sample_net, h_env = sample_surroundings, h_now = (\<lambda>_. 1755000000), h_cwd = Inr [],
      h_UserCacheDir = Inr ''/c'', h_isGoTestBinary = False, h_token = [], h_Getenv = (\<lambda>_. []), h_keyring = sample_keyring\<rparr>"

definition sample_resolver :: runtimeArtifactResolver where
  "sample_resolver = \<lparr>rr_config = sample_config, rr_cacheDir = [], rr_resolveEndpoint = [], rr_httpClient = False\<rparr>"

definition sample_directory :: node where
  "sample_directory = \<lparr>nd_kind = Directory, nd_uid = 1000, nd_perm = 0x1C0, nd_links = 2, nd_mtime = 0\<rparr>"

definition sample_files :: files where
  "sample_files =
     (let c = ''c''; r = ''runtime''; v = ''v0.2.3''; p = ''linux-amd64''; x = ''loadstrike-runtime'' in
      \<lparr>names = [([c], 0), ([c, r], 1), ([c, r, v], 2), ([c, r, v, p], 3), ([c, r, v, p, x], 4),
         ([c, r, v, p, x @ ''.manifest.json''], 5)],
       nodes = [0 \<mapsto> sample_directory, 1 \<mapsto> sample_directory, 2 \<mapsto> sample_directory, 3 \<mapsto> sample_directory,
         4 \<mapsto> \<lparr>nd_kind = Regular ''engine'', nd_uid = 1000, nd_perm = 0x140, nd_links = 1, nd_mtime = 0\<rparr>,
         5 \<mapsto> \<lparr>nd_kind = Regular (descriptor sample_manifest), nd_uid = 1000, nd_perm = 0x180, nd_links = 1, nd_mtime = 0\<rparr>]\<rparr>)"

definition sample_world :: world where
  "sample_world = \<lparr>w_files = sample_files, w_open = Map.empty, w_bodies = 0, w_requests = [], w_calls = 0\<rparr>"

definition sample_read :: runtimeArtifactManifest where
  "sample_read = sample_manifest\<lparr>canonicalJSON := descriptor sample_manifest\<rparr>"

lemma sample_calm: "calm sample_surroundings"
  by (simp add: calm_def sample_surroundings_def)

lemma trim_nothing: "trim_space [] = []"
  by (simp add: trim_space_def trim_by.simps space_runes_def)

lemma sample_select: "select_root sample_process [] = Inr [''c'']"
  by (simp add: select_root_def selectRuntimeCacheRoot_def sample_process_def trim_space_def trim_by.simps space_runes_def
      abs_path_def)

lemma sample_directories: "runtime_directories sample_resolver = [''runtime'', ''v0.2.3'', ''linux-amd64'']"
  by (simp add: runtime_directories_def sample_resolver_def sample_config_def)

lemma sample_walk: "real_path sample_files [''c'', ''runtime'', ''v0.2.3'', ''linux-amd64'']"
  by (simp add: real_path_def sample_files_def entry_def sample_directory_def Let_def)

lemma sample_digest: "hex_encode (sha256 sample_crypto ''engine'') = SHA256 sample_claims"
proof -
  have "hex_encode (replicate n CHR 0xAA) = replicate (2 * n) CHR ''a''" for n
    by (induction n) (simp_all add: hex_encode_def hex_digit_def byte_nat_def char_of_def bit_0 bit_numeral_rec)
  moreover have "''engine'' \<noteq> replicate 32 CHR ''k''" by (simp add: numeral_eq_Suc)
  ultimately show ?thesis by (simp add: sample_crypto_def sample_claims_def)
qed

lemma sample_installed: "installed sample_process sample_resolver sample_read [''c''] sample_files"
proof -
  have claims: "Claims sample_manifest = sample_claims" by (simp add: sample_manifest_def)
  have sample: "rr_cacheDir sample_resolver = []" "euid (h_env sample_process) = 1000" "h_crypto sample_process = sample_crypto"
    by (simp_all add: sample_resolver_def sample_process_def sample_surroundings_def)
  have exe: "expectedRuntimeExecutableName sample_resolver = ''loadstrike-runtime''"
    by (simp add: expectedRuntimeExecutableName_def sample_resolver_def sample_config_def)
  have place: "place sample_files (p @ [c]) = Some (p @ [c])"
    if "prefix p [''c'', ''runtime'', ''v0.2.3'', ''linux-amd64'']" for p c
    using that sample_walk real_prefix by (auto simp: prefix_def intro: real_place)
  have dir: "node_at P (p @ [c]) sample_files \<longleftrightarrow>
      (case Option.bind (entry sample_files (p @ [c])) (nodes sample_files) of None \<Rightarrow> False | Some n \<Rightarrow> P n)"
    if "prefix p [''c'', ''runtime'', ''v0.2.3'', ''linux-amd64'']" for P p c
    using place[OF that] by (simp add: node_at_def at_path_def look_def split: option.splits)
  have nodes_: "node_at P [''c''] sample_files \<longleftrightarrow> P sample_directory"
    "node_at P [''c'', ''runtime''] sample_files \<longleftrightarrow> P sample_directory"
    "node_at P [''c'', ''runtime'', ''v0.2.3''] sample_files \<longleftrightarrow> P sample_directory"
    "node_at P [''c'', ''runtime'', ''v0.2.3'', ''linux-amd64''] sample_files \<longleftrightarrow> P sample_directory"
    "node_at P [''c'', ''runtime'', ''v0.2.3'', ''linux-amd64'', ''loadstrike-runtime''] sample_files \<longleftrightarrow>
       P \<lparr>nd_kind = Regular ''engine'', nd_uid = 1000, nd_perm = 0x140, nd_links = 1, nd_mtime = 0\<rparr>"
    "node_at P [''c'', ''runtime'', ''v0.2.3'', ''linux-amd64'', ''loadstrike-runtime.manifest.json''] sample_files \<longleftrightarrow>
       P \<lparr>nd_kind = Regular (descriptor sample_manifest), nd_uid = 1000, nd_perm = 0x180, nd_links = 1, nd_mtime = 0\<rparr>" for P
    using dir[of "[]" P "''c''"] dir[of "[''c'']" P] dir[of "[''c'', ''runtime'']" P] dir[of "[''c'', ''runtime'', ''v0.2.3'']" P]
      dir[of "[''c'', ''runtime'', ''v0.2.3'', ''linux-amd64'']" P]
    by (simp_all add: sample_files_def entry_def Let_def)
  show ?thesis
    using sample_select sample_walk sample_digest sample_parses sample_size
    by (simp add: installed_def Let_def sample_directories exe nodes_ claims manifest_path_def sample path_ok_def ordinary_def
        in_order_def private_directory_def installed_file_def others_may_write_def runtimeCacheDirectoryPermissions_def
        runtimeCacheRuntimePermissions_def runtimeCacheSidecarPermissions_def runtime_artifact_limit_def max_manifest_bytes_def
        sample_read_def sample_directory_def)
qed

lemma sample_ready: "ready sample_process sample_resolver sample_read [''c''] sample_world"
proof -
  have "room sample_surroundings sample_world [''c'', ''runtime'', ''v0.2.3'', ''linux-amd64'']"
    by (auto simp: room_def sample_surroundings_def sample_world_def sample_files_def sample_directory_def entry_def Let_def
        execution_prefix_def prefix_def map_of_eq_None_iff intro: injI)
  moreover have "verifyRuntimeManifest sample_process sample_read sample_config 1755000000 = Inr ()"
    using sample_parses sample_keyring_parses verify_ignores_text[OF sample_verifies, of "descriptor sample_manifest"]
    by (simp add: verifyRuntimeManifest_def configuredRuntimePublisherKeyring_def sample_process_def sample_read_def)
      (simp add: descriptor_def)
  moreover have "transportPolicy sample_process sample_resolver = Inr sample_policy"
    using sample_policy_made
    by (simp add: transportPolicy_def sample_resolver_def sample_process_def trim_nothing sample_origin_def)
  moreover have "DownloadURL sample_claims = sample_origin @ sample_artifact_path"
    by (simp add: sample_claims_def sample_origin_def sample_artifact_path_def)
  then have "validateArtifactURL sample_net sample_policy (DownloadURL (Claims sample_read)) = Inr (sample_url sample_artifact_path)"
    using sample_artifact_allowed by (simp add: validateArtifactURL_def sample_read_def sample_manifest_def)
  ultimately show ?thesis
    using sample_installed
    by (auto simp: ready_def sample_directories fresh_fds_def)
      (simp_all add: sample_world_def sample_process_def sample_resolver_def)
qed

lemma installed_runtime_starts_witness:
  "\<exists>e w'. resolveRuntimeExecution sample_process sample_resolver ''key'' [] sample_world = (Inr e, w') \<and> w_requests w' = [] \<and>
    checked_file sample_crypto 1000 (rx_Path e) (replicate 64 CHR ''a'') (w_files w')"
proof -
  have "trim_space ''key'' \<noteq> []" by (simp add: trim_space_def trim_by.simps space_runes_def)
  with installed_runtime_starts[OF _ sample_ready, of "''key''" "[]"] sample_calm show ?thesis
    by (simp add: sample_process_def sample_surroundings_def sample_world_def sample_read_def sample_manifest_def sample_claims_def)
qed

text \<open>
  What is executed was signed. When an execution is resolved, the private copy it names is a regular
  file of the current user with mode 0500 and a single link, and its bytes hash to the digest of a
  manifest that was verified with the keys of the release: for this resolver's version and platform,
  in force at the time of the check, signed by a trusted key. Everything else may fail or be changed
  by other processes at any system call, the cache included; only the private copy itself is assumed
  to be left alone.
\<close>

theorem executed_runtime_signed:
  assumes "resolveRuntimeExecution h r key flags w = (Inr e, w')" and "private_path (h_env h) (rx_Path e)"
  shows "\<exists>m keys k. configuredRuntimePublisherKeyring h = Inr keys \<and>
    verifyRuntimeManifestV2 (h_crypto h) (Inr m) (rr_config r) keys (h_now h k) = Inr m \<and>
    checked_file (h_crypto h) (euid (h_env h)) (rx_Path e) (SHA256 (Claims m)) (w_files w')"
  using assms by (rule executed_signed)

lemma executed_runtime_signed_witness:
  "\<exists>e w' m keys k. resolveRuntimeExecution sample_process sample_resolver ''key'' [] sample_world = (Inr e, w') \<and>
    configuredRuntimePublisherKeyring sample_process = Inr keys \<and>
    verifyRuntimeManifestV2 sample_crypto (Inr m) sample_config keys (h_now sample_process k) = Inr m \<and>
    checked_file sample_crypto 1000 (rx_Path e) (SHA256 (Claims m)) (w_files w')"
proof -
  have key: "trim_space ''key'' \<noteq> [] \<or> cached_only ''key'' []" by (simp add: trim_space_def trim_by.simps space_runes_def)
  have calm: "calm (h_env sample_process)" using sample_calm by (simp add: sample_process_def)
  obtain e w' where run: "resolveRuntimeExecution sample_process sample_resolver ''key'' [] sample_world = (Inr e, w')"
    using runtime_started[OF calm sample_ready key] by metis
  moreover have "h_crypto sample_process = sample_crypto" "euid (h_env sample_process) = 1000"
    "rr_config sample_resolver = sample_config"
    by (simp_all add: sample_process_def sample_surroundings_def sample_resolver_def)
  ultimately show ?thesis using executed_runtime_signed[OF run calm_private[OF calm]] by auto
qed

end
