(* ===== verification/Run_Outcome.thy ===== *)
theory Run_Outcome
  imports Runtime_Launch Started_Runtime
begin

text \<open>
  What holds of a whole run of a context, however it ends: the engine it starts, the requests it sends,
  what it leaves open and what reaches the terminal.
\<close>

section \<open>Cases of a run\<close>

lemma context_Run_cases:
  assumes "context_Run L c args l = (r, c', l')"
  obtains (checked) "l' = l"
  | (started) c0 d where "c = Some c0" and "c' = Some d" and "retries_changed c0 d" and "\<not> needs_key d"
      and "start_run L d l = (r, l')"
proof (cases c)
  case None
  with assms show ?thesis by (simp add: context_Run_def checked)
next
  case (Some c0)
  have limited: "retries_changed c0 (snd (applyRunArgs args c0))"
    using run_args_limited by blast
  show ?thesis
  proof (cases "length (ctx_scenarios c0) = 0 \<and> length (ctx_trafficMixes c0) = 0")
    case True
    with assms Some show ?thesis by (simp add: context_Run_def checked)
  next
    case False
    obtain e d where d: "applyRunArgs args c0 = (e, d)" by fastforce
    show ?thesis
    proof (cases "e = None \<and> \<not> needs_key d")
      case True
      with assms Some False d limited show ?thesis
        by (intro started [of c0 d]) (auto simp: context_Run_def split: prod.splits)
    next
      case False
      with assms Some \<open>\<not> (length (ctx_scenarios c0) = 0 \<and> length (ctx_trafficMixes c0) = 0)\<close> d show ?thesis
        by (cases e) (auto simp: context_Run_def intro: checked)
    qed
  qed
qed

lemma retries_changed_same:
  "retries_changed c d \<Longrightarrow> ctx_RunnerKey d = ctx_RunnerKey c \<and> ctx_NodeType d = ctx_NodeType c \<and>
     ctx_NatsServerURL d = ctx_NatsServerURL c"
  by (auto simp: retries_changed_def)

text \<open>A relation that every started run keeps holds of a run.\<close>

lemma context_Run_keeps:
  assumes "\<And>l. Q l l"
    and "\<And>c0 d. c = Some c0 \<Longrightarrow> retries_changed c0 d \<Longrightarrow> \<not> needs_key d \<Longrightarrow> Q l (snd (start_run L d l))"
    and "context_Run L c args l = (r, c', l')"
  shows "Q l l'"
  using assms(3)
proof (cases rule: context_Run_cases)
  case (started c0 d)
  with assms(2) [of c0 d] show ?thesis by simp
qed (simp add: assms(1))

section \<open>The commands of a run\<close>

definition no_command :: "'a run \<Rightarrow> bool" where
  "no_command m \<longleftrightarrow> (\<forall>l. l_commands (snd (m l)) = l_commands l)"

text \<open>At most one command, with a property.\<close>

definition at_most_one :: "(command \<Rightarrow> bool) \<Rightarrow> 'a run \<Rightarrow> bool" where
  "at_most_one P m \<longleftrightarrow>
     (\<forall>l. l_commands (snd (m l)) = l_commands l \<or> (\<exists>cmd. l_commands (snd (m l)) = l_commands l @ [cmd] \<and> P cmd))"

lemma no_command_bind:
  assumes "no_command m" and "\<And>l x l'. m l = (Inr x, l') \<Longrightarrow> at_most_one P (f x)"
  shows "at_most_one P (run_bind m f)"
  unfolding at_most_one_def
proof
  fix l
  obtain r l' where m: "m l = (r, l')" by fastforce
  with assms(1) have same: "l_commands l' = l_commands l" by (metis no_command_def snd_conv)
  show "l_commands (snd (run_bind m f l)) = l_commands l \<or>
      (\<exists>cmd. l_commands (snd (run_bind m f l)) = l_commands l @ [cmd] \<and> P cmd)"
  proof (cases r)
    case (Inr x)
    with m assms(2) have "at_most_one P (f x)" by blast
    with m Inr same show ?thesis by (auto simp: at_most_one_def run_bind_def) metis
  qed (use m same in \<open>simp add: run_bind_def\<close>)
qed

lemma one_bind:
  assumes "at_most_one P m" and "\<And>x. no_command (f x)"
  shows "at_most_one P (run_bind m f)"
  unfolding at_most_one_def
proof
  fix l
  obtain r l' where m: "m l = (r, l')" by fastforce
  with assms show "l_commands (snd (run_bind m f l)) = l_commands l \<or>
      (\<exists>cmd. l_commands (snd (run_bind m f l)) = l_commands l @ [cmd] \<and> P cmd)"
    unfolding at_most_one_def no_command_def run_bind_def by (metis (no_types, lifting) snd_conv old.prod.case sum.case_eq_if)
qed

lemma no_command_one: "no_command m \<Longrightarrow> at_most_one P m"
  by (simp add: no_command_def at_most_one_def)

lemma one_defer: "at_most_one P m \<Longrightarrow> (\<And>l. l_commands (g l) = l_commands l) \<Longrightarrow> at_most_one P (run_defer g m)"
  unfolding at_most_one_def run_defer_def by (simp add: case_prod_unfold)

lemma no_command_then: "no_command m \<Longrightarrow> (\<And>x. no_command (f x)) \<Longrightarrow> no_command (run_bind m f)"
  unfolding no_command_def run_bind_def by (simp add: case_prod_unfold split: sum.splits)

lemma no_command_calls:
  "no_command (run_io n)" "no_command (run_lift r)" "no_command (run_fail e)" "no_command (startRuntimeHostServer L)"
  "no_command (startRuntimeHTTPHostServer L)" "no_command (build_plan L c host)"
  by (auto simp: no_command_def run_io_def run_lift_def run_fail_def startRuntimeHostServer_def
      startRuntimeHTTPHostServer_def build_plan_def split: prod.splits sum.splits plan_result.splits)

lemma no_command_result: "no_command (read_result L p)"
  unfolding read_result_def by (intro no_command_then no_command_calls)

lemma one_command: "P cmd \<Longrightarrow> at_most_one P (run_command L cmd options)"
  by (auto simp: at_most_one_def run_command_def split: prod.splits sum.splits)

text \<open>The command of a run: the engine at the path of an execution that was resolved with the run's key.\<close>

definition resolved_command :: "launch_env \<Rightarrow> contextState \<Rightarrow> command \<Rightarrow> bool" where
  "resolved_command L c cmd \<longleftrightarrow>
     (\<exists>execution w w' address tempDir.
        resolveRuntimeExecution (le_process L) (run_resolver L) (ctx_RunnerKey c) [cached_agent c] w = (Inr execution, w') \<and>
        cmd = runtime_command (rx_Path execution) address (tempDir @ [''plan.json'']) (tempDir @ [''result.json'']))"

lemma one_directory:
  assumes "resolveRuntimeExecution (le_process L) (run_resolver L) (ctx_RunnerKey c) [cached_agent c] w = (Inr execution, w')"
  shows "at_most_one (resolved_command L c) (run_in_directory L c address plan (rx_Path execution) tempDir)"
proof -
  have "no_command (case e of Some e \<Rightarrow> run_fail (RunFailed (newRuntimeFailure (Some e) d [ctx_RunnerKey c]))
      | None \<Rightarrow> read_result L p)" for e d p
    by (cases e) (simp_all add: no_command_result no_command_calls)
  moreover have "resolved_command L c (runtime_command (rx_Path execution) address (tempDir @ [''plan.json'']) (tempDir @ [''result.json'']))"
    using assms unfolding resolved_command_def by blast
  ultimately show ?thesis
    unfolding run_in_directory_def Let_def case_prod_unfold
    by (intro no_command_bind no_command_calls one_bind one_command)
qed

lemma after_io_commands [simp]: "l_commands (after_io m l) = l_commands l"
  by (simp add: after_io_def)

lemma one_execution:
  assumes "resolveRuntimeExecution (le_process L) (run_resolver L) (ctx_RunnerKey c) [cached_agent c] w = (Inr execution, w')"
  shows "at_most_one (resolved_command L c) (run_execution L c address plan execution)"
  unfolding run_execution_def
  by (intro one_defer no_command_bind no_command_calls one_directory [OF assms]) simp_all

lemma run_io_Inr: "run_io m l = (Inr x, l') \<Longrightarrow> \<exists>w'. m (l_world l) = (Inr x, w')"
  by (auto simp: run_io_def split: prod.splits sum.splits)

lemma one_planned: "at_most_one (resolved_command L c) (run_planned L c address plan)"
  unfolding run_planned_def
  by (intro no_command_bind no_command_calls) (auto dest!: run_io_Inr intro: one_execution)

lemma one_run: "at_most_one (resolved_command L c) (start_run L c)"
proof -
  have "at_most_one (resolved_command L c) (run_defer close_registry (runViaPrivateRuntime L c))"
    unfolding runViaPrivateRuntime_def
    by (intro one_defer no_command_bind no_command_calls one_planned)
      (simp_all add: close_registry_def grpc_Close_def httpHost_Close_def)
  then show ?thesis
    unfolding at_most_one_def start_run_def by (auto dest: spec [of _ "_\<lparr>l_registry := newRuntimeCallbackRegistry (le_entropy L)\<rparr>"])
qed

text \<open>
  An engine that was signed: a file of the current user, whose bytes hash to the digest of a manifest
  that was verified for the version and platform of the SDK.
\<close>

definition signed_engine :: "launch_env \<Rightarrow> path \<Rightarrow> files \<Rightarrow> bool" where
  "signed_engine L path fs \<longleftrightarrow>
     (\<exists>m keys k. configuredRuntimePublisherKeyring (le_process L) = Inr keys \<and>
       verifyRuntimeManifestV2 (h_crypto (le_process L)) (Inr m) (rr_config (run_resolver L)) keys
         (h_now (le_process L) k) = Inr m \<and>
       checked_file (h_crypto (le_process L)) (euid (h_env (le_process L))) path (SHA256 (Claims m)) fs)"

lemma resolved_signed:
  assumes "\<And>p. private_path (h_env (le_process L)) p" and "resolved_command L c cmd"
  shows "\<exists>path address tempDir fs.
    cmd = runtime_command path address (tempDir @ [''plan.json'']) (tempDir @ [''result.json'']) \<and> signed_engine L path fs"
proof -
  from assms(2) obtain e w w' address tempDir where
    run: "resolveRuntimeExecution (le_process L) (run_resolver L) (ctx_RunnerKey c) [cached_agent c] w = (Inr e, w')" and
    cmd: "cmd = runtime_command (rx_Path e) address (tempDir @ [''plan.json'']) (tempDir @ [''result.json''])"
    unfolding resolved_command_def by blast
  have "signed_engine L (rx_Path e) (w_files w')"
    using executed_signed [OF run assms(1)] unfolding signed_engine_def .
  with cmd show ?thesis by blast
qed

section \<open>What a run leaves behind\<close>

text \<open>Both servers are down and the registry is closed.\<close>

definition shut :: "launch \<Rightarrow> bool" where
  "shut l \<longleftrightarrow> \<not> l_grpc l \<and> \<not> l_http l \<and> rg_closed (l_registry l)"

text \<open>A server that a run starts is stopped by it.\<close>

lemma run_defer_snd: "snd (run_defer g m l) = g (snd (m l))"
  by (simp add: run_defer_def case_prod_unfold)

lemma started_shut:
  assumes "\<not> l_grpc l" and "\<not> l_http l"
  shows "shut (snd (start_run L c l))"
proof -
  have http: "\<not> l_http (snd (run_bind (startRuntimeHTTPHostServer L) (\<lambda>host. run_defer httpHost_Close (f host)) l))"
    if "\<not> l_http l" for f :: "runtimeHTTPHostHandle \<Rightarrow> runResult run" and l
    using that by (simp add: run_bind_def startRuntimeHTTPHostServer_def run_defer_snd httpHost_Close_def split: sum.splits)
  have "\<not> l_grpc (snd (runViaPrivateRuntime L c l)) \<and> \<not> l_http (snd (runViaPrivateRuntime L c l))" if "\<not> l_grpc l" "\<not> l_http l" for l
    using that http [of "l\<lparr>l_grpc := True\<rparr>"]
    by (simp add: runViaPrivateRuntime_def run_bind_def [of "startRuntimeHostServer L"] startRuntimeHostServer_def
        run_defer_snd grpc_Close_def split: sum.splits)
  then show ?thesis
    using assms by (simp add: start_run_def run_defer_snd close_registry_def shut_def registry_Close_closed)
qed

lemma offline_run_effect:
  assumes "cached_only (ctx_RunnerKey c) [cached_agent c]"
  shows "run_effect (in_world (sent (\<lambda>_. False))) L c"
  using assms
  by (intro net.run_effect_in_world launch_effects net.keeps_offline net.keeps_executeRuntimeCommand)

section \<open>Properties\<close>

text \<open>
  C5: However a run ends, the files and response bodies that are open are those that were open before;
  and it is refused before anything happens, or both of its servers are down and its registry is closed.
\<close>

theorem run_closes_everything:
  assumes "\<not> l_grpc l" and "\<not> l_http l"
  shows "case context_Run L c args l of (r, c', l') \<Rightarrow>
    w_open (l_world l') = w_open (l_world l) \<and> w_bodies (l_world l') = w_bodies (l_world l) \<and> (l' = l \<or> shut l')"
proof -
  obtain r c' l' where run: "context_Run L c args l = (r, c', l')"
    by (metis prod_cases3)
  have "in_world (same_open {}) l l'"
    by (rule context_Run_keeps [OF _ _ run]) (simp_all add: run_files.Q_refl run_files.Q_start_run)
  moreover have "in_world same_bodies l l'"
    by (rule context_Run_keeps [OF _ _ run]) (simp_all add: run_bodies.Q_refl run_bodies.Q_start_run)
  moreover have "l' = l \<or> shut l'"
    using run started_shut [OF assms] by (cases rule: context_Run_cases) (auto, metis snd_conv)
  ultimately show ?thesis
    using run by (auto simp: in_world_def same_open_def same_bodies_def)
qed

lemma run_closes_everything_witness:
  "\<forall>L c args l. case context_Run L c args (l\<lparr>l_grpc := False, l_http := False\<rparr>) of (r, c', l') \<Rightarrow>
     w_open (l_world l') = w_open (l_world l) \<and> w_bodies (l_world l') = w_bodies (l_world l)"
proof (intro allI)
  fix L c args and l :: launch
  show "case context_Run L c args (l\<lparr>l_grpc := False, l_http := False\<rparr>) of (r, c', l') \<Rightarrow>
     w_open (l_world l') = w_open (l_world l) \<and> w_bodies (l_world l') = w_bodies (l_world l)"
    using run_closes_everything [of "l\<lparr>l_grpc := False, l_http := False\<rparr>" L c args] by (auto split: prod.splits)
qed



text \<open>
  C6: A run without a runner key sends no request, whatever its arguments say: it is refused, or it is
  that of an agent, which uses its cache.
\<close>

theorem keyless_run_stays_offline:
  assumes "trim_space (ctx_RunnerKey c) = []"
  shows "case context_Run L (Some c) args l of (r, c', l') \<Rightarrow> w_requests (l_world l') = w_requests (l_world l)"
proof -
  obtain r c' l' where run: "context_Run L (Some c) args l = (r, c', l')"
    by (metis prod_cases3)
  have started: "in_world (sent (\<lambda>_. False)) l (snd (start_run L d l))"
    if "retries_changed c d" and "\<not> needs_key d" for d
  proof -
    have "cached_only (ctx_RunnerKey d) [cached_agent d]"
      using that assms retries_changed_same [OF that(1)] by (simp add: needs_key_def cached_agent_def cached_only_def)
    then have "run_effect (in_world (sent (\<lambda>_. False))) L d"
      by (rule offline_run_effect)
    then show ?thesis by (rule run_effect.Q_start_run)
  qed
  have "in_world (sent (\<lambda>_. False)) l l'"
    by (rule context_Run_keeps [OF _ _ run]) (simp_all add: net.in_world_same started)
  then show ?thesis
    using run by (auto simp: in_world_def sent_def list_all_iff)
qed

lemma keyless_run_stays_offline_witness:
  "\<forall>L args l s. case context_Run L (Some (default_context\<lparr>ctx_NodeType := NodeTypeAgent, ctx_scenarios := [s],
      ctx_NatsServerURL := ''nats://h''\<rparr>)) args l of (r, c', l') \<Rightarrow> w_requests (l_world l') = w_requests (l_world l)"
  by (intro allI keyless_run_stays_offline) (simp add: default_context_def)





end
