(* ===== verification/Autopilot.thy ===== *)
theory Autopilot
  imports Run_Outcome
begin

text \<open>
  Tests made by autopilot (\<open>autopilot.go\<close>, \<open>autopilot_contracts.go\<close>, \<open>runtime_launcher.go\<close>): the request
  goes to the engine in a file, the runner key on its standard input, and the result comes back in a
  file; a result that is ready becomes a scenario.
\<close>

section \<open>Requests and results\<close>

record LoadStrikeAutopilotSecretBinding =
  asb_Location :: string
  asb_ValueFromEnv :: string

record LoadStrikeAutopilotEndpointBinding =
  aeb_Name :: string
  aeb_Kind :: string
  aeb_Method :: string
  aeb_URL :: string

record LoadStrikeAutopilotOptions =
  ao_ScenarioName :: string
  ao_IncludePreviewReport :: bool
  ao_AllowedReplayHosts :: "string list"
  ao_BaseURLRewrite :: string
  ao_TrackingSelector :: string
  ao_SecretBindings :: "LoadStrikeAutopilotSecretBinding list"
  ao_EndpointBindings :: "LoadStrikeAutopilotEndpointBinding list"
  ao_RunnerKey :: string
  ao_LicenseValidationTimeoutSeconds :: float64

record LoadStrikeAutopilotMessageSample =
  ams_Name :: string
  ams_ContentType :: string
  ams_Headers :: "(string \<times> string) list"
  ams_Payload :: go_any
  ams_TransportMetadata :: "(string \<times> string) list"

record LoadStrikeAutopilotRequest =
  arq_Kind :: string
  arq_FilePath :: string
  arq_Content :: string
  arq_SourceMessage :: "LoadStrikeAutopilotMessageSample option"
  arq_DestinationMessage :: "LoadStrikeAutopilotMessageSample option"
  arq_Options :: LoadStrikeAutopilotOptions

record LoadStrikeAutopilotLoadSimulationSuggestion =
  als_Kind :: string
  als_Copies :: int
  als_Iterations :: int

record LoadStrikeAutopilotScenarioPlan =
  asp_Name :: string
  asp_WithoutWarmUp :: bool
  asp_LoadSimulationSuggestions :: "LoadStrikeAutopilotLoadSimulationSuggestion list"

record LoadStrikeAutopilotThresholdSuggestion =
  ats_Kind :: string
  ats_Maximum :: float64

record LoadStrikeAutopilotTrackingSelectorSuggestion =
  att_Expression :: string
  att_Confidence :: float64

record LoadStrikeAutopilotEndpoint =
  aep_Kind :: string
  aep_Name :: string
  aep_Method :: string
  aep_URL :: string

record LoadStrikeAutopilotRedaction =
  ard_Location :: string
  ard_Reason :: string
  ard_Replacement :: string

record LoadStrikeAutopilotPlan =
  apl_Version :: string
  apl_Scenario :: LoadStrikeAutopilotScenarioPlan
  apl_Endpoints :: "LoadStrikeAutopilotEndpoint list"
  apl_TrackingSelectorSuggestions :: "LoadStrikeAutopilotTrackingSelectorSuggestion list"
  apl_ThresholdSuggestions :: "LoadStrikeAutopilotThresholdSuggestion list"
  apl_Redactions :: "LoadStrikeAutopilotRedaction list"
  apl_Warnings :: "string list"
  apl_Confidence :: float64

record LoadStrikeAutopilotReadinessFailure =
  arf_Readiness :: string
  arf_Reason :: string
  arf_RequiredInput :: string
  arf_Locations :: "string list"

record LoadStrikeAutopilotPreviewReport =
  apr_ScenarioName :: string
  apr_Readiness :: string
  apr_Signals :: "string list"
  apr_Warnings :: "string list"
  apr_ReadinessFailures :: "LoadStrikeAutopilotReadinessFailure list"
  apr_Redactions :: "LoadStrikeAutopilotRedaction list"

record LoadStrikeAutopilotResult =
  arr_Readiness :: string
  arr_Plan :: LoadStrikeAutopilotPlan
  arr_Endpoints :: "LoadStrikeAutopilotEndpoint list"
  arr_Redactions :: "LoadStrikeAutopilotRedaction list"
  arr_Warnings :: "string list"
  arr_ReadinessFailures :: "LoadStrikeAutopilotReadinessFailure list"
  arr_PreviewReport :: "LoadStrikeAutopilotPreviewReport option"
  arr_ObservedLatencyMs :: "float64 option"
  arr_HTTPReplay :: "LoadStrikeAutopilotHTTPReplay option"

definition LoadStrikeAutopilotReady :: string where
  "LoadStrikeAutopilotReady = ''Ready''"

section \<open>The scenario of a result\<close>

definition autopilot_scenario_name :: "LoadStrikeAutopilotResult \<Rightarrow> string" where
  "autopilot_scenario_name r =
     (let scenarioName = trim_space (asp_Name (apl_Scenario (arr_Plan r)))
      in if scenarioName = [] then ''autopilot-starter'' else scenarioName)"

definition BuildScenario :: "go_fmt \<Rightarrow> LoadStrikeAutopilotResult \<Rightarrow> scenarioDefinition res" where
  "BuildScenario fm r =
     (if arr_Readiness r \<noteq> LoadStrikeAutopilotReady
      then Inl (''Autopilot result is not ready to build a scenario. Current readiness: '' @ arr_Readiness r @ ''.'')
      else if arr_HTTPReplay r = None then Inl ''Autopilot result does not contain a runnable HTTP request.''
      else Inr (zero_scenario
        \<lparr>sc_Name := autopilot_scenario_name r,
         sc_WarmUpDisabled := True,
         sc_LoadSimulations := [IterationsForConstant 1 1],
         sc_Thresholds := map (\<lambda>suggestion.
           ScenarioThreshold fm [AnyString (ats_Kind suggestion), AnyString ''<='', AnyFloat64 (ats_Maximum suggestion)])
           (apl_ThresholdSuggestions (arr_Plan r)),
         sc_AutopilotHTTP := cloneAutopilotHTTPReplay (arr_HTTPReplay r)\<rparr>))"

section \<open>The generation\<close>

text \<open>
  \<open>ap_combined\<close> is how the two outputs of the child come to be one buffer. \<open>ap_encode\<close> is the text of a
  request, of which the members with the tag \<open>json:"-"\<close> are no part.
\<close>

record autopilot_env =
  ap_combined :: "child_end \<Rightarrow> string"
  ap_encode :: "LoadStrikeAutopilotRequest \<Rightarrow> string res"
  ap_decode :: "string \<Rightarrow> LoadStrikeAutopilotResult res"
  ap_FormatFloat :: "float64 \<Rightarrow> string"

definition encoded_request :: "LoadStrikeAutopilotRequest \<Rightarrow> LoadStrikeAutopilotRequest" where
  "encoded_request request =
     request\<lparr>arq_Options := (arq_Options request)
       \<lparr>ao_RunnerKey := [], ao_LicenseValidationTimeoutSeconds := Fin 0\<rparr>\<rparr>"

definition newAutopilotRuntimeCommand ::
  "autopilot_env \<Rightarrow> path \<Rightarrow> path \<Rightarrow> path \<Rightarrow> string \<Rightarrow> float64 \<Rightarrow> command" where
  "newAutopilotRuntimeCommand A runtimePath requestPath resultPath runnerKey licenseValidationTimeoutSeconds =
     \<lparr>cmd_Path = runtimePath,
      cmd_Args = [''--autopilot-input'', path_text requestPath, ''--autopilot-output'', path_text resultPath,
        ''--autopilot-runner-key-stdin'',
        ''--autopilot-license-validation-timeout-seconds'', ap_FormatFloat A licenseValidationTimeoutSeconds,
        ''--sdk-version'', RuntimeArtifactVersion, ''--protocol'', dec_of_int RuntimeProtocolVersion],
      cmd_Stdin = runnerKey\<rparr>"

definition cmd_CombinedOutput :: "launch_env \<Rightarrow> autopilot_env \<Rightarrow> command \<Rightarrow> (string \<times> go_error option) run" where
  "cmd_CombinedOutput L A cmd l =
     (let w = l_world l; e = le_child L cmd (w_files w)
      in (Inr (ap_combined A e, ce_error e),
          l\<lparr>l_world := w\<lparr>w_files := ce_files e, w_calls := Suc (w_calls w)\<rparr>, l_commands := l_commands l @ [cmd]\<rparr>))"

definition read_autopilot_result :: "launch_env \<Rightarrow> autopilot_env \<Rightarrow> path \<Rightarrow> LoadStrikeAutopilotResult run" where
  "read_autopilot_result L A resultPath =
     run_bind (run_io (io_wrap ''read autopilot result: '' (os_ReadFile (le_files L) resultPath))) (\<lambda>resultBytes.
     run_lift (wrap_res ''decode autopilot result: '' (ap_decode A resultBytes)))"

definition autopilot_in_directory ::
  "launch_env \<Rightarrow> autopilot_env \<Rightarrow> LoadStrikeAutopilotRequest \<Rightarrow> path \<Rightarrow> path \<Rightarrow> LoadStrikeAutopilotResult run" where
  "autopilot_in_directory L A request runtimePath tempDir =
     (let requestPath = tempDir @ [''autopilot-request.json'']; resultPath = tempDir @ [''autopilot-result.json''];
          runnerKey = ao_RunnerKey (arq_Options request) in
      run_bind (run_lift (wrap_res ''marshal autopilot request: '' (ap_encode A (encoded_request request)))) (\<lambda>requestBytes.
      run_bind (run_io (io_wrap ''write autopilot request: '' (os_WriteFile (le_files L) requestPath requestBytes 0x180))) (\<lambda>_.
      run_bind (cmd_CombinedOutput L A (newAutopilotRuntimeCommand A runtimePath requestPath resultPath runnerKey
          (ao_LicenseValidationTimeoutSeconds (arq_Options request)))) (\<lambda>(output, err).
      case err of
        Some e \<Rightarrow> run_fail (RunFailed (newAutopilotRuntimeFailure (Some e) output runnerKey))
      | None \<Rightarrow> read_autopilot_result L A resultPath))))"

definition autopilot_execution ::
  "launch_env \<Rightarrow> autopilot_env \<Rightarrow> LoadStrikeAutopilotRequest \<Rightarrow> resolvedRuntimeExecution \<Rightarrow> LoadStrikeAutopilotResult run" where
  "autopilot_execution L A request execution =
     run_defer (after_io (snd (execution_Close (le_files L) execution)))
       (run_bind (run_io (io_wrap ''create autopilot temp dir: ''
           (os_MkdirTemp (le_files L) (le_tempDir L) ''loadstrike-autopilot-''))) (\<lambda>tempDir.
        run_defer (after_io (os_RemoveAll (le_files L) tempDir))
          (autopilot_in_directory L A request (rx_Path execution) tempDir)))"

definition runAutopilotViaPrivateRuntime ::
  "launch_env \<Rightarrow> autopilot_env \<Rightarrow> LoadStrikeAutopilotRequest \<Rightarrow> LoadStrikeAutopilotResult run" where
  "runAutopilotViaPrivateRuntime L A request =
     run_bind (run_io (resolveRuntimeExecution (le_process L) (run_resolver L) (ao_RunnerKey (arq_Options request)) []))
       (autopilot_execution L A request)"

definition GenerateAutopilot ::
  "launch_env \<Rightarrow> autopilot_env \<Rightarrow> LoadStrikeAutopilotRequest \<Rightarrow> LoadStrikeAutopilotResult run" where
  "GenerateAutopilot = runAutopilotViaPrivateRuntime"

text \<open>\<open>Generate\<close> panics with the error.\<close>

definition Generate ::
  "launch_env \<Rightarrow> autopilot_env \<Rightarrow> LoadStrikeAutopilotRequest \<Rightarrow> LoadStrikeAutopilotResult run" where
  "Generate L A request l =
     (case GenerateAutopilot L A request l of
        (Inl (RunFailed e), l') \<Rightarrow> (Inl (RunPanic e), l')
      | r \<Rightarrow> r)"

section \<open>What a generation keeps\<close>

context launch_effect begin

lemma holds_autopilot:
  assumes "run_holds Q (run_io (resolveRuntimeExecution (le_process L) (run_resolver L) (ao_RunnerKey (arq_Options request)) []))"
    and "\<And>cmd. run_holds Q (cmd_CombinedOutput L A cmd)"
  shows "run_holds Q (runAutopilotViaPrivateRuntime L A request)"
proof -
  have "run_holds Q (case e of Some e \<Rightarrow> run_fail (RunFailed (newAutopilotRuntimeFailure (Some e) d key))
      | None \<Rightarrow> read_autopilot_result L A p)" for e d key p
    unfolding read_autopilot_result_def io_wrap_def
    by (cases e) (simp, intro holds_bind holds_lift Q_ReadFile, simp, intro holds_lift)
  then have "run_holds Q (autopilot_in_directory L A request path dir)" for path dir
    unfolding autopilot_in_directory_def Let_def case_prod_unfold
    by (intro holds_bind holds_lift Q_WriteFile assms(2))
  then show ?thesis
    unfolding runAutopilotViaPrivateRuntime_def autopilot_execution_def
    by (intro holds_bind holds_defer assms(1) Q_MkdirTemp Q_execution_Close Q_RemoveAll)
qed

end

lemma holds_combined:
  "(\<And>w. R w (w\<lparr>w_files := ce_files (le_child L cmd (w_files w)), w_calls := Suc (w_calls w)\<rparr>)) \<Longrightarrow>
     run_holds (in_world R) (cmd_CombinedOutput L A cmd)"
  by (simp add: run_holds_def in_world_def cmd_CombinedOutput_def Let_def)

lemma autopilot_keeps_open: "run_holds (in_world (same_open S)) (runAutopilotViaPrivateRuntime L A request)"
  by (rule launch_effect.holds_autopilot [OF launch_effects(1)])
    (simp_all add: holds_io holds_combined files.keeps_execution same_open_def)

lemma autopilot_keeps_bodies: "run_holds (in_world same_bodies) (runAutopilotViaPrivateRuntime L A request)"
  by (rule launch_effect.holds_autopilot [OF launch_effects(2)])
    (simp_all add: holds_io holds_combined bodies.keeps_execution same_bodies_def)

lemma autopilot_requests:
  "run_holds (in_world (sent (allowed_request (le_process L) (run_resolver L)))) (runAutopilotViaPrivateRuntime L A request)"
  by (rule launch_effect.holds_autopilot [OF launch_effects(3)])
    (simp_all add: holds_io holds_combined requests.keeps_execution sent_def)

text \<open>The command of a generation: the engine that was resolved with the key of the request, which it reads.\<close>

definition autopilot_command :: "launch_env \<Rightarrow> autopilot_env \<Rightarrow> LoadStrikeAutopilotRequest \<Rightarrow> command \<Rightarrow> bool" where
  "autopilot_command L A request cmd \<longleftrightarrow>
     (\<exists>execution w w' tempDir.
        resolveRuntimeExecution (le_process L) (run_resolver L) (ao_RunnerKey (arq_Options request)) [] w =
          (Inr execution, w') \<and>
        cmd = newAutopilotRuntimeCommand A (rx_Path execution) (tempDir @ [''autopilot-request.json''])
          (tempDir @ [''autopilot-result.json'']) (ao_RunnerKey (arq_Options request))
          (ao_LicenseValidationTimeoutSeconds (arq_Options request)))"

lemma no_command_autopilot_result: "no_command (read_autopilot_result L A p)"
  unfolding read_autopilot_result_def by (intro no_command_then no_command_calls)

lemma one_autopilot: "at_most_one (autopilot_command L A request) (runAutopilotViaPrivateRuntime L A request)"
proof -
  have rest: "no_command (case e of Some e \<Rightarrow> run_fail (RunFailed (newAutopilotRuntimeFailure (Some e) d key))
      | None \<Rightarrow> read_autopilot_result L A p)" for e d key p
    by (cases e) (simp_all add: no_command_autopilot_result no_command_calls)
  have combined: "P cmd \<Longrightarrow> at_most_one P (cmd_CombinedOutput L A cmd)" for P cmd
    by (simp add: at_most_one_def cmd_CombinedOutput_def Let_def)
  have "at_most_one (autopilot_command L A request) (autopilot_execution L A request execution)"
    if run: "resolveRuntimeExecution (le_process L) (run_resolver L) (ao_RunnerKey (arq_Options request)) [] w =
      (Inr execution, w')" for execution w w'
  proof -
    have "autopilot_command L A request
        (newAutopilotRuntimeCommand A (rx_Path execution) (tempDir @ [''autopilot-request.json''])
          (tempDir @ [''autopilot-result.json'']) (ao_RunnerKey (arq_Options request))
          (ao_LicenseValidationTimeoutSeconds (arq_Options request)))" for tempDir
      using run unfolding autopilot_command_def by blast
    then show ?thesis
      unfolding autopilot_execution_def autopilot_in_directory_def Let_def case_prod_unfold
      by (intro one_defer no_command_bind no_command_calls one_bind combined rest) simp_all
  qed
  then show ?thesis
    unfolding runAutopilotViaPrivateRuntime_def
    by (intro no_command_bind no_command_calls) (auto dest!: run_io_Inr)
qed

section \<open>The plan of a scenario made by autopilot\<close>

lemma autopilot_threshold: "newRuntimeThresholdRegistration (ScenarioThreshold fm [AnyString a, AnyString b, AnyFloat64 x]) = None"
  by (simp add: ScenarioThreshold_def given_predicate_def positional_threshold_def newRuntimeThresholdRegistration_def
      zero_threshold_def Let_def)

lemma thresholds_unregistered:
  "list_all (\<lambda>t. newRuntimeThresholdRegistration t = None) ts \<Longrightarrow>
     run_state (buildRuntimeThresholdPlans h ts) g = (map newRuntimeThresholdPlan ts, g)"
  by (induction ts) (simp_all add: State_Monad.bind_def State_Monad.return_def registerThreshold_def Let_def)

section \<open>Properties\<close>




definition sample_autopilot_result :: LoadStrikeAutopilotResult where
  "sample_autopilot_result =
     \<lparr>arr_Readiness = ''Ready'',
      arr_Plan = \<lparr>apl_Version = ''1'', apl_Scenario = \<lparr>asp_Name = ''orders'', asp_WithoutWarmUp = True,
          asp_LoadSimulationSuggestions = []\<rparr>, apl_Endpoints = [], apl_TrackingSelectorSuggestions = [],
        apl_ThresholdSuggestions = [\<lparr>ats_Kind = ''AllFailCount'', ats_Maximum = Fin 0\<rparr>], apl_Redactions = [],
        apl_Warnings = [], apl_Confidence = Fin 1\<rparr>,
      arr_Endpoints = [], arr_Redactions = [], arr_Warnings = [], arr_ReadinessFailures = [],
      arr_PreviewReport = None, arr_ObservedLatencyMs = None,
      arr_HTTPReplay = Some \<lparr>replay_Method = ''GET'', replay_URL = ''https://h/'', replay_Headers = Map.empty,
        replay_Body = [], replay_ContentType = []\<rparr>\<rparr>"


end
