(* ===== verification/Tracking_Selectors.thy ===== *)
theory Tracking_Selectors
  imports Go_Paths Runtime_Config Manifest_Descriptor
begin

text \<open>
  Selectors of tracking identifiers (\<open>tracking_contract_support.go\<close>, \<open>public_correlation_helpers.go\<close>,
  \<open>public_tracking_payload.go\<close>): the text form of a selector, its reading from a header or from the JSON
  body of a message, and the building of messages. The two regular expressions are written out; JSON and
  the formatting of values are parameters.
\<close>

section \<open>Messages\<close>

record tracking_env =
  te_Unmarshal :: "string \<Rightarrow> go_any option"
  te_Marshal :: "go_any \<Rightarrow> string option"
  te_fmt :: go_fmt

record trackingPayload =
  ntp_Headers :: "(string \<rightharpoonup> string)"
  ntp_Body :: go_any
  ntp_ProducedUTC :: string
  ntp_ConsumedUTC :: string
  ntp_ContentType :: string
  ntp_MessagePayloadType :: string

definition newTrackingPayloadWrapper :: "trackingPayload \<Rightarrow> TrackingPayload" where
  "newTrackingPayloadWrapper native =
     \<lparr>tp_Headers = ntp_Headers native, tp_Body = ntp_Body native, tp_ProducedUTC = ntp_ProducedUTC native,
      tp_ConsumedUTC = ntp_ConsumedUTC native, tp_ContentType = ntp_ContentType native,
      tp_MessagePayloadType = ntp_MessagePayloadType native\<rparr>"

definition trackingPayload_toNative :: "TrackingPayload \<Rightarrow> trackingPayload" where
  "trackingPayload_toNative p =
     \<lparr>ntp_Headers = tp_Headers p, ntp_Body = tp_Body p, ntp_ProducedUTC = tp_ProducedUTC p,
      ntp_ConsumedUTC = tp_ConsumedUTC p, ntp_ContentType = tp_ContentType p,
      ntp_MessagePayloadType = tp_MessagePayloadType p\<rparr>"

definition GetBodyAsUtf8 :: "tracking_env \<Rightarrow> TrackingPayload \<Rightarrow> string" where
  "GetBodyAsUtf8 E p =
     (case tp_Body p of
        AnyNil \<Rightarrow> []
      | AnyBytes s \<Rightarrow> s
      | AnyString s \<Rightarrow> s
      | typed \<Rightarrow> (case te_Marshal E typed of None \<Rightarrow> fmt_sprint (te_fmt E) typed | Some body \<Rightarrow> body))"

definition normalizeJSONBody :: "tracking_env \<Rightarrow> go_any \<Rightarrow> go_any" where
  "normalizeJSONBody E value =
     (case value of
        AnyNil \<Rightarrow> AnyNil
      | AnyBytes typed \<Rightarrow>
          if length typed = 0 then AnyMap []
          else (case te_Unmarshal E typed of Some decoded \<Rightarrow> decoded | None \<Rightarrow> AnyString typed)
      | AnyString typed \<Rightarrow>
          (let trimmed = trim_space typed in
           if trimmed = [] then AnyMap []
           else (case te_Unmarshal E trimmed of Some decoded \<Rightarrow> decoded | None \<Rightarrow> AnyString typed))
      | typed \<Rightarrow> typed)"

section \<open>The text of a selector\<close>

record trackingFieldSelector =
  tfs_Kind :: string
  tfs_Path :: string

record TrackingFieldSelector =
  sel_Location :: string
  sel_Path :: string

definition parseTrackingFieldSelector :: "string \<Rightarrow> trackingFieldSelector res" where
  "parseTrackingFieldSelector value =
     (case cut_at (CHR '':'') (trim_space value) of
        None \<Rightarrow> Inl ''tracking field selector must be in kind:path format''
      | Some (before, after) \<Rightarrow>
          (let kind = to_lower (trim_space before); path = trim_space after in
           if path = [] then Inl ''tracking field selector path is required''
           else if kind = ''header'' \<or> kind = ''json'' then Inr \<lparr>tfs_Kind = kind, tfs_Path = path\<rparr>
           else Inl ''tracking field selector kind must be header or json''))"

definition newTrackingFieldSelector :: "trackingFieldSelector \<Rightarrow> TrackingFieldSelector" where
  "newTrackingFieldSelector native =
     \<lparr>sel_Location = (if tfs_Kind native = ''header'' then ''Header'' else ''Json''), sel_Path = tfs_Path native\<rparr>"

text \<open>\<open>Parse\<close> panics with the error; \<open>TryParse\<close> does not.\<close>

definition selector_Parse :: "string \<Rightarrow> TrackingFieldSelector res" where
  "selector_Parse value = map_sum id newTrackingFieldSelector (parseTrackingFieldSelector value)"

definition selector_TryParse :: "string \<Rightarrow> bool \<times> TrackingFieldSelector" where
  "selector_TryParse value =
     (case parseTrackingFieldSelector value of
        Inl e \<Rightarrow> (False, \<lparr>sel_Location = [], sel_Path = []\<rparr>)
      | Inr selector \<Rightarrow> (True, newTrackingFieldSelector selector))"

definition normalizeTrackingFieldSelectorLocation :: "string \<Rightarrow> string" where
  "normalizeTrackingFieldSelectorLocation value =
     (let v = to_lower (trim_space value) in if v = ''header'' \<or> v = ''json'' then v else [])"

section \<open>Paths into a document\<close>

text \<open>\<open>(?:\[\d+\])*\<close> to the end of the text: the texts between the brackets.\<close>

function index_texts :: "string \<Rightarrow> string list option" where
  "index_texts [] = Some []"
| "index_texts (c # s) =
     (if c \<noteq> CHR ''['' \<or> takeWhile is_digit s = [] then None
      else case dropWhile is_digit s of
             [] \<Rightarrow> None
           | d # rest \<Rightarrow> if d = CHR '']'' then map_option ((#) (takeWhile is_digit s)) (index_texts rest) else None)"
  by pat_completeness auto
termination
proof (relation "measure length")
  fix c s d rest
  assume "dropWhile is_digit s = d # rest"
  then show "(rest, c # s) \<in> measure length"
    using length_dropWhile_le [of is_digit s] by simp
qed simp

text \<open>\<open>^([^\[\]]+)?((?:\[\d+\])*)$\<close>\<close>

definition trackingArrayAccessPattern :: "string \<Rightarrow> (string \<times> string list) option" where
  "trackingArrayAccessPattern segment =
     map_option (Pair (takeWhile (\<lambda>c. c \<noteq> CHR ''['' \<and> c \<noteq> CHR '']'') segment))
       (index_texts (dropWhile (\<lambda>c. c \<noteq> CHR ''['' \<and> c \<noteq> CHR '']'') segment))"

definition readTrackingArrayIndex :: "go_any \<Rightarrow> int \<Rightarrow> go_any option" where
  "readTrackingArrayIndex current index =
     (case current of
        AnySlice rows \<Rightarrow> if index < 0 \<or> index \<ge> int (length rows) then None else Some (rows ! nat index)
      | _ \<Rightarrow> None)"

fun read_indexes :: "go_any \<Rightarrow> string list \<Rightarrow> go_any option" where
  "read_indexes value [] = Some value"
| "read_indexes value (text # texts) =
     (case Atoi text of
        None \<Rightarrow> None
      | Some index \<Rightarrow>
          (case readTrackingArrayIndex value index of None \<Rightarrow> None | Some next_value \<Rightarrow> read_indexes next_value texts))"

definition readTrackingPathSegment :: "go_any \<Rightarrow> string \<Rightarrow> go_any option" where
  "readTrackingPathSegment current segment =
     (case Atoi segment of
        Some index \<Rightarrow> readTrackingArrayIndex current index
      | None \<Rightarrow>
          (case trackingArrayAccessPattern segment of
             None \<Rightarrow> None
           | Some (before, texts) \<Rightarrow>
               (let base = trim_space before in
                case (if base = [] then Some current
                      else case current of AnyMap record \<Rightarrow> map_of record base | _ \<Rightarrow> None) of
                  None \<Rightarrow> None
                | Some value \<Rightarrow>
                    (case read_indexes value texts of
                       None \<Rightarrow> None
                     | Some value \<Rightarrow> if base = [] \<and> texts = [] then None else Some value))))"

fun walk_segments :: "go_any \<Rightarrow> string list \<Rightarrow> go_any option" where
  "walk_segments current [] = Some current"
| "walk_segments current (raw # segments) =
     (let segment = trim_space raw in
      if segment = [] then walk_segments current segments
      else case readTrackingPathSegment current segment of
             None \<Rightarrow> None
           | Some AnyNil \<Rightarrow> None
           | Some next_value \<Rightarrow> walk_segments next_value segments)"

definition value_text :: "tracking_env \<Rightarrow> go_any option \<Rightarrow> string" where
  "value_text E v =
     (case v of
        None \<Rightarrow> []
      | Some AnyNil \<Rightarrow> []
      | Some (AnyString s) \<Rightarrow> s
      | Some typed \<Rightarrow> trim_space (fmt_sprint (te_fmt E) typed))"

definition extractTrackingJSONValue :: "tracking_env \<Rightarrow> go_any \<Rightarrow> string \<Rightarrow> string" where
  "extractTrackingJSONValue E body path =
     (let normalized = trim_space path;
          normalized = (if prefix ''$.'' normalized then drop 2 normalized
                        else if prefix ''$'' normalized then drop 1 normalized else normalized)
      in if normalized = [] then []
         else value_text E (walk_segments body (split_on (CHR ''.'') normalized)))"

definition selector_Extract :: "tracking_env \<Rightarrow> TrackingFieldSelector \<Rightarrow> TrackingPayload \<Rightarrow> string" where
  "selector_Extract E s payload =
     (let location = normalizeTrackingFieldSelectorLocation (sel_Location s) in
      if location = ''header''
      then (case tp_Headers payload (sel_Path s) of Some value \<Rightarrow> trim_space value | None \<Rightarrow> [])
      else if location = ''json'' then extractTrackingJSONValue E (normalizeJSONBody E (tp_Body payload)) (sel_Path s)
      else [])"

section \<open>Building messages\<close>

record TrackingPayloadBuilder =
  tpb_Headers :: "(string \<rightharpoonup> string)"
  tpb_ContentType :: string
  tpb_MessagePayloadType :: string
  tpb_body :: string

definition builder_SetBody :: "tracking_env \<Rightarrow> go_any \<Rightarrow> TrackingPayloadBuilder \<Rightarrow> TrackingPayloadBuilder" where
  "builder_SetBody E body b =
     (case body of
        AnyNil \<Rightarrow> b\<lparr>tpb_body := []\<rparr>
      | AnyBytes typed \<Rightarrow> b\<lparr>tpb_body := typed\<rparr>
      | AnyString typed \<Rightarrow> b\<lparr>tpb_body := typed\<rparr>
      | typed \<Rightarrow>
          (case te_Marshal E typed of
             None \<Rightarrow> b\<lparr>tpb_body := fmt_sprint (te_fmt E) typed\<rparr>
           | Some encoded \<Rightarrow> b\<lparr>tpb_body := encoded\<rparr>))"

definition builder_Build :: "TrackingPayloadBuilder \<Rightarrow> TrackingPayload" where
  "builder_Build b =
     \<lparr>tp_Headers = tpb_Headers b, tp_Body = AnyBytes (tpb_body b), tp_ProducedUTC = [], tp_ConsumedUTC = [],
      tp_ContentType = tpb_ContentType b, tp_MessagePayloadType = tpb_MessagePayloadType b\<rparr>"

section \<open>Trimming\<close>

definition no_graphic :: "string list \<Rightarrow> bool" where
  "no_graphic rs \<longleftrightarrow> list_all (list_all (\<lambda>c. \<not> graphic c)) rs"

lemma space_runes_no_graphic: "no_graphic space_runes" "no_graphic (map rev space_runes)"
  by (simp_all add: no_graphic_def space_runes_def graphic_def)

lemma strip_one_longer:
  assumes "no_graphic rs" and "graphic c" and "strip_one rs s = None"
  shows "strip_one rs (s @ c # t) = None"
  using assms
proof (induction rs)
  case (Cons r rs)
  have "\<not> (r \<noteq> [] \<and> take (length r) (s @ c # t) = r)"
  proof
    assume r: "r \<noteq> [] \<and> take (length r) (s @ c # t) = r"
    show False
    proof (cases "length r \<le> length s")
      case True
      with r Cons.prems(3) show False by (simp split: if_splits)
    next
      case False
      then obtain k where k: "length r = length s + Suc k"
        by (metis add_Suc_right less_iff_Suc_add not_le)
      with r have "r = s @ c # take k t" by simp
      with Cons.prems(1,2) show False by (auto simp: no_graphic_def)
    qed
  qed
  moreover have "strip_one rs (s @ c # t) = None"
    using Cons by (simp add: no_graphic_def split: if_splits)
  ultimately show ?case by (simp only: strip_one.simps if_False)
qed simp

lemma strip_one_Nil: "strip_one rs [] = None"
  by (induction rs) auto

lemma trim_space_append:
  assumes "list_all graphic a" and "a \<noteq> []" and "trim_space b = b"
  shows "trim_space (a @ b) = a @ b"
proof -
  obtain c t where a: "a = c # t" using assms(2) by (cases a) auto
  obtain d u where r: "rev a = d # u" using assms(2) by (cases "rev a") auto
  have "graphic d"
    using assms(1) r by (metis list.set_intros(1) list_all_iff set_rev)
  then have "strip_one (map rev space_runes) (rev b @ rev a) = None"
    using assms(3) space_runes_no_graphic unfolding r trim_space_fixed_iff by (blast intro: strip_one_longer)
  moreover have "strip_one space_runes (c # t @ b) = None"
    using assms(1) a strip_one_longer [OF space_runes_no_graphic(1) _ strip_one_Nil, of c "t @ b"] by simp
  ultimately show ?thesis
    unfolding trim_space_fixed_iff a by (simp add: a)
qed

section \<open>Selectors that are read back\<close>

lemma json_kind: "to_lower (trim_space ''json'') = ''json''"
  by code_simp

lemma cut_at_append: "c \<notin> set a \<Longrightarrow> cut_at c (a @ c # b) = Some (a, b)"
  by (induction a) auto

section \<open>What a path means\<close>

text \<open>
  A path is a list of steps: a member of an object, which may be left out, and then elements of arrays.
\<close>

type_synonym path_step = "string \<times> nat list"

fun member_at :: "go_any \<Rightarrow> string \<Rightarrow> go_any option" where
  "member_at (AnyMap members) key = map_of members key"
| "member_at _ key = None"

fun element_at :: "go_any \<Rightarrow> nat \<Rightarrow> go_any option" where
  "element_at (AnySlice rows) i = (if i < length rows then Some (rows ! i) else None)"
| "element_at _ i = None"

fun elements_at :: "go_any \<Rightarrow> nat list \<Rightarrow> go_any option" where
  "elements_at v [] = Some v"
| "elements_at v (i # is) = Option.bind (element_at v i) (\<lambda>v. elements_at v is)"

definition step_at :: "go_any \<Rightarrow> path_step \<Rightarrow> go_any option" where
  "step_at v step = Option.bind (if fst step = [] then Some v else member_at v (fst step)) (\<lambda>v. elements_at v (snd step))"

fun value_at :: "go_any \<Rightarrow> path_step list \<Rightarrow> go_any option" where
  "value_at v [] = Some v"
| "value_at v (step # steps) = Option.bind (step_at v step) (\<lambda>v. value_at v steps)"

definition step_text :: "path_step \<Rightarrow> string" where
  "step_text step = fst step @ concat (map (\<lambda>i. ''['' @ dec_of_nat i @ '']'') (snd step))"

definition path_text_of :: "path_step list \<Rightarrow> string" where
  "path_text_of steps = ''$.'' @ join_with ''.'' (map step_text steps)"

text \<open>
  Names that a path can hold: printable, without dots and brackets, and not a number; and indexes that an
  \<open>int\<close> can hold.
\<close>

definition step_ok :: "path_step \<Rightarrow> bool" where
  "step_ok step \<longleftrightarrow> list_all graphic (fst step) \<and> list_all (\<lambda>c. c \<notin> set (fst step)) ''.[]'' \<and>
     Atoi (fst step) = None \<and> (fst step \<noteq> [] \<or> snd step \<noteq> []) \<and> list_all (\<lambda>i. int_range (int i)) (snd step)"

lemma digit_graphic: "is_digit c \<Longrightarrow> graphic c \<and> c \<noteq> CHR ''['' \<and> c \<noteq> CHR '']'' \<and> c \<noteq> CHR ''.''"
  by (auto simp: is_digit_def graphic_def byte_nat_def)

lemma index_text_chars: "list_all is_digit (dec_of_nat i)" "dec_of_nat i \<noteq> []"
  using dec_of_nat_digits by auto

lemma index_texts_bracket:
  "index_texts (''['' @ dec_of_nat i @ '']'' @ rest) = map_option ((#) (dec_of_nat i)) (index_texts rest)"
proof -
  have br: "\<not> is_digit (CHR '']'')" by (simp add: is_digit_def byte_nat_def)
  have "takeWhile is_digit (dec_of_nat i @ '']'' @ rest) = dec_of_nat i"
    "dropWhile is_digit (dec_of_nat i @ '']'' @ rest) = '']'' @ rest"
    using index_text_chars [of i] br by (auto simp: takeWhile_append list_all_iff dropWhile_append)
  then show ?thesis
    using index_text_chars(2) [of i] by simp
qed

lemma index_texts_all: "index_texts (concat (map (\<lambda>i. ''['' @ dec_of_nat i @ '']'') is)) = Some (map dec_of_nat is)"
proof (induction "is")
  case (Cons i "is")
  then show ?case
    using index_texts_bracket [of i "concat (map (\<lambda>i. ''['' @ dec_of_nat i @ '']'') is)"] by simp
qed simp

lemma digits_value_fold:
  "list_all is_digit s \<Longrightarrow> digits_value (int n) s = Some (int (fold (\<lambda>c n. 10 * n + (byte_nat c - 48)) s n))"
proof (induction s arbitrary: n)
  case (Cons c s)
  then have d: "digit_value c = Some (int (byte_nat c - 48))"
    using of_nat_of_char [of c, where 'a = int]
    by (simp add: digit_value_def is_digit_def byte_nat_def of_nat_diff del: of_nat_of_char)
  have "digits_value (int n) (c # s) = digits_value (int (10 * n + (byte_nat c - 48))) s"
    using d by simp
  also have "\<dots> = Some (int (fold (\<lambda>c n. 10 * n + (byte_nat c - 48)) s (10 * n + (byte_nat c - 48))))"
    by (rule Cons.IH) (use Cons.prems in simp)
  finally show ?case by simp
qed simp

lemma Atoi_dec: "int_range (int i) \<Longrightarrow> Atoi (dec_of_nat i) = Some (int i)"
proof -
  assume range: "int_range (int i)"
  have "digits_value 0 (dec_of_nat i) = Some (int i)"
    using digits_value_fold [OF index_text_chars(1), of 0 i] dec_value_dec [of i] by (simp add: dec_value_def)
  moreover have "is_digit (hd (dec_of_nat i))"
    using index_text_chars [of i] by (cases "dec_of_nat i") auto
  ultimately show ?thesis
    using range index_text_chars(2) [of i]
    by (cases "dec_of_nat i") (auto simp: Atoi_def in_int_def is_digit_def byte_nat_def)
qed

lemma read_indexes_elements:
  "list_all (\<lambda>i. int_range (int i)) is \<Longrightarrow> read_indexes v (map dec_of_nat is) = elements_at v is"
proof (induction "is" arbitrary: v)
  case (Cons i "is")
  have "readTrackingArrayIndex v (int i) = element_at v i"
    by (cases v) (simp_all add: readTrackingArrayIndex_def)
  with Cons show ?case by (auto simp: Atoi_dec split: option.splits)
qed simp

lemma bracket_list: "concat (map (\<lambda>i. ''['' @ dec_of_nat i @ '']'') is) = [] \<longleftrightarrow> is = []"
  by (cases "is") simp_all

lemma digits_value_foreign: "c \<in> set s \<Longrightarrow> digit_value c = None \<Longrightarrow> digits_value n s = None"
  by (induction s arbitrary: n) (auto split: option.splits)

lemma Atoi_bracket: "CHR ''['' \<in> set s \<Longrightarrow> Atoi s = None"
  using digits_value_foreign [of "CHR ''[''" s 0] digits_value_foreign [of "CHR ''[''" "tl s" 0]
  by (cases s) (auto simp: Atoi_def in_int_def digit_value_def)

lemma step_text_pattern:
  assumes "step_ok step"
  shows "trackingArrayAccessPattern (step_text step) = Some (fst step, map dec_of_nat (snd step))"
proof -
  let ?p = "\<lambda>c. c \<noteq> CHR ''['' \<and> c \<noteq> CHR '']''" and ?b = "concat (map (\<lambda>i. ''['' @ dec_of_nat i @ '']'') (snd step))"
  have base: "\<And>c. c \<in> set (fst step) \<Longrightarrow> ?p c"
    using assms by (auto simp: step_ok_def)
  have "takeWhile ?p ?b = []" "dropWhile ?p ?b = ?b"
    by (cases "snd step"; simp)+
  moreover have "takeWhile ?p (fst step @ ?b) = fst step @ takeWhile ?p ?b"
    by (rule takeWhile_append2) (rule base)
  moreover have "dropWhile ?p (fst step @ ?b) = dropWhile ?p ?b"
    by (rule dropWhile_append2) (use base in blast)
  ultimately have "takeWhile ?p (step_text step) = fst step" "dropWhile ?p (step_text step) = ?b"
    by (simp_all only: step_text_def append_Nil2)
  then show ?thesis
    by (simp only: trackingArrayAccessPattern_def index_texts_all option.map)
qed

lemma step_text_graphic:
  assumes "step_ok step"
  shows "list_all graphic (step_text step)" "step_text step \<noteq> []" "CHR ''.'' \<notin> set (step_text step)"
proof -
  have digits: "graphic c \<and> c \<noteq> CHR ''.''" if "c \<in> set (dec_of_nat i)" for c i
    using that index_text_chars(1) [of i] digit_graphic by (auto simp: list_all_iff)
  then show "list_all graphic (step_text step)"
    using assms by (auto simp: step_ok_def step_text_def list_all_iff graphic_def)
  show "step_text step \<noteq> []"
    using assms by (auto simp: step_ok_def step_text_def bracket_list)
  show "CHR ''.'' \<notin> set (step_text step)"
    using assms by (auto simp: step_ok_def step_text_def dest: digits)
qed

lemma read_step:
  assumes "step_ok step"
  shows "readTrackingPathSegment v (step_text step) = step_at v step"
proof -
  have "Atoi (step_text step) = None"
  proof (cases "snd step")
    case Nil
    with assms show ?thesis by (simp add: step_ok_def step_text_def)
  next
    case (Cons i "is")
    then show ?thesis by (intro Atoi_bracket) (simp add: step_text_def)
  qed
  moreover have trim: "trim_space (fst step) = fst step"
    using assms by (simp add: step_ok_def)
  moreover have "(case v of AnyMap record \<Rightarrow> map_of record (trim_space (fst step)) | _ \<Rightarrow> None) = member_at v (fst step)"
    by (cases v) (simp_all add: trim)
  moreover have "read_indexes u (map dec_of_nat (snd step)) = elements_at u (snd step)" for u
    by (rule read_indexes_elements) (use assms in \<open>simp add: step_ok_def\<close>)
  ultimately show ?thesis
    using assms step_text_pattern [OF assms]
    by (auto simp: readTrackingPathSegment_def step_at_def step_ok_def Let_def split: option.splits)
qed

text \<open>A path ends early at a null, from which no further step leads.\<close>

lemma step_at_nil: "step_ok step \<Longrightarrow> step_at AnyNil step = None"
  by (cases "snd step") (auto simp: step_at_def step_ok_def)

lemma value_text_nil: "value_text E (Some AnyNil) = value_text E None"
  by (simp add: value_text_def)

lemma walk_value:
  "list_all step_ok steps \<Longrightarrow>
     value_text E (walk_segments v (map step_text steps)) = value_text E (value_at v steps)"
proof (induction steps arbitrary: v)
  case (Cons step steps)
  then have ok: "step_ok step" "list_all step_ok steps" by simp_all
  have nil: "value_text E (value_at AnyNil steps) = value_text E None"
    using ok(2) step_at_nil by (cases steps) (simp_all add: value_text_nil)
  have seg: "trim_space (step_text step) = step_text step" "step_text step \<noteq> []"
    using step_text_graphic [OF ok(1)] by simp_all
  show ?case
  proof (cases "step_at v step")
    case None
    with seg ok(1) show ?thesis by (simp add: read_step)
  next
    case (Some u)
    with seg ok(1) Cons.IH [OF ok(2), of u] nil show ?thesis
      by (cases "u = AnyNil") (auto simp: read_step split: go_any.splits)
  qed
qed simp

text \<open>
  A selector that is accepted is its own canonical text: kind, colon and path give the same
  selector again.
\<close>

theorem selector_read_back:
  assumes "parseTrackingFieldSelector value = Inr s"
  shows "parseTrackingFieldSelector (tfs_Kind s @ '':'' @ tfs_Path s) = Inr s"
proof -
  from assms obtain path where kind: "tfs_Kind s = ''header'' \<or> tfs_Kind s = ''json''"
    and path: "tfs_Path s = trim_space path" "trim_space path \<noteq> []"
    by (auto simp: parseTrackingFieldSelector_def Let_def split: option.splits if_splits)
  have "trim_space ((tfs_Kind s @ '':'') @ tfs_Path s) = (tfs_Kind s @ '':'') @ tfs_Path s"
    by (rule trim_space_append) (use kind path in \<open>auto simp: graphic_def\<close>)
  moreover have "cut_at (CHR '':'') (tfs_Kind s @ CHR '':'' # tfs_Path s) = Some (tfs_Kind s, tfs_Path s)"
    by (rule cut_at_append) (use kind in auto)
  moreover have "to_lower (trim_space (tfs_Kind s)) = tfs_Kind s"
    using kind by (auto simp: graphic_def to_lower_def lower_char_def)
  ultimately show ?thesis
    using kind path by (cases s) (simp add: parseTrackingFieldSelector_def)
qed

theorem selector_read_back_witness:
  "parseTrackingFieldSelector '' Header : X:1 '' = Inr \<lparr>tfs_Kind = ''header'', tfs_Path = ''X:1''\<rparr> \<and>
   parseTrackingFieldSelector ''header:X:1'' = Inr \<lparr>tfs_Kind = ''header'', tfs_Path = ''X:1''\<rparr>"
proof -
  have "parseTrackingFieldSelector '' Header : X:1 '' = Inr \<lparr>tfs_Kind = ''header'', tfs_Path = ''X:1''\<rparr>"
    by code_simp
  then show ?thesis using selector_read_back [of "'' Header : X:1 ''"] by simp
qed

lemma join_graphic: "list_all (list_all graphic) ss \<Longrightarrow> list_all graphic (join_with ''.'' ss)"
  by (induction "''.''" ss rule: join_with.induct) (auto simp: graphic_def)

lemma path_text_graphic: "list_all step_ok steps \<Longrightarrow> list_all graphic (join_with ''.'' (map step_text steps))"
  by (rule join_graphic) (auto simp: list_all_iff step_text_graphic(1) [unfolded list_all_iff, rule_format])

lemma join_steps_not_Nil: "steps \<noteq> [] \<Longrightarrow> list_all step_ok steps \<Longrightarrow> join_with ''.'' (map step_text steps) \<noteq> []"
  by (cases steps rule: remdups_adj.cases) (auto simp: step_text_graphic)

lemma split_steps:
  "steps \<noteq> [] \<Longrightarrow> list_all step_ok steps \<Longrightarrow>
     split_on (CHR ''.'') (join_with ''.'' (map step_text steps)) = map step_text steps"
  by (rule split_join) (auto simp: list_all_iff step_text_graphic)

lemma trim_path_text:
  "list_all graphic p \<Longrightarrow> list_all step_ok steps \<Longrightarrow> trim_space (p @ path_text_of steps) = p @ path_text_of steps"
  by (rule trim_space_graphic) (simp add: path_text_of_def path_text_graphic graphic_def)

lemma extract_path:
  assumes "steps \<noteq> []" and "list_all step_ok steps"
  shows "extractTrackingJSONValue E body (path_text_of steps) = value_text E (value_at body steps)"
proof -
  have "trim_space (path_text_of steps) = path_text_of steps"
    using trim_path_text [of "[]"] assms(2) by simp
  moreover have "prefix ''$.'' (path_text_of steps)" "drop 2 (path_text_of steps) = join_with ''.'' (map step_text steps)"
    by (simp_all add: path_text_of_def)
  ultimately show ?thesis
    using assms by (simp add: extractTrackingJSONValue_def join_steps_not_Nil split_steps walk_value)
qed

text \<open>
  C17: A JSON selector written for a path of members and elements is accepted, and reads from every
  message exactly the value at that path in its body, as text.
\<close>

theorem json_selector_extracts:
  assumes "steps \<noteq> []" and "list_all step_ok steps"
  shows "\<exists>s. selector_Parse (''json:'' @ path_text_of steps) = Inr s \<and>
    (\<forall>E payload. selector_Extract E s payload = value_text E (value_at (normalizeJSONBody E (tp_Body payload)) steps))"
proof -
  have "trim_space (''json:'' @ path_text_of steps) = ''json:'' @ path_text_of steps"
    "trim_space (path_text_of steps) = path_text_of steps"
    using trim_path_text [of "''json:''"] trim_path_text [of "[]"] assms(2) by (simp_all add: graphic_def)
  moreover have "path_text_of steps \<noteq> []" by (simp add: path_text_of_def)
  ultimately have "selector_Parse (''json:'' @ path_text_of steps) = Inr \<lparr>sel_Location = ''Json'', sel_Path = path_text_of steps\<rparr>"
    by (simp add: selector_Parse_def parseTrackingFieldSelector_def newTrackingFieldSelector_def json_kind)
  moreover have "normalizeTrackingFieldSelectorLocation ''Json'' = ''json''"
    by code_simp
  ultimately show ?thesis
    using extract_path [OF assms] by (simp add: selector_Extract_def)
qed

theorem json_selector_extracts_witness:
  "\<exists>s. selector_Parse (''json:'' @ ''$.order.items[1].id'') = Inr s \<and>
     (\<forall>E payload. selector_Extract E s payload =
        value_text E (value_at (normalizeJSONBody E (tp_Body payload)) [(''order'', []), (''items'', [1]), (''id'', [])]))"
proof -
  have "path_text_of [(''order'', []), (''items'', [1]), (''id'', [])] = ''$.order.items[1].id''"
    "list_all step_ok [(''order'', []), (''items'', [1]), (''id'', [])]"
    by code_simp+
  then show ?thesis
    using json_selector_extracts [of "[(''order'', []), (''items'', [1]), (''id'', [])]"] by simp
qed

end
