(* ===== verification/Host_Replies.thy ===== *)
theory Host_Replies
  imports Host_Requests
begin

text \<open>
  The replies of steps: the response of a step callback (\<open>runtime_http_host.go\<close>) and the public
  constructors of replies (\<open>dotnet_parity_api.go\<close>), by which the host turns a response back into the
  reply that a policy sees after a step.
\<close>

record runtimeHTTPStepResponse =
  sresp_IsSuccess :: bool
  sresp_StatusCode :: string
  sresp_Message :: string
  sresp_SizeBytes :: int
  sresp_CustomLatencyMS :: float64
  sresp_Payload :: go_any
  sresp_StepName :: string
  sresp_StopScenario :: bool
  sresp_StopScenarioName :: string
  sresp_StopScenarioReason :: string
  sresp_StopCurrentTest :: bool
  sresp_StopCurrentTestReason :: string
  sresp_Logs :: "runtimeCallbackLog list"

text \<open>The pattern \<open>^\d{3}$\<close>.\<close>

definition replyStatusCodePattern :: "string \<Rightarrow> bool" where
  "replyStatusCodePattern s \<longleftrightarrow> length s = 3 \<and> list_all (byte_in 0x30 0x39) s"

fun shouldTreatAsPayload :: "go_any \<Rightarrow> bool" where
  "shouldTreatAsPayload AnyNil = False"
| "shouldTreatAsPayload (AnyString text) = (\<not> replyStatusCodePattern (trim_space text))"
| "shouldTreatAsPayload _ = True"

definition dotnetStyleReply :: "(float64 \<Rightarrow> int) \<Rightarrow> bool \<Rightarrow> go_any list \<Rightarrow> replyResult" where
  "dotnetStyleReply conv success args =
     (if length args = 0 then (if success then okReply conv [] else failReply conv [])
      else let (payload, replyArgs) =
                 (if shouldTreatAsPayload (hd args) then (hd args, tl args) else (AnyNil, args));
               reply = (if success then okReply conv replyArgs else failReply conv replyArgs)
        in if payload \<noteq> AnyNil then reply\<lparr>reply_Payload := payload\<rparr> else reply)"

definition normalizeReplyValue :: "replyResult \<Rightarrow> replyResult" where
  "normalizeReplyValue reply = reply\<lparr>reply_IsError := \<not> reply_IsSuccess reply\<rparr>"

text \<open>A public reply is its native value; the constructors copy and normalise it.\<close>

definition newLoadStrikeReply :: "replyResult \<Rightarrow> replyResult" where
  "newLoadStrikeReply native = normalizeReplyValue native"

definition Response_Ok :: "(float64 \<Rightarrow> int) \<Rightarrow> go_any list \<Rightarrow> replyResult" where
  "Response_Ok conv args = newLoadStrikeReply (dotnetStyleReply conv True args)"

definition Response_Fail :: "(float64 \<Rightarrow> int) \<Rightarrow> go_any list \<Rightarrow> replyResult" where
  "Response_Fail conv args = newLoadStrikeReply (dotnetStyleReply conv False args)"

text \<open>A reply with its payload; \<open>AsReply\<close> is the first part.\<close>

definition normalizeLoadStrikeReplyWith :: "replyResult \<Rightarrow> go_any \<Rightarrow> replyResult \<times> go_any" where
  "normalizeLoadStrikeReplyWith reply payload = (newLoadStrikeReply (normalizeReplyValue reply), payload)"

definition OkWith :: "(float64 \<Rightarrow> int) \<Rightarrow> go_any \<Rightarrow> go_any list \<Rightarrow> replyResult \<times> go_any" where
  "OkWith conv payload args =
     normalizeLoadStrikeReplyWith (dotnetStyleReply conv True (payload # args)) payload"

definition FailWith :: "(float64 \<Rightarrow> int) \<Rightarrow> go_any \<Rightarrow> go_any list \<Rightarrow> replyResult \<times> go_any" where
  "FailWith conv payload args =
     normalizeLoadStrikeReplyWith (dotnetStyleReply conv False (payload # args)) payload"

definition runtimeReplyPayloadToPublicReply :: "(float64 \<Rightarrow> int) \<Rightarrow> runtimeHTTPStepResponse \<Rightarrow> replyResult" where
  "runtimeReplyPayloadToPublicReply conv p =
     (let args = [AnyString (sresp_StatusCode p), AnyString (sresp_Message p),
                  AnyInt64 (sresp_SizeBytes p), AnyFloat64 (sresp_CustomLatencyMS p)]
      in if sresp_IsSuccess p then fst (OkWith conv (sresp_Payload p) args)
         else fst (FailWith conv (sresp_Payload p) args))"

section \<open>What a policy sees\<close>

lemmas reply_defs = runtimeReplyPayloadToPublicReply_def OkWith_def FailWith_def
  normalizeLoadStrikeReplyWith_def newLoadStrikeReply_def normalizeReplyValue_def dotnetStyleReply_def
  okReply_def failReply_def parseReplyOptions_def reply_size_arg_def

text \<open>The reply of the step, with the status code by default when it has none.\<close>

definition reply_of_response :: "runtimeHTTPStepResponse \<Rightarrow> replyResult" where
  "reply_of_response p =
     \<lparr>reply_IsSuccess = sresp_IsSuccess p, reply_IsError = (\<not> sresp_IsSuccess p),
      reply_StatusCode = (if blank (sresp_StatusCode p)
        then (if sresp_IsSuccess p then ''200'' else ''500'') else sresp_StatusCode p),
      reply_Message = sresp_Message p, reply_SizeBytes = sresp_SizeBytes p,
      reply_CustomLatencyMS = sresp_CustomLatencyMS p, reply_Payload = sresp_Payload p\<rparr>"

lemma payload_kept: "shouldTreatAsPayload p \<Longrightarrow> p \<noteq> AnyNil"
  by auto

text \<open>
  C37: The reply a policy gets after a step is the reply of the step exactly when the step gave a
  payload that is not a text of three digits; then every field is kept. Without a payload the fields
  shift by one place: the status code is the default one or the digits of the payload, the size is
  lost and the latency is the size of the reply.
\<close>

theorem policy_reply_shifts_without_payload:
  "runtimeReplyPayloadToPublicReply conv p =
     (if shouldTreatAsPayload (sresp_Payload p) then reply_of_response p
      else (reply_of_response p)
        \<lparr>reply_StatusCode := (case sresp_Payload p of
            AnyString s \<Rightarrow> s | _ \<Rightarrow> if sresp_IsSuccess p then ''200'' else ''500''),
         reply_SizeBytes := 0, reply_CustomLatencyMS := f64_of_int (sresp_SizeBytes p),
         reply_Payload := AnyNil\<rparr>)"
proof (cases "shouldTreatAsPayload (sresp_Payload p)")
  case True
  then show ?thesis by (simp add: reply_defs reply_of_response_def Let_def payload_kept)
next
  case False
  then consider "sresp_Payload p = AnyNil" | s where "sresp_Payload p = AnyString s" "\<not> blank s"
    by (cases "sresp_Payload p") (fastforce simp: blank_def replyStatusCodePattern_def)+
  then show ?thesis
    using False by cases (simp_all add: reply_defs reply_of_response_def Let_def)
qed

end
