(* ===== verification/Accessibility.thy ===== *)
theory Accessibility
  imports Host_Replies Transport_Policy
begin

text \<open>
  Checks of accessibility and of the vitals of a page (\<open>accessibility.go\<close>): the scan of a page, whose
  regular expressions are written out, the baseline and the gate, the limits of a check, the values read
  from a browser, and the reply of a scenario that checks. What reflection finds in a browser object is a
  parameter, as are the two formats of numbers.
\<close>

section \<open>The scan of a page\<close>

record LoadStrikeAccessibilityOptions =
  aco_URL :: string
  aco_Standard :: string
  aco_MaxViolations :: int
  aco_MaxCriticalViolations :: int
  aco_MaxSeriousViolations :: int
  aco_Tags :: "string list"
  aco_IncludeSelectors :: "string list"
  aco_ExcludeSelectors :: "string list"

record LoadStrikeAccessibilityViolation =
  acv_RuleID :: string
  acv_Impact :: string
  acv_Description :: string
  acv_HelpURL :: string
  acv_Targets :: "string list"

record LoadStrikeAccessibilityKeyboardFocusResult =
  ack_TabbableElementCount :: int
  ack_FocusOrderWarnings :: "string list"
  ack_MissingFocusStyles :: "string list"

record LoadStrikeAccessibilityResult =
  acr_URL :: string
  acr_Violations :: "LoadStrikeAccessibilityViolation list"
  acr_KeyboardFocus :: LoadStrikeAccessibilityKeyboardFocusResult

text \<open>The classes \<open>\s\<close> and \<open>\w\<close> of the regular expressions; \<open>\b\<close> is where the latter changes.\<close>

definition rx_space :: "char \<Rightarrow> bool" where
  "rx_space c \<longleftrightarrow> byte_nat c \<in> set [9, 10, 12, 13, 32]"

definition rx_word :: "char \<Rightarrow> bool" where
  "rx_word c \<longleftrightarrow> byte_in 0x30 0x39 c \<or> byte_in 0x41 0x5A c \<or> byte_in 0x61 0x7A c \<or> c = CHR ''_''"

text \<open>\<open><name\b\<close> at the start of a text: what follows it.\<close>

definition open_tag :: "string \<Rightarrow> string \<Rightarrow> string option" where
  "open_tag name s =
     (let tag = CHR ''<'' # name; rest = drop (length tag) s in
      if prefix tag s \<and> (case rest of [] \<Rightarrow> True | c # _ \<Rightarrow> \<not> rx_word c) then Some rest else None)"

lemma cut_at_append_eq: "cut_at c s = Some (a, b) \<Longrightarrow> s = a @ c # b"
  by (induction s arbitrary: a) (auto split: if_splits option.splits)

lemma find_tags_shorter:
  assumes "Option.bind (open_tag name s) (cut_at c) = Some (attributes, rest)"
  shows "length rest < length s"
proof -
  from assms obtain t where t: "open_tag name s = Some t" "cut_at c t = Some (attributes, rest)"
    by (auto simp: bind_eq_Some_conv)
  then have "length t \<le> length s" by (auto simp: open_tag_def Let_def split: if_splits)
  with cut_at_append_eq [OF t(2)] show ?thesis by simp
qed

text \<open>The matches of \<open><name\b[^>]*>\<close>, from left to right.\<close>

function find_tags :: "string \<Rightarrow> string \<Rightarrow> string list" where
  "find_tags name [] = []"
| "find_tags name (c # s) =
     (case Option.bind (open_tag name (c # s)) (cut_at (CHR ''>'')) of
        None \<Rightarrow> find_tags name s
      | Some (attributes, rest) \<Rightarrow> (CHR ''<'' # name @ attributes @ ''>'') # find_tags name rest)"
  by pat_completeness auto

termination
  by (relation "measure (\<lambda>(_, s). length s)") (auto dest: find_tags_shorter)

text \<open>\<open>lang\s*=\s*["'][^"']+["']\<close> at the start of a text.\<close>

definition rx_quote :: "char \<Rightarrow> bool" where
  "rx_quote c \<longleftrightarrow> byte_nat c \<in> set [34, 39]"

definition lang_attribute :: "string \<Rightarrow> bool" where
  "lang_attribute s \<longleftrightarrow> prefix ''lang'' s \<and>
     (case dropWhile rx_space (drop 4 s) of
        [] \<Rightarrow> False
      | c # rest \<Rightarrow> c = CHR ''='' \<and>
          (case dropWhile rx_space rest of
             [] \<Rightarrow> False
           | q # value \<Rightarrow> rx_quote q \<and> takeWhile (\<lambda>c. \<not> rx_quote c) value \<noteq> [] \<and>
               dropWhile (\<lambda>c. \<not> rx_quote c) value \<noteq> []))"

text \<open>\<open>[^>]*\blang\s*=\s*["'][^"']+["']\<close>, where the argument is the character before.\<close>

fun has_lang :: "char \<Rightarrow> string \<Rightarrow> bool" where
  "has_lang before [] = False"
| "has_lang before (c # s) =
     (\<not> rx_word before \<and> lang_attribute (c # s) \<or> c \<noteq> CHR ''>'' \<and> has_lang c s)"

fun html_lang :: "string \<Rightarrow> bool" where
  "html_lang [] = False"
| "html_lang (c # s) =
     ((case open_tag ''html'' (c # s) of None \<Rightarrow> False | Some rest \<Rightarrow> has_lang (CHR ''l'') rest) \<or> html_lang s)"

text \<open>\<open><title>\s*</title>\<close> and \<open><button\b[^>]*>\s*</button>\<close>.\<close>

fun empty_title :: "string \<Rightarrow> bool" where
  "empty_title [] = False"
| "empty_title (c # s) =
     (prefix ''<title>'' (c # s) \<and> prefix ''</title>'' (dropWhile rx_space (drop 7 (c # s))) \<or> empty_title s)"

fun empty_button :: "string \<Rightarrow> bool" where
  "empty_button [] = False"
| "empty_button (c # s) =
     ((case Option.bind (open_tag ''button'' (c # s)) (cut_at (CHR ''>'')) of
         None \<Rightarrow> False
       | Some (attributes, rest) \<Rightarrow> prefix ''</button>'' (dropWhile rx_space rest)) \<or> empty_button s)"

text \<open>The number of matches of \<open><(a|button|input|select|textarea)\b\<close>.\<close>

fun tabbable_count :: "string \<Rightarrow> nat" where
  "tabbable_count [] = 0"
| "tabbable_count (c # s) =
     (if list_ex (\<lambda>name. open_tag name (c # s) \<noteq> None) [''a'', ''button'', ''input'', ''select'', ''textarea'']
      then Suc (tabbable_count s) else tabbable_count s)"

definition violation :: "string \<Rightarrow> string \<Rightarrow> string \<Rightarrow> LoadStrikeAccessibilityViolation" where
  "violation ruleID impact description =
     \<lparr>acv_RuleID = ruleID, acv_Impact = impact, acv_Description = description, acv_HelpURL = [], acv_Targets = []\<rparr>"

definition image_without_alt :: "string \<Rightarrow> bool" where
  "image_without_alt tag \<longleftrightarrow> \<not> sublist '' alt='' tag \<and> \<not> sublist ('' alt'' @ [CHR 0x09] @ ''='') tag"

definition input_without_label :: "string \<Rightarrow> string \<Rightarrow> bool" where
  "input_without_label lower tag \<longleftrightarrow>
     \<not> (sublist (''type='' @ [CHR 0x22] @ ''hidden'' @ [CHR 0x22]) tag \<or>
        sublist (''type='' @ [CHR 0x27] @ ''hidden'' @ [CHR 0x27]) tag) \<and>
     \<not> (sublist ''aria-label'' tag \<or> sublist ''aria-labelledby'' tag \<or> sublist ''<label'' lower)"

definition scan_violations :: "string \<Rightarrow> LoadStrikeAccessibilityViolation list" where
  "scan_violations lower =
     (if \<not> html_lang lower then [violation ''html-lang'' ''serious'' ''The page should declare a language.''] else []) @
     (if empty_title lower \<or> \<not> sublist ''<title'' lower
      then [violation ''document-title'' ''serious'' ''The page should have a useful title.''] else []) @
     (if list_ex image_without_alt (find_tags ''img'' lower)
      then [violation ''image-alt'' ''critical'' ''Images should provide alternate text.''] else []) @
     (if empty_button lower then [violation ''button-name'' ''critical'' ''Buttons should have accessible names.''] else []) @
     (if list_ex (input_without_label lower) (find_tags ''input'' lower)
      then [violation ''label'' ''critical'' ''Inputs should have labels.''] else [])"

definition ScanHTML :: "LoadStrikeAccessibilityOptions \<Rightarrow> string \<Rightarrow> LoadStrikeAccessibilityResult" where
  "ScanHTML options html =
     (let lower = to_lower html in
      \<lparr>acr_URL = aco_URL options, acr_Violations = scan_violations lower,
       acr_KeyboardFocus =
         \<lparr>ack_TabbableElementCount = int (tabbable_count lower), ack_FocusOrderWarnings = [],
          ack_MissingFocusStyles =
            (if \<not> sublist '':focus'' lower \<and> \<not> sublist ''focus-visible'' lower
             then [''No visible focus style was detected.''] else [])\<rparr>\<rparr>)"

section \<open>Counts, baselines and gates\<close>

definition TotalViolations :: "LoadStrikeAccessibilityResult \<Rightarrow> int" where
  "TotalViolations r = int (length (acr_Violations r))"

definition countImpact :: "string \<Rightarrow> LoadStrikeAccessibilityResult \<Rightarrow> int" where
  "countImpact impact r =
     fold (\<lambda>v count. if equal_fold (acv_Impact v) impact then count + 1 else count) (acr_Violations r) 0"

definition CriticalViolations :: "LoadStrikeAccessibilityResult \<Rightarrow> int" where
  "CriticalViolations = countImpact ''critical''"

definition SeriousViolations :: "LoadStrikeAccessibilityResult \<Rightarrow> int" where
  "SeriousViolations = countImpact ''serious''"

definition ModerateViolations :: "LoadStrikeAccessibilityResult \<Rightarrow> int" where
  "ModerateViolations = countImpact ''moderate''"

definition MinorViolations :: "LoadStrikeAccessibilityResult \<Rightarrow> int" where
  "MinorViolations = countImpact ''minor''"

record LoadStrikeAccessibilityBaseline =
  acb_AllowedRuleIDs :: "string list"

record LoadStrikeAccessibilityBaselineOutcome =
  abo_Passed :: bool
  abo_NewRuleIDs :: "string list"

record LoadStrikeAccessibilityCiGate =
  acg_MaxViolations :: int
  acg_MaxCriticalViolations :: int
  acg_MaxSeriousViolations :: int
  acg_Baseline :: LoadStrikeAccessibilityBaseline

record LoadStrikeAccessibilityCiGateOutcome =
  ago_Passed :: bool
  ago_Reasons :: "string list"

definition allowed_rules :: "LoadStrikeAccessibilityBaseline \<Rightarrow> string set" where
  "allowed_rules b =
     fold (\<lambda>ruleID allowed. if trim_space ruleID \<noteq> [] then insert (trim_space ruleID) allowed else allowed)
       (acb_AllowedRuleIDs b) {}"

fun new_rules :: "string set \<Rightarrow> string set \<Rightarrow> LoadStrikeAccessibilityViolation list \<Rightarrow> string list" where
  "new_rules allowed seen [] = []"
| "new_rules allowed seen (v # violations) =
     (let ruleID = trim_space (acv_RuleID v) in
      if ruleID = [] then new_rules allowed seen violations
      else if ruleID \<in> allowed then new_rules allowed seen violations
      else if ruleID \<in> seen then new_rules allowed seen violations
      else ruleID # new_rules allowed (insert ruleID seen) violations)"

definition baseline_Compare ::
  "LoadStrikeAccessibilityBaseline \<Rightarrow> LoadStrikeAccessibilityResult \<Rightarrow> LoadStrikeAccessibilityBaselineOutcome" where
  "baseline_Compare b result =
     (let newRuleIDs = new_rules (allowed_rules b) {} (acr_Violations result)
      in \<lparr>abo_Passed = (length newRuleIDs = 0), abo_NewRuleIDs = newRuleIDs\<rparr>)"

definition gate_Evaluate ::
  "LoadStrikeAccessibilityCiGate \<Rightarrow> LoadStrikeAccessibilityResult \<Rightarrow> LoadStrikeAccessibilityCiGateOutcome" where
  "gate_Evaluate g result =
     (let baseline = baseline_Compare (acg_Baseline g) result;
          reasons =
            (if acg_MaxViolations g \<ge> 0 \<and> TotalViolations result > acg_MaxViolations g
             then [''accessibility violations '' @ dec_of_int (TotalViolations result) @ '' exceeded limit '' @
               dec_of_int (acg_MaxViolations g)] else []) @
            (if CriticalViolations result > acg_MaxCriticalViolations g
             then [''critical accessibility violations '' @ dec_of_int (CriticalViolations result) @
               '' exceeded limit '' @ dec_of_int (acg_MaxCriticalViolations g)] else []) @
            (if SeriousViolations result > acg_MaxSeriousViolations g
             then [''serious accessibility violations '' @ dec_of_int (SeriousViolations result) @
               '' exceeded limit '' @ dec_of_int (acg_MaxSeriousViolations g)] else []) @
            (if \<not> abo_Passed baseline
             then [''new accessibility rule violations: '' @ join_with '', '' (abo_NewRuleIDs baseline)] else [])
      in \<lparr>ago_Passed = (length reasons = 0), ago_Reasons = reasons\<rparr>)"

definition maxAccessibilityInt :: "int \<Rightarrow> int \<Rightarrow> int" where
  "maxAccessibilityInt a b = (if a > b then a else b)"

definition evaluateAccessibilityResult ::
  "LoadStrikeAccessibilityOptions \<Rightarrow> LoadStrikeAccessibilityResult \<Rightarrow> string" where
  "evaluateAccessibilityResult options result =
     (let maxViolations = maxAccessibilityInt (aco_MaxViolations options) 0;
          maxCritical = maxAccessibilityInt (aco_MaxCriticalViolations options) 0;
          maxSerious = maxAccessibilityInt (aco_MaxSeriousViolations options) 0 in
      if TotalViolations result > maxViolations
      then ''Accessibility violations '' @ dec_of_int (TotalViolations result) @ '' exceeded limit '' @
        dec_of_int maxViolations @ ''.''
      else if CriticalViolations result > maxCritical
      then ''Critical accessibility violations '' @ dec_of_int (CriticalViolations result) @ '' exceeded limit '' @
        dec_of_int maxCritical @ ''.''
      else if SeriousViolations result > maxSerious
      then ''Serious accessibility violations '' @ dec_of_int (SeriousViolations result) @ '' exceeded limit '' @
        dec_of_int maxSerious @ ''.''
      else [])"

section \<open>Values from a browser\<close>

text \<open>
  \<open>bw_float\<close> and \<open>bw_fields\<close> are what reflection makes of values of other types; \<open>bw_FormatG\<close> is the verb
  \<open>%g\<close>.
\<close>

record browser_env =
  bw_urls :: net_url
  bw_fmt :: go_fmt
  bw_ParseFloat :: "string \<Rightarrow> float64 option"
  bw_FormatG :: "float64 \<Rightarrow> string"
  bw_float :: "string \<Rightarrow> go_ref \<Rightarrow> float64 option"
  bw_fields :: "string \<Rightarrow> go_ref \<Rightarrow> (string \<times> float64) list"

record LoadStrikeBrowserWebVitalsOptions =
  wvo_URL :: string
  wvo_MaxLargestContentfulPaintMS :: "float64 option"
  wvo_MaxInteractionToNextPaintMS :: "float64 option"
  wvo_MaxCumulativeLayoutShift :: "float64 option"
  wvo_MaxFirstContentfulPaintMS :: "float64 option"
  wvo_MaxTimeToFirstByteMS :: "float64 option"

record LoadStrikeBrowserWebVitalsResult =
  wvr_URL :: string
  wvr_LargestContentfulPaintMS :: "float64 option"
  wvr_InteractionToNextPaintMS :: "float64 option"
  wvr_CumulativeLayoutShift :: "float64 option"
  wvr_FirstContentfulPaintMS :: "float64 option"
  wvr_TimeToFirstByteMS :: "float64 option"

definition browserSnapshotFloat :: "browser_env \<Rightarrow> go_any \<Rightarrow> float64 option" where
  "browserSnapshotFloat E value =
     (case value of
        AnyFloat64 typed \<Rightarrow> Some typed
      | AnyFloat32 typed \<Rightarrow> Some typed
      | AnyInt typed \<Rightarrow> Some (f64_of_int typed)
      | AnyInt32 typed \<Rightarrow> Some (f64_of_int typed)
      | AnyInt64 typed \<Rightarrow> Some (f64_of_int typed)
      | AnyString typed \<Rightarrow> bw_ParseFloat E (trim_space typed)
      | AnyOther t r \<Rightarrow> bw_float E t r
      | _ \<Rightarrow> None)"

definition browserSnapshotValues :: "browser_env \<Rightarrow> go_any \<Rightarrow> (string \<rightharpoonup> float64)" where
  "browserSnapshotValues E snapshot =
     (case snapshot of
        AnyMap members \<Rightarrow> (\<lambda>key. Option.bind (map_of members key) (browserSnapshotFloat E))
      | AnyOther t r \<Rightarrow> map_of (bw_fields E t r)
      | _ \<Rightarrow> Map.empty)"

fun first_value :: "(string \<rightharpoonup> float64) \<Rightarrow> string list \<Rightarrow> float64 option" where
  "first_value values [] = None"
| "first_value values (key # keys) =
     (case values key of Some current \<Rightarrow> Some current | None \<Rightarrow> first_value values keys)"

definition webVitalsResultFromSnapshot ::
  "browser_env \<Rightarrow> LoadStrikeBrowserWebVitalsOptions \<Rightarrow> go_any \<Rightarrow> LoadStrikeBrowserWebVitalsResult" where
  "webVitalsResultFromSnapshot E options snapshot =
     (let values = browserSnapshotValues E snapshot in
      \<lparr>wvr_URL = wvo_URL options,
       wvr_LargestContentfulPaintMS = first_value values [''LCP'', ''largestContentfulPaintMs''],
       wvr_InteractionToNextPaintMS = first_value values [''INP'', ''interactionToNextPaintMs''],
       wvr_CumulativeLayoutShift = first_value values [''CLS'', ''cumulativeLayoutShift''],
       wvr_FirstContentfulPaintMS = first_value values [''FCP'', ''firstContentfulPaintMs''],
       wvr_TimeToFirstByteMS = first_value values [''TTFB'', ''timeToFirstByteMs'']\<rparr>)"

definition FromPerformanceSnapshot ::
  "browser_env \<Rightarrow> LoadStrikeBrowserWebVitalsOptions \<Rightarrow> (string \<times> float64) list \<Rightarrow> LoadStrikeBrowserWebVitalsResult" where
  "FromPerformanceSnapshot E options snapshot =
     webVitalsResultFromSnapshot E options (AnyMap (map (map_prod id AnyFloat64) snapshot))"

text \<open>
  A method of a browser object as reflection sees it: whether each parameter is a string, and what a call
  does: it panics or has results, and a result whose type is an error may be one.
\<close>

record method_result =
  mr_value :: go_any
  mr_error :: "go_error option option"

record browser_method =
  bm_string_inputs :: "bool list"
  bm_variadic :: bool
  bm_call :: "string list \<Rightarrow> method_result list res"

definition callBrowserWebVitalsMethod :: "browser_method \<Rightarrow> string list \<Rightarrow> method_result list res" where
  "callBrowserWebVitalsMethod bm args = map_sum ((@) ''browser Web Vitals evaluation failed: '') id (bm_call bm args)"

definition method_fits :: "browser_method \<Rightarrow> bool" where
  "method_fits bm \<longleftrightarrow>
     \<not> (length (bm_string_inputs bm) > 0 \<and> \<not> hd (bm_string_inputs bm)) \<and>
     \<not> (\<not> bm_variadic bm \<and> length (bm_string_inputs bm) > 1)"

definition method_answer :: "method_result list \<Rightarrow> go_any res" where
  "method_answer results =
     (if results = [] then Inr AnyNil
      else case mr_error (last results) of
             Some (Some e) \<Rightarrow> Inl e
           | Some None \<Rightarrow> Inr (if length results = 1 then AnyNil else mr_value (hd results))
           | None \<Rightarrow> Inr (mr_value (hd results)))"

fun invoke_first :: "(string \<rightharpoonup> browser_method) \<Rightarrow> string \<Rightarrow> string list \<Rightarrow> go_any res" where
  "invoke_first methods script [] = Inl ''browser object does not expose a supported Web Vitals evaluation method''"
| "invoke_first methods script (name # names) =
     (case methods name of
        None \<Rightarrow> invoke_first methods script names
      | Some bm \<Rightarrow>
          if \<not> method_fits bm then invoke_first methods script names
          else (case callBrowserWebVitalsMethod bm (if length (bm_string_inputs bm) > 0 then [script] else []) of
                  Inl e \<Rightarrow> Inl e
                | Inr results \<Rightarrow> method_answer results))"

definition invokeBrowserWebVitalsMethod ::
  "(string \<rightharpoonup> browser_method) option \<Rightarrow> string list \<Rightarrow> string \<Rightarrow> go_any res" where
  "invokeBrowserWebVitalsMethod target names script =
     (case target of
        None \<Rightarrow> Inl ''browser object must be provided''
      | Some methods \<Rightarrow> invoke_first methods script names)"

definition validateAbsoluteURL :: "net_url \<Rightarrow> string \<Rightarrow> string \<Rightarrow> unit res" where
  "validateAbsoluteURL urls value label =
     (case url_Parse urls (trim_space value) of
        Some parsed \<Rightarrow> if Scheme parsed = [] \<or> Host parsed = [] then Inl (label @ '' must be an absolute URL.'') else Inr ()
      | None \<Rightarrow> Inl (label @ '' must be an absolute URL.''))"

text \<open>A panic is the outer error, a returned error the inner one. The script is an argument.\<close>

definition vitals_from ::
  "browser_env \<Rightarrow> string list \<Rightarrow> LoadStrikeBrowserWebVitalsOptions \<Rightarrow> (string \<rightharpoonup> browser_method) option \<Rightarrow> string \<Rightarrow>
     LoadStrikeBrowserWebVitalsResult res res" where
  "vitals_from E names options target script =
     (case validateAbsoluteURL (bw_urls E) (wvo_URL options) ''Browser Web Vitals URL'' of
        Inl m \<Rightarrow> Inl m
      | Inr _ \<Rightarrow> Inr (map_sum id (webVitalsResultFromSnapshot E options) (invokeBrowserWebVitalsMethod target names script)))"

definition FromPlaywrightPageAsync where
  "FromPlaywrightPageAsync E = vitals_from E [''EvaluateAsync'', ''Evaluate'', ''evaluate'']"

definition FromSeleniumDriver where
  "FromSeleniumDriver E = vitals_from E [''ExecuteScript'', ''executeScript'']"

text \<open>One entry of the variadic list is a name, a measured value, its limit and a unit.\<close>

fun firstWebVitalsViolation ::
  "(float64 \<Rightarrow> string) \<Rightarrow> (string \<times> float64 option \<times> float64 option \<times> string) list \<Rightarrow> string" where
  "firstWebVitalsViolation format [] = []"
| "firstWebVitalsViolation format ((name, Some actual, Some limit, unit) # values) =
     (if f64_le actual limit then firstWebVitalsViolation format values
      else let suffix = (if trim_space unit \<noteq> [] then '' '' @ unit else [])
           in name @ '' '' @ format actual @ suffix @ '' exceeded limit '' @ format limit @ suffix @ ''.'')"
| "firstWebVitalsViolation format (_ # values) = firstWebVitalsViolation format values"

definition evaluateWebVitalsResult ::
  "browser_env \<Rightarrow> LoadStrikeBrowserWebVitalsOptions \<Rightarrow> LoadStrikeBrowserWebVitalsResult \<Rightarrow> string" where
  "evaluateWebVitalsResult E options result =
     firstWebVitalsViolation (bw_FormatG E)
       [(''LCP'', wvr_LargestContentfulPaintMS result, wvo_MaxLargestContentfulPaintMS options, ''ms''),
        (''INP'', wvr_InteractionToNextPaintMS result, wvo_MaxInteractionToNextPaintMS options, ''ms''),
        (''CLS'', wvr_CumulativeLayoutShift result, wvo_MaxCumulativeLayoutShift options, []),
        (''FCP'', wvr_FirstContentfulPaintMS result, wvo_MaxFirstContentfulPaintMS options, ''ms''),
        (''TTFB'', wvr_TimeToFirstByteMS result, wvo_MaxTimeToFirstByteMS options, ''ms'')]"

section \<open>Scenarios that check\<close>

definition accessibilityTestingFeature :: string where
  "accessibilityTestingFeature = ''testing.accessibility''"

definition browserWebVitalsFeature :: string where
  "browserWebVitalsFeature = ''testing.browser_web_vitals''"

text \<open>The function that a scenario runs, after the check of the program has returned.\<close>

definition accessibility_reply ::
  "(float64 \<Rightarrow> int) \<Rightarrow> LoadStrikeAccessibilityOptions \<Rightarrow> LoadStrikeAccessibilityResult res \<Rightarrow> replyResult" where
  "accessibility_reply conv options checked =
     (case checked of
        Inl err \<Rightarrow> Response_Fail conv [AnyString ''accessibility'', AnyString err]
      | Inr result \<Rightarrow>
          (let failure = evaluateAccessibilityResult options result in
           if failure \<noteq> [] then Response_Fail conv [AnyString ''accessibility'', AnyString failure]
           else Response_Ok conv [AnyString ''200'', AnyInt64 0,
             AnyString (''Accessibility check passed with '' @ dec_of_int (TotalViolations result) @ '' violation(s).'')]))"

definition web_vitals_reply ::
  "browser_env \<Rightarrow> (float64 \<Rightarrow> int) \<Rightarrow> LoadStrikeBrowserWebVitalsOptions \<Rightarrow> LoadStrikeBrowserWebVitalsResult res \<Rightarrow>
     replyResult" where
  "web_vitals_reply E conv options measured =
     (case measured of
        Inl err \<Rightarrow> Response_Fail conv [AnyString ''web_vitals'', AnyString err]
      | Inr result \<Rightarrow>
          (let failure = evaluateWebVitalsResult E options result in
           if failure \<noteq> [] then Response_Fail conv [AnyString ''web_vitals'', AnyString failure]
           else Response_Ok conv [AnyString ''200'', AnyInt64 0, AnyString ''Browser Web Vitals check passed.'']))"

definition check_function_type :: go_func_type where
  "check_function_type = OtherFunc ''func(loadstrike.LoadStrikeScenarioContext) loadstrike.LoadStrikeReply''"

text \<open>\<open>reply\<close> is the reference of the function above, \<open>provided\<close> whether the program gave a check.\<close>

definition accessibility_CreateScenario ::
  "browser_env \<Rightarrow> string \<Rightarrow> LoadStrikeAccessibilityOptions \<Rightarrow> bool \<Rightarrow> go_ref \<Rightarrow> scenarioDefinition res" where
  "accessibility_CreateScenario E name options provided reply =
     (if trim_space name = [] then Inl ''Scenario name must be provided.''
      else case validateAbsoluteURL (bw_urls E) (aco_URL options) ''Accessibility check URL'' of
        Inl m \<Rightarrow> Inl m
      | Inr _ \<Rightarrow>
          if \<not> provided then Inl ''Accessibility check callback must be provided.''
          else map_sum id (\<lambda>native. withInternalLicenseFeatures [accessibilityTestingFeature] (WithoutWarmUp native))
            (createScenario (bw_fmt E) name (AnyFunc check_function_type (Some reply))))"

definition web_vitals_CreateScenario ::
  "browser_env \<Rightarrow> string \<Rightarrow> LoadStrikeBrowserWebVitalsOptions \<Rightarrow> bool \<Rightarrow> go_ref \<Rightarrow> scenarioDefinition res" where
  "web_vitals_CreateScenario E name options provided reply =
     (if trim_space name = [] then Inl ''Scenario name must be provided.''
      else case validateAbsoluteURL (bw_urls E) (wvo_URL options) ''Browser Web Vitals URL'' of
        Inl m \<Rightarrow> Inl m
      | Inr _ \<Rightarrow>
          if \<not> provided then Inl ''Browser Web Vitals measurement callback must be provided.''
          else map_sum id (\<lambda>native. withInternalLicenseFeatures [browserWebVitalsFeature] (WithoutWarmUp native))
            (createScenario (bw_fmt E) name (AnyFunc check_function_type (Some reply))))"

section \<open>What a scan, a gate and a check say\<close>

lemma countImpact_filter:
  "countImpact impact r = int (length (filter (\<lambda>v. equal_fold (acv_Impact v) impact) (acr_Violations r)))"
proof -
  have "fold (\<lambda>v count. if equal_fold (acv_Impact v) impact then count + 1 else count) vs n =
      n + int (length (filter (\<lambda>v. equal_fold (acv_Impact v) impact) vs))"
    for vs :: "LoadStrikeAccessibilityViolation list" and n :: int
    by (induction vs arbitrary: n) auto
  then show ?thesis by (simp add: countImpact_def)
qed

text \<open>
  A scan reports at most five problems, no rule twice, at most three of them critical and two serious,
  and every problem is one or the other.
\<close>

theorem scan_counts:
  "distinct (map acv_RuleID (acr_Violations (ScanHTML options html))) \<and>
   TotalViolations (ScanHTML options html) =
     CriticalViolations (ScanHTML options html) + SeriousViolations (ScanHTML options html) \<and>
   CriticalViolations (ScanHTML options html) \<le> 3 \<and> SeriousViolations (ScanHTML options html) \<le> 2"
proof -
  have impacts: "equal_fold ''critical'' ''critical''" "\<not> equal_fold ''serious'' ''critical''"
    "equal_fold ''serious'' ''serious''" "\<not> equal_fold ''critical'' ''serious''"
    by code_simp+
  show ?thesis
    by (simp add: ScanHTML_def Let_def scan_violations_def violation_def TotalViolations_def CriticalViolations_def
        SeriousViolations_def countImpact_filter impacts)
qed

lemma allowed_rules_eq: "allowed_rules b = trim_space ` set (acb_AllowedRuleIDs b) - {[]}"
proof -
  have "fold (\<lambda>ruleID allowed. if trim_space ruleID \<noteq> [] then insert (trim_space ruleID) allowed else allowed) rs A =
      A \<union> (trim_space ` set rs - {[]})" for rs and A :: "string set"
    by (induction rs arbitrary: A) auto
  then show ?thesis by (simp add: allowed_rules_def)
qed

lemma new_rules_set:
  "set (new_rules A B vs) = (\<lambda>v. trim_space (acv_RuleID v)) ` set vs - insert [] (A \<union> B)"
proof (induction vs arbitrary: B)
  case (Cons v vs)
  show ?case
    by (cases "trim_space (acv_RuleID v) = [] \<or> trim_space (acv_RuleID v) \<in> A \<union> B") (auto simp: Let_def Cons.IH)
qed simp

lemma new_rules_distinct: "distinct (new_rules A B vs)"
  by (induction vs arbitrary: B) (simp_all add: Let_def new_rules_set)

lemma baseline_new_rules:
  "distinct (abo_NewRuleIDs (baseline_Compare b r))"
  "set (abo_NewRuleIDs (baseline_Compare b r)) =
     (\<lambda>v. trim_space (acv_RuleID v)) ` set (acr_Violations r) - insert [] (trim_space ` set (acb_AllowedRuleIDs b))"
  by (simp_all add: baseline_Compare_def new_rules_distinct new_rules_set allowed_rules_eq Let_def)

lemma baseline_passes: "abo_Passed (baseline_Compare b r) \<longleftrightarrow> set (abo_NewRuleIDs (baseline_Compare b r)) = {}"
  by (simp add: baseline_Compare_def Let_def)

text \<open>
  C19: A gate passes a result exactly when its three counts are within the limits, where only the limit
  of all problems can be turned off by a negative number, and each of its rules is in the baseline; the new rules it
  names are exactly the others, each once.
\<close>

theorem gate_passes_iff:
  "(ago_Passed (gate_Evaluate g r) \<longleftrightarrow>
     (acg_MaxViolations g < 0 \<or> TotalViolations r \<le> acg_MaxViolations g) \<and>
     CriticalViolations r \<le> acg_MaxCriticalViolations g \<and> SeriousViolations r \<le> acg_MaxSeriousViolations g \<and>
     (\<lambda>v. trim_space (acv_RuleID v)) ` set (acr_Violations r) \<subseteq>
       insert [] (trim_space ` set (acb_AllowedRuleIDs (acg_Baseline g)))) \<and>
   distinct (abo_NewRuleIDs (baseline_Compare (acg_Baseline g) r)) \<and>
   set (abo_NewRuleIDs (baseline_Compare (acg_Baseline g) r)) =
     (\<lambda>v. trim_space (acv_RuleID v)) ` set (acr_Violations r) -
       insert [] (trim_space ` set (acb_AllowedRuleIDs (acg_Baseline g)))"
proof -
  have "abo_Passed (baseline_Compare (acg_Baseline g) r) \<longleftrightarrow>
      (\<lambda>v. trim_space (acv_RuleID v)) ` set (acr_Violations r) \<subseteq>
        insert [] (trim_space ` set (acb_AllowedRuleIDs (acg_Baseline g)))"
    unfolding baseline_passes baseline_new_rules by (rule Diff_eq_empty_iff)
  moreover have "ago_Passed (gate_Evaluate g r) \<longleftrightarrow>
      (acg_MaxViolations g < 0 \<or> TotalViolations r \<le> acg_MaxViolations g) \<and>
      CriticalViolations r \<le> acg_MaxCriticalViolations g \<and> SeriousViolations r \<le> acg_MaxSeriousViolations g \<and>
      abo_Passed (baseline_Compare (acg_Baseline g) r)"
    by (auto simp: gate_Evaluate_def Let_def)
  ultimately show ?thesis
    using baseline_new_rules by blast
qed

text \<open>The limits of a check; a negative limit counts as none allowed, and a value or a limit may be missing.\<close>

definition accessibility_within :: "LoadStrikeAccessibilityOptions \<Rightarrow> LoadStrikeAccessibilityResult \<Rightarrow> bool" where
  "accessibility_within options r \<longleftrightarrow>
     TotalViolations r \<le> max (aco_MaxViolations options) 0 \<and>
     CriticalViolations r \<le> max (aco_MaxCriticalViolations options) 0 \<and>
     SeriousViolations r \<le> max (aco_MaxSeriousViolations options) 0"

fun value_within :: "float64 option \<Rightarrow> float64 option \<Rightarrow> bool" where
  "value_within (Some actual) (Some limit) = f64_le actual limit"
| "value_within _ _ = True"

definition vitals_within :: "LoadStrikeBrowserWebVitalsOptions \<Rightarrow> LoadStrikeBrowserWebVitalsResult \<Rightarrow> bool" where
  "vitals_within options r \<longleftrightarrow>
     value_within (wvr_LargestContentfulPaintMS r) (wvo_MaxLargestContentfulPaintMS options) \<and>
     value_within (wvr_InteractionToNextPaintMS r) (wvo_MaxInteractionToNextPaintMS options) \<and>
     value_within (wvr_CumulativeLayoutShift r) (wvo_MaxCumulativeLayoutShift options) \<and>
     value_within (wvr_FirstContentfulPaintMS r) (wvo_MaxFirstContentfulPaintMS options) \<and>
     value_within (wvr_TimeToFirstByteMS r) (wvo_MaxTimeToFirstByteMS options)"

lemma evaluate_within: "evaluateAccessibilityResult options r = [] \<longleftrightarrow> accessibility_within options r"
  by (auto simp: evaluateAccessibilityResult_def accessibility_within_def maxAccessibilityInt_def Let_def)

lemma first_violation_Nil:
  "list_all (\<lambda>(name, rest). name \<noteq> []) rows \<Longrightarrow>
     firstWebVitalsViolation fmt rows = [] \<longleftrightarrow> list_all (\<lambda>(_, actual, limit, _). value_within actual limit) rows"
  by (induction fmt rows rule: firstWebVitalsViolation.induct) (auto simp: Let_def)

lemma evaluate_vitals_within: "evaluateWebVitalsResult E options r = [] \<longleftrightarrow> vitals_within options r"
  unfolding evaluateWebVitalsResult_def by (subst first_violation_Nil) (simp_all add: vitals_within_def)

text \<open>A category is no status code, so it becomes the payload of the reply and the reason its status code.\<close>

definition failed_check :: "string \<Rightarrow> string \<Rightarrow> replyResult" where
  "failed_check category reason =
     \<lparr>reply_IsSuccess = False, reply_IsError = True,
      reply_StatusCode = (if blank reason then ''500'' else reason), reply_Message = [], reply_SizeBytes = 0,
      reply_CustomLatencyMS = Fin (- 1), reply_Payload = AnyString category\<rparr>"

definition passed_check :: "string \<Rightarrow> replyResult" where
  "passed_check message =
     \<lparr>reply_IsSuccess = True, reply_IsError = False, reply_StatusCode = ''200'', reply_Message = message,
      reply_SizeBytes = 0, reply_CustomLatencyMS = Fin (- 1), reply_Payload = AnyNil\<rparr>"

lemma Response_Fail_category:
  "\<not> replyStatusCodePattern (trim_space category) \<Longrightarrow>
     Response_Fail conv [AnyString category, AnyString reason] = failed_check category reason"
  by (simp add: Response_Fail_def dotnetStyleReply_def newLoadStrikeReply_def normalizeReplyValue_def failReply_def
      parseReplyOptions_def failed_check_def Let_def)

lemma Response_Ok_check: "Response_Ok conv [AnyString ''200'', AnyInt64 0, AnyString message] = passed_check message"
proof -
  have "replyStatusCodePattern (trim_space ''200'')" "\<not> blank ''200''" by code_simp+
  then show ?thesis
    by (simp add: Response_Ok_def dotnetStyleReply_def newLoadStrikeReply_def normalizeReplyValue_def okReply_def
        parseReplyOptions_def reply_size_arg_def passed_check_def Let_def)
qed

lemma categories:
  "\<not> replyStatusCodePattern (trim_space ''accessibility'')" "\<not> replyStatusCodePattern (trim_space ''web_vitals'')"
  by code_simp+

text \<open>
  C18: A scenario that checks a page succeeds exactly when the check returned a result within the limits.
  Otherwise its reply has the reason as its status code, an empty message, and the category as its payload.
\<close>

theorem check_replies:
  "accessibility_reply conv options checked =
     (case checked of
        Inl err \<Rightarrow> failed_check ''accessibility'' err
      | Inr r \<Rightarrow>
          if accessibility_within options r
          then passed_check (''Accessibility check passed with '' @ dec_of_int (TotalViolations r) @ '' violation(s).'')
          else failed_check ''accessibility'' (evaluateAccessibilityResult options r)) \<and>
   web_vitals_reply E conv vitals measured =
     (case measured of
        Inl err \<Rightarrow> failed_check ''web_vitals'' err
      | Inr r \<Rightarrow>
          if vitals_within vitals r then passed_check ''Browser Web Vitals check passed.''
          else failed_check ''web_vitals'' (evaluateWebVitalsResult E vitals r))"
  by (simp add: accessibility_reply_def web_vitals_reply_def Response_Fail_category Response_Ok_check categories
      evaluate_within evaluate_vitals_within Let_def split: sum.split)

end
