(* ===== verification/Public_Handles.thy ===== *)
theory Public_Handles
  imports Runtime_Config
begin

text \<open>
  The public contexts and runners (\<open>public_context_runner_wrappers.go\<close>, \<open>parity_helpers.go\<close>, the public
  side of \<open>runner.go\<close>) are handles: copies of a handle point to the same object. The objects of a program
  are a store; a handle of a context points to a context that was built, or into a runner.
\<close>

section \<open>Objects and handles\<close>

datatype context_ref = BuiltContext nat | RunnerContext nat

record LoadStrikeContext = lsc_native :: "context_ref option"
record LoadStrikeRunner = lsr_native :: "nat option"

record objects =
  obj_contexts :: "nat \<Rightarrow> contextState"
  obj_runners :: "nat \<Rightarrow> runnerState"
  obj_next :: nat

fun load_context :: "context_ref \<Rightarrow> objects \<Rightarrow> contextState" where
  "load_context (BuiltContext k) st = obj_contexts st k"
| "load_context (RunnerContext a) st = run_context (obj_runners st a)"

fun store_context :: "context_ref \<Rightarrow> contextState \<Rightarrow> objects \<Rightarrow> objects" where
  "store_context (BuiltContext k) x st = st\<lparr>obj_contexts := (obj_contexts st)(k := x)\<rparr>"
| "store_context (RunnerContext a) x st =
     st\<lparr>obj_runners := (obj_runners st)(a := (obj_runners st a)\<lparr>run_context := x\<rparr>)\<rparr>"

definition store_runner :: "nat \<Rightarrow> runnerState \<Rightarrow> objects \<Rightarrow> objects" where
  "store_runner a x st = st\<lparr>obj_runners := (obj_runners st)(a := x)\<rparr>"

text \<open>A call gives a value or panics, and leaves the objects as they are then.\<close>

type_synonym 'a api_call = "objects \<Rightarrow> 'a res \<times> objects"

definition wrapLoadStrikeContext :: "context_ref option \<Rightarrow> LoadStrikeContext" where
  "wrapLoadStrikeContext ref = \<lparr>lsc_native = ref\<rparr>"

definition wrapLoadStrikeRunner :: "nat option \<Rightarrow> LoadStrikeRunner" where
  "wrapLoadStrikeRunner ref = \<lparr>lsr_native = ref\<rparr>"

definition requireNativeContext :: "LoadStrikeContext \<Rightarrow> context_ref res" where
  "requireNativeContext c = (case lsc_native c of None \<Rightarrow> Inl ''context must be provided'' | Some ref \<Rightarrow> Inr ref)"

definition requireRunner :: "LoadStrikeRunner \<Rightarrow> nat res" where
  "requireRunner r = (case lsr_native r of None \<Rightarrow> Inl ''runner must be provided'' | Some a \<Rightarrow> Inr a)"

definition act_on_context :: "contextState act \<Rightarrow> context_ref \<Rightarrow> objects \<Rightarrow> string option \<times> objects" where
  "act_on_context f ref st = (case f (load_context ref st) of (m, x) \<Rightarrow> (m, store_context ref x st))"

definition act_on_runner :: "runnerState act \<Rightarrow> nat \<Rightarrow> objects \<Rightarrow> string option \<times> objects" where
  "act_on_runner f a st = (case f (obj_runners st a) of (m, x) \<Rightarrow> (m, store_runner a x st))"

definition returning :: "'a \<Rightarrow> string option \<times> objects \<Rightarrow> 'a res \<times> objects" where
  "returning v r = (case r of (None, st) \<Rightarrow> (Inr v, st) | (Some m, st) \<Rightarrow> (Inl m, st))"

text \<open>A fluent method: the operation on the object, and the same handle again.\<close>

definition context_call :: "contextState act \<Rightarrow> LoadStrikeContext \<Rightarrow> LoadStrikeContext api_call" where
  "context_call f c st =
     (case requireNativeContext c of Inl m \<Rightarrow> (Inl m, st) | Inr ref \<Rightarrow> returning c (act_on_context f ref st))"

definition runner_call :: "runnerState act \<Rightarrow> LoadStrikeRunner \<Rightarrow> LoadStrikeRunner api_call" where
  "runner_call f r st =
     (case requireRunner r of Inl m \<Rightarrow> (Inl m, st) | Inr a \<Rightarrow> returning r (act_on_runner f a st))"

section \<open>The methods of a context\<close>

definition handle_DisplayConsoleMetrics :: "bool \<Rightarrow> LoadStrikeContext \<Rightarrow> LoadStrikeContext api_call" where
  "handle_DisplayConsoleMetrics enabled c = context_call (WithDisplayConsoleMetrics enabled) c"

definition handle_EnableLocalDevCluster :: "bool \<Rightarrow> LoadStrikeContext \<Rightarrow> LoadStrikeContext api_call" where
  "handle_EnableLocalDevCluster enable c = context_call (EnableLocalDevCluster enable) c"

definition handle_LoadConfig :: "json_pkg \<Rightarrow> (string \<Rightarrow> json res) \<Rightarrow> string \<Rightarrow> LoadStrikeContext \<Rightarrow> LoadStrikeContext api_call" where
  "handle_LoadConfig js read path c = context_call (LoadConfig js read path) c"

definition handle_LoadInfraConfig :: "string \<Rightarrow> LoadStrikeContext \<Rightarrow> LoadStrikeContext api_call" where
  "handle_LoadInfraConfig path c = context_call (LoadInfraConfig path) c"

definition handle_WithTestSuite :: "string \<Rightarrow> LoadStrikeContext \<Rightarrow> LoadStrikeContext api_call" where
  "handle_WithTestSuite testSuite c = context_call (WithTestSuite testSuite) c"

definition handle_WithRunnerKey :: "string \<Rightarrow> LoadStrikeContext \<Rightarrow> LoadStrikeContext api_call" where
  "handle_WithRunnerKey runnerKey c = context_call (WithRunnerKey runnerKey) c"

definition handle_WithTestName :: "string \<Rightarrow> LoadStrikeContext \<Rightarrow> LoadStrikeContext api_call" where
  "handle_WithTestName testName c = context_call (WithTestName testName) c"

definition handle_WithMinimumLogLevel :: "string \<Rightarrow> LoadStrikeContext \<Rightarrow> LoadStrikeContext api_call" where
  "handle_WithMinimumLogLevel level c = context_call (WithMinimumLogLevel level) c"

definition handle_WithLoggerConfig :: "(string \<Rightarrow> file_stat) \<Rightarrow> (string \<times> go_any) list option \<Rightarrow> LoadStrikeContext \<Rightarrow> LoadStrikeContext api_call" where
  "handle_WithLoggerConfig stat config c = context_call (WithLoggerConfig stat config) c"

definition handle_WithGlobalCustomSettings :: "(string \<times> go_any) list res \<Rightarrow> LoadStrikeContext \<Rightarrow> LoadStrikeContext api_call" where
  "handle_WithGlobalCustomSettings settings c = context_call (WithGlobalCustomSettings settings) c"

definition handle_WithSessionId :: "string \<Rightarrow> LoadStrikeContext \<Rightarrow> LoadStrikeContext api_call" where
  "handle_WithSessionId sessionID c = context_call (WithSessionId sessionID) c"

definition handle_WithClusterId :: "string \<Rightarrow> LoadStrikeContext \<Rightarrow> LoadStrikeContext api_call" where
  "handle_WithClusterId clusterID c = context_call (WithClusterId clusterID) c"

definition handle_WithAgentGroup :: "string \<Rightarrow> LoadStrikeContext \<Rightarrow> LoadStrikeContext api_call" where
  "handle_WithAgentGroup agentGroup c = context_call (WithAgentGroup agentGroup) c"

definition handle_WithAgentID :: "string \<Rightarrow> LoadStrikeContext \<Rightarrow> LoadStrikeContext api_call" where
  "handle_WithAgentID agentID c = context_call (WithAgentID agentID) c"

definition handle_WithExpectedAgentIDs :: "string list \<Rightarrow> LoadStrikeContext \<Rightarrow> LoadStrikeContext api_call" where
  "handle_WithExpectedAgentIDs agentIDs c = context_call (WithExpectedAgentIDs agentIDs) c"

definition handle_WithNatsServerUrl :: "string \<Rightarrow> LoadStrikeContext \<Rightarrow> LoadStrikeContext api_call" where
  "handle_WithNatsServerUrl serverURL c = context_call (WithNatsServerURL serverURL) c"

definition handle_WithNodeType :: "NodeType \<Rightarrow> LoadStrikeContext \<Rightarrow> LoadStrikeContext api_call" where
  "handle_WithNodeType nodeType c = context_call (WithNodeType nodeType) c"

definition handle_WithAgentsCount :: "int \<Rightarrow> LoadStrikeContext \<Rightarrow> LoadStrikeContext api_call" where
  "handle_WithAgentsCount agentsCount c = context_call (WithAgentsCount agentsCount) c"

definition handle_WithTargetScenarios :: "string list \<Rightarrow> LoadStrikeContext \<Rightarrow> LoadStrikeContext api_call" where
  "handle_WithTargetScenarios targetScenarios c = context_call (WithTargetScenarios targetScenarios) c"

definition handle_WithAgentTargetScenarios :: "string list \<Rightarrow> LoadStrikeContext \<Rightarrow> LoadStrikeContext api_call" where
  "handle_WithAgentTargetScenarios targetScenarios c = context_call (WithAgentTargetScenarios targetScenarios) c"

definition handle_WithCoordinatorTargetScenarios :: "string list \<Rightarrow> LoadStrikeContext \<Rightarrow> LoadStrikeContext api_call" where
  "handle_WithCoordinatorTargetScenarios targetScenarios c = context_call (WithCoordinatorTargetScenarios targetScenarios) c"

definition handle_WithReportFolder :: "string \<Rightarrow> LoadStrikeContext \<Rightarrow> LoadStrikeContext api_call" where
  "handle_WithReportFolder reportFolder c = context_call (WithReportFolder reportFolder) c"

definition handle_WithReportFileName :: "string \<Rightarrow> LoadStrikeContext \<Rightarrow> LoadStrikeContext api_call" where
  "handle_WithReportFileName reportFileName c = context_call (WithReportFileName reportFileName) c"

definition handle_WithReportFormats :: "string list \<Rightarrow> LoadStrikeContext \<Rightarrow> LoadStrikeContext api_call" where
  "handle_WithReportFormats reportFormats c = context_call (WithReportFormats reportFormats) c"

definition handle_WithReportingInterval :: "int \<Rightarrow> LoadStrikeContext \<Rightarrow> LoadStrikeContext api_call" where
  "handle_WithReportingInterval v c = context_call (WithReportingInterval v) c"

definition handle_UseLoadEngineV2 :: "LoadStrikeContext \<Rightarrow> LoadStrikeContext api_call" where
  "handle_UseLoadEngineV2 c = context_call UseLoadEngineV2 c"

definition handle_WithMaxInFlight :: "int \<Rightarrow> LoadStrikeContext \<Rightarrow> LoadStrikeContext api_call" where
  "handle_WithMaxInFlight maxInFlight c = context_call (WithMaxInFlight maxInFlight) c"

definition handle_WithLicenseValidationTimeout :: "int \<Rightarrow> LoadStrikeContext \<Rightarrow> LoadStrikeContext api_call" where
  "handle_WithLicenseValidationTimeout v c = context_call (WithLicenseValidationTimeout v) c"

definition handle_WithRuntimePolicies :: "go_ref option list \<Rightarrow> LoadStrikeContext \<Rightarrow> LoadStrikeContext api_call" where
  "handle_WithRuntimePolicies runtimePolicies c = context_call (WithRuntimePolicies runtimePolicies) c"

definition handle_WithReportingSinks :: "sink_value list \<Rightarrow> LoadStrikeContext \<Rightarrow> LoadStrikeContext api_call" where
  "handle_WithReportingSinks reportingSinks c = context_call (WithReportingSinks reportingSinks) c"

definition handle_WithPortalReporting :: "LoadStrikeContext \<Rightarrow> LoadStrikeContext api_call" where
  "handle_WithPortalReporting c = context_call WithPortalReporting c"

definition handle_WithWorkerPlugins :: "go_ref option list \<Rightarrow> LoadStrikeContext \<Rightarrow> LoadStrikeContext api_call" where
  "handle_WithWorkerPlugins workerPlugins c = context_call (WithWorkerPlugins workerPlugins) c"

definition handle_WithRuntimePolicyErrorMode :: "RuntimePolicyErrorMode \<Rightarrow> LoadStrikeContext \<Rightarrow> LoadStrikeContext api_call" where
  "handle_WithRuntimePolicyErrorMode mode c = context_call (WithRuntimePolicyErrorMode mode) c"

definition handle_WithScenarioCompletionTimeout :: "int \<Rightarrow> LoadStrikeContext \<Rightarrow> LoadStrikeContext api_call" where
  "handle_WithScenarioCompletionTimeout v c = context_call (WithScenarioCompletionTimeout v) c"

definition handle_WithClusterCommandTimeout :: "int \<Rightarrow> LoadStrikeContext \<Rightarrow> LoadStrikeContext api_call" where
  "handle_WithClusterCommandTimeout v c = context_call (WithClusterCommandTimeout v) c"

definition handle_WithRestartIterationMaxAttempts :: "int \<Rightarrow> LoadStrikeContext \<Rightarrow> LoadStrikeContext api_call" where
  "handle_WithRestartIterationMaxAttempts attempts c = context_call (WithRestartIterationMaxAttempts attempts) c"

definition handle_WithoutReports :: "LoadStrikeContext \<Rightarrow> LoadStrikeContext api_call" where
  "handle_WithoutReports c = context_call WithoutReports c"

section \<open>The functions of the package on a context\<close>

definition requireLoadStrikeContext :: "LoadStrikeContext \<Rightarrow> LoadStrikeContext res" where
  "requireLoadStrikeContext context =
     (if lsc_native context = None then Inl ''context must be provided'' else Inr context)"

definition static_call :: "(LoadStrikeContext \<Rightarrow> 'a api_call) \<Rightarrow> LoadStrikeContext \<Rightarrow> 'a api_call" where
  "static_call f context st =
     (case requireLoadStrikeContext context of Inl m \<Rightarrow> (Inl m, st) | Inr c \<Rightarrow> f c st)"

definition static_DisplayConsoleMetrics :: "bool \<Rightarrow> LoadStrikeContext \<Rightarrow> LoadStrikeContext api_call" where
  "static_DisplayConsoleMetrics enabled c = static_call (handle_DisplayConsoleMetrics enabled) c"

definition static_EnableLocalDevCluster :: "bool \<Rightarrow> LoadStrikeContext \<Rightarrow> LoadStrikeContext api_call" where
  "static_EnableLocalDevCluster enable c = static_call (handle_EnableLocalDevCluster enable) c"

definition static_LoadConfig :: "json_pkg \<Rightarrow> (string \<Rightarrow> json res) \<Rightarrow> string \<Rightarrow> LoadStrikeContext \<Rightarrow> LoadStrikeContext api_call" where
  "static_LoadConfig js read path c = static_call (handle_LoadConfig js read path) c"

definition static_LoadInfraConfig :: "string \<Rightarrow> LoadStrikeContext \<Rightarrow> LoadStrikeContext api_call" where
  "static_LoadInfraConfig path c = static_call (handle_LoadInfraConfig path) c"

definition static_WithAgentGroup :: "string \<Rightarrow> LoadStrikeContext \<Rightarrow> LoadStrikeContext api_call" where
  "static_WithAgentGroup agentGroup c = static_call (handle_WithAgentGroup agentGroup) c"

definition static_WithAgentsCount :: "int \<Rightarrow> LoadStrikeContext \<Rightarrow> LoadStrikeContext api_call" where
  "static_WithAgentsCount agentsCount c = static_call (handle_WithAgentsCount agentsCount) c"

definition static_WithAgentTargetScenarios :: "string list \<Rightarrow> LoadStrikeContext \<Rightarrow> LoadStrikeContext api_call" where
  "static_WithAgentTargetScenarios targetScenarios c = static_call (handle_WithAgentTargetScenarios targetScenarios) c"

definition static_WithClusterId :: "string \<Rightarrow> LoadStrikeContext \<Rightarrow> LoadStrikeContext api_call" where
  "static_WithClusterId clusterID c = static_call (handle_WithClusterId clusterID) c"

definition static_WithCoordinatorTargetScenarios :: "string list \<Rightarrow> LoadStrikeContext \<Rightarrow> LoadStrikeContext api_call" where
  "static_WithCoordinatorTargetScenarios targetScenarios c = static_call (handle_WithCoordinatorTargetScenarios targetScenarios) c"

definition static_WithRunnerKey :: "string \<Rightarrow> LoadStrikeContext \<Rightarrow> LoadStrikeContext api_call" where
  "static_WithRunnerKey runnerKey c = static_call (handle_WithRunnerKey runnerKey) c"

definition static_WithLicenseValidationTimeout :: "int \<Rightarrow> LoadStrikeContext \<Rightarrow> LoadStrikeContext api_call" where
  "static_WithLicenseValidationTimeout v c = static_call (handle_WithLicenseValidationTimeout v) c"

definition static_WithLoggerConfig :: "(string \<Rightarrow> file_stat) \<Rightarrow> (string \<times> go_any) list option \<Rightarrow> LoadStrikeContext \<Rightarrow> LoadStrikeContext api_call" where
  "static_WithLoggerConfig stat config c = static_call (handle_WithLoggerConfig stat config) c"

definition static_WithGlobalCustomSettings :: "(string \<times> go_any) list res \<Rightarrow> LoadStrikeContext \<Rightarrow> LoadStrikeContext api_call" where
  "static_WithGlobalCustomSettings settings c = static_call (handle_WithGlobalCustomSettings settings) c"

definition static_WithMinimumLogLevel :: "string \<Rightarrow> LoadStrikeContext \<Rightarrow> LoadStrikeContext api_call" where
  "static_WithMinimumLogLevel level c = static_call (handle_WithMinimumLogLevel level) c"

definition static_WithNatsServerURL :: "string \<Rightarrow> LoadStrikeContext \<Rightarrow> LoadStrikeContext api_call" where
  "static_WithNatsServerURL serverURL c = static_call (handle_WithNatsServerUrl serverURL) c"

definition static_WithNatsServerUrl :: "string \<Rightarrow> LoadStrikeContext \<Rightarrow> LoadStrikeContext api_call" where
  "static_WithNatsServerUrl serverURL c = static_call (handle_WithNatsServerUrl serverURL) c"

definition static_WithNodeType :: "NodeType \<Rightarrow> LoadStrikeContext \<Rightarrow> LoadStrikeContext api_call" where
  "static_WithNodeType nodeType c = static_call (handle_WithNodeType nodeType) c"

definition static_WithoutReports :: "LoadStrikeContext \<Rightarrow> LoadStrikeContext api_call" where
  "static_WithoutReports c = static_call (handle_WithoutReports) c"

definition static_WithReportFileName :: "string \<Rightarrow> LoadStrikeContext \<Rightarrow> LoadStrikeContext api_call" where
  "static_WithReportFileName reportFileName c = static_call (handle_WithReportFileName reportFileName) c"

definition static_WithReportFolder :: "string \<Rightarrow> LoadStrikeContext \<Rightarrow> LoadStrikeContext api_call" where
  "static_WithReportFolder reportFolder c = static_call (handle_WithReportFolder reportFolder) c"

definition static_WithReportFormats :: "string list \<Rightarrow> LoadStrikeContext \<Rightarrow> LoadStrikeContext api_call" where
  "static_WithReportFormats reportFormats c = static_call (handle_WithReportFormats reportFormats) c"

definition static_WithReportingInterval :: "int \<Rightarrow> LoadStrikeContext \<Rightarrow> LoadStrikeContext api_call" where
  "static_WithReportingInterval v c = static_call (handle_WithReportingInterval v) c"

definition static_WithReportingSinks :: "sink_value list \<Rightarrow> LoadStrikeContext \<Rightarrow> LoadStrikeContext api_call" where
  "static_WithReportingSinks reportingSinks c = static_call (handle_WithReportingSinks reportingSinks) c"

definition static_WithPortalReporting :: "LoadStrikeContext \<Rightarrow> LoadStrikeContext api_call" where
  "static_WithPortalReporting c = static_call (handle_WithPortalReporting) c"

definition static_WithRuntimePolicies :: "go_ref option list \<Rightarrow> LoadStrikeContext \<Rightarrow> LoadStrikeContext api_call" where
  "static_WithRuntimePolicies runtimePolicies c = static_call (handle_WithRuntimePolicies runtimePolicies) c"

definition static_WithRuntimePolicyErrorMode :: "RuntimePolicyErrorMode \<Rightarrow> LoadStrikeContext \<Rightarrow> LoadStrikeContext api_call" where
  "static_WithRuntimePolicyErrorMode mode c = static_call (handle_WithRuntimePolicyErrorMode mode) c"

definition static_WithScenarioCompletionTimeout :: "int \<Rightarrow> LoadStrikeContext \<Rightarrow> LoadStrikeContext api_call" where
  "static_WithScenarioCompletionTimeout v c = static_call (handle_WithScenarioCompletionTimeout v) c"

definition static_WithClusterCommandTimeout :: "int \<Rightarrow> LoadStrikeContext \<Rightarrow> LoadStrikeContext api_call" where
  "static_WithClusterCommandTimeout v c = static_call (handle_WithClusterCommandTimeout v) c"

definition static_WithRestartIterationMaxAttempts :: "int \<Rightarrow> LoadStrikeContext \<Rightarrow> LoadStrikeContext api_call" where
  "static_WithRestartIterationMaxAttempts attempts c = static_call (handle_WithRestartIterationMaxAttempts attempts) c"

definition static_WithSessionId :: "string \<Rightarrow> LoadStrikeContext \<Rightarrow> LoadStrikeContext api_call" where
  "static_WithSessionId sessionID c = static_call (handle_WithSessionId sessionID) c"

definition static_WithTargetScenarios :: "string list \<Rightarrow> LoadStrikeContext \<Rightarrow> LoadStrikeContext api_call" where
  "static_WithTargetScenarios targetScenarios c = static_call (handle_WithTargetScenarios targetScenarios) c"

definition static_WithTestName :: "string \<Rightarrow> LoadStrikeContext \<Rightarrow> LoadStrikeContext api_call" where
  "static_WithTestName testName c = static_call (handle_WithTestName testName) c"

definition static_WithTestSuite :: "string \<Rightarrow> LoadStrikeContext \<Rightarrow> LoadStrikeContext api_call" where
  "static_WithTestSuite testSuite c = static_call (handle_WithTestSuite testSuite) c"

definition static_WithWorkerPlugins :: "go_ref option list \<Rightarrow> LoadStrikeContext \<Rightarrow> LoadStrikeContext api_call" where
  "static_WithWorkerPlugins workerPlugins c = static_call (handle_WithWorkerPlugins workerPlugins) c"

section \<open>The methods of a runner\<close>

definition runner_handle_WithTestSuite :: "string \<Rightarrow> LoadStrikeRunner \<Rightarrow> LoadStrikeRunner api_call" where
  "runner_handle_WithTestSuite testSuite r = runner_call (runner_WithTestSuite testSuite) r"

definition runner_handle_WithRunnerKey :: "string \<Rightarrow> LoadStrikeRunner \<Rightarrow> LoadStrikeRunner api_call" where
  "runner_handle_WithRunnerKey runnerKey r = runner_call (runner_WithRunnerKey runnerKey) r"

definition runner_handle_WithTestName :: "string \<Rightarrow> LoadStrikeRunner \<Rightarrow> LoadStrikeRunner api_call" where
  "runner_handle_WithTestName testName r = runner_call (runner_WithTestName testName) r"

definition runner_handle_WithMinimumLogLevel :: "string \<Rightarrow> LoadStrikeRunner \<Rightarrow> LoadStrikeRunner api_call" where
  "runner_handle_WithMinimumLogLevel level r = runner_call (runner_WithMinimumLogLevel level) r"

definition runner_handle_WithLoggerConfig :: "(string \<Rightarrow> file_stat) \<Rightarrow> (string \<times> go_any) list option \<Rightarrow> LoadStrikeRunner \<Rightarrow> LoadStrikeRunner api_call" where
  "runner_handle_WithLoggerConfig stat config r = runner_call (runner_WithLoggerConfig stat config) r"

definition runner_handle_WithSessionId :: "string \<Rightarrow> LoadStrikeRunner \<Rightarrow> LoadStrikeRunner api_call" where
  "runner_handle_WithSessionId sessionID r = runner_call (runner_WithSessionId sessionID) r"

definition runner_handle_WithClusterId :: "string \<Rightarrow> LoadStrikeRunner \<Rightarrow> LoadStrikeRunner api_call" where
  "runner_handle_WithClusterId clusterID r = runner_call (runner_WithClusterId clusterID) r"

definition runner_handle_WithAgentGroup :: "string \<Rightarrow> LoadStrikeRunner \<Rightarrow> LoadStrikeRunner api_call" where
  "runner_handle_WithAgentGroup agentGroup r = runner_call (runner_WithAgentGroup agentGroup) r"

definition runner_handle_EnableLocalDevCluster :: "bool \<Rightarrow> LoadStrikeRunner \<Rightarrow> LoadStrikeRunner api_call" where
  "runner_handle_EnableLocalDevCluster enable r = runner_call (runner_EnableLocalDevCluster enable) r"

definition runner_handle_WithNatsServerURL :: "string \<Rightarrow> LoadStrikeRunner \<Rightarrow> LoadStrikeRunner api_call" where
  "runner_handle_WithNatsServerURL serverURL r = runner_call (runner_WithNatsServerURL serverURL) r"

definition runner_handle_WithNatsServerUrl :: "string \<Rightarrow> LoadStrikeRunner \<Rightarrow> LoadStrikeRunner api_call" where
  "runner_handle_WithNatsServerUrl serverURL r = runner_call (runner_WithNatsServerURL serverURL) r"

definition runner_handle_WithNodeType :: "NodeType \<Rightarrow> LoadStrikeRunner \<Rightarrow> LoadStrikeRunner api_call" where
  "runner_handle_WithNodeType nodeType r = runner_call (runner_WithNodeType nodeType) r"

definition runner_handle_WithAgentsCount :: "int \<Rightarrow> LoadStrikeRunner \<Rightarrow> LoadStrikeRunner api_call" where
  "runner_handle_WithAgentsCount agentsCount r = runner_call (runner_WithAgentsCount agentsCount) r"

definition runner_handle_WithTargetScenarios :: "string list \<Rightarrow> LoadStrikeRunner \<Rightarrow> LoadStrikeRunner api_call" where
  "runner_handle_WithTargetScenarios targetScenarios r = runner_call (runner_WithTargetScenarios targetScenarios) r"

definition runner_handle_WithAgentTargetScenarios :: "string list \<Rightarrow> LoadStrikeRunner \<Rightarrow> LoadStrikeRunner api_call" where
  "runner_handle_WithAgentTargetScenarios targetScenarios r = runner_call (runner_WithAgentTargetScenarios targetScenarios) r"

definition runner_handle_WithCoordinatorTargetScenarios :: "string list \<Rightarrow> LoadStrikeRunner \<Rightarrow> LoadStrikeRunner api_call" where
  "runner_handle_WithCoordinatorTargetScenarios targetScenarios r = runner_call (runner_WithCoordinatorTargetScenarios targetScenarios) r"

definition runner_handle_WithReportFolder :: "string \<Rightarrow> LoadStrikeRunner \<Rightarrow> LoadStrikeRunner api_call" where
  "runner_handle_WithReportFolder reportFolder r = runner_call (runner_WithReportFolder reportFolder) r"

definition runner_handle_WithReportFileName :: "string \<Rightarrow> LoadStrikeRunner \<Rightarrow> LoadStrikeRunner api_call" where
  "runner_handle_WithReportFileName reportFileName r = runner_call (runner_WithReportFileName reportFileName) r"

definition runner_handle_WithReportFormats :: "string list \<Rightarrow> LoadStrikeRunner \<Rightarrow> LoadStrikeRunner api_call" where
  "runner_handle_WithReportFormats reportFormats r = runner_call (runner_WithReportFormats reportFormats) r"

definition runner_handle_WithReportingInterval :: "int \<Rightarrow> LoadStrikeRunner \<Rightarrow> LoadStrikeRunner api_call" where
  "runner_handle_WithReportingInterval v r = runner_call (runner_WithReportingInterval v) r"

definition runner_handle_UseLoadEngineV2 :: "LoadStrikeRunner \<Rightarrow> LoadStrikeRunner api_call" where
  "runner_handle_UseLoadEngineV2 r = runner_call runner_UseLoadEngineV2 r"

definition runner_handle_WithMaxInFlight :: "int \<Rightarrow> LoadStrikeRunner \<Rightarrow> LoadStrikeRunner api_call" where
  "runner_handle_WithMaxInFlight maxInFlight r = runner_call (runner_WithMaxInFlight maxInFlight) r"

definition runner_handle_WithLicenseValidationTimeout :: "int \<Rightarrow> LoadStrikeRunner \<Rightarrow> LoadStrikeRunner api_call" where
  "runner_handle_WithLicenseValidationTimeout v r = runner_call (runner_WithLicenseValidationTimeout v) r"

definition runner_handle_WithReportingSinks :: "sink_value list \<Rightarrow> LoadStrikeRunner \<Rightarrow> LoadStrikeRunner api_call" where
  "runner_handle_WithReportingSinks reportingSinks r = runner_call (runner_WithReportingSinks reportingSinks) r"

definition runner_handle_WithPortalReporting :: "LoadStrikeRunner \<Rightarrow> LoadStrikeRunner api_call" where
  "runner_handle_WithPortalReporting r = runner_call runner_WithPortalReporting r"

definition runner_handle_WithWorkerPlugins :: "go_ref option list \<Rightarrow> LoadStrikeRunner \<Rightarrow> LoadStrikeRunner api_call" where
  "runner_handle_WithWorkerPlugins workerPlugins r = runner_call (runner_WithWorkerPlugins workerPlugins) r"

definition runner_handle_WithRuntimePolicies :: "go_ref option list \<Rightarrow> LoadStrikeRunner \<Rightarrow> LoadStrikeRunner api_call" where
  "runner_handle_WithRuntimePolicies runtimePolicies r = runner_call (runner_WithRuntimePolicies runtimePolicies) r"

definition runner_handle_WithRuntimePolicyErrorMode :: "RuntimePolicyErrorMode \<Rightarrow> LoadStrikeRunner \<Rightarrow> LoadStrikeRunner api_call" where
  "runner_handle_WithRuntimePolicyErrorMode mode r = runner_call (runner_WithRuntimePolicyErrorMode mode) r"

definition runner_handle_WithGlobalCustomSettings :: "(string \<times> go_any) list res \<Rightarrow> LoadStrikeRunner \<Rightarrow> LoadStrikeRunner api_call" where
  "runner_handle_WithGlobalCustomSettings settings r = runner_call (runner_WithGlobalCustomSettings settings) r"

definition runner_handle_WithClusterCommandTimeout :: "int \<Rightarrow> LoadStrikeRunner \<Rightarrow> LoadStrikeRunner api_call" where
  "runner_handle_WithClusterCommandTimeout v r = runner_call (runner_WithClusterCommandTimeout v) r"

definition runner_handle_WithScenarioCompletionTimeout :: "int \<Rightarrow> LoadStrikeRunner \<Rightarrow> LoadStrikeRunner api_call" where
  "runner_handle_WithScenarioCompletionTimeout v r = runner_call (runner_WithScenarioCompletionTimeout v) r"

definition runner_handle_WithDisplayConsoleMetrics :: "bool \<Rightarrow> LoadStrikeRunner \<Rightarrow> LoadStrikeRunner api_call" where
  "runner_handle_WithDisplayConsoleMetrics enabled r = runner_call (runner_WithDisplayConsoleMetrics enabled) r"

definition runner_handle_WithRestartIterationMaxAttempts :: "int \<Rightarrow> LoadStrikeRunner \<Rightarrow> LoadStrikeRunner api_call" where
  "runner_handle_WithRestartIterationMaxAttempts attempts r = runner_call (runner_WithRestartIterationMaxAttempts attempts) r"

definition runner_handle_LoadConfig :: "json_pkg \<Rightarrow> (string \<Rightarrow> json res) \<Rightarrow> string \<Rightarrow> LoadStrikeRunner \<Rightarrow> LoadStrikeRunner api_call" where
  "runner_handle_LoadConfig js read path r = runner_call (runner_LoadConfig js read path) r"

definition runner_handle_LoadInfraConfig :: "string \<Rightarrow> LoadStrikeRunner \<Rightarrow> LoadStrikeRunner api_call" where
  "runner_handle_LoadInfraConfig path r = runner_call (runner_LoadInfraConfig path) r"

definition runner_handle_WithoutReports :: "LoadStrikeRunner \<Rightarrow> LoadStrikeRunner api_call" where
  "runner_handle_WithoutReports r = runner_call runner_WithoutReports r"

text \<open>A public scenario is nil or a native one; the nil one is the zero value.\<close>

definition scenario_nativeValue :: "scenarioDefinition option \<Rightarrow> scenarioDefinition" where
  "scenario_nativeValue s = (case s of None \<Rightarrow> zero_scenario | Some native \<Rightarrow> native)"

definition runner_handle_AddScenario :: "scenarioDefinition option \<Rightarrow> LoadStrikeRunner \<Rightarrow> LoadStrikeRunner api_call" where
  "runner_handle_AddScenario scenario r = runner_call (addScenarioNative (scenario_nativeValue scenario)) r"

definition runner_handle_AddScenarios ::
  "scenarioDefinition option list \<Rightarrow> LoadStrikeRunner \<Rightarrow> LoadStrikeRunner api_call" where
  "runner_handle_AddScenarios scenarios r st =
     (if length scenarios = 0 then (Inl ''At least one scenario must be provided.'', st)
      else runner_call (act_all (map (\<lambda>s. addScenarioNative (scenario_nativeValue s)) scenarios)) r st)"

definition runner_handle_AddTrafficMix :: "trafficMixDefinition \<Rightarrow> LoadStrikeRunner \<Rightarrow> LoadStrikeRunner api_call" where
  "runner_handle_AddTrafficMix trafficMix r = runner_call (AddTrafficMix trafficMix) r"

text \<open>
  The callback of \<open>Configure\<close> gets a handle that points into the runner, and may do whatever it likes with
  all objects; what the handle it returns points to is then copied into the runner.
\<close>

definition native_Configure :: "(LoadStrikeContext \<Rightarrow> LoadStrikeContext api_call) \<Rightarrow> nat \<Rightarrow> objects \<Rightarrow> string option \<times> objects" where
  "native_Configure configure a st =
     (case configure (wrapLoadStrikeContext (Some (RunnerContext a))) st of
        (Inl m, st) \<Rightarrow> (Some m, st)
      | (Inr c, st) \<Rightarrow>
          (case lsc_native c of
             None \<Rightarrow> (None, st)
           | Some ref \<Rightarrow> act_on_runner (ConfigureContext (load_context ref st)) a st))"

definition runner_handle_Configure ::
  "(LoadStrikeContext \<Rightarrow> LoadStrikeContext api_call) option \<Rightarrow> LoadStrikeRunner \<Rightarrow> LoadStrikeRunner api_call" where
  "runner_handle_Configure configure r st =
     (case configure of
        None \<Rightarrow> (Inl ''configure callback must be provided'', st)
      | Some f \<Rightarrow>
          (case requireRunner r of Inl m \<Rightarrow> (Inl m, st) | Inr a \<Rightarrow> returning r (native_Configure f a st)))"

definition runner_handle_ConfigureContext :: "LoadStrikeContext \<Rightarrow> LoadStrikeRunner \<Rightarrow> LoadStrikeRunner api_call" where
  "runner_handle_ConfigureContext context r st =
     (case requireRunner r of
        Inl m \<Rightarrow> (Inl m, st)
      | Inr a \<Rightarrow>
          (case requireNativeContext context of
             Inl m \<Rightarrow> (Inl m, st)
           | Inr ref \<Rightarrow> returning r (act_on_runner (ConfigureContext (load_context ref st)) a st)))"

section \<open>New objects\<close>

definition new_context :: "contextState res \<Rightarrow> LoadStrikeContext api_call" where
  "new_context built st =
     (case built of
        Inl m \<Rightarrow> (Inl m, st)
      | Inr x \<Rightarrow>
          (Inr (wrapLoadStrikeContext (Some (BuiltContext (obj_next st)))),
           st\<lparr>obj_contexts := (obj_contexts st)(obj_next st := x), obj_next := Suc (obj_next st)\<rparr>))"

definition runner_handle_BuildContext :: "LoadStrikeRunner \<Rightarrow> LoadStrikeContext api_call" where
  "runner_handle_BuildContext r st =
     (case requireRunner r of
        Inl m \<Rightarrow> (Inl m, st)
      | Inr a \<Rightarrow> new_context (BuildContext (obj_runners st a)) st)"

definition NewRunner :: "LoadStrikeRunner api_call" where
  "NewRunner st =
     (Inr (wrapLoadStrikeRunner (Some (obj_next st))),
      st\<lparr>obj_runners := (obj_runners st)(obj_next st := newRunnerState), obj_next := Suc (obj_next st)\<rparr>)"

definition static_Create :: "LoadStrikeRunner api_call" where
  "static_Create = NewRunner"

definition runner_handle_Create :: "LoadStrikeRunner \<Rightarrow> LoadStrikeRunner api_call" where
  "runner_handle_Create r = NewRunner"

definition runner_handle_RegisterScenarios :: "scenarioDefinition option list \<Rightarrow> LoadStrikeRunner \<Rightarrow> LoadStrikeContext api_call" where
  "runner_handle_RegisterScenarios scenarios r =
     new_context (RegisterScenarios (map scenario_nativeValue scenarios))"

definition runner_handle_RegisterTrafficMix :: "trafficMixDefinition \<Rightarrow> LoadStrikeRunner \<Rightarrow> LoadStrikeContext api_call" where
  "runner_handle_RegisterTrafficMix trafficMix r = new_context (RegisterTrafficMix trafficMix)"

section \<open>Objects are independent\<close>

text \<open>The calls of a program on its objects, as one list; the program goes on after a panic.\<close>

datatype object_call = OnContext context_ref "contextState act" | OnRunner nat "runnerState act"

fun run_call :: "object_call \<Rightarrow> objects \<Rightarrow> objects" where
  "run_call (OnContext ref f) st = snd (act_on_context f ref st)"
| "run_call (OnRunner a f) st = snd (act_on_runner f a st)"

definition run_calls :: "object_call list \<Rightarrow> objects \<Rightarrow> objects" where
  "run_calls p st = fold run_call p st"

text \<open>What a program does to one object.\<close>

fun calls_on_context :: "nat \<Rightarrow> object_call list \<Rightarrow> contextState act list" where
  "calls_on_context k [] = []"
| "calls_on_context k (OnContext ref f # p) =
     (if ref = BuiltContext k then f # calls_on_context k p else calls_on_context k p)"
| "calls_on_context k (OnRunner a f # p) = calls_on_context k p"

fun calls_on_runner :: "nat \<Rightarrow> object_call list \<Rightarrow> runnerState act list" where
  "calls_on_runner a [] = []"
| "calls_on_runner a (OnContext ref f # p) =
     (if ref = RunnerContext a then on_context f # calls_on_runner a p else calls_on_runner a p)"
| "calls_on_runner a (OnRunner b f # p) = (if b = a then f # calls_on_runner a p else calls_on_runner a p)"

lemma store_context_other:
  "ref \<noteq> BuiltContext k \<Longrightarrow> obj_contexts (store_context ref x st) k = obj_contexts st k"
  "ref \<noteq> RunnerContext a \<Longrightarrow> obj_runners (store_context ref x st) a = obj_runners st a"
  by (cases ref; simp)+

lemma call_on_context:
  "obj_contexts (run_call call st) k = run_ops (calls_on_context k [call]) (obj_contexts st k)"
  by (cases "(call, st)" rule: run_call.cases)
    (auto simp: act_on_context_def act_on_runner_def store_runner_def run_ops_def store_context_other split: prod.splits)

lemma call_on_runner:
  "obj_runners (run_call call st) a = fold (\<lambda>f r. snd (f r)) (calls_on_runner a [call]) (obj_runners st a)"
  by (cases "(call, st)" rule: run_call.cases)
    (auto simp: act_on_context_def act_on_runner_def store_runner_def on_context_def store_context_other split: prod.splits)

lemma calls_on_Cons:
  "calls_on_context k (call # p) = calls_on_context k [call] @ calls_on_context k p"
  "calls_on_runner a (call # p) = calls_on_runner a [call] @ calls_on_runner a p"
  by (cases call; simp)+

text \<open>Every object is what its own calls make of it, in their order, whatever is done to the others.\<close>

lemma objects_independent:
  "obj_contexts (run_calls p st) k = run_ops (calls_on_context k p) (obj_contexts st k)"
  "obj_runners (run_calls p st) a = fold (\<lambda>f r. snd (f r)) (calls_on_runner a p) (obj_runners st a)"
proof (induction p arbitrary: st)
  case (Cons call p)
  case 1
  show ?case
    using Cons.IH(1) [of "run_call call st"]
    unfolding calls_on_Cons(1) [of k call p] by (simp add: run_calls_def run_ops_def call_on_context)
  case 2
  show ?case
    using Cons.IH(2) [of "run_call call st"]
    unfolding calls_on_Cons(2) [of a call p] by (simp add: run_calls_def call_on_runner)
qed (simp_all add: run_calls_def run_ops_def)

text \<open>A fluent method through a handle is one such call, and through a nil handle none.\<close>

lemma context_call_run:
  "snd (context_call f c st) = (case lsc_native c of None \<Rightarrow> st | Some ref \<Rightarrow> run_call (OnContext ref f) st)"
  by (simp add: context_call_def requireNativeContext_def returning_def split: option.splits prod.splits)

lemma runner_call_run:
  "snd (runner_call f r st) = (case lsr_native r of None \<Rightarrow> st | Some a \<Rightarrow> run_call (OnRunner a f) st)"
  by (simp add: runner_call_def requireRunner_def returning_def split: option.splits prod.splits)

text \<open>A callback of \<open>Configure\<close> that works through its handle is the function on contexts of the runner.\<close>

lemma configure_refines:
  "native_Configure (context_call f) a st =
     act_on_runner (Configure (Some (\<lambda>c. case f c of (None, d) \<Rightarrow> (None, d, Some d) | (Some m, d) \<Rightarrow> (Some m, d, None)))) a st"
  by (simp add: native_Configure_def context_call_def requireNativeContext_def wrapLoadStrikeContext_def returning_def
      act_on_context_def act_on_runner_def Configure_def store_runner_def split: option.splits prod.splits)

text \<open>
  C16: A context that a runner builds is a new object with the state of the runner then: it stays as it is
  whatever is done through all other handles, and what is done to it leaves the runner as it is.
\<close>

theorem built_context_is_snapshot:
  assumes "runner_handle_BuildContext r st = (Inr c, st')"
  shows "\<exists>a k. lsr_native r = Some a \<and> c = wrapLoadStrikeContext (Some (BuiltContext k)) \<and>
    BuildContext (obj_runners st a) = Inr (obj_contexts st' k) \<and> obj_runners st' = obj_runners st \<and>
    (\<forall>j. j \<noteq> obj_next st \<longrightarrow> obj_contexts st' j = obj_contexts st j) \<and>
    (\<forall>p. calls_on_context k p = [] \<longrightarrow> obj_contexts (run_calls p st') k = obj_contexts st' k) \<and>
    (\<forall>fs. obj_runners (snd (fold (\<lambda>f (_, st). context_call f c st) fs (Inr c, st'))) a = obj_runners st a)"
proof -
  from assms obtain a x where a: "lsr_native r = Some a" and x: "BuildContext (obj_runners st a) = Inr x"
    and c: "c = wrapLoadStrikeContext (Some (BuiltContext (obj_next st)))"
    and st': "st' = st\<lparr>obj_contexts := (obj_contexts st)(obj_next st := x), obj_next := Suc (obj_next st)\<rparr>"
    by (auto simp: runner_handle_BuildContext_def new_context_def requireRunner_def split: option.splits sum.splits)
  have "obj_runners (snd (fold (\<lambda>f (_, st). context_call f c st) fs (v, s))) a = obj_runners s a" for fs v s
  proof (induction fs arbitrary: v s)
    case (Cons f fs)
    obtain v' s' where call: "context_call f c s = (v', s')" by fastforce
    with context_call_run [of f c s] have "obj_runners s' a = obj_runners s a"
      by (simp add: c wrapLoadStrikeContext_def act_on_context_def split: prod.splits)
    with Cons.IH [of v' s'] call show ?case by simp
  qed simp
  with a x c st' show ?thesis
    by (auto simp: objects_independent run_ops_def)
qed

lemma built_context_is_snapshot_witness:
  "\<exists>c st'. runner_handle_BuildContext \<lparr>lsr_native = Some 0\<rparr>
      \<lparr>obj_contexts = \<lambda>_. default_context,
       obj_runners = \<lambda>_. newRunnerState\<lparr>run_scenarios := [zero_scenario\<lparr>sc_Name := ''x''\<rparr>]\<rparr>, obj_next = 1\<rparr> = (Inr c, st') \<and>
    obj_contexts (run_calls [OnContext (RunnerContext 0) (WithTestName ''other'')] st') 1 = obj_contexts st' 1"
proof -
  let ?st = "\<lparr>obj_contexts = \<lambda>_. default_context,
       obj_runners = \<lambda>_. newRunnerState\<lparr>run_scenarios := [zero_scenario\<lparr>sc_Name := ''x''\<rparr>]\<rparr>, obj_next = 1\<rparr>"
  obtain x where "BuildContext (obj_runners ?st 0) = Inr x"
    by (simp add: BuildContext_def newRunnerState_def default_context_def cloneKnownJSONCompatibleSettings_def)
  then obtain c st' where built: "runner_handle_BuildContext \<lparr>lsr_native = Some 0\<rparr> ?st = (Inr c, st')"
    and c: "c = wrapLoadStrikeContext (Some (BuiltContext 1))"
    by (simp add: runner_handle_BuildContext_def requireRunner_def new_context_def)
  from built_context_is_snapshot [OF built] c
  have "obj_contexts (run_calls [OnContext (RunnerContext 0) (WithTestName ''other'')] st') 1 = obj_contexts st' 1"
    by (auto simp: wrapLoadStrikeContext_def)
  with built show ?thesis by blast
qed

end
