(* ===== verification/Http_Host.thy ===== *)
theory Http_Host
  imports Host_Replies Host_Urls Callback_Registry Runner Diagnostics
begin

text \<open>
  The HTTP host (\<open>runtime_http_host.go\<close>): the engine posts to the URLs of the plan and the host calls
  the function registered under the identifier. A handler is a function from a request and the state
  of the host to the response and the new state; a call of the program's code is a parameter that may
  change the program's state, the \<open>world\<close>. A handler that the code runs while others run is one step
  here: what interleaves is modelled in \<open>Instance_Bridge\<close> and \<open>Consume_Session\<close>.
\<close>

section \<open>Data\<close>

record runtimeHTTPHostContextPayload =
  hcp_TestSuite :: string
  hcp_TestName :: string
  hcp_SessionID :: string
  hcp_ClusterID :: string
  hcp_AgentGroup :: string
  hcp_NodeType :: NodeType
  hcp_AgentsCount :: int

record runtimeHTTPSessionScenarioPayload =
  hssp_ScenarioName :: string
  hssp_SortIndex :: int

record runtimeHTTPSessionInfoPayload =
  hsip_Scenarios :: "runtimeHTTPSessionScenarioPayload list"

record runtimeHTTPPluginRequest =
  preq_Stage :: string
  preq_PluginName :: string
  preq_Context :: "runtimeHTTPHostContextPayload option"
  preq_SessionInfo :: "runtimeHTTPSessionInfoPayload option"
  preq_InfraConfig :: "(string \<times> go_any) list"
  preq_Result :: "go_ref option"

record runtimeHTTPSinkRequest =
  kreq_Stage :: string
  kreq_SinkName :: string
  kreq_Context :: "runtimeHTTPHostContextPayload option"
  kreq_SessionInfo :: "runtimeHTTPSessionInfoPayload option"
  kreq_InfraConfig :: "(string \<times> go_any) list"
  kreq_RealtimeStats :: "go_ref list"
  kreq_RealtimeMetric :: "go_ref option"
  kreq_Result :: "go_ref option"
  kreq_IterationBatch :: "go_ref option"
  kreq_IterationCompletion :: "go_ref option"

record runtimeHTTPPolicyRequest =
  polreq_Stage :: string
  polreq_ScenarioName :: string
  polreq_StepName :: string
  polreq_Stats :: "go_ref option"
  polreq_Reply :: "runtimeHTTPStepResponse option"

record runtimeHTTPThresholdRequest =
  threq_ScenarioStats :: "go_ref option"
  threq_StepStats :: "go_ref option"
  threq_MetricStats :: "go_ref option"

record runtimeHTTPReportingPublishRequest =
  pubreq_Topic :: string
  pubreq_Payload :: string

record runtimeHTTPScenarioHookResponse =
  hresp_Metrics :: "runtimeScenarioMetricDescriptor list"
  hresp_Logs :: "runtimeCallbackLog list"

record scenarioStartInfo =
  start_ScenarioName :: string
  start_SortIndex :: int

record sessionStartInfo =
  session_Scenarios :: "scenarioStartInfo list"

text \<open>What a result or a statistic a callback gets is made from; nil is replaced by the zero value.\<close>

type_synonym handed_on = "go_ref option"

text \<open>The context of a scenario hook; its logger and its metric registry are objects of the call.\<close>

record scenarioHookContext =
  hc_ScenarioName :: string
  hc_TestSuite :: string
  hc_TestName :: string
  hc_ScenarioInstanceData :: "string \<rightharpoonup> go_any"
  hc_Partition :: scenarioPartitionInfo
  hc_nodeInfo :: nodeInfo
  hc_testInfo :: testInfo
  hc_ScenarioInfo :: LoadStrikeScenarioInfo
  hc_CustomSettings :: "(string \<times> go_any) list"
  hc_GlobalCustomSettings :: "(string \<times> go_any) list"

datatype hook_action = HookLog log_level string "go_any list" | RegisterMetric go_ref

record hook_outcome =
  ho_actions :: "hook_action list"
  ho_error :: "go_error option"
  ho_data :: "string \<rightharpoonup> go_any"

record step_outcome =
  so_actions :: "step_action list"
  so_reply :: replyResult
  so_data :: "string \<rightharpoonup> go_any"

datatype plugin_call =
    PluginInit contextState "(string \<times> go_any) list"
  | PluginStart sessionStartInfo
  | PluginStop
  | PluginDispose

datatype sink_call =
    SinkInit contextState "(string \<times> go_any) list"
  | SinkStart sessionStartInfo
  | SaveRealtimeStats "go_ref list"
  | SaveRealtimeMetrics handed_on
  | SaveRunResult handed_on
  | SaveIterationBatch handed_on
  | CompleteIterationStream handed_on
  | SinkStop

datatype policy_call =
    BeforeScenario string
  | AfterScenario string handed_on
  | BeforeStep string string
  | AfterStep string string replyResult

record machine =
  mach_Hostname :: "string option"
  mach_NumCPU :: int
  mach_GOOS :: string
  mach_GOARCH :: string

text \<open>
  The program and the libraries around the host: the JSON decoder for each kind of request and
  whether a body ends after its first value; the functions and interfaces the program registered; the
  poll of a consume session. A predicate that panics is \<open>Inl\<close> what was recovered.
\<close>

record 'w program = request_env +
  dec_scenario :: "string \<Rightarrow> runtimeHTTPScenarioHookRequest res"
  dec_plugin :: "string \<Rightarrow> runtimeHTTPPluginRequest res"
  dec_sink :: "string \<Rightarrow> runtimeHTTPSinkRequest res"
  dec_policy :: "string \<Rightarrow> runtimeHTTPPolicyRequest res"
  dec_threshold :: "string \<Rightarrow> runtimeHTTPThresholdRequest res"
  dec_publish :: "string \<Rightarrow> runtimeHTTPReportingPublishRequest res"
  dec_produce :: "string \<Rightarrow> TrackingPayload res"
  dec_single :: "string \<Rightarrow> bool"
  prog_conv :: "float64 \<Rightarrow> int"
  prog_sprintf :: "string \<Rightarrow> go_any list \<Rightarrow> string"
  prog_machine :: machine
  prog_now :: "'w \<Rightarrow> int"
  prog_metric :: "go_ref \<Rightarrow> 'w \<Rightarrow> metric"
  prog_cancelled :: "go_ref \<Rightarrow> 'w \<Rightarrow> bool"
  prog_predicate :: "go_closure \<Rightarrow> go_ref \<Rightarrow> 'w \<Rightarrow> (string + bool) \<times> 'w"
  prog_publish :: "go_ref \<Rightarrow> string \<Rightarrow> string \<Rightarrow> 'w \<Rightarrow> go_error option \<times> 'w"
  prog_produce :: "go_ref \<Rightarrow> TrackingPayload \<Rightarrow> 'w \<Rightarrow> EndpointProduceResult res \<times> 'w"
  prog_poll :: "nat \<Rightarrow> 'w \<Rightarrow> (EndpointConsumeEvent list \<times> bool \<times> go_error option) \<times> 'w"
  prog_plugin :: "go_ref \<Rightarrow> plugin_call \<Rightarrow> 'w \<Rightarrow> go_error option \<times> 'w"
  prog_plugin_data :: "go_ref \<Rightarrow> handed_on \<Rightarrow> 'w \<Rightarrow> go_any res \<times> 'w"
  prog_sink :: "go_ref \<Rightarrow> sink_call \<Rightarrow> 'w \<Rightarrow> go_error option \<times> 'w"
  prog_sink_dispose :: "go_ref \<Rightarrow> 'w \<Rightarrow> 'w"
  prog_batch_sink :: "go_ref \<Rightarrow> bool"
  prog_policy_should :: "go_ref \<Rightarrow> string \<Rightarrow> 'w \<Rightarrow> bool res \<times> 'w"
  prog_policy :: "go_ref \<Rightarrow> policy_call \<Rightarrow> 'w \<Rightarrow> go_error option \<times> 'w"
  prog_hook :: "go_closure \<Rightarrow> scenarioHookContext \<Rightarrow> 'w \<Rightarrow> hook_outcome \<times> 'w"
  prog_step :: "go_closure \<Rightarrow> stepRuntimeContext \<Rightarrow> 'w \<Rightarrow> step_outcome \<times> 'w"

text \<open>The state: the registry, the metrics registered with each scenario bridge, the program.\<close>

record 'w host =
  host_registry :: runtimeCallbackRegistry
  host_metrics :: "nat \<Rightarrow> go_ref list"
  host_world :: 'w

record http_request =
  req_Method :: string
  req_Path :: string
  req_Body :: string

datatype json_reply =
    JsonCancelled bool
  | JsonPassed bool
  | JsonShouldRun bool
  | JsonPluginData go_any
  | JsonProduced EndpointProduceResult
  | JsonConsumed "EndpointConsumeEvent list" bool
  | JsonStep runtimeHTTPStepResponse
  | JsonHook runtimeHTTPScenarioHookResponse
  | JsonMetrics runtimeScenarioMetricsSnapshot

datatype http_response = HttpError nat string | NoContent | Json json_reply

definition NotFound :: http_response where
  "NotFound = HttpError 404 ''404 page not found''"

definition MethodNotAllowed :: http_response where
  "MethodNotAllowed = HttpError 405 ''method not allowed''"

type_synonym 'w action = "'w host \<Rightarrow> http_response \<times> 'w host"

text \<open>A call of the program's code and the response to what it returns.\<close>

definition user_call :: "('w \<Rightarrow> 'r \<times> 'w) \<Rightarrow> ('r \<Rightarrow> http_response) \<Rightarrow> 'w action" where
  "user_call call respond H =
     (case call (host_world H) of (r, w) \<Rightarrow> (respond r, H\<lparr>host_world := w\<rparr>))"

text \<open>The two endings of most handlers: no content unless there is an error, and a JSON reply.\<close>

definition done_or_error :: "go_error option \<Rightarrow> http_response" where
  "done_or_error e = (case e of None \<Rightarrow> NoContent | Some e \<Rightarrow> HttpError 500 e)"

definition json_or_error :: "('a \<Rightarrow> json_reply) \<Rightarrow> 'a res \<Rightarrow> http_response" where
  "json_or_error reply r = (case r of Inl e \<Rightarrow> HttpError 500 e | Inr v \<Rightarrow> Json (reply v))"

section \<open>What is made from a payload\<close>

fun operation_name :: "int \<Rightarrow> string" where
  "operation_name o' = (if o' = 1 then ''Init'' else if o' = 2 then ''WarmUp'' else if o' = 3 then ''Bombing''
     else if o' = 4 then ''Stop'' else if o' = 5 then ''Complete'' else if o' = 6 then ''Error'' else ''None'')"

definition currentMachineName :: "machine \<Rightarrow> string" where
  "currentMachineName m =
     (case mach_Hostname m of
        None \<Rightarrow> ''unknown''
      | Some name \<Rightarrow> if trim_space name = [] then ''unknown'' else name)"

definition currentNodeInfo :: "machine \<Rightarrow> NodeType \<Rightarrow> int \<Rightarrow> nodeInfo" where
  "currentNodeInfo m nodeType operation =
     zero_nodeInfo\<lparr>node_NodeType := nodeType, node_MachineName := currentMachineName m,
       node_CurrentOperation := operation_name operation, node_CurrentOperationType := operation,
       node_CoresCount := mach_NumCPU m, node_EngineVersion := ''v0.2.3'', node_OS := mach_GOOS m,
       node_Processor := mach_GOARCH m\<rparr>"

definition zero_context :: contextState where
  "zero_context = default_context\<lparr>ctx_ReportsEnabled := False, ctx_RestartIterationMaxAttempts := 0,
     ctx_SinkRetryCount := 0, ctx_SinkRetryBackoffMs := 0, ctx_LicenseValidationTimeoutSeconds := Fin 0,
     ctx_AgentsCount := 0, ctx_ConsoleMetricsEnabled := False, ctx_ReportFormats := []\<rparr>"

text \<open>The logger of the context is a new one that writes nowhere.\<close>

definition runtimeBaseContextFromPayload ::
  "'w program \<Rightarrow> 'w \<Rightarrow> runtimeHTTPHostContextPayload option \<Rightarrow> contextState" where
  "runtimeBaseContextFromPayload P w payload =
     (let c = zero_context;
          c = (case payload of
                 None \<Rightarrow> c
               | Some p \<Rightarrow> c\<lparr>ctx_TestSuite := hcp_TestSuite p, ctx_TestName := hcp_TestName p,
                   ctx_SessionID := hcp_SessionID p, ctx_ClusterID := hcp_ClusterID p,
                   ctx_AgentGroup := hcp_AgentGroup p, ctx_NodeType := hcp_NodeType p,
                   ctx_AgentsCount := hcp_AgentsCount p\<rparr>)
      in c\<lparr>ctx_nodeInfo := currentNodeInfo (prog_machine P) (ctx_NodeType c) 5,
           ctx_testInfo := normalizeTestInfo
             \<lparr>test_TestSuite = ctx_TestSuite c, test_TestName = ctx_TestName c,
              test_SessionID = ctx_SessionID c, test_SessionId = [], test_ClusterID = ctx_ClusterID c,
              test_ClusterId = [], test_CreatedUTC = prog_now P w, test_Created = 0\<rparr>\<rparr>)"

definition runtimeSessionInfoFromPayload :: "runtimeHTTPSessionInfoPayload option \<Rightarrow> sessionStartInfo" where
  "runtimeSessionInfoFromPayload payload =
     \<lparr>session_Scenarios = (case payload of
        None \<Rightarrow> []
      | Some p \<Rightarrow> map (\<lambda>s. \<lparr>start_ScenarioName = hssp_ScenarioName s, start_SortIndex = hssp_SortIndex s\<rparr>)
          (hsip_Scenarios p))\<rparr>"

text \<open>The verb \<open>%q\<close>, on text with nothing to escape.\<close>

definition go_quote :: "string \<Rightarrow> string" where
  "go_quote s = CHR 0x22 # s @ [CHR 0x22]"

section \<open>Thresholds\<close>

definition validateForScope :: "string \<Rightarrow> runtimeHTTPThresholdRequest \<Rightarrow> unit res" where
  "validateForScope scope r =
     (let payloadCount = (0::nat);
          payloadCount = (if threq_ScenarioStats r \<noteq> None then payloadCount + 1 else payloadCount);
          payloadCount = (if threq_StepStats r \<noteq> None then payloadCount + 1 else payloadCount);
          payloadCount = (if threq_MetricStats r \<noteq> None then payloadCount + 1 else payloadCount)
      in if payloadCount \<noteq> 1
         then Inl ''threshold predicate callback requires exactly one stats payload''
         else if scope = ''scenario'' then
           (if threq_ScenarioStats r = None
            then Inl ''threshold predicate callback requires scenarioStats'' else Inr ())
         else if scope = ''step'' then
           (if threq_StepStats r = None
            then Inl ''threshold predicate callback requires stepStats'' else Inr ())
         else if scope = ''metric'' then
           (if threq_MetricStats r = None
            then Inl ''threshold predicate callback requires metricStats'' else Inr ())
         else Inl (''unsupported threshold predicate scope '' @ go_quote scope))"

text \<open>The closure \<open>Evaluate\<close> of a registration; a predicate that panics is an error.\<close>

definition evaluate_predicate ::
  "'w program \<Rightarrow> string \<Rightarrow> go_closure \<Rightarrow> (runtimeHTTPThresholdRequest \<Rightarrow> go_ref option)
     \<Rightarrow> runtimeHTTPThresholdRequest \<Rightarrow> 'w \<Rightarrow> bool res \<times> 'w" where
  "evaluate_predicate P scope predicate stats r w =
     (case validateForScope scope r of
        Inl e \<Rightarrow> (Inl e, w)
      | Inr _ \<Rightarrow>
          (case prog_predicate P predicate (the (stats r)) w of
             (Inl recovered, w) \<Rightarrow> (Inl (''threshold predicate callback failed: '' @ recovered), w)
           | (Inr passed, w) \<Rightarrow> (Inr passed, w)))"

fun threshold_Evaluate ::
  "'w program \<Rightarrow> runtimeThresholdRegistration \<Rightarrow> runtimeHTTPThresholdRequest \<Rightarrow> 'w \<Rightarrow> bool res \<times> 'w" where
  "threshold_Evaluate P (EvaluateScenario p) r w = evaluate_predicate P ''scenario'' p threq_ScenarioStats r w"
| "threshold_Evaluate P (EvaluateStep p) r w = evaluate_predicate P ''step'' p threq_StepStats r w"
| "threshold_Evaluate P (EvaluateMetric p) r w = evaluate_predicate P ''metric'' p threq_MetricStats r w"

section \<open>Scenario callbacks\<close>

text \<open>What a hook does with the log and the metric registry of its call.\<close>

fun hook_act ::
  "(string \<Rightarrow> go_any list \<Rightarrow> string) \<Rightarrow> hook_action \<Rightarrow> go_ref list \<times> runtimeCallbackLogBuffer
     \<Rightarrow> go_ref list \<times> runtimeCallbackLogBuffer" where
  "hook_act sprintf (HookLog level fmt args) (ms, b) = (ms, logger_log sprintf level fmt args b)"
| "hook_act sprintf (RegisterMetric m) (ms, b) = (ms @ [m], b)"

text \<open>
  The closure \<open>invoke\<close> of \<open>runtimeInvokeScenarioHook\<close>, on the data of the instance and the world:
  its error, the data it leaves, the log, the metrics it took over, the new world.
\<close>

definition invoke_hook ::
  "'w program \<Rightarrow> go_closure option \<Rightarrow> runtimeScenarioCallbackMetadata \<Rightarrow> (string \<rightharpoonup> go_any) \<Rightarrow> 'w
     \<Rightarrow> go_error option \<times> (string \<rightharpoonup> go_any) \<times> runtimeCallbackLogBuffer \<times> go_ref list \<times> 'w" where
  "invoke_hook P hook meta d w =
     (case hook of
        None \<Rightarrow> (None, d, newRuntimeCallbackLogBuffer, [], w)
      | Some f \<Rightarrow>
          (case prog_hook P f
             \<lparr>hc_ScenarioName = si_ScenarioName (meta_ScenarioInfo meta),
              hc_TestSuite = test_TestSuite (meta_TestInfo meta),
              hc_TestName = test_TestName (meta_TestInfo meta), hc_ScenarioInstanceData = d,
              hc_Partition = meta_Partition meta, hc_nodeInfo = meta_NodeInfo meta,
              hc_testInfo = meta_TestInfo meta, hc_ScenarioInfo = meta_ScenarioInfo meta,
              hc_CustomSettings = meta_CustomSettings meta,
              hc_GlobalCustomSettings = meta_GlobalCustomSettings meta\<rparr> w of
             (out, w) \<Rightarrow>
               (case fold (hook_act (prog_sprintf P)) (ho_actions out) ([], newRuntimeCallbackLogBuffer) of
                  (ms, b) \<Rightarrow>
                    (case ho_error out of
                       Some e \<Rightarrow> (Some e, ho_data out, b, [], w)
                     | None \<Rightarrow>
                         (case log_result b of
                            Inl e \<Rightarrow> (Some e, ho_data out, b, [], w)
                          | Inr _ \<Rightarrow> (None, ho_data out, b, ms, w))))))"

text \<open>The data a call of an instance gets, when it is admitted.\<close>

definition instance_input ::
  "runtimeScenarioInstanceKey \<Rightarrow> 'v bridge \<Rightarrow> (string \<rightharpoonup> 'v) option" where
  "instance_input key b =
     (case admitInstance key b of (Inl _, b) \<Rightarrow> None | (Inr a, b) \<Rightarrow> Some (instance_data b a))"

definition set_bridge :: "nat \<Rightarrow> go_any bridge \<Rightarrow> 'w host \<Rightarrow> 'w host" where
  "set_bridge p b H =
     H\<lparr>host_registry := (host_registry H)\<lparr>rg_bridges := (rg_bridges (host_registry H))(p := b)\<rparr>\<rparr>"

definition registered_metrics :: "'w program \<Rightarrow> nat \<Rightarrow> 'w host \<Rightarrow> metric list" where
  "registered_metrics P p H = map (\<lambda>m. prog_metric P m (host_world H)) (host_metrics H p)"

definition replaceMetrics :: "nat \<Rightarrow> go_ref list \<Rightarrow> 'w host \<Rightarrow> 'w host" where
  "replaceMetrics p ms H = H\<lparr>host_metrics := (host_metrics H)(p := ms)\<rparr>"

definition runtimeInvokeScenarioHook ::
  "'w program \<Rightarrow> runtimeScenarioRegistration \<Rightarrow> runtimeHTTPScenarioHookRequest \<Rightarrow> go_closure option \<Rightarrow> bool
     \<Rightarrow> 'w host \<Rightarrow> (callback_error + runtimeHTTPScenarioHookResponse) \<times> 'w host" where
  "runtimeInvokeScenarioHook P registration request hook completing H =
     (case scenarioInstanceKeyForRegistration (reg_ScenarioName registration) request of
        Inl e \<Rightarrow> (Inl e, H)
      | Inr key \<Rightarrow>
     (case callbackMetadata (request_env.truncate P) request of
        Inl e \<Rightarrow> (Inl e, H)
      | Inr meta \<Rightarrow>
     (let p = reg_State registration;
          b = rg_bridges (host_registry H) p;
          invoke = (\<lambda>d. case invoke_hook P hook meta d (host_world H) of (e, d, _) \<Rightarrow> (e, d));
          b' = snd ((if completing then cleanInstance else withInstance) key invoke b)
      in case instance_input key b of
           None \<Rightarrow> (Inl InstanceGone, set_bridge p b' H)
         | Some d \<Rightarrow>
             (case invoke_hook P hook meta d (host_world H) of
                (Some e, _, _, _, w) \<Rightarrow> (Inl (OtherError e), set_bridge p b' (H\<lparr>host_world := w\<rparr>))
              | (None, _, logs, ms, w) \<Rightarrow>
                  let H = set_bridge p b' (H\<lparr>host_world := w\<rparr>);
                      H = (if hook \<noteq> None then replaceMetrics p ms H else H)
                  in (case log_result logs of
                        Inl e \<Rightarrow> (Inl (OtherError e), H)
                      | Inr logs \<Rightarrow>
                          (Inr \<lparr>hresp_Metrics = runtimeMetricDescriptors (registered_metrics P p H),
                                hresp_Logs = logs\<rparr>, H))))))"

text \<open>The context of a step callback: no cancel function and no execution control.\<close>

definition step_context ::
  "'w program \<Rightarrow> runtimeHTTPScenarioHookRequest \<Rightarrow> runtimeScenarioCallbackMetadata \<Rightarrow> (string \<rightharpoonup> go_any)
     \<Rightarrow> stepRuntimeContext" where
  "step_context P request meta d =
     \<lparr>sr_ScenarioName = si_ScenarioName (meta_ScenarioInfo meta), sr_StepName = [],
      sr_TestSuite = test_TestSuite (meta_TestInfo meta), sr_TestName = test_TestName (meta_TestInfo meta),
      sr_InvocationNumber = hook_InvocationNumber request, sr_ScenarioInstanceData = d,
      sr_nodeInfo = meta_NodeInfo meta, sr_testInfo = meta_TestInfo meta,
      sr_ScenarioInfo = meta_ScenarioInfo meta, sr_Partition = meta_Partition meta,
      sr_CustomSettings = meta_CustomSettings meta, sr_GlobalCustomSettings = meta_GlobalCustomSettings meta,
      sr_Random = runtimeInvocationNumberToInt (hook_InvocationNumber request),
      sr_scenarioCancel = None, sr_executionControl = None,
      sr_scenarioTimerStarted =
        runtimeParseScenarioStartedUTC (request_env.truncate P) (hook_ScenarioStartedUTC request),
      sr_stopRequested = False, sr_stopScenarioName = [], sr_stopScenarioReason = [],
      sr_stopCurrentTest = False, sr_stopCurrentTestReason = []\<rparr>"

definition step_response ::
  "replyResult \<Rightarrow> stepRuntimeContext \<Rightarrow> runtimeCallbackLog list \<Rightarrow> runtimeHTTPStepResponse" where
  "step_response reply c logs =
     \<lparr>sresp_IsSuccess = reply_IsSuccess reply, sresp_StatusCode = reply_StatusCode reply,
      sresp_Message = reply_Message reply, sresp_SizeBytes = reply_SizeBytes reply,
      sresp_CustomLatencyMS = reply_CustomLatencyMS reply, sresp_Payload = reply_Payload reply,
      sresp_StepName = sr_StepName c, sresp_StopScenario = (sr_stopScenarioName c \<noteq> []),
      sresp_StopScenarioName = sr_stopScenarioName c, sresp_StopScenarioReason = sr_stopScenarioReason c,
      sresp_StopCurrentTest = sr_stopCurrentTest c,
      sresp_StopCurrentTestReason = sr_stopCurrentTestReason c, sresp_Logs = logs\<rparr>"

definition invoke_step ::
  "'w program \<Rightarrow> go_closure \<Rightarrow> runtimeHTTPScenarioHookRequest \<Rightarrow> runtimeScenarioCallbackMetadata
     \<Rightarrow> (string \<rightharpoonup> go_any) \<Rightarrow> 'w \<Rightarrow> runtimeHTTPStepResponse res \<times> (string \<rightharpoonup> go_any) \<times> 'w" where
  "invoke_step P run request meta d w =
     (case prog_step P run (step_context P request meta d) w of
        (out, w) \<Rightarrow>
          (case fold (step_act (prog_sprintf P)) (so_actions out)
                  (step_context P request meta d, newRuntimeCallbackLogBuffer) of
             (c, b) \<Rightarrow>
               (case log_result b of
                  Inl e \<Rightarrow> (Inl e, so_data out, w)
                | Inr logs \<Rightarrow> (Inr (step_response (so_reply out) c logs), so_data out, w))))"

definition runtimeInvokeScenarioStep ::
  "'w program \<Rightarrow> runtimeScenarioRegistration \<Rightarrow> runtimeHTTPScenarioHookRequest
     \<Rightarrow> 'w host \<Rightarrow> (callback_error + runtimeHTTPStepResponse) \<times> 'w host" where
  "runtimeInvokeScenarioStep P registration request H =
     (case scenarioInstanceKeyForRegistration (reg_ScenarioName registration) request of
        Inl e \<Rightarrow> (Inl e, H)
      | Inr key \<Rightarrow>
     (case reg_Run registration of
        None \<Rightarrow> (Inl (OtherError (''scenario '' @ go_quote (reg_ScenarioName registration) @
                   '' did not register a runnable callback'')), H)
      | Some run \<Rightarrow>
     (case callbackMetadata (request_env.truncate P) request of
        Inl e \<Rightarrow> (Inl e, H)
      | Inr meta \<Rightarrow>
     (let p = reg_State registration;
          b = rg_bridges (host_registry H) p;
          invoke = (\<lambda>d. case invoke_step P run request meta d (host_world H) of
                       (r, d, _) \<Rightarrow> (case r of Inl e \<Rightarrow> Some e | Inr _ \<Rightarrow> None, d));
          b' = snd (withInstance key invoke b)
      in case instance_input key b of
           None \<Rightarrow> (Inl InstanceGone, set_bridge p b' H)
         | Some d \<Rightarrow>
             (case invoke_step P run request meta d (host_world H) of
                (r, _, w) \<Rightarrow> (map_sum OtherError id r, set_bridge p b' (H\<lparr>host_world := w\<rparr>)))))))"

definition writeRuntimeScenarioCallbackError :: "callback_error \<Rightarrow> http_response" where
  "writeRuntimeScenarioCallbackError e =
     (case e of
        IdentityInvalid _ \<Rightarrow> HttpError 400 (callback_message e)
      | InstanceGone \<Rightarrow> HttpError 410 (callback_message e)
      | OtherError _ \<Rightarrow> HttpError 500 (callback_message e))"

definition scenario_reply :: "('r \<Rightarrow> json_reply) \<Rightarrow> (callback_error + 'r) \<times> 'w host \<Rightarrow> http_response \<times> 'w host" where
  "scenario_reply reply rH =
     (case rH of
        (Inl e, H) \<Rightarrow> (writeRuntimeScenarioCallbackError e, H)
      | (Inr r, H) \<Rightarrow> (Json (reply r), H))"

text \<open>The handler after the lookup.\<close>

definition scenario_callback ::
  "'w program \<Rightarrow> runtimeScenarioRegistration \<Rightarrow> string \<Rightarrow> string \<Rightarrow> 'w action" where
  "scenario_callback P registration stage body H =
     (case dec_scenario P body of
        Inl e \<Rightarrow> (HttpError 400 e, H)
      | Inr payload \<Rightarrow>
          if stage = ''step'' then
            scenario_reply JsonStep (runtimeInvokeScenarioStep P registration payload H)
          else if stage = ''init'' then
            scenario_reply JsonHook
              (runtimeInvokeScenarioHook P registration payload (reg_Init registration) False H)
          else if stage = ''clean'' then
            scenario_reply JsonHook
              (runtimeInvokeScenarioHook P registration payload (reg_Clean registration) True H)
          else if stage = ''metrics'' then
            (if bridge_closed (rg_bridges (host_registry H) (reg_State registration))
             then (writeRuntimeScenarioCallbackError InstanceGone, H)
             else (Json (JsonMetrics (metricSnapshot (registered_metrics P (reg_State registration) H))), H))
          else (NotFound, H))"

definition handleScenarioCallback :: "'w program \<Rightarrow> http_request \<Rightarrow> 'w action" where
  "handleScenarioCallback P req H =
     (if req_Method req \<noteq> ''POST'' then (MethodNotAllowed, H)
      else (case runtimeCallbackPathParts (req_Path req) ''/callbacks/scenario/'' of
              None \<Rightarrow> (NotFound, H)
            | Some (i, stage) \<Rightarrow>
                (case rg_scenarios (host_registry H) i of
                   None \<Rightarrow> (NotFound, H)
                 | Some registration \<Rightarrow> scenario_callback P registration stage (req_Body req) H)))"

section \<open>Plugins, sinks and policies\<close>

definition plugin_callback :: "'w program \<Rightarrow> go_ref \<Rightarrow> string \<Rightarrow> 'w action" where
  "plugin_callback P plugin body H =
     (case dec_plugin P body of
        Inl e \<Rightarrow> (HttpError 400 e, H)
      | Inr payload \<Rightarrow>
          let stage = to_lower (trim_space (preq_Stage payload)) in
          if stage = ''init'' then
            user_call (prog_plugin P plugin (PluginInit
              (runtimeBaseContextFromPayload P (host_world H) (preq_Context payload)) (preq_InfraConfig payload)))
              done_or_error H
          else if stage = ''start'' then
            user_call (prog_plugin P plugin (PluginStart (runtimeSessionInfoFromPayload (preq_SessionInfo payload))))
              done_or_error H
          else if stage = ''getdata'' then
            user_call (prog_plugin_data P plugin (preq_Result payload)) (json_or_error JsonPluginData) H
          else if stage = ''stop'' then user_call (prog_plugin P plugin PluginStop) done_or_error H
          else if stage = ''dispose'' then user_call (prog_plugin P plugin PluginDispose) done_or_error H
          else (NotFound, H))"

definition handlePluginCallback :: "'w program \<Rightarrow> http_request \<Rightarrow> 'w action" where
  "handlePluginCallback P req H =
     (if req_Method req \<noteq> ''POST'' then (MethodNotAllowed, H)
      else (case rg_plugins (host_registry H) (trim_prefix ''/callbacks/plugin/'' (req_Path req)) of
              None \<Rightarrow> (NotFound, H)
            | Some plugin \<Rightarrow> plugin_callback P plugin (req_Body req) H))"

definition batch_call :: "'w program \<Rightarrow> go_ref \<Rightarrow> sink_call \<Rightarrow> 'w action" where
  "batch_call P sink call H =
     (if prog_batch_sink P sink then user_call (prog_sink P sink call) done_or_error H
      else (HttpError 501 ''reporting sink does not support raw iteration batches'', H))"

definition sink_callback :: "'w program \<Rightarrow> go_ref \<Rightarrow> string \<Rightarrow> 'w action" where
  "sink_callback P sink body H =
     (case dec_sink P body of
        Inl e \<Rightarrow> (HttpError 400 e, H)
      | Inr payload \<Rightarrow>
          let stage = to_lower (trim_space (kreq_Stage payload)) in
          if stage = ''init'' then
            user_call (prog_sink P sink (SinkInit
              (runtimeBaseContextFromPayload P (host_world H) (kreq_Context payload)) (kreq_InfraConfig payload)))
              done_or_error H
          else if stage = ''start'' then
            user_call (prog_sink P sink (SinkStart (runtimeSessionInfoFromPayload (kreq_SessionInfo payload))))
              done_or_error H
          else if stage = ''saverealtimestats'' then
            user_call (prog_sink P sink (SaveRealtimeStats (kreq_RealtimeStats payload))) done_or_error H
          else if stage = ''saverealtimemetrics'' then
            user_call (prog_sink P sink (SaveRealtimeMetrics (kreq_RealtimeMetric payload))) done_or_error H
          else if stage = ''saverunresult'' then
            user_call (prog_sink P sink (SaveRunResult (kreq_Result payload))) done_or_error H
          else if stage = ''saveiterationbatch'' then
            batch_call P sink (SaveIterationBatch (kreq_IterationBatch payload)) H
          else if stage = ''completeiterationstream'' then
            batch_call P sink (CompleteIterationStream (kreq_IterationCompletion payload)) H
          else if stage = ''stop'' then user_call (prog_sink P sink SinkStop) done_or_error H
          else if stage = ''dispose'' then
            user_call (\<lambda>w. ((), prog_sink_dispose P sink w)) (\<lambda>_. NoContent) H
          else (NotFound, H))"

definition handleSinkCallback :: "'w program \<Rightarrow> http_request \<Rightarrow> 'w action" where
  "handleSinkCallback P req H =
     (if req_Method req \<noteq> ''POST'' then (MethodNotAllowed, H)
      else (case rg_sinks (host_registry H) (trim_prefix ''/callbacks/sink/'' (req_Path req)) of
              None \<Rightarrow> (NotFound, H)
            | Some sink \<Rightarrow> sink_callback P sink (req_Body req) H))"

text \<open>A request without a reply gives the policy the zero reply.\<close>

definition zero_reply :: replyResult where
  "zero_reply = \<lparr>reply_IsSuccess = False, reply_IsError = False, reply_StatusCode = [], reply_Message = [],
     reply_SizeBytes = 0, reply_CustomLatencyMS = Fin 0, reply_Payload = AnyNil\<rparr>"

definition policy_callback :: "'w program \<Rightarrow> go_ref \<Rightarrow> string \<Rightarrow> 'w action" where
  "policy_callback P policy body H =
     (case dec_policy P body of
        Inl e \<Rightarrow> (HttpError 400 e, H)
      | Inr payload \<Rightarrow>
          let stage = to_lower (trim_space (polreq_Stage payload)); scenario = polreq_ScenarioName payload in
          if stage = ''shouldrunscenario'' then
            user_call (prog_policy_should P policy scenario) (json_or_error JsonShouldRun) H
          else if stage = ''beforescenario'' then
            user_call (prog_policy P policy (BeforeScenario scenario)) done_or_error H
          else if stage = ''afterscenario'' then
            user_call (prog_policy P policy (AfterScenario scenario (polreq_Stats payload))) done_or_error H
          else if stage = ''beforestep'' then
            user_call (prog_policy P policy (BeforeStep scenario (polreq_StepName payload))) done_or_error H
          else if stage = ''afterstep'' then
            user_call (prog_policy P policy (AfterStep scenario (polreq_StepName payload)
              (case polreq_Reply payload of
                 None \<Rightarrow> zero_reply
               | Some reply \<Rightarrow> runtimeReplyPayloadToPublicReply (prog_conv P) reply))) done_or_error H
          else (NotFound, H))"

definition handlePolicyCallback :: "'w program \<Rightarrow> http_request \<Rightarrow> 'w action" where
  "handlePolicyCallback P req H =
     (if req_Method req \<noteq> ''POST'' then (MethodNotAllowed, H)
      else (case rg_policies (host_registry H) (trim_prefix ''/callbacks/policy/'' (req_Path req)) of
              None \<Rightarrow> (NotFound, H)
            | Some policy \<Rightarrow> policy_callback P policy (req_Body req) H))"

section \<open>Tracking, thresholds, publishers and cancellation\<close>

definition tracking_callback ::
  "'w program \<Rightarrow> runtimeTrackingRegistration \<Rightarrow> string \<Rightarrow> string \<Rightarrow> 'w action" where
  "tracking_callback P registration stage body H =
     (if stage = ''produce'' then
        (case trk_Produce registration of
           None \<Rightarrow> (NotFound, H)
         | Some produce \<Rightarrow>
             (case dec_produce P body of
                Inl e \<Rightarrow> (HttpError 400 e, H)
              | Inr payload \<Rightarrow> user_call (prog_produce P produce payload) (json_or_error JsonProduced) H))
      else if stage = ''consume'' then
        (case trk_consumeStream registration of
           None \<Rightarrow> (NotFound, H)
         | Some stream \<Rightarrow>
             user_call (prog_poll P stream)
               (\<lambda>(messages, finished, err). case err of
                  Some e \<Rightarrow> HttpError 500 e | None \<Rightarrow> Json (JsonConsumed messages finished)) H)
      else (NotFound, H))"

definition handleTrackingCallback :: "'w program \<Rightarrow> http_request \<Rightarrow> 'w action" where
  "handleTrackingCallback P req H =
     (if req_Method req \<noteq> ''POST'' then (MethodNotAllowed, H)
      else (case runtimeCallbackPathParts (req_Path req) ''/callbacks/tracking/'' of
              None \<Rightarrow> (NotFound, H)
            | Some (i, stage) \<Rightarrow>
                (case rg_tracking (host_registry H) i of
                   None \<Rightarrow> (NotFound, H)
                 | Some registration \<Rightarrow> tracking_callback P registration stage (req_Body req) H)))"

definition threshold_callback :: "'w program \<Rightarrow> runtimeThresholdRegistration \<Rightarrow> string \<Rightarrow> 'w action" where
  "threshold_callback P registration body H =
     (case dec_threshold P body of
        Inl e \<Rightarrow> (HttpError 400 e, H)
      | Inr payload \<Rightarrow>
          if \<not> dec_single P body
          then (HttpError 400 ''threshold predicate callback requires exactly one JSON payload'', H)
          else user_call (threshold_Evaluate P registration payload) (json_or_error JsonPassed) H)"

definition handleThresholdCallback :: "'w program \<Rightarrow> http_request \<Rightarrow> 'w action" where
  "handleThresholdCallback P req H =
     (if req_Method req \<noteq> ''POST'' then (MethodNotAllowed, H)
      else (case single_path_id (req_Path req) ''/callbacks/threshold/'' of
              None \<Rightarrow> (NotFound, H)
            | Some i \<Rightarrow>
                (case rg_thresholds (host_registry H) i of
                   None \<Rightarrow> (NotFound, H)
                 | Some registration \<Rightarrow> threshold_callback P registration (req_Body req) H)))"

definition publish_callback :: "'w program \<Rightarrow> go_ref \<Rightarrow> string \<Rightarrow> 'w action" where
  "publish_callback P publish body H =
     (case dec_publish P body of
        Inl e \<Rightarrow> (HttpError 400 e, H)
      | Inr payload \<Rightarrow>
          if \<not> dec_single P body
          then (HttpError 400 ''reporting publisher callback requires exactly one JSON payload'', H)
          else user_call (prog_publish P publish (pubreq_Topic payload) (pubreq_Payload payload))
                 (\<lambda>e. case e of
                    Some e \<Rightarrow> HttpError 500 (sanitizeRuntimeDiagnostic e []) | None \<Rightarrow> NoContent) H)"

definition handleReportingPublishCallback :: "'w program \<Rightarrow> http_request \<Rightarrow> 'w action" where
  "handleReportingPublishCallback P req H =
     (if req_Method req \<noteq> ''POST'' then (MethodNotAllowed, H)
      else (case single_path_id (req_Path req) ''/callbacks/reporting-publish/'' of
              None \<Rightarrow> (NotFound, H)
            | Some i \<Rightarrow>
                (case rg_publishers (host_registry H) i of
                   None \<Rightarrow> (NotFound, H)
                 | Some publish \<Rightarrow> publish_callback P publish (req_Body req) H)))"

definition handleObservationCancellationCallback :: "'w program \<Rightarrow> http_request \<Rightarrow> 'w action" where
  "handleObservationCancellationCallback P req H =
     (if req_Method req \<noteq> ''POST'' then (MethodNotAllowed, H)
      else (case observation_path_id (req_Path req) of
              None \<Rightarrow> (NotFound, H)
            | Some i \<Rightarrow>
                (case rg_observationCancellations (host_registry H) i of
                   None \<Rightarrow> (NotFound, H)
                 | Some context \<Rightarrow> (Json (JsonCancelled (prog_cancelled P context (host_world H))), H))))"

section \<open>The server\<close>

fun route_handler :: "callback_route \<Rightarrow> 'w program \<Rightarrow> http_request \<Rightarrow> 'w action" where
  "route_handler ScenarioRoute = handleScenarioCallback"
| "route_handler PluginRoute = handlePluginCallback"
| "route_handler SinkRoute = handleSinkCallback"
| "route_handler PolicyRoute = handlePolicyCallback"
| "route_handler TrackingRoute = handleTrackingCallback"
| "route_handler ThresholdRoute = handleThresholdCallback"
| "route_handler PublishRoute = handleReportingPublishCallback"
| "route_handler ObservationRoute = handleObservationCancellationCallback"

text \<open>
  The handler of the server, on a path that \<open>net/http\<close> takes as it is; it redirects a path with an
  empty, dot or dot-dot segment.
\<close>

definition serve :: "'w program \<Rightarrow> http_request \<Rightarrow> 'w action" where
  "serve P req H =
     (case route_of (req_Path req) of None \<Rightarrow> (NotFound, H) | Some route \<Rightarrow> route_handler route P req H)"

definition host_Close :: "'w host \<Rightarrow> 'w host" where
  "host_Close H = H\<lparr>host_registry := registry_Close (host_registry H)\<rparr>"

end
