(* ===== verification/Public_Scenario.thy ===== *)
theory Public_Scenario
  imports Public_Handles Run_Results Http_Host
begin

text \<open>
  The public side of scenarios (\<open>dotnet_parity_api.go\<close>, \<open>parity_helpers.go\<close>): load simulations with durations,
  thresholds, the fluent methods of scenarios, steps, replies and what a run function returned, and the
  contexts of callbacks. A public scenario points to a value that nothing changes, so it is that value.
\<close>

section \<open>Configuration of a callback\<close>

record IConfiguration = cfg_values :: "(string \<times> go_any) list option"

definition newIConfiguration :: "(string \<times> go_any) list \<Rightarrow> IConfiguration res" where
  "newIConfiguration settings = map_sum id (\<lambda>cloned. \<lparr>cfg_values = Some cloned\<rparr>) (cloneKnownJSONCompatibleSettings settings)"

definition config_Lookup :: "string \<Rightarrow> IConfiguration \<Rightarrow> (go_any \<times> bool) res" where
  "config_Lookup key c =
     (case cfg_values c of
        None \<Rightarrow> Inr (AnyNil, False)
      | Some settings \<Rightarrow>
          map_sum id (\<lambda>cloned. case map_of cloned key of Some v \<Rightarrow> (v, True) | None \<Rightarrow> (AnyNil, False))
            (cloneKnownJSONCompatibleSettings settings))"

definition config_Get :: "string \<Rightarrow> IConfiguration \<Rightarrow> go_any res" where
  "config_Get key c =
     (case cfg_values c of
        None \<Rightarrow> Inr AnyNil
      | Some settings \<Rightarrow>
          map_sum id (\<lambda>cloned. case map_of cloned key of Some v \<Rightarrow> v | None \<Rightarrow> AnyNil)
            (cloneKnownJSONCompatibleSettings settings))"

definition config_Len :: "IConfiguration \<Rightarrow> int" where
  "config_Len c = (case cfg_values c of None \<Rightarrow> 0 | Some settings \<Rightarrow> int (length settings))"

definition config_nativeValue :: "IConfiguration \<Rightarrow> (string \<times> go_any) list option" where
  "config_nativeValue = cfg_values"

section \<open>Load simulations\<close>

record LoadStrikeLoadSimulation = lls_native :: LoadSimulation

definition newLoadStrikeLoadSimulation :: "LoadSimulation \<Rightarrow> LoadStrikeLoadSimulation" where
  "newLoadStrikeLoadSimulation native = \<lparr>lls_native = native\<rparr>"

definition simulation_nativeValue :: "LoadStrikeLoadSimulation \<Rightarrow> LoadSimulation" where
  "simulation_nativeValue = lls_native"

definition IsInject :: "LoadStrikeLoadSimulation \<Rightarrow> bool" where
  "IsInject s \<longleftrightarrow> sim_Kind (lls_native s) = ''Inject''"

definition IsInjectRandom :: "LoadStrikeLoadSimulation \<Rightarrow> bool" where
  "IsInjectRandom s \<longleftrightarrow> sim_Kind (lls_native s) = ''InjectRandom''"

definition IsIterationsForConstant :: "LoadStrikeLoadSimulation \<Rightarrow> bool" where
  "IsIterationsForConstant s \<longleftrightarrow> sim_Kind (lls_native s) = ''IterationsForConstant''"

definition IsIterationsForInject :: "LoadStrikeLoadSimulation \<Rightarrow> bool" where
  "IsIterationsForInject s \<longleftrightarrow> sim_Kind (lls_native s) = ''IterationsForInject''"

definition IsKeepConstant :: "LoadStrikeLoadSimulation \<Rightarrow> bool" where
  "IsKeepConstant s \<longleftrightarrow> sim_Kind (lls_native s) = ''KeepConstant''"

definition IsPause :: "LoadStrikeLoadSimulation \<Rightarrow> bool" where
  "IsPause s \<longleftrightarrow> sim_Kind (lls_native s) = ''Pause''"

definition IsRampingConstant :: "LoadStrikeLoadSimulation \<Rightarrow> bool" where
  "IsRampingConstant s \<longleftrightarrow> sim_Kind (lls_native s) = ''RampingConstant''"

definition IsRampingInject :: "LoadStrikeLoadSimulation \<Rightarrow> bool" where
  "IsRampingInject s \<longleftrightarrow> sim_Kind (lls_native s) = ''RampingInject''"

definition simulation_String :: "LoadStrikeLoadSimulation \<Rightarrow> string" where
  "simulation_String s = sim_Kind (lls_native s)"

text \<open>Durations are whole nanoseconds.\<close>

definition DurationFromSeconds :: "(float64 \<Rightarrow> int) \<Rightarrow> float64 \<Rightarrow> int" where
  "DurationFromSeconds conv seconds = f64_to_int conv (f64_times seconds 1000000000)"

definition DurationFromMilliseconds :: "(float64 \<Rightarrow> int) \<Rightarrow> float64 \<Rightarrow> int" where
  "DurationFromMilliseconds conv milliseconds = f64_to_int conv (f64_times milliseconds 1000000)"

definition Simulation_Inject :: "(float64 \<Rightarrow> int) \<Rightarrow> int \<Rightarrow> int \<Rightarrow> int \<Rightarrow> LoadStrikeLoadSimulation" where
  "Simulation_Inject conv rate interval during =
     newLoadStrikeLoadSimulation (Inject conv rate (duration_seconds interval) (duration_seconds during))"

definition Simulation_InjectRandom ::
  "(float64 \<Rightarrow> int) \<Rightarrow> int \<Rightarrow> int \<Rightarrow> int \<Rightarrow> int \<Rightarrow> LoadStrikeLoadSimulation" where
  "Simulation_InjectRandom conv minRate maxRate interval during =
     newLoadStrikeLoadSimulation
       (InjectRandom conv minRate maxRate (duration_seconds interval) (duration_seconds during))"

definition Simulation_IterationsForConstant :: "int \<Rightarrow> int \<Rightarrow> LoadStrikeLoadSimulation" where
  "Simulation_IterationsForConstant copies iterations =
     newLoadStrikeLoadSimulation (IterationsForConstant copies iterations)"

definition Simulation_IterationsForInject :: "int \<Rightarrow> int \<Rightarrow> int \<Rightarrow> LoadStrikeLoadSimulation" where
  "Simulation_IterationsForInject rate interval iterations =
     newLoadStrikeLoadSimulation (IterationsForInject rate (duration_seconds interval) iterations)"

definition Simulation_KeepConstant :: "(float64 \<Rightarrow> int) \<Rightarrow> int \<Rightarrow> int \<Rightarrow> LoadStrikeLoadSimulation" where
  "Simulation_KeepConstant conv copies during =
     newLoadStrikeLoadSimulation (KeepConstant conv copies (duration_seconds during))"

definition Simulation_Pause :: "int \<Rightarrow> LoadStrikeLoadSimulation" where
  "Simulation_Pause during = newLoadStrikeLoadSimulation (Pause (duration_seconds during))"

definition Simulation_RampingConstant :: "(float64 \<Rightarrow> int) \<Rightarrow> int \<Rightarrow> int \<Rightarrow> LoadStrikeLoadSimulation" where
  "Simulation_RampingConstant conv copies during =
     newLoadStrikeLoadSimulation (RampingConstant conv copies (duration_seconds during))"

definition Simulation_RampingInject :: "(float64 \<Rightarrow> int) \<Rightarrow> int \<Rightarrow> int \<Rightarrow> int \<Rightarrow> LoadStrikeLoadSimulation" where
  "Simulation_RampingInject conv rate interval during =
     newLoadStrikeLoadSimulation (RampingInject conv rate (duration_seconds interval) (duration_seconds during))"

section \<open>Thresholds\<close>

record LoadStrikeThreshold = lth_native :: ThresholdSpec

definition newLoadStrikeThreshold :: "ThresholdSpec \<Rightarrow> LoadStrikeThreshold" where
  "newLoadStrikeThreshold native = \<lparr>lth_native = native\<rparr>"

definition threshold_nativeValue :: "LoadStrikeThreshold \<Rightarrow> ThresholdSpec" where
  "threshold_nativeValue = lth_native"

definition CreateScenarioThreshold :: "go_fmt \<Rightarrow> go_any list \<Rightarrow> LoadStrikeThreshold" where
  "CreateScenarioThreshold fm args = newLoadStrikeThreshold (ScenarioThreshold fm args)"

definition CreateStepThreshold :: "go_fmt \<Rightarrow> string \<Rightarrow> go_any list \<Rightarrow> LoadStrikeThreshold res" where
  "CreateStepThreshold fm stepName args = map_sum id newLoadStrikeThreshold (StepThreshold fm stepName args)"

definition CreateMetricThreshold :: "go_fmt \<Rightarrow> go_any list \<Rightarrow> LoadStrikeThreshold" where
  "CreateMetricThreshold fm args = newLoadStrikeThreshold (MetricThreshold fm args)"

section \<open>Scenarios\<close>

text \<open>\<open>Inl\<close> is the message of a panic.\<close>

type_synonym LoadStrikeScenario = "scenarioDefinition option"

definition newLoadStrikeScenario :: "scenarioDefinition \<Rightarrow> LoadStrikeScenario" where
  "newLoadStrikeScenario native = Some native"

definition scenario_Name :: "LoadStrikeScenario \<Rightarrow> string" where
  "scenario_Name s = (case s of None \<Rightarrow> [] | Some native \<Rightarrow> sc_Name native)"

definition on_scenario :: "(scenarioDefinition \<Rightarrow> scenarioDefinition res) \<Rightarrow> LoadStrikeScenario \<Rightarrow> LoadStrikeScenario res" where
  "on_scenario f s = map_sum id newLoadStrikeScenario (f (scenario_nativeValue s))"

definition CreateScenario :: "go_fmt \<Rightarrow> string \<Rightarrow> go_ref option \<Rightarrow> LoadStrikeScenario res" where
  "CreateScenario fm name run =
     map_sum id newLoadStrikeScenario
       (createScenario fm name (AnyFunc (OtherFunc ''loadstrike.LoadStrikeScenarioRunFunc'') run))"

text \<open>The function that awaits is a new one, whether or not the function it calls is nil.\<close>

definition CreateScenarioAsync :: "go_fmt \<Rightarrow> string \<Rightarrow> go_ref option \<Rightarrow> go_ref \<Rightarrow> LoadStrikeScenario res" where
  "CreateScenarioAsync fm name run awaiting =
     map_sum id newLoadStrikeScenario
       (createScenario fm name
         (AnyFunc (OtherFunc ''func(loadstrike.LoadStrikeScenarioContext) loadstrike.LoadStrikeReply'') (Some awaiting)))"

definition EmptyScenario :: "string \<Rightarrow> LoadStrikeScenario res" where
  "EmptyScenario name = map_sum id newLoadStrikeScenario (emptyScenario name)"

definition scenario_WithInit :: "go_fmt \<Rightarrow> go_ref option \<Rightarrow> LoadStrikeScenario \<Rightarrow> LoadStrikeScenario res" where
  "scenario_WithInit fm init = on_scenario (WithInit fm (AnyFunc InitFuncNamed init))"

definition scenario_WithInitAsync :: "go_fmt \<Rightarrow> go_ref option \<Rightarrow> LoadStrikeScenario \<Rightarrow> LoadStrikeScenario res" where
  "scenario_WithInitAsync fm init = on_scenario (WithInit fm (AnyFunc AsyncInitFuncNamed init))"

definition scenario_WithClean :: "go_fmt \<Rightarrow> go_ref option \<Rightarrow> LoadStrikeScenario \<Rightarrow> LoadStrikeScenario res" where
  "scenario_WithClean fm clean = on_scenario (WithClean fm (AnyFunc InitFuncNamed clean))"

definition scenario_WithCleanAsync :: "go_fmt \<Rightarrow> go_ref option \<Rightarrow> LoadStrikeScenario \<Rightarrow> LoadStrikeScenario res" where
  "scenario_WithCleanAsync fm clean = on_scenario (WithClean fm (AnyFunc AsyncInitFuncNamed clean))"

definition scenario_WithWeight :: "int \<Rightarrow> LoadStrikeScenario \<Rightarrow> LoadStrikeScenario res" where
  "scenario_WithWeight weight = on_scenario (\<lambda>s. Inr (WithWeight weight s))"

definition scenario_WithRestartIterationOnFail :: "bool \<Rightarrow> LoadStrikeScenario \<Rightarrow> LoadStrikeScenario res" where
  "scenario_WithRestartIterationOnFail enabled = on_scenario (\<lambda>s. Inr (WithRestartIterationOnFail enabled s))"

definition scenario_WithMaxFailCount :: "int \<Rightarrow> LoadStrikeScenario \<Rightarrow> LoadStrikeScenario res" where
  "scenario_WithMaxFailCount maxFailCount = on_scenario (\<lambda>s. Inr (WithMaxFailCount maxFailCount s))"

definition scenario_WithWarmUpDuration :: "float64 \<Rightarrow> LoadStrikeScenario \<Rightarrow> LoadStrikeScenario res" where
  "scenario_WithWarmUpDuration seconds = on_scenario (\<lambda>s. Inr (WithWarmUpDuration seconds s))"

definition scenario_WithoutWarmUp :: "LoadStrikeScenario \<Rightarrow> LoadStrikeScenario res" where
  "scenario_WithoutWarmUp = on_scenario (\<lambda>s. Inr (WithoutWarmUp s))"

definition scenario_WithLoadSimulations ::
  "LoadStrikeLoadSimulation list \<Rightarrow> LoadStrikeScenario \<Rightarrow> LoadStrikeScenario res" where
  "scenario_WithLoadSimulations loadSimulations =
     on_scenario (WithLoadSimulations (map simulation_nativeValue loadSimulations))"

definition scenario_WithThresholds :: "LoadStrikeThreshold list \<Rightarrow> LoadStrikeScenario \<Rightarrow> LoadStrikeScenario res" where
  "scenario_WithThresholds thresholds = on_scenario (WithThresholds (map threshold_nativeValue thresholds))"

definition scenario_WithTrackingConfiguration ::
  "TrackingConfigurationSpec option \<Rightarrow> LoadStrikeScenario \<Rightarrow> LoadStrikeScenario res" where
  "scenario_WithTrackingConfiguration tracking = on_scenario (\<lambda>s. Inr (WithTrackingConfiguration tracking s))"

definition scenario_WithCrossPlatformTracking ::
  "TrackingConfigurationSpec option \<Rightarrow> LoadStrikeScenario \<Rightarrow> LoadStrikeScenario res" where
  "scenario_WithCrossPlatformTracking tracking = on_scenario (\<lambda>s. Inr (WithTrackingConfiguration tracking s))"

definition scenario_WithDeclaredSteps :: "string list \<Rightarrow> LoadStrikeScenario \<Rightarrow> LoadStrikeScenario res" where
  "scenario_WithDeclaredSteps stepNames = on_scenario (WithDeclaredSteps stepNames)"

definition GetDeclaredSteps :: "LoadStrikeScenario \<Rightarrow> string list" where
  "GetDeclaredSteps s = sc_DeclaredStepNames (scenario_nativeValue s)"

section \<open>Replies\<close>

record LoadStrikeReply = lrp_native :: "replyResult option"

definition public_reply :: "replyResult \<Rightarrow> LoadStrikeReply" where
  "public_reply native = \<lparr>lrp_native = Some (normalizeReplyValue native)\<rparr>"

definition reply_toNative :: "LoadStrikeReply \<Rightarrow> replyResult" where
  "reply_toNative r = (case lrp_native r of None \<Rightarrow> zero_reply | Some native \<Rightarrow> normalizeReplyValue native)"

definition public_IsError :: "LoadStrikeReply \<Rightarrow> bool" where
  "public_IsError r = reply_IsError (reply_toNative r)"

definition public_StatusCode :: "LoadStrikeReply \<Rightarrow> string" where
  "public_StatusCode r = reply_StatusCode (reply_toNative r)"

definition public_Message :: "LoadStrikeReply \<Rightarrow> string" where
  "public_Message r = reply_Message (reply_toNative r)"

definition public_SizeBytes :: "LoadStrikeReply \<Rightarrow> int" where
  "public_SizeBytes r = reply_SizeBytes (reply_toNative r)"

definition public_CustomLatencyMS :: "LoadStrikeReply \<Rightarrow> float64" where
  "public_CustomLatencyMS r = reply_CustomLatencyMS (reply_toNative r)"

definition reply_AsReply :: "LoadStrikeReply \<Rightarrow> LoadStrikeReply" where
  "reply_AsReply r = public_reply (reply_toNative r)"

record 'a LoadStrikeReplyWith =
  rw_reply :: LoadStrikeReply
  rw_payload :: 'a

text \<open>The functions of the package with a payload, unlike the methods of \<open>LoadStrikeResponse\<close>, keep all arguments.\<close>

definition package_OKWith :: "(float64 \<Rightarrow> int) \<Rightarrow> go_any \<Rightarrow> go_any list \<Rightarrow> go_any LoadStrikeReplyWith" where
  "package_OKWith conv v args =
     \<lparr>rw_reply = public_reply ((okReply conv args)\<lparr>reply_Payload := v\<rparr>), rw_payload = v\<rparr>"

definition package_FailWith :: "(float64 \<Rightarrow> int) \<Rightarrow> go_any \<Rightarrow> go_any list \<Rightarrow> go_any LoadStrikeReplyWith" where
  "package_FailWith conv v args =
     \<lparr>rw_reply = public_reply ((failReply conv args)\<lparr>reply_Payload := v\<rparr>), rw_payload = v\<rparr>"

text \<open>
  What reflection finds in the value a run function returned: a method \<open>Await\<close> with one or two results, a
  reply, or a struct with a method \<open>AsReply\<close> or a field \<open>Reply\<close>.
\<close>

datatype reply_form = NativeForm replyResult | PublicForm LoadStrikeReply

datatype reply_value =
    InvalidValue
  | AwaitOne "go_error option"
  | AwaitTwo reply_value "go_error option"
  | ReplyValue reply_form
  | StructValue string "reply_form option" "reply_form option"
  | OtherValue string

fun reply_of_form :: "reply_form \<Rightarrow> replyResult" where
  "reply_of_form (NativeForm r) = normalizeReplyValue r"
| "reply_of_form (PublicForm r) = reply_toNative r"

definition unsupported_reply :: "string \<Rightarrow> replyResult res" where
  "unsupported_reply type_name = Inl (''Step run returned unsupported reply type '' @ type_name)"

fun unwrapReplyValue :: "reply_value \<Rightarrow> replyResult res" where
  "unwrapReplyValue InvalidValue = Inl ''Step run must return a reply.''"
| "unwrapReplyValue (AwaitOne (Some err)) = Inl err"
| "unwrapReplyValue (AwaitOne None) = Inl ''Step run must return a reply.''"
| "unwrapReplyValue (AwaitTwo v (Some err)) = Inl err"
| "unwrapReplyValue (AwaitTwo v None) = unwrapReplyValue v"
| "unwrapReplyValue (ReplyValue f) = Inr (reply_of_form f)"
| "unwrapReplyValue (StructValue t (Some f) field) = Inr (reply_of_form f)"
| "unwrapReplyValue (StructValue t None (Some f)) = Inr (reply_of_form f)"
| "unwrapReplyValue (StructValue t None None) = unsupported_reply t"
| "unwrapReplyValue (OtherValue t) = unsupported_reply t"

datatype call_results = OneResult reply_value | TwoResults reply_value "go_error option" | OtherResults

fun invokeReplyCallable :: "(float64 \<Rightarrow> int) \<Rightarrow> bool \<Rightarrow> call_results \<Rightarrow> replyResult res" where
  "invokeReplyCallable conv allowErrorTuple (OneResult v) = unwrapReplyValue v"
| "invokeReplyCallable conv allowErrorTuple (TwoResults v err) =
     (if \<not> allowErrorTuple then Inl ''Step run must return a reply.''
      else case err of
             Some e \<Rightarrow> Inr (failReply conv [AnyString ''500'', AnyString e])
           | None \<Rightarrow> unwrapReplyValue v)"
| "invokeReplyCallable conv allowErrorTuple OtherResults = Inl ''Step run must return a reply.''"

section \<open>Steps\<close>

text \<open>A run function changes the context it is given; an asynchronous one gives a task with an error.\<close>

definition requireLoadStrikeScenarioContext :: "stepRuntimeContext option \<Rightarrow> stepRuntimeContext res" where
  "requireLoadStrikeScenarioContext context =
     (case context of None \<Rightarrow> Inl ''step context must be provided.'' | Some c \<Rightarrow> Inr c)"

definition Step_Run ::
  "string \<Rightarrow> stepRuntimeContext option \<Rightarrow> (stepRuntimeContext \<Rightarrow> 'a \<times> stepRuntimeContext) option \<Rightarrow>
     ('a \<times> stepRuntimeContext) res" where
  "Step_Run name context run =
     (if trim_space name = [] then Inl ''step name must be provided.''
      else case run of
        None \<Rightarrow> Inl ''step run must be provided.''
      | Some f \<Rightarrow>
          (case requireLoadStrikeScenarioContext context of
             Inl m \<Rightarrow> Inl m
           | Inr c \<Rightarrow> Inr (f (name_step name c))))"

definition Step_RunAsync ::
  "(float64 \<Rightarrow> int) \<Rightarrow> string \<Rightarrow> stepRuntimeContext option \<Rightarrow>
     (stepRuntimeContext \<Rightarrow> LoadStrikeReply res \<times> stepRuntimeContext) option \<Rightarrow>
     (LoadStrikeReply \<times> stepRuntimeContext) res" where
  "Step_RunAsync conv name context run =
     (if trim_space name = [] then Inl ''step name must be provided.''
      else case run of
        None \<Rightarrow> Inl ''step run must be provided.''
      | Some f \<Rightarrow>
          Step_Run name context (Some (\<lambda>c. case f c of
            (Inl err, c) \<Rightarrow> (public_reply (failReply conv [AnyString ''step_exception'', AnyString err]), c)
          | (Inr reply, c) \<Rightarrow> (reply, c))))"

definition RunStep ::
  "string \<Rightarrow> stepRuntimeContext option \<Rightarrow>
     (stepRuntimeContext \<Rightarrow> 'a LoadStrikeReplyWith \<times> stepRuntimeContext) option \<Rightarrow>
     ('a LoadStrikeReplyWith \<times> stepRuntimeContext) res" where
  "RunStep name context run =
     (if trim_space name = [] then Inl ''step name must be provided.''
      else case context of
        None \<Rightarrow> Inl ''step context must be provided.''
      | Some c \<Rightarrow>
          (case run of None \<Rightarrow> Inl ''step run must be provided.'' | Some f \<Rightarrow> Inr (f (name_step name c))))"

section \<open>Contexts of callbacks\<close>

definition accessor :: "'b \<Rightarrow> ('a \<Rightarrow> 'b) \<Rightarrow> 'a option \<Rightarrow> 'b" where
  "accessor zero f c = (case c of None \<Rightarrow> zero | Some native \<Rightarrow> f native)"

definition zero_public_node :: LoadStrikeNodeInfo where
  "zero_public_node =
     \<lparr>lni_CoresCount = 0, lni_CurrentOperation = 0, lni_DotNetVersion = [], lni_MachineName = [],
      lni_EngineVersion = [], lni_NodeType = NodeTypeSingleNode, lni_OS = [], lni_Processor = []\<rparr>"

definition zero_public_test :: LoadStrikeTestInfo where
  "zero_public_test = \<lparr>lti_ClusterId = [], lti_Created = 0, lti_SessionId = [], lti_TestName = [], lti_TestSuite = []\<rparr>"

definition zero_scenario_info :: LoadStrikeScenarioInfo where
  "zero_scenario_info =
     \<lparr>si_InstanceID = [], si_InstanceId = [], si_InstanceNumber = 0, si_ScenarioDuration = 0, si_ScenarioName = [],
      si_ScenarioOperation = 0\<rparr>"

record LoadStrikeScenarioPartition =
  lsp_Number :: int
  lsp_Count :: int

definition newLoadStrikeScenarioPartition :: "scenarioPartitionInfo \<Rightarrow> LoadStrikeScenarioPartition" where
  "newLoadStrikeScenarioPartition native = \<lparr>lsp_Number = part_Number native, lsp_Count = part_Count native\<rparr>"

definition partition_toNative :: "LoadStrikeScenarioPartition \<Rightarrow> scenarioPartitionInfo" where
  "partition_toNative p = \<lparr>part_Number = lsp_Number p, part_Count = lsp_Count p\<rparr>"

definition step_InvocationNumber :: "stepRuntimeContext option \<Rightarrow> int" where
  "step_InvocationNumber = accessor 0 sr_InvocationNumber"

definition step_NodeInfo :: "stepRuntimeContext option \<Rightarrow> LoadStrikeNodeInfo" where
  "step_NodeInfo = accessor zero_public_node (\<lambda>c. newLoadStrikeNodeInfo (sr_nodeInfo c))"

definition step_TestInfo :: "stepRuntimeContext option \<Rightarrow> LoadStrikeTestInfo" where
  "step_TestInfo = accessor zero_public_test (\<lambda>c. newLoadStrikeTestInfo (sr_testInfo c))"

definition step_ScenarioInfo :: "stepRuntimeContext option \<Rightarrow> LoadStrikeScenarioInfo" where
  "step_ScenarioInfo = accessor zero_scenario_info sr_ScenarioInfo"

definition step_ScenarioPartition :: "stepRuntimeContext option \<Rightarrow> LoadStrikeScenarioPartition" where
  "step_ScenarioPartition = accessor \<lparr>lsp_Number = 0, lsp_Count = 0\<rparr> (\<lambda>c. newLoadStrikeScenarioPartition (sr_Partition c))"

definition step_ScenarioInstanceData :: "stepRuntimeContext option \<Rightarrow> (string \<rightharpoonup> go_any)" where
  "step_ScenarioInstanceData = accessor Map.empty sr_ScenarioInstanceData"

definition step_GetScenarioTimerTime :: "int \<Rightarrow> stepRuntimeContext option \<Rightarrow> int" where
  "step_GetScenarioTimerTime now = accessor 0 (GetScenarioTimerTime now)"

definition step_StopCurrentTest :: "string \<Rightarrow> stepRuntimeContext option \<Rightarrow> stepRuntimeContext option" where
  "step_StopCurrentTest reason = map_option (StopCurrentTest reason)"

definition step_StopScenario :: "string \<Rightarrow> string \<Rightarrow> stepRuntimeContext option \<Rightarrow> stepRuntimeContext option" where
  "step_StopScenario scenarioName reason = map_option (StopScenario [scenarioName, reason])"

definition init_NodeInfo :: "scenarioHookContext option \<Rightarrow> LoadStrikeNodeInfo" where
  "init_NodeInfo = accessor zero_public_node (\<lambda>c. newLoadStrikeNodeInfo (hc_nodeInfo c))"

definition init_TestInfo :: "scenarioHookContext option \<Rightarrow> LoadStrikeTestInfo" where
  "init_TestInfo = accessor zero_public_test (\<lambda>c. newLoadStrikeTestInfo (hc_testInfo c))"

definition init_ScenarioInfo :: "scenarioHookContext option \<Rightarrow> LoadStrikeScenarioInfo" where
  "init_ScenarioInfo = accessor zero_scenario_info hc_ScenarioInfo"

definition init_ScenarioPartition :: "scenarioHookContext option \<Rightarrow> LoadStrikeScenarioPartition" where
  "init_ScenarioPartition = accessor \<lparr>lsp_Number = 0, lsp_Count = 0\<rparr> (\<lambda>c. newLoadStrikeScenarioPartition (hc_Partition c))"

section \<open>Plugin data\<close>

definition CreatePluginData :: "string \<Rightarrow> LoadStrikePluginData res" where
  "CreatePluginData pluginName =
     (if trim_space pluginName = [] then Inl ''Plugin name must be provided.''
      else Inr \<lparr>lpd_PluginName = pluginName, lpd_Hints = [], lpd_Tables = []\<rparr>)"

definition CreatePluginDataTable :: "string \<Rightarrow> LoadStrikePluginDataTable res" where
  "CreatePluginDataTable tableName =
     (if trim_space tableName = [] then Inl ''Table name must be provided.''
      else Inr \<lparr>lpt_TableName = tableName, lpt_Rows = []\<rparr>)"

section \<open>What the public side keeps\<close>

lemma truncate_whole: "Float64.truncate (of_int i) = i"
  by (simp add: Float64.truncate_def flip: of_int_minus)

lemma whole_seconds:
  assumes "0 \<le> n" and "n \<le> 4000000000"
  shows "DurationFromSeconds conv (f64_of_int n) = n * 1000000000" and "duration_seconds (n * 1000000000) = f64_of_int n"
proof -
  have n: "f64_of_int n = Fin (of_int n)"
    using assms by (intro round64_int) simp
  have "round64 (of_int (n * 1953125) * 2 powi 9) = Fin (of_int (n * 1953125) * 2 powi 9)"
    by (rule round64_exact) (use assms in simp_all)
  moreover have "(of_int (n * 1953125) * 2 powi 9 :: rat) = of_int (n * 1000000000)"
    by (simp add: power_int_def)
  ultimately have "round64 (of_int n * 1000000000) = Fin (of_int (n * 1000000000))"
    by (simp add: mult.commute)
  then show "DurationFromSeconds conv (f64_of_int n) = n * 1000000000"
    using assms unfolding DurationFromSeconds_def n f64_times_def
    by (simp only: float64.case f64_to_int_def truncate_whole) (simp add: int_range_def)
  have "round64 0 = Fin 0" "round64 (of_int n) = Fin (of_int n)"
    using n by (simp_all add: round64_def f64_of_int_def)
  then show "duration_seconds (n * 1000000000) = f64_of_int n"
    using assms by (cases "n = 0") (simp_all add: duration_seconds_def n abs_mult f64_of_int_def)
qed

text \<open>A public simulation of whole seconds is the native one with these seconds.\<close>

lemma simulation_whole_seconds:
  assumes "0 \<le> interval" and "interval \<le> 4000000000" and "0 \<le> during" and "during \<le> 4000000000"
  shows "simulation_nativeValue (Simulation_Inject conv rate (DurationFromSeconds conv (f64_of_int interval))
      (DurationFromSeconds conv (f64_of_int during))) = Inject conv rate (f64_of_int interval) (f64_of_int during)"
  using assms by (simp add: Simulation_Inject_def whole_seconds newLoadStrikeLoadSimulation_def simulation_nativeValue_def)

lemmas simulation_kinds =
  IsInject_def IsInjectRandom_def IsIterationsForConstant_def IsIterationsForInject_def IsKeepConstant_def IsPause_def
  IsRampingConstant_def IsRampingInject_def newLoadStrikeLoadSimulation_def Inject_def InjectRandom_def
  IterationsForConstant_def IterationsForInject_def KeepConstant_def Pause_def RampingConstant_def RampingInject_def
  zero_simulation_def Let_def

definition kind_answers :: "LoadStrikeLoadSimulation \<Rightarrow> bool list" where
  "kind_answers s =
     [IsInject s, IsInjectRandom s, IsIterationsForConstant s, IsIterationsForInject s, IsKeepConstant s, IsPause s,
      IsRampingConstant s, IsRampingInject s]"

text \<open>Every public simulation says that it is of its own kind and of no other.\<close>

lemma simulation_knows_kind:
  "kind_answers (Simulation_Inject conv a b c) = [True, False, False, False, False, False, False, False]"
  "kind_answers (Simulation_InjectRandom conv a d b c) = [False, True, False, False, False, False, False, False]"
  "kind_answers (Simulation_IterationsForConstant a b) = [False, False, True, False, False, False, False, False]"
  "kind_answers (Simulation_IterationsForInject a b c) = [False, False, False, True, False, False, False, False]"
  "kind_answers (Simulation_KeepConstant conv a b) = [False, False, False, False, True, False, False, False]"
  "kind_answers (Simulation_Pause a) = [False, False, False, False, False, True, False, False]"
  "kind_answers (Simulation_RampingConstant conv a b) = [False, False, False, False, False, False, True, False]"
  "kind_answers (Simulation_RampingInject conv a b c) = [False, False, False, False, False, False, False, True]"
  by (simp_all add: kind_answers_def Simulation_Inject_def Simulation_InjectRandom_def Simulation_IterationsForConstant_def
      Simulation_IterationsForInject_def Simulation_KeepConstant_def Simulation_Pause_def Simulation_RampingConstant_def
      Simulation_RampingInject_def simulation_kinds)

text \<open>The reply taken from what a run function returned is an error exactly when it is no success, but for a nil one.\<close>

definition reply_consistent :: "replyResult \<Rightarrow> bool" where
  "reply_consistent r \<longleftrightarrow> r = zero_reply \<or> reply_IsError r = (\<not> reply_IsSuccess r)"

lemma reply_of_form_consistent: "reply_consistent (reply_of_form f)"
  by (cases f) (auto simp: reply_consistent_def reply_toNative_def normalizeReplyValue_def split: option.split)

lemma unwrapped_reply_consistent: "unwrapReplyValue v = Inr r \<Longrightarrow> reply_consistent r"
  by (induction v rule: unwrapReplyValue.induct) (auto simp: unsupported_reply_def reply_of_form_consistent)

lemma failed_reply_consistent: "reply_consistent (failReply conv args)"
  by (simp add: failReply_def reply_consistent_def split: prod.split)

lemma invoked_reply_consistent: "invokeReplyCallable conv allow results = Inr r \<Longrightarrow> reply_consistent r"
  by (cases "(conv, allow, results)" rule: invokeReplyCallable.cases)
    (auto split: if_splits option.splits intro: unwrapped_reply_consistent failed_reply_consistent)

text \<open>
  The functions of the package that make a reply with a payload keep the payload, and the status code is the
  first of the other arguments.
\<close>

lemma package_replies_keep_code:
  assumes "\<not> blank code"
  shows "reply_StatusCode (reply_toNative (rw_reply (package_FailWith conv v (AnyString code # args)))) = code \<and>
    reply_StatusCode (reply_toNative (rw_reply (package_OKWith conv v (AnyString code # args)))) = code \<and>
    reply_Payload (reply_toNative (rw_reply (package_FailWith conv v (AnyString code # args)))) = v \<and>
    reply_Payload (reply_toNative (rw_reply (package_OKWith conv v (AnyString code # args)))) = v"
  using assms
  by (simp add: package_FailWith_def package_OKWith_def public_reply_def reply_toNative_def normalizeReplyValue_def
      failReply_def okReply_def parseReplyOptions_def Let_def split: prod.splits)

end
