(* ===== verification/Plan_Served.thy ===== *)
theory Plan_Served
  imports Plan_Registrations Http_Host
begin

text \<open>
  The plan and the host together: what the server does with a request, as a specification by the
  registration its path resolves to, and that every URL of a plan resolves to the function the plan
  was built from.
\<close>

section \<open>What a path resolves to\<close>

datatype target =
    ScenarioTarget runtimeScenarioRegistration string
  | PluginTarget go_ref
  | SinkTarget go_ref
  | PolicyTarget go_ref
  | TrackingTarget runtimeTrackingRegistration string
  | ThresholdTarget runtimeThresholdRegistration
  | PublishTarget go_ref
  | ObservationTarget go_ref

fun route_target :: "callback_route \<Rightarrow> runtimeCallbackRegistry \<Rightarrow> string \<Rightarrow> target option" where
  "route_target ScenarioRoute r path =
     (case runtimeCallbackPathParts path ''/callbacks/scenario/'' of
        None \<Rightarrow> None
      | Some (i, stage) \<Rightarrow> map_option (\<lambda>g. ScenarioTarget g stage) (rg_scenarios r i))"
| "route_target PluginRoute r path =
     map_option PluginTarget (rg_plugins r (trim_prefix ''/callbacks/plugin/'' path))"
| "route_target SinkRoute r path =
     map_option SinkTarget (rg_sinks r (trim_prefix ''/callbacks/sink/'' path))"
| "route_target PolicyRoute r path =
     map_option PolicyTarget (rg_policies r (trim_prefix ''/callbacks/policy/'' path))"
| "route_target TrackingRoute r path =
     (case runtimeCallbackPathParts path ''/callbacks/tracking/'' of
        None \<Rightarrow> None
      | Some (i, stage) \<Rightarrow> map_option (\<lambda>g. TrackingTarget g stage) (rg_tracking r i))"
| "route_target ThresholdRoute r path =
     (case single_path_id path ''/callbacks/threshold/'' of
        None \<Rightarrow> None | Some i \<Rightarrow> map_option ThresholdTarget (rg_thresholds r i))"
| "route_target PublishRoute r path =
     (case single_path_id path ''/callbacks/reporting-publish/'' of
        None \<Rightarrow> None | Some i \<Rightarrow> map_option PublishTarget (rg_publishers r i))"
| "route_target ObservationRoute r path =
     (case observation_path_id path of
        None \<Rightarrow> None | Some i \<Rightarrow> map_option ObservationTarget (rg_observationCancellations r i))"

definition resolve :: "runtimeCallbackRegistry \<Rightarrow> string \<Rightarrow> target option" where
  "resolve r path = (case route_of path of None \<Rightarrow> None | Some route \<Rightarrow> route_target route r path)"

fun run_target :: "'w program \<Rightarrow> target \<Rightarrow> string \<Rightarrow> 'w action" where
  "run_target P (ScenarioTarget g stage) body = scenario_callback P g stage body"
| "run_target P (PluginTarget p) body = plugin_callback P p body"
| "run_target P (SinkTarget s) body = sink_callback P s body"
| "run_target P (PolicyTarget p) body = policy_callback P p body"
| "run_target P (TrackingTarget g stage) body = tracking_callback P g stage body"
| "run_target P (ThresholdTarget g) body = threshold_callback P g body"
| "run_target P (PublishTarget f) body = publish_callback P f body"
| "run_target P (ObservationTarget c) body =
     (\<lambda>H. (Json (JsonCancelled (prog_cancelled P c (host_world H))), H))"

lemmas handler_defs = handleScenarioCallback_def handlePluginCallback_def handleSinkCallback_def
  handlePolicyCallback_def handleTrackingCallback_def handleThresholdCallback_def
  handleReportingPublishCallback_def handleObservationCancellationCallback_def

lemma post_resolves:
  "req_Method req = ''POST'' \<Longrightarrow>
   serve P req H =
     (case resolve (host_registry H) (req_Path req) of
        None \<Rightarrow> (NotFound, H)
      | Some t \<Rightarrow> run_target P t (req_Body req) H)"
proof (cases "route_of (req_Path req)")
  case (Some route)
  then show "req_Method req = ''POST'' \<Longrightarrow> ?thesis"
    by (cases route) (auto simp: serve_def resolve_def handler_defs split: option.splits)
qed (simp add: serve_def resolve_def)

lemma not_post_refused:
  "req_Method req \<noteq> ''POST'' \<Longrightarrow>
   serve P req H = (if route_of (req_Path req) = None then NotFound else MethodNotAllowed, H)"
proof (cases "route_of (req_Path req)")
  case (Some route)
  then show "req_Method req \<noteq> ''POST'' \<Longrightarrow> ?thesis"
    by (cases route) (simp_all add: serve_def handler_defs)
qed (simp add: serve_def)


section \<open>Every URL of a plan is served\<close>

text \<open>The target is the function of a registration, reached at one of its stages.\<close>

fun answers_for :: "registration \<Rightarrow> target \<Rightarrow> bool" where
  "answers_for (RegScenario s) (ScenarioTarget g stage) \<longleftrightarrow>
     reg_ScenarioName g = sc_Name s \<and> reg_Run g = primaryScenarioRun s \<and> reg_Init g = sc_Init s \<and>
     reg_Clean g = sc_Clean s \<and>
     (stage = ''step'' \<or> stage = ''metrics'' \<or> stage = ''init'' \<and> sc_Init s \<noteq> None \<or>
      stage = ''clean'' \<and> sc_Clean s \<noteq> None)"
| "answers_for (RegThreshold t) (ThresholdTarget g) \<longleftrightarrow> newRuntimeThresholdRegistration t = Some g"
| "answers_for (RegPublisher f) (PublishTarget g) \<longleftrightarrow> g = f"
| "answers_for (RegPlugin p) (PluginTarget q) \<longleftrightarrow> q = p"
| "answers_for (RegSink s) (SinkTarget t) \<longleftrightarrow> t = s"
| "answers_for (RegPolicy p) (PolicyTarget q) \<longleftrightarrow> q = p"
| "answers_for (RegProduce f) (TrackingTarget g stage) \<longleftrightarrow> trk_Produce g = Some f \<and> stage = ''produce''"
| "answers_for (RegConsume f) (TrackingTarget g stage) \<longleftrightarrow>
     trk_Consume g = Some f \<and> trk_consumeStream g \<noteq> None \<and> stage = ''consume''"
| "answers_for (RegObservation c) (ObservationTarget d) \<longleftrightarrow> c = Some d"
| "answers_for _ _ \<longleftrightarrow> False"

lemma route_of_patterns:
  "route_of (''/callbacks/scenario/'' @ s) = Some ScenarioRoute"
  "route_of (''/callbacks/plugin/'' @ s) = Some PluginRoute"
  "route_of (''/callbacks/sink/'' @ s) = Some SinkRoute"
  "route_of (''/callbacks/policy/'' @ s) = Some PolicyRoute"
  "route_of (''/callbacks/tracking/'' @ s) = Some TrackingRoute"
  "route_of (''/callbacks/threshold/'' @ s) = Some ThresholdRoute"
  "route_of (''/callbacks/reporting-publish/'' @ s) = Some PublishRoute"
  "route_of (''/callbacks/observation-cancellation/'' @ s) = Some ObservationRoute"
  by (simp_all add: route_of_def served_patterns_def)

lemma stages_safe: "path_safe ''step''" "path_safe ''init''" "path_safe ''clean''" "path_safe ''metrics''"
  "path_safe ''produce''" "path_safe ''consume''"
  by (simp_all add: path_safe_def graphic_def)

lemma resolve_scenario:
  "path_safe i \<Longrightarrow> path_safe stage \<Longrightarrow> rg_scenarios r i = Some g \<Longrightarrow>
   resolve r (''/callbacks/scenario/'' @ i @ ''/'' @ stage) = Some (ScenarioTarget g stage)"
  using path_parts_back[of i stage "''/callbacks/scenario/''"]
  unfolding resolve_def route_of_patterns by simp

lemma resolve_tracking:
  "path_safe i \<Longrightarrow> path_safe stage \<Longrightarrow> rg_tracking r i = Some g \<Longrightarrow>
   resolve r (''/callbacks/tracking/'' @ i @ ''/'' @ stage) = Some (TrackingTarget g stage)"
  using path_parts_back[of i stage "''/callbacks/tracking/''"]
  unfolding resolve_def route_of_patterns by simp

lemma resolve_single:
  "path_safe i \<Longrightarrow> rg_thresholds r i = Some t \<Longrightarrow>
   resolve r (''/callbacks/threshold/'' @ i) = Some (ThresholdTarget t)"
  "path_safe i \<Longrightarrow> rg_publishers r i = Some f \<Longrightarrow>
   resolve r (''/callbacks/reporting-publish/'' @ i) = Some (PublishTarget f)"
  "rg_plugins r i = Some f \<Longrightarrow> resolve r (''/callbacks/plugin/'' @ i) = Some (PluginTarget f)"
  "rg_sinks r i = Some f \<Longrightarrow> resolve r (''/callbacks/sink/'' @ i) = Some (SinkTarget f)"
  "rg_policies r i = Some f \<Longrightarrow> resolve r (''/callbacks/policy/'' @ i) = Some (PolicyTarget f)"
  "path_safe i \<Longrightarrow> rg_observationCancellations r i = Some c \<Longrightarrow>
   resolve r (''/callbacks/observation-cancellation/'' @ i) = Some (ObservationTarget c)"
  unfolding resolve_def route_of_patterns
  by (simp_all only: option.case route_target.simps single_id_back observation_id_back trim_prefix_append
      option.map)

text \<open>A URL that leads to the function of a registration.\<close>

definition leads_to ::
  "runtimeHTTPHostHandle \<Rightarrow> runtimeCallbackRegistry \<Rightarrow> registration \<Rightarrow> string \<Rightarrow> bool" where
  "leads_to h r x u \<longleftrightarrow>
     (\<exists>path t. u = host_baseURL h @ path \<and> resolve r path = Some t \<and> answers_for x t)"

lemma leads_toI: "resolve r path = Some t \<Longrightarrow> answers_for x t \<Longrightarrow> leads_to h r x (host_baseURL h @ path)"
  unfolding leads_to_def by blast

lemma found_url_leads:
  assumes "finds r i x" and "path_safe i" and "u \<in> set (callback_urls h x i)"
  shows "leads_to h r x u"
proof (cases x)
  case (RegScenario s)
  obtain p where g: "rg_scenarios r i = Some \<lparr>reg_ScenarioName = sc_Name s, reg_Run = primaryScenarioRun s,
      reg_Init = sc_Init s, reg_Clean = sc_Clean s, reg_State = p\<rparr>"
    using assms(1) RegScenario by auto
  have "leads_to h r x (scenarioCallbackURL h i stage)"
    if "stage = ''step'' \<or> stage = ''metrics'' \<or> stage = ''init'' \<and> sc_Init s \<noteq> None \<or>
        stage = ''clean'' \<and> sc_Clean s \<noteq> None" for stage
    unfolding scenarioCallbackURL_def
    by (rule leads_toI[OF resolve_scenario[OF assms(2) _ g]]) (use that stages_safe RegScenario in auto)
  then show ?thesis using assms(3) RegScenario by (auto split: if_splits)
next
  case (RegThreshold t)
  then obtain g where "rg_thresholds r i = Some g" "newRuntimeThresholdRegistration t = Some g"
    using assms(1) by (metis finds.simps(3) option.exhaust)
  then show ?thesis using assms(2,3) RegThreshold
    by (auto simp: thresholdCallbackURL_def simp del: append_Cons intro!: leads_toI resolve_single)
next
  case (RegProduce f)
  with assms(1) have g: "rg_tracking r i = Some \<lparr>trk_Produce = Some f, trk_Consume = None, trk_consumeStream = None\<rparr>"
    by simp
  have "leads_to h r x (trackingProduceCallbackURL h i)"
    using leads_toI[OF resolve_tracking[OF assms(2) stages_safe(5) g], of x h] RegProduce
    by (simp add: trackingProduceCallbackURL_def)
  then show ?thesis using assms(3) RegProduce by simp
next
  case (RegConsume f)
  then obtain q where g: "rg_tracking r i = Some \<lparr>trk_Produce = None, trk_Consume = Some f, trk_consumeStream = Some q\<rparr>"
    using assms(1) by auto
  have "leads_to h r x (trackingConsumeCallbackURL h i)"
    using leads_toI[OF resolve_tracking[OF assms(2) stages_safe(6) g], of x h] RegConsume
    by (simp add: trackingConsumeCallbackURL_def)
  then show ?thesis using assms(3) RegConsume by simp
next
  case (RegObservation c)
  then obtain d where "rg_observationCancellations r i = Some d" "c = Some d" using assms(1) by auto
  then show ?thesis using assms(2,3) RegObservation leads_toI[OF resolve_single(6)[OF assms(2)], of r d x h]
    by (simp add: observationCancellationCallbackURL_def)
qed (use assms leads_toI[OF resolve_single(2)[OF assms(2)], of r _ x h] leads_toI[OF resolve_single(3), of r i _ x h]
      leads_toI[OF resolve_single(4), of r i _ x h] leads_toI[OF resolve_single(5), of r i _ x h]
     in \<open>simp_all add: url_defs\<close>)


lemma sample_plan:
  obtains p r where "run_state (buildRuntimePlan sample_js sample_names (Some sample_context) sample_host)
      (newRuntimeCallbackRegistry counter_entropy) = (Planned p, r)"
  using plan_built[OF sample_plannable sample_registry_open] by (metis sample_registry_def prod.collapse)

lemma sample_registrations: "plan_registrations sample_js sample_context = [RegPlugin 7, RegSink 9]"
  by (simp add: plan_registrations_def context_regs_def sample_context_def default_context_def
      all_scenarios_def given_def part_regs_def sink_of_def)


section \<open>A concrete program\<close>

definition sample_program :: "unit program" where
  "sample_program =
     \<lparr>env_parse_time = (\<lambda>_. Some 1), env_settings_error = (\<lambda>_. ''not JSON''),
      dec_scenario = (\<lambda>_. Inl ''EOF''), dec_plugin = (\<lambda>_. Inl ''EOF''), dec_sink = (\<lambda>_. Inl ''EOF''),
      dec_policy = (\<lambda>_. Inl ''EOF''), dec_threshold = (\<lambda>_. Inl ''EOF''), dec_publish = (\<lambda>_. Inl ''EOF''),
      dec_produce = (\<lambda>_. Inl ''EOF''), dec_single = (\<lambda>_. True), prog_conv = (\<lambda>_. 0),
      prog_sprintf = (\<lambda>f _. f),
      prog_machine = \<lparr>mach_Hostname = None, mach_NumCPU = 1, mach_GOOS = ''linux'', mach_GOARCH = ''amd64''\<rparr>,
      prog_now = (\<lambda>_. 1), prog_metric = (\<lambda>_ _. OtherMetric ''m'' ''u''), prog_cancelled = (\<lambda>_ _. False),
      prog_predicate = (\<lambda>_ _ w. (Inr True, w)), prog_publish = (\<lambda>_ _ _ w. (None, w)),
      prog_produce = (\<lambda>_ _ w. (Inl ''none'', w)), prog_poll = (\<lambda>_ w. (([], True, None), w)),
      prog_plugin = (\<lambda>_ _ w. (None, w)), prog_plugin_data = (\<lambda>_ _ w. (Inr AnyNil, w)),
      prog_sink = (\<lambda>_ _ w. (None, w)), prog_sink_dispose = (\<lambda>_ w. w), prog_batch_sink = (\<lambda>_. False),
      prog_policy_should = (\<lambda>_ _ w. (Inr True, w)), prog_policy = (\<lambda>_ _ w. (None, w)),
      prog_hook = (\<lambda>_ c w. (\<lparr>ho_actions = [RegisterMetric 4, HookLog Information ''ready'' []],
        ho_error = None, ho_data = hc_ScenarioInstanceData c\<rparr>, w)),
      prog_step = (\<lambda>_ c w. (\<lparr>so_actions = [], so_reply = zero_reply,
        so_data = sr_ScenarioInstanceData c\<rparr>, w))\<rparr>"

definition sample_hook_request :: runtimeHTTPScenarioHookRequest where
  "sample_hook_request =
     \<lparr>hook_RunIdentity = ''run'', hook_NodeIdentity = ''node'', hook_PartitionNumber = Some 0,
      hook_ScenarioName = ''checkout'', hook_ScenarioInstanceID = ''checkout-1'', hook_TestSuite = [],
      hook_TestName = [], hook_InvocationNumber = 1, hook_ScenarioStartedUTC = [], hook_AgentIndex = 0,
      hook_AgentCount = 1,
      hook_TestInfo = Some \<lparr>hti_TestSuite = [], hti_TestName = [], hti_SessionID = [], hti_ClusterID = [],
        hti_CreatedUTC = []\<rparr>,
      hook_NodeInfo = Some \<lparr>hni_NodeType = NodeTypeSingleNode, hni_MachineName = [],
        hni_CurrentOperation = [], hni_CurrentOperationType = 0, hni_CoresCount = 1, hni_DotNetVersion = [],
        hni_EngineVersion = [], hni_OS = [], hni_Processor = []\<rparr>,
      hook_ScenarioInfo = Some \<lparr>hsi_InstanceID = ''checkout-1'', hsi_InstanceNumber = 1,
        hsi_ScenarioDurationNanoseconds = 0, hsi_ScenarioName = ''checkout'', hsi_ScenarioOperation = 1\<rparr>,
      hook_Partition = Some \<lparr>hsp_Number = 0, hsp_Count = 1\<rparr>,
      hook_CustomSettings = [], hook_GlobalCustomSettings = []\<rparr>"

definition sample_registration :: runtimeScenarioRegistration where
  "sample_registration = \<lparr>reg_ScenarioName = ''checkout'', reg_Run = Some (Plain 1), reg_Init = Some (Plain 2),
     reg_Clean = Some (Plain 3), reg_State = 0\<rparr>"

definition sample_http_host :: "unit host" where
  "sample_http_host = \<lparr>host_registry = sample_registry, host_metrics = (\<lambda>_. [9]), host_world = ()\<rparr>"

lemma sample_key: "scenarioInstanceKeyForRegistration ''checkout'' sample_hook_request =
    Inr \<lparr>RunIdentity = ''run'', NodeIdentity = ''node'', PartitionNumber = 0, ScenarioName = ''checkout'',
         ScenarioInstanceID = ''checkout-1''\<rparr>"
  by (simp add: scenarioInstanceKeyForRegistration_def scenarioInstanceKey_def sample_hook_request_def
      scenario_info_objection_def partition_objection_def graphic_def byte_in_def)

lemma sample_metadata: "\<exists>meta. callbackMetadata (request_env.truncate sample_program) sample_hook_request = Inr meta"
  by (simp add: callbackMetadata_def sample_hook_request_def snapshot_settings_def
      cloneKnownJSONCompatibleSettings_def sample_program_def request_env.truncate_def)

lemma sample_bridge: "rg_bridges sample_registry 0 = newRuntimeScenarioBridgeState"
  by (simp add: sample_registry_def newRuntimeCallbackRegistry_def)

lemma sample_input: "instance_input \<lparr>RunIdentity = ''run'', NodeIdentity = ''node'',
      PartitionNumber = 0, ScenarioName = ''checkout'', ScenarioInstanceID = ''checkout-1''\<rparr>
    newRuntimeScenarioBridgeState = Some Map.empty"
  by (simp add: instance_input_def admitInstance_def admit_enter_def admit_confirm_def
      newRuntimeScenarioBridgeState_def)

lemma sample_hook_succeeds:
  obtains resp H where "runtimeInvokeScenarioHook sample_program sample_registration sample_hook_request
    (Some (Plain 3)) completing sample_http_host = (Inr resp, H)"
proof -
  obtain meta where meta: "callbackMetadata (request_env.truncate sample_program) sample_hook_request = Inr meta"
    using sample_metadata by blast
  have "\<exists>d ms w. invoke_hook sample_program (Some (Plain 3)) meta Map.empty () =
      (None, d, \<lparr>buf_logs = [\<lparr>log_Level = ''Information'', log_Message = ''ready''\<rparr>],
        buf_aggregateBytes = 16, buf_err = None\<rparr>, ms, w)"
    by (simp add: invoke_hook_def sample_program_def logger_log_def log_append_def log_result_def
        newRuntimeCallbackLogBuffer_def byte_in_def runtimeCallbackMaximumLogBytes_def
        runtimeCallbackMaximumLogCount_def Let_def)
  then show ?thesis
    using that
    by (auto simp: runtimeInvokeScenarioHook_def sample_registration_def sample_key meta sample_bridge
        sample_input log_result_def Let_def sample_http_host_def split: prod.splits)
qed

section \<open>An instance that was cleaned, over HTTP\<close>

lemma withInstance_input:
  "instance_input key b = None \<longleftrightarrow> bridge_closed b \<or> key \<in> completed b"
  by (auto simp: instance_input_def admitInstance_def admit_enter_def admit_confirm_def
      split: option.splits)

lemma cleaned_completed:
  assumes "instance_input key b = Some d" and "fst (invoke d) = None"
  shows "key \<in> completed (snd (cleanInstance key invoke b))"
  using assms
  by (auto simp: instance_input_def cleanInstance_def admitInstance_def admit_enter_def admit_confirm_def
      clean_commit_def call_done_def set_data_def split: option.splits if_splits prod.splits sum.splits)



section \<open>The metrics of a scenario\<close>

definition metrics_registered :: "hook_action list \<Rightarrow> go_ref list" where
  "metrics_registered acts = concat (map (\<lambda>a. case a of RegisterMetric m \<Rightarrow> [m] | _ \<Rightarrow> []) acts)"

lemma fold_hook_metrics:
  "fst (fold (hook_act sprintf) acts (ms, b)) = ms @ metrics_registered acts"
proof (induction acts arbitrary: ms b)
  case (Cons a acts)
  then show ?case by (cases a) (simp_all add: metrics_registered_def)
qed (simp add: metrics_registered_def)

text \<open>
  C38: The metrics of a scenario are those of its last hook: a hook that succeeds, of any instance,
  replaces what earlier hooks registered by what it registered itself. A clean hook that registers
  none, or the init hook of a second instance, takes the metrics of the first away.
\<close>

theorem last_hook_keeps_metrics:
  assumes "runtimeInvokeScenarioHook P g req (Some f) completing H = (Inr resp, H1)"
  shows "\<exists>ctx out. prog_hook P f ctx (host_world H) = (out, host_world H1) \<and>
    host_metrics H1 (reg_State g) = metrics_registered (ho_actions out)"
proof -
  obtain key meta where key: "scenarioInstanceKeyForRegistration (reg_ScenarioName g) req = Inr key"
    and meta: "callbackMetadata (request_env.truncate P) req = Inr meta"
    using assms by (auto simp: runtimeInvokeScenarioHook_def split: sum.splits)
  obtain d logs ms w d' where inv: "invoke_hook P (Some f) meta d (host_world H) = (None, d', logs, ms, w)"
    and H1: "host_metrics H1 (reg_State g) = ms" "host_world H1 = w"
    using assms key meta
    by (auto simp: runtimeInvokeScenarioHook_def Let_def set_bridge_def replaceMetrics_def
        split: option.splits prod.splits sum.splits if_splits)
  from inv obtain ctx out b where "prog_hook P f ctx (host_world H) = (out, w)"
    "fold (hook_act (prog_sprintf P)) (ho_actions out) ([], newRuntimeCallbackLogBuffer) = (ms, b)"
    by (auto simp: invoke_hook_def split: option.splits prod.splits sum.splits)
  with H1 fold_hook_metrics[of "prog_sprintf P" "ho_actions out" "[]" newRuntimeCallbackLogBuffer]
  show ?thesis by auto
qed

theorem last_hook_keeps_metrics_witness:
  "\<exists>resp H1 ctx out. runtimeInvokeScenarioHook sample_program sample_registration sample_hook_request
       (Some (Plain 3)) False sample_http_host = (Inr resp, H1) \<and>
     prog_hook sample_program (Plain 3) ctx () = (out, ()) \<and> host_metrics H1 0 = metrics_registered (ho_actions out)"
proof (rule sample_hook_succeeds[of False])
  fix resp H
  assume run: "runtimeInvokeScenarioHook sample_program sample_registration sample_hook_request (Some (Plain 3)) False
    sample_http_host = (Inr resp, H)"
  from last_hook_keeps_metrics[OF run] run show ?thesis
    by (simp add: sample_registration_def)
qed

end
