(* ===== verification/Spec2Isabelle.thy ===== *)
theory Spec2Isabelle
  imports Autopilot Tracking_Selectors Accessibility Public_Scenario Run_Outcome Consume_Session Plan_Served
begin

text \<open>
  A verification of the LoadStrike SDK for Go (\<open>src/\<close>).

  The SDK describes load tests: a program builds scenarios (steps, load simulations, thresholds,
  tracking), collects them in a runner, configures the run with a fluent context, a JSON file and
  command line arguments, and runs it. The engine itself is a separate signed executable, which the
  SDK downloads, verifies and starts; the engine calls back into the program over a local HTTP host,
  through opaque identifiers under which the SDK registered the program's functions.

  Theories and the code they model:

  \<^item> \<open>Go_Prelude\<close>: the string functions of Go's library the SDK uses (on ASCII text), operations that
    may fail (\<open>res\<close>) or panic part of the way (\<open>act\<close>), lists without repetition.
  \<^item> \<open>Float64\<close>, \<open>Go_Values\<close>: \<open>float64\<close> arithmetic and dynamic values (\<open>any\<close>) with type switches;
    functions, interfaces and pointers the SDK only stores are references.
  \<^item> \<open>Redaction\<close> (\<open>runtime_launcher.go\<close>): the output of the engine process is copied to the program
    with every occurrence of the runner key replaced. Readers deliver arbitrary chunks and errors,
    writers take part of what they are given. The lemmas show that the result is the redaction of the
    whole input, whatever the chunks, and that the key does not survive.
  \<^item> \<open>Base64\<close>, \<open>Manifest\<close> (\<open>runtime_manifest_v2.go\<close>): the claims about the engine executable, their
    validation, the canonical signed payload and the verification of the signatures. Ed25519 and
    SHA-256 are parameters; machine integers are words of their width.
  \<^item> \<open>Json_Text\<close>, \<open>Manifest_Descriptor\<close> (\<open>runtime_strict_json.go\<close>, \<open>runtime_manifest_v2.go\<close>): JSON text
    as the library reads and writes it, and the strict reader of descriptors and of the publisher's
    keyring. The lemmas show that what is accepted is the canonical text of what was decoded, and
    that this text is read back.
  \<^item> \<open>Instance_Bridge\<close>, \<open>Consume_Session\<close>, \<open>Callback_Registry\<close> (\<open>runtime_callback_registry.go\<close>): the
    state that callbacks of the engine share. The first two are step relations in which any number of
    threads interleave between the lock operations of the code; their invariants are proved by rule
    induction. The registry is a record of tables; the locale \<open>callback_table\<close> states what one table
    promises and is interpreted once for each.
  \<^item> \<open>Runtime_Settings\<close> (\<open>runtime_settings.go\<close>): the walk over user settings, on a heap with cycles, and
    their snapshots.
  \<^item> \<open>Transports\<close>, \<open>Scenario\<close> (\<open>transports.go\<close>, \<open>scenario.go\<close>, \<open>simulations.go\<close>, \<open>thresholds.go\<close>,
    \<open>step.go\<close>, \<open>traffic_mix.go\<close>): the data a test is made of and its builders.
  \<^item> \<open>Context\<close>, \<open>Runner\<close> (\<open>context.go\<close>, \<open>runner.go\<close>): the fluent configuration of a run. One lemma for
    each operation shows that it keeps the context valid, also where it panics.
  \<^item> \<open>Runtime_Config\<close> (\<open>config.go\<close>): the JSON configuration file, from the syntax tree of the document
    to the changed context, and the arguments of a run.
  \<^item> \<open>Host_Urls\<close>, \<open>Runtime_Plan\<close>, \<open>Plan_Registrations\<close> (\<open>runtime_plan.go\<close>): the URLs of callbacks and the
    plan of a run, in which every function of the program is registered and replaced by the URL of its
    callback. The planner is a state monad over the registry. The lemmas compare what it registers
    with a list written down from the context alone.
  \<^item> \<open>Callback_Context\<close>, \<open>Host_Requests\<close>, \<open>Host_Replies\<close>, \<open>Diagnostics\<close>: what a callback gives the functions
    of the program (log, requests to stop, metrics), the identity a request must have, the replies
    that go back and the cleaning of error texts.
  \<^item> \<open>Http_Host\<close>, \<open>Plan_Served\<close> (\<open>runtime_http_host.go\<close>): every handler of the callback host, with the
    JSON decoder and the functions of the program as a record of parameters. The lemmas show that the
    host runs nothing but what was registered, that every URL of a plan is served by the function it
    was made for, and that a cleaned instance stays cleaned.

  \<^item> \<open>Go_Paths\<close>, \<open>Transport_Policy\<close> (\<open>runtime_transport_security.go\<close>): clean paths, and the URLs the SDK
    is willing to ask. \<open>url.Parse\<close> and \<open>URL.String\<close> are parameters.
  \<^item> \<open>Unix_Files\<close>: the system underneath. A program with effects is a function on a world (file system,
    open files, requests sent), and before every system call other processes may change the files and
    the call may fail. The locales \<open>io_preorder\<close>, \<open>effect\<close> and \<open>silent\<close> say once what a whole program keeps
    when its calls keep it.
  \<^item> \<open>Runtime_Cache\<close>, \<open>Artifact_Resolver\<close> (\<open>runtime_cache_security.go\<close> with its Unix part,
    \<open>runtime_download.go\<close>): private directories, files opened without following links and checked before
    and after, the manifest from the cache or the service, the download, the installation and the private
    copy that is executed. The lemmas show what is executed, that every file is closed, and where
    requests go, for every failure and every interference.
  \<^item> \<open>Installed_Runtime\<close>, \<open>Started_Runtime\<close>: the same code on a system where nothing fails: one equation for
    each call, and so an installed engine is started without the network.

  \<^item> \<open>Stat_Values\<close>, \<open>Scenario_Stats\<close>, \<open>Float_Rounding\<close>, \<open>Run_Results\<close>, \<open>Result_Json\<close> (\<open>results.go\<close>,
    \<open>public_detailed_results.go\<close>, \<open>public_realtime_stats.go\<close>, \<open>public_wrapper_models.go\<close>,
    \<open>public_info_models.go\<close>): what a run measured, in its native and its two public forms, its normal form
    and its JSON form. The locale \<open>wrapper\<close> states that a public type survives the way to the native one
    and back; it is interpreted for every public type. Lookups by name that write into what they find
    return the changed value.
  \<^item> \<open>Runtime_Command\<close>, \<open>Runtime_Launch\<close> (\<open>runtime_launcher.go\<close>, \<open>runtime_host_server.go\<close>, \<open>Run\<close> of
    \<open>context.go\<close> and \<open>runner.go\<close>): the engine as a child process with two spool files, and the run from its
    checks to its result, with everything that is deferred. The state of a run has the world of files and
    requests, the registry, the two servers, the commands that were run and what reached the terminal.
    The locale \<open>run_effect\<close> says once what a run keeps when its calls keep it.
  \<^item> \<open>Run_Outcome\<close>: properties of a whole run: which command it starts, where its requests go, what it
    leaves open and what reaches the terminal.
  \<^item> \<open>Autopilot\<close> (\<open>autopilot.go\<close>, \<open>autopilot_contracts.go\<close>): a test generated by the engine from a recording,
    with the same guarantees as a run, and the scenario that is built from its result.

  \<^item> \<open>Tracking_Selectors\<close> (\<open>tracking_contract_support.go\<close>, \<open>public_correlation_helpers.go\<close>): selectors of
    tracking identifiers, compared with the meaning of a path of members and elements.
  \<^item> \<open>Accessibility\<close> (\<open>accessibility.go\<close>): the scan of a page, baselines, gates and limits, and the scenarios
    that check a page; the lemmas say when a gate passes and what the reply of a check is.
  \<^item> \<open>Public_Handles\<close>, \<open>Public_Scenario\<close> (\<open>public_context_runner_wrappers.go\<close>, \<open>parity_helpers.go\<close>,
    \<open>dotnet_parity_api.go\<close>): the public side. Contexts and runners are handles into a store of objects, so
    that copies of a handle share their object and \<open>Configure\<close> gives away a handle into the runner; every
    object is shown to be what its own calls make of it. Scenarios, replies and simulations are values.

  Loops that the code runs over finite data are structural recursion or have a measure; the depth of
  settings is bounded by the code itself (128). Only the JSON reader has fuel, the length of its text
  and one more, and \<open>json_document_fuel\<close> shows that more never changes the result. Copying from a file ends
  because every chunk lowers the limit of the reader; links are followed as often as Linux (40) and
  \<open>EvalSymlinks\<close> (255) follow them.

  Not modelled: the listener and the server of \<open>net/http\<close>, which redirects a path that is not clean
  and recovers a panic of the program's functions; the gRPC transport and the generated protocol
  buffers; the cache on Windows; what a crash of the machine leaves on the disk; the aggregation of
  measurements, which the engine does; the accessor methods of the public results and the JSON text of
  the realtime forms; the clearing of byte buffers that held a key; loggers, random numbers and
  cancellation tokens; the interfaces of plugins and policies, which the program implements; and a scenario
  type for compatibility that nothing makes. Text is ASCII: folding of other letters
  is not modelled.
\<close>

end
